(* ===== verification/Prelude.thy ===== *)
theory Prelude
  imports Main "HOL-Library.Sublist"
begin

text \<open>
  Shared vocabulary of the development: results with a typed error, sequences of checks that
  stop at the first error (the question-mark operator of Rust), bounded machine integers, and
  the contracts that several state machines of the program share, stated as locales:

  \<^item> \<open>invariant_machine\<close>: a fallible step keeps an invariant;
  \<^item> \<open>append_only_machine\<close>: a fallible step only ever extends a log;
  \<^item> \<open>frozen_machine\<close>: once a condition holds, an observation never changes again;
  \<^item> \<open>monotone_machine\<close>: a counter never decreases.

  Each component interprets them on its own step function.
\<close>

named_theorems result_simps \<open>equations of the result combinators\<close>
named_theorems result_dests \<open>what a successful result says about its parts\<close>

section \<open>Results and checks\<close>

text \<open>
  \<open>Inl e\<close> is \<open>Err(e)\<close>, \<open>Inr x\<close> is \<open>Ok(x)\<close>.  \<open>checks\<close> runs a list of unit checks and returns
  the first error; the checks are pure, so evaluating a later one changes nothing.
\<close>

definition ensure :: "bool \<Rightarrow> 'e \<Rightarrow> 'e + unit" where
  "ensure b e = (if b then Inr () else Inl e)"

fun and_then :: "'e + 'a \<Rightarrow> ('a \<Rightarrow> 'e + 'b) \<Rightarrow> 'e + 'b" where
  "and_then (Inl e) f = Inl e"
| "and_then (Inr a) f = f a"

fun checks :: "('e + unit) list \<Rightarrow> 'e + unit" where
  "checks [] = Inr ()"
| "checks (c # cs) = (case c of Inl e \<Rightarrow> Inl e | Inr _ \<Rightarrow> checks cs)"

definition ok_or :: "'a option \<Rightarrow> 'e \<Rightarrow> 'e + 'a" where
  "ok_or x e = (case x of None \<Rightarrow> Inl e | Some a \<Rightarrow> Inr a)"

fun map_err :: "('e \<Rightarrow> 'f) \<Rightarrow> 'e + 'a \<Rightarrow> 'f + 'a" where
  "map_err f (Inl e) = Inl (f e)"
| "map_err f (Inr a) = Inr a"

fun is_ok :: "'e + 'a \<Rightarrow> bool" where
  "is_ok (Inl _) = False"
| "is_ok (Inr _) = True"

section \<open>Bounded integers\<close>

text \<open>
  \<open>u64\<close> and \<open>usize\<close> values are naturals below \<open>2 ^ 64\<close> (the targets are 64-bit).  The source uses
  \<open>checked_add\<close> wherever the bound could be reached; that is what is written out here.
\<close>

definition u64_max :: nat where
  "u64_max = 2 ^ 64 - 1"

definition checked_add_u64 :: "nat \<Rightarrow> nat \<Rightarrow> nat option" where
  "checked_add_u64 a b = (if a + b \<le> u64_max then Some (a + b) else None)"

definition checked_sub_u64 :: "nat \<Rightarrow> nat \<Rightarrow> nat option" where
  "checked_sub_u64 a b = (if b \<le> a then Some (a - b) else None)"

definition saturating_add_u64 :: "nat \<Rightarrow> nat \<Rightarrow> nat" where
  "saturating_add_u64 a b = min (a + b) u64_max"

section \<open>State machines with fallible steps\<close>

text \<open>
  A server applies a request if it succeeds and keeps its state if it fails.  \<open>serve\<close> is the state
  after a whole sequence of requests, in order.
\<close>

definition attempt :: "('s \<Rightarrow> 'op \<Rightarrow> 'e + 's) \<Rightarrow> 's \<Rightarrow> 'op \<Rightarrow> 's" where
  "attempt step s op = (case step s op of Inl _ \<Rightarrow> s | Inr s' \<Rightarrow> s')"

primrec serve :: "('s \<Rightarrow> 'op \<Rightarrow> 'e + 's) \<Rightarrow> 's \<Rightarrow> 'op list \<Rightarrow> 's" where
  "serve step s [] = s"
| "serve step s (op # ops) = serve step (attempt step s op) ops"

section \<open>Lemmas on results\<close>

lemma ensure_Inr [simp]: "(ensure b e = Inr u) = b"
  by (simp add: ensure_def)

lemma ensure_Inl [simp]: "(ensure b e = Inl e') = (\<not> b \<and> e' = e)"
  by (auto simp: ensure_def)

lemma ensure_True [simp, result_simps]: "ensure True e = Inr ()"
  by (simp add: ensure_def)

lemma ensure_False [simp, result_simps]: "ensure False e = Inl e"
  by (simp add: ensure_def)

lemma and_then_Inr [simp]: "(and_then r f = Inr b) = (\<exists>a. r = Inr a \<and> f a = Inr b)"
  by (cases r) auto

lemma and_then_Inl: "(and_then r f = Inl e) = (r = Inl e \<or> (\<exists>a. r = Inr a \<and> f a = Inl e))"
  by (cases r) auto

lemma and_then_assoc: "and_then (and_then r f) g = and_then r (\<lambda>a. and_then (f a) g)"
  by (cases r) auto

lemma checks_Inr [simp]: "(checks cs = Inr u) = list_all (\<lambda>c. c = Inr ()) cs"
  by (induction cs) (auto split: sum.splits)

declare checks.simps(2) [simp del]

lemma checks_append: "checks (cs @ ds) = and_then (checks cs) (\<lambda>_. checks ds)"
  by (induction cs) (auto simp: checks.simps split: sum.splits)

lemma ok_or_Inr [simp]: "(ok_or x e = Inr a) = (x = Some a)"
  by (simp add: ok_or_def split: option.splits)

lemma ok_or_simps [simp, result_simps]: "ok_or None e = Inl e" "ok_or (Some a) e = Inr a"
  by (simp_all add: ok_or_def)

lemma map_err_Inr [simp]: "(map_err f r = Inr a) = (r = Inr a)"
  by (cases r) auto

lemma is_ok_iff: "is_ok r \<longleftrightarrow> (\<exists>a. r = Inr a)"
  by (cases r) auto

lemma sum_unit_cases [case_names Err Ok]:
  assumes "\<And>e. r = Inl e \<Longrightarrow> P" and "r = Inr () \<Longrightarrow> P"
  shows P
  using assms by (cases r) auto

lemma checked_add_Some [simp]:
  "(checked_add_u64 a b = Some c) = (c = a + b \<and> a + b \<le> u64_max)"
  by (auto simp: checked_add_u64_def)

lemma checked_sub_Some [simp]: "(checked_sub_u64 a b = Some c) = (b \<le> a \<and> c = a - b)"
  by (auto simp: checked_sub_u64_def)

section \<open>Lemmas on serving a request sequence\<close>

lemma serve_append: "serve step s (xs @ ys) = serve step (serve step s xs) ys"
  by (induction xs arbitrary: s) simp_all

lemma attempt_Inr [simp]: "step s op = Inr s' \<Longrightarrow> attempt step s op = s'"
  by (simp add: attempt_def)

lemma attempt_Inl [simp]: "step s op = Inl e \<Longrightarrow> attempt step s op = s"
  by (simp add: attempt_def)

lemma attempt_cases:
  obtains (same) "attempt step s op = s"
  | (stepped) s' where "step s op = Inr s'" "attempt step s op = s'"
  by (cases "step s op") auto

section \<open>Contracts of fallible machines\<close>

locale invariant_machine =
  fixes step :: "'s \<Rightarrow> 'op \<Rightarrow> 'e + 's"
    and inv :: "'s \<Rightarrow> bool"
  assumes step_inv: "inv s \<Longrightarrow> step s op = Inr s' \<Longrightarrow> inv s'"
begin

lemma attempt_inv: "inv s \<Longrightarrow> inv (attempt step s op)"
  by (cases rule: attempt_cases [of step s op]) (auto dest: step_inv)

lemma serve_inv: "inv s \<Longrightarrow> inv (serve step s ops)"
  by (induction ops arbitrary: s) (simp_all add: attempt_inv)

end

locale append_only_machine =
  fixes step :: "'s \<Rightarrow> 'op \<Rightarrow> 'e + 's"
    and log :: "'s \<Rightarrow> 'x list"
  assumes step_extends: "step s op = Inr s' \<Longrightarrow> prefix (log s) (log s')"
begin

lemma attempt_extends: "prefix (log s) (log (attempt step s op))"
  by (cases rule: attempt_cases [of step s op]) (auto dest: step_extends)

lemma serve_extends: "prefix (log s) (log (serve step s ops))"
proof (induction ops arbitrary: s)
  case (Cons op ops)
  have "prefix (log s) (log (attempt step s op))" by (rule attempt_extends)
  also have "prefix \<dots> (log (serve step (attempt step s op) ops))" by (rule Cons.IH)
  finally show ?case by simp
qed simp

lemma serve_nth: "i < length (log s) \<Longrightarrow> log (serve step s ops) ! i = log s ! i"
  using serve_extends [of s ops] by (auto simp: prefix_def nth_append)

end

locale frozen_machine = invariant_machine step inv
  for step :: "'s \<Rightarrow> 'op \<Rightarrow> 'e + 's" and inv :: "'s \<Rightarrow> bool" +
  fixes obs :: "'s \<Rightarrow> 'o"
  assumes step_frozen: "inv s \<Longrightarrow> step s op = Inr s' \<Longrightarrow> obs s' = obs s"
begin

lemma attempt_frozen: "inv s \<Longrightarrow> obs (attempt step s op) = obs s"
  by (cases rule: attempt_cases [of step s op]) (auto dest: step_frozen)

lemma serve_frozen: "inv s \<Longrightarrow> obs (serve step s ops) = obs s"
proof (induction ops arbitrary: s)
  case (Cons op ops)
  then have "obs (serve step (attempt step s op) ops) = obs (attempt step s op)"
    by (simp add: attempt_inv)
  with Cons.prems show ?case by (simp add: attempt_frozen)
qed simp

end

locale monotone_machine =
  fixes step :: "'s \<Rightarrow> 'op \<Rightarrow> 'e + 's"
    and measure_of :: "'s \<Rightarrow> nat"
  assumes step_mono: "step s op = Inr s' \<Longrightarrow> measure_of s \<le> measure_of s'"
begin

lemma attempt_mono: "measure_of s \<le> measure_of (attempt step s op)"
  by (cases rule: attempt_cases [of step s op]) (auto dest: step_mono)

lemma serve_mono: "measure_of s \<le> measure_of (serve step s ops)"
  by (induction ops arbitrary: s) (auto intro: order_trans attempt_mono)

end

end
