(* ===== verification/Rust_Text.thy ===== *)
theory Rust_Text
  imports Prelude "HOL-Library.List_Lexorder"
begin

text \<open>
  Rust strings.  A \<open>String\<close> is a sequence of Unicode scalar values; \<open>len()\<close> and \<open>bytes()\<close> see its
  UTF-8 encoding, \<open>chars()\<close>, \<open>trim()\<close> and \<open>lines()\<close> see the scalar values.  Both views are
  written out, so byte limits and character classes are the source's own.  \<open>Ord\<close> on strings is
  lexicographic, which is the order of \<open>List_Lexorder\<close> on scalar values (UTF-8 keeps it).
\<close>

type_synonym rstr = "nat list"

definition lit :: "string \<Rightarrow> rstr" where
  "lit s = map of_char s"

section \<open>UTF-8\<close>

definition utf8_char :: "nat \<Rightarrow> nat list" where
  "utf8_char c =
     (if c < 128 then [c]
      else if c < 2048 then [192 + c div 64, 128 + c mod 64]
      else if c < 65536 then [224 + c div 4096, 128 + c div 64 mod 64, 128 + c mod 64]
      else [240 + c div 262144, 128 + c div 4096 mod 64, 128 + c div 64 mod 64, 128 + c mod 64])"

definition utf8 :: "rstr \<Rightarrow> nat list" where
  "utf8 s = concat (map utf8_char s)"

definition byte_len :: "rstr \<Rightarrow> nat" where
  "byte_len s = length (utf8 s)"

section \<open>Character classes\<close>

text \<open>\<open>char::is_whitespace\<close> is the Unicode White\_Space property, \<open>char::is_control\<close> the category Cc.\<close>

definition is_whitespace :: "nat \<Rightarrow> bool" where
  "is_whitespace c \<longleftrightarrow>
     (9 \<le> c \<and> c \<le> 13) \<or> c = 32 \<or> c = 133 \<or> c = 160 \<or> c = 5760 \<or> (8192 \<le> c \<and> c \<le> 8202) \<or>
     c = 8232 \<or> c = 8233 \<or> c = 8239 \<or> c = 8287 \<or> c = 12288"

definition is_control :: "nat \<Rightarrow> bool" where
  "is_control c \<longleftrightarrow> c < 32 \<or> (127 \<le> c \<and> c < 160)"

definition is_ascii_digit :: "nat \<Rightarrow> bool" where
  "is_ascii_digit b \<longleftrightarrow> 48 \<le> b \<and> b \<le> 57"

definition is_lower_hex_byte :: "nat \<Rightarrow> bool" where
  "is_lower_hex_byte b \<longleftrightarrow> is_ascii_digit b \<or> (97 \<le> b \<and> b \<le> 102)"

definition is_ascii_hexdigit :: "nat \<Rightarrow> bool" where
  "is_ascii_hexdigit b \<longleftrightarrow> is_lower_hex_byte b \<or> (65 \<le> b \<and> b \<le> 70)"

definition is_ascii_letter :: "nat \<Rightarrow> bool" where
  "is_ascii_letter c \<longleftrightarrow> (97 \<le> c \<and> c \<le> 122) \<or> (65 \<le> c \<and> c \<le> 90)"

section \<open>String operations\<close>

definition trim :: "rstr \<Rightarrow> rstr" where
  "trim s = rev (dropWhile is_whitespace (rev (dropWhile is_whitespace s)))"

definition strip_prefix :: "rstr \<Rightarrow> rstr \<Rightarrow> rstr option" where
  "strip_prefix p s = (if take (length p) s = p then Some (drop (length p) s) else None)"

text \<open>\<open>str::lines\<close>: split after each newline, drop the newline and one carriage return before it; no
  last empty line.\<close>

definition strip_cr :: "rstr \<Rightarrow> rstr" where
  "strip_cr l = (if l \<noteq> [] \<and> last l = 13 then butlast l else l)"

fun lines_aux :: "rstr \<Rightarrow> rstr \<Rightarrow> rstr list" where
  "lines_aux acc [] = (if acc = [] then [] else [rev acc])"
| "lines_aux acc (c # cs) =
     (if c = 10 then strip_cr (rev acc) # lines_aux [] cs else lines_aux (c # acc) cs)"

definition lines_of :: "rstr \<Rightarrow> rstr list" where
  "lines_of s = lines_aux [] s"

text \<open>Decimal rendering of an unsigned integer (\<open>Display\<close>).\<close>

fun dec :: "nat \<Rightarrow> rstr" where
  "dec n = (if n < 10 then [48 + n] else dec (n div 10) @ [48 + n mod 10])"

declare dec.simps [simp del]

section \<open>Unix paths\<close>

text \<open>\<open>Path\<close> compares by components: repeated separators and inner \<open>.\<close> segments do not count.\<close>

datatype path_component = RootDir | CurDir | ParentDir | NormalComponent rstr

fun split_slash :: "rstr \<Rightarrow> rstr \<Rightarrow> rstr list" where
  "split_slash acc [] = [rev acc]"
| "split_slash acc (c # cs) =
     (if c = 47 then rev acc # split_slash [] cs else split_slash (c # acc) cs)"

definition path_is_absolute :: "rstr \<Rightarrow> bool" where
  "path_is_absolute p \<longleftrightarrow> p \<noteq> [] \<and> hd p = 47"

definition component_of :: "rstr \<Rightarrow> path_component" where
  "component_of seg = (if seg = lit ''..'' then ParentDir else NormalComponent seg)"

definition path_components :: "rstr \<Rightarrow> path_component list" where
  "path_components p =
     (let segs = split_slash [] p in
      (if path_is_absolute p then [RootDir] else if hd segs = lit ''.'' then [CurDir] else []) @
      map component_of (filter (\<lambda>seg. seg \<noteq> [] \<and> seg \<noteq> lit ''.'') segs))"

definition path_join :: "rstr \<Rightarrow> rstr \<Rightarrow> rstr" where
  "path_join base rel =
     (if path_is_absolute rel then rel
      else if base = [] \<or> last base = 47 then base @ rel
      else base @ [47] @ rel)"

definition path_eq :: "rstr \<Rightarrow> rstr \<Rightarrow> bool" where
  "path_eq p q \<longleftrightarrow> path_components p = path_components q"

lemma split_slash_append:
  "split_slash acc (xs @ 47 # ys) = split_slash acc xs @ split_slash [] ys"
  by (induction acc xs rule: split_slash.induct) simp_all

lemma split_slash_nonempty [simp]: "split_slash acc xs \<noteq> []"
  by (induction acc xs rule: split_slash.induct) simp_all

lemma split_slash_segment: "47 \<notin> set xs \<Longrightarrow> split_slash acc xs = [rev acc @ xs]"
  by (induction acc xs rule: split_slash.induct) auto

definition plain_segment :: "rstr \<Rightarrow> bool" where
  "plain_segment seg \<longleftrightarrow> seg \<noteq> [] \<and> 47 \<notin> set seg \<and> seg \<noteq> lit ''.'' \<and> seg \<noteq> lit ''..''"

section \<open>The text rules of the source\<close>

text \<open>The one text rule the contract, the ledger and the memory contract all apply:
  nonblank, NUL-free, bounded in UTF-8 bytes.\<close>

definition text_ok :: "rstr \<Rightarrow> nat \<Rightarrow> bool" where
  "text_ok s max_bytes \<longleftrightarrow> trim s \<noteq> [] \<and> 0 \<notin> set s \<and> byte_len s \<le> max_bytes"

definition open_id_chars :: "rstr \<Rightarrow> bool" where
  "open_id_chars s \<longleftrightarrow> list_all (\<lambda>c. \<not> is_whitespace c \<and> \<not> is_control c) s"

definition lower_hex :: "rstr \<Rightarrow> bool" where
  "lower_hex s \<longleftrightarrow> list_all is_lower_hex_byte (utf8 s)"

definition commit_oid :: "rstr \<Rightarrow> bool" where
  "commit_oid s \<longleftrightarrow> (byte_len s = 40 \<or> byte_len s = 64) \<and> lower_hex s"

definition sha256_ref :: "rstr \<Rightarrow> bool" where
  "sha256_ref s \<longleftrightarrow>
     (case strip_prefix (lit ''sha256:'') s of
        None \<Rightarrow> False
      | Some hex \<Rightarrow> byte_len hex = 64 \<and> list_all is_ascii_hexdigit (utf8 hex))"

definition lower_sha256 :: "rstr \<Rightarrow> rstr \<Rightarrow> bool" where
  "lower_sha256 pre s \<longleftrightarrow>
     (case strip_prefix pre s of None \<Rightarrow> False | Some hex \<Rightarrow> byte_len hex = 64 \<and> lower_hex hex)"

section \<open>Lemmas\<close>

lemma lit_append [simp]: "lit (a @ b) = lit a @ lit b"
  by (simp add: lit_def)

lemma utf8_append [simp]: "utf8 (a @ b) = utf8 a @ utf8 b"
  by (simp add: utf8_def)

lemma utf8_Nil [simp]: "utf8 [] = []"
  by (simp add: utf8_def)

lemma byte_len_append [simp]: "byte_len (a @ b) = byte_len a + byte_len b"
  by (simp add: byte_len_def)

lemma byte_len_Nil [simp]: "byte_len [] = 0"
  by (simp add: byte_len_def)

lemma utf8_char_length: "1 \<le> length (utf8_char c)" "length (utf8_char c) \<le> 4"
  by (simp_all add: utf8_char_def)

lemma byte_len_bounds: "length s \<le> byte_len s" "byte_len s \<le> 4 * length s"
proof -
  have "length s \<le> byte_len s \<and> byte_len s \<le> 4 * length s"
  proof (induction s)
    case (Cons c s)
    have "byte_len (c # s) = length (utf8_char c) + byte_len s"
      by (simp add: byte_len_def utf8_def)
    with Cons utf8_char_length [of c] show ?case by simp
  qed simp
  then show "length s \<le> byte_len s" "byte_len s \<le> 4 * length s" by simp_all
qed

lemma byte_len_ascii: "list_all (\<lambda>c. c < 128) s \<Longrightarrow> byte_len s = length s"
proof (induction s)
  case (Cons c s)
  then show ?case by (simp add: byte_len_def utf8_def utf8_char_def)
qed simp

lemma dropWhile_not_blank: "(dropWhile P s \<noteq> []) = (\<exists>c \<in> set s. \<not> P c)"
  by auto

lemma trim_nonempty: "(trim s \<noteq> []) = (\<exists>c \<in> set s. \<not> is_whitespace c)"
proof -
  have "(\<exists>c \<in> set (dropWhile is_whitespace s). \<not> is_whitespace c) =
      (\<exists>c \<in> set s. \<not> is_whitespace c)"
    by (induction s) auto
  then show ?thesis by (simp add: trim_def)
qed

lemma text_ok_I:
  assumes "c \<in> set s" and "\<not> is_whitespace c" and "0 \<notin> set s" and "byte_len s \<le> n"
  shows "text_ok s n"
  using assms by (auto simp: text_ok_def trim_nonempty)

lemma text_ok_mono: "text_ok s n \<Longrightarrow> n \<le> m \<Longrightarrow> text_ok s m"
  by (simp add: text_ok_def)

text \<open>Text composed around a good head stays good as long as it is NUL-free and fits.\<close>

lemma text_ok_append:
  assumes "text_ok a n" and "0 \<notin> set b" and "n + byte_len b \<le> m"
  shows "text_ok (a @ b) m"
  using assms by (auto simp: text_ok_def trim_nonempty)

lemma dec_digits: "set (dec n) \<subseteq> {48..57}"
proof (induction n rule: dec.induct)
  case (1 n)
  show ?case
  proof (cases "n < 10")
    case True
    then show ?thesis by (subst dec.simps) auto
  next
    case False
    then have "n mod 10 < 10" by simp
    with False 1 show ?thesis by (subst dec.simps) auto
  qed
qed

lemma strip_prefix_append [simp]: "strip_prefix p (p @ s) = Some s"
  by (simp add: strip_prefix_def)

lemma strip_prefix_Some: "strip_prefix p s = Some r \<longleftrightarrow> s = p @ r"
  by (auto simp: strip_prefix_def) (metis append_take_drop_id)

lemma utf8_replicate_ascii: "c < 128 \<Longrightarrow> utf8 (replicate k c) = replicate k c"
  by (induction k) (simp_all add: utf8_def utf8_char_def)

lemma text_ok_replicate:
  assumes "c < 128" "\<not> is_whitespace c" "c \<noteq> 0" "0 < k"
  shows "text_ok (replicate k c) n \<longleftrightarrow> k \<le> n"
  using assms by (auto simp: text_ok_def trim_nonempty byte_len_def utf8_replicate_ascii)

lemma dec_value: "foldl (\<lambda>v c. 10 * v + (c - 48)) 0 (dec n) = n"
proof (induction n rule: dec.induct)
  case (1 n)
  show ?case
  proof (cases "n < 10")
    case True
    then show ?thesis by (simp add: dec.simps)
  next
    case False
    then have "dec n = dec (n div 10) @ [48 + n mod 10]" by (subst dec.simps) simp
    then show ?thesis using 1 False by simp
  qed
qed

end
