(* ===== verification/Ordered_Map.thy ===== *)
theory Ordered_Map
  imports Rust_Text
begin

text \<open>
  \<open>BTreeMap\<close> as the program uses it: an association list in strictly increasing key order.
  Lookup, insertion (which replaces the value of a present key) and in-order iteration are the
  operations; \<open>ordered_map\<close> is their contract, stated once and discharged for this model.
\<close>

type_synonym ('k, 'v) btree = "('k \<times> 'v) list"

definition bt_empty :: "('k, 'v) btree" where
  "bt_empty = []"

definition bt_get :: "('k, 'v) btree \<Rightarrow> 'k \<Rightarrow> 'v option" where
  "bt_get m k = map_of m k"

fun bt_insert :: "('k::linorder) \<Rightarrow> 'v \<Rightarrow> ('k, 'v) btree \<Rightarrow> ('k, 'v) btree" where
  "bt_insert k v [] = [(k, v)]"
| "bt_insert k v ((a, b) # m) =
     (if k < a then (k, v) # (a, b) # m
      else if k = a then (k, v) # m
      else (a, b) # bt_insert k v m)"

definition bt_remove :: "'k \<Rightarrow> ('k, 'v) btree \<Rightarrow> ('k, 'v) btree" where
  "bt_remove k m = filter (\<lambda>(a, _). a \<noteq> k) m"

definition bt_wf :: "('k::linorder, 'v) btree \<Rightarrow> bool" where
  "bt_wf m \<longleftrightarrow> sorted_wrt (<) (map fst m)"

definition bt_values :: "('k, 'v) btree \<Rightarrow> 'v list" where
  "bt_values m = map snd m"

definition bt_contains :: "('k, 'v) btree \<Rightarrow> 'k \<Rightarrow> bool" where
  "bt_contains m k \<longleftrightarrow> bt_get m k \<noteq> None"

section \<open>The contract of a map\<close>

locale ordered_map =
  fixes get :: "'m \<Rightarrow> 'k \<Rightarrow> 'v option"
    and put :: "'k \<Rightarrow> 'v \<Rightarrow> 'm \<Rightarrow> 'm"
    and entries :: "'m \<Rightarrow> ('k \<times> 'v) set"
    and wf :: "'m \<Rightarrow> bool"
  assumes get_put: "get (put k v m) k' = (if k' = k then Some v else get m k')"
    and wf_put: "wf m \<Longrightarrow> wf (put k v m)"
    and entries_get: "wf m \<Longrightarrow> (k, v) \<in> entries m \<longleftrightarrow> get m k = Some v"
begin

lemma get_put_same: "get (put k v m) k = Some v"
  by (simp add: get_put)

lemma get_put_other: "k' \<noteq> k \<Longrightarrow> get (put k v m) k' = get m k'"
  by (simp add: get_put)

lemma put_put_get: "get (put k v (put k w m)) = get (put k v m)"
  by (rule ext) (simp add: get_put)

lemma entries_put:
  "wf m \<Longrightarrow> entries (put k v m) = insert (k, v) {(a, b) \<in> entries m. a \<noteq> k}"
  by (auto simp: entries_get wf_put get_put split: if_splits)

lemma entries_put_D:
  "wf m \<Longrightarrow> (a, b) \<in> entries (put k v m) \<Longrightarrow> (a = k \<and> b = v) \<or> (a \<noteq> k \<and> (a, b) \<in> entries m)"
  by (auto simp: entries_put)

end

section \<open>The model keeps the contract\<close>

lemma bt_get_insert: "bt_get (bt_insert k v m) k' = (if k' = k then Some v else bt_get m k')"
  by (induction k v m rule: bt_insert.induct) (auto simp: bt_get_def)

lemma set_bt_insert_fst: "fst ` set (bt_insert k v m) = insert k (fst ` set m)"
  by (induction k v m rule: bt_insert.induct) auto

lemma bt_wf_insert: "bt_wf m \<Longrightarrow> bt_wf (bt_insert k v m)"
proof (induction k v m rule: bt_insert.induct)
  case (2 k v a b m)
  have keys: "\<And>x. x \<in> fst ` set (bt_insert k v m) \<Longrightarrow> x = k \<or> x \<in> fst ` set m"
    by (simp add: set_bt_insert_fst)
  from 2 show ?case
    by (auto simp: bt_wf_def) (use keys in fastforce)
qed (simp add: bt_wf_def)

lemma bt_wf_distinct: "bt_wf m \<Longrightarrow> distinct (map fst m)"
  by (simp add: bt_wf_def strict_sorted_iff)

lemma bt_wf_get: "bt_wf m \<Longrightarrow> (k, v) \<in> set m \<longleftrightarrow> bt_get m k = Some v"
  by (auto simp: bt_get_def dest: bt_wf_distinct map_of_SomeD)

lemma bt_wf_empty [simp]: "bt_wf bt_empty"
  by (simp add: bt_wf_def bt_empty_def)

lemma bt_get_empty [simp]: "bt_get bt_empty k = None"
  by (simp add: bt_get_def bt_empty_def)

interpretation btree: ordered_map bt_get bt_insert set bt_wf
  by unfold_locales (simp_all add: bt_get_insert bt_wf_insert bt_wf_get)

lemmas bt_simps = btree.get_put btree.wf_put bt_contains_def

lemma bt_values_get: "bt_wf m \<Longrightarrow> v \<in> set (bt_values m) \<longleftrightarrow> (\<exists>k. bt_get m k = Some v)"
  by (force simp: bt_values_def bt_wf_get [symmetric])

end
