(* ===== verification/Role_Assignment.thy ===== *)
theory Role_Assignment
  imports Ordered_Map
begin

text \<open>
  Product roles and runtime enforcement (\<open>impulse-ops/src/role_assignment.rs\<close>), with the world
  scope of \<open>impulse-ops/src/governed_task.rs\<close> they depend on: the role a governed launch
  carries, the enforcement a runtime declares, their comparison, and what a staged world adds.
\<close>

section \<open>Data\<close>

datatype world_scope_kind =
    ReadOnlySnapshot
  | DisposableScratch
  | StagedAuthoritative
  | Authoritative

definition requires_staged_worktree :: "world_scope_kind \<Rightarrow> bool" where
  "requires_staged_worktree s \<longleftrightarrow> s = StagedAuthoritative"

definition is_materializable :: "world_scope_kind \<Rightarrow> bool" where
  "is_materializable s \<longleftrightarrow> s = StagedAuthoritative \<or> s = Authoritative"

fun world_scope_str :: "world_scope_kind \<Rightarrow> rstr" where
  "world_scope_str ReadOnlySnapshot = lit ''read_only_snapshot''"
| "world_scope_str DisposableScratch = lit ''disposable_scratch''"
| "world_scope_str StagedAuthoritative = lit ''staged_authoritative''"
| "world_scope_str Authoritative = lit ''authoritative''"

datatype enforcement_strength = Unsupported | Advisory | Mediated | Structural

fun enforcement_rank :: "enforcement_strength \<Rightarrow> nat" where
  "enforcement_rank Unsupported = 0"
| "enforcement_rank Advisory = 1"
| "enforcement_rank Mediated = 2"
| "enforcement_rank Structural = 3"

lemma enforcement_rank_inj: "enforcement_rank a = enforcement_rank b \<longleftrightarrow> a = b"
  by (cases a; cases b) auto

instantiation enforcement_strength :: linorder
begin

definition less_eq_enforcement_strength :: "enforcement_strength \<Rightarrow> enforcement_strength \<Rightarrow> bool" where
  "less_eq_enforcement_strength a b \<longleftrightarrow> enforcement_rank a \<le> enforcement_rank b"

definition less_enforcement_strength :: "enforcement_strength \<Rightarrow> enforcement_strength \<Rightarrow> bool" where
  "less_enforcement_strength a b \<longleftrightarrow> enforcement_rank a < enforcement_rank b"

instance
  by standard
    (auto simp: less_eq_enforcement_strength_def less_enforcement_strength_def enforcement_rank_inj)

end

datatype role_error =
    InvalidAgentRoleId rstr
  | InvalidRuntimeCapabilityId rstr
  | DuplicateRuntimeCapability rstr

definition is_valid_open_id :: "rstr \<Rightarrow> bool" where
  "is_valid_open_id v \<longleftrightarrow> v \<noteq> [] \<and> open_id_chars v"

definition agent_role_id :: "rstr \<Rightarrow> role_error + rstr" where
  "agent_role_id v = (if is_valid_open_id v then Inr v else Inl (InvalidAgentRoleId v))"

definition runtime_capability_id :: "rstr \<Rightarrow> role_error + rstr" where
  "runtime_capability_id v = (if is_valid_open_id v then Inr v else Inl (InvalidRuntimeCapabilityId v))"

record capability_support =
  cs_capability :: rstr
  cs_enforcement :: enforcement_strength

record capability_requirement =
  rq_capability :: rstr
  rq_minimum_enforcement :: enforcement_strength
  rq_mandatory :: bool

record agent_role_assignment =
  ra_role :: rstr
  ra_requirements :: "capability_requirement list"

record capability_compatibility =
  cc_capability :: rstr
  cc_required :: enforcement_strength
  cc_available :: enforcement_strength
  cc_mandatory :: bool

record role_compat =
  rc_platform :: rstr
  rc_role :: rstr
  rc_checks :: "capability_compatibility list"

section \<open>Operations\<close>

definition canonical_governed_builder_assignment :: agent_role_assignment where
  "canonical_governed_builder_assignment =
     \<lparr>ra_role = lit ''builder'',
      ra_requirements =
        [\<lparr>rq_capability = lit ''workspace.target'', rq_minimum_enforcement = Mediated,
          rq_mandatory = True\<rparr>,
         \<lparr>rq_capability = lit ''process.lifecycle'', rq_minimum_enforcement = Mediated,
          rq_mandatory = True\<rparr>,
         \<lparr>rq_capability = lit ''filesystem.scoped'', rq_minimum_enforcement = Structural,
          rq_mandatory = False\<rparr>]\<rparr>"

definition FILESYSTEM_SCOPED_CAPABILITY :: rstr where
  "FILESYSTEM_SCOPED_CAPABILITY = lit ''filesystem.scoped''"

fun world_scope_filesystem_enforcement :: "world_scope_kind \<Rightarrow> enforcement_strength" where
  "world_scope_filesystem_enforcement StagedAuthoritative = Mediated"
| "world_scope_filesystem_enforcement ReadOnlySnapshot = Unsupported"
| "world_scope_filesystem_enforcement DisposableScratch = Unsupported"
| "world_scope_filesystem_enforcement Authoritative = Unsupported"

definition world_scope_capability_support :: "world_scope_kind \<Rightarrow> capability_support list" where
  "world_scope_capability_support scope =
     (let enforcement = world_scope_filesystem_enforcement scope in
      if enforcement = Unsupported then []
      else [\<lparr>cs_capability = FILESYSTEM_SCOPED_CAPABILITY, cs_enforcement = enforcement\<rparr>])"

definition is_satisfied :: "capability_compatibility \<Rightarrow> bool" where
  "is_satisfied c \<longleftrightarrow> cc_required c \<le> cc_available c"

definition launch_allowed :: "role_compat \<Rightarrow> bool" where
  "launch_allowed rc = list_all (\<lambda>c. \<not> cc_mandatory c \<or> is_satisfied c) (rc_checks rc)"

definition is_blocked :: "role_compat \<Rightarrow> bool" where
  "is_blocked rc \<longleftrightarrow> \<not> launch_allowed rc"

definition is_degraded :: "role_compat \<Rightarrow> bool" where
  "is_degraded rc \<longleftrightarrow> launch_allowed rc \<and> list_ex (\<lambda>c. \<not> is_satisfied c) (rc_checks rc)"

text \<open>The first support entry whose capability was declared before it.\<close>

fun first_duplicate :: "rstr list \<Rightarrow> capability_support list \<Rightarrow> rstr option" where
  "first_duplicate seen [] = None"
| "first_duplicate seen (s # ss) =
     (if cs_capability s \<in> set seen then Some (cs_capability s)
      else first_duplicate (seen @ [cs_capability s]) ss)"

definition declared_enforcement :: "capability_support list \<Rightarrow> rstr \<Rightarrow> enforcement_strength" where
  "declared_enforcement declared cap =
     fold max (map cs_enforcement (filter (\<lambda>s. cs_capability s = cap) declared)) Unsupported"

definition requirement_check ::
    "capability_support list \<Rightarrow> capability_requirement \<Rightarrow> capability_compatibility" where
  "requirement_check declared r =
     \<lparr>cc_capability = rq_capability r, cc_required = rq_minimum_enforcement r,
      cc_available = declared_enforcement declared (rq_capability r), cc_mandatory = rq_mandatory r\<rparr>"

definition evaluate_role_compatibility ::
    "rstr \<Rightarrow> capability_support list \<Rightarrow> agent_role_assignment \<Rightarrow> role_error + role_compat" where
  "evaluate_role_compatibility platform declared assignment =
     (case first_duplicate [] declared of
        Some cap \<Rightarrow> Inl (DuplicateRuntimeCapability cap)
      | None \<Rightarrow> Inr \<lparr>rc_platform = platform, rc_role = ra_role assignment,
                    rc_checks = map (requirement_check declared) (ra_requirements assignment)\<rparr>)"

fun merge_support :: "capability_support \<Rightarrow> capability_support list \<Rightarrow> capability_support list" where
  "merge_support s [] = [s]"
| "merge_support s (d # ds) =
     (if cs_capability d = cs_capability s
      then d\<lparr>cs_enforcement := max (cs_enforcement d) (cs_enforcement s)\<rparr> # ds
      else d # merge_support s ds)"

definition evaluate_role_compatibility_in_world ::
    "rstr \<Rightarrow> capability_support list \<Rightarrow> agent_role_assignment \<Rightarrow> world_scope_kind \<Rightarrow>
     role_error + role_compat" where
  "evaluate_role_compatibility_in_world platform declared assignment scope =
     (let scoped = world_scope_capability_support scope in
      if scoped = [] then evaluate_role_compatibility platform declared assignment
      else evaluate_role_compatibility platform (fold merge_support scoped declared) assignment)"

section \<open>Lemmas\<close>

lemma Unsupported_least [simp]: "Unsupported \<le> e"
  by (simp add: less_eq_enforcement_strength_def)

lemma le_Unsupported [simp]: "e \<le> Unsupported \<longleftrightarrow> e = Unsupported"
  by (cases e) (simp_all add: less_eq_enforcement_strength_def)

lemma fold_max_ge: "(e::enforcement_strength) \<le> fold max xs b \<longleftrightarrow> e \<le> b \<or> (\<exists>x \<in> set xs. e \<le> x)"
  by (induction xs arbitrary: b) (auto simp: le_max_iff_disj)

lemma declared_enforcement_ge:
  "e \<noteq> Unsupported \<Longrightarrow>
   e \<le> declared_enforcement declared cap \<longleftrightarrow>
     (\<exists>s \<in> set declared. cs_capability s = cap \<and> e \<le> cs_enforcement s)"
  by (auto simp: declared_enforcement_def fold_max_ge)

lemma first_duplicate_None:
  "first_duplicate seen ss = None \<longleftrightarrow>
     distinct (map cs_capability ss) \<and> set seen \<inter> set (map cs_capability ss) = {}"
  by (induction seen ss rule: first_duplicate.induct) auto

lemma evaluate_Inr:
  "evaluate_role_compatibility platform declared assignment = Inr rc \<longleftrightarrow>
     distinct (map cs_capability declared) \<and>
     rc = \<lparr>rc_platform = platform, rc_role = ra_role assignment,
           rc_checks = map (requirement_check declared) (ra_requirements assignment)\<rparr>"
  by (auto simp: evaluate_role_compatibility_def first_duplicate_None split: option.splits)
    (metis first_duplicate_None inf_bot_left list.set(1) not_None_eq)+

lemma set_merge_caps:
  "set (map cs_capability (merge_support s ds)) = insert (cs_capability s) (set (map cs_capability ds))"
  by (induction s ds rule: merge_support.induct) auto

lemma distinct_merge: "distinct (map cs_capability ds) \<Longrightarrow> distinct (map cs_capability (merge_support s ds))"
proof (induction s ds rule: merge_support.induct)
  case (2 s d ds)
  then show ?case using set_merge_caps [of s ds] by auto
qed simp

lemma distinct_merge_iff:
  "distinct (map cs_capability (merge_support s ds)) \<longleftrightarrow> distinct (map cs_capability ds)"
proof
  assume "distinct (map cs_capability (merge_support s ds))"
  then show "distinct (map cs_capability ds)"
  proof (induction s ds rule: merge_support.induct)
    case (2 s d ds)
    then show ?case using set_merge_caps [of s ds] by (auto split: if_splits)
  qed simp
qed (rule distinct_merge)

lemma fold_max_assoc: "fold max xs (max a b) = max (fold max xs a) (b::enforcement_strength)"
proof (induction xs arbitrary: a)
  case (Cons x xs)
  have "fold max xs (max x (max a b)) = fold max xs (max (max x a) b)" by (simp add: max.assoc)
  with Cons show ?case by simp
qed simp

lemma declared_enforcement_Cons:
  "declared_enforcement (d # ds) cap =
     (if cs_capability d = cap then max (cs_enforcement d) (declared_enforcement ds cap)
      else declared_enforcement ds cap)"
  using fold_max_assoc [of _ Unsupported "cs_enforcement d"]
  by (simp add: declared_enforcement_def max.commute)

lemma declared_merge:
  "declared_enforcement (merge_support s ds) cap =
     (if cap = cs_capability s then max (declared_enforcement ds cap) (cs_enforcement s)
      else declared_enforcement ds cap)"
  by (induction s ds rule: merge_support.induct)
    (auto simp: declared_enforcement_Cons max.assoc max.commute max.left_commute
      declared_enforcement_def [of "[]"])

lemma requirement_check_merge:
  "requirement_check (merge_support s ds) r =
     (if rq_capability r = cs_capability s
      then (requirement_check ds r)\<lparr>cc_available :=
             max (cc_available (requirement_check ds r)) (cs_enforcement s)\<rparr>
      else requirement_check ds r)"
  by (simp add: requirement_check_def declared_merge)

section \<open>Properties\<close>

text \<open>C26: A launch is allowed exactly when every mandatory requirement above \<open>Unsupported\<close> is met by
  some declared support of that capability at least as strong as the minimum; optional
  requirements never decide it.\<close>

theorem launch_allowed_exact:
  assumes "evaluate_role_compatibility platform declared assignment = Inr rc"
  shows "launch_allowed rc \<longleftrightarrow>
    (\<forall>r \<in> set (ra_requirements assignment).
       rq_mandatory r \<and> rq_minimum_enforcement r \<noteq> Unsupported \<longrightarrow>
       (\<exists>s \<in> set declared. cs_capability s = rq_capability r \<and>
          rq_minimum_enforcement r \<le> cs_enforcement s))"
proof -
  have "is_satisfied (requirement_check declared r) \<longleftrightarrow>
      rq_minimum_enforcement r = Unsupported \<or>
      (\<exists>s \<in> set declared. cs_capability s = rq_capability r \<and>
          rq_minimum_enforcement r \<le> cs_enforcement s)" for r
    by (cases "rq_minimum_enforcement r = Unsupported")
      (auto simp: is_satisfied_def requirement_check_def declared_enforcement_ge)
  moreover have "cc_mandatory (requirement_check declared r) = rq_mandatory r" for r
    by (simp add: requirement_check_def)
  moreover have "rc_checks rc = map (requirement_check declared) (ra_requirements assignment)"
    using assms by (simp add: evaluate_Inr)
  ultimately show ?thesis by (auto simp: launch_allowed_def list_all_iff)
qed

theorem launch_allowed_exact_witness:
  "evaluate_role_compatibility (lit ''codex'')
     [\<lparr>cs_capability = lit ''workspace.target'', cs_enforcement = Mediated\<rparr>]
     canonical_governed_builder_assignment =
   Inr \<lparr>rc_platform = lit ''codex'', rc_role = lit ''builder'', rc_checks =
     [\<lparr>cc_capability = lit ''workspace.target'', cc_required = Mediated, cc_available = Mediated,
       cc_mandatory = True\<rparr>,
      \<lparr>cc_capability = lit ''process.lifecycle'', cc_required = Mediated,
       cc_available = Unsupported, cc_mandatory = True\<rparr>,
      \<lparr>cc_capability = lit ''filesystem.scoped'', cc_required = Structural,
       cc_available = Unsupported, cc_mandatory = False\<rparr>]\<rparr> \<and>
   \<not> launch_allowed \<lparr>rc_platform = lit ''codex'', rc_role = lit ''builder'', rc_checks =
     [\<lparr>cc_capability = lit ''workspace.target'', cc_required = Mediated, cc_available = Mediated,
       cc_mandatory = True\<rparr>,
      \<lparr>cc_capability = lit ''process.lifecycle'', cc_required = Mediated,
       cc_available = Unsupported, cc_mandatory = True\<rparr>,
      \<lparr>cc_capability = lit ''filesystem.scoped'', cc_required = Structural,
       cc_available = Unsupported, cc_mandatory = False\<rparr>]\<rparr>"
  (is "?ev = Inr ?rc \<and> _")
proof -
  have ev: "?ev = Inr ?rc" by code_simp
  have "\<not> launch_allowed ?rc"
    unfolding launch_allowed_exact [OF ev]
    by (simp add: canonical_governed_builder_assignment_def lit_def)
  with ev show ?thesis by simp
qed

text \<open>C25: A world scope changes a compatibility result in one way only: evaluating in a world gives the
  runtime's own result (same error, same checks in the same order) with the availability of
  \<open>filesystem.scoped\<close> raised to the scope's mediation, so a staged world never reports more than
  \<open>Mediated\<close> for it unless the runtime itself declares \<open>Structural\<close>.\<close>

theorem world_scope_raises_filesystem_only:
  assumes "evaluate_role_compatibility platform declared assignment = Inr rc"
  shows "evaluate_role_compatibility_in_world platform declared assignment scope =
   Inr (rc\<lparr>rc_checks := map (\<lambda>c.
       if cc_capability c = FILESYSTEM_SCOPED_CAPABILITY
       then c\<lparr>cc_available := max (cc_available c) (world_scope_filesystem_enforcement scope)\<rparr>
       else c) (rc_checks rc)\<rparr>)"
proof -
  have rc: "distinct (map cs_capability declared)"
    "rc = \<lparr>rc_platform = platform, rc_role = ra_role assignment,
           rc_checks = map (requirement_check declared) (ra_requirements assignment)\<rparr>"
    using assms by (simp_all add: evaluate_Inr)
  have cap: "cc_capability (requirement_check ds r) = rq_capability r" for ds r
    by (simp add: requirement_check_def)
  show ?thesis
  proof (cases "scope = StagedAuthoritative")
    case True
    then show ?thesis
      using rc by (simp add: evaluate_role_compatibility_in_world_def world_scope_capability_support_def
          evaluate_Inr distinct_merge requirement_check_merge cap)
  next
    case False
    then have none: "world_scope_filesystem_enforcement scope = Unsupported"
      by (cases scope) simp_all
    have keep: "(if cc_capability c = FILESYSTEM_SCOPED_CAPABILITY
        then c\<lparr>cc_available := max (cc_available c) Unsupported\<rparr> else c) = c"
      for c :: capability_compatibility
      by (simp add: max_absorb1)
    show ?thesis
      unfolding none keep
      using assms False
      by (simp add: evaluate_role_compatibility_in_world_def world_scope_capability_support_def none)
  qed
qed

theorem world_scope_raises_filesystem_only_witness:
  "evaluate_role_compatibility (lit ''p'') [] \<lparr>ra_role = lit ''r'', ra_requirements =
     [\<lparr>rq_capability = lit ''filesystem.scoped'', rq_minimum_enforcement = Structural,
       rq_mandatory = False\<rparr>]\<rparr> =
   Inr \<lparr>rc_platform = lit ''p'', rc_role = lit ''r'', rc_checks =
     [\<lparr>cc_capability = lit ''filesystem.scoped'', cc_required = Structural,
       cc_available = Unsupported, cc_mandatory = False\<rparr>]\<rparr> \<and>
   evaluate_role_compatibility_in_world (lit ''p'') [] \<lparr>ra_role = lit ''r'', ra_requirements =
     [\<lparr>rq_capability = lit ''filesystem.scoped'', rq_minimum_enforcement = Structural,
       rq_mandatory = False\<rparr>]\<rparr> StagedAuthoritative =
   Inr \<lparr>rc_platform = lit ''p'', rc_role = lit ''r'', rc_checks =
     [\<lparr>cc_capability = lit ''filesystem.scoped'', cc_required = Structural,
       cc_available = Mediated, cc_mandatory = False\<rparr>]\<rparr>"
  (is "?ev = Inr ?rc \<and> _")
proof -
  have ev: "?ev = Inr ?rc" by code_simp
  show ?thesis
    using ev world_scope_raises_filesystem_only [OF ev, of StagedAuthoritative]
    by (simp add: FILESYSTEM_SCOPED_CAPABILITY_def max_def)
qed

end
