(* ===== verification/Governed_Contract.thy ===== *)
theory Governed_Contract
  imports Role_Assignment
begin

text \<open>
  The durable contract of a governed task (\<open>impulse-ops/src/governed_task.rs\<close>): the data of a
  run and of the records it accumulates, the validation a registration must pass, and the
  read-only projections of a run (lease generation, promises, launch directory).  Execution and
  review are two independent state fields of one run record.
\<close>

section \<open>Bounds\<close>

definition MAX_GOVERNED_TASK_BYTES :: nat where "MAX_GOVERNED_TASK_BYTES = 8 * 1024"
definition MAX_ACCEPTANCE_CRITERIA :: nat where "MAX_ACCEPTANCE_CRITERIA = 64"
definition MAX_GOVERNED_TEXT_BYTES :: nat where "MAX_GOVERNED_TEXT_BYTES = 16 * 1024"
definition MAX_GOVERNED_REFERENCES :: nat where "MAX_GOVERNED_REFERENCES = 64"
definition MAX_GOVERNED_COMMANDS :: nat where "MAX_GOVERNED_COMMANDS = 64"
definition MAX_GOVERNED_COMMAND_ARGS :: nat where "MAX_GOVERNED_COMMAND_ARGS = 256"
definition MAX_GOVERNED_REFERENCE_BYTES :: nat where "MAX_GOVERNED_REFERENCE_BYTES = 4 * 1024"
definition MAX_GOVERNED_COMMAND_ARG_BYTES :: nat where "MAX_GOVERNED_COMMAND_ARG_BYTES = 16 * 1024"
definition MAX_GOVERNED_RECORDS_PER_KIND :: nat where "MAX_GOVERNED_RECORDS_PER_KIND = 256"
definition MAX_GOVERNED_EVENTS :: nat where "MAX_GOVERNED_EVENTS = 1024"
definition GOVERNED_SUPERVISOR_REVIEW_CONTRACT_VERSION :: rstr where
  "GOVERNED_SUPERVISOR_REVIEW_CONTRACT_VERSION = lit ''1''"
definition MAX_PROFILED_TASK_BYTES :: nat where "MAX_PROFILED_TASK_BYTES = 2 * 1024"
definition MAX_PROFILED_ACCEPTANCE_CRITERIA :: nat where "MAX_PROFILED_ACCEPTANCE_CRITERIA = 16"
definition MAX_PROFILED_ACCEPTANCE_CRITERION_BYTES :: nat where
  "MAX_PROFILED_ACCEPTANCE_CRITERION_BYTES = 512"
definition MAX_PROFILED_CLAIM_SUMMARY_BYTES :: nat where
  "MAX_PROFILED_CLAIM_SUMMARY_BYTES = 4 * 1024"

lemmas bound_defs = MAX_GOVERNED_TASK_BYTES_def MAX_ACCEPTANCE_CRITERIA_def
  MAX_GOVERNED_TEXT_BYTES_def MAX_GOVERNED_REFERENCES_def MAX_GOVERNED_COMMANDS_def
  MAX_GOVERNED_COMMAND_ARGS_def MAX_GOVERNED_REFERENCE_BYTES_def
  MAX_GOVERNED_COMMAND_ARG_BYTES_def MAX_GOVERNED_RECORDS_PER_KIND_def MAX_GOVERNED_EVENTS_def
  MAX_PROFILED_TASK_BYTES_def MAX_PROFILED_ACCEPTANCE_CRITERIA_def
  MAX_PROFILED_ACCEPTANCE_CRITERION_BYTES_def MAX_PROFILED_CLAIM_SUMMARY_BYTES_def

section \<open>Contract errors and identifiers\<close>

datatype contract_error =
    InvalidId string rstr
  | InvalidField string rstr

definition validate_open_id :: "string \<Rightarrow> rstr \<Rightarrow> contract_error + rstr" where
  "validate_open_id kind value =
     (if value = [] \<or> 256 < byte_len value \<or> \<not> open_id_chars value
      then Inl (InvalidId kind value) else Inr value)"

definition governed_task_id :: "rstr \<Rightarrow> contract_error + rstr" where
  "governed_task_id = validate_open_id ''governed_task_id''"

definition governed_request_id :: "rstr \<Rightarrow> contract_error + rstr" where
  "governed_request_id = validate_open_id ''governed_request_id''"

definition governed_record_id :: "rstr \<Rightarrow> contract_error + rstr" where
  "governed_record_id = validate_open_id ''governed_record_id''"

section \<open>Data\<close>

datatype approval_policy_kind = OperatorRequired

datatype verification_profile_kind = RustWorkspaceV1

datatype actor_kind = System | Worker | Verifier | Supervisor | Operator

record governed_actor =
  ac_kind :: actor_kind
  ac_id :: rstr

text \<open>The worktree-shared Git configuration pin of a staged worktree.\<close>

datatype shared_config_component = RepositoryConfig | WorktreeConfig | InfoAttributes

record shared_config_digest =
  scheme_version :: nat
  repository_config :: rstr
  worktree_config :: "rstr option"
  info_attributes :: "rstr option"

datatype shared_config_pin = Recorded shared_config_digest | Unknown

datatype staged_status = Active | Discarded

record staged_input =
  si_actor :: governed_actor
  si_root :: rstr
  si_initial :: rstr
  si_pin :: shared_config_pin

record staged_record =
  st_id :: rstr
  st_actor :: governed_actor
  st_root :: rstr
  st_initial :: rstr
  st_pin :: shared_config_pin
  st_status :: staged_status
  st_materialized_at :: rstr
  st_based_on :: nat

datatype promotion_blocked_reason =
    CanonicalHeadMoved
  | DetachedHead
  | ConcurrentBranchUpdate
  | RepositoryConfigChanged shared_config_component
  | RepositoryConfigUnpinned

datatype promotion_outcome =
    Promoted rstr
  | PromotionBlocked rstr promotion_blocked_reason

record promotion_input =
  pi_actor :: governed_actor
  pi_accepted :: rstr
  pi_initial :: rstr
  pi_outcome :: promotion_outcome

record promotion_record =
  pr_id :: rstr
  pr_actor :: governed_actor
  pr_accepted :: rstr
  pr_initial :: rstr
  pr_outcome :: promotion_outcome
  pr_recorded_at :: rstr
  pr_based_on :: nat

datatype execution_state_kind = Registered | Running | LaunchFailed | RuntimeExited

datatype exit_kind_kind = Natural | OperatorCancelled | Timeout | Crashed

datatype review_state_kind =
    AwaitingClaim
  | AwaitingVerification
  | VerificationFailed
  | AwaitingSupervisor
  | ChangesRequested
  | Escalated
  | AwaitingOperator
  | Accepted
  | Rejected

record claim_input =
  ci_actor :: governed_actor
  ci_summary :: rstr
  ci_subject :: rstr
  ci_artifacts :: "rstr list"
  ci_diff_ref :: "rstr option"

record claim_record =
  cl_id :: rstr
  cl_actor :: governed_actor
  cl_summary :: rstr
  cl_subject :: rstr
  cl_artifacts :: "rstr list"
  cl_diff_ref :: "rstr option"
  cl_loop_digest :: "rstr option"
  cl_loop_version :: "nat option"
  cl_submitted_at :: rstr
  cl_based_on :: nat

record command_evidence =
  ce_name :: rstr
  ce_executable :: rstr
  ce_redacted_args :: "rstr list"
  ce_command_digest :: rstr
  ce_exit_code :: "int option"
  ce_success :: bool
  ce_output_digest :: rstr
  ce_output_ref :: "rstr option"
  ce_output_bytes :: nat
  ce_output_truncated :: bool

datatype verification_outcome = Passed | Failed | Inconclusive

record verification_input =
  vi_actor :: governed_actor
  vi_claim_id :: rstr
  vi_subject :: rstr
  vi_policy :: rstr
  vi_outcome :: verification_outcome
  vi_commands :: "command_evidence list"
  vi_artifacts :: "rstr list"
  vi_notes :: "rstr option"

record verification_record =
  vf_id :: rstr
  vf_actor :: governed_actor
  vf_claim_id :: rstr
  vf_subject :: rstr
  vf_policy :: rstr
  vf_outcome :: verification_outcome
  vf_commands :: "command_evidence list"
  vf_artifacts :: "rstr list"
  vf_notes :: "rstr option"
  vf_recorded_at :: rstr
  vf_based_on :: nat

datatype verdict_kind = RecommendAccept | VerdictChangesRequested | Escalate

record verdict_input =
  svi_actor :: governed_actor
  svi_verification_id :: rstr
  svi_verdict :: verdict_kind
  svi_rationale :: rstr

record verdict_record =
  sv_id :: rstr
  sv_actor :: governed_actor
  sv_verification_id :: rstr
  sv_verdict :: verdict_kind
  sv_rationale :: rstr
  sv_decided_at :: rstr
  sv_based_on :: nat

datatype decision_kind = Approve | Reject

record decision_input =
  di_actor :: governed_actor
  di_verdict_id :: rstr
  di_decision :: decision_kind
  di_rationale :: rstr

datatype operator_authentication = Declared | CapabilityAuthenticated

record decision_record =
  od_id :: rstr
  od_actor :: governed_actor
  od_verdict_id :: rstr
  od_decision :: decision_kind
  od_rationale :: rstr
  od_decided_at :: rstr
  od_based_on :: nat
  od_authentication :: operator_authentication

datatype event_kind =
    EvRegistered
  | EvStagedWorktreeMaterialized
  | EvStagedWorktreeDiscarded
  | EvRunning
  | EvLaunchFailed
  | EvRuntimeExited
  | EvClaimSubmitted
  | EvLoopTripped
  | EvVerificationRecorded
  | EvSupervisorVerdictRecorded
  | EvOperatorDecisionRecorded
  | EvProducerReservationInterrupted
  | EvPromotionRecorded
  | EvWorkerTakenOver

record governed_event =
  ev_id :: rstr
  ev_revision :: nat
  ev_kind :: event_kind
  ev_actor :: governed_actor
  ev_detail :: rstr
  ev_created_at :: rstr

text \<open>
  The fields a registration and a run have in common; \<open>registration\<close> adds the two request
  identities, \<open>run\<close> everything the ledger accumulates.
\<close>

record task_core =
  project_id :: rstr
  workspace_root :: rstr
  task :: rstr
  acceptance_criteria :: "rstr list"
  approval_policy :: approval_policy_kind
  world_scope :: world_scope_kind
  verification_profile :: "verification_profile_kind option"
  role_assignment :: "agent_role_assignment option"
  role_compatibility :: "role_compat option"
  runtime_id :: rstr
  agent_id :: rstr
  session_id :: "rstr option"
  initial_subject_revision :: "rstr option"

record registration = task_core +
  rg_request_id :: rstr
  rg_task_id :: rstr

record run = task_core +
  run_id :: rstr
  revision :: nat
  staged_worktree :: "staged_record option"
  promotions :: "promotion_record list"
  execution_state :: execution_state_kind
  exit_kind :: exit_kind_kind
  review_state :: review_state_kind
  claims :: "claim_record list"
  verifications :: "verification_record list"
  supervisor_verdicts :: "verdict_record list"
  operator_decisions :: "decision_record list"
  events :: "governed_event list"
  created_at :: rstr
  updated_at :: rstr

datatype mutation =
    MarkRunning governed_actor
  | MarkLaunchFailed governed_actor rstr
  | MarkRuntimeExited governed_actor "rstr option" exit_kind_kind
  | MaterializeStagedWorktree staged_input
  | DiscardStagedWorktree governed_actor rstr
  | SubmitClaim claim_input
  | RecordVerification verification_input
  | RecordSupervisorVerdict verdict_input
  | RecordOperatorDecision decision_input
  | NoteProducerReservationInterrupted governed_actor rstr
  | RecordPromotion promotion_input
  | TakeOverWorker governed_actor rstr

record mutation_request =
  mr_request_id :: rstr
  mr_project_id :: rstr
  mr_task_id :: rstr
  mr_expected_revision :: nat
  mr_mutation :: mutation
  mr_fencing_generation :: "nat option"

record claim_request =
  gc_request_id :: rstr
  gc_project_id :: rstr
  gc_task_id :: rstr
  gc_expected_revision :: nat
  gc_summary :: rstr
  gc_artifacts :: "rstr list"
  gc_generation :: "nat option"

record review_envelope =
  re_contract_version :: rstr
  re_task_id :: rstr
  re_task_revision :: nat
  re_claim_id :: rstr
  re_verification_id :: rstr
  re_subject :: rstr
  re_criteria_count :: nat
  re_criteria_digest :: rstr
  re_verdict :: verdict_kind
  re_rationale :: rstr

datatype promise_claimed_status = Done

datatype promise_evidenced_status = Open | Kept

record promise =
  gp_claim_id :: rstr
  gp_promised_by :: governed_actor
  gp_summary :: rstr
  gp_subject :: rstr
  gp_claimed :: promise_claimed_status
  gp_evidenced :: promise_evidenced_status
  gp_evidence :: "rstr list"
  gp_latest_outcome :: "verification_outcome option"
  gp_superseded :: bool

datatype launch_directory_error = StagedWorktreeNotMaterialized rstr world_scope_kind

section \<open>Shared configuration pins\<close>

definition SHARED_REPOSITORY_CONFIG_SCHEME_VERSION :: nat where
  "SHARED_REPOSITORY_CONFIG_SCHEME_VERSION = 3"

definition LEGACY_SHARED_REPOSITORY_CONFIG_SCHEME_VERSION :: nat where
  "LEGACY_SHARED_REPOSITORY_CONFIG_SCHEME_VERSION = 0"

definition digest_current :: "rstr \<Rightarrow> rstr option \<Rightarrow> rstr option \<Rightarrow> shared_config_digest" where
  "digest_current repo wt attrs =
     \<lparr>scheme_version = SHARED_REPOSITORY_CONFIG_SCHEME_VERSION, repository_config = repo,
      worktree_config = wt, info_attributes = attrs\<rparr>"

definition is_current_scheme :: "shared_config_digest \<Rightarrow> bool" where
  "is_current_scheme d \<longleftrightarrow> scheme_version d = SHARED_REPOSITORY_CONFIG_SCHEME_VERSION"

definition first_difference ::
    "shared_config_digest \<Rightarrow> shared_config_digest \<Rightarrow> shared_config_component option" where
  "first_difference a b =
     (if repository_config a \<noteq> repository_config b then Some RepositoryConfig
      else if worktree_config a \<noteq> worktree_config b then Some WorktreeConfig
      else if info_attributes a \<noteq> info_attributes b then Some InfoAttributes
      else None)"

fun pin_recorded :: "shared_config_pin \<Rightarrow> shared_config_digest option" where
  "pin_recorded (Recorded d) = Some d"
| "pin_recorded Unknown = None"

definition pin_is_unknown :: "shared_config_pin \<Rightarrow> bool" where
  "pin_is_unknown p \<longleftrightarrow> p = Unknown"

definition pin_comparable :: "shared_config_pin \<Rightarrow> shared_config_digest option" where
  "pin_comparable p =
     (case pin_recorded p of None \<Rightarrow> None
      | Some d \<Rightarrow> if is_current_scheme d then Some d else None)"

definition is_comparable :: "shared_config_pin \<Rightarrow> bool" where
  "is_comparable p \<longleftrightarrow> pin_comparable p \<noteq> None"

fun component_str :: "shared_config_component \<Rightarrow> rstr" where
  "component_str RepositoryConfig = lit ''.git/config''"
| "component_str WorktreeConfig = lit ''.git/config.worktree''"
| "component_str InfoAttributes = lit ''.git/info/attributes''"

fun blocked_reason_str :: "promotion_blocked_reason \<Rightarrow> rstr" where
  "blocked_reason_str CanonicalHeadMoved = lit ''canonical_head_moved''"
| "blocked_reason_str DetachedHead = lit ''detached_head''"
| "blocked_reason_str ConcurrentBranchUpdate = lit ''concurrent_branch_update''"
| "blocked_reason_str (RepositoryConfigChanged _) = lit ''repository_config_changed''"
| "blocked_reason_str RepositoryConfigUnpinned = lit ''repository_config_unpinned''"

fun show_blocked_reason :: "promotion_blocked_reason \<Rightarrow> rstr" where
  "show_blocked_reason (RepositoryConfigChanged c) =
     blocked_reason_str (RepositoryConfigChanged c) @ lit '' changed ('' @ component_str c @ lit '')''"
| "show_blocked_reason r = blocked_reason_str r"

fun is_promoted :: "promotion_outcome \<Rightarrow> bool" where
  "is_promoted (Promoted _) = True"
| "is_promoted (PromotionBlocked _ _) = False"

fun blocked_reason :: "promotion_outcome \<Rightarrow> promotion_blocked_reason option" where
  "blocked_reason (Promoted _) = None"
| "blocked_reason (PromotionBlocked _ r) = Some r"

section \<open>Field validation\<close>

definition validate_nonblank :: "string \<Rightarrow> rstr \<Rightarrow> nat \<Rightarrow> contract_error + unit" where
  "validate_nonblank field value max_bytes =
     ensure (text_ok value max_bytes)
       (InvalidField field (lit ''must be nonblank, NUL-free, and at most '' @ dec max_bytes @
          lit '' UTF-8 bytes''))"

definition path_segment_char :: "nat \<Rightarrow> bool" where
  "path_segment_char c \<longleftrightarrow> is_ascii_letter c \<or> is_ascii_digit c \<or> c = 45 \<or> c = 95"

definition path_segment_ok :: "rstr \<Rightarrow> bool" where
  "path_segment_ok value \<longleftrightarrow> \<not> (value = [] \<or> 128 < byte_len value \<or> value = lit ''.'' \<or>
     value = lit ''..'' \<or> hd value = 46 \<or> list_ex (\<lambda>c. \<not> path_segment_char c) value)"

definition validate_path_segment :: "string \<Rightarrow> rstr \<Rightarrow> contract_error + unit" where
  "validate_path_segment field value = ensure (path_segment_ok value)
     (InvalidField field (lit
       ''must be one filesystem path segment of at most 128 ASCII letters, digits, `-`, or `_`''))"

definition validate_git_commit_oid :: "string \<Rightarrow> rstr \<Rightarrow> contract_error + unit" where
  "validate_git_commit_oid field value = ensure (commit_oid value)
     (InvalidField field
       (lit ''must be a 40- or 64-character lowercase hexadecimal Git commit OID''))"

definition validate_sha256_digest :: "string \<Rightarrow> rstr \<Rightarrow> contract_error + unit" where
  "validate_sha256_digest field value = ensure (sha256_ref value)
     (InvalidField field (lit ''must use the sha256:<64 hexadecimal characters> format''))"

section \<open>Registration\<close>

definition validate_identity :: "registration \<Rightarrow> contract_error + unit" where
  "validate_identity r = checks
     ([validate_nonblank ''project_id'' (project_id r) 256,
       validate_nonblank ''workspace_root'' (workspace_root r) (16 * 1024),
       validate_nonblank ''task'' (task r) MAX_GOVERNED_TASK_BYTES,
       validate_nonblank ''runtime_id'' (runtime_id r) 256,
       validate_nonblank ''agent_id'' (agent_id r) 256,
       ensure (length (acceptance_criteria r) \<le> MAX_ACCEPTANCE_CRITERIA)
         (InvalidField ''acceptance_criteria''
           (lit ''must contain at most '' @ dec MAX_ACCEPTANCE_CRITERIA @ lit '' entries''))] @
      map (\<lambda>c. validate_nonblank ''acceptance_criteria'' c MAX_GOVERNED_TEXT_BYTES)
        (acceptance_criteria r) @
      [case session_id r of None \<Rightarrow> Inr () | Some s \<Rightarrow> validate_nonblank ''session_id'' s 256,
       ensure (\<not> (rg_task_id r = agent_id r \<or> session_id r = Some (rg_task_id r)))
         (InvalidField ''task_id'' (lit ''must be distinct from agent_id and session_id'')),
       case initial_subject_revision r of None \<Rightarrow> Inr ()
       | Some s \<Rightarrow> validate_nonblank ''initial_subject_revision'' s 1024])"

definition validate_world_scope :: "registration \<Rightarrow> contract_error + unit" where
  "validate_world_scope r = checks
     [ensure (is_materializable (world_scope r))
        (InvalidField ''world_scope'' (lit ''world scope `'' @ world_scope_str (world_scope r) @
          lit ''` is declared but not materializable by this daemon'')),
      if requires_staged_worktree (world_scope r) then checks
        [ensure (verification_profile r \<noteq> None) (InvalidField ''world_scope'' (lit
           ''a staged world scope requires a closed-loop verification profile so the initial Git OID is daemon-attested'')),
         validate_path_segment ''task_id'' (rg_task_id r)]
      else Inr ()]"

definition validate_profile :: "registration \<Rightarrow> contract_error + unit" where
  "validate_profile r =
     (if verification_profile r = None then Inr () else checks
       ([ensure (acceptance_criteria r \<noteq> []) (InvalidField ''acceptance_criteria'' (lit
            ''a closed-loop verification profile requires at least one criterion'')),
         (case initial_subject_revision r of
            None \<Rightarrow> Inl (InvalidField ''initial_subject_revision'' (lit
              ''a closed-loop verification profile requires a clean Git commit OID''))
          | Some subject \<Rightarrow> validate_git_commit_oid ''initial_subject_revision'' subject),
         validate_nonblank ''task'' (task r) MAX_PROFILED_TASK_BYTES,
         ensure (length (acceptance_criteria r) \<le> MAX_PROFILED_ACCEPTANCE_CRITERIA)
           (InvalidField ''acceptance_criteria'' (lit ''a closed-loop profile supports at most '' @
             dec MAX_PROFILED_ACCEPTANCE_CRITERIA @ lit '' exact criteria''))] @
        map (\<lambda>c. validate_nonblank ''acceptance_criteria'' c MAX_PROFILED_ACCEPTANCE_CRITERION_BYTES)
          (acceptance_criteria r) @
        [(case role_assignment r of
            None \<Rightarrow> Inl (InvalidField ''role_assignment'' (lit
              ''a closed-loop verification profile requires the canonical Builder role''))
          | Some assignment \<Rightarrow> ensure (assignment = canonical_governed_builder_assignment)
              (InvalidField ''role_assignment'' (lit
                ''a closed-loop verification profile requires the canonical Builder role requirements''))),
         ensure (role_compatibility r \<noteq> None) (InvalidField ''role_compatibility'' (lit
           ''a closed-loop verification profile requires a matching runtime compatibility result''))]))"

definition exact_cover :: "agent_role_assignment \<Rightarrow> role_compat \<Rightarrow> bool" where
  "exact_cover a rc \<longleftrightarrow>
     \<not> (length (ra_requirements a) \<noteq> length (rc_checks rc) \<or>
        list_ex (\<lambda>q. length (filter (\<lambda>c. cc_capability c = rq_capability q) (rc_checks rc)) \<noteq> 1)
          (ra_requirements a) \<or>
        list_ex (\<lambda>c. \<not> list_ex (\<lambda>q. rq_capability q = cc_capability c \<and>
            rq_minimum_enforcement q = cc_required c \<and> rq_mandatory q = cc_mandatory c)
          (ra_requirements a)) (rc_checks rc))"

definition validate_compatibility :: "registration \<Rightarrow> contract_error + unit" where
  "validate_compatibility r = checks
     [ensure (\<not> (case role_compatibility r of None \<Rightarrow> False | Some rc \<Rightarrow> is_blocked rc))
        (InvalidField ''role_compatibility'' (lit ''blocked compatibility cannot be registered'')),
      (case (role_assignment r, role_compatibility r) of
         (Some a, Some rc) \<Rightarrow> checks
           [ensure (ra_role a = rc_role rc) (InvalidField ''role_compatibility'' (lit
              ''compatibility role must match the assigned role'')),
            ensure (rc_platform rc = runtime_id r) (InvalidField ''role_compatibility'' (lit
              ''compatibility platform must match runtime_id'')),
            ensure (exact_cover a rc) (InvalidField ''role_compatibility'' (lit
              ''compatibility checks must exactly cover the assigned requirements''))]
       | (None, None) \<Rightarrow> Inr ()
       | _ \<Rightarrow> Inl (InvalidField ''role_assignment'' (lit
            ''role assignment and compatibility must be supplied together'')))]"

definition validate_registration :: "registration \<Rightarrow> contract_error + unit" where
  "validate_registration r = checks
     [validate_identity r, validate_world_scope r, validate_profile r, validate_compatibility r]"

text \<open>The builder starts from the required strings; each setter replaces one optional field, and
  \<open>build\<close> checks the two ids and then the whole registration.\<close>

definition registration_builder ::
    "rstr \<Rightarrow> rstr \<Rightarrow> rstr \<Rightarrow> rstr \<Rightarrow> rstr \<Rightarrow> rstr \<Rightarrow> rstr \<Rightarrow> registration" where
  "registration_builder request task_id project workspace tsk agent runtime =
     \<lparr>project_id = project, workspace_root = workspace, task = tsk, acceptance_criteria = [],
      approval_policy = OperatorRequired, world_scope = Authoritative, verification_profile = None,
      role_assignment = None, role_compatibility = None, runtime_id = runtime, agent_id = agent,
      session_id = None, initial_subject_revision = None,
      rg_request_id = request, rg_task_id = task_id\<rparr>"

definition registration_build :: "registration \<Rightarrow> contract_error + registration" where
  "registration_build b =
     and_then (governed_request_id (rg_request_id b)) (\<lambda>request.
     and_then (governed_task_id (rg_task_id b)) (\<lambda>task_id.
       let r = b\<lparr>rg_request_id := request, rg_task_id := task_id\<rparr> in
       and_then (validate_registration r) (\<lambda>_. Inr r)))"

section \<open>Request contracts\<close>

definition validate_claim_request :: "claim_request \<Rightarrow> contract_error + unit" where
  "validate_claim_request r = checks
     ([validate_nonblank ''summary'' (gc_summary r) MAX_PROFILED_CLAIM_SUMMARY_BYTES,
       ensure (length (gc_artifacts r) \<le> MAX_GOVERNED_REFERENCES) (InvalidField ''artifact_ids''
         (lit ''must contain at most '' @ dec MAX_GOVERNED_REFERENCES @ lit '' entries''))] @
      map (\<lambda>a. validate_nonblank ''artifact_ids'' a MAX_GOVERNED_REFERENCE_BYTES) (gc_artifacts r))"

definition validate_review_envelope :: "review_envelope \<Rightarrow> contract_error + unit" where
  "validate_review_envelope e = checks
     [ensure (re_contract_version e = GOVERNED_SUPERVISOR_REVIEW_CONTRACT_VERSION)
        (InvalidField ''contract_version''
          (lit ''must equal '' @ GOVERNED_SUPERVISOR_REVIEW_CONTRACT_VERSION)),
      validate_git_commit_oid ''subject_revision'' (re_subject e),
      validate_sha256_digest ''acceptance_criteria_digest'' (re_criteria_digest e),
      validate_nonblank ''rationale'' (re_rationale e) MAX_GOVERNED_TEXT_BYTES]"

section \<open>Projections of a run\<close>

definition last_opt :: "'a list \<Rightarrow> 'a option" where
  "last_opt xs = (if xs = [] then None else Some (last xs))"

definition lease_generation :: "run \<Rightarrow> nat" where
  "lease_generation t = length (filter (\<lambda>e. ev_kind e = EvWorkerTakenOver) (events t))"

definition latest_claim :: "run \<Rightarrow> claim_record option" where
  "latest_claim t = last_opt (claims t)"

definition latest_verification :: "run \<Rightarrow> verification_record option" where
  "latest_verification t = last_opt (verifications t)"

definition latest_supervisor_verdict :: "run \<Rightarrow> verdict_record option" where
  "latest_supervisor_verdict t = last_opt (supervisor_verdicts t)"

definition latest_promotion :: "run \<Rightarrow> promotion_record option" where
  "latest_promotion t = last_opt (promotions t)"

definition is_accepted :: "run \<Rightarrow> bool" where
  "is_accepted t \<longleftrightarrow> review_state t = Accepted"

definition expected_staged_worktree_root :: "run \<Rightarrow> contract_error + rstr" where
  "expected_staged_worktree_root t =
     and_then (validate_path_segment ''task_id'' (run_id t)) (\<lambda>_.
       Inr (path_join (path_join (path_join (workspace_root t) (lit ''.impulse''))
         (lit ''worktrees'')) (run_id t)))"

definition active_staged_worktree :: "run \<Rightarrow> staged_record option" where
  "active_staged_worktree t =
     (case staged_worktree t of None \<Rightarrow> None
      | Some s \<Rightarrow> if st_status s = Active then Some s else None)"

definition launch_working_directory :: "run \<Rightarrow> launch_directory_error + rstr" where
  "launch_working_directory t =
     (case active_staged_worktree t of
        Some s \<Rightarrow> Inr (st_root s)
      | None \<Rightarrow> if world_scope t = StagedAuthoritative
               then Inl (StagedWorktreeNotMaterialized (run_id t) (world_scope t))
               else Inr (workspace_root t))"

definition bears_on :: "claim_record \<Rightarrow> verification_record \<Rightarrow> bool" where
  "bears_on c v \<longleftrightarrow> ac_kind (vf_actor v) = Verifier \<and> vf_claim_id v = cl_id c \<and>
     vf_subject v = cl_subject c"

definition promise_of :: "run \<Rightarrow> nat \<Rightarrow> claim_record \<Rightarrow> promise" where
  "promise_of t index c =
     (let bearing = filter (bears_on c) (verifications t);
          outcome = map_option vf_outcome (last_opt bearing)
      in \<lparr>gp_claim_id = cl_id c, gp_promised_by = cl_actor c, gp_summary = cl_summary c,
          gp_subject = cl_subject c, gp_claimed = Done,
          gp_evidenced = (if outcome = Some Passed then Kept else Open),
          gp_evidence = map vf_id bearing, gp_latest_outcome = outcome,
          gp_superseded = (Some index \<noteq> checked_sub_u64 (length (claims t)) 1)\<rparr>)"

definition promises :: "run \<Rightarrow> promise list" where
  "promises t = map (\<lambda>(i, c). promise_of t i c) (enumerate 0 (claims t))"

definition diverges :: "promise \<Rightarrow> bool" where
  "diverges p \<longleftrightarrow> \<not> gp_superseded p \<and> gp_claimed p = Done \<and> gp_evidenced p \<noteq> Kept"

definition claim_evidence_divergence :: "run \<Rightarrow> promise option" where
  "claim_evidence_divergence t = find diverges (promises t)"

end
