(* ===== verification/Loop_Contract.thy ===== *)
theory Loop_Contract
  imports Ordered_Map "HOL-Library.Multiset"
begin

text \<open>
  The loop contract of \<open>src/loop_contract.rs\<close> (ADR-0017): the budget a loop declares, the pure
  evaluation of a budget against stored counts, the per-run breaker with its streak detectors,
  and the key-order-independent JSON rendering its call keys use.  Durations are nanoseconds.
  \<open>alnum\<close> stands for the Unicode tables behind \<open>char::is_alphanumeric\<close>, \<open>render\<close> for the
  rendering of JSON scalars and strings by \<open>serde_json\<close>.
\<close>

section \<open>Constants\<close>

definition ION_DEFAULT_MAX_ROUNDS :: nat where "ION_DEFAULT_MAX_ROUNDS = 10"
definition ION_DEFAULT_WALL_CLOCK :: nat where "ION_DEFAULT_WALL_CLOCK = 180 * 10 ^ 9"
definition ION_DEFAULT_REPEATED_CALL_STREAK :: nat where "ION_DEFAULT_REPEATED_CALL_STREAK = 3"
definition ION_DEFAULT_SAME_ERROR_STREAK :: nat where "ION_DEFAULT_SAME_ERROR_STREAK = 3"
definition ION_DEFAULT_MAX_TOOL_CALLS :: nat where "ION_DEFAULT_MAX_TOOL_CALLS = 50"
definition ION_DEFAULT_MAX_CONTEXT_CHARS :: nat where "ION_DEFAULT_MAX_CONTEXT_CHARS = 200000"
definition GOVERNED_BUILDER_MAX_CLAIM_CYCLES :: nat where "GOVERNED_BUILDER_MAX_CLAIM_CYCLES = 5"
definition GOVERNED_BUILDER_WALL_CLOCK :: nat where
  "GOVERNED_BUILDER_WALL_CLOCK = 4 * 60 * 60 * 10 ^ 9"
definition GOVERNED_BUILDER_SAME_FAILURE_STREAK :: nat where
  "GOVERNED_BUILDER_SAME_FAILURE_STREAK = 3"
definition GOVERNED_BUILDER_LOOP_VERSION :: nat where "GOVERNED_BUILDER_LOOP_VERSION = 1"
definition ERROR_SIGNATURE_MAX_CHARS :: nat where "ERROR_SIGNATURE_MAX_CHARS = 120"

section \<open>Data\<close>

record loop_budget =
  max_rounds :: nat
  wall_clock :: nat
  max_repeated_call_streak :: "nat option"
  max_same_error_streak :: "nat option"
  max_context_chars :: "nat option"
  max_tool_calls :: "nat option"

record same_error_observation =
  se_tool :: rstr
  se_streak :: nat
  se_signature :: rstr

record loop_observation =
  ob_rounds_used :: nat
  ob_elapsed :: nat
  ob_same_error :: "same_error_observation option"

record loop_contract =
  lc_name :: rstr
  lc_budget :: loop_budget

datatype loop_contract_error =
    ZeroRounds rstr
  | ZeroWallClock rstr
  | ZeroStreak rstr string
  | ZeroContextBudget rstr
  | ZeroToolCallBudget rstr

datatype loop_trip =
    RoundCap nat
  | WallClock nat
  | RepeatedCall rstr nat
  | RepeatedRound nat nat
  | SameError rstr nat rstr
  | ContextBudget nat nat
  | ToolCallBudget nat

datatype loop_termination = Completed | Tripped loop_trip | LoopFailed rstr

record loop_report =
  lr_contract :: rstr
  lr_termination :: loop_termination
  lr_rounds_used :: nat
  lr_tool_calls :: nat
  lr_tool_errors :: nat
  lr_tool_calls_interrupted :: nat
  lr_compactions :: nat
  lr_calls_by_tool :: "(rstr, nat) btree"
  lr_elapsed_ms :: nat

record call_outcome =
  co_is_error :: bool
  co_content :: rstr

datatype json =
    JNull
  | JBool bool
  | JNumber rstr
  | JString rstr
  | JArray "json list"
  | JObject "(rstr \<times> json) list"

record loop_breaker =
  lb_contract :: loop_contract
  lb_rounds_used :: nat
  lb_dispatched :: nat
  lb_tool_calls :: nat
  lb_tool_errors :: nat
  lb_last_call_key :: "rstr option"
  lb_repeated_call_streak :: nat
  lb_last_error_key :: "(rstr \<times> rstr) option"
  lb_same_error_streak :: nat
  lb_round_keys :: "rstr list"
  lb_last_round_keys :: "rstr list option"
  lb_repeated_round_streak :: nat
  lb_compactions :: nat
  lb_calls_by_tool :: "(rstr, nat) btree"

section \<open>Budgets\<close>

definition ion_default :: loop_budget where
  "ion_default = \<lparr>max_rounds = ION_DEFAULT_MAX_ROUNDS, wall_clock = ION_DEFAULT_WALL_CLOCK,
     max_repeated_call_streak = Some ION_DEFAULT_REPEATED_CALL_STREAK,
     max_same_error_streak = Some ION_DEFAULT_SAME_ERROR_STREAK,
     max_context_chars = Some ION_DEFAULT_MAX_CONTEXT_CHARS,
     max_tool_calls = Some ION_DEFAULT_MAX_TOOL_CALLS\<rparr>"

definition governed_builder :: loop_budget where
  "governed_builder = \<lparr>max_rounds = GOVERNED_BUILDER_MAX_CLAIM_CYCLES,
     wall_clock = GOVERNED_BUILDER_WALL_CLOCK, max_repeated_call_streak = None,
     max_same_error_streak = Some GOVERNED_BUILDER_SAME_FAILURE_STREAK,
     max_context_chars = None, max_tool_calls = None\<rparr>"

definition millis_u64 :: "nat \<Rightarrow> nat" where
  "millis_u64 nanos = min (nanos div 10 ^ 6) u64_max"

text \<open>The first line that carries a letter or digit, trimmed and bounded; the trimmed whole otherwise.\<close>

definition error_signature :: "(nat \<Rightarrow> bool) \<Rightarrow> rstr \<Rightarrow> rstr" where
  "error_signature alnum content =
     (let line = (case find (list_ex alnum) (map trim (lines_of content)) of
                    Some l \<Rightarrow> l | None \<Rightarrow> trim content)
      in take ERROR_SIGNATURE_MAX_CHARS line)"

definition evaluate_observed ::
    "(nat \<Rightarrow> bool) \<Rightarrow> loop_budget \<Rightarrow> loop_observation \<Rightarrow> loop_trip option" where
  "evaluate_observed alnum b ob =
     (if max_rounds b \<le> ob_rounds_used ob then Some (RoundCap (max_rounds b))
      else if wall_clock b \<le> ob_elapsed ob then Some (WallClock (millis_u64 (ob_elapsed ob)))
      else case (max_same_error_streak b, ob_same_error ob) of
          (Some limit, Some se) \<Rightarrow>
            if limit \<le> se_streak se
            then Some (SameError (se_tool se) (se_streak se) (error_signature alnum (se_signature se)))
            else None
        | _ \<Rightarrow> None)"

definition ion_tool_loop_contract :: loop_contract where
  "ion_tool_loop_contract = \<lparr>lc_name = lit ''ion_tool_loop'', lc_budget = ion_default\<rparr>"

definition governed_builder_contract :: loop_contract where
  "governed_builder_contract = \<lparr>lc_name = lit ''governed_builder'', lc_budget = governed_builder\<rparr>"

definition loop_contract_validate :: "loop_contract \<Rightarrow> loop_contract_error + unit" where
  "loop_contract_validate c = (let b = lc_budget c in checks
     [ensure (max_rounds b \<noteq> 0) (ZeroRounds (lc_name c)),
      ensure (wall_clock b \<noteq> 0) (ZeroWallClock (lc_name c)),
      ensure (max_repeated_call_streak b \<noteq> Some 0)
        (ZeroStreak (lc_name c) ''max_repeated_call_streak''),
      ensure (max_same_error_streak b \<noteq> Some 0) (ZeroStreak (lc_name c) ''max_same_error_streak''),
      ensure (max_context_chars b \<noteq> Some 0) (ZeroContextBudget (lc_name c)),
      ensure (max_tool_calls b \<noteq> Some 0) (ZeroToolCallBudget (lc_name c))])"

text \<open>\<open>Display\<close> of a trip, as it enters a governed event's detail.\<close>

fun show_trip :: "loop_trip \<Rightarrow> rstr" where
  "show_trip (RoundCap n) = lit ''round cap of '' @ dec n @ lit '' reached without a final reply''"
| "show_trip (WallClock ms) = lit ''wall-clock budget of '' @ dec ms @ lit ''ms elapsed''"
| "show_trip (RepeatedCall tool n) =
     lit ''tool '' @ [39] @ tool @ [39] @ lit '' was requested with identical input '' @ dec n @
     lit '' times in a row''"
| "show_trip (RepeatedRound calls n) =
     lit ''the same batch of '' @ dec calls @ lit '' tool call(s) was requested in '' @ dec n @
     lit '' consecutive rounds''"
| "show_trip (SameError tool n sig) =
     lit ''tool '' @ [39] @ tool @ [39] @ lit '' failed '' @ dec n @
     lit '' times in a row with the same error: '' @ sig"
| "show_trip (ContextBudget chars limit) =
     lit ''conversation history is '' @ dec chars @ lit '' characters after compaction, over the '' @
     dec limit @ lit ''-character context budget''"
| "show_trip (ToolCallBudget n) =
     lit ''tool-call budget of '' @ dec n @ lit '' spent; the next requested call did not run''"

section \<open>Canonical JSON\<close>

text \<open>Object keys sorted at every level; an object holds each key once.\<close>

fun join :: "rstr \<Rightarrow> rstr list \<Rightarrow> rstr" where
  "join sep [] = []"
| "join sep [x] = x"
| "join sep (x # y # xs) = x @ sep @ join sep (y # xs)"

function (sequential) canonical_json :: "(json \<Rightarrow> rstr) \<Rightarrow> json \<Rightarrow> rstr" where
  "canonical_json render (JObject m) =
     lit ''{'' @ join (lit '','')
       (map (\<lambda>(k, s). render (JString k) @ lit '':'' @ s)
         (sort_key fst (map (\<lambda>kv. (fst kv, canonical_json render (snd kv))) m))) @ lit ''}''"
| "canonical_json render (JArray items) =
     lit ''['' @ join (lit '','') (map (canonical_json render) items) @ lit '']''"
| "canonical_json render v = render v"
  by pat_completeness auto
termination
proof (relation "measure (\<lambda>(_, v). size v)")
  fix m :: "(rstr \<times> json) list" and kv and render :: "json \<Rightarrow> rstr"
  assume "kv \<in> set m"
  moreover obtain k v where "kv = (k, v)" by (cases kv)
  ultimately have "size (snd kv) \<le> size_list (size_prod (\<lambda>_. 0) size) m"
    by (auto dest!: split_list)
  then show "((render, snd kv), (render, JObject m)) \<in> measure (\<lambda>(_, v). size v)" by simp
next
  fix items :: "json list" and v and render :: "json \<Rightarrow> rstr"
  assume "v \<in> set items"
  then show "((render, v), (render, JArray items)) \<in> measure (\<lambda>(_, v). size v)"
    by (auto dest!: split_list)
qed simp

section \<open>The breaker\<close>

definition breaker_new :: "loop_contract \<Rightarrow> loop_breaker" where
  "breaker_new c = \<lparr>lb_contract = c, lb_rounds_used = 0, lb_dispatched = 0, lb_tool_calls = 0,
     lb_tool_errors = 0, lb_last_call_key = None, lb_repeated_call_streak = 0,
     lb_last_error_key = None, lb_same_error_streak = 0, lb_round_keys = [],
     lb_last_round_keys = None, lb_repeated_round_streak = 0, lb_compactions = 0,
     lb_calls_by_tool = bt_empty\<rparr>"

definition observe_compaction :: "loop_breaker \<Rightarrow> loop_breaker" where
  "observe_compaction b = b\<lparr>lb_compactions := lb_compactions b + 1\<rparr>"

definition begin_round :: "loop_breaker \<Rightarrow> loop_trip + (nat \<times> loop_breaker)" where
  "begin_round b =
     (let cap = max_rounds (lc_budget (lb_contract b)) in
      if cap \<le> lb_rounds_used b then Inl (RoundCap cap)
      else Inr (lb_rounds_used b, b\<lparr>lb_rounds_used := lb_rounds_used b + 1, lb_round_keys := []\<rparr>))"

definition admit_call :: "loop_breaker \<Rightarrow> loop_trip + loop_breaker" where
  "admit_call b =
     (case max_tool_calls (lc_budget (lb_contract b)) of
        Some limit \<Rightarrow>
          if limit \<le> lb_dispatched b then Inl (ToolCallBudget limit)
          else Inr (b\<lparr>lb_dispatched := lb_dispatched b + 1\<rparr>)
      | None \<Rightarrow> Inr (b\<lparr>lb_dispatched := lb_dispatched b + 1\<rparr>))"

definition end_round :: "loop_breaker \<Rightarrow> loop_trip option \<times> loop_breaker" where
  "end_round b =
     (if lb_round_keys b = []
      then (None, b\<lparr>lb_last_round_keys := None, lb_repeated_round_streak := 0\<rparr>)
      else
        let keys = sort (lb_round_keys b);
            streak = (if lb_last_round_keys b = Some keys then lb_repeated_round_streak b + 1 else 1);
            b' = b\<lparr>lb_round_keys := [], lb_repeated_round_streak := streak,
                   lb_last_round_keys := Some keys\<rparr>
        in (case max_repeated_call_streak (lc_budget (lb_contract b)) of
              Some limit \<Rightarrow> if limit \<le> streak then Some (RepeatedRound (length keys) streak) else None
            | None \<Rightarrow> None, b'))"

definition call_key :: "(json \<Rightarrow> rstr) \<Rightarrow> rstr \<Rightarrow> json \<Rightarrow> rstr" where
  "call_key render tool input = tool @ [31] @ canonical_json render input"

definition note_call :: "(json \<Rightarrow> rstr) \<Rightarrow> loop_breaker \<Rightarrow> rstr \<Rightarrow> json \<Rightarrow> loop_breaker" where
  "note_call render b tool input =
     (let key = call_key render tool input;
          seen = (case bt_get (lb_calls_by_tool b) tool of Some n \<Rightarrow> n | None \<Rightarrow> 0)
      in b\<lparr>lb_tool_calls := lb_tool_calls b + 1,
           lb_calls_by_tool := bt_insert tool (seen + 1) (lb_calls_by_tool b),
           lb_round_keys := lb_round_keys b @ [key],
           lb_repeated_call_streak :=
             (if lb_last_call_key b = Some key then lb_repeated_call_streak b + 1 else 1),
           lb_last_call_key := Some key\<rparr>)"

definition note_outcome :: "(nat \<Rightarrow> bool) \<Rightarrow> loop_breaker \<Rightarrow> rstr \<Rightarrow> call_outcome \<Rightarrow> loop_breaker" where
  "note_outcome alnum b tool out =
     (if co_is_error out then
        let key = (tool, error_signature alnum (co_content out))
        in b\<lparr>lb_tool_errors := lb_tool_errors b + 1,
             lb_same_error_streak :=
               (if lb_last_error_key b = Some key then lb_same_error_streak b + 1 else 1),
             lb_last_error_key := Some key\<rparr>
      else b\<lparr>lb_last_error_key := None, lb_same_error_streak := 0\<rparr>)"

definition streak_reached :: "nat option \<Rightarrow> nat \<Rightarrow> bool" where
  "streak_reached limit streak = (case limit of None \<Rightarrow> False | Some l \<Rightarrow> l \<le> streak)"

definition call_trip :: "loop_breaker \<Rightarrow> rstr \<Rightarrow> loop_trip option" where
  "call_trip b tool =
     (let budget = lc_budget (lb_contract b) in
      if streak_reached (max_repeated_call_streak budget) (lb_repeated_call_streak b)
      then Some (RepeatedCall tool (lb_repeated_call_streak b))
      else if streak_reached (max_same_error_streak budget) (lb_same_error_streak b)
      then map_option (\<lambda>key. SameError tool (lb_same_error_streak b) (snd key)) (lb_last_error_key b)
      else None)"

definition observe_call ::
    "(nat \<Rightarrow> bool) \<Rightarrow> (json \<Rightarrow> rstr) \<Rightarrow> loop_breaker \<Rightarrow> rstr \<Rightarrow> json \<Rightarrow> call_outcome \<Rightarrow>
     loop_trip option \<times> loop_breaker" where
  "observe_call alnum render b tool input out =
     (let b' = note_outcome alnum (note_call render b tool input) tool out
      in (call_trip b' tool, b'))"

definition breaker_report :: "loop_breaker \<Rightarrow> loop_termination \<Rightarrow> nat \<Rightarrow> loop_report" where
  "breaker_report b termination elapsed =
     \<lparr>lr_contract = lc_name (lb_contract b), lr_termination = termination,
      lr_rounds_used = lb_rounds_used b, lr_tool_calls = lb_tool_calls b,
      lr_tool_errors = lb_tool_errors b,
      lr_tool_calls_interrupted = lb_dispatched b - lb_tool_calls b,
      lr_compactions = lb_compactions b, lr_calls_by_tool = lb_calls_by_tool b,
      lr_elapsed_ms = millis_u64 elapsed\<rparr>"

section \<open>A run of the breaker\<close>

text \<open>The calls a caller can make on one breaker, in any order; every one of them leaves a state, a
  trip is what the caller is told.\<close>

datatype breaker_op =
    BeginRound
  | AdmitCall
  | ObserveCall rstr json call_outcome
  | EndRound
  | ObserveCompaction

definition breaker_apply ::
    "(nat \<Rightarrow> bool) \<Rightarrow> (json \<Rightarrow> rstr) \<Rightarrow> loop_breaker \<Rightarrow> breaker_op \<Rightarrow> loop_trip option \<times> loop_breaker" where
  "breaker_apply alnum render b op =
     (case op of
        BeginRound \<Rightarrow> (case begin_round b of Inl t \<Rightarrow> (Some t, b) | Inr (_, b') \<Rightarrow> (None, b'))
      | AdmitCall \<Rightarrow> (case admit_call b of Inl t \<Rightarrow> (Some t, b) | Inr b' \<Rightarrow> (None, b'))
      | ObserveCall tool input out \<Rightarrow> observe_call alnum render b tool input out
      | EndRound \<Rightarrow> end_round b
      | ObserveCompaction \<Rightarrow> (None, observe_compaction b))"

definition breaker_step ::
    "(nat \<Rightarrow> bool) \<Rightarrow> (json \<Rightarrow> rstr) \<Rightarrow> loop_breaker \<Rightarrow> breaker_op \<Rightarrow> loop_trip + loop_breaker" where
  "breaker_step alnum render b op = Inr (snd (breaker_apply alnum render b op))"

definition within_budget :: "loop_contract \<Rightarrow> loop_breaker \<Rightarrow> bool" where
  "within_budget c b \<longleftrightarrow> lb_contract b = c \<and>
     lb_rounds_used b \<le> max_rounds (lc_budget c) \<and>
     (case max_tool_calls (lc_budget c) of None \<Rightarrow> True | Some limit \<Rightarrow> lb_dispatched b \<le> limit)"

text \<open>The reference notion of a streak: how many entries at the end of a list equal its last one.\<close>

definition trailing_run :: "'a list \<Rightarrow> nat" where
  "trailing_run xs = length (takeWhile (\<lambda>x. x = last xs) (rev xs))"

type_synonym tool_call = "rstr \<times> json \<times> call_outcome"

fun observe_calls ::
    "(nat \<Rightarrow> bool) \<Rightarrow> (json \<Rightarrow> rstr) \<Rightarrow> loop_breaker \<Rightarrow> tool_call list \<Rightarrow> loop_breaker" where
  "observe_calls alnum render b [] = b"
| "observe_calls alnum render b ((tool, input, out) # cs) =
     observe_calls alnum render (snd (observe_call alnum render b tool input out)) cs"

fun key_of_call :: "(json \<Rightarrow> rstr) \<Rightarrow> tool_call \<Rightarrow> rstr" where
  "key_of_call render (tool, input, out) = call_key render tool input"

fun error_of_call :: "(nat \<Rightarrow> bool) \<Rightarrow> tool_call \<Rightarrow> (rstr \<times> rstr) option" where
  "error_of_call alnum (tool, input, out) =
     (if co_is_error out then Some (tool, error_signature alnum (co_content out)) else None)"

text \<open>Two JSON values that differ only in the order of object keys, at any depth.\<close>

inductive same_json :: "json \<Rightarrow> json \<Rightarrow> bool" where
  same_value: "same_json v v"
| same_array: "list_all2 same_json xs ys \<Longrightarrow> same_json (JArray xs) (JArray ys)"
| same_object: "list_all2 (rel_prod (=) same_json) m n \<Longrightarrow> distinct (map fst m) \<Longrightarrow>
     mset n = mset n' \<Longrightarrow> same_json (JObject m) (JObject n')"

section \<open>Lemmas\<close>

lemma sort_key_perm:
  assumes "mset xs = mset ys" and "distinct (map f xs)"
  shows "sort_key f xs = sort_key f ys"
proof (rule sort_key_inj_key_eq)
  show "mset xs = mset (sort_key f ys)" using assms by simp
  show "inj_on f (set xs)" using assms(2) by (simp add: distinct_map)
  show "sorted (map f (sort_key f ys))" by simp
qed

lemma list_all2_fst_eq: "list_all2 (rel_prod (=) R) m n \<Longrightarrow> map fst m = map fst n"
  by (induction rule: list_all2_induct) auto

lemma canonical_json_same: "same_json a b \<Longrightarrow> canonical_json render a = canonical_json render b"
proof (induction rule: same_json.induct)
  case (same_array xs ys)
  then have "map (canonical_json render) xs = map (canonical_json render) ys"
    by (induction rule: list_all2_induct) auto
  then show ?case by simp
next
  case (same_object m n n')
  let ?c = "\<lambda>kv. (fst kv, canonical_json render (snd kv))"
  from same_object(1) have mn: "map ?c m = map ?c n"
    by (induction rule: list_all2_induct) auto
  have keys: "map fst (map ?c n) = map fst m"
    using list_all2_fst_eq [OF same_object(1)] by simp
  have "sort_key fst (map ?c n) = sort_key fst (map ?c n')"
    using same_object(2,3) keys by (intro sort_key_perm) simp_all
  with mn show ?case by simp
qed simp

lemma trailing_run_snoc:
  "trailing_run (xs @ [x]) = (if xs \<noteq> [] \<and> last xs = x then trailing_run xs + 1 else 1)"
proof (cases "xs = []")
  case False
  then obtain ys y where xs: "xs = ys @ [y]" by (metis rev_exhaust)
  then show ?thesis by (auto simp: trailing_run_def)
qed (simp add: trailing_run_def)

lemma trailing_run_single [simp]: "trailing_run [x] = 1"
  by (simp add: trailing_run_def)

lemma observe_calls_append:
  "observe_calls alnum render b (cs @ ds) =
     observe_calls alnum render (observe_calls alnum render b cs) ds"
  by (induction cs arbitrary: b) auto

lemma observe_calls_contract [simp]:
  "lb_contract (observe_calls alnum render b cs) = lb_contract b"
  by (induction cs arbitrary: b)
    (auto simp: observe_call_def note_call_def note_outcome_def Let_def)

lemma observe_call_streak:
  "lb_repeated_call_streak (snd (observe_call alnum render b tool input out)) =
     (if lb_last_call_key b = Some (call_key render tool input)
      then lb_repeated_call_streak b + 1 else 1)"
  "lb_last_call_key (snd (observe_call alnum render b tool input out)) =
     Some (call_key render tool input)"
  by (simp_all add: observe_call_def note_call_def note_outcome_def Let_def)

lemma observe_call_error:
  "lb_same_error_streak (snd (observe_call alnum render b tool input out)) =
     (case error_of_call alnum (tool, input, out) of
        None \<Rightarrow> 0
      | Some k \<Rightarrow> if lb_last_error_key b = Some k then lb_same_error_streak b + 1 else 1)"
  "lb_last_error_key (snd (observe_call alnum render b tool input out)) =
     error_of_call alnum (tool, input, out)"
  by (simp_all add: observe_call_def note_call_def note_outcome_def Let_def)

lemma new_breaker_streak:
  "(cs = [] \<longrightarrow> lb_last_call_key (observe_calls alnum render (breaker_new c) cs) = None) \<and>
   (cs \<noteq> [] \<longrightarrow>
     lb_repeated_call_streak (observe_calls alnum render (breaker_new c) cs) =
       trailing_run (map (key_of_call render) cs) \<and>
     lb_last_call_key (observe_calls alnum render (breaker_new c) cs) =
       Some (key_of_call render (last cs)))"
proof (induction cs rule: rev_induct)
  case (snoc x xs)
  obtain tool input out where x: "x = (tool, input, out)" by (cases x)
  show ?case
    using snoc by (cases "xs = []")
      (auto simp: x observe_calls_append observe_call_streak trailing_run_snoc last_map)
qed (simp add: breaker_new_def)

lemma new_breaker_errors:
  "lb_last_error_key (observe_calls alnum render (breaker_new c) cs) =
     (if cs = [] then None else error_of_call alnum (last cs)) \<and>
   lb_same_error_streak (observe_calls alnum render (breaker_new c) cs) =
     (if cs = [] \<or> error_of_call alnum (last cs) = None then 0
      else trailing_run (map (error_of_call alnum) cs))"
proof (induction cs rule: rev_induct)
  case (snoc x xs)
  obtain tool input out where x: "x = (tool, input, out)" by (cases x)
  have step: "observe_calls alnum render (breaker_new c) (xs @ [x]) =
      snd (observe_call alnum render (observe_calls alnum render (breaker_new c) xs) tool input out)"
    by (simp add: x observe_calls_append)
  show ?case
    unfolding step observe_call_error
    using snoc by (cases "xs = []") (auto simp: x trailing_run_snoc last_map split: if_splits)
qed (simp add: breaker_new_def)

text \<open>What the trip decision reads, for one call observed after a list of calls on a fresh breaker.\<close>

lemma fresh_observation:
  "fst (observe_call alnum render (observe_calls alnum render (breaker_new c) cs) tool input out) =
   call_trip (observe_calls alnum render (breaker_new c) (cs @ [(tool, input, out)])
     \<lparr>lb_contract := c,
      lb_repeated_call_streak := trailing_run (map (key_of_call render) (cs @ [(tool, input, out)])),
      lb_last_error_key := error_of_call alnum (tool, input, out),
      lb_same_error_streak := (if co_is_error out
        then trailing_run (map (error_of_call alnum) (cs @ [(tool, input, out)])) else 0)\<rparr>) tool"
proof -
  let ?cs = "cs @ [(tool, input, out)]"
  let ?b = "observe_calls alnum render (breaker_new c) ?cs"
  have "?b = ?b\<lparr>lb_contract := c,
      lb_repeated_call_streak := trailing_run (map (key_of_call render) ?cs),
      lb_last_error_key := error_of_call alnum (tool, input, out),
      lb_same_error_streak := (if co_is_error out
        then trailing_run (map (error_of_call alnum) ?cs) else 0)\<rparr>"
    using new_breaker_streak [of ?cs alnum render c] new_breaker_errors [of alnum render c ?cs]
    by (intro loop_breaker.equality) (auto simp: breaker_new_def)
  moreover have "fst (observe_call alnum render (observe_calls alnum render (breaker_new c) cs)
      tool input out) = call_trip ?b tool"
    by (simp add: observe_calls_append) (simp add: observe_call_def Let_def)
  ultimately show ?thesis by metis
qed

lemma breaker_apply_within:
  assumes "within_budget c b"
  shows "within_budget c (snd (breaker_apply alnum render b op))"
  using assms
  by (cases op)
    (auto simp: within_budget_def breaker_apply_def begin_round_def admit_call_def observe_call_def
      note_call_def note_outcome_def end_round_def observe_compaction_def Let_def
      split: option.splits sum.splits)

interpretation breaker: invariant_machine "breaker_step alnum render" "within_budget c"
  for alnum render c
  by unfold_locales (auto simp: breaker_step_def breaker_apply_within)

lemma within_budget_new: "within_budget c (breaker_new c)"
  by (simp add: within_budget_def breaker_new_def split: option.splits)

section \<open>Properties\<close>

text \<open>Canonical JSON does not depend on key order: two values that differ only in the order of
  object keys, at any depth, render to the same string, so the repeated-call detector and the
  governed loop digest treat them as one value.\<close>

theorem canonical_json_key_order:
  assumes "same_json a b"
  shows "canonical_json render a = canonical_json render b"
  using assms by (rule canonical_json_same)

theorem canonical_json_key_order_witness:
  "canonical_json (\<lambda>v. case v of JString s \<Rightarrow> s | JNumber n \<Rightarrow> n | _ \<Rightarrow> [])
      (JObject [(lit ''b'', JNumber (lit ''1'')), (lit ''a'', JArray [JString (lit ''x'')])]) =
   canonical_json (\<lambda>v. case v of JString s \<Rightarrow> s | JNumber n \<Rightarrow> n | _ \<Rightarrow> [])
      (JObject [(lit ''a'', JArray [JString (lit ''x'')]), (lit ''b'', JNumber (lit ''1''))])"
proof (rule canonical_json_key_order)
  show "same_json
      (JObject [(lit ''b'', JNumber (lit ''1'')), (lit ''a'', JArray [JString (lit ''x'')])])
      (JObject [(lit ''a'', JArray [JString (lit ''x'')]), (lit ''b'', JNumber (lit ''1''))])"
    by (rule same_object [where
          n = "[(lit ''b'', JNumber (lit ''1'')), (lit ''a'', JArray [JString (lit ''x'')])]"])
      (auto intro: same_json.intros simp: lit_def)
qed

text \<open>The repeated-call detector is exact: on a fresh breaker, observing one more tool call
  returns a repeated-call trip exactly when the limit is set and the run of identical calls at
  the end of everything observed so far, the new call included, has reached it; the trip names
  the tool and that run's length.\<close>

theorem repeated_call_trip_exact:
  "fst (observe_call alnum render (observe_calls alnum render (breaker_new c) cs) tool input out) =
     Some (RepeatedCall t n) \<longleftrightarrow>
   t = tool \<and> n = trailing_run (map (key_of_call render) (cs @ [(tool, input, out)])) \<and>
   streak_reached (max_repeated_call_streak (lc_budget c)) n"
  unfolding fresh_observation by (auto simp: call_trip_def Let_def split: if_splits)

text \<open>The same-error detector is exact: when the repeated-call detector stays quiet, observing one
  more call trips on a repeated error exactly when that call failed and the run of calls at the end
  that failed in the same tool with the same bounded signature has reached the limit; one success or
  one different failure resets the run.\<close>

theorem same_error_trip_exact:
  "fst (observe_call alnum render (observe_calls alnum render (breaker_new c) cs) tool input out) =
     Some (SameError t n sig) \<longleftrightarrow>
   \<not> streak_reached (max_repeated_call_streak (lc_budget c))
       (trailing_run (map (key_of_call render) (cs @ [(tool, input, out)]))) \<and>
   (let run = (if co_is_error out
               then trailing_run (map (error_of_call alnum) (cs @ [(tool, input, out)])) else 0)
    in co_is_error out \<and> t = tool \<and> n = run \<and> sig = error_signature alnum (co_content out) \<and>
       streak_reached (max_same_error_streak (lc_budget c)) run)"
  unfolding fresh_observation by (auto simp: call_trip_def Let_def split: if_splits)

text \<open>The breaker stops every loop: whatever calls a caller makes on a fresh breaker, in any
  order, it never admits more rounds than the round cap nor more tool calls than the tool-call
  budget of its contract, and the contract itself never changes.\<close>

theorem breaker_never_exceeds_budget:
  "within_budget c (serve (breaker_step alnum render) (breaker_new c) ops)"
  by (rule breaker.serve_inv) (rule within_budget_new)

end
