(* ===== verification/Governed_Mutation.thy ===== *)
theory Governed_Mutation
  imports Governed_Contract Loop_Contract
begin

text \<open>
  The transition function of a governed task (\<open>src/state/governed_task.rs\<close>, \<open>apply_mutation\<close>):
  the guards and effects of each of the twelve mutations, the governed Builder loop contract a
  staged claim is admitted under, and the rules for promotion and discard.  One definition per
  arm, composed by \<open>apply_mutation\<close> the way the source's \<open>match\<close> does.

  A failing mutation leaves the caller's record untouched: the source applies it to a clone that
  is dropped on error, so an error is all the model returns.
\<close>

section \<open>Errors and ambient inputs\<close>

datatype presented_generation = Missing | Stale nat

text \<open>\<open>Anyhow\<close> is an untyped error with its message, \<open>WithContext\<close> an error wrapped by
  \<open>anyhow::Context\<close>, \<open>Panic\<close> a failed \<open>expect\<close>.\<close>

datatype state_error =
    Contract contract_error
  | NotFound rstr
  | AlreadyExists rstr
  | ProjectMismatch rstr rstr
  | WorkspaceMismatch rstr rstr
  | RevisionConflict nat nat
  | IdempotencyConflict rstr rstr
  | IdempotencyPayloadConflict rstr
  | InvalidTransition rstr
  | Fenced rstr presented_generation nat
  | LoopContractError loop_contract_error
  | Anyhow rstr
  | WithContext rstr state_error
  | Panic rstr

text \<open>
  Code outside the repository, as parameters: \<open>chrono\<close>'s RFC 3339 parser (nanoseconds since the
  epoch), the Unicode alphanumeric table, SHA-256 as lowercase hex, and the \<open>serde\<close> renderings
  of scalars, loop reports, mutations and registrations.
\<close>

record env =
  parse_rfc3339 :: "rstr \<Rightarrow> int option"
  is_alphanumeric :: "nat \<Rightarrow> bool"
  sha256_hex :: "nat list \<Rightarrow> rstr"
  json_render :: "json \<Rightarrow> rstr"
  loop_report_json :: "loop_report \<Rightarrow> json"
  mutation_bytes :: "rstr \<Rightarrow> rstr \<Rightarrow> mutation \<Rightarrow> nat list"
  registration_bytes :: "registration \<Rightarrow> nat list"

record replayed_claim =
  rp_digest :: "rstr option"
  rp_version :: "nat option"
  rp_tripped :: bool

text \<open>The mutation context, with the two UUID draws a mutation can make (its record, its event).\<close>

record mutation_context =
  mc_now :: rstr
  mc_auth :: operator_authentication
  mc_replay_claim :: "replayed_claim option"
  mc_is_replay :: bool
  mc_record_uuid :: rstr
  mc_event_uuid :: rstr

definition live_context :: "rstr \<Rightarrow> operator_authentication \<Rightarrow> rstr \<Rightarrow> rstr \<Rightarrow> mutation_context" where
  "live_context now auth record_uuid event_uuid =
     \<lparr>mc_now = now, mc_auth = auth, mc_replay_claim = None, mc_is_replay = False,
      mc_record_uuid = record_uuid, mc_event_uuid = event_uuid\<rparr>"

section \<open>Shared guards\<close>

definition MAX_REASON_BYTES :: nat where "MAX_REASON_BYTES = 16 * 1024"

definition GOVERNED_VERIFICATION_TOOL :: rstr where
  "GOVERNED_VERIFICATION_TOOL = lit ''governed_verification''"

definition transition_guard :: "bool \<Rightarrow> rstr \<Rightarrow> state_error + unit" where
  "transition_guard ok message = ensure ok (InvalidTransition message)"

definition require_capacity :: "string \<Rightarrow> nat \<Rightarrow> nat \<Rightarrow> state_error + unit" where
  "require_capacity label current maximum = transition_guard (current < maximum)
     (lit label @ lit '' reached its limit of '' @ dec maximum)"

definition require_bounded_text :: "string \<Rightarrow> rstr \<Rightarrow> nat \<Rightarrow> state_error + unit" where
  "require_bounded_text label value max_bytes = transition_guard (text_ok value max_bytes)
     (lit label @ lit '' must be nonblank, NUL-free, and at most '' @ dec max_bytes @ lit '' bytes'')"

definition require_text :: "string \<Rightarrow> rstr \<Rightarrow> state_error + unit" where
  "require_text label value = require_bounded_text label value MAX_REASON_BYTES"

fun actor_kind_str :: "actor_kind \<Rightarrow> rstr" where
  "actor_kind_str System = lit ''System''"
| "actor_kind_str Worker = lit ''Worker''"
| "actor_kind_str Verifier = lit ''Verifier''"
| "actor_kind_str Supervisor = lit ''Supervisor''"
| "actor_kind_str Operator = lit ''Operator''"

definition require_actor :: "governed_actor \<Rightarrow> actor_kind \<Rightarrow> state_error + unit" where
  "require_actor actor expected = checks
     [transition_guard (ac_kind actor = expected) (lit ''actor kind '' @ actor_kind_str (ac_kind actor) @
        lit '' cannot perform '' @ actor_kind_str expected @ lit '' transition''),
      require_text ''actor id'' (ac_id actor)]"

definition validate_reference_ids :: "string \<Rightarrow> rstr list \<Rightarrow> state_error + unit" where
  "validate_reference_ids label references = checks
     (transition_guard (length references \<le> MAX_GOVERNED_REFERENCES)
        (lit label @ lit '' must contain at most '' @ dec MAX_GOVERNED_REFERENCES @ lit '' entries'') #
      map (\<lambda>r. require_bounded_text label r MAX_GOVERNED_REFERENCE_BYTES) references)"

definition project_relative :: "rstr \<Rightarrow> bool" where
  "project_relative value \<longleftrightarrow> \<not> (path_is_absolute value \<or>
     list_ex (\<lambda>c. c = ParentDir \<or> c = RootDir) (path_components value))"

definition require_project_relative_ref :: "string \<Rightarrow> rstr \<Rightarrow> state_error + unit" where
  "require_project_relative_ref label value = checks
     [require_bounded_text label value MAX_GOVERNED_REFERENCE_BYTES,
      transition_guard (project_relative value)
        (lit label @ lit '' must be a project-local relative reference'')]"

definition require_sha256_digest :: "string \<Rightarrow> rstr \<Rightarrow> state_error + unit" where
  "require_sha256_digest label value =
     (case strip_prefix (lit ''sha256:'') value of
        None \<Rightarrow> Inl (InvalidTransition (lit label @ lit '' must use the sha256:<hex> format''))
      | Some hex \<Rightarrow> transition_guard (byte_len hex = 64 \<and> list_all is_ascii_hexdigit (utf8 hex))
          (lit label @ lit '' must contain exactly 64 hexadecimal SHA-256 characters''))"

definition require_commit_oid :: "string \<Rightarrow> rstr \<Rightarrow> state_error + unit" where
  "require_commit_oid label value = transition_guard (commit_oid value)
     (lit label @ lit '' must be a 40- or 64-character lowercase hexadecimal Git commit OID'')"

definition require_shared_config_digest :: "shared_config_pin \<Rightarrow> state_error + unit" where
  "require_shared_config_digest pin =
     (case pin_recorded pin of
        None \<Rightarrow> Inr ()
      | Some d \<Rightarrow> checks
          [require_sha256_digest ''staged worktree repository config digest'' (repository_config d),
           (case worktree_config d of None \<Rightarrow> Inr ()
            | Some c \<Rightarrow> require_sha256_digest ''staged worktree worktree-config digest'' c),
           (case info_attributes d of None \<Rightarrow> Inr ()
            | Some c \<Rightarrow> require_sha256_digest ''staged worktree info-attributes digest'' c)])"

definition new_record_id :: "string \<Rightarrow> rstr \<Rightarrow> rstr" where
  "new_record_id pre uuid = lit pre @ lit ''-'' @ uuid"

definition new_event ::
    "mutation_context \<Rightarrow> nat \<Rightarrow> event_kind \<Rightarrow> governed_actor \<Rightarrow> rstr \<Rightarrow> governed_event" where
  "new_event ctx rev_no kind actor detail =
     \<lparr>ev_id = new_record_id ''event'' (mc_event_uuid ctx), ev_revision = rev_no, ev_kind = kind,
      ev_actor = actor, ev_detail = detail, ev_created_at = mc_now ctx\<rparr>"

definition push_event :: "governed_event \<Rightarrow> run \<Rightarrow> run" where
  "push_event e t = t\<lparr>events := events t @ [e]\<rparr>"

section \<open>The governed Builder loop contract\<close>

definition verification_failure_signature :: "verification_record \<Rightarrow> rstr option" where
  "verification_failure_signature v =
     (if vf_outcome v \<noteq> Failed then None
      else case find (\<lambda>c. \<not> ce_success c) (vf_commands v) of
          Some c \<Rightarrow> Some (ce_name c)
        | None \<Rightarrow> (case vf_notes v of Some n \<Rightarrow> Some n | None \<Rightarrow> Some (vf_policy v)))"

fun failure_streak_loop ::
    "rstr option \<Rightarrow> nat \<Rightarrow> verification_record list \<Rightarrow> rstr option \<times> nat" where
  "failure_streak_loop signature streak [] = (signature, streak)"
| "failure_streak_loop signature streak (v # vs) =
     (case verification_failure_signature v of
        None \<Rightarrow> (signature, streak)
      | Some current \<Rightarrow>
          (case signature of
             None \<Rightarrow> failure_streak_loop (Some current) 1 vs
           | Some previous \<Rightarrow>
               if previous = current then failure_streak_loop signature (streak + 1) vs
               else (signature, streak)))"

definition trailing_verification_failure_streak :: "run \<Rightarrow> (rstr \<times> nat) option" where
  "trailing_verification_failure_streak t =
     (case failure_streak_loop None 0 (rev (verifications t)) of
        (None, _) \<Rightarrow> None
      | (Some signature, streak) \<Rightarrow> Some (signature, streak))"

text \<open>Whole milliseconds, never negative, as a duration in nanoseconds.\<close>

definition elapsed_between :: "env \<Rightarrow> rstr \<Rightarrow> rstr \<Rightarrow> state_error + nat" where
  "elapsed_between E start finish =
     and_then (ok_or (parse_rfc3339 E start) (Anyhow (lit
       ''governed task creation timestamp must be a valid RFC 3339 timestamp''))) (\<lambda>s.
     and_then (ok_or (parse_rfc3339 E finish) (Anyhow (lit
       ''governed task event timestamp must be a valid RFC 3339 timestamp''))) (\<lambda>e.
     Inr (nat (e - s) div 10 ^ 6 * 10 ^ 6)))"

definition current_governed_loop_version :: nat where
  "current_governed_loop_version = GOVERNED_BUILDER_LOOP_VERSION"

definition governed_loop_report_digest :: "env \<Rightarrow> loop_report \<Rightarrow> nat \<Rightarrow> rstr" where
  "governed_loop_report_digest E report version =
     lit ''sha256:'' @ sha256_hex E
       (utf8 (lit ''impulse-governed-loop-report-v'') @ utf8 (dec version) @ [0] @
        utf8 (canonical_json (json_render E) (loop_report_json E report)))"

record governed_loop_state =
  ls_trip :: "loop_trip option"
  ls_digest :: rstr
  ls_version :: nat

definition governed_observation :: "run \<Rightarrow> nat \<Rightarrow> loop_observation" where
  "governed_observation t elapsed =
     \<lparr>ob_rounds_used = length (claims t), ob_elapsed = elapsed,
      ob_same_error = map_option (\<lambda>(signature, streak).
         \<lparr>se_tool = GOVERNED_VERIFICATION_TOOL, se_streak = streak, se_signature = signature\<rparr>)
         (trailing_verification_failure_streak t)\<rparr>"

definition governed_loop_report :: "run \<Rightarrow> nat \<Rightarrow> loop_trip option \<Rightarrow> loop_report" where
  "governed_loop_report t elapsed trip =
     \<lparr>lr_contract = lc_name governed_builder_contract,
      lr_termination = (case trip of Some tr \<Rightarrow> Tripped tr | None \<Rightarrow> Completed),
      lr_rounds_used = saturating_add_u64 (length (claims t)) 1,
      lr_tool_calls = length (verifications t),
      lr_tool_errors = length (filter (\<lambda>v. vf_outcome v \<noteq> Passed) (verifications t)),
      lr_tool_calls_interrupted = 0, lr_compactions = 0, lr_calls_by_tool = bt_empty,
      lr_elapsed_ms = millis_u64 elapsed\<rparr>"

definition governed_builder_loop_state ::
    "env \<Rightarrow> run \<Rightarrow> rstr \<Rightarrow> replayed_claim option \<Rightarrow> state_error + governed_loop_state option" where
  "governed_builder_loop_state E t now replay =
     (let computed =
        and_then (map_err (\<lambda>e. WithContext (lit ''governed Builder loop contract is unusable'')
            (LoopContractError e)) (loop_contract_validate governed_builder_contract)) (\<lambda>_.
        and_then (elapsed_between E (created_at t) now) (\<lambda>elapsed.
          let trip = evaluate_observed (is_alphanumeric E) (lc_budget governed_builder_contract)
                       (governed_observation t elapsed);
              version = current_governed_loop_version
          in Inr (Some \<lparr>ls_trip = trip,
               ls_digest = governed_loop_report_digest E (governed_loop_report t elapsed trip) version,
               ls_version = version\<rparr>)))
      in
      if world_scope t \<noteq> StagedAuthoritative then Inr None
      else case replay of
          None \<Rightarrow> computed
        | Some rp \<Rightarrow>
            if rp_version rp = Some current_governed_loop_version then computed
            else (case (rp_digest rp, rp_version rp) of
                (Some digest, Some version) \<Rightarrow>
                  Inr (Some \<lparr>ls_trip = (if rp_tripped rp then Some (RoundCap (length (claims t))) else None),
                       ls_digest = digest, ls_version = version\<rparr>)
              | _ \<Rightarrow> Inr None))"

section \<open>Promotion and discard rules\<close>

datatype promotion_precondition_failure =
    CapacityExhausted nat
  | NotStagedScope
  | NotAccepted
  | NoActiveStagedWorktree
  | NoClaim
  | AlreadyPromoted

fun show_precondition_failure :: "promotion_precondition_failure \<Rightarrow> rstr" where
  "show_precondition_failure (CapacityExhausted limit) =
     lit ''governed promotions reached its limit of '' @ dec limit"
| "show_precondition_failure NotStagedScope =
     lit ''only a staged_authoritative world scope promotes an outcome''"
| "show_precondition_failure NotAccepted = lit ''promotion requires an accepted governed task''"
| "show_precondition_failure NoActiveStagedWorktree =
     lit ''promotion requires an active staged worktree''"
| "show_precondition_failure NoClaim = lit ''promotion requires an accepted worker claim''"
| "show_precondition_failure AlreadyPromoted = lit ''this governed outcome was already promoted''"

definition record_promotion_preconditions_hold :: "run \<Rightarrow> promotion_precondition_failure + unit" where
  "record_promotion_preconditions_hold t = checks
     [ensure (length (promotions t) < MAX_GOVERNED_RECORDS_PER_KIND)
        (CapacityExhausted MAX_GOVERNED_RECORDS_PER_KIND),
      ensure (world_scope t = StagedAuthoritative) NotStagedScope,
      ensure (review_state t = Accepted) NotAccepted,
      ensure (active_staged_worktree t \<noteq> None) NoActiveStagedWorktree,
      ensure (latest_claim t \<noteq> None) NoClaim,
      ensure (\<not> (case latest_promotion t of None \<Rightarrow> False | Some p \<Rightarrow> is_promoted (pr_outcome p)))
        AlreadyPromoted]"

definition staged_worktree_is_discardable :: "run \<Rightarrow> bool" where
  "staged_worktree_is_discardable t =
     (if execution_state t = LaunchFailed then True
      else if execution_state t = RuntimeExited \<and> review_state t = AwaitingClaim then True
      else
        let builder_still_working =
              execution_state t = Running \<and> review_state t \<notin> {Accepted, Rejected, Escalated}
        in
        if \<not> builder_still_working \<and>
           (case staged_worktree t of None \<Rightarrow> False | Some s \<Rightarrow> \<not> is_comparable (st_pin s))
        then True
        else case review_state t of
            Rejected \<Rightarrow> True
          | Escalated \<Rightarrow> True
          | Accepted \<Rightarrow> latest_promotion t \<noteq> None
          | _ \<Rightarrow> False)"

fun promotion_summary :: "promotion_outcome \<Rightarrow> rstr" where
  "promotion_summary (Promoted oid) = lit ''promoted to '' @ oid"
| "promotion_summary (PromotionBlocked head reason) =
     lit ''blocked ('' @ show_blocked_reason reason @ lit ''); canonical head is '' @ head"

definition validate_promotion_outcome :: "promotion_input \<Rightarrow> state_error + unit" where
  "validate_promotion_outcome p = checks
     [require_commit_oid ''promotion accepted revision'' (pi_accepted p),
      require_commit_oid ''promotion initial subject revision'' (pi_initial p),
      (case pi_outcome p of
         Promoted oid \<Rightarrow> checks
           [require_commit_oid ''promoted revision'' oid,
            transition_guard (oid = pi_accepted p) (lit
              ''a promoted outcome must land exactly the accepted subject revision'')]
       | PromotionBlocked head reason \<Rightarrow> checks
           [require_commit_oid ''blocked canonical head'' head,
            transition_guard (\<not> (reason \<in> {CanonicalHeadMoved, ConcurrentBranchUpdate} \<and>
                head = pi_initial p)) (lit
              ''a promotion is blocked on a moved head only when that head differs from the initial OID'')])]"

definition require_expected_staged_root :: "run \<Rightarrow> rstr \<Rightarrow> state_error + unit" where
  "require_expected_staged_root t root =
     and_then (map_err Contract (expected_staged_worktree_root t)) (\<lambda>expected.
       transition_guard (path_is_absolute root \<and> path_eq root expected)
         (lit ''staged worktree root must be the daemon-derived path '' @ expected))"

section \<open>The arms of the transition function\<close>

definition apply_materialize ::
    "run \<Rightarrow> staged_input \<Rightarrow> nat \<Rightarrow> mutation_context \<Rightarrow> state_error + run" where
  "apply_materialize t staged rev_no ctx =
     and_then (checks
       [require_actor (si_actor staged) System,
        transition_guard (world_scope t = StagedAuthoritative) (lit
          ''only a staged_authoritative world scope materializes a staged worktree''),
        transition_guard (staged_worktree t = None) (lit ''staged worktree was already materialized''),
        transition_guard (execution_state t = Registered) (lit
          ''staged worktree must be materialized before the runtime launches''),
        (case initial_subject_revision t of
           None \<Rightarrow> Inl (InvalidTransition (lit
             ''staged world scope lost its registered initial Git OID''))
         | Some initial \<Rightarrow> transition_guard (si_initial staged = initial) (lit
             ''staged worktree must be materialized at the registered initial Git OID'')),
        require_expected_staged_root t (si_root staged),
        require_shared_config_digest (si_pin staged)]) (\<lambda>_.
     let rid = new_record_id ''staged-worktree'' (mc_record_uuid ctx) in
     Inr (push_event (new_event ctx rev_no EvStagedWorktreeMaterialized (si_actor staged)
            (lit ''staged worktree '' @ rid @ lit '' materialized''))
          (t\<lparr>staged_worktree := Some
             \<lparr>st_id = rid, st_actor = si_actor staged, st_root = si_root staged,
              st_initial = si_initial staged, st_pin = si_pin staged, st_status = Active,
              st_materialized_at = mc_now ctx, st_based_on = revision t\<rparr>\<rparr>)))"

definition apply_discard ::
    "run \<Rightarrow> governed_actor \<Rightarrow> rstr \<Rightarrow> nat \<Rightarrow> mutation_context \<Rightarrow> state_error + run" where
  "apply_discard t actor reason rev_no ctx =
     and_then (checks
       [require_actor actor System,
        require_text ''staged worktree discard reason'' reason,
        (case staged_worktree t of
           None \<Rightarrow> Inl (InvalidTransition (lit ''task has no staged worktree to discard''))
         | Some s \<Rightarrow> transition_guard (st_status s = Active) (lit
             ''staged worktree was already discarded'')),
        transition_guard (staged_worktree_is_discardable t) (lit
          ''a staged worktree is discarded only after rejection or a completed promotion'')]) (\<lambda>_.
     Inr (push_event (new_event ctx rev_no EvStagedWorktreeDiscarded actor reason)
          (t\<lparr>staged_worktree := map_option (\<lambda>s. s\<lparr>st_status := Discarded\<rparr>) (staged_worktree t)\<rparr>)))"

definition apply_promotion ::
    "run \<Rightarrow> promotion_input \<Rightarrow> nat \<Rightarrow> mutation_context \<Rightarrow> state_error + run" where
  "apply_promotion t p rev_no ctx =
     and_then (map_err (\<lambda>f. InvalidTransition (show_precondition_failure f))
       (record_promotion_preconditions_hold t)) (\<lambda>_.
     and_then (require_actor (pi_actor p) System) (\<lambda>_.
     and_then (ok_or (active_staged_worktree t)
       (Panic (lit ''precondition proved an active staged worktree''))) (\<lambda>staged.
     and_then (transition_guard (pi_initial p = st_initial staged) (lit
       ''promotion must reference the staged worktree's initial Git OID'')) (\<lambda>_.
     and_then (ok_or (latest_claim t)
       (Panic (lit ''precondition proved a current worker claim''))) (\<lambda>claim.
     and_then (transition_guard (pi_accepted p = cl_subject claim) (lit
       ''promotion must reference the accepted claim's subject revision'')) (\<lambda>_.
     and_then (validate_promotion_outcome p) (\<lambda>_.
     let rid = new_record_id ''promotion'' (mc_record_uuid ctx) in
     Inr (push_event (new_event ctx rev_no EvPromotionRecorded (pi_actor p)
            (lit ''promotion '' @ rid @ lit '' recorded as '' @ promotion_summary (pi_outcome p)))
          (t\<lparr>promotions := promotions t @
             [\<lparr>pr_id = rid, pr_actor = pi_actor p, pr_accepted = pi_accepted p,
               pr_initial = pi_initial p, pr_outcome = pi_outcome p, pr_recorded_at = mc_now ctx,
               pr_based_on = revision t\<rparr>]\<rparr>)))))))))"

definition apply_takeover ::
    "run \<Rightarrow> governed_actor \<Rightarrow> rstr \<Rightarrow> nat \<Rightarrow> mutation_context \<Rightarrow> state_error + run" where
  "apply_takeover t actor reason rev_no ctx =
     and_then (checks
       [transition_guard (ac_kind actor \<in> {System, Operator}) (lit
          ''only the daemon or an operator can take over a worker lease''),
        require_text ''worker takeover reason'' reason,
        transition_guard (execution_state t = Running) (lit
          ''a worker lease is taken over only while the run is running''),
        transition_guard (review_state t \<notin> {Accepted, Rejected}) (lit
          ''a settled review has no worker lease to take over''),
        transition_guard (\<not> (\<not> mc_is_replay ctx \<and> review_state t \<in>
            {AwaitingVerification, AwaitingSupervisor, AwaitingOperator, Escalated})) (lit
          ''a claim is under review; take over only after it is sent back''),
        transition_guard (\<not> (requires_staged_worktree (world_scope t) \<and>
            active_staged_worktree t = None)) (lit
          ''a staged_authoritative takeover requires an active staged worktree'')]) (\<lambda>_.
     Inr (push_event (new_event ctx rev_no EvWorkerTakenOver actor reason) t))"

definition apply_running ::
    "run \<Rightarrow> governed_actor \<Rightarrow> nat \<Rightarrow> mutation_context \<Rightarrow> state_error + run" where
  "apply_running t actor rev_no ctx =
     and_then (checks
       [require_actor actor System,
        transition_guard (execution_state t = Registered) (lit
          ''only a registered task can start running''),
        (if \<not> mc_is_replay ctx \<and> world_scope t = StagedAuthoritative
         then (case active_staged_worktree t of
             None \<Rightarrow> Inl (InvalidTransition (lit
               ''a staged_authoritative task starts running only after its staged worktree is materialized''))
           | Some s \<Rightarrow> transition_guard (is_comparable (st_pin s)) (lit
               ''the staged worktree's shared-repository-configuration pin cannot be compared by this build; discard the staged worktree and re-materialize it before starting the runtime''))
         else Inr ())]) (\<lambda>_.
     Inr (push_event (new_event ctx rev_no EvRunning actor (lit ''runtime launch acknowledged''))
          (t\<lparr>execution_state := Running\<rparr>)))"

definition apply_launch_failed ::
    "run \<Rightarrow> governed_actor \<Rightarrow> rstr \<Rightarrow> nat \<Rightarrow> mutation_context \<Rightarrow> state_error + run" where
  "apply_launch_failed t actor reason rev_no ctx =
     and_then (checks
       [require_actor actor System,
        require_text ''launch failure reason'' reason,
        transition_guard (execution_state t = Registered) (lit
          ''launch failure requires a registered task'')]) (\<lambda>_.
     Inr (push_event (new_event ctx rev_no EvLaunchFailed actor reason)
          (t\<lparr>execution_state := LaunchFailed\<rparr>)))"

definition exit_detail :: "rstr option \<Rightarrow> rstr" where
  "exit_detail reason = (case reason of Some r \<Rightarrow> r | None \<Rightarrow> lit ''runtime exited'')"

definition apply_runtime_exited ::
    "run \<Rightarrow> governed_actor \<Rightarrow> rstr option \<Rightarrow> exit_kind_kind \<Rightarrow> nat \<Rightarrow> mutation_context \<Rightarrow>
     state_error + run" where
  "apply_runtime_exited t actor reason kind rev_no ctx =
     and_then (checks
       [require_actor actor System,
        transition_guard (execution_state t = Running) (lit ''runtime exit requires a running task''),
        (case reason of None \<Rightarrow> Inr () | Some r \<Rightarrow> require_text ''runtime exit reason'' r)]) (\<lambda>_.
     Inr (push_event (new_event ctx rev_no EvRuntimeExited actor (exit_detail reason))
          (t\<lparr>execution_state := RuntimeExited, exit_kind := kind\<rparr>)))"

definition claim_guards :: "run \<Rightarrow> claim_input \<Rightarrow> mutation_context \<Rightarrow> state_error + unit" where
  "claim_guards t c ctx = checks
     [require_capacity ''worker claims'' (length (claims t)) MAX_GOVERNED_RECORDS_PER_KIND,
      require_actor (ci_actor c) Worker,
      transition_guard (ac_id (ci_actor c) = agent_id t) (lit
        ''worker claim actor does not match assigned agent''),
      transition_guard (execution_state t \<in> {Running, RuntimeExited}) (lit
        ''claim requires a launched or exited runtime''),
      transition_guard (\<not> (\<not> mc_is_replay ctx \<and> exit_kind t = OperatorCancelled)) (lit
        ''run was cancelled; claim refused''),
      transition_guard (review_state t \<in> {AwaitingClaim, ChangesRequested, VerificationFailed}) (lit
        ''review state does not accept a worker claim''),
      transition_guard (\<not> (\<not> mc_is_replay ctx \<and> requires_staged_worktree (world_scope t) \<and>
          active_staged_worktree t = None)) (lit
        ''a staged_authoritative claim requires an active staged worktree''),
      require_text ''claim summary'' (ci_summary c),
      require_bounded_text ''claim subject revision'' (ci_subject c) MAX_GOVERNED_REFERENCE_BYTES,
      validate_reference_ids ''claim artifact ids'' (ci_artifacts c),
      (case ci_diff_ref c of None \<Rightarrow> Inr ()
       | Some d \<Rightarrow> require_project_relative_ref ''claim diff ref'' d)]"

definition claim_record_of ::
    "run \<Rightarrow> claim_input \<Rightarrow> governed_loop_state option \<Rightarrow> mutation_context \<Rightarrow> claim_record" where
  "claim_record_of t c ls ctx =
     \<lparr>cl_id = new_record_id ''claim'' (mc_record_uuid ctx), cl_actor = ci_actor c,
      cl_summary = ci_summary c, cl_subject = ci_subject c, cl_artifacts = ci_artifacts c,
      cl_diff_ref = ci_diff_ref c, cl_loop_digest = map_option ls_digest ls,
      cl_loop_version = map_option ls_version ls, cl_submitted_at = mc_now ctx,
      cl_based_on = revision t\<rparr>"

definition apply_claim ::
    "env \<Rightarrow> run \<Rightarrow> claim_input \<Rightarrow> nat \<Rightarrow> mutation_context \<Rightarrow> state_error + run" where
  "apply_claim E t c rev_no ctx =
     and_then (claim_guards t c ctx) (\<lambda>_.
     and_then (governed_builder_loop_state E t (mc_now ctx) (mc_replay_claim ctx)) (\<lambda>ls.
     let rid = new_record_id ''claim'' (mc_record_uuid ctx);
         t' = t\<lparr>claims := claims t @ [claim_record_of t c ls ctx]\<rparr>
     in case Option.bind ls ls_trip of
          Some trip \<Rightarrow>
            Inr (push_event (new_event ctx rev_no EvLoopTripped (ci_actor c)
                   (lit ''worker completion claim '' @ rid @
                    lit '' tripped the governed Builder loop contract: '' @ show_trip trip))
                 (t'\<lparr>review_state := Escalated\<rparr>))
        | None \<Rightarrow>
            Inr (push_event (new_event ctx rev_no EvClaimSubmitted (ci_actor c)
                   (lit ''worker completion claim '' @ rid @ lit '' submitted''))
                 (t'\<lparr>review_state := AwaitingVerification\<rparr>))))"

definition validate_command :: "command_evidence \<Rightarrow> state_error + unit" where
  "validate_command c = checks
     ([require_bounded_text ''verification command name'' (ce_name c) MAX_GOVERNED_REFERENCE_BYTES,
       require_bounded_text ''verification command executable'' (ce_executable c)
         MAX_GOVERNED_REFERENCE_BYTES,
       transition_guard (length (ce_redacted_args c) \<le> MAX_GOVERNED_COMMAND_ARGS)
         (lit ''verification command evidence must contain at most '' @
          dec MAX_GOVERNED_COMMAND_ARGS @ lit '' redacted arguments'')] @
      map (\<lambda>a. transition_guard (0 \<notin> set a \<and> byte_len a \<le> MAX_GOVERNED_COMMAND_ARG_BYTES)
         (lit ''verification command arguments must be NUL-free and at most '' @
          dec MAX_GOVERNED_COMMAND_ARG_BYTES @ lit '' bytes'')) (ce_redacted_args c) @
      [require_sha256_digest ''verification command digest'' (ce_command_digest c),
       transition_guard
         (case (ce_success c, ce_exit_code c) of
            (True, Some code) \<Rightarrow> code = 0
          | (True, None) \<Rightarrow> False
          | (False, None) \<Rightarrow> True
          | (False, Some code) \<Rightarrow> code \<noteq> 0)
         (lit ''verification command success must agree with its process exit code''),
       require_sha256_digest ''verification output digest'' (ce_output_digest c),
       (case ce_output_ref c of None \<Rightarrow> Inr ()
        | Some r \<Rightarrow> require_project_relative_ref ''verification output ref'' r)])"

definition validate_verification :: "verification_input \<Rightarrow> state_error + unit" where
  "validate_verification v = checks
     ([require_bounded_text ''verification subject revision'' (vi_subject v)
         MAX_GOVERNED_REFERENCE_BYTES,
       require_bounded_text ''verification policy'' (vi_policy v) MAX_GOVERNED_REFERENCE_BYTES,
       transition_guard (length (vi_commands v) \<le> MAX_GOVERNED_COMMANDS)
         (lit ''verification commands must contain at most '' @ dec MAX_GOVERNED_COMMANDS @
          lit '' entries''),
       validate_reference_ids ''verification artifact ids'' (vi_artifacts v),
       (case vi_notes v of None \<Rightarrow> Inr () | Some n \<Rightarrow> require_text ''verification notes'' n),
       transition_guard (\<not> (vi_outcome v \<in> {Passed, Failed} \<and> vi_commands v = [])) (lit
         ''passed or failed verification requires command evidence''),
       transition_guard (\<not> (vi_outcome v = Passed \<and> list_ex (\<lambda>c. \<not> ce_success c) (vi_commands v)))
         (lit ''passing verification cannot contain failed commands''),
       transition_guard (\<not> (vi_outcome v = Failed \<and> list_all ce_success (vi_commands v))) (lit
         ''failed verification requires at least one failed command'')] @
      map validate_command (vi_commands v))"

fun outcome_str :: "verification_outcome \<Rightarrow> rstr" where
  "outcome_str Passed = lit ''Passed''"
| "outcome_str Failed = lit ''Failed''"
| "outcome_str Inconclusive = lit ''Inconclusive''"

definition apply_verification ::
    "run \<Rightarrow> verification_input \<Rightarrow> nat \<Rightarrow> mutation_context \<Rightarrow> state_error + run" where
  "apply_verification t v rev_no ctx =
     and_then (checks
       [require_capacity ''verification records'' (length (verifications t))
          MAX_GOVERNED_RECORDS_PER_KIND,
        require_actor (vi_actor v) Verifier,
        transition_guard (review_state t = AwaitingVerification) (lit
          ''verification requires an awaiting-verification task''),
        (case latest_claim t of
           None \<Rightarrow> Inl (InvalidTransition (lit ''verification requires a worker claim''))
         | Some c \<Rightarrow> checks
             [transition_guard (vi_claim_id v = cl_id c) (lit
                ''verification must reference the latest claim''),
              transition_guard (vi_subject v = cl_subject c) (lit
                ''verification subject revision must match the latest claim'')]),
        validate_verification v]) (\<lambda>_.
     let rid = new_record_id ''verification'' (mc_record_uuid ctx) in
     Inr (push_event (new_event ctx rev_no EvVerificationRecorded (vi_actor v)
            (lit ''verification '' @ rid @ lit '' recorded as '' @ outcome_str (vi_outcome v)))
          (t\<lparr>verifications := verifications t @
               [\<lparr>vf_id = rid, vf_actor = vi_actor v, vf_claim_id = vi_claim_id v,
                 vf_subject = vi_subject v, vf_policy = vi_policy v, vf_outcome = vi_outcome v,
                 vf_commands = vi_commands v, vf_artifacts = vi_artifacts v, vf_notes = vi_notes v,
                 vf_recorded_at = mc_now ctx, vf_based_on = revision t\<rparr>],
             review_state := (if vi_outcome v = Passed then AwaitingSupervisor
                              else VerificationFailed)\<rparr>)))"

fun verdict_str :: "verdict_kind \<Rightarrow> rstr" where
  "verdict_str RecommendAccept = lit ''RecommendAccept''"
| "verdict_str VerdictChangesRequested = lit ''ChangesRequested''"
| "verdict_str Escalate = lit ''Escalate''"

fun review_after_verdict :: "verdict_kind \<Rightarrow> review_state_kind" where
  "review_after_verdict RecommendAccept = AwaitingOperator"
| "review_after_verdict VerdictChangesRequested = ChangesRequested"
| "review_after_verdict Escalate = Escalated"

definition apply_verdict ::
    "run \<Rightarrow> verdict_input \<Rightarrow> nat \<Rightarrow> mutation_context \<Rightarrow> state_error + run" where
  "apply_verdict t v rev_no ctx =
     and_then (checks
       [require_capacity ''supervisor verdicts'' (length (supervisor_verdicts t))
          MAX_GOVERNED_RECORDS_PER_KIND,
        require_actor (svi_actor v) Supervisor,
        transition_guard (review_state t \<in> {AwaitingSupervisor, VerificationFailed}) (lit
          ''supervisor verdict requires current verification''),
        require_text ''supervisor rationale'' (svi_rationale v),
        (case latest_verification t of
           None \<Rightarrow> Inl (InvalidTransition (lit ''supervisor verdict requires verification''))
         | Some f \<Rightarrow> checks
             [transition_guard (svi_verification_id v = vf_id f) (lit
                ''supervisor verdict must reference latest verification''),
              transition_guard (\<not> (svi_verdict v = RecommendAccept \<and> vf_outcome f \<noteq> Passed)) (lit
                ''accept recommendation requires passing verification'')])]) (\<lambda>_.
     let rid = new_record_id ''supervisor-verdict'' (mc_record_uuid ctx) in
     Inr (push_event (new_event ctx rev_no EvSupervisorVerdictRecorded (svi_actor v)
            (lit ''supervisor verdict '' @ rid @ lit '' recorded as '' @ verdict_str (svi_verdict v)))
          (t\<lparr>supervisor_verdicts := supervisor_verdicts t @
               [\<lparr>sv_id = rid, sv_actor = svi_actor v, sv_verification_id = svi_verification_id v,
                 sv_verdict = svi_verdict v, sv_rationale = svi_rationale v,
                 sv_decided_at = mc_now ctx, sv_based_on = revision t\<rparr>],
             review_state := review_after_verdict (svi_verdict v)\<rparr>)))"

fun decision_str :: "decision_kind \<Rightarrow> rstr" where
  "decision_str Approve = lit ''Approve''"
| "decision_str Reject = lit ''Reject''"

fun review_after_decision :: "decision_kind \<Rightarrow> review_state_kind" where
  "review_after_decision Approve = Accepted"
| "review_after_decision Reject = Rejected"

definition apply_decision ::
    "run \<Rightarrow> decision_input \<Rightarrow> nat \<Rightarrow> mutation_context \<Rightarrow> state_error + run" where
  "apply_decision t d rev_no ctx =
     and_then (checks
       [require_capacity ''operator decisions'' (length (operator_decisions t))
          MAX_GOVERNED_RECORDS_PER_KIND,
        require_actor (di_actor d) Operator,
        transition_guard (review_state t = AwaitingOperator) (lit
          ''operator decision requires awaiting-operator state''),
        require_text ''operator rationale'' (di_rationale d),
        (case latest_supervisor_verdict t of
           None \<Rightarrow> Inl (InvalidTransition (lit ''operator decision requires supervisor verdict''))
         | Some s \<Rightarrow> transition_guard
             (\<not> (di_verdict_id d \<noteq> sv_id s \<or> sv_verdict s \<noteq> RecommendAccept)) (lit
             ''operator decision must reference latest accept recommendation''))]) (\<lambda>_.
     let rid = new_record_id ''operator-decision'' (mc_record_uuid ctx) in
     Inr (push_event (new_event ctx rev_no EvOperatorDecisionRecorded (di_actor d)
            (lit ''operator decision '' @ rid @ lit '' recorded as '' @ decision_str (di_decision d)))
          (t\<lparr>operator_decisions := operator_decisions t @
               [\<lparr>od_id = rid, od_actor = di_actor d, od_verdict_id = di_verdict_id d,
                 od_decision = di_decision d, od_rationale = di_rationale d,
                 od_decided_at = mc_now ctx, od_based_on = revision t,
                 od_authentication = mc_auth ctx\<rparr>],
             review_state := review_after_decision (di_decision d)\<rparr>)))"

definition apply_note ::
    "run \<Rightarrow> governed_actor \<Rightarrow> rstr \<Rightarrow> nat \<Rightarrow> mutation_context \<Rightarrow> state_error + run" where
  "apply_note t actor reason rev_no ctx =
     and_then (checks
       [require_actor actor System,
        require_text ''producer reservation interruption reason'' reason]) (\<lambda>_.
     Inr (push_event (new_event ctx rev_no EvProducerReservationInterrupted actor reason) t))"

definition apply_mutation ::
    "env \<Rightarrow> run \<Rightarrow> mutation \<Rightarrow> nat \<Rightarrow> mutation_context \<Rightarrow> state_error + run" where
  "apply_mutation E t m rev_no ctx =
     and_then (require_capacity ''governed task events'' (length (events t)) MAX_GOVERNED_EVENTS) (\<lambda>_.
     case m of
       MaterializeStagedWorktree staged \<Rightarrow> apply_materialize t staged rev_no ctx
     | DiscardStagedWorktree actor reason \<Rightarrow> apply_discard t actor reason rev_no ctx
     | RecordPromotion p \<Rightarrow> apply_promotion t p rev_no ctx
     | TakeOverWorker actor reason \<Rightarrow> apply_takeover t actor reason rev_no ctx
     | MarkRunning actor \<Rightarrow> apply_running t actor rev_no ctx
     | MarkLaunchFailed actor reason \<Rightarrow> apply_launch_failed t actor reason rev_no ctx
     | MarkRuntimeExited actor reason kind \<Rightarrow> apply_runtime_exited t actor reason kind rev_no ctx
     | SubmitClaim c \<Rightarrow> apply_claim E t c rev_no ctx
     | RecordVerification v \<Rightarrow> apply_verification t v rev_no ctx
     | RecordSupervisorVerdict v \<Rightarrow> apply_verdict t v rev_no ctx
     | RecordOperatorDecision d \<Rightarrow> apply_decision t d rev_no ctx
     | NoteProducerReservationInterrupted actor reason \<Rightarrow> apply_note t actor reason rev_no ctx)"

end
