(* ===== verification/Actor_Provenance.thy ===== *)
theory Actor_Provenance
  imports Governed_Mutation "HOL-Library.Word"
begin

text \<open>
  Who is on the other end of the socket (\<open>src/daemon/actor_provenance.rs\<close>,
  \<open>impulse-ops/src/operator_capability.rs\<close>): the operator capability of a daemon run, the class of a
  connection, and which governed mutations a class may send.  The random bytes, the uids, the
  environment variable and the file contents are inputs; file modes and the temporary-file dance of
  the capability file are not modelled, only what is written and read back.
\<close>

unbundle bit_operations_syntax

section \<open>The capability token\<close>

definition OPERATOR_CAPABILITY_HEX_LEN :: nat where "OPERATOR_CAPABILITY_HEX_LEN = 64"
definition CAPABILITY_BYTES :: nat where "CAPABILITY_BYTES = 32"

datatype provenance_error =
    OperatorClassRequired string
  | PeerUidMismatch nat nat
  | PeerCredentialsUnavailable
  | CapabilityRejected
  | CapabilityUnavailable
  | MalformedCapability

datatype connection_class = NonOperator | OperatorClass

fun is_operator :: "connection_class \<Rightarrow> bool" where
  "is_operator OperatorClass = True"
| "is_operator NonOperator = False"

fun class_authentication :: "connection_class \<Rightarrow> operator_authentication" where
  "class_authentication OperatorClass = CapabilityAuthenticated"
| "class_authentication NonOperator = Declared"

record operator_capability =
  cap_token :: rstr

definition parse_token :: "rstr \<Rightarrow> rstr option" where
  "parse_token raw =
     (let token = trim raw in
      if byte_len token \<noteq> OPERATOR_CAPABILITY_HEX_LEN \<or> \<not> list_all is_lower_hex_byte (utf8 token)
      then None else Some token)"

definition parse_capability :: "rstr \<Rightarrow> provenance_error + operator_capability" where
  "parse_capability token =
     ok_or (map_option (\<lambda>t. \<lparr>cap_token = t\<rparr>) (parse_token token)) MalformedCapability"

text \<open>\<open>{byte:02x}\<close>\<close>

definition hex_digit :: "nat \<Rightarrow> nat" where
  "hex_digit d = (if d < 10 then 48 + d else 87 + d)"

definition hex_byte :: "8 word \<Rightarrow> rstr" where
  "hex_byte b = [hex_digit (unat b div 16), hex_digit (unat b mod 16)]"

definition generate :: "8 word list \<Rightarrow> operator_capability" where
  "generate bytes = \<lparr>cap_token = concat (map hex_byte bytes)\<rparr>"

definition str_bytes :: "rstr \<Rightarrow> 8 word list" where
  "str_bytes s = map word_of_nat (utf8 s)"

fun fold_difference :: "8 word \<Rightarrow> (8 word \<times> 8 word) list \<Rightarrow> 8 word" where
  "fold_difference d [] = d"
| "fold_difference d ((l, r) # rest) = fold_difference (d OR (l XOR r)) rest"

definition matches :: "operator_capability \<Rightarrow> rstr \<Rightarrow> bool" where
  "matches c presented =
     (let expected = str_bytes (cap_token c); given = str_bytes (trim presented) in
      if length expected \<noteq> length given then False
      else fold_difference 0 (zip expected given) = 0)"

text \<open>What the daemon writes beside its socket, and what a client reads from it.\<close>

definition capability_file_contents :: "operator_capability \<Rightarrow> rstr" where
  "capability_file_contents c = cap_token c @ [10]"

definition read_capability_file :: "rstr + rstr \<Rightarrow> (rstr + provenance_error) + operator_capability" where
  "read_capability_file read =
     and_then (map_err Inl read) (\<lambda>contents. map_err Inr (parse_capability contents))"

definition resolve_for_socket :: "rstr option \<Rightarrow> rstr option \<Rightarrow> rstr option" where
  "resolve_for_socket variable contents =
     (case and_then (ok_or variable ()) (\<lambda>v. ok_or (parse_token v) ()) of
        Inr token \<Rightarrow> Some token
      | Inl _ \<Rightarrow> Option.bind contents parse_token)"

section \<open>Connections\<close>

record connection_provenance =
  cp_peer_uid :: "nat option"
  cp_daemon_uid :: nat
  cp_class :: connection_class

definition new_connection :: "nat option \<Rightarrow> nat \<Rightarrow> connection_provenance" where
  "new_connection peer daemon = \<lparr>cp_peer_uid = peer, cp_daemon_uid = daemon, cp_class = NonOperator\<rparr>"

definition present_capability ::
    "rstr \<Rightarrow> operator_capability option \<Rightarrow> connection_provenance \<Rightarrow> provenance_error + connection_provenance" where
  "present_capability presented expected p =
     and_then (ok_or (cp_peer_uid p) PeerCredentialsUnavailable) (\<lambda>peer.
     and_then (ensure (peer = cp_daemon_uid p) (PeerUidMismatch peer (cp_daemon_uid p))) (\<lambda>_.
     and_then (ok_or expected CapabilityUnavailable) (\<lambda>c.
     and_then (ensure (matches c presented) CapabilityRejected) (\<lambda>_.
     Inr (p\<lparr>cp_class := OperatorClass\<rparr>)))))"

section \<open>Which mutations a class may send\<close>

definition gated_mutation :: "mutation \<Rightarrow> bool \<Rightarrow> string option" where
  "gated_mutation m profiled =
     (case m of
        RecordOperatorDecision _ \<Rightarrow> Some ''RecordOperatorDecision''
      | MarkRunning _ \<Rightarrow> if profiled then Some ''MarkRunning'' else None
      | MarkLaunchFailed _ _ \<Rightarrow> if profiled then Some ''MarkLaunchFailed'' else None
      | MarkRuntimeExited _ _ _ \<Rightarrow> if profiled then Some ''MarkRuntimeExited'' else None
      | NoteProducerReservationInterrupted _ _ \<Rightarrow> Some ''NoteProducerReservationInterrupted''
      | MaterializeStagedWorktree _ \<Rightarrow> Some ''MaterializeStagedWorktree''
      | DiscardStagedWorktree _ _ \<Rightarrow> Some ''DiscardStagedWorktree''
      | RecordPromotion _ \<Rightarrow> Some ''RecordPromotion''
      | TakeOverWorker _ _ \<Rightarrow> Some ''TakeOverWorker''
      | SubmitClaim _ \<Rightarrow> None
      | RecordVerification _ \<Rightarrow> None
      | RecordSupervisorVerdict _ \<Rightarrow> None)"

definition authorize_governed_mutation ::
    "mutation \<Rightarrow> bool \<Rightarrow> connection_class \<Rightarrow> provenance_error + unit" where
  "authorize_governed_mutation m profiled c =
     (if is_operator c then Inr ()
      else case gated_mutation m profiled of
        Some request \<Rightarrow> Inl (OperatorClassRequired request)
      | None \<Rightarrow> Inr ())"

definition mutation_authorization_needs_profile :: "mutation \<Rightarrow> bool" where
  "mutation_authorization_needs_profile m =
     (case m of MarkRunning _ \<Rightarrow> True | MarkLaunchFailed _ _ \<Rightarrow> True | MarkRuntimeExited _ _ _ \<Rightarrow> True
      | _ \<Rightarrow> False)"

section \<open>The comparison\<close>

lemma or_xor_zero: "(d OR (l XOR r) = 0) \<longleftrightarrow> d = 0 \<and> l = (r :: 8 word)"
  by (auto simp: bit_eq_iff bit_simps)

lemma fold_difference_zero: "fold_difference d ps = 0 \<longleftrightarrow> d = 0 \<and> (\<forall>(l, r) \<in> set ps. l = r)"
  by (induction d ps rule: fold_difference.induct) (simp_all add: or_xor_zero)

lemma zip_equal: "length xs = length ys \<Longrightarrow> (\<forall>(l, r) \<in> set (zip xs ys). l = r) \<longleftrightarrow> xs = ys"
  by (induction xs ys rule: list_induct2) auto

lemma matches_iff: "matches c presented \<longleftrightarrow> str_bytes (cap_token c) = str_bytes (trim presented)"
  using zip_equal [of "str_bytes (cap_token c)" "str_bytes (trim presented)"]
  by (auto simp: matches_def Let_def fold_difference_zero)

section \<open>The token a daemon publishes\<close>

lemma hex_digit_lower: "d < 16 \<Longrightarrow> is_lower_hex_byte (hex_digit d) \<and> hex_digit d < 128 \<and> \<not> is_whitespace (hex_digit d)"
  by (auto simp: hex_digit_def is_lower_hex_byte_def is_ascii_digit_def is_whitespace_def)

lemma hex_digit_inj: "d < 16 \<Longrightarrow> e < 16 \<Longrightarrow> hex_digit d = hex_digit e \<longleftrightarrow> d = e"
  by (auto simp: hex_digit_def split: if_splits)

lemma hex_byte_digits: "unat (b :: 8 word) div 16 < 16"
proof -
  have "unat b < 2 ^ LENGTH(8)" by (rule unsigned_less)
  then show ?thesis by simp
qed

lemma hex_byte_chars: "x \<in> set (hex_byte b) \<Longrightarrow> is_lower_hex_byte x \<and> x < 128 \<and> \<not> is_whitespace x"
  using hex_digit_lower [OF hex_byte_digits, of b] hex_digit_lower [of "unat b mod 16"]
  by (auto simp: hex_byte_def)

lemma hex_byte_length: "length (hex_byte b) = 2"
  by (simp add: hex_byte_def)

lemma hex_byte_inj: "hex_byte a = hex_byte b \<longleftrightarrow> a = b"
proof
  assume "hex_byte a = hex_byte b"
  then have "unat a div 16 = unat b div 16" "unat a mod 16 = unat b mod 16"
    using hex_digit_inj hex_byte_digits by (auto simp: hex_byte_def)
  then have "unat a = unat b" by (metis div_mult_mod_eq)
  then show "a = b" by (rule unsigned_word_eqI)
qed simp

lemma token_chars: "x \<in> set (cap_token (generate bs)) \<Longrightarrow> is_lower_hex_byte x \<and> x < 128 \<and> \<not> is_whitespace x"
  using hex_byte_chars by (auto simp: generate_def)

lemma token_length: "length (cap_token (generate bs)) = 2 * length bs"
  by (induction bs) (simp_all add: generate_def hex_byte_def)

lemma utf8_ascii: "list_all (\<lambda>c. c < 128) s \<Longrightarrow> utf8 s = s"
  by (induction s) (auto simp: utf8_def utf8_char_def)

lemma token_utf8: "utf8 (cap_token (generate bs)) = cap_token (generate bs)"
  by (rule utf8_ascii) (use token_chars in \<open>auto simp: list_all_iff\<close>)

lemma trim_clean:
  assumes "\<And>x. x \<in> set s \<Longrightarrow> \<not> is_whitespace x"
  shows "trim (s @ [10]) = s" "trim s = s"
proof -
  have front: "dropWhile is_whitespace s = s" and rear: "dropWhile is_whitespace (rev s) = rev s"
    using assms by (simp_all add: dropWhile_eq_self_iff)
       (metis hd_in_set set_rev rev_is_Nil_conv list.set_sel(1) last_in_set)+
  have "is_whitespace 10" by (simp add: is_whitespace_def)
  then show "trim (s @ [10]) = s"
    using front rear by (cases s) (simp_all add: trim_def assms)
  show "trim s = s" by (simp add: trim_def front rear)
qed

lemma token_trim:
  "trim (cap_token (generate bs) @ [10]) = cap_token (generate bs)"
  "trim (cap_token (generate bs)) = cap_token (generate bs)"
  by (rule trim_clean, use token_chars in blast)+

lemma token_parses:
  assumes "length bs = CAPABILITY_BYTES"
  shows "parse_token (cap_token (generate bs) @ [10]) = Some (cap_token (generate bs))"
  using token_chars assms
  by (auto simp: parse_token_def token_trim byte_len_def token_utf8 token_length list_all_iff
      OPERATOR_CAPABILITY_HEX_LEN_def CAPABILITY_BYTES_def)

lemma generate_inj: "length as = length bs \<Longrightarrow> generate as = generate bs \<longleftrightarrow> as = bs"
  by (induction as bs rule: list_induct2)
    (simp_all add: generate_def append_eq_append_conv hex_byte_length hex_byte_inj)

lemma generate_inj_bytes:
  assumes "length as = length bs"
  shows "str_bytes (cap_token (generate as)) = str_bytes (cap_token (generate bs)) \<longleftrightarrow> as = bs"
proof -
  have "inj_on (word_of_nat :: nat \<Rightarrow> 8 word) {..<128}"
    by (rule inj_on_inverseI [where g = unat]) (simp add: unsigned_of_nat take_bit_nat_eq_self)
  moreover have "set (cap_token (generate cs)) \<subseteq> {..<128}" for cs
    using token_chars by blast
  ultimately have "str_bytes (cap_token (generate as)) = str_bytes (cap_token (generate bs)) \<longleftrightarrow>
      cap_token (generate as) = cap_token (generate bs)"
    unfolding str_bytes_def token_utf8 by (intro inj_on_map_eq_map) (metis inj_on_subset le_sup_iff)
  also have "\<dots> \<longleftrightarrow> generate as = generate bs" by (simp add: generate_def)
  finally show ?thesis using generate_inj [OF assms] by simp
qed

end
