(* ===== verification/Governed_Transition.thy ===== *)
theory Governed_Transition
  imports Governed_Mutation
begin

text \<open>
  What each mutation is meant to do, as a step relation: one rule per transition with its
  preconditions and its effect written out, and the theorem that \<open>apply_mutation\<close> accepts exactly
  these steps.  Every later argument about runs is by cases on this relation.
\<close>

section \<open>Meaning of the shared guards\<close>

definition actor_ok :: "governed_actor \<Rightarrow> actor_kind \<Rightarrow> bool" where
  "actor_ok a k \<longleftrightarrow> ac_kind a = k \<and> text_ok (ac_id a) MAX_REASON_BYTES"

definition refs_ok :: "rstr list \<Rightarrow> bool" where
  "refs_ok rs \<longleftrightarrow> length rs \<le> MAX_GOVERNED_REFERENCES \<and>
     list_all (\<lambda>r. text_ok r MAX_GOVERNED_REFERENCE_BYTES) rs"

definition relative_ref_ok :: "rstr \<Rightarrow> bool" where
  "relative_ref_ok r \<longleftrightarrow> text_ok r MAX_GOVERNED_REFERENCE_BYTES \<and> project_relative r"

definition pin_ok :: "shared_config_pin \<Rightarrow> bool" where
  "pin_ok p \<longleftrightarrow> (case p of Unknown \<Rightarrow> True
     | Recorded d \<Rightarrow> sha256_ref (repository_config d) \<and>
         pred_option sha256_ref (worktree_config d) \<and> pred_option sha256_ref (info_attributes d))"

definition staged_root_ok :: "run \<Rightarrow> rstr \<Rightarrow> bool" where
  "staged_root_ok t root \<longleftrightarrow> path_segment_ok (run_id t) \<and> path_is_absolute root \<and>
     path_eq root (path_join (path_join (path_join (workspace_root t) (lit ''.impulse''))
       (lit ''worktrees'')) (run_id t))"

definition command_ok :: "command_evidence \<Rightarrow> bool" where
  "command_ok c \<longleftrightarrow> text_ok (ce_name c) MAX_GOVERNED_REFERENCE_BYTES \<and>
     text_ok (ce_executable c) MAX_GOVERNED_REFERENCE_BYTES \<and>
     length (ce_redacted_args c) \<le> MAX_GOVERNED_COMMAND_ARGS \<and>
     list_all (\<lambda>a. 0 \<notin> set a \<and> byte_len a \<le> MAX_GOVERNED_COMMAND_ARG_BYTES) (ce_redacted_args c) \<and>
     sha256_ref (ce_command_digest c) \<and> sha256_ref (ce_output_digest c) \<and>
     (ce_success c \<longleftrightarrow> ce_exit_code c = Some 0) \<and> pred_option relative_ref_ok (ce_output_ref c)"

text \<open>Evidence agrees with its outcome: \<open>Passed\<close> means commands were run and all succeeded,
  \<open>Failed\<close> that one did not.\<close>

definition verification_ok :: "verification_input \<Rightarrow> bool" where
  "verification_ok v \<longleftrightarrow> text_ok (vi_subject v) MAX_GOVERNED_REFERENCE_BYTES \<and>
     text_ok (vi_policy v) MAX_GOVERNED_REFERENCE_BYTES \<and>
     length (vi_commands v) \<le> MAX_GOVERNED_COMMANDS \<and> refs_ok (vi_artifacts v) \<and>
     pred_option (\<lambda>n. text_ok n MAX_REASON_BYTES) (vi_notes v) \<and>
     (vi_outcome v = Passed \<longrightarrow> vi_commands v \<noteq> [] \<and> list_all ce_success (vi_commands v)) \<and>
     (vi_outcome v = Failed \<longrightarrow> list_ex (\<lambda>c. \<not> ce_success c) (vi_commands v)) \<and>
     list_all command_ok (vi_commands v)"

definition outcome_ok :: "promotion_input \<Rightarrow> bool" where
  "outcome_ok p \<longleftrightarrow> commit_oid (pi_accepted p) \<and> commit_oid (pi_initial p) \<and>
     (case pi_outcome p of
        Promoted oid \<Rightarrow> oid = pi_accepted p
      | PromotionBlocked head reason \<Rightarrow> commit_oid head \<and>
          (reason = CanonicalHeadMoved \<or> reason = ConcurrentBranchUpdate \<longrightarrow> head \<noteq> pi_initial p))"

definition claim_ok :: "claim_input \<Rightarrow> bool" where
  "claim_ok c \<longleftrightarrow> actor_ok (ci_actor c) Worker \<and> text_ok (ci_summary c) MAX_REASON_BYTES \<and>
     text_ok (ci_subject c) MAX_GOVERNED_REFERENCE_BYTES \<and> refs_ok (ci_artifacts c) \<and>
     pred_option relative_ref_ok (ci_diff_ref c)"

lemma transition_guard_Inr [simp]: "(transition_guard b m = Inr u) = b"
  by (simp add: transition_guard_def)

lemma require_capacity_Inr [simp]: "(require_capacity l c m = Inr u) = (c < m)"
  by (simp add: require_capacity_def)

lemma require_bounded_text_Inr [simp]: "(require_bounded_text l v n = Inr u) = text_ok v n"
  by (simp add: require_bounded_text_def)

lemma require_text_Inr [simp]: "(require_text l v = Inr u) = text_ok v MAX_REASON_BYTES"
  by (simp add: require_text_def)

lemma require_actor_Inr [simp]: "(require_actor a k = Inr u) = actor_ok a k"
  by (simp add: require_actor_def actor_ok_def)

lemma require_commit_oid_Inr [simp]: "(require_commit_oid l v = Inr u) = commit_oid v"
  by (simp add: require_commit_oid_def)

lemma require_sha256_digest_Inr [simp]: "(require_sha256_digest l v = Inr u) = sha256_ref v"
  by (simp add: require_sha256_digest_def sha256_ref_def split: option.splits)

lemma validate_reference_ids_Inr [simp]: "(validate_reference_ids l rs = Inr u) = refs_ok rs"
  by (simp add: validate_reference_ids_def refs_ok_def list.pred_map comp_def)

lemma require_project_relative_ref_Inr [simp]:
  "(require_project_relative_ref l r = Inr u) = relative_ref_ok r"
  by (simp add: require_project_relative_ref_def relative_ref_ok_def)

lemma require_shared_config_digest_Inr [simp]: "(require_shared_config_digest p = Inr u) = pin_ok p"
  by (cases p) (auto simp: require_shared_config_digest_def pin_ok_def split: option.splits)

lemma require_expected_staged_root_Inr [simp]:
  "(require_expected_staged_root t root = Inr u) = staged_root_ok t root"
  by (auto simp: require_expected_staged_root_def expected_staged_worktree_root_def
      validate_path_segment_def staged_root_ok_def)

lemma validate_command_Inr [simp]: "(validate_command c = Inr u) = command_ok c"
  by (cases "ce_success c"; cases "ce_exit_code c")
    (auto simp: validate_command_def command_ok_def list.pred_map comp_def split: option.splits)

lemma validate_verification_Inr [simp]: "(validate_verification v = Inr u) = verification_ok v"
  by (cases "vi_outcome v")
    (auto simp: validate_verification_def verification_ok_def list.pred_map comp_def
      list_ex_iff list_all_iff split: option.splits)

lemma validate_promotion_outcome_Inr [simp]: "(validate_promotion_outcome p = Inr u) = outcome_ok p"
  by (cases "pi_outcome p") (auto simp: validate_promotion_outcome_def outcome_ok_def)

text \<open>The loop contract itself is usable, so only an unreadable clock can fail its evaluation.\<close>

lemma governed_builder_contract_valid [simp]: "loop_contract_validate governed_builder_contract = Inr ()"
  by (simp add: loop_contract_validate_def governed_builder_contract_def governed_builder_def
      GOVERNED_BUILDER_MAX_CLAIM_CYCLES_def GOVERNED_BUILDER_WALL_CLOCK_def
      GOVERNED_BUILDER_SAME_FAILURE_STREAK_def)

section \<open>The step relation\<close>

definition claim_admissible :: "run \<Rightarrow> claim_input \<Rightarrow> mutation_context \<Rightarrow> bool" where
  "claim_admissible t c ctx \<longleftrightarrow> claim_ok c \<and> ac_id (ci_actor c) = agent_id t \<and>
     length (claims t) < MAX_GOVERNED_RECORDS_PER_KIND \<and>
     execution_state t \<in> {Running, RuntimeExited} \<and>
     review_state t \<in> {AwaitingClaim, ChangesRequested, VerificationFailed} \<and>
     (mc_is_replay ctx \<or> exit_kind t \<noteq> OperatorCancelled \<and>
        (world_scope t = StagedAuthoritative \<longrightarrow> active_staged_worktree t \<noteq> None))"

inductive transition ::
    "env \<Rightarrow> mutation_context \<Rightarrow> nat \<Rightarrow> run \<Rightarrow> mutation \<Rightarrow> run \<Rightarrow> bool"
  for E :: env and ctx :: mutation_context and rev_no :: nat where
  materialize:
    "actor_ok (si_actor s) System \<Longrightarrow> world_scope t = StagedAuthoritative \<Longrightarrow>
     staged_worktree t = None \<Longrightarrow> execution_state t = Registered \<Longrightarrow>
     initial_subject_revision t = Some (si_initial s) \<Longrightarrow> staged_root_ok t (si_root s) \<Longrightarrow>
     pin_ok (si_pin s) \<Longrightarrow> rid = new_record_id ''staged-worktree'' (mc_record_uuid ctx) \<Longrightarrow>
     transition E ctx rev_no t (MaterializeStagedWorktree s)
       (push_event (new_event ctx rev_no EvStagedWorktreeMaterialized (si_actor s)
          (lit ''staged worktree '' @ rid @ lit '' materialized''))
        (t\<lparr>staged_worktree := Some
           \<lparr>st_id = rid, st_actor = si_actor s, st_root = si_root s, st_initial = si_initial s,
            st_pin = si_pin s, st_status = Active, st_materialized_at = mc_now ctx,
            st_based_on = revision t\<rparr>\<rparr>))"
| discard:
    "actor_ok a System \<Longrightarrow> text_ok reason MAX_REASON_BYTES \<Longrightarrow> staged_worktree t = Some s \<Longrightarrow>
     st_status s = Active \<Longrightarrow> staged_worktree_is_discardable t \<Longrightarrow>
     transition E ctx rev_no t (DiscardStagedWorktree a reason)
       (push_event (new_event ctx rev_no EvStagedWorktreeDiscarded a reason)
        (t\<lparr>staged_worktree := Some (s\<lparr>st_status := Discarded\<rparr>)\<rparr>))"
| promote:
    "record_promotion_preconditions_hold t = Inr () \<Longrightarrow> actor_ok (pi_actor p) System \<Longrightarrow>
     active_staged_worktree t = Some s \<Longrightarrow> pi_initial p = st_initial s \<Longrightarrow>
     latest_claim t = Some c \<Longrightarrow> pi_accepted p = cl_subject c \<Longrightarrow> outcome_ok p \<Longrightarrow>
     rid = new_record_id ''promotion'' (mc_record_uuid ctx) \<Longrightarrow>
     transition E ctx rev_no t (RecordPromotion p)
       (push_event (new_event ctx rev_no EvPromotionRecorded (pi_actor p)
          (lit ''promotion '' @ rid @ lit '' recorded as '' @ promotion_summary (pi_outcome p)))
        (t\<lparr>promotions := promotions t @
           [\<lparr>pr_id = rid, pr_actor = pi_actor p, pr_accepted = pi_accepted p,
             pr_initial = pi_initial p, pr_outcome = pi_outcome p, pr_recorded_at = mc_now ctx,
             pr_based_on = revision t\<rparr>]\<rparr>))"
| takeover:
    "ac_kind a \<in> {System, Operator} \<Longrightarrow> text_ok reason MAX_REASON_BYTES \<Longrightarrow>
     execution_state t = Running \<Longrightarrow> review_state t \<notin> {Accepted, Rejected} \<Longrightarrow>
     mc_is_replay ctx \<or> review_state t \<in> {AwaitingClaim, ChangesRequested, VerificationFailed} \<Longrightarrow>
     world_scope t = StagedAuthoritative \<longrightarrow> active_staged_worktree t \<noteq> None \<Longrightarrow>
     transition E ctx rev_no t (TakeOverWorker a reason)
       (push_event (new_event ctx rev_no EvWorkerTakenOver a reason) t)"
| start_running:
    "actor_ok a System \<Longrightarrow> execution_state t = Registered \<Longrightarrow>
     mc_is_replay ctx \<or> (world_scope t = StagedAuthoritative \<longrightarrow>
       (\<exists>s. active_staged_worktree t = Some s \<and> is_comparable (st_pin s))) \<Longrightarrow>
     transition E ctx rev_no t (MarkRunning a)
       (push_event (new_event ctx rev_no EvRunning a (lit ''runtime launch acknowledged''))
        (t\<lparr>execution_state := Running\<rparr>))"
| launch_failed:
    "actor_ok a System \<Longrightarrow> text_ok reason MAX_REASON_BYTES \<Longrightarrow> execution_state t = Registered \<Longrightarrow>
     transition E ctx rev_no t (MarkLaunchFailed a reason)
       (push_event (new_event ctx rev_no EvLaunchFailed a reason) (t\<lparr>execution_state := LaunchFailed\<rparr>))"
| runtime_exited:
    "actor_ok a System \<Longrightarrow> execution_state t = Running \<Longrightarrow>
     pred_option (\<lambda>r. text_ok r MAX_REASON_BYTES) reason \<Longrightarrow>
     transition E ctx rev_no t (MarkRuntimeExited a reason kind)
       (push_event (new_event ctx rev_no EvRuntimeExited a (exit_detail reason))
        (t\<lparr>execution_state := RuntimeExited, exit_kind := kind\<rparr>))"
| claim_tripped:
    "claim_admissible t c ctx \<Longrightarrow>
     governed_builder_loop_state E t (mc_now ctx) (mc_replay_claim ctx) = Inr (Some ls) \<Longrightarrow>
     ls_trip ls = Some trip \<Longrightarrow>
     transition E ctx rev_no t (SubmitClaim c)
       (push_event (new_event ctx rev_no EvLoopTripped (ci_actor c)
          (lit ''worker completion claim '' @ new_record_id ''claim'' (mc_record_uuid ctx) @
           lit '' tripped the governed Builder loop contract: '' @ show_trip trip))
        (t\<lparr>claims := claims t @ [claim_record_of t c (Some ls) ctx], review_state := Escalated\<rparr>))"
| claim_submitted:
    "claim_admissible t c ctx \<Longrightarrow>
     governed_builder_loop_state E t (mc_now ctx) (mc_replay_claim ctx) = Inr ls \<Longrightarrow>
     Option.bind ls ls_trip = None \<Longrightarrow>
     transition E ctx rev_no t (SubmitClaim c)
       (push_event (new_event ctx rev_no EvClaimSubmitted (ci_actor c)
          (lit ''worker completion claim '' @ new_record_id ''claim'' (mc_record_uuid ctx) @
           lit '' submitted''))
        (t\<lparr>claims := claims t @ [claim_record_of t c ls ctx], review_state := AwaitingVerification\<rparr>))"
| verification:
    "length (verifications t) < MAX_GOVERNED_RECORDS_PER_KIND \<Longrightarrow> actor_ok (vi_actor v) Verifier \<Longrightarrow>
     review_state t = AwaitingVerification \<Longrightarrow> latest_claim t = Some c \<Longrightarrow>
     vi_claim_id v = cl_id c \<Longrightarrow> vi_subject v = cl_subject c \<Longrightarrow> verification_ok v \<Longrightarrow>
     rid = new_record_id ''verification'' (mc_record_uuid ctx) \<Longrightarrow>
     transition E ctx rev_no t (RecordVerification v)
       (push_event (new_event ctx rev_no EvVerificationRecorded (vi_actor v)
          (lit ''verification '' @ rid @ lit '' recorded as '' @ outcome_str (vi_outcome v)))
        (t\<lparr>verifications := verifications t @
             [\<lparr>vf_id = rid, vf_actor = vi_actor v, vf_claim_id = vi_claim_id v,
               vf_subject = vi_subject v, vf_policy = vi_policy v, vf_outcome = vi_outcome v,
               vf_commands = vi_commands v, vf_artifacts = vi_artifacts v, vf_notes = vi_notes v,
               vf_recorded_at = mc_now ctx, vf_based_on = revision t\<rparr>],
           review_state := (if vi_outcome v = Passed then AwaitingSupervisor
                            else VerificationFailed)\<rparr>))"
| verdict:
    "length (supervisor_verdicts t) < MAX_GOVERNED_RECORDS_PER_KIND \<Longrightarrow>
     actor_ok (svi_actor v) Supervisor \<Longrightarrow> review_state t \<in> {AwaitingSupervisor, VerificationFailed} \<Longrightarrow>
     text_ok (svi_rationale v) MAX_REASON_BYTES \<Longrightarrow> latest_verification t = Some f \<Longrightarrow>
     svi_verification_id v = vf_id f \<Longrightarrow> svi_verdict v = RecommendAccept \<longrightarrow> vf_outcome f = Passed \<Longrightarrow>
     rid = new_record_id ''supervisor-verdict'' (mc_record_uuid ctx) \<Longrightarrow>
     transition E ctx rev_no t (RecordSupervisorVerdict v)
       (push_event (new_event ctx rev_no EvSupervisorVerdictRecorded (svi_actor v)
          (lit ''supervisor verdict '' @ rid @ lit '' recorded as '' @ verdict_str (svi_verdict v)))
        (t\<lparr>supervisor_verdicts := supervisor_verdicts t @
             [\<lparr>sv_id = rid, sv_actor = svi_actor v, sv_verification_id = svi_verification_id v,
               sv_verdict = svi_verdict v, sv_rationale = svi_rationale v,
               sv_decided_at = mc_now ctx, sv_based_on = revision t\<rparr>],
           review_state := review_after_verdict (svi_verdict v)\<rparr>))"
| decision:
    "length (operator_decisions t) < MAX_GOVERNED_RECORDS_PER_KIND \<Longrightarrow>
     actor_ok (di_actor d) Operator \<Longrightarrow> review_state t = AwaitingOperator \<Longrightarrow>
     text_ok (di_rationale d) MAX_REASON_BYTES \<Longrightarrow> latest_supervisor_verdict t = Some s \<Longrightarrow>
     di_verdict_id d = sv_id s \<Longrightarrow> sv_verdict s = RecommendAccept \<Longrightarrow>
     rid = new_record_id ''operator-decision'' (mc_record_uuid ctx) \<Longrightarrow>
     transition E ctx rev_no t (RecordOperatorDecision d)
       (push_event (new_event ctx rev_no EvOperatorDecisionRecorded (di_actor d)
          (lit ''operator decision '' @ rid @ lit '' recorded as '' @ decision_str (di_decision d)))
        (t\<lparr>operator_decisions := operator_decisions t @
             [\<lparr>od_id = rid, od_actor = di_actor d, od_verdict_id = di_verdict_id d,
               od_decision = di_decision d, od_rationale = di_rationale d,
               od_decided_at = mc_now ctx, od_based_on = revision t,
               od_authentication = mc_auth ctx\<rparr>],
           review_state := review_after_decision (di_decision d)\<rparr>))"
| note_interrupted:
    "actor_ok a System \<Longrightarrow> text_ok reason MAX_REASON_BYTES \<Longrightarrow>
     transition E ctx rev_no t (NoteProducerReservationInterrupted a reason)
       (push_event (new_event ctx rev_no EvProducerReservationInterrupted a reason) t)"

inductive_cases transition_materializeE: "transition E ctx r t (MaterializeStagedWorktree s) t'"
inductive_cases transition_discardE: "transition E ctx r t (DiscardStagedWorktree a reason) t'"
inductive_cases transition_promoteE: "transition E ctx r t (RecordPromotion p) t'"
inductive_cases transition_takeoverE: "transition E ctx r t (TakeOverWorker a reason) t'"
inductive_cases transition_runningE: "transition E ctx r t (MarkRunning a) t'"
inductive_cases transition_launch_failedE: "transition E ctx r t (MarkLaunchFailed a reason) t'"
inductive_cases transition_exitedE: "transition E ctx r t (MarkRuntimeExited a reason kind) t'"
inductive_cases transition_claimE: "transition E ctx r t (SubmitClaim c) t'"
inductive_cases transition_verificationE: "transition E ctx r t (RecordVerification v) t'"
inductive_cases transition_verdictE: "transition E ctx r t (RecordSupervisorVerdict v) t'"
inductive_cases transition_decisionE: "transition E ctx r t (RecordOperatorDecision d) t'"
inductive_cases transition_noteE: "transition E ctx r t (NoteProducerReservationInterrupted a reason) t'"

inductive_simps transition_materialize_iff: "transition E ctx r t (MaterializeStagedWorktree s) t'"
inductive_simps transition_discard_iff: "transition E ctx r t (DiscardStagedWorktree a reason) t'"
inductive_simps transition_promote_iff: "transition E ctx r t (RecordPromotion p) t'"
inductive_simps transition_takeover_iff: "transition E ctx r t (TakeOverWorker a reason) t'"
inductive_simps transition_running_iff: "transition E ctx r t (MarkRunning a) t'"
inductive_simps transition_launch_failed_iff: "transition E ctx r t (MarkLaunchFailed a reason) t'"
inductive_simps transition_exited_iff: "transition E ctx r t (MarkRuntimeExited a reason kind) t'"
inductive_simps transition_claim_iff: "transition E ctx r t (SubmitClaim c) t'"
inductive_simps transition_verification_iff: "transition E ctx r t (RecordVerification v) t'"
inductive_simps transition_verdict_iff: "transition E ctx r t (RecordSupervisorVerdict v) t'"
inductive_simps transition_decision_iff: "transition E ctx r t (RecordOperatorDecision d) t'"
inductive_simps transition_note_iff:
  "transition E ctx r t (NoteProducerReservationInterrupted a reason) t'"

lemmas transition_elims = transition_materializeE transition_discardE transition_promoteE
  transition_takeoverE transition_runningE transition_launch_failedE transition_exitedE
  transition_claimE transition_verificationE transition_verdictE transition_decisionE
  transition_noteE

lemmas transition_iffs = transition_materialize_iff transition_discard_iff transition_promote_iff
  transition_takeover_iff transition_running_iff transition_launch_failed_iff transition_exited_iff
  transition_claim_iff transition_verification_iff transition_verdict_iff transition_decision_iff
  transition_note_iff

section \<open>The transition function accepts exactly these steps\<close>

lemma claim_guards_Inr: "(claim_guards t c ctx = Inr u) = claim_admissible t c ctx"
  by (auto simp: claim_guards_def claim_admissible_def claim_ok_def requires_staged_worktree_def
      split: option.splits)

lemma apply_materialize_Inr:
  "(apply_materialize t s r ctx = Inr t') = transition E ctx r t (MaterializeStagedWorktree s) t'"
  by (auto simp: apply_materialize_def Let_def intro: transition.materialize
      elim!: transition_materializeE split: option.splits)

lemma apply_discard_Inr:
  "(apply_discard t a reason r ctx = Inr t') = transition E ctx r t (DiscardStagedWorktree a reason) t'"
  by (auto simp: apply_discard_def intro: transition.discard
      elim!: transition_discardE split: option.splits)

lemma apply_promotion_Inr:
  "(apply_promotion t p r ctx = Inr t') = transition E ctx r t (RecordPromotion p) t'"
  by (auto simp: apply_promotion_def Let_def intro: transition.promote elim!: transition_promoteE)

lemma apply_takeover_Inr:
  "(apply_takeover t a reason r ctx = Inr t') = transition E ctx r t (TakeOverWorker a reason) t'"
  by (cases "review_state t")
    (auto simp: apply_takeover_def requires_staged_worktree_def intro!: transition.takeover
      elim!: transition_takeoverE)

lemma apply_running_Inr:
  "(apply_running t a r ctx = Inr t') = transition E ctx r t (MarkRunning a) t'"
  by (auto simp: apply_running_def intro!: transition.start_running
      elim!: transition_runningE split: option.splits if_splits)

lemma apply_launch_failed_Inr:
  "(apply_launch_failed t a reason r ctx = Inr t') = transition E ctx r t (MarkLaunchFailed a reason) t'"
  by (auto simp: apply_launch_failed_def intro: transition.launch_failed
      elim!: transition_launch_failedE)

lemma apply_runtime_exited_Inr:
  "(apply_runtime_exited t a reason k r ctx = Inr t') =
   transition E ctx r t (MarkRuntimeExited a reason k) t'"
  by (auto simp: apply_runtime_exited_def intro!: transition.runtime_exited
      elim!: transition_exitedE split: option.splits)

lemma apply_claim_Inr:
  "(apply_claim E t c r ctx = Inr t') = transition E ctx r t (SubmitClaim c) t'"
proof (cases "governed_builder_loop_state E t (mc_now ctx) (mc_replay_claim ctx)")
  case (Inr ls)
  then show ?thesis
    by (cases "Option.bind ls ls_trip"; cases ls)
      (auto simp: apply_claim_def Let_def claim_guards_Inr transition_claim_iff)
qed (auto simp: apply_claim_def transition_claim_iff)

lemma apply_verification_Inr:
  "(apply_verification t v r ctx = Inr t') = transition E ctx r t (RecordVerification v) t'"
  by (cases "latest_claim t")
    (auto simp: apply_verification_def Let_def transition_verification_iff)

lemma apply_verdict_Inr:
  "(apply_verdict t v r ctx = Inr t') = transition E ctx r t (RecordSupervisorVerdict v) t'"
  by (auto simp: apply_verdict_def Let_def intro!: transition.verdict
      elim!: transition_verdictE split: option.splits)

lemma apply_decision_Inr:
  "(apply_decision t d r ctx = Inr t') = transition E ctx r t (RecordOperatorDecision d) t'"
  by (auto simp: apply_decision_def Let_def intro!: transition.decision
      elim!: transition_decisionE split: option.splits)

lemma apply_note_Inr:
  "(apply_note t a reason r ctx = Inr t') =
   transition E ctx r t (NoteProducerReservationInterrupted a reason) t'"
  by (auto simp: apply_note_def intro: transition.note_interrupted elim!: transition_noteE)

lemma apply_mutation_Inr:
  "(apply_mutation E t m r ctx = Inr t') =
   (length (events t) < MAX_GOVERNED_EVENTS \<and> transition E ctx r t m t')"
  by (cases m)
    (simp_all add: apply_mutation_def apply_materialize_Inr [of _ _ _ _ _ E]
      apply_discard_Inr [of _ _ _ _ _ _ E] apply_promotion_Inr [of _ _ _ _ _ E]
      apply_takeover_Inr [of _ _ _ _ _ _ E] apply_running_Inr [of _ _ _ _ _ E]
      apply_launch_failed_Inr [of _ _ _ _ _ _ E] apply_runtime_exited_Inr [of _ _ _ _ _ _ _ E]
      apply_claim_Inr apply_verification_Inr [of _ _ _ _ _ E] apply_verdict_Inr [of _ _ _ _ _ E]
      apply_decision_Inr [of _ _ _ _ _ E] apply_note_Inr [of _ _ _ _ _ _ E])

end
