(* ===== verification/Governed_Run.thy ===== *)
theory Governed_Run
  imports Governed_Transition
begin

text \<open>
  The life of one governed run: the record a registration creates, the live step that applies a
  mutation and advances the revision, and the invariants every reachable run keeps.  The contracts
  of \<open>Prelude\<close> are interpreted on the live step, which turns each step lemma into a statement about
  every sequence of requests.
\<close>

section \<open>Registration and the live step\<close>

definition system_actor :: governed_actor where
  "system_actor = \<lparr>ac_kind = System, ac_id = lit ''impulse-daemon''\<rparr>"

definition registration_event :: "rstr \<Rightarrow> rstr \<Rightarrow> governed_event" where
  "registration_event now uuid =
     \<lparr>ev_id = new_record_id ''event'' uuid, ev_revision = 0, ev_kind = EvRegistered,
      ev_actor = system_actor, ev_detail = lit ''governed task registered before runtime launch'',
      ev_created_at = now\<rparr>"

definition initial_run :: "registration \<Rightarrow> rstr \<Rightarrow> rstr \<Rightarrow> run" where
  "initial_run r now uuid =
     \<lparr>project_id = project_id r, workspace_root = workspace_root r, task = task r,
      acceptance_criteria = acceptance_criteria r, approval_policy = approval_policy r,
      world_scope = world_scope r, verification_profile = verification_profile r,
      role_assignment = role_assignment r, role_compatibility = role_compatibility r,
      runtime_id = runtime_id r, agent_id = agent_id r, session_id = session_id r,
      initial_subject_revision = initial_subject_revision r,
      run_id = rg_task_id r, revision = 0, staged_worktree = None, promotions = [],
      execution_state = Registered, exit_kind = Natural, review_state = AwaitingClaim,
      claims = [], verifications = [], supervisor_verdicts = [], operator_decisions = [],
      events = [registration_event now uuid], created_at = now, updated_at = now\<rparr>"

text \<open>One admitted request: the mutation, the clock reading, the provenance of the connection and
  the two UUID draws.\<close>

record live_op =
  lo_mutation :: mutation
  lo_now :: rstr
  lo_auth :: operator_authentication
  lo_record_uuid :: rstr
  lo_event_uuid :: rstr

definition op_context :: "live_op \<Rightarrow> mutation_context" where
  "op_context op = live_context (lo_now op) (lo_auth op) (lo_record_uuid op) (lo_event_uuid op)"

definition stamp_last_event :: "nat \<Rightarrow> governed_event list \<Rightarrow> governed_event list" where
  "stamp_last_event n es = (if es = [] then [] else butlast es @ [(last es)\<lparr>ev_revision := n\<rparr>])"

definition run_step :: "env \<Rightarrow> run \<Rightarrow> live_op \<Rightarrow> state_error + run" where
  "run_step E t op =
     and_then (ok_or (checked_add_u64 (revision t) 1)
       (InvalidTransition (lit ''governed task revision exhausted u64''))) (\<lambda>next_revision.
     and_then (apply_mutation E t (lo_mutation op) next_revision (op_context op)) (\<lambda>updated.
       Inr (updated\<lparr>revision := next_revision, updated_at := lo_now op,
              events := stamp_last_event next_revision (events updated)\<rparr>)))"

section \<open>Frame of a transition\<close>

text \<open>No mutation touches the registered fields, and each one appends exactly one event.\<close>

lemma transition_core:
  "transition E ctx r t m t' \<Longrightarrow> task_core.truncate t' = task_core.truncate t"
  by (induction rule: transition.induct) (simp_all add: push_event_def task_core.truncate_def)

lemma transition_frame [result_dests]:
  assumes "transition E ctx r t m t'"
  shows "run_id t' = run_id t" "revision t' = revision t" "created_at t' = created_at t"
    "updated_at t' = updated_at t"
  using assms by (induction rule: transition.induct; simp add: push_event_def)+

lemma truncate_eq_fields:
  assumes "task_core.truncate t' = task_core.truncate t"
  shows "world_scope t' = world_scope t" "agent_id t' = agent_id t" "project_id t' = project_id t"
    "workspace_root t' = workspace_root t" "initial_subject_revision t' = initial_subject_revision t"
    "verification_profile t' = verification_profile t"
  using assms by (simp_all add: task_core.truncate_def)

lemmas transition_fields = truncate_eq_fields [OF transition_core] transition_frame

lemma transition_pushes:
  assumes "transition E ctx r t m t'"
  obtains k a d where "events t' = events t @ [new_event ctx r k a d]" and "k \<noteq> EvRegistered"
proof -
  from assms have "\<exists>k a d. events t' = events t @ [new_event ctx r k a d] \<and> k \<noteq> EvRegistered"
    by (induction rule: transition.induct) (simp_all add: push_event_def new_event_def)
  then show thesis using that by blast
qed

lemma settle_transition:
  assumes "transition E ctx r t m u"
  shows "stamp_last_event r (events u) = events u"
proof -
  obtain k a d where "events u = events t @ [new_event ctx r k a d]"
    using transition_pushes [OF assms] by metis
  then show ?thesis by (simp add: stamp_last_event_def new_event_def)
qed

definition settle :: "run \<Rightarrow> rstr \<Rightarrow> run \<Rightarrow> run" where
  "settle t now u = u\<lparr>revision := Suc (revision t), updated_at := now\<rparr>"

lemma settle_fields [simp]:
  "revision (settle t now u) = Suc (revision t)" "updated_at (settle t now u) = now"
  "events (settle t now u) = events u" "claims (settle t now u) = claims u"
  "verifications (settle t now u) = verifications u"
  "supervisor_verdicts (settle t now u) = supervisor_verdicts u"
  "operator_decisions (settle t now u) = operator_decisions u"
  "promotions (settle t now u) = promotions u" "staged_worktree (settle t now u) = staged_worktree u"
  "execution_state (settle t now u) = execution_state u" "exit_kind (settle t now u) = exit_kind u"
  "review_state (settle t now u) = review_state u" "created_at (settle t now u) = created_at u"
  "run_id (settle t now u) = run_id u" "world_scope (settle t now u) = world_scope u"
  "agent_id (settle t now u) = agent_id u" "workspace_root (settle t now u) = workspace_root u"
  "initial_subject_revision (settle t now u) = initial_subject_revision u"
  "task_core.truncate (settle t now u) = task_core.truncate u"
  by (simp_all add: settle_def task_core.truncate_def)

lemma run_step_Inr:
  "run_step E t op = Inr t' \<longleftrightarrow>
     Suc (revision t) \<le> u64_max \<and> length (events t) < MAX_GOVERNED_EVENTS \<and>
     (\<exists>u. transition E (op_context op) (Suc (revision t)) t (lo_mutation op) u \<and>
          t' = settle t (lo_now op) u)"
proof -
  have eq: "u\<lparr>revision := Suc (revision t), updated_at := lo_now op,
      events := stamp_last_event (Suc (revision t)) (events u)\<rparr> = settle t (lo_now op) u"
    if "transition E (op_context op) (Suc (revision t)) t (lo_mutation op) u" for u
    using settle_transition [OF that] by (simp add: settle_def)
  show ?thesis
    by (auto simp: run_step_def apply_mutation_Inr eq)
qed

text \<open>Every successful step is a transition between two runs with the same registered fields.\<close>

lemma run_stepE:
  assumes "run_step E t op = Inr t'"
  obtains u where "transition E (op_context op) (Suc (revision t)) t (lo_mutation op) u"
    and "t' = settle t (lo_now op) u" and "length (events t) < MAX_GOVERNED_EVENTS"
  using assms by (auto simp: run_step_Inr)

lemma op_context_simps [simp]:
  "mc_now (op_context op) = lo_now op" "mc_auth (op_context op) = lo_auth op"
  "mc_replay_claim (op_context op) = None" "mc_is_replay (op_context op) = False"
  "mc_record_uuid (op_context op) = lo_record_uuid op"
  "mc_event_uuid (op_context op) = lo_event_uuid op"
  by (simp_all add: op_context_def live_context_def)

lemma run_step_fields:
  assumes "run_step E t op = Inr t'"
  shows "task_core.truncate t' = task_core.truncate t" "run_id t' = run_id t"
    "created_at t' = created_at t" "revision t' = Suc (revision t)" "updated_at t' = lo_now op"
  using assms by (auto elim!: run_stepE dest: transition_frame transition_core)

section \<open>Invariants\<close>

definition events_contiguous :: "run \<Rightarrow> bool" where
  "events_contiguous t \<longleftrightarrow> map ev_revision (events t) = [0..<Suc (revision t)] \<and>
     ev_kind (hd (events t)) = EvRegistered \<and>
     list_all (\<lambda>e. ev_kind e \<noteq> EvRegistered) (tl (events t))"

text \<open>Who wrote what, and that the evidence of each verification agrees with its outcome.\<close>

definition evidence_ok :: "verification_record \<Rightarrow> bool" where
  "evidence_ok v \<longleftrightarrow> list_all command_ok (vf_commands v) \<and>
     (vf_outcome v = Passed \<longrightarrow> vf_commands v \<noteq> [] \<and> list_all ce_success (vf_commands v)) \<and>
     (vf_outcome v = Failed \<longrightarrow> list_ex (\<lambda>c. \<not> ce_success c) (vf_commands v))"

definition provenance :: "run \<Rightarrow> bool" where
  "provenance t \<longleftrightarrow>
     list_all (\<lambda>c. ac_kind (cl_actor c) = Worker \<and> ac_id (cl_actor c) = agent_id t) (claims t) \<and>
     list_all (\<lambda>v. ac_kind (vf_actor v) = Verifier \<and> evidence_ok v) (verifications t) \<and>
     list_all (\<lambda>v. ac_kind (sv_actor v) = Supervisor) (supervisor_verdicts t) \<and>
     list_all (\<lambda>d. ac_kind (od_actor d) = Operator) (operator_decisions t) \<and>
     list_all (\<lambda>p. ac_kind (pr_actor p) = System) (promotions t) \<and>
     pred_option (\<lambda>s. ac_kind (st_actor s) = System) (staged_worktree t)"

text \<open>The current evidence chain: the last verification is about the last claim, the last verdict
  about the last verification, the only decision about the last verdict.\<close>

definition verified :: "run \<Rightarrow> bool" where
  "verified t \<longleftrightarrow> claims t \<noteq> [] \<and> verifications t \<noteq> [] \<and>
     vf_claim_id (last (verifications t)) = cl_id (last (claims t)) \<and>
     vf_subject (last (verifications t)) = cl_subject (last (claims t))"

definition verified_as :: "run \<Rightarrow> verification_outcome \<Rightarrow> bool" where
  "verified_as t k \<longleftrightarrow> verified t \<and> vf_outcome (last (verifications t)) = k"

definition judged :: "run \<Rightarrow> verdict_kind \<Rightarrow> bool" where
  "judged t k \<longleftrightarrow> verified t \<and> supervisor_verdicts t \<noteq> [] \<and>
     sv_verification_id (last (supervisor_verdicts t)) = vf_id (last (verifications t)) \<and>
     sv_verdict (last (supervisor_verdicts t)) = k"

definition decided :: "run \<Rightarrow> decision_kind \<Rightarrow> bool" where
  "decided t k \<longleftrightarrow> judged t RecommendAccept \<and> verified_as t Passed \<and>
     (\<exists>d. operator_decisions t = [d] \<and> od_decision d = k \<and>
          od_verdict_id d = sv_id (last (supervisor_verdicts t)))"

definition review_coherent :: "run \<Rightarrow> bool" where
  "review_coherent t \<longleftrightarrow>
     (case review_state t of
        AwaitingClaim \<Rightarrow> claims t = [] \<and> verifications t = [] \<and> supervisor_verdicts t = []
      | AwaitingVerification \<Rightarrow> claims t \<noteq> []
      | VerificationFailed \<Rightarrow> verified t \<and> \<not> verified_as t Passed
      | AwaitingSupervisor \<Rightarrow> verified_as t Passed
      | ChangesRequested \<Rightarrow> judged t VerdictChangesRequested
      | Escalated \<Rightarrow> judged t Escalate \<or> (world_scope t = StagedAuthoritative \<and> claims t \<noteq> [] \<and>
          (\<exists>e \<in> set (events t). ev_kind e = EvLoopTripped))
      | AwaitingOperator \<Rightarrow> judged t RecommendAccept \<and> verified_as t Passed
      | Accepted \<Rightarrow> decided t Approve
      | Rejected \<Rightarrow> decided t Reject) \<and>
     (review_state t \<notin> {Accepted, Rejected} \<longrightarrow> operator_decisions t = [])"

definition execution_coherent :: "run \<Rightarrow> bool" where
  "execution_coherent t \<longleftrightarrow>
     (execution_state t \<in> {Registered, LaunchFailed} \<longrightarrow> review_state t = AwaitingClaim) \<and>
     (exit_kind t \<noteq> Natural \<longrightarrow> execution_state t = RuntimeExited) \<and>
     (world_scope t = StagedAuthoritative \<and> execution_state t \<in> {Running, RuntimeExited} \<longrightarrow>
        staged_worktree t \<noteq> None \<and> pred_option (\<lambda>s. is_comparable (st_pin s)) (staged_worktree t))"

definition staged_coherent :: "run \<Rightarrow> bool" where
  "staged_coherent t \<longleftrightarrow> pred_option (\<lambda>s. world_scope t = StagedAuthoritative \<and>
     initial_subject_revision t = Some (st_initial s) \<and> staged_root_ok t (st_root s) \<and>
     pin_ok (st_pin s)) (staged_worktree t)"

definition promotion_coherent :: "run \<Rightarrow> bool" where
  "promotion_coherent t \<longleftrightarrow>
     (promotions t \<noteq> [] \<longrightarrow> review_state t = Accepted \<and> world_scope t = StagedAuthoritative) \<and>
     list_all (\<lambda>p. pr_accepted p = cl_subject (last (claims t)) \<and>
        initial_subject_revision t = Some (pr_initial p) \<and>
        (\<forall>oid. pr_outcome p = Promoted oid \<longrightarrow> oid = pr_accepted p)) (promotions t) \<and>
     list_all (\<lambda>p. \<not> is_promoted (pr_outcome p)) (butlast (promotions t))"

definition loop_bounded :: "run \<Rightarrow> bool" where
  "loop_bounded t \<longleftrightarrow> world_scope t = StagedAuthoritative \<longrightarrow>
     length (claims t) \<le> GOVERNED_BUILDER_MAX_CLAIM_CYCLES \<or>
     (length (claims t) = Suc GOVERNED_BUILDER_MAX_CLAIM_CYCLES \<and> review_state t = Escalated)"

definition run_inv :: "run \<Rightarrow> bool" where
  "run_inv t \<longleftrightarrow> events_contiguous t \<and> provenance t \<and> review_coherent t \<and> execution_coherent t \<and>
     staged_coherent t \<and> promotion_coherent t \<and> loop_bounded t"

lemmas chain_defs = decided_def judged_def verified_as_def verified_def

lemma last_opt_Some [simp]: "last_opt xs = Some x \<longleftrightarrow> xs \<noteq> [] \<and> x = last xs"
  by (auto simp: last_opt_def)

lemma last_opt_None [simp]: "last_opt xs = None \<longleftrightarrow> xs = []"
  by (simp add: last_opt_def)

lemma last_opt_snoc [simp]: "last_opt (xs @ [x]) = Some x"
  by simp

lemmas latest_defs = latest_claim_def latest_verification_def latest_supervisor_verdict_def
  latest_promotion_def

lemma active_staged_Some [simp]:
  "active_staged_worktree t = Some s \<longleftrightarrow> staged_worktree t = Some s \<and> st_status s = Active"
  by (auto simp: active_staged_worktree_def split: option.splits)

lemma initial_run_inv: "run_inv (initial_run r now uuid)"
  by (simp add: run_inv_def initial_run_def events_contiguous_def registration_event_def
      provenance_def review_coherent_def execution_coherent_def staged_coherent_def
      promotion_coherent_def loop_bounded_def)

lemma events_contiguous_step:
  assumes "events_contiguous t" "run_step E t op = Inr t'"
  shows "events_contiguous t'"
proof -
  obtain u where u: "transition E (op_context op) (Suc (revision t)) t (lo_mutation op) u"
    and t': "t' = settle t (lo_now op) u" using assms(2) by (elim run_stepE)
  from u obtain k a d where ev: "events u = events t @ [new_event (op_context op) (Suc (revision t)) k a d]"
    and k: "k \<noteq> EvRegistered" by (elim transition_pushes)
  have "events t \<noteq> []" using assms(1) by (auto simp: events_contiguous_def)
  with assms(1) ev k t' show ?thesis
    by (auto simp: events_contiguous_def new_event_def)
qed

text \<open>
  The other invariants are preserved by a transition in any live context, and the clock and
  revision stamps do not matter to them.
\<close>

definition live :: "mutation_context \<Rightarrow> bool" where
  "live ctx \<longleftrightarrow> \<not> mc_is_replay ctx \<and> mc_replay_claim ctx = None"

lemma live_op_context [simp]: "live (op_context op)"
  by (simp add: live_def)

lemma provenance_transition:
  "transition E ctx r t m u \<Longrightarrow> provenance t \<Longrightarrow> provenance u"
  by (induction rule: transition.induct)
    (simp_all add: provenance_def push_event_def actor_ok_def verification_ok_def evidence_ok_def
      claim_admissible_def claim_ok_def claim_record_of_def)

lemma loop_state_scope:
  "governed_builder_loop_state E t now rp = Inr (Some ls) \<Longrightarrow> world_scope t = StagedAuthoritative"
  by (auto simp: governed_builder_loop_state_def Let_def split: if_splits)

lemma review_coherent_mono:
  assumes "review_coherent t"
    and "review_state u = review_state t" "claims u = claims t" "verifications u = verifications t"
    "supervisor_verdicts u = supervisor_verdicts t" "operator_decisions u = operator_decisions t"
    "world_scope u = world_scope t" "set (events t) \<subseteq> set (events u)"
  shows "review_coherent u"
  using assms by (cases "review_state t") (auto simp: review_coherent_def chain_defs)

lemma review_coherent_transition:
  "transition E ctx r t m u \<Longrightarrow> review_coherent t \<Longrightarrow> review_coherent u"
proof (induction rule: transition.induct)
  case (claim_tripped t c ls trip)
  from claim_tripped(1,4) loop_state_scope [OF claim_tripped(2)] show ?case
    by (auto simp: review_coherent_def claim_admissible_def push_event_def new_event_def)
next
  case (claim_submitted t c ls)
  then show ?case by (auto simp: review_coherent_def claim_admissible_def push_event_def)
next
  case (verdict t v f rid)
  then show ?case
    by (cases "svi_verdict v") (auto simp: review_coherent_def chain_defs push_event_def latest_defs)
next
  case (decision t d s rid)
  then show ?case
    by (cases "di_decision d") (auto simp: review_coherent_def chain_defs push_event_def latest_defs)
next
  case (verification t v c rid)
  then show ?case by (auto simp: review_coherent_def chain_defs push_event_def latest_defs)
qed (erule review_coherent_mono; simp add: push_event_def subset_insertI)+

lemma execution_coherent_mono:
  assumes "execution_coherent t"
    and "execution_state u = execution_state t" "exit_kind u = exit_kind t"
    "world_scope u = world_scope t"
    "map_option st_pin (staged_worktree u) = map_option st_pin (staged_worktree t)"
    and "review_state u = review_state t \<or> review_state t \<noteq> AwaitingClaim \<or>
      execution_state t \<in> {Running, RuntimeExited}"
  shows "execution_coherent u"
proof -
  have "staged_worktree u \<noteq> None \<and> pred_option (\<lambda>s. is_comparable (st_pin s)) (staged_worktree u) \<longleftrightarrow>
      staged_worktree t \<noteq> None \<and> pred_option (\<lambda>s. is_comparable (st_pin s)) (staged_worktree t)"
    using assms(5) by (cases "staged_worktree t"; cases "staged_worktree u") simp_all
  with assms show ?thesis
    unfolding execution_coherent_def by (cases "execution_state t") simp_all
qed

lemma execution_coherent_transition:
  "transition E ctx r t m u \<Longrightarrow> live ctx \<Longrightarrow> execution_coherent t \<Longrightarrow> execution_coherent u"
proof (induction rule: transition.induct)
  case (start_running a t)
  then show ?case by (auto simp: execution_coherent_def push_event_def live_def)
next
  case (materialize s t rid)
  then show ?case by (simp add: execution_coherent_def push_event_def)
next
  case (launch_failed a reason t)
  then show ?case by (simp add: execution_coherent_def push_event_def)
next
  case (runtime_exited a t reason kind)
  then show ?case by (simp add: execution_coherent_def push_event_def)
next
  case (verdict t v f rid)
  then have "review_state t \<noteq> AwaitingClaim" by auto
  with verdict show ?case by (elim execution_coherent_mono) (simp_all add: push_event_def)
qed (erule execution_coherent_mono; simp add: push_event_def claim_admissible_def)+

lemma staged_coherent_transition:
  "transition E ctx r t m u \<Longrightarrow> staged_coherent t \<Longrightarrow> staged_coherent u"
  by (induction rule: transition.induct)
    (simp_all add: staged_coherent_def push_event_def staged_root_ok_def)

lemma promotion_coherent_transition:
  "transition E ctx r t m u \<Longrightarrow> promotion_coherent t \<Longrightarrow> staged_coherent t \<Longrightarrow> promotion_coherent u"
proof (induction rule: transition.induct)
  case (promote t p s c rid)
  then have "list_all (\<lambda>p. \<not> is_promoted (pr_outcome p)) (promotions t)"
    by (cases "promotions t" rule: rev_cases)
      (auto simp: promotion_coherent_def record_promotion_preconditions_hold_def latest_defs)
  with promote show ?case
    by (auto simp: promotion_coherent_def push_event_def staged_coherent_def outcome_ok_def
        record_promotion_preconditions_hold_def latest_defs)
qed (auto simp: promotion_coherent_def push_event_def claim_admissible_def)

text \<open>With the claim budget spent, the contract trips on the round cap whatever else it sees.\<close>

lemma evaluate_round_cap:
  "max_rounds b \<le> ob_rounds_used ob \<Longrightarrow> evaluate_observed alnum b ob = Some (RoundCap (max_rounds b))"
  by (simp add: evaluate_observed_def)

lemma loop_state_round_cap:
  assumes "world_scope t = StagedAuthoritative" "GOVERNED_BUILDER_MAX_CLAIM_CYCLES \<le> length (claims t)"
    and "governed_builder_loop_state E t now None = Inr ls"
  shows "Option.bind ls ls_trip = Some (RoundCap GOVERNED_BUILDER_MAX_CLAIM_CYCLES)"
  using assms
  by (auto simp: governed_builder_loop_state_def Let_def evaluate_round_cap governed_observation_def
      governed_builder_contract_def governed_builder_def)

lemma loop_bounded_transition:
  "transition E ctx r t m u \<Longrightarrow> live ctx \<Longrightarrow> loop_bounded t \<Longrightarrow> loop_bounded u"
proof (induction rule: transition.induct)
  case (claim_submitted t c ls)
  then have "world_scope t = StagedAuthoritative \<Longrightarrow>
      length (claims t) < GOVERNED_BUILDER_MAX_CLAIM_CYCLES"
    using loop_state_round_cap [of t E "mc_now ctx" ls] by (auto simp: live_def not_less [symmetric])
  then show ?case by (auto simp: loop_bounded_def push_event_def)
next
  case (claim_tripped t c ls trip)
  then show ?case by (auto simp: loop_bounded_def push_event_def claim_admissible_def)
qed (auto simp: loop_bounded_def push_event_def)

lemma settle_inv [simp]:
  "provenance (settle t now u) = provenance u" "review_coherent (settle t now u) = review_coherent u"
  "execution_coherent (settle t now u) = execution_coherent u"
  "staged_coherent (settle t now u) = staged_coherent u"
  "promotion_coherent (settle t now u) = promotion_coherent u"
  "loop_bounded (settle t now u) = loop_bounded u"
  by (cases "review_state u"; simp add: provenance_def review_coherent_def chain_defs
      execution_coherent_def staged_coherent_def promotion_coherent_def loop_bounded_def
      staged_root_ok_def)+

lemma run_inv_step:
  assumes "run_inv t" "run_step E t op = Inr t'"
  shows "run_inv t'"
  using assms(2)
proof (elim run_stepE)
  fix u assume u: "transition E (op_context op) (Suc (revision t)) t (lo_mutation op) u"
    and t': "t' = settle t (lo_now op) u"
  from assms have "events_contiguous t'" by (auto simp: run_inv_def intro: events_contiguous_step)
  with assms(1) show ?thesis
    unfolding run_inv_def t'
    using u by (simp add: provenance_transition review_coherent_transition
      execution_coherent_transition staged_coherent_transition promotion_coherent_transition
      loop_bounded_transition)
qed

interpretation run_machine: invariant_machine "run_step E" run_inv for E
  by unfold_locales (rule run_inv_step)

end
