(* ===== verification/Governed_Lifecycle.thy ===== *)
theory Governed_Lifecycle
  imports Governed_Run
begin

text \<open>
  What a governed run can and cannot do over its whole life, for every sequence of requests a
  daemon may serve: settled reviews stay settled, evidence is only ever appended, leases only move
  forward, a cancelled run takes no more claims, a staged Builder is bounded by its loop contract,
  a staged outcome is promoted at most once.
\<close>

section \<open>Contracts of the live step\<close>

lemma transition_logs:
  assumes "transition E ctx r t m u"
  shows "prefix (events t) (events u)" "prefix (claims t) (claims u)"
    "prefix (verifications t) (verifications u)"
    "prefix (supervisor_verdicts t) (supervisor_verdicts u)"
    "prefix (operator_decisions t) (operator_decisions u)" "prefix (promotions t) (promotions u)"
  using assms by (induction rule: transition.induct; simp add: push_event_def)+

interpretation event_log: append_only_machine "run_step E" events for E
  by unfold_locales (auto elim!: run_stepE dest: transition_logs)

interpretation claim_log: append_only_machine "run_step E" claims for E
  by unfold_locales (auto elim!: run_stepE dest: transition_logs)

interpretation verification_log: append_only_machine "run_step E" verifications for E
  by unfold_locales (auto elim!: run_stepE dest: transition_logs)

interpretation verdict_log: append_only_machine "run_step E" supervisor_verdicts for E
  by unfold_locales (auto elim!: run_stepE dest: transition_logs)

interpretation decision_log: append_only_machine "run_step E" operator_decisions for E
  by unfold_locales (auto elim!: run_stepE dest: transition_logs)

interpretation promotion_log: append_only_machine "run_step E" promotions for E
  by unfold_locales (auto elim!: run_stepE dest: transition_logs)

text \<open>A settled review (accepted, rejected, or escalated to a human) takes no further evidence.\<close>

definition settled :: "run \<Rightarrow> bool" where
  "settled t \<longleftrightarrow> review_state t \<in> {Accepted, Rejected, Escalated}"

definition review_record ::
    "run \<Rightarrow> review_state_kind \<times> claim_record list \<times> verification_record list \<times>
       verdict_record list \<times> decision_record list" where
  "review_record t = (review_state t, claims t, verifications t, supervisor_verdicts t,
     operator_decisions t)"

lemma settled_transition:
  "transition E ctx r t m u \<Longrightarrow> settled t \<Longrightarrow> review_record u = review_record t"
  by (induction rule: transition.induct)
    (auto simp: settled_def review_record_def push_event_def claim_admissible_def)

lemma settle_review_record [simp]: "review_record (settle t now u) = review_record u"
  by (simp add: review_record_def)

interpretation settled_review: frozen_machine "run_step E" settled review_record for E
proof
  fix s :: run and op s'
  assume "settled s" "run_step E s op = Inr s'"
  then show "review_record s' = review_record s"
    by (auto elim!: run_stepE dest: settled_transition)
  then show "settled s'" using \<open>settled s\<close> by (auto simp: settled_def review_record_def)
qed

text \<open>An answered operator cancel.\<close>

definition cancelled :: "run \<Rightarrow> bool" where
  "cancelled t \<longleftrightarrow> execution_state t = RuntimeExited \<and> exit_kind t = OperatorCancelled"

lemma cancelled_transition:
  "transition E ctx r t m u \<Longrightarrow> live ctx \<Longrightarrow> cancelled t \<Longrightarrow> cancelled u \<and> claims u = claims t"
  by (induction rule: transition.induct)
    (auto simp: cancelled_def push_event_def claim_admissible_def live_def)

interpretation cancelled_run: frozen_machine "run_step E" cancelled claims for E
proof
  fix s :: run and op s'
  assume c: "cancelled s" and s: "run_step E s op = Inr s'"
  from s c show "cancelled s'"
    by (auto elim!: run_stepE dest!: cancelled_transition simp: cancelled_def)
  from s c show "claims s' = claims s"
    by (auto elim!: run_stepE dest!: cancelled_transition)
qed

lemma takeover_transition:
  assumes "transition E ctx r t m u"
  shows "lease_generation u = lease_generation t + (case m of TakeOverWorker _ _ \<Rightarrow> 1 | _ \<Rightarrow> 0)"
  using assms
  by (induction rule: transition.induct)
    (simp_all add: lease_generation_def push_event_def new_event_def)

lemma lease_settle [simp]: "lease_generation (settle t now u) = lease_generation u"
  by (simp add: lease_generation_def)

interpretation lease: monotone_machine "run_step E" lease_generation for E
  by unfold_locales (auto elim!: run_stepE dest!: takeover_transition)

text \<open>A staged worktree this build cannot compare, before the runtime starts.\<close>

definition stranded :: "run \<Rightarrow> bool" where
  "stranded t \<longleftrightarrow> world_scope t = StagedAuthoritative \<and>
     execution_state t \<in> {Registered, LaunchFailed} \<and> staged_worktree t \<noteq> None \<and>
     pred_option (\<lambda>s. \<not> is_comparable (st_pin s)) (staged_worktree t)"

lemma stranded_transition: "transition E ctx r t m u \<Longrightarrow> live ctx \<Longrightarrow> stranded t \<Longrightarrow> stranded u"
  by (induction rule: transition.induct)
    (auto simp: stranded_def push_event_def claim_admissible_def live_def)

interpretation stranded_run: invariant_machine "run_step E" stranded for E
proof
  fix s :: run and op s'
  assume "stranded s" "run_step E s op = Inr s'"
  then show "stranded s'"
    by (auto elim!: run_stepE dest!: stranded_transition simp: stranded_def)
qed

end
