(* ===== verification/Governed_Example.thy ===== *)
theory Governed_Example
  imports Governed_Lifecycle
begin

text \<open>
  One concrete governed task from registration to a promoted outcome, evaluated by the kernel, for
  use wherever a statement about runs is to be applied to an actual run.  The functions that stand
  for code outside the repository are instantiated with small concrete ones.
\<close>

definition demo_env :: env where
  "demo_env = \<lparr>parse_rfc3339 = (\<lambda>s. if s = [] then None else Some (int (length s) * 10 ^ 9)),
     is_alphanumeric = (\<lambda>c. is_ascii_letter c \<or> is_ascii_digit c),
     sha256_hex = (\<lambda>bs. replicate 64 (48 + length bs mod 10)),
     json_render = (\<lambda>_. lit ''null''), loop_report_json = (\<lambda>_. JNull),
     mutation_bytes = (\<lambda>p t m. p @ t @ [case m of SubmitClaim _ \<Rightarrow> 1 | _ \<Rightarrow> 0]),
     registration_bytes = (\<lambda>r. task r)\<rparr>"

definition demo_oid :: rstr where "demo_oid = replicate 40 97"
definition demo_new_oid :: rstr where "demo_new_oid = replicate 40 98"
definition demo_digest :: rstr where "demo_digest = lit ''sha256:'' @ replicate 64 99"

definition demo_compatibility :: role_compat where
  "demo_compatibility = \<lparr>rc_platform = lit ''codex'', rc_role = lit ''builder'', rc_checks =
     [\<lparr>cc_capability = lit ''workspace.target'', cc_required = Mediated, cc_available = Mediated,
       cc_mandatory = True\<rparr>,
      \<lparr>cc_capability = lit ''process.lifecycle'', cc_required = Mediated, cc_available = Structural,
       cc_mandatory = True\<rparr>,
      \<lparr>cc_capability = lit ''filesystem.scoped'', cc_required = Structural, cc_available = Mediated,
       cc_mandatory = False\<rparr>]\<rparr>"

definition demo_registration :: registration where
  "demo_registration = (registration_builder (lit ''req-0'') (lit ''task-1'') (lit ''w'')
      (lit ''/w'') (lit ''do it'') (lit ''agent-1'') (lit ''codex''))
     \<lparr>acceptance_criteria := [lit ''tests pass''], world_scope := StagedAuthoritative,
      verification_profile := Some RustWorkspaceV1,
      role_assignment := Some canonical_governed_builder_assignment,
      role_compatibility := Some demo_compatibility,
      initial_subject_revision := Some demo_oid\<rparr>"

definition demo_actor :: "actor_kind \<Rightarrow> governed_actor" where
  "demo_actor k = \<lparr>ac_kind = k, ac_id = (if k = Worker then lit ''agent-1'' else lit ''d'')\<rparr>"

definition demo_command :: command_evidence where
  "demo_command = \<lparr>ce_name = lit ''test'', ce_executable = lit ''cargo'', ce_redacted_args = [],
     ce_command_digest = demo_digest, ce_exit_code = Some 0, ce_success = True,
     ce_output_digest = demo_digest, ce_output_ref = None, ce_output_bytes = 0,
     ce_output_truncated = False\<rparr>"

definition demo_uuid :: "nat \<Rightarrow> rstr" where
  "demo_uuid n = replicate 34 48 @ [48 + n div 10, 48 + n mod 10]"

definition demo_now :: "nat \<Rightarrow> rstr" where
  "demo_now n = replicate (Suc n) 116"

definition demo_op :: "nat \<Rightarrow> mutation \<Rightarrow> live_op" where
  "demo_op n m = \<lparr>lo_mutation = m, lo_now = demo_now n, lo_auth = Declared,
     lo_record_uuid = demo_uuid (2 * n), lo_event_uuid = demo_uuid (2 * n + 1)\<rparr>"

definition demo_pin :: shared_config_pin where
  "demo_pin = Recorded (digest_current demo_digest None None)"

definition demo_staged :: staged_input where
  "demo_staged = \<lparr>si_actor = demo_actor System, si_root = lit ''/w/.impulse/worktrees/task-1'',
     si_initial = demo_oid, si_pin = demo_pin\<rparr>"

definition demo_claim :: claim_input where
  "demo_claim = \<lparr>ci_actor = demo_actor Worker, ci_summary = lit ''done'', ci_subject = demo_new_oid,
     ci_artifacts = [], ci_diff_ref = None\<rparr>"

definition demo_verification :: verification_input where
  "demo_verification = \<lparr>vi_actor = demo_actor Verifier,
     vi_claim_id = new_record_id ''claim'' (demo_uuid 6), vi_subject = demo_new_oid,
     vi_policy = lit ''rust'', vi_outcome = Passed, vi_commands = [demo_command], vi_artifacts = [],
     vi_notes = None\<rparr>"

definition demo_verdict :: verdict_input where
  "demo_verdict = \<lparr>svi_actor = demo_actor Supervisor,
     svi_verification_id = new_record_id ''verification'' (demo_uuid 8),
     svi_verdict = RecommendAccept, svi_rationale = lit ''ok''\<rparr>"

definition demo_decision :: decision_input where
  "demo_decision = \<lparr>di_actor = demo_actor Operator,
     di_verdict_id = new_record_id ''supervisor-verdict'' (demo_uuid 10), di_decision = Approve,
     di_rationale = lit ''ok''\<rparr>"

definition demo_promotion :: promotion_input where
  "demo_promotion = \<lparr>pi_actor = demo_actor System, pi_accepted = demo_new_oid,
     pi_initial = demo_oid, pi_outcome = Promoted demo_new_oid\<rparr>"

definition demo_ops :: "live_op list" where
  "demo_ops =
     [demo_op 1 (MaterializeStagedWorktree demo_staged), demo_op 2 (MarkRunning (demo_actor System)),
      demo_op 3 (SubmitClaim demo_claim), demo_op 4 (RecordVerification demo_verification),
      demo_op 5 (RecordSupervisorVerdict demo_verdict),
      demo_op 6 (RecordOperatorDecision demo_decision), demo_op 7 (RecordPromotion demo_promotion)]"

definition demo_start :: run where
  "demo_start = initial_run demo_registration (demo_now 0) (demo_uuid 0)"

definition demo_run :: "nat \<Rightarrow> run" where
  "demo_run k = serve (run_step demo_env) demo_start (take k demo_ops)"

lemma demo_texts [simp]:
  "text_ok (lit ''d'') n \<longleftrightarrow> 1 \<le> n" "text_ok (lit ''ok'') n \<longleftrightarrow> 2 \<le> n"
  "text_ok (lit ''done'') n \<longleftrightarrow> 4 \<le> n" "text_ok (lit ''rust'') n \<longleftrightarrow> 4 \<le> n"
  "text_ok (lit ''test'') n \<longleftrightarrow> 4 \<le> n" "text_ok (lit ''cargo'') n \<longleftrightarrow> 5 \<le> n"
  "text_ok (lit ''agent-1'') n \<longleftrightarrow> 7 \<le> n"
  by (simp_all add: text_ok_def lit_def trim_def is_whitespace_def byte_len_def utf8_def utf8_char_def)
    presburger+

lemma demo_oid_facts [simp]:
  "commit_oid demo_oid" "commit_oid demo_new_oid" "sha256_ref demo_digest"
  "text_ok demo_oid n \<longleftrightarrow> 40 \<le> n" "text_ok demo_new_oid n \<longleftrightarrow> 40 \<le> n" "demo_new_oid \<noteq> demo_oid"
  by (simp_all add: commit_oid_def lower_hex_def sha256_ref_def demo_oid_def demo_new_oid_def
      demo_digest_def byte_len_def utf8_replicate_ascii is_lower_hex_byte_def is_ascii_hexdigit_def
      is_ascii_digit_def text_ok_replicate is_whitespace_def list.pred_set)

lemma demo_root_ok [simp]:
  "path_segment_ok (lit ''task-1'')" "path_is_absolute (lit ''/w/.impulse/worktrees/task-1'')"
  "path_eq (lit ''/w/.impulse/worktrees/task-1'') (path_join (path_join (path_join (lit ''/w'')
     (lit ''.impulse'')) (lit ''worktrees'')) (lit ''task-1''))"
  by (simp_all add: path_segment_ok_def lit_def byte_len_def utf8_def utf8_char_def
      path_segment_char_def is_ascii_letter_def is_ascii_digit_def path_is_absolute_def path_eq_def
      path_join_def)

lemma demo_actor_ok [simp]: "actor_ok (demo_actor k) k' \<longleftrightarrow> k = k'"
  by (auto simp: actor_ok_def demo_actor_def MAX_REASON_BYTES_def)

lemma demo_actor_id [simp]: "ac_id (demo_actor Worker) = lit ''agent-1''"
  by (simp add: demo_actor_def)

section \<open>The states of the run\<close>

definition demo_push :: "nat \<Rightarrow> event_kind \<Rightarrow> actor_kind \<Rightarrow> rstr \<Rightarrow> run \<Rightarrow> run" where
  "demo_push n kind who detail t = settle t (demo_now n) (push_event
     \<lparr>ev_id = new_record_id ''event'' (demo_uuid (2 * n + 1)), ev_revision = n, ev_kind = kind,
      ev_actor = demo_actor who, ev_detail = detail, ev_created_at = demo_now n\<rparr> t)"

definition demo_s1 :: run where
  "demo_s1 = demo_push 1 EvStagedWorktreeMaterialized System
     (lit ''staged worktree '' @ new_record_id ''staged-worktree'' (demo_uuid 2) @ lit '' materialized'')
     (demo_start\<lparr>staged_worktree := Some
        \<lparr>st_id = new_record_id ''staged-worktree'' (demo_uuid 2), st_actor = demo_actor System,
         st_root = lit ''/w/.impulse/worktrees/task-1'', st_initial = demo_oid, st_pin = demo_pin,
         st_status = Active, st_materialized_at = demo_now 1, st_based_on = 0\<rparr>\<rparr>)"

definition demo_s2 :: run where
  "demo_s2 = demo_push 2 EvRunning System (lit ''runtime launch acknowledged'')
     (demo_s1\<lparr>execution_state := Running\<rparr>)"

definition demo_loop_digest :: rstr where
  "demo_loop_digest = governed_loop_report_digest demo_env
     (governed_loop_report demo_s2 (3 * 10 ^ 9) None) GOVERNED_BUILDER_LOOP_VERSION"

definition demo_s3 :: run where
  "demo_s3 = demo_push 3 EvClaimSubmitted Worker
     (lit ''worker completion claim '' @ new_record_id ''claim'' (demo_uuid 6) @ lit '' submitted'')
     (demo_s2\<lparr>claims := [\<lparr>cl_id = new_record_id ''claim'' (demo_uuid 6), cl_actor = demo_actor Worker,
         cl_summary = lit ''done'', cl_subject = demo_new_oid, cl_artifacts = [], cl_diff_ref = None,
         cl_loop_digest = Some demo_loop_digest, cl_loop_version = Some 1,
         cl_submitted_at = demo_now 3, cl_based_on = 2\<rparr>],
       review_state := AwaitingVerification\<rparr>)"

definition demo_s4 :: run where
  "demo_s4 = demo_push 4 EvVerificationRecorded Verifier
     (lit ''verification '' @ new_record_id ''verification'' (demo_uuid 8) @ lit '' recorded as '' @
      lit ''Passed'')
     (demo_s3\<lparr>verifications := [\<lparr>vf_id = new_record_id ''verification'' (demo_uuid 8),
         vf_actor = demo_actor Verifier, vf_claim_id = new_record_id ''claim'' (demo_uuid 6),
         vf_subject = demo_new_oid, vf_policy = lit ''rust'', vf_outcome = Passed,
         vf_commands = [demo_command], vf_artifacts = [], vf_notes = None,
         vf_recorded_at = demo_now 4, vf_based_on = 3\<rparr>],
       review_state := AwaitingSupervisor\<rparr>)"

definition demo_s5 :: run where
  "demo_s5 = demo_push 5 EvSupervisorVerdictRecorded Supervisor
     (lit ''supervisor verdict '' @ new_record_id ''supervisor-verdict'' (demo_uuid 10) @
      lit '' recorded as '' @ lit ''RecommendAccept'')
     (demo_s4\<lparr>supervisor_verdicts := [\<lparr>sv_id = new_record_id ''supervisor-verdict'' (demo_uuid 10),
         sv_actor = demo_actor Supervisor,
         sv_verification_id = new_record_id ''verification'' (demo_uuid 8),
         sv_verdict = RecommendAccept, sv_rationale = lit ''ok'',
         sv_decided_at = demo_now 5, sv_based_on = 4\<rparr>],
       review_state := AwaitingOperator\<rparr>)"

definition demo_s6 :: run where
  "demo_s6 = demo_push 6 EvOperatorDecisionRecorded Operator
     (lit ''operator decision '' @ new_record_id ''operator-decision'' (demo_uuid 12) @
      lit '' recorded as '' @ lit ''Approve'')
     (demo_s5\<lparr>operator_decisions := [\<lparr>od_id = new_record_id ''operator-decision'' (demo_uuid 12),
         od_actor = demo_actor Operator,
         od_verdict_id = new_record_id ''supervisor-verdict'' (demo_uuid 10), od_decision = Approve,
         od_rationale = lit ''ok'', od_decided_at = demo_now 6, od_based_on = 5,
         od_authentication = Declared\<rparr>],
       review_state := Accepted\<rparr>)"

definition demo_s7 :: run where
  "demo_s7 = demo_push 7 EvPromotionRecorded System
     (lit ''promotion '' @ new_record_id ''promotion'' (demo_uuid 14) @ lit '' recorded as '' @
      lit ''promoted to '' @ demo_new_oid)
     (demo_s6\<lparr>promotions := [\<lparr>pr_id = new_record_id ''promotion'' (demo_uuid 14),
         pr_actor = demo_actor System, pr_accepted = demo_new_oid, pr_initial = demo_oid,
         pr_outcome = Promoted demo_new_oid, pr_recorded_at = demo_now 7, pr_based_on = 6\<rparr>]\<rparr>)"

lemma demo_push_fields [simp]:
  "revision (demo_push n k w d t) = Suc (revision t)"
  "staged_worktree (demo_push n k w d t) = staged_worktree t"
  "promotions (demo_push n k w d t) = promotions t" "claims (demo_push n k w d t) = claims t"
  "verifications (demo_push n k w d t) = verifications t"
  "supervisor_verdicts (demo_push n k w d t) = supervisor_verdicts t"
  "operator_decisions (demo_push n k w d t) = operator_decisions t"
  "execution_state (demo_push n k w d t) = execution_state t"
  "exit_kind (demo_push n k w d t) = exit_kind t" "review_state (demo_push n k w d t) = review_state t"
  "length (events (demo_push n k w d t)) = Suc (length (events t))"
  "world_scope (demo_push n k w d t) = world_scope t" "run_id (demo_push n k w d t) = run_id t"
  "workspace_root (demo_push n k w d t) = workspace_root t" "agent_id (demo_push n k w d t) = agent_id t"
  "initial_subject_revision (demo_push n k w d t) = initial_subject_revision t"
  "created_at (demo_push n k w d t) = created_at t"
  by (simp_all add: demo_push_def push_event_def)

lemmas demo_states = demo_s1_def demo_s2_def demo_s3_def demo_s4_def demo_s5_def demo_s6_def demo_s7_def

lemmas demo_inputs = demo_staged_def demo_claim_def demo_verification_def demo_verdict_def
  demo_decision_def demo_promotion_def demo_op_def demo_start_def initial_run_def
  demo_registration_def registration_builder_def

lemma small_u64: "n \<le> 100 \<Longrightarrow> n \<le> u64_max"
  by (simp add: u64_max_def)

text \<open>The fields of each state that the next step reads.\<close>

lemma demo_start_fields [simp]:
  "revision demo_start = 0" "world_scope demo_start = StagedAuthoritative"
  "run_id demo_start = lit ''task-1''" "workspace_root demo_start = lit ''/w''"
  "agent_id demo_start = lit ''agent-1''" "initial_subject_revision demo_start = Some demo_oid"
  "staged_worktree demo_start = None" "execution_state demo_start = Registered"
  "exit_kind demo_start = Natural" "review_state demo_start = AwaitingClaim" "claims demo_start = []"
  "verifications demo_start = []" "supervisor_verdicts demo_start = []"
  "operator_decisions demo_start = []" "promotions demo_start = []"
  "length (events demo_start) = 1" "created_at demo_start = demo_now 0"
  by (simp_all add: demo_start_def initial_run_def demo_registration_def registration_builder_def)

lemmas demo_step_simps = run_step_Inr transition_iffs demo_op_def demo_states small_u64
  MAX_GOVERNED_EVENTS_def MAX_GOVERNED_RECORDS_PER_KIND_def MAX_REASON_BYTES_def
  MAX_GOVERNED_REFERENCE_BYTES_def latest_defs

lemma demo_pin_facts [simp]: "pin_ok demo_pin" "is_comparable demo_pin"
  by (simp_all add: pin_ok_def demo_pin_def digest_current_def is_comparable_def pin_comparable_def
      is_current_scheme_def)

lemma demo_elapsed [simp]:
  "parse_rfc3339 demo_env (demo_now n) = Some (int (Suc n) * 10 ^ 9)"
  "elapsed_between demo_env (demo_now 0) (demo_now n) = Inr (n * 10 ^ 9)"
proof -
  show p: "parse_rfc3339 demo_env (demo_now n) = Some (int (Suc n) * 10 ^ 9)" for n
    by (simp add: demo_env_def demo_now_def)
  show "elapsed_between demo_env (demo_now 0) (demo_now n) = Inr (n * 10 ^ 9)"
    by (simp add: elapsed_between_def p)
qed

lemma demo_command_ok [simp]: "command_ok demo_command" "ce_success demo_command"
  by (simp_all add: command_ok_def demo_command_def MAX_GOVERNED_REFERENCE_BYTES_def)

lemmas demo_step_tac = demo_step_simps demo_push_def new_event_def settle_def push_event_def

lemma demo_step_1:
  "run_step demo_env demo_start (demo_op 1 (MaterializeStagedWorktree demo_staged)) = Inr demo_s1"
  by (simp add: demo_step_tac demo_staged_def staged_root_ok_def)

lemma demo_step_2: "run_step demo_env demo_s1 (demo_op 2 (MarkRunning (demo_actor System))) = Inr demo_s2"
  by (simp add: demo_step_tac)

lemma demo_loop_state:
  "governed_builder_loop_state demo_env demo_s2 (demo_now 3) None =
   Inr (Some \<lparr>ls_trip = None, ls_digest = demo_loop_digest, ls_version = 1\<rparr>)"
proof -
  have "evaluate_observed (is_alphanumeric demo_env) (lc_budget governed_builder_contract)
      (governed_observation demo_s2 (3 * 10 ^ 9)) = None"
    by (simp add: evaluate_observed_def governed_observation_def governed_builder_contract_def
        governed_builder_def trailing_verification_failure_streak_def demo_s2_def demo_s1_def
        GOVERNED_BUILDER_MAX_CLAIM_CYCLES_def GOVERNED_BUILDER_WALL_CLOCK_def)
  moreover have "world_scope demo_s2 = StagedAuthoritative" "created_at demo_s2 = demo_now 0"
    by (simp_all add: demo_s2_def demo_s1_def)
  ultimately show ?thesis
    by (simp add: governed_builder_loop_state_def demo_loop_digest_def current_governed_loop_version_def
        GOVERNED_BUILDER_LOOP_VERSION_def)
qed

lemma demo_step_3: "run_step demo_env demo_s2 (demo_op 3 (SubmitClaim demo_claim)) = Inr demo_s3"
proof -
  have "claim_admissible demo_s2 demo_claim (op_context (demo_op 3 (SubmitClaim demo_claim)))"
    by (simp add: claim_admissible_def claim_ok_def refs_ok_def demo_claim_def demo_s2_def demo_s1_def
        bound_defs MAX_REASON_BYTES_def)
  then have "transition demo_env (op_context (demo_op 3 (SubmitClaim demo_claim))) 3 demo_s2
      (SubmitClaim demo_claim)
      (push_event (new_event (op_context (demo_op 3 (SubmitClaim demo_claim))) 3 EvClaimSubmitted
          (ci_actor demo_claim)
          (lit ''worker completion claim '' @ new_record_id ''claim'' (demo_uuid 6) @ lit '' submitted''))
        (demo_s2\<lparr>claims := claims demo_s2 @ [claim_record_of demo_s2 demo_claim
            (Some \<lparr>ls_trip = None, ls_digest = demo_loop_digest, ls_version = 1\<rparr>)
            (op_context (demo_op 3 (SubmitClaim demo_claim)))], review_state := AwaitingVerification\<rparr>))"
    using demo_loop_state transition.claim_submitted [of demo_s2 demo_claim
        "op_context (demo_op 3 (SubmitClaim demo_claim))" demo_env
        "Some \<lparr>ls_trip = None, ls_digest = demo_loop_digest, ls_version = 1\<rparr>" 3]
    by (simp add: demo_op_def)
  moreover have "revision demo_s2 = 2" "length (events demo_s2) = 3" "claims demo_s2 = []"
    by (simp_all add: demo_s2_def demo_s1_def)
  ultimately show ?thesis
    by (auto simp: run_step_Inr small_u64 bound_defs demo_s3_def demo_push_def settle_def
        push_event_def new_event_def demo_op_def claim_record_of_def demo_claim_def
        intro!: exI [rotated])
qed

text \<open>What the later steps read of the states before them.\<close>

lemma demo_s3_fields:
  "revision demo_s3 = 3" "length (events demo_s3) = 4" "verifications demo_s3 = []"
  "review_state demo_s3 = AwaitingVerification" "supervisor_verdicts demo_s3 = []"
  "operator_decisions demo_s3 = []" "promotions demo_s3 = []" "claims demo_s3 \<noteq> []"
  "world_scope demo_s3 = StagedAuthoritative"
  "cl_id (last (claims demo_s3)) = new_record_id ''claim'' (demo_uuid 6)"
  "cl_subject (last (claims demo_s3)) = demo_new_oid"
  by (simp_all add: demo_s3_def demo_s2_def demo_s1_def)

lemma demo_s4_fields:
  "revision demo_s4 = 4" "length (events demo_s4) = 5" "review_state demo_s4 = AwaitingSupervisor"
  "supervisor_verdicts demo_s4 = []" "verifications demo_s4 \<noteq> []"
  "vf_id (last (verifications demo_s4)) = new_record_id ''verification'' (demo_uuid 8)"
  "vf_outcome (last (verifications demo_s4)) = Passed"
  by (simp_all add: demo_s4_def demo_s3_fields)

lemma demo_s5_fields:
  "revision demo_s5 = 5" "length (events demo_s5) = 6" "review_state demo_s5 = AwaitingOperator"
  "operator_decisions demo_s5 = []" "supervisor_verdicts demo_s5 \<noteq> []"
  "sv_id (last (supervisor_verdicts demo_s5)) = new_record_id ''supervisor-verdict'' (demo_uuid 10)"
  "sv_verdict (last (supervisor_verdicts demo_s5)) = RecommendAccept"
  by (simp_all add: demo_s5_def demo_s4_fields demo_s4_def demo_s3_fields)

lemma demo_s6_fields:
  "revision demo_s6 = 6" "length (events demo_s6) = 7" "review_state demo_s6 = Accepted"
  "promotions demo_s6 = []" "claims demo_s6 = claims demo_s3"
  "world_scope demo_s6 = StagedAuthoritative" "staged_worktree demo_s6 = staged_worktree demo_s1"
  "execution_state demo_s6 = Running"
  by (simp_all add: demo_s6_def demo_s5_fields demo_s5_def demo_s4_def demo_s3_def demo_s2_def
      demo_s1_def)

lemmas demo_settle = run_step_Inr transition_iffs small_u64 bound_defs latest_defs
  MAX_REASON_BYTES_def demo_op_def demo_push_def settle_def push_event_def new_event_def

lemma demo_step_4:
  "run_step demo_env demo_s3 (demo_op 4 (RecordVerification demo_verification)) = Inr demo_s4"
  by (simp add: demo_settle demo_s3_fields demo_verification_def demo_s4_def verification_ok_def
      refs_ok_def)

lemma demo_step_5:
  "run_step demo_env demo_s4 (demo_op 5 (RecordSupervisorVerdict demo_verdict)) = Inr demo_s5"
  by (simp add: demo_settle demo_s4_fields demo_verdict_def demo_s5_def)

lemma demo_step_6:
  "run_step demo_env demo_s5 (demo_op 6 (RecordOperatorDecision demo_decision)) = Inr demo_s6"
  by (simp add: demo_settle demo_s5_fields demo_decision_def demo_s6_def)

lemma demo_staged_s1: "staged_worktree demo_s1 = Some
   \<lparr>st_id = new_record_id ''staged-worktree'' (demo_uuid 2), st_actor = demo_actor System,
    st_root = lit ''/w/.impulse/worktrees/task-1'', st_initial = demo_oid, st_pin = demo_pin,
    st_status = Active, st_materialized_at = demo_now 1, st_based_on = 0\<rparr>"
  by (simp add: demo_s1_def)

lemma demo_step_7:
  "run_step demo_env demo_s6 (demo_op 7 (RecordPromotion demo_promotion)) = Inr demo_s7"
  by (simp add: demo_settle demo_s6_fields demo_s3_fields demo_promotion_def demo_s7_def
      demo_staged_s1 record_promotion_preconditions_hold_def outcome_ok_def last_opt_def
      active_staged_worktree_def)

lemma demo_run_states:
  "demo_run 0 = demo_start" "demo_run 1 = demo_s1" "demo_run 2 = demo_s2" "demo_run 3 = demo_s3"
  "demo_run 4 = demo_s4" "demo_run 5 = demo_s5" "demo_run 6 = demo_s6" "demo_run 7 = demo_s7"
  by (simp_all add: demo_run_def demo_ops_def attempt_def demo_step_1 [simplified] demo_step_2
      demo_step_3 demo_step_4 demo_step_5 demo_step_6 demo_step_7)

lemma demo_run_all:
  "serve (run_step demo_env) (initial_run demo_registration (demo_now 0) (demo_uuid 0)) demo_ops = demo_run 7"
  by (simp only: demo_run_def demo_start_def) (simp add: demo_ops_def)

end
