(* ===== verification/Governed_Properties.thy ===== *)
theory Governed_Properties
  imports Governed_Example
begin

text \<open>
  The properties of governed runs, each stated over the run a registration starts and the requests
  served after it, and applied to the concrete run of \<open>Governed_Example\<close>.
\<close>

section \<open>Acceptance\<close>

lemma decidedD:
  assumes "decided t k"
  obtains c v s d where "latest_claim t = Some c" "latest_verification t = Some v"
    "latest_supervisor_verdict t = Some s" "operator_decisions t = [d]"
    "vf_claim_id v = cl_id c" "vf_subject v = cl_subject c" "vf_outcome v = Passed"
    "sv_verification_id s = vf_id v" "sv_verdict s = RecommendAccept"
    "od_verdict_id d = sv_id s" "od_decision d = k"
  using assms by (auto simp: chain_defs latest_defs)

lemma run_inv_serve: "run_inv (serve (run_step E) (initial_run r now uuid) ops)"
  by (rule run_machine.serve_inv) (rule initial_run_inv)

text \<open>The registered fields never change.\<close>

interpretation registered_fields: frozen_machine "run_step E" "\<lambda>_. True" task_core.truncate for E
  by unfold_locales (auto dest: run_step_fields)

lemma serve_core: "task_core.truncate (serve (run_step E) t ops) = task_core.truncate t"
  by (rule registered_fields.serve_frozen) simp

lemma serve_fields:
  "world_scope (serve (run_step E) t ops) = world_scope t"
  "agent_id (serve (run_step E) t ops) = agent_id t"
  "workspace_root (serve (run_step E) t ops) = workspace_root t"
  "initial_subject_revision (serve (run_step E) t ops) = initial_subject_revision t"
  by (rule truncate_eq_fields [OF serve_core])+

interpretation run_identity: frozen_machine "run_step E" "\<lambda>_. True" "\<lambda>t. (run_id t, created_at t)" for E
  by unfold_locales (auto dest: run_step_fields)

lemma serve_run_id:
  "run_id (serve (run_step E) t ops) = run_id t" "created_at (serve (run_step E) t ops) = created_at t"
  using run_identity.serve_frozen [where s = t and E = E and ops = ops] by simp_all

text \<open>C1: A run is accepted only on a complete chain of evidence: the single operator decision approves
  the latest supervisor verdict, which recommends acceptance of the latest verification, which passed
  on commands that all exited with code zero and is about exactly the subject of the latest worker
  claim, submitted by the agent the task was registered for; and each link was written by an actor of
  its own kind.\<close>

theorem accepted_run_is_evidenced:
  assumes "t = serve (run_step E) (initial_run r now uuid) ops" and "is_accepted t"
  shows "\<exists>c v s d. latest_claim t = Some c \<and> latest_verification t = Some v \<and>
    latest_supervisor_verdict t = Some s \<and> operator_decisions t = [d] \<and>
    ac_kind (cl_actor c) = Worker \<and> ac_id (cl_actor c) = agent_id r \<and>
    ac_kind (vf_actor v) = Verifier \<and> vf_claim_id v = cl_id c \<and> vf_subject v = cl_subject c \<and>
    vf_outcome v = Passed \<and> vf_commands v \<noteq> [] \<and>
    list_all (\<lambda>k. ce_exit_code k = Some 0) (vf_commands v) \<and>
    ac_kind (sv_actor s) = Supervisor \<and> sv_verification_id s = vf_id v \<and>
    sv_verdict s = RecommendAccept \<and>
    ac_kind (od_actor d) = Operator \<and> od_verdict_id d = sv_id s \<and> od_decision d = Approve"
proof -
  have inv: "provenance t" "review_coherent t" using run_inv_serve assms(1) by (auto simp: run_inv_def)
  have agent: "agent_id t = agent_id r" using assms(1) by (simp add: serve_fields initial_run_def)
  from inv(2) assms(2) have "decided t Approve" by (simp add: review_coherent_def is_accepted_def)
  then obtain c v s d where l: "latest_claim t = Some c" "latest_verification t = Some v"
    "latest_supervisor_verdict t = Some s" "operator_decisions t = [d]"
    and links: "vf_claim_id v = cl_id c" "vf_subject v = cl_subject c" "vf_outcome v = Passed"
    "sv_verification_id s = vf_id v" "sv_verdict s = RecommendAccept"
    "od_verdict_id d = sv_id s" "od_decision d = Approve" by (rule decidedD)
  from l have "c \<in> set (claims t)" "v \<in> set (verifications t)" "s \<in> set (supervisor_verdicts t)"
    by (auto simp: latest_defs)
  with inv(1) l(4) have "ac_kind (cl_actor c) = Worker" "ac_id (cl_actor c) = agent_id t"
    "ac_kind (vf_actor v) = Verifier" "evidence_ok v" "ac_kind (sv_actor s) = Supervisor"
    "ac_kind (od_actor d) = Operator"
    by (auto simp: provenance_def list.pred_set)
  with l links agent show ?thesis
    by (auto simp: evidence_ok_def command_ok_def list.pred_set)
qed

theorem accepted_run_is_evidenced_witness:
  "\<exists>v. is_accepted (demo_run 6) \<and> latest_verification (demo_run 6) = Some v \<and>
     vf_commands v \<noteq> [] \<and> list_all (\<lambda>k. ce_exit_code k = Some 0) (vf_commands v)"
proof -
  have acc: "is_accepted (demo_run 6)"
    by (simp add: demo_run_states is_accepted_def demo_s6_fields)
  have "demo_run 6 = serve (run_step demo_env)
      (initial_run demo_registration (demo_now 0) (demo_uuid 0)) (take 6 demo_ops)"
    by (simp add: demo_run_def demo_start_def)
  from accepted_run_is_evidenced [OF this acc] acc show ?thesis by blast
qed

text \<open>C20: A settled review is final: once a run is accepted, rejected or escalated, no sequence of
  requests changes its review state or adds a claim, a verification, a verdict or a decision.\<close>

theorem settled_review_is_final:
  assumes "review_state t \<in> {Accepted, Rejected, Escalated}"
  shows "review_record (serve (run_step E) t ops) = review_record t"
  using assms by (intro settled_review.serve_frozen) (simp add: settled_def)

theorem settled_review_is_final_witness:
  "review_state (demo_run 6) = Accepted \<and>
   review_record (serve (run_step demo_env) (demo_run 6) demo_ops) = review_record (demo_run 6)"
proof -
  have "review_state (demo_run 6) = Accepted" by (simp add: demo_run_states demo_s6_fields)
  then show ?thesis using settled_review_is_final [of "demo_run 6" demo_env demo_ops] by simp
qed

section \<open>History and leases\<close>

text \<open>C10: The event log of a served run is a gapless history: event \<open>i\<close> carries revision \<open>i\<close>, there
  is exactly one event per revision, only event zero is a registration, and serving further requests
  only appends to the log.\<close>

theorem event_log_is_gapless_history:
  fixes E r now uuid ops more
  defines "t \<equiv> serve (run_step E) (initial_run r now uuid) ops"
  shows "map ev_revision (events t) = [0..<Suc (revision t)] \<and>
    map ev_kind (filter (\<lambda>e. ev_kind e = EvRegistered) (events t)) = [EvRegistered] \<and>
    prefix (events t) (events (serve (run_step E) t more))"
proof -
  have "events_contiguous t" unfolding t_def using run_inv_serve by (auto simp: run_inv_def)
  then have "map ev_revision (events t) = [0..<Suc (revision t)]" "ev_kind (hd (events t)) = EvRegistered"
    "filter (\<lambda>e. ev_kind e = EvRegistered) (tl (events t)) = []" "events t \<noteq> []"
    by (auto simp: events_contiguous_def filter_empty_conv list.pred_set)
  then show ?thesis using event_log.serve_extends [of t E more]
    by (cases "events t") auto
qed

text \<open>The lease generation is exactly the number of worker takeovers: a takeover raises it by one
  and is admitted only from the daemon or an operator, on a running, unsettled run; every other
  mutation leaves it alone.\<close>

theorem lease_generation_counts_takeovers:
  assumes "run_step E t op = Inr t'"
  shows "case lo_mutation op of
      TakeOverWorker a reason \<Rightarrow> lease_generation t' = Suc (lease_generation t) \<and>
        ac_kind a \<in> {System, Operator} \<and> execution_state t = Running \<and>
        review_state t \<in> {AwaitingClaim, ChangesRequested, VerificationFailed}
    | _ \<Rightarrow> lease_generation t' = lease_generation t"
  using assms
proof (elim run_stepE)
  fix u assume u: "transition E (op_context op) (Suc (revision t)) t (lo_mutation op) u"
    and t': "t' = settle t (lo_now op) u"
  from takeover_transition [OF u] t' have "lease_generation t' = lease_generation t +
      (case lo_mutation op of TakeOverWorker _ _ \<Rightarrow> 1 | _ \<Rightarrow> 0)" by simp
  then show ?thesis using u
    by (cases "lo_mutation op") (auto elim: transition_takeoverE)
qed

theorem lease_generation_counts_takeovers_witness:
  "\<exists>t'. run_step demo_env demo_s2 (demo_op 3 (TakeOverWorker (demo_actor Operator) (lit ''ok''))) = Inr t' \<and>
     lease_generation t' = Suc (lease_generation demo_s2)"
proof -
  have "\<exists>t'. run_step demo_env demo_s2 (demo_op 3 (TakeOverWorker (demo_actor Operator) (lit ''ok''))) = Inr t'"
    by (simp add: run_step_Inr transition_takeover_iff demo_op_def demo_s2_def demo_s1_def small_u64
        bound_defs MAX_REASON_BYTES_def demo_actor_def active_staged_worktree_def)
  then obtain t' where t': "run_step demo_env demo_s2
      (demo_op 3 (TakeOverWorker (demo_actor Operator) (lit ''ok''))) = Inr t'" ..
  from lease_generation_counts_takeovers [OF t'] t' show ?thesis by (simp add: demo_op_def)
qed

section \<open>Cancellation, budgets and promotion\<close>

text \<open>An answered operator cancel is final for the worker: however the daemon goes on, the cancelled
  run stays exited and cancelled and takes no further claim.\<close>

theorem cancelled_run_takes_no_claims:
  assumes "execution_state t = RuntimeExited" and "exit_kind t = OperatorCancelled"
  shows "claims (serve (run_step E) t ops) = claims t \<and>
    execution_state (serve (run_step E) t ops) = RuntimeExited \<and>
    exit_kind (serve (run_step E) t ops) = OperatorCancelled"
proof -
  have c: "cancelled t" using assms by (simp add: cancelled_def)
  then have "cancelled (serve (run_step E) t ops)" by (rule cancelled_run.serve_inv)
  with cancelled_run.serve_frozen [OF c, of E ops] show ?thesis by (simp add: cancelled_def)
qed

theorem cancelled_run_takes_no_claims_witness:
  "execution_state (demo_s2\<lparr>execution_state := RuntimeExited, exit_kind := OperatorCancelled\<rparr>) = RuntimeExited \<and>
   claims (serve (run_step demo_env)
     (demo_s2\<lparr>execution_state := RuntimeExited, exit_kind := OperatorCancelled\<rparr>) (drop 2 demo_ops)) = []"
  using cancelled_run_takes_no_claims
    [of "demo_s2\<lparr>execution_state := RuntimeExited, exit_kind := OperatorCancelled\<rparr>" demo_env "drop 2 demo_ops"]
  by (simp add: demo_s2_def demo_s1_def)

text \<open>A staged Builder cannot loop: whatever is requested, a staged run records at most one claim
  more than the five its loop contract budgets, and once that last claim is recorded the run is
  escalated to a human.\<close>

theorem staged_builder_claims_bounded:
  fixes E r now uuid ops
  defines "t \<equiv> serve (run_step E) (initial_run r now uuid) ops"
  assumes "world_scope r = StagedAuthoritative"
  shows "length (claims t) \<le> Suc GOVERNED_BUILDER_MAX_CLAIM_CYCLES \<and>
    (length (claims t) = Suc GOVERNED_BUILDER_MAX_CLAIM_CYCLES \<longrightarrow> review_state t = Escalated)"
proof -
  have "loop_bounded t" unfolding t_def using run_inv_serve by (auto simp: run_inv_def)
  moreover have "world_scope t = StagedAuthoritative"
    using assms by (simp add: serve_fields initial_run_def)
  ultimately show ?thesis by (auto simp: loop_bounded_def)
qed

theorem staged_builder_claims_bounded_witness:
  "world_scope demo_registration = StagedAuthoritative \<and> length (claims (demo_run 7)) \<le> 6"
proof -
  have scope: "world_scope demo_registration = StagedAuthoritative"
    by (simp add: demo_registration_def)
  then show ?thesis
    using staged_builder_claims_bounded [OF scope, of demo_env "demo_now 0" "demo_uuid 0" demo_ops]
    by (simp add: demo_run_all GOVERNED_BUILDER_MAX_CLAIM_CYCLES_def)
qed

text \<open>C8: A governed outcome is promoted at most once, and a promotion lands exactly what was accepted:
  in every served run only the last promotion record can be a promoted one, promotions exist only on
  accepted staged runs, every one of them names the latest claim's subject and the registered initial
  commit, and a promoted record's revision is that subject.\<close>

theorem promotion_lands_accepted_subject_once:
  fixes E r now uuid ops
  defines "t \<equiv> serve (run_step E) (initial_run r now uuid) ops"
  shows "(promotions t \<noteq> [] \<longrightarrow> is_accepted t \<and> world_scope r = StagedAuthoritative) \<and>
    list_all (\<lambda>p. \<not> is_promoted (pr_outcome p)) (butlast (promotions t)) \<and>
    list_all (\<lambda>p. map_option cl_subject (latest_claim t) = Some (pr_accepted p) \<and>
      initial_subject_revision r = Some (pr_initial p) \<and> ac_kind (pr_actor p) = System \<and>
      (\<forall>oid. pr_outcome p = Promoted oid \<longrightarrow> oid = pr_accepted p)) (promotions t)"
proof -
  have inv: "promotion_coherent t" "provenance t" "review_coherent t"
    unfolding t_def using run_inv_serve by (auto simp: run_inv_def)
  have same: "world_scope t = world_scope r" "initial_subject_revision t = initial_subject_revision r"
    by (simp_all add: t_def serve_fields initial_run_def)
  have "claims t \<noteq> []" if "promotions t \<noteq> []"
  proof -
    from that inv(1) have "review_state t = Accepted" by (simp add: promotion_coherent_def)
    with inv(3) show ?thesis by (simp add: review_coherent_def chain_defs)
  qed
  with inv(1,2) same show ?thesis
    by (auto simp: promotion_coherent_def provenance_def is_accepted_def list.pred_set latest_defs
        last_opt_def)
qed

theorem promotion_lands_accepted_subject_once_witness:
  "list_all (\<lambda>p. pr_outcome p = Promoted demo_new_oid) (promotions (demo_run 7)) \<and>
   list_all (\<lambda>p. map_option cl_subject (latest_claim (demo_run 7)) = Some (pr_accepted p))
     (promotions (demo_run 7))"
proof -
  have "list_all (\<lambda>p. map_option cl_subject (latest_claim (demo_run 7)) = Some (pr_accepted p))
      (promotions (demo_run 7))"
    using promotion_lands_accepted_subject_once
      [of demo_env demo_registration "demo_now 0" "demo_uuid 0" demo_ops]
    by (simp add: demo_run_all list.pred_set)
  moreover have "promotions (demo_run 7) = [\<lparr>pr_id = new_record_id ''promotion'' (demo_uuid 14),
         pr_actor = demo_actor System, pr_accepted = demo_new_oid, pr_initial = demo_oid,
         pr_outcome = Promoted demo_new_oid, pr_recorded_at = demo_now 7, pr_based_on = 6\<rparr>]"
    by (simp add: demo_run_states demo_s7_def)
  ultimately show ?thesis by simp
qed

text \<open>A staged worktree whose configuration pin this build cannot compare is a dead end: a run that
  has one before its runtime starts never reaches the running state, whatever is requested, because
  discarding the worktree does not allow another one to be materialized.\<close>

theorem uncomparable_pin_never_runs:
  assumes "world_scope t = StagedAuthoritative" and "execution_state t = Registered"
    and "staged_worktree t = Some s" and "\<not> is_comparable (st_pin s)"
  shows "execution_state (serve (run_step E) t ops) \<in> {Registered, LaunchFailed}"
proof -
  have "stranded t" using assms by (simp add: stranded_def)
  then have "stranded (serve (run_step E) t ops)" by (rule stranded_run.serve_inv)
  then show ?thesis by (simp add: stranded_def)
qed

definition demo_unpinned :: run where
  "demo_unpinned = demo_s1\<lparr>staged_worktree := map_option (\<lambda>s. s\<lparr>st_pin := Unknown\<rparr>) (staged_worktree demo_s1)\<rparr>"

theorem uncomparable_pin_never_runs_witness:
  "world_scope demo_unpinned = StagedAuthoritative \<and> execution_state demo_unpinned = Registered \<and>
   execution_state (serve (run_step demo_env) demo_unpinned
     [demo_op 2 (DiscardStagedWorktree (demo_actor System) (lit ''ok'')),
      demo_op 3 (MaterializeStagedWorktree demo_staged), demo_op 4 (MarkRunning (demo_actor System))])
   \<in> {Registered, LaunchFailed}"
proof -
  have f: "world_scope demo_unpinned = StagedAuthoritative" "execution_state demo_unpinned = Registered"
    by (simp_all add: demo_unpinned_def demo_s1_def)
  moreover obtain s where "staged_worktree demo_unpinned = Some s" "\<not> is_comparable (st_pin s)"
    by (simp add: demo_unpinned_def demo_staged_s1 is_comparable_def pin_comparable_def)
  ultimately show ?thesis using uncomparable_pin_never_runs [OF f] by blast
qed

section \<open>The transition function\<close>


end
