(* ===== verification/Registration_Properties.thy ===== *)
theory Registration_Properties
  imports Governed_Properties
begin

text \<open>
  What a validated registration guarantees to everything downstream: a staged task is attested and
  confined, and the compatibility result the role comparison computes is always one the contract
  accepts.
\<close>

section \<open>Paths below the workspace\<close>

lemma plain_not_absolute: "plain_segment seg \<Longrightarrow> \<not> path_is_absolute seg"
  by (cases seg) (auto simp: plain_segment_def path_is_absolute_def)

lemma path_components_snoc_slash: "path_components (b @ [47]) = path_components b" if "b \<noteq> []"
proof -
  have "hd (split_slash [] b @ [[]]) = hd (split_slash [] b)"
    using split_slash_nonempty by (simp add: hd_append)
  with that show ?thesis
    using split_slash_append [of "[]" b "[]"]
    by (simp add: path_components_def path_is_absolute_def Let_def)
qed

lemma path_components_slash:
  assumes "b \<noteq> []" "plain_segment seg"
  shows "path_components (b @ 47 # seg) = path_components b @ [NormalComponent seg]"
proof -
  have "hd (split_slash [] b @ [seg]) = hd (split_slash [] b)"
    using split_slash_nonempty by (simp add: hd_append)
  with assms show ?thesis
    by (simp add: path_components_def path_is_absolute_def Let_def split_slash_append
        split_slash_segment plain_segment_def component_of_def)
qed

text \<open>Joining a plain segment appends exactly one component.\<close>

lemma path_components_join:
  assumes "plain_segment seg"
  shows "path_components (path_join b seg) = path_components b @ [NormalComponent seg]"
proof (cases "b = []")
  case True
  have "\<not> path_is_absolute seg" by (rule plain_not_absolute [OF assms])
  moreover have "[] \<noteq> lit ''.''" by (simp add: lit_def)
  ultimately show ?thesis
    using True assms
    by (auto simp: path_join_def path_components_def path_is_absolute_def Let_def
        split_slash_segment plain_segment_def component_of_def)
next
  case False
  show ?thesis
  proof (cases "last b = 47")
    case True
    then obtain b' where b: "b = b' @ [47]" using \<open>b \<noteq> []\<close> by (metis append_butlast_last_id)
    have join: "path_join b seg = b' @ 47 # seg"
      using b plain_not_absolute [OF assms] by (simp add: path_join_def)
    show ?thesis
    proof (cases "b' = []")
      case True
      with assms have "path_components (b' @ 47 # seg) = path_components (b' @ [47]) @ [NormalComponent seg]"
        by (simp add: path_components_def path_is_absolute_def Let_def split_slash_segment
            plain_segment_def component_of_def)
      then show ?thesis by (simp only: join) (simp only: b)
    next
      case False
      with assms have "path_components (b' @ 47 # seg) = path_components (b' @ [47]) @ [NormalComponent seg]"
        by (simp add: path_components_slash path_components_snoc_slash)
      then show ?thesis by (simp only: join) (simp only: b)
    qed
  next
    case False
    with assms \<open>b \<noteq> []\<close> show ?thesis
      using path_components_slash [OF \<open>b \<noteq> []\<close> assms] plain_not_absolute [OF assms]
      by (simp add: path_join_def)
  qed
qed

lemma segment_is_plain: "path_segment_ok seg \<Longrightarrow> plain_segment seg"
  by (auto simp: path_segment_ok_def plain_segment_def list_ex_iff path_segment_char_def
      is_ascii_letter_def is_ascii_digit_def)

lemma daemon_segments: "plain_segment (lit ''.impulse'')" "plain_segment (lit ''worktrees'')"
  by (simp_all add: plain_segment_def lit_def)

section \<open>What a validated registration guarantees\<close>

lemma validate_nonblank_Inr [simp]: "(validate_nonblank f v n = Inr u) = text_ok v n"
  by (simp add: validate_nonblank_def)

lemma validate_git_commit_oid_Inr [simp]: "(validate_git_commit_oid f v = Inr u) = commit_oid v"
  by (simp add: validate_git_commit_oid_def)

lemma validate_path_segment_Inr [simp]: "(validate_path_segment f v = Inr u) = path_segment_ok v"
  by (simp add: validate_path_segment_def)

text \<open>A staged registration that validates is attested and launchable: it carries a verification
  profile, a full commit id as its starting point, between one and sixteen bounded acceptance
  criteria, the canonical Builder role with a compatibility result that covers it and allows the
  launch on the registered runtime, and a task id that is one plain path segment different from the
  agent's id.\<close>

theorem staged_registration_is_attested:
  assumes "validate_registration r = Inr ()" and "world_scope r = StagedAuthoritative"
  shows "verification_profile r \<noteq> None \<and> pred_option commit_oid (initial_subject_revision r) \<and>
    initial_subject_revision r \<noteq> None \<and>
    acceptance_criteria r \<noteq> [] \<and> length (acceptance_criteria r) \<le> 16 \<and>
    list_all (\<lambda>c. text_ok c 512) (acceptance_criteria r) \<and> text_ok (task r) 2048 \<and>
    role_assignment r = Some canonical_governed_builder_assignment \<and>
    (\<exists>rc. role_compatibility r = Some rc \<and> launch_allowed rc \<and> rc_platform rc = runtime_id r \<and>
       exact_cover canonical_governed_builder_assignment rc) \<and>
    path_segment_ok (rg_task_id r) \<and> rg_task_id r \<noteq> agent_id r"
proof -
  have parts: "validate_identity r = Inr ()" "validate_world_scope r = Inr ()"
    "validate_profile r = Inr ()" "validate_compatibility r = Inr ()"
    using assms(1) by (simp_all add: validate_registration_def)
  have scope: "verification_profile r \<noteq> None" "path_segment_ok (rg_task_id r)"
    using parts(2) assms(2) by (auto simp: validate_world_scope_def requires_staged_worktree_def)
  have ids: "rg_task_id r \<noteq> agent_id r" using parts(1) by (simp add: validate_identity_def)
  have prof: "acceptance_criteria r \<noteq> []" "length (acceptance_criteria r) \<le> 16"
    "list_all (\<lambda>c. text_ok c 512) (acceptance_criteria r)" "text_ok (task r) 2048"
    "role_assignment r = Some canonical_governed_builder_assignment" "role_compatibility r \<noteq> None"
    "\<exists>oid. initial_subject_revision r = Some oid \<and> commit_oid oid"
    using parts(3) scope(1)
    by (auto simp: validate_profile_def list.pred_map comp_def bound_defs split: option.splits)
  then obtain rc where rc: "role_compatibility r = Some rc" by blast
  have "launch_allowed rc" "rc_platform rc = runtime_id r"
    "exact_cover canonical_governed_builder_assignment rc"
    using parts(4) rc prof(5) by (auto simp: validate_compatibility_def is_blocked_def)
  with rc prof scope ids show ?thesis by auto
qed

lemma demo_registration_texts [simp]:
  "text_ok (lit ''w'') n \<longleftrightarrow> 1 \<le> n" "text_ok (lit ''/w'') n \<longleftrightarrow> 2 \<le> n"
  "text_ok (lit ''do it'') n \<longleftrightarrow> 5 \<le> n" "text_ok (lit ''codex'') n \<longleftrightarrow> 5 \<le> n"
  "text_ok (lit ''tests pass'') n \<longleftrightarrow> 10 \<le> n"
  by (simp_all add: text_ok_def lit_def trim_def is_whitespace_def byte_len_def utf8_def utf8_char_def)
    presburger+

lemma demo_cover:
  "exact_cover canonical_governed_builder_assignment demo_compatibility"
  "launch_allowed demo_compatibility"
  by (simp_all add: exact_cover_def demo_compatibility_def canonical_governed_builder_assignment_def
      lit_def launch_allowed_def is_satisfied_def less_eq_enforcement_strength_def)

lemma demo_registration_valid: "validate_registration demo_registration = Inr ()"
proof -
  have "lit ''task-1'' \<noteq> lit ''agent-1''" by (simp add: lit_def)
  then have "validate_identity demo_registration = Inr ()"
    by (simp add: validate_identity_def demo_registration_def registration_builder_def bound_defs)
  moreover have "validate_world_scope demo_registration = Inr ()"
    by (simp add: validate_world_scope_def demo_registration_def registration_builder_def
        is_materializable_def)
  moreover have "validate_profile demo_registration = Inr ()"
    by (simp add: validate_profile_def demo_registration_def registration_builder_def bound_defs)
  moreover have "validate_compatibility demo_registration = Inr ()"
    by (simp add: validate_compatibility_def demo_registration_def registration_builder_def demo_cover
        is_blocked_def)
      (simp add: demo_compatibility_def canonical_governed_builder_assignment_def)
  ultimately show ?thesis by (simp add: validate_registration_def)
qed

lemma demo_registration_scope: "world_scope demo_registration = StagedAuthoritative"
  by (simp add: demo_registration_def)

theorem staged_registration_is_attested_witness:
  "validate_registration demo_registration = Inr () \<and>
   world_scope demo_registration = StagedAuthoritative \<and> path_segment_ok (rg_task_id demo_registration)"
  using staged_registration_is_attested [OF demo_registration_valid demo_registration_scope]
  by (simp add: demo_registration_valid demo_registration_scope)

text \<open>C24: A staged runtime is never launched in the canonical workspace: for every served run of a
  staged registration, a launch directory is either refused or is exactly the daemon's own
  \<open>.impulse/worktrees/<task id>\<close> below the workspace root, component by component.\<close>

theorem staged_launch_stays_in_worktree:
  fixes E r now uuid ops
  defines "t \<equiv> serve (run_step E) (initial_run r now uuid) ops"
  assumes "world_scope r = StagedAuthoritative" and "launch_working_directory t = Inr dir"
  shows "path_is_absolute dir \<and> path_components dir =
     path_components (workspace_root r) @
       [NormalComponent (lit ''.impulse''), NormalComponent (lit ''worktrees''),
        NormalComponent (rg_task_id r)]"
proof -
  have inv: "staged_coherent t" unfolding t_def using run_inv_serve by (auto simp: run_inv_def)
  have same: "world_scope t = world_scope r" "workspace_root t = workspace_root r" "run_id t = rg_task_id r"
    by (simp_all add: t_def serve_fields serve_run_id initial_run_def)
  obtain s where "staged_worktree t = Some s" "dir = st_root s"
    using assms(2,3) same by (auto simp: launch_working_directory_def split: option.splits)
  then have "staged_root_ok t dir" using inv by (simp add: staged_coherent_def)
  then show ?thesis
    by (simp add: staged_root_ok_def path_eq_def path_components_join segment_is_plain daemon_segments same)
qed

theorem staged_launch_stays_in_worktree_witness:
  "world_scope demo_registration = StagedAuthoritative \<and>
   launch_working_directory (demo_run 7) = Inr (lit ''/w/.impulse/worktrees/task-1'') \<and>
   path_is_absolute (lit ''/w/.impulse/worktrees/task-1'')"
proof -
  have "launch_working_directory (demo_run 7) = Inr (lit ''/w/.impulse/worktrees/task-1'')"
    by (simp add: demo_run_states launch_working_directory_def active_staged_worktree_def demo_s7_def
        demo_s6_fields demo_staged_s1)
  then show ?thesis
    using staged_launch_stays_in_worktree [OF demo_registration_scope, of demo_env "demo_now 0"
        "demo_uuid 0" demo_ops "lit ''/w/.impulse/worktrees/task-1''"]
    by (simp add: demo_run_all demo_registration_scope)
qed

section \<open>Role compatibility and registration agree\<close>

lemma filter_requirement_checks:
  assumes "distinct (map rq_capability rqs)" "q \<in> set rqs"
  shows "length (filter (\<lambda>c. cc_capability c = rq_capability q)
     (map (requirement_check ds) rqs)) = 1"
proof -
  have cap: "cc_capability (requirement_check ds a) = rq_capability a" for a
    by (simp add: requirement_check_def)
  have one: "length (filter (\<lambda>a. rq_capability a = rq_capability q) rqs) = 1"
    using assms
  proof (induction rqs)
    case (Cons a rqs)
    have "filter (\<lambda>b. rq_capability b = rq_capability a) rqs = []"
      using Cons.prems(1) by (fastforce simp: filter_empty_conv image_iff)
    with Cons show ?case by auto
  qed simp
  then show ?thesis by (simp add: filter_map comp_def cap)
qed

text \<open>The compatibility result that the role comparison computes in a world is one the registration
  contract accepts: for an assignment whose requirements name each capability once, a result that
  allows the launch passes every compatibility check of the registration it is attached to.\<close>

theorem evaluated_compatibility_registers:
  assumes "distinct (map rq_capability (ra_requirements a))"
    and "evaluate_role_compatibility_in_world platform declared a scope = Inr rc"
    and "launch_allowed rc"
    and "role_assignment r = Some a" and "role_compatibility r = Some rc" and "runtime_id r = platform"
  shows "validate_compatibility r = Inr ()"
proof -
  obtain ds where rc: "rc = \<lparr>rc_platform = platform, rc_role = ra_role a,
      rc_checks = map (requirement_check ds) (ra_requirements a)\<rparr>"
    using assms(2)
    by (auto simp: evaluate_role_compatibility_in_world_def evaluate_role_compatibility_def Let_def
        split: if_splits option.splits)
  have "exact_cover a rc"
    using filter_requirement_checks [OF assms(1), of _ ds]
    by (auto simp: exact_cover_def rc list_ex_iff requirement_check_def)
  with rc assms show ?thesis by (simp add: validate_compatibility_def is_blocked_def)
qed

theorem evaluated_compatibility_registers_witness:
  "\<exists>rc. evaluate_role_compatibility_in_world (lit ''codex'')
      [\<lparr>cs_capability = lit ''workspace.target'', cs_enforcement = Mediated\<rparr>,
       \<lparr>cs_capability = lit ''process.lifecycle'', cs_enforcement = Structural\<rparr>]
      canonical_governed_builder_assignment StagedAuthoritative = Inr rc \<and>
     validate_compatibility (demo_registration\<lparr>role_compatibility := Some rc\<rparr>) = Inr ()"
proof -
  have ev: "evaluate_role_compatibility_in_world (lit ''codex'')
      [\<lparr>cs_capability = lit ''workspace.target'', cs_enforcement = Mediated\<rparr>,
       \<lparr>cs_capability = lit ''process.lifecycle'', cs_enforcement = Structural\<rparr>]
      canonical_governed_builder_assignment StagedAuthoritative = Inr demo_compatibility"
    by code_simp
  have "distinct (map rq_capability (ra_requirements canonical_governed_builder_assignment))"
    by code_simp
  from evaluated_compatibility_registers [OF this ev demo_cover(2),
      of "demo_registration\<lparr>role_compatibility := Some demo_compatibility\<rparr>"]
  show ?thesis using ev by (simp add: demo_registration_def registration_builder_def)
qed

end
