(* ===== verification/Governed_Wiring.thy ===== *)
theory Governed_Wiring
  imports Registration_Properties
begin

text \<open>
  The wire-side copies of the ledger's rules (\<open>impulse-ops/src/governed_wiring.rs\<close>): the discard
  preflight the daemon runs before it deletes a checkout, the promotability test a surface uses,
  and the commit a discard would leave unreferenced.  They must agree with the enforcing rules of
  \<open>src/state/governed_task.rs\<close>; that they do is proved here.
\<close>

section \<open>Requests and acknowledgements\<close>

record discard_request =
  dr_request_id :: rstr
  dr_project_id :: rstr
  dr_task_id :: rstr
  dr_expected_revision :: nat
  dr_reason :: rstr

definition validate_discard_request :: "discard_request \<Rightarrow> contract_error + unit" where
  "validate_discard_request r = ensure (text_ok (dr_reason r) MAX_GOVERNED_TEXT_BYTES)
     (InvalidField ''reason'' (lit ''must be nonblank, NUL-free, and at most '' @
        dec MAX_GOVERNED_TEXT_BYTES @ lit '' UTF-8 bytes''))"

datatype staged_config_refusal =
    Unpinned
  | Changed shared_config_component
  | UnsupportedSubmodules rstr

fun refusal_str :: "staged_config_refusal \<Rightarrow> rstr" where
  "refusal_str Unpinned = lit ''repository_config_unpinned''"
| "refusal_str (Changed _) = lit ''repository_config_changed''"
| "refusal_str (UnsupportedSubmodules _) = lit ''unsupported_submodules''"

fun refusal_remedy :: "staged_config_refusal \<Rightarrow> rstr" where
  "refusal_remedy (UnsupportedSubmodules _) = lit
     ''register this task with the authoritative world scope; the staged scope does not support submodule repositories''"
| "refusal_remedy _ = lit
     ''discard the staged worktree and re-materialize it, then re-run the producer''"

fun show_refusal :: "staged_config_refusal \<Rightarrow> rstr" where
  "show_refusal (Changed c) = refusal_str (Changed c) @ lit '' ('' @ component_str c @ lit '')''"
| "show_refusal (UnsupportedSubmodules p) =
     refusal_str (UnsupportedSubmodules p) @ lit '' ('' @ p @ lit '')''"
| "show_refusal r = refusal_str r"

record refusal_ack =
  ra_task :: run
  ra_refused :: bool
  ra_reason :: staged_config_refusal
  ra_remedy :: rstr

definition refusal_ack_new :: "run \<Rightarrow> staged_config_refusal \<Rightarrow> refusal_ack" where
  "refusal_ack_new t reason =
     \<lparr>ra_task = t, ra_refused = True, ra_reason = reason, ra_remedy = refusal_remedy reason\<rparr>"

section \<open>The wire-side rules\<close>

definition builder_still_working :: "run \<Rightarrow> bool" where
  "builder_still_working t \<longleftrightarrow> execution_state t = Running \<and>
     review_state t \<notin> {Accepted, Rejected, Escalated}"

definition wire_worktree_is_discardable :: "run \<Rightarrow> bool" where
  "wire_worktree_is_discardable t =
     (if execution_state t = LaunchFailed then True
      else if execution_state t = RuntimeExited \<and> review_state t = AwaitingClaim then True
      else if \<not> builder_still_working t \<and>
        (case staged_worktree t of None \<Rightarrow> False | Some s \<Rightarrow> \<not> is_comparable (st_pin s)) then True
      else case review_state t of
          Rejected \<Rightarrow> True
        | Escalated \<Rightarrow> True
        | Accepted \<Rightarrow> latest_promotion t \<noteq> None
        | _ \<Rightarrow> False)"

definition governed_outcome_is_promotable :: "run \<Rightarrow> bool" where
  "governed_outcome_is_promotable t \<longleftrightarrow> world_scope t = StagedAuthoritative \<and> is_accepted t \<and>
     active_staged_worktree t \<noteq> None \<and> latest_claim t \<noteq> None \<and>
     \<not> (case latest_promotion t of None \<Rightarrow> False | Some p \<Rightarrow> is_promoted (pr_outcome p)) \<and>
     length (promotions t) < MAX_GOVERNED_RECORDS_PER_KIND"

definition unreferenced_accepted_commit_on_discard :: "run \<Rightarrow> rstr option" where
  "unreferenced_accepted_commit_on_discard t =
     (if \<not> is_accepted t then None
      else case latest_promotion t of
          Some p \<Rightarrow> if is_promoted (pr_outcome p) then None else Some (pr_accepted p)
        | None \<Rightarrow> map_option cl_subject (latest_claim t))"

section \<open>Agreement with the ledger\<close>

lemma wire_discard_rule: "wire_worktree_is_discardable t = staged_worktree_is_discardable t"
  by (simp add: wire_worktree_is_discardable_def staged_worktree_is_discardable_def
      builder_still_working_def Let_def)

text \<open>The daemon's discard preflight is exact: with a well-formed daemon request and room in the
  event log, the ledger records a discard if and only if an active staged worktree exists and the
  wire-side rule says it may be reclaimed, so the daemon never deletes a checkout whose discard the
  ledger then refuses.\<close>

theorem discard_preflight_is_exact:
  assumes "actor_ok a System" and "text_ok reason MAX_REASON_BYTES"
    and "length (events t) < MAX_GOVERNED_EVENTS"
  shows "is_ok (apply_mutation E t (DiscardStagedWorktree a reason) n ctx) \<longleftrightarrow>
    active_staged_worktree t \<noteq> None \<and> wire_worktree_is_discardable t"
  using assms
  by (auto simp: is_ok_iff apply_mutation_Inr transition_discard_iff wire_discard_rule
      active_staged_worktree_def split: option.splits)

theorem discard_preflight_is_exact_witness:
  "is_ok (apply_mutation demo_env demo_s7 (DiscardStagedWorktree (demo_actor System) (lit ''ok'')) 8
     (op_context (demo_op 8 (MarkRunning (demo_actor System)))))"
proof -
  have "length (events demo_s7) < MAX_GOVERNED_EVENTS"
    by (simp add: demo_s7_def demo_s6_fields bound_defs)
  then show ?thesis
    using discard_preflight_is_exact [of "demo_actor System" "lit ''ok''" demo_s7 demo_env 8
        "op_context (demo_op 8 (MarkRunning (demo_actor System)))"]
    by (simp add: MAX_REASON_BYTES_def wire_worktree_is_discardable_def demo_s7_def demo_s6_fields
        demo_staged_s1 active_staged_worktree_def latest_defs)
qed

lemma promotable_rule:
  "governed_outcome_is_promotable t \<longleftrightarrow> record_promotion_preconditions_hold t = Inr ()"
  by (auto simp: governed_outcome_is_promotable_def record_promotion_preconditions_hold_def
      is_accepted_def)

text \<open>The promotability test a surface uses is exact: for a run with an active staged worktree and a
  latest claim that name full commit ids, and room in the event log, it holds if and only if the
  ledger records a daemon's promotion of that claim's subject.\<close>

theorem promotable_is_exact:
  assumes "actor_ok a System" and "length (events t) < MAX_GOVERNED_EVENTS"
    and "active_staged_worktree t = Some s" and "latest_claim t = Some c"
    and "commit_oid (cl_subject c)" and "commit_oid (st_initial s)"
  shows "governed_outcome_is_promotable t \<longleftrightarrow>
    is_ok (apply_mutation E t (RecordPromotion \<lparr>pi_actor = a, pi_accepted = cl_subject c,
      pi_initial = st_initial s, pi_outcome = Promoted (cl_subject c)\<rparr>) n ctx)"
  using assms
  by (simp add: is_ok_iff apply_mutation_Inr transition_promote_iff promotable_rule outcome_ok_def)

theorem promotable_is_exact_witness:
  "governed_outcome_is_promotable (demo_run 6) \<and>
   is_ok (apply_mutation demo_env (demo_run 6) (RecordPromotion demo_promotion) 7
     (op_context (demo_op 7 (RecordPromotion demo_promotion))))"
proof -
  obtain s where s: "active_staged_worktree demo_s6 = Some s" "st_initial s = demo_oid"
    by (simp add: demo_s6_fields demo_staged_s1 active_staged_worktree_def)
  obtain c where c: "latest_claim demo_s6 = Some c" "cl_subject c = demo_new_oid"
    by (simp add: latest_defs demo_s6_fields demo_s3_fields)
  have room: "length (events demo_s6) < MAX_GOVERNED_EVENTS" by (simp add: demo_s6_fields bound_defs)
  have "governed_outcome_is_promotable demo_s6"
    using s c by (simp add: governed_outcome_is_promotable_def is_accepted_def demo_s6_fields
        bound_defs latest_defs demo_s3_fields last_opt_def)
  then show ?thesis
    using promotable_is_exact [OF _ room s(1) c(1), of "demo_actor System" demo_env 7
        "op_context (demo_op 7 (RecordPromotion demo_promotion))"] s(2) c(2)
    by (simp add: demo_run_states demo_promotion_def)
qed

text \<open>A working Builder's checkout cannot be deleted: in every served run whose runtime is running
  and whose review has not reached a decision, the ledger refuses to discard the staged worktree.\<close>

theorem working_builder_keeps_checkout:
  fixes E r now uuid ops
  defines "t \<equiv> serve (run_step E) (initial_run r now uuid) ops"
  assumes "builder_still_working t"
  shows "\<not> is_ok (apply_mutation E t (DiscardStagedWorktree a reason) n ctx)"
proof -
  have "execution_coherent t" "staged_coherent t"
    unfolding t_def using run_inv_serve by (auto simp: run_inv_def)
  with assms(2) have "\<not> staged_worktree_is_discardable t" if "staged_worktree t = Some s" for s
    using that
    by (cases "review_state t")
      (simp_all add: staged_worktree_is_discardable_def builder_still_working_def
        execution_coherent_def staged_coherent_def Let_def)
  then show ?thesis by (auto simp: is_ok_iff apply_mutation_Inr transition_discard_iff)
qed

theorem working_builder_keeps_checkout_witness:
  "builder_still_working (demo_run 3) \<and> \<not> is_ok (apply_mutation demo_env (demo_run 3)
     (DiscardStagedWorktree (demo_actor System) (lit ''ok'')) 4
     (op_context (demo_op 4 (MarkRunning (demo_actor System)))))"
proof -
  have run: "serve (run_step demo_env) (initial_run demo_registration (demo_now 0) (demo_uuid 0))
      (take 3 demo_ops) = demo_run 3" by (simp add: demo_run_def demo_start_def)
  have "builder_still_working (demo_run 3)"
    by (simp add: demo_run_states builder_still_working_def demo_s3_fields)
      (simp add: demo_s3_def demo_s2_def)
  then show ?thesis
    using working_builder_keeps_checkout [of demo_env demo_registration "demo_now 0" "demo_uuid 0"
        "take 3 demo_ops"] by (simp add: run)
qed

text \<open>The discard warning never misses an accepted commit: in every served run, the commit reported
  as left unreferenced by a discard is the subject of the latest claim if the run is accepted and has
  no promoted outcome, and nothing otherwise.\<close>

theorem discard_warning_names_accepted_commit:
  fixes E r now uuid ops
  defines "t \<equiv> serve (run_step E) (initial_run r now uuid) ops"
  shows "unreferenced_accepted_commit_on_discard t =
    (if is_accepted t \<and> \<not> list_ex (\<lambda>p. is_promoted (pr_outcome p)) (promotions t)
     then map_option cl_subject (latest_claim t) else None)"
proof -
  have inv: "promotion_coherent t" "review_coherent t"
    unfolding t_def using run_inv_serve by (auto simp: run_inv_def)
  have claim: "claims t \<noteq> []" if "is_accepted t"
    using inv(2) that by (simp add: is_accepted_def review_coherent_def chain_defs)
  show ?thesis
  proof (cases "promotions t" rule: rev_cases)
    case Nil
    then show ?thesis by (simp add: unreferenced_accepted_commit_on_discard_def latest_defs last_opt_def)
  next
    case (snoc ps p)
    with inv(1) claim show ?thesis
      by (auto simp: unreferenced_accepted_commit_on_discard_def latest_defs promotion_coherent_def
          list_ex_iff list.pred_set last_opt_def)
  qed
qed

end
