(* ===== verification/Evidence_Properties.thy ===== *)
theory Evidence_Properties
  imports Governed_Wiring
begin

text \<open>
  The evidence a run carries beside its state: the promise projection, the failure streak behind
  the loop contract, and the errors a refused mutation can give.
\<close>

section \<open>Promises\<close>

lemma promises_length [simp]: "length (promises t) = length (claims t)"
  by (simp add: promises_def)

lemma promises_nth: "i < length (claims t) \<Longrightarrow> promises t ! i = promise_of t i (claims t ! i)"
  by (simp add: promises_def nth_enumerate_eq)

lemma superseded_iff:
  "i < length (claims t) \<Longrightarrow> gp_superseded (promises t ! i) \<longleftrightarrow> Suc i \<noteq> length (claims t)"
  by (auto simp: promises_nth promise_of_def Let_def checked_sub_u64_def)

lemma find_last_only:
  assumes "xs \<noteq> []" and "\<And>i. Suc i < length xs \<Longrightarrow> \<not> P (xs ! i)"
  shows "find P xs = (if P (last xs) then Some (last xs) else None)"
  using assms
proof (induction xs)
  case (Cons x xs)
  show ?case
  proof (cases "xs = []")
    case False
    have "\<not> P x" using Cons.prems(2) [of 0] False by (cases xs) auto
    moreover have "\<not> P (xs ! i)" if "Suc i < length xs" for i
      using Cons.prems(2) [of "Suc i"] that by simp
    ultimately show ?thesis using Cons.IH False by simp
  qed simp
qed simp

lemma divergence_exact:
  "claim_evidence_divergence t =
     (case latest_claim t of
        None \<Rightarrow> None
      | Some c \<Rightarrow>
          (case last_opt (filter (bears_on c) (verifications t)) of
             Some v \<Rightarrow> if vf_outcome v = Passed then None
                      else Some (promise_of t (length (claims t) - 1) c)
           | None \<Rightarrow> Some (promise_of t (length (claims t) - 1) c)))"
proof (cases "claims t = []")
  case True
  then show ?thesis by (simp add: claim_evidence_divergence_def promises_def latest_defs last_opt_def)
next
  case False
  let ?n = "length (claims t) - 1"
  have lt: "?n < length (claims t)" using False by (simp add: Suc_le_eq)
  have none: "\<not> diverges (promises t ! i)" if "Suc i < length (promises t)" for i
    using that superseded_iff [of i t] by (simp add: diverges_def)
  have ne: "promises t \<noteq> []" using False by (metis promises_length length_0_conv)
  have last: "last (promises t) = promise_of t ?n (last (claims t))"
    using promises_nth [OF lt] False ne by (simp add: last_conv_nth)
  have cur: "\<not> gp_superseded (promise_of t ?n (last (claims t)))"
    using superseded_iff [OF lt] promises_nth [OF lt] False by (simp add: last_conv_nth)
  have ev: "gp_claimed (promise_of t ?n (last (claims t))) = Done"
    "gp_evidenced (promise_of t ?n (last (claims t))) = Kept \<longleftrightarrow>
      map_option vf_outcome (last_opt (filter (bears_on (last (claims t))) (verifications t))) = Some Passed"
    by (simp_all add: promise_of_def Let_def)
  have "claim_evidence_divergence t =
      (if diverges (last (promises t)) then Some (last (promises t)) else None)"
    unfolding claim_evidence_divergence_def by (rule find_last_only [OF ne]) (rule none)
  with last cur ev False show ?thesis
    by (auto simp: diverges_def latest_defs last_opt_def split: option.splits)
qed

text \<open>Only the current promise can diverge: the divergence a run reports is its last promise when
  the newest verifier evidence about that claim and that subject is not a pass, and nothing
  otherwise; superseded promises are never reported.\<close>

theorem divergence_is_about_latest_claim:
  "claim_evidence_divergence t =
     (case latest_claim t of
        None \<Rightarrow> None
      | Some c \<Rightarrow>
          (case last_opt (filter (bears_on c) (verifications t)) of
             Some v \<Rightarrow> if vf_outcome v = Passed then None
                      else Some (promise_of t (length (claims t) - 1) c)
           | None \<Rightarrow> Some (promise_of t (length (claims t) - 1) c)))"
  by (rule divergence_exact)

text \<open>Acceptance leaves no gap between claim and evidence: an accepted served run reports no
  divergence.\<close>

theorem accepted_run_has_no_divergence:
  fixes E r now uuid ops
  defines "t \<equiv> serve (run_step E) (initial_run r now uuid) ops"
  assumes "is_accepted t"
  shows "claim_evidence_divergence t = None"
proof -
  have inv: "review_coherent t" "provenance t"
    unfolding t_def using run_inv_serve by (auto simp: run_inv_def)
  with assms(2) have "decided t Approve" by (simp add: review_coherent_def is_accepted_def)
  with inv(2)
  have "verifications t \<noteq> []" "bears_on (last (claims t)) (last (verifications t))"
    "vf_outcome (last (verifications t)) = Passed" "claims t \<noteq> []"
    by (auto simp: chain_defs bears_on_def provenance_def list.pred_set)
  then have "filter (bears_on (last (claims t))) (verifications t) \<noteq> []"
    "last (filter (bears_on (last (claims t))) (verifications t)) = last (verifications t)"
    by (cases "verifications t" rule: rev_cases; simp)+
  with \<open>vf_outcome _ = _\<close> \<open>claims t \<noteq> []\<close> show ?thesis
    by (simp add: divergence_exact latest_defs last_opt_def)
qed

theorem accepted_run_has_no_divergence_witness:
  "is_accepted (demo_run 7) \<and> claim_evidence_divergence (demo_run 7) = None"
proof -
  have "is_accepted (demo_run 7)"
    by (simp add: demo_run_states demo_s7_def is_accepted_def demo_s6_fields)
  then show ?thesis
    using accepted_run_has_no_divergence [of demo_env demo_registration "demo_now 0" "demo_uuid 0" demo_ops]
    by (simp add: demo_run_all)
qed

lemma transition_verifications:
  "transition E ctx r t m u \<Longrightarrow> \<forall>v. m \<noteq> RecordVerification v \<Longrightarrow> verifications u = verifications t"
  by (induction rule: transition.induct) (simp_all add: push_event_def)

text \<open>A worker cannot keep its own promise: no request other than a recorded verification changes
  the evidence of an existing promise, so its status, its evidence list and its latest outcome stay
  as they were.\<close>

theorem only_verification_moves_evidence:
  assumes "run_step E t op = Inr t'" and "\<And>v. lo_mutation op \<noteq> RecordVerification v"
    and "i < length (promises t)"
  shows "gp_evidenced (promises t' ! i) = gp_evidenced (promises t ! i) \<and>
    gp_evidence (promises t' ! i) = gp_evidence (promises t ! i) \<and>
    gp_latest_outcome (promises t' ! i) = gp_latest_outcome (promises t ! i)"
  using assms(1)
proof (elim run_stepE)
  fix u assume u: "transition E (op_context op) (Suc (revision t)) t (lo_mutation op) u"
    and t': "t' = settle t (lo_now op) u"
  have v: "verifications t' = verifications t"
    using transition_verifications [OF u] assms(2) t' by simp
  obtain rest where "claims t' = claims t @ rest"
    using transition_logs(2) [OF u] t' by (auto simp: prefix_def)
  with v assms(3) show ?thesis
    by (simp add: promises_nth nth_append promise_of_def Let_def)
qed

theorem only_verification_moves_evidence_witness:
  "run_step demo_env demo_s4 (demo_op 5 (RecordSupervisorVerdict demo_verdict)) = Inr demo_s5 \<and>
   gp_evidenced (promises demo_s5 ! 0) = gp_evidenced (promises demo_s4 ! 0)"
proof -
  have "0 < length (promises demo_s4)" by (simp add: demo_s4_def demo_s3_fields)
  from only_verification_moves_evidence [OF demo_step_5 _ this] demo_step_5
  show ?thesis by (simp add: demo_op_def)
qed

section \<open>The failure streak\<close>

lemma streak_loop_Some:
  "failure_streak_loop (Some sig) k ws =
   (Some sig, k + length (takeWhile (\<lambda>w. verification_failure_signature w = Some sig) ws))"
  by (induction ws arbitrary: k) (auto split: option.splits)

text \<open>The streak the loop contract sees is the reference one: it is present exactly when the newest
  verification failed, and then it is that failure's signature with the number of newest
  verifications, counted back from the end, that failed with the same signature.\<close>

theorem failure_streak_is_trailing_run:
  "trailing_verification_failure_streak t =
     (let sigs = map verification_failure_signature (verifications t) in
      if sigs = [] \<or> last sigs = None then None
      else Some (the (last sigs), trailing_run sigs))"
proof (cases "verifications t" rule: rev_cases)
  case Nil
  then show ?thesis by (simp add: trailing_verification_failure_streak_def)
next
  case (snoc vs v)
  then show ?thesis
    by (cases "verification_failure_signature v")
      (simp_all add: trailing_verification_failure_streak_def streak_loop_Some trailing_run_def Let_def
        rev_map takeWhile_map comp_def)
qed

section \<open>Refusals\<close>

text \<open>Every refusal is a typed transition or contract error; the only other failure is a clock
  reading that does not parse.\<close>

definition clock_error :: "state_error \<Rightarrow> bool" where
  "clock_error e \<longleftrightarrow>
     e = Anyhow (lit ''governed task creation timestamp must be a valid RFC 3339 timestamp'') \<or>
     e = Anyhow (lit ''governed task event timestamp must be a valid RFC 3339 timestamp'')"

definition typed_refusal :: "state_error \<Rightarrow> bool" where
  "typed_refusal e \<longleftrightarrow> (case e of InvalidTransition _ \<Rightarrow> True | Contract _ \<Rightarrow> True | _ \<Rightarrow> False)"

lemma checks_Inl: "checks cs = Inl e \<Longrightarrow> \<exists>c \<in> set cs. c = Inl e"
  by (induction cs) (auto simp: checks.simps split: sum.splits)

definition refuses_typed :: "state_error + 'a \<Rightarrow> bool" where
  "refuses_typed r \<longleftrightarrow> (\<forall>e. r = Inl e \<longrightarrow> typed_refusal e)"

lemma refuses_typed_basic [simp]:
  "refuses_typed (Inr x)" "refuses_typed (Inl (InvalidTransition msg))" "refuses_typed (Inl (Contract c))"
  "refuses_typed (transition_guard b msg)"
  by (auto simp: refuses_typed_def typed_refusal_def transition_guard_def ensure_def)

lemma refuses_typed_checks: "(\<And>c. c \<in> set cs \<Longrightarrow> refuses_typed c) \<Longrightarrow> refuses_typed (checks cs)"
  by (auto simp: refuses_typed_def dest!: checks_Inl)

lemma refuses_typed_sequence [simp, intro!]:
  "refuses_typed (checks [])"
  "refuses_typed c \<Longrightarrow> refuses_typed (checks cs) \<Longrightarrow> refuses_typed (checks (c # cs))"
  "(\<And>x. x \<in> set xs \<Longrightarrow> refuses_typed (f x)) \<Longrightarrow> refuses_typed (checks (map f xs))"
  by (auto simp: refuses_typed_def checks.simps dest!: checks_Inl split: sum.splits)

lemma refuses_typed_and_then [intro!]:
  "refuses_typed r \<Longrightarrow> (\<And>a. r = Inr a \<Longrightarrow> refuses_typed (f a)) \<Longrightarrow> refuses_typed (and_then r f)"
  by (cases r) (auto simp: refuses_typed_def)

lemma refuses_typed_ok_or: "x \<noteq> None \<Longrightarrow> refuses_typed (ok_or x e)"
  by (auto simp: refuses_typed_def)

lemma refuses_typed_map_err [simp]:
  "refuses_typed (map_err (\<lambda>f. InvalidTransition (g f)) r)" "refuses_typed (map_err Contract r')"
  by (cases r; cases r'; simp add: refuses_typed_def typed_refusal_def)+

lemma refuses_typed_guards [simp]:
  "refuses_typed (require_capacity l c mx)" "refuses_typed (require_bounded_text l v n)"
  "refuses_typed (require_text l v)" "refuses_typed (require_commit_oid l v)"
  "refuses_typed (require_sha256_digest l v)"
  by (simp_all add: require_capacity_def require_bounded_text_def require_text_def
      require_commit_oid_def require_sha256_digest_def split: option.splits)

lemma refuses_typed_composed [simp]:
  "refuses_typed (require_actor a k)" "refuses_typed (validate_reference_ids l rs)"
  "refuses_typed (require_project_relative_ref l v)" "refuses_typed (require_shared_config_digest pin)"
  "refuses_typed (require_expected_staged_root t root)" "refuses_typed (validate_promotion_outcome p)"
  unfolding require_actor_def validate_reference_ids_def require_project_relative_ref_def
    require_shared_config_digest_def require_expected_staged_root_def validate_promotion_outcome_def
  by (auto split: option.splits promotion_outcome.splits)

lemma refuses_typed_verification [simp]:
  "refuses_typed (validate_command c)" "refuses_typed (validate_verification v)"
proof -
  show c: "refuses_typed (validate_command c)" for c
    unfolding validate_command_def by (rule refuses_typed_checks) (auto split: option.splits)
  show "refuses_typed (validate_verification v)"
    unfolding validate_verification_def by (rule refuses_typed_checks) (auto simp: c split: option.splits)
qed

lemma refuses_typed_arms:
  "refuses_typed (apply_materialize t s n ctx)" "refuses_typed (apply_discard t a reason n ctx)"
  "refuses_typed (apply_takeover t a reason n ctx)" "refuses_typed (apply_running t a n ctx)"
  "refuses_typed (apply_launch_failed t a reason n ctx)"
  "refuses_typed (apply_runtime_exited t a reason' k n ctx)"
  "refuses_typed (apply_note t a reason n ctx)"
  unfolding apply_materialize_def apply_discard_def apply_takeover_def apply_running_def
    apply_launch_failed_def apply_runtime_exited_def apply_note_def Let_def
  by (auto split: option.splits)

lemma refuses_typed_review_arms:
  "refuses_typed (apply_verification t v n ctx)" "refuses_typed (apply_verdict t w n ctx)"
  "refuses_typed (apply_decision t d n ctx)"
  unfolding apply_verification_def apply_verdict_def apply_decision_def Let_def
  by (auto split: option.splits)

text \<open>The two \<open>expect\<close>s of the promotion arm are unreachable: its precondition proves them.\<close>

lemma refuses_typed_promotion: "refuses_typed (apply_promotion t p n ctx)"
proof (cases "record_promotion_preconditions_hold t")
  case (Inr u)
  then have "active_staged_worktree t \<noteq> None" "latest_claim t \<noteq> None"
    by (auto simp: record_promotion_preconditions_hold_def)
  then show ?thesis unfolding apply_promotion_def Let_def by (auto intro!: refuses_typed_ok_or)
qed (simp add: apply_promotion_def refuses_typed_def typed_refusal_def)

lemma loop_state_refusal:
  assumes "governed_builder_loop_state E t now rp = Inl e"
  shows "clock_error e \<and> world_scope t = StagedAuthoritative"
  using assms
  by (auto simp: governed_builder_loop_state_def Let_def elapsed_between_def clock_error_def
      and_then_Inl ok_or_def split: if_splits option.splits)

lemma claim_refusal:
  assumes "apply_claim E t c n ctx = Inl e"
  shows "typed_refusal e \<or> (clock_error e \<and> world_scope t = StagedAuthoritative)"
proof -
  have "refuses_typed (claim_guards t c ctx)"
    unfolding claim_guards_def by (rule refuses_typed_checks) (auto split: option.splits)
  with assms show ?thesis
    by (auto simp: apply_claim_def and_then_Inl Let_def refuses_typed_def
        dest: loop_state_refusal split: option.splits)
qed

text \<open>A refused mutation never panics and is always explained: its error is a typed transition or
  contract error, except for a staged claim whose creation or event timestamp does not parse.\<close>

theorem refusals_are_typed:
  assumes "apply_mutation E t m n ctx = Inl e"
  shows "typed_refusal e \<or>
    (clock_error e \<and> world_scope t = StagedAuthoritative \<and> (\<exists>c. m = SubmitClaim c))"
proof -
  have "refuses_typed (require_capacity ''governed task events'' (length (events t)) MAX_GOVERNED_EVENTS)"
    by simp
  with assms show ?thesis
    using refuses_typed_arms refuses_typed_review_arms refuses_typed_promotion
    by (cases m) (auto simp: apply_mutation_def and_then_Inl refuses_typed_def dest: claim_refusal)
qed

theorem refusals_are_typed_witness:
  "\<exists>e. apply_mutation demo_env demo_s2 (MarkRunning (demo_actor System)) 3
      (op_context (demo_op 3 (MarkRunning (demo_actor System)))) = Inl e \<and> typed_refusal e"
proof -
  have "\<not> is_ok (apply_mutation demo_env demo_s2 (MarkRunning (demo_actor System)) 3
      (op_context (demo_op 3 (MarkRunning (demo_actor System)))))"
    by (simp add: is_ok_iff apply_mutation_Inr transition_running_iff demo_s2_def)
  then obtain e where e: "apply_mutation demo_env demo_s2 (MarkRunning (demo_actor System)) 3
      (op_context (demo_op 3 (MarkRunning (demo_actor System)))) = Inl e"
    by (cases "apply_mutation demo_env demo_s2 (MarkRunning (demo_actor System)) 3
      (op_context (demo_op 3 (MarkRunning (demo_actor System))))") auto
  from refusals_are_typed [OF this] e show ?thesis by auto
qed

end
