(* ===== verification/Memory_Candidate.thy ===== *)
theory Memory_Candidate
  imports Governed_Mutation
begin

text \<open>
  The memory contract (\<open>impulse-ops/src/memory_candidate.rs\<close>, \<open>memory_wiring.rs\<close>): review candidates
  derived from accepted runs, the durable records a promotion makes of them, the hash-chained log
  entries that carry the records, and the operator's decision requests.  Serialization of the three
  digest sources is a parameter: the contract fixes which fields are hashed, not their JSON text.
\<close>

section \<open>Limits\<close>

definition ACCEPTED_RUN_MEMORY_CANDIDATE_SCHEMA_VERSION :: nat where
  "ACCEPTED_RUN_MEMORY_CANDIDATE_SCHEMA_VERSION = 1"
definition ACCEPTED_RUN_MEMORY_DERIVATION_VERSION :: nat where
  "ACCEPTED_RUN_MEMORY_DERIVATION_VERSION = 2"
definition MEMORY_RECORD_SCHEMA_VERSION :: nat where "MEMORY_RECORD_SCHEMA_VERSION = 1"

definition MAX_OPEN_ID_BYTES :: nat where "MAX_OPEN_ID_BYTES = 256"
definition MAX_PROJECT_TEXT_BYTES :: nat where "MAX_PROJECT_TEXT_BYTES = 16 * 1024"
definition MAX_TASK_BYTES :: nat where "MAX_TASK_BYTES = 8 * 1024"
definition MAX_CRITERIA :: nat where "MAX_CRITERIA = 64"
definition MAX_CRITERION_BYTES :: nat where "MAX_CRITERION_BYTES = 16 * 1024"
definition MAX_PROPOSED_SUMMARY_BYTES :: nat where "MAX_PROPOSED_SUMMARY_BYTES = 12 * 1024"
definition MAX_ARTIFACT_REFERENCES :: nat where "MAX_ARTIFACT_REFERENCES = 64"
definition MAX_ARTIFACT_REFERENCE_BYTES :: nat where "MAX_ARTIFACT_REFERENCE_BYTES = 4 * 1024"
definition MAX_COMMANDS :: nat where "MAX_COMMANDS = 64"
definition MAX_DISMISSAL_REASON_BYTES :: nat where "MAX_DISMISSAL_REASON_BYTES = 4 * 1024"
definition MAX_RECORD_TITLE_BYTES :: nat where "MAX_RECORD_TITLE_BYTES = 4 * 1024"
definition MAX_RECORD_BODY_BYTES :: nat where "MAX_RECORD_BODY_BYTES = 32 * 1024"

lemmas memory_limits = MAX_OPEN_ID_BYTES_def MAX_PROJECT_TEXT_BYTES_def MAX_TASK_BYTES_def MAX_CRITERIA_def
  MAX_CRITERION_BYTES_def MAX_PROPOSED_SUMMARY_BYTES_def MAX_ARTIFACT_REFERENCES_def
  MAX_ARTIFACT_REFERENCE_BYTES_def MAX_COMMANDS_def MAX_DISMISSAL_REASON_BYTES_def
  MAX_RECORD_TITLE_BYTES_def MAX_RECORD_BODY_BYTES_def

definition MEMORY_LOG_GENESIS_DIGEST :: rstr where
  "MEMORY_LOG_GENESIS_DIGEST = lit ''sha256-memlog-v1:genesis''"
definition MEMORY_RECORD_DIGEST_PREFIX :: rstr where "MEMORY_RECORD_DIGEST_PREFIX = lit ''sha256-mem-v1:''"
definition MEMORY_RECORD_ID_PREFIX :: rstr where "MEMORY_RECORD_ID_PREFIX = lit ''memory-record-''"
definition MEMORY_LOG_DIGEST_PREFIX :: rstr where "MEMORY_LOG_DIGEST_PREFIX = lit ''sha256-memlog-v1:''"

section \<open>Data\<close>

datatype memory_contract_error = InvalidMemoryId rstr | InvalidMemoryField string rstr

fun memory_contract_error_str :: "memory_contract_error \<Rightarrow> rstr" where
  "memory_contract_error_str (InvalidMemoryId value) = lit ''invalid memory candidate id `'' @ value @
     lit ''`: ids must be nonempty and contain no whitespace or control characters''"
| "memory_contract_error_str (InvalidMemoryField field message) =
     lit ''invalid memory candidate field `'' @ lit field @ lit ''`: '' @ message"

datatype candidate_status =
    PendingReview
  | PromotedTo rstr rstr governed_actor
  | Dismissed rstr rstr governed_actor

datatype source_assurance_kind =
    DaemonProfiledEvidenceDeclaredOperator
  | DaemonProfiledEvidenceAuthenticatedOperator
  | CallerComposedEvidenceDeclaredOperator

record accepted_command =
  ac_name :: rstr
  ac_command_digest :: rstr
  ac_output_digest :: rstr
  ac_exit_code :: "int option"
  ac_success :: bool
  ac_output_bytes :: nat
  ac_output_truncated :: bool

text \<open>The fields the candidate's identity digest covers (\<open>CandidateSourceV1\<close>); the candidate adds its
  identity, its versions, its review status and the generated summary.\<close>

record candidate_source =
  ca_derivation_version :: nat
  ca_project_id :: rstr
  ca_workspace_root :: rstr
  ca_task_id :: rstr
  ca_accepted_revision :: nat
  ca_task :: rstr
  ca_criteria :: "rstr list"
  ca_runtime_id :: rstr
  ca_agent_id :: rstr
  ca_session_id :: "rstr option"
  ca_profile :: "verification_profile_kind option"
  ca_policy :: rstr
  ca_subject :: rstr
  ca_claim_id :: rstr
  ca_verification_id :: rstr
  ca_verdict_id :: rstr
  ca_decision_id :: rstr
  ca_claimed_artifacts :: "rstr list"
  ca_verification_artifacts :: "rstr list"
  ca_commands :: "accepted_command list"
  ca_assurance :: source_assurance_kind
  ca_staged_at :: rstr

record memory_candidate = candidate_source +
  ca_id :: rstr
  ca_schema_version :: nat
  ca_status :: candidate_status
  ca_summary :: rstr
  ca_source_digest :: rstr

datatype memory_scope = ProjectScope | WorkspaceScope | GlobalScope

datatype memory_kind = AcceptedRunOutcome | OperatorNote

datatype memory_source =
    CandidateRef rstr rstr rstr
  | OperatorManual rstr

text \<open>The fields a record's identity digest covers (\<open>MemoryRecordSourceV1\<close>): not \<open>valid_from\<close>.\<close>

record record_source =
  me_schema_version :: nat
  me_kind :: memory_kind
  me_scope :: memory_scope
  me_project_id :: rstr
  me_source :: memory_source
  me_request_id :: rstr
  me_based_on :: nat
  me_title :: rstr
  me_body :: rstr

record memory_record = record_source +
  me_id :: rstr
  me_valid_from :: rstr
  me_superseded_by :: "rstr option"
  me_digest :: rstr

record log_entry =
  le_seq :: nat
  le_previous :: rstr
  le_record :: memory_record
  le_digest :: rstr

record memory_env = env +
  candidate_bytes :: "candidate_source \<Rightarrow> nat list"
  record_bytes :: "record_source \<Rightarrow> nat list"
  entry_bytes :: "nat \<Rightarrow> rstr \<Rightarrow> memory_record \<Rightarrow> nat list"

section \<open>Statuses and labels\<close>

definition status_is_pending :: "candidate_status \<Rightarrow> bool" where
  "status_is_pending s \<longleftrightarrow> s = PendingReview"

fun status_is_promoted :: "candidate_status \<Rightarrow> bool" where
  "status_is_promoted (PromotedTo _ _ _) = True"
| "status_is_promoted _ = False"

fun promoted_record_id :: "candidate_status \<Rightarrow> rstr option" where
  "promoted_record_id (PromotedTo record_id _ _) = Some record_id"
| "promoted_record_id _ = None"

fun status_label :: "candidate_status \<Rightarrow> string" where
  "status_label PendingReview = ''pending_review''"
| "status_label (PromotedTo _ _ _) = ''promoted''"
| "status_label (Dismissed _ _ _) = ''dismissed''"

definition is_daemon_profiled :: "source_assurance_kind \<Rightarrow> bool" where
  "is_daemon_profiled a \<longleftrightarrow>
     a \<in> {DaemonProfiledEvidenceDeclaredOperator, DaemonProfiledEvidenceAuthenticatedOperator}"

definition is_authenticated_operator :: "source_assurance_kind \<Rightarrow> bool" where
  "is_authenticated_operator a \<longleftrightarrow> a = DaemonProfiledEvidenceAuthenticatedOperator"

definition is_writable_now :: "memory_scope \<Rightarrow> bool" where
  "is_writable_now s \<longleftrightarrow> s = ProjectScope"

fun scope_label :: "memory_scope \<Rightarrow> rstr" where
  "scope_label ProjectScope = lit ''project''"
| "scope_label WorkspaceScope = lit ''workspace''"
| "scope_label GlobalScope = lit ''global''"

fun kind_label :: "memory_kind \<Rightarrow> rstr" where
  "kind_label AcceptedRunOutcome = lit ''accepted_run_outcome''"
| "kind_label OperatorNote = lit ''operator_note''"

section \<open>Validation\<close>

definition invalid_unless :: "bool \<Rightarrow> string \<Rightarrow> rstr \<Rightarrow> memory_contract_error + unit" where
  "invalid_unless b field message = ensure b (InvalidMemoryField field message)"

definition try_new_id :: "rstr \<Rightarrow> memory_contract_error + rstr" where
  "try_new_id value =
     (if value = [] \<or> MAX_OPEN_ID_BYTES < byte_len value \<or> \<not> open_id_chars value
      then Inl (InvalidMemoryId value) else Inr value)"

definition validate_text :: "string \<Rightarrow> rstr \<Rightarrow> nat \<Rightarrow> memory_contract_error + unit" where
  "validate_text field value max_bytes = invalid_unless (text_ok value max_bytes) field
     (lit ''must be nonblank, NUL-free, and at most '' @ dec max_bytes @ lit '' bytes'')"

definition validate_git_oid :: "string \<Rightarrow> rstr \<Rightarrow> memory_contract_error + unit" where
  "validate_git_oid field value = invalid_unless (commit_oid value) field
     (lit ''must be a 40- or 64-character lowercase hexadecimal Git commit OID'')"

definition validate_sha256_reference :: "string \<Rightarrow> rstr \<Rightarrow> memory_contract_error + unit" where
  "validate_sha256_reference field value =
     (case strip_prefix (lit ''sha256:'') value of
        None \<Rightarrow> Inl (InvalidMemoryField field (lit ''must use the sha256:<hex> format''))
      | Some hex \<Rightarrow> invalid_unless (byte_len hex = 64 \<and> list_all is_ascii_hexdigit (utf8 hex)) field
          (lit ''must contain 64 hexadecimal characters''))"

definition validate_lower_sha256 :: "string \<Rightarrow> rstr \<Rightarrow> rstr \<Rightarrow> memory_contract_error + unit" where
  "validate_lower_sha256 field value pre =
     (case strip_prefix pre value of
        None \<Rightarrow> Inl (InvalidMemoryField field (lit ''must use the '' @ pre @ lit ''<hex> format''))
      | Some hex \<Rightarrow> invalid_unless (byte_len hex = 64 \<and> lower_hex hex) field
          (lit ''must contain 64 lowercase hexadecimal characters''))"

definition validate_candidate_id :: "rstr \<Rightarrow> memory_contract_error + unit" where
  "validate_candidate_id cid =
     (case strip_prefix (lit ''memory-candidate-'') cid of
        None \<Rightarrow> Inl (InvalidMemoryField ''id'' (lit ''must use the memory-candidate-<sha256> format''))
      | Some hex \<Rightarrow> invalid_unless (byte_len hex = 64 \<and> lower_hex hex) ''id''
          (lit ''must end with 64 lowercase hexadecimal characters''))"

definition validate_record_id :: "rstr \<Rightarrow> memory_contract_error + unit" where
  "validate_record_id rid =
     (case strip_prefix MEMORY_RECORD_ID_PREFIX rid of
        None \<Rightarrow> Inl (InvalidMemoryField ''record_id'' (lit ''must use the memory-record-<sha256> format''))
      | Some hex \<Rightarrow> invalid_unless (byte_len hex = 64 \<and> lower_hex hex) ''record_id''
          (lit ''must end with 64 lowercase hexadecimal characters''))"

definition validate_references :: "string \<Rightarrow> rstr list \<Rightarrow> memory_contract_error + unit" where
  "validate_references field values = checks
     (invalid_unless (length values \<le> MAX_ARTIFACT_REFERENCES) field
        (lit ''must contain at most '' @ dec MAX_ARTIFACT_REFERENCES @ lit '' entries'') #
      map (\<lambda>v. validate_text field v MAX_ARTIFACT_REFERENCE_BYTES) values)"

definition validate_timestamp :: "('z env_scheme) \<Rightarrow> string \<Rightarrow> rstr \<Rightarrow> memory_contract_error + unit" where
  "validate_timestamp E field value = invalid_unless (parse_rfc3339 E value \<noteq> None) field
     (lit ''must be a valid RFC 3339 timestamp'')"

definition validate_decided_by :: "governed_actor \<Rightarrow> memory_contract_error + unit" where
  "validate_decided_by actor = validate_text ''status.decided_by'' (ac_id actor) MAX_OPEN_ID_BYTES"

fun validate_status :: "('z env_scheme) \<Rightarrow> candidate_status \<Rightarrow> memory_contract_error + unit" where
  "validate_status E PendingReview = Inr ()"
| "validate_status E (PromotedTo record_id decided_at decided_by) = checks
     [validate_record_id record_id, validate_timestamp E ''status.decided_at'' decided_at,
      validate_decided_by decided_by]"
| "validate_status E (Dismissed reason decided_at decided_by) = checks
     [validate_text ''status.reason'' reason MAX_DISMISSAL_REASON_BYTES,
      validate_timestamp E ''status.decided_at'' decided_at, validate_decided_by decided_by]"

definition validate_accepted_command :: "accepted_command \<Rightarrow> memory_contract_error + unit" where
  "validate_accepted_command c = checks
     [validate_text ''command.name'' (ac_name c) MAX_ARTIFACT_REFERENCE_BYTES,
      validate_sha256_reference ''command.command_digest'' (ac_command_digest c),
      validate_sha256_reference ''command.output_digest'' (ac_output_digest c),
      invalid_unless (ac_success c \<and> ac_exit_code c = Some 0) ''commands''
        (lit ''accepted-run candidates require successful zero-exit command evidence'')]"

definition validate_candidate :: "('z env_scheme) \<Rightarrow> memory_candidate \<Rightarrow> memory_contract_error + unit" where
  "validate_candidate E c = checks
     ([invalid_unless (ca_schema_version c = ACCEPTED_RUN_MEMORY_CANDIDATE_SCHEMA_VERSION) ''schema_version''
         (lit ''must equal '' @ dec ACCEPTED_RUN_MEMORY_CANDIDATE_SCHEMA_VERSION),
       invalid_unless (ca_derivation_version c = ACCEPTED_RUN_MEMORY_DERIVATION_VERSION) ''derivation_version''
         (lit ''must equal '' @ dec ACCEPTED_RUN_MEMORY_DERIVATION_VERSION),
       validate_candidate_id (ca_id c),
       validate_status E (ca_status c),
       validate_text ''project_id'' (ca_project_id c) MAX_OPEN_ID_BYTES,
       validate_text ''workspace_root'' (ca_workspace_root c) MAX_PROJECT_TEXT_BYTES,
       validate_text ''task'' (ca_task c) MAX_TASK_BYTES,
       invalid_unless (\<not> (MAX_CRITERIA < length (ca_criteria c) \<or>
           (ca_criteria c = [] \<and> is_daemon_profiled (ca_assurance c)))) ''acceptance_criteria''
         (lit ''must contain at most '' @ dec MAX_CRITERIA @
          lit '' entries and cannot be empty for daemon-profiled evidence'')] @
      map (\<lambda>x. validate_text ''acceptance_criteria'' x MAX_CRITERION_BYTES) (ca_criteria c) @
      [validate_text ''proposed_summary'' (ca_summary c) MAX_PROPOSED_SUMMARY_BYTES,
       validate_text ''runtime_id'' (ca_runtime_id c) MAX_OPEN_ID_BYTES,
       validate_text ''agent_id'' (ca_agent_id c) MAX_OPEN_ID_BYTES,
       (case ca_session_id c of None \<Rightarrow> Inr () | Some s \<Rightarrow> validate_text ''session_id'' s MAX_OPEN_ID_BYTES),
       validate_text ''verification_policy'' (ca_policy c) MAX_ARTIFACT_REFERENCE_BYTES,
       (if is_daemon_profiled (ca_assurance c) then validate_git_oid ''subject_revision'' (ca_subject c)
        else validate_text ''subject_revision'' (ca_subject c) MAX_ARTIFACT_REFERENCE_BYTES),
       validate_references ''claimed_artifact_ids'' (ca_claimed_artifacts c),
       validate_references ''verification_artifact_ids'' (ca_verification_artifacts c),
       invalid_unless (ca_commands c \<noteq> [] \<and> length (ca_commands c) \<le> MAX_COMMANDS) ''commands''
         (lit ''must contain between 1 and '' @ dec MAX_COMMANDS @ lit '' entries'')] @
      map validate_accepted_command (ca_commands c) @
      [validate_lower_sha256 ''source_digest'' (ca_source_digest c) (lit ''sha256-v1:''),
       validate_timestamp E ''staged_at'' (ca_staged_at c)])"

section \<open>Records and log entries\<close>

definition identity_source :: "memory_record \<Rightarrow> record_source" where
  "identity_source r = record_source.truncate r"

definition identity_hex :: "memory_record \<Rightarrow> rstr option" where
  "identity_hex r = strip_prefix MEMORY_RECORD_ID_PREFIX (me_id r)"

definition validate_source :: "memory_record \<Rightarrow> memory_contract_error + unit" where
  "validate_source r =
     (case me_source r of
        CandidateRef candidate_id source_digest _ \<Rightarrow> checks
          [validate_candidate_id candidate_id,
           validate_lower_sha256 ''source.candidate_source_digest'' source_digest (lit ''sha256-v1:''),
           invalid_unless (me_kind r = AcceptedRunOutcome) ''kind''
             (lit ''a candidate-backed record must be an accepted_run_outcome'')]
      | OperatorManual note \<Rightarrow> checks
          [validate_text ''source.note'' note MAX_RECORD_BODY_BYTES,
           invalid_unless (me_kind r = OperatorNote) ''kind''
             (lit ''an operator-manual record must be an operator_note'')])"

definition validate_record :: "('z env_scheme) \<Rightarrow> memory_record \<Rightarrow> memory_contract_error + unit" where
  "validate_record E r = checks
     [invalid_unless (me_schema_version r = MEMORY_RECORD_SCHEMA_VERSION) ''schema_version''
        (lit ''must equal '' @ dec MEMORY_RECORD_SCHEMA_VERSION),
      validate_record_id (me_id r),
      invalid_unless (is_writable_now (me_scope r)) ''scope'' (lit
        ''only the project scope is writable in this stage; workspace and global are declared but refused''),
      validate_text ''project_id'' (me_project_id r) MAX_OPEN_ID_BYTES,
      validate_source r,
      validate_text ''title'' (me_title r) MAX_RECORD_TITLE_BYTES,
      validate_text ''body'' (me_body r) MAX_RECORD_BODY_BYTES,
      validate_timestamp E ''valid_from'' (me_valid_from r),
      (case me_superseded_by r of None \<Rightarrow> Inr () | Some s \<Rightarrow> validate_record_id s),
      validate_lower_sha256 ''digest'' (me_digest r) MEMORY_RECORD_DIGEST_PREFIX,
      (case identity_hex r of
         None \<Rightarrow> Inl (InvalidMemoryField ''id'' (lit ''must use the memory-record-<sha256> format''))
       | Some id_hex \<Rightarrow> invalid_unless (strip_prefix MEMORY_RECORD_DIGEST_PREFIX (me_digest r) = Some id_hex)
           ''digest'' (lit ''record id and digest must be built from the same hex''))]"

definition verify_links ::
    "('z env_scheme) \<Rightarrow> log_entry \<Rightarrow> nat \<Rightarrow> rstr \<Rightarrow> memory_contract_error + unit" where
  "verify_links E e expected_seq expected_previous = checks
     [invalid_unless (le_seq e = expected_seq) ''seq''
        (lit ''memory log entry is out of order: expected seq '' @ dec expected_seq @ lit '', found '' @
         dec (le_seq e)),
      invalid_unless (le_previous e = expected_previous) ''previous_digest''
        (lit ''memory log entry '' @ dec expected_seq @ lit '' does not chain to its predecessor''),
      validate_lower_sha256 ''entry_digest'' (le_digest e) MEMORY_LOG_DIGEST_PREFIX,
      validate_record E (le_record e)]"

section \<open>Decision requests\<close>

datatype wiring_error = InvalidWiringField string rstr

datatype memory_decision = Promote | Dismiss rstr

record memory_decision_input =
  mi_request_id :: rstr
  mi_project_id :: rstr
  mi_candidate_id :: rstr
  mi_decision :: memory_decision
  mi_actor :: governed_actor
  mi_expected_revision :: nat

record memory_decision_record =
  md_request_id :: rstr
  md_candidate_id :: rstr
  md_decision :: memory_decision
  md_actor :: governed_actor
  md_authentication :: operator_authentication
  md_decided_at :: rstr
  md_based_on :: nat
  md_resulting :: nat
  md_record_id :: "rstr option"

record memory_decision_outcome =
  mo_decision :: memory_decision_record
  mo_candidate :: memory_candidate
  mo_record :: "memory_record option"
  mo_replayed :: bool
  mo_projection_digest :: rstr
  mo_index_dirty :: bool

fun memory_decision_label :: "memory_decision \<Rightarrow> string" where
  "memory_decision_label Promote = ''promote''"
| "memory_decision_label (Dismiss _) = ''dismiss''"

definition is_promote :: "memory_decision \<Rightarrow> bool" where
  "is_promote d \<longleftrightarrow> d = Promote"

fun validate_memory_decision :: "memory_decision \<Rightarrow> wiring_error + unit" where
  "validate_memory_decision Promote = Inr ()"
| "validate_memory_decision (Dismiss reason) = ensure (text_ok reason MAX_DISMISSAL_REASON_BYTES)
     (InvalidWiringField ''decision.reason'' (lit
       ''a dismissal reason must be nonblank, NUL-free, and at most '' @ dec MAX_DISMISSAL_REASON_BYTES @
       lit '' bytes''))"

definition validate_decision_input :: "memory_decision_input \<Rightarrow> wiring_error + unit" where
  "validate_decision_input i = checks
     [ensure (trim (mi_project_id i) \<noteq> []) (InvalidWiringField ''project_id'' (lit ''must be nonblank'')),
      ensure (trim (ac_id (mi_actor i)) \<noteq> []) (InvalidWiringField ''actor.id'' (lit ''must be nonblank'')),
      validate_memory_decision (mi_decision i)]"

section \<open>What validation establishes\<close>

lemma invalid_unless_Inr [simp]: "(invalid_unless b field m = Inr u) = b"
  by (simp add: invalid_unless_def)

lemma validate_text_Inr [simp]: "(validate_text field v n = Inr u) = text_ok v n"
  by (simp add: validate_text_def)

lemma validate_timestamp_Inr [simp]: "(validate_timestamp E field v = Inr u) = (parse_rfc3339 E v \<noteq> None)"
  by (simp add: validate_timestamp_def)

lemma validate_lower_sha256_Inr [simp]: "(validate_lower_sha256 field v pre = Inr u) = lower_sha256 pre v"
  by (simp add: validate_lower_sha256_def lower_sha256_def split: option.splits)

lemma validate_sha256_reference_Inr [simp]: "(validate_sha256_reference field v = Inr u) = sha256_ref v"
  by (simp add: validate_sha256_reference_def sha256_ref_def split: option.splits)

lemma validate_candidate_id_Inr [simp]:
  "(validate_candidate_id v = Inr u) = lower_sha256 (lit ''memory-candidate-'') v"
  by (simp add: validate_candidate_id_def lower_sha256_def split: option.splits)

lemma validate_record_id_Inr [simp]: "(validate_record_id v = Inr u) = lower_sha256 MEMORY_RECORD_ID_PREFIX v"
  by (simp add: validate_record_id_def lower_sha256_def split: option.splits)

lemma validate_git_oid_Inr [simp]: "(validate_git_oid field v = Inr u) = commit_oid v"
  by (simp add: validate_git_oid_def)

lemma validate_references_Inr [simp]:
  "(validate_references field vs = Inr u) \<longleftrightarrow>
     length vs \<le> MAX_ARTIFACT_REFERENCES \<and> list_all (\<lambda>v. text_ok v MAX_ARTIFACT_REFERENCE_BYTES) vs"
  by (simp add: validate_references_def list.pred_map comp_def)

lemma try_new_id_Inr:
  "(try_new_id v = Inr w) \<longleftrightarrow> w = v \<and> v \<noteq> [] \<and> byte_len v \<le> MAX_OPEN_ID_BYTES \<and> open_id_chars v"
  by (auto simp: try_new_id_def)

lemma lower_sha256_append [simp]: "lower_sha256 p (p @ hex) \<longleftrightarrow> byte_len hex = 64 \<and> lower_hex hex"
  by (simp add: lower_sha256_def)

end
