(* ===== verification/Memory_Log.thy ===== *)
theory Memory_Log
  imports Memory_Candidate Ordered_Map
begin

text \<open>
  The promoted-memory log and its projection (\<open>src/state/memory_record.rs\<close>): an append-only file of
  hash-chained entries whose committed head is recorded in the candidate ledger, and the markdown
  projection rendered from it.  A file is a list of lines; what JSON parsing makes of a line (nothing,
  an error, an entry) is part of the line.
\<close>

section \<open>Data\<close>

datatype log_error =
    MalformedEntry nat rstr
  | BrokenChain nat rstr
  | Truncated nat nat rstr
  | HeadMismatch nat rstr rstr
  | UncommittedTailTooLong nat
  | OrphanRecord rstr
  | MissingPromotedRecord rstr rstr
  | DuplicateRecord rstr
  | EmptyCommittedHead

record log_head =
  lh_entry_count :: nat
  lh_digest :: rstr

datatype ledger_origin = LocalLedger | AbsentLedger

record memory_log =
  ml_committed :: "log_entry list"
  ml_tail :: "log_entry list"

datatype log_line = BlankLine | BadLine rstr | EntryLine log_entry

definition MAX_UNCOMMITTED_TAIL_ENTRIES :: nat where "MAX_UNCOMMITTED_TAIL_ENTRIES = 1"

definition empty_log :: memory_log where
  "empty_log = \<lparr>ml_committed = [], ml_tail = []\<rparr>"

section \<open>Heads and records\<close>

definition full_head :: "memory_log \<Rightarrow> log_head option" where
  "full_head l = (case last_opt (ml_committed l @ ml_tail l) of None \<Rightarrow> None
     | Some e \<Rightarrow> Some \<lparr>lh_entry_count = length (ml_committed l) + length (ml_tail l), lh_digest = le_digest e\<rparr>)"

definition log_head_of :: "memory_log \<Rightarrow> log_head option" where
  "log_head_of l = (case last_opt (ml_committed l) of None \<Rightarrow> None
     | Some e \<Rightarrow> Some \<lparr>lh_entry_count = length (ml_committed l), lh_digest = le_digest e\<rparr>)"

definition next_previous_digest :: "memory_log \<Rightarrow> rstr" where
  "next_previous_digest l = (case last_opt (ml_committed l @ ml_tail l) of
     None \<Rightarrow> MEMORY_LOG_GENESIS_DIGEST | Some e \<Rightarrow> le_digest e)"

definition next_seq :: "memory_log \<Rightarrow> nat" where
  "next_seq l = length (ml_committed l) + length (ml_tail l)"

definition committed_record :: "memory_log \<Rightarrow> rstr \<Rightarrow> memory_record option" where
  "committed_record l rid = find (\<lambda>r. me_id r = rid) (map le_record (ml_committed l))"

definition projected_records :: "memory_log \<Rightarrow> memory_record list" where
  "projected_records l =
     (let superseded = List.map_filter (\<lambda>e. me_superseded_by (le_record e)) (ml_committed l)
      in filter (\<lambda>r. me_id r \<notin> set superseded) (map le_record (ml_committed l)))"

section \<open>Digests\<close>

definition seal_digest :: "memory_env \<Rightarrow> nat \<Rightarrow> rstr \<Rightarrow> memory_record \<Rightarrow> rstr" where
  "seal_digest E seq previous r = MEMORY_LOG_DIGEST_PREFIX @ sha256_hex E (entry_bytes E seq previous r)"

text \<open>An error of the record layer: a message, or a contract error under a context; it prints as the
  outermost of the two.\<close>

datatype record_error = RecordMessage rstr | RecordContext rstr memory_contract_error

fun record_error_str :: "record_error \<Rightarrow> rstr" where
  "record_error_str (RecordMessage m) = m"
| "record_error_str (RecordContext m _) = m"

definition verify_record_identity :: "memory_env \<Rightarrow> memory_record \<Rightarrow> record_error + unit" where
  "verify_record_identity E r =
     and_then (map_err (RecordContext (lit ''Invalid promoted memory record'')) (validate_record E r)) (\<lambda>_.
     let hex = sha256_hex E (record_bytes E (identity_source r)) in
     ensure (me_id r = MEMORY_RECORD_ID_PREFIX @ hex \<and> me_digest r = MEMORY_RECORD_DIGEST_PREFIX @ hex)
       (RecordMessage (lit ''memory record `'' @ me_id r @ lit ''` id/digest do not match its own content digest'')))"

section \<open>Loading\<close>

fun parse_lines :: "nat \<Rightarrow> log_line list \<Rightarrow> log_error + log_entry list" where
  "parse_lines i [] = Inr []"
| "parse_lines i (BlankLine # ls) = parse_lines (Suc i) ls"
| "parse_lines i (BadLine message # ls) = Inl (MalformedEntry i message)"
| "parse_lines i (EntryLine e # ls) = and_then (parse_lines (Suc i) ls) (\<lambda>es. Inr (e # es))"

definition verify_entry :: "memory_env \<Rightarrow> nat \<Rightarrow> rstr \<Rightarrow> log_entry \<Rightarrow> log_error + unit" where
  "verify_entry E seq previous e = checks
     [map_err (\<lambda>err. BrokenChain seq (memory_contract_error_str err)) (verify_links E e seq previous),
      map_err (\<lambda>err. BrokenChain seq (record_error_str err)) (verify_record_identity E (le_record e)),
      ensure (le_digest e = seal_digest E seq previous (le_record e))
        (BrokenChain seq (lit ''entry digest does not cover its own content''))]"

fun verify_chain :: "memory_env \<Rightarrow> nat \<Rightarrow> rstr \<Rightarrow> log_entry list \<Rightarrow> log_error + unit" where
  "verify_chain E seq previous [] = Inr ()"
| "verify_chain E seq previous (e # es) =
     and_then (verify_entry E seq previous e) (\<lambda>_. verify_chain E (Suc seq) (le_digest e) es)"

definition committed_count :: "log_head option \<Rightarrow> ledger_origin \<Rightarrow> log_entry list \<Rightarrow> log_error + nat" where
  "committed_count head origin es =
     (case head of
        Some h \<Rightarrow>
          if lh_entry_count h = 0 then Inl EmptyCommittedHead
          else if length es < lh_entry_count h
          then Inl (Truncated (lh_entry_count h) (length es) (lh_digest h))
          else let actual = le_digest (es ! (lh_entry_count h - 1)) in
            if actual \<noteq> lh_digest h then Inl (HeadMismatch (lh_entry_count h) (lh_digest h) actual)
            else Inr (lh_entry_count h)
      | None \<Rightarrow> (case origin of LocalLedger \<Rightarrow> Inr 0 | AbsentLedger \<Rightarrow> Inr (length es)))"

fun first_duplicate :: "rstr list \<Rightarrow> rstr list \<Rightarrow> rstr option" where
  "first_duplicate seen [] = None"
| "first_duplicate seen (x # xs) = (if x \<in> set seen then Some x else first_duplicate (x # seen) xs)"

definition load_log ::
    "memory_env \<Rightarrow> log_line list option \<Rightarrow> log_head option \<Rightarrow> ledger_origin \<Rightarrow> log_error + memory_log" where
  "load_log E file head origin =
     and_then (parse_lines 0 (case file of None \<Rightarrow> [] | Some ls \<Rightarrow> ls)) (\<lambda>es.
     and_then (verify_chain E 0 MEMORY_LOG_GENESIS_DIGEST es) (\<lambda>_.
     and_then (committed_count head origin es) (\<lambda>n.
     and_then (ensure (length (drop n es) \<le> MAX_UNCOMMITTED_TAIL_ENTRIES)
       (UncommittedTailTooLong (length (drop n es)))) (\<lambda>_.
     and_then (case first_duplicate [] (map (\<lambda>e. me_id (le_record e)) es) of
         None \<Rightarrow> Inr () | Some rid \<Rightarrow> Inl (DuplicateRecord rid)) (\<lambda>_.
     Inr \<lparr>ml_committed = take n es, ml_tail = drop n es\<rparr>)))))"

definition check_claimed :: "memory_log \<Rightarrow> memory_candidate \<Rightarrow> log_error + unit" where
  "check_claimed l c =
     (case promoted_record_id (ca_status c) of
        None \<Rightarrow> Inr ()
      | Some rid \<Rightarrow> ensure (committed_record l rid \<noteq> None) (MissingPromotedRecord (ca_id c) rid))"

definition claimed_records :: "memory_candidate list \<Rightarrow> candidate_status list \<Rightarrow> rstr list" where
  "claimed_records cs parked = List.map_filter promoted_record_id (map ca_status cs @ parked)"

definition cross_check_statuses ::
    "memory_log \<Rightarrow> memory_candidate list \<Rightarrow> (rstr, candidate_status) btree \<Rightarrow> bool \<Rightarrow> log_error + unit" where
  "cross_check_statuses l cs parked check_orphans =
     and_then (checks (map (check_claimed l) cs)) (\<lambda>_.
     if \<not> check_orphans then Inr ()
     else checks (map (\<lambda>e. ensure (me_id (le_record e) \<in> set (claimed_records cs (bt_values parked)))
       (OrphanRecord (me_id (le_record e)))) (ml_committed l)))"

definition unreattached_parked_claims ::
    "memory_log \<Rightarrow> (rstr, candidate_status) btree \<Rightarrow> (rstr \<times> rstr) list" where
  "unreattached_parked_claims l parked = List.map_filter (\<lambda>(task_id, status).
     case promoted_record_id status of None \<Rightarrow> None
     | Some rid \<Rightarrow> if committed_record l rid = None then None else Some (task_id, rid)) parked"

section \<open>Appending\<close>

text \<open>
  A write of one line succeeds, fails and is cut back, or fails and leaves the line it tore (when the
  length before the write could not be read, or the cut itself failed).
\<close>

datatype append_outcome = Appended | CutBack rstr | LeftTorn rstr log_line

definition sealed_entry :: "memory_env \<Rightarrow> memory_log \<Rightarrow> memory_record \<Rightarrow> log_entry" where
  "sealed_entry E l r = \<lparr>le_seq = next_seq l, le_previous = next_previous_digest l, le_record = r,
     le_digest = seal_digest E (next_seq l) (next_previous_digest l) r\<rparr>"

definition file_lines :: "log_line list option \<Rightarrow> log_line list" where
  "file_lines file = (case file of None \<Rightarrow> [] | Some ls \<Rightarrow> ls)"

definition append_entry ::
    "memory_env \<Rightarrow> append_outcome \<Rightarrow> memory_record \<Rightarrow> memory_log \<Rightarrow> log_line list option \<Rightarrow>
     (rstr + memory_log) \<times> log_line list option" where
  "append_entry E outcome r l file =
     (let e = sealed_entry E l r in
      case outcome of
        Appended \<Rightarrow> (Inr (l\<lparr>ml_tail := ml_tail l @ [e]\<rparr>), Some (file_lines file @ [EntryLine e]))
      | CutBack io \<Rightarrow> (Inl io, file)
      | LeftTorn io line \<Rightarrow> (Inl io, Some (file_lines file @ [line])))"

definition commit_tail :: "memory_log \<Rightarrow> memory_log" where
  "commit_tail l = \<lparr>ml_committed = ml_committed l @ ml_tail l, ml_tail = []\<rparr>"

section \<open>Deriving a record\<close>

definition render_record_body :: "memory_candidate \<Rightarrow> rstr" where
  "render_record_body c =
     ca_summary c @ [10, 10] @ lit ''Acceptance criteria:'' @ [10] @
     concat (map (\<lambda>x. lit ''- '' @ x @ [10]) (ca_criteria c)) @
     [10] @ lit ''Verified subject: '' @ ca_subject c @ [10] @ lit ''Verification policy: '' @ ca_policy c @
     [10] @ lit ''Governed task: '' @ ca_task_id c @ [10]"

definition promoted_source :: "memory_candidate \<Rightarrow> rstr \<Rightarrow> nat \<Rightarrow> record_source" where
  "promoted_source c request_id based_on =
     \<lparr>me_schema_version = MEMORY_RECORD_SCHEMA_VERSION, me_kind = AcceptedRunOutcome,
      me_scope = ProjectScope, me_project_id = ca_project_id c,
      me_source = CandidateRef (ca_id c) (ca_source_digest c) (ca_task_id c), me_request_id = request_id,
      me_based_on = based_on, me_title = ca_task c, me_body = render_record_body c\<rparr>"

definition promoted_record :: "memory_env \<Rightarrow> memory_candidate \<Rightarrow> rstr \<Rightarrow> nat \<Rightarrow> rstr \<Rightarrow> memory_record" where
  "promoted_record E c request_id based_on valid_from =
     (let src = promoted_source c request_id based_on; hex = sha256_hex E (record_bytes E src) in
      record_source.extend src \<lparr>me_id = MEMORY_RECORD_ID_PREFIX @ hex, me_valid_from = valid_from,
        me_superseded_by = None, me_digest = MEMORY_RECORD_DIGEST_PREFIX @ hex\<rparr>)"

definition derive_promoted_record ::
    "memory_env \<Rightarrow> memory_candidate \<Rightarrow> rstr \<Rightarrow> nat \<Rightarrow> rstr \<Rightarrow> record_error + memory_record" where
  "derive_promoted_record E c request_id based_on valid_from =
     (let r = promoted_record E c request_id based_on valid_from in
      and_then (map_err (RecordContext (lit ''Failed to build memory record id'')) (try_new_id (me_id r))) (\<lambda>_.
      and_then (verify_record_identity E r) (\<lambda>_. Inr r)))"

section \<open>The projection\<close>

fun words_aux :: "rstr \<Rightarrow> rstr \<Rightarrow> rstr list" where
  "words_aux acc [] = (if acc = [] then [] else [rev acc])"
| "words_aux acc (c # cs) =
     (if is_whitespace c then (if acc = [] then words_aux [] cs else rev acc # words_aux [] cs)
      else words_aux (c # acc) cs)"

definition split_whitespace :: "rstr \<Rightarrow> rstr list" where
  "split_whitespace s = words_aux [] s"

definition projection_inline :: "rstr \<Rightarrow> rstr" where
  "projection_inline value =
     (let collapsed = join (lit '' '') (split_whitespace value) in
      case collapsed of
        c # _ \<Rightarrow> if c \<in> set (lit ''#->*+=|'') then 92 # collapsed else collapsed
      | [] \<Rightarrow> collapsed)"

fun longest_backticks :: "nat \<Rightarrow> nat \<Rightarrow> rstr \<Rightarrow> nat" where
  "longest_backticks longest current [] = longest"
| "longest_backticks longest current (c # cs) =
     (if c = 96 then longest_backticks (max longest (Suc current)) (Suc current) cs
      else longest_backticks longest 0 cs)"

definition projection_fence :: "rstr \<Rightarrow> rstr" where
  "projection_fence body = replicate (max (longest_backticks 0 0 body) 2 + 1) 96"

definition trim_end :: "rstr \<Rightarrow> rstr" where
  "trim_end s = rev (dropWhile is_whitespace (rev s))"

definition render_source :: "memory_source \<Rightarrow> rstr" where
  "render_source s =
     (case s of
        CandidateRef candidate_id source_digest task_id \<Rightarrow>
          lit ''- source: candidate '' @ candidate_id @ lit '' ('' @ source_digest @
          lit '') from governed task '' @ task_id @ [10]
      | OperatorManual note \<Rightarrow>
          lit ''- source: operator manual '' @ [8212] @ lit '' '' @ projection_inline note @ [10])"

definition render_record :: "memory_record \<Rightarrow> rstr" where
  "render_record r =
     [10] @ lit ''## '' @ me_id r @ [10, 10] @
     lit ''- scope: '' @ scope_label (me_scope r) @ [10] @
     lit ''- kind: '' @ kind_label (me_kind r) @ [10] @
     lit ''- valid_from: '' @ me_valid_from r @ [10] @
     render_source (me_source r) @
     lit ''- digest: '' @ me_digest r @ [10] @
     [10] @ lit ''### '' @ projection_inline (me_title r) @ [10, 10] @
     projection_fence (me_body r) @ [10] @ trim_end (me_body r) @ [10] @ projection_fence (me_body r) @ [10]"

definition projection_header :: rstr where
  "projection_header =
     lit ''# Impulse Memory Projection'' @ [10, 10] @
     lit ''<!-- generated: do not edit; regenerated from .impulse/MEMORY.jsonl -->'' @ [10, 10] @
     lit ''*Promoted project memory. The raw candidate ledger and the promoted-record log are '' @
     lit ''separate artifacts; this file is a projection of the log and is never a source of '' @
     lit ''truth.*'' @ [10]"

definition render_projection :: "memory_record list \<Rightarrow> rstr" where
  "render_projection rs =
     (if rs = [] then projection_header @ [10] @ lit ''No promoted memory records.'' @ [10]
      else projection_header @ concat (map render_record rs))"

definition projection_digest :: "('z env_scheme) \<Rightarrow> rstr \<Rightarrow> rstr" where
  "projection_digest E rendered = lit ''sha256-proj-v1:'' @ sha256_hex E (utf8 rendered)"

section \<open>The index marker\<close>

record index_marker =
  ix_schema_version :: nat
  ix_projection_digest :: rstr
  ix_indexed_digest :: "rstr option"
  ix_marked_at :: rstr

definition MEMORY_INDEX_SCHEMA_VERSION :: nat where "MEMORY_INDEX_SCHEMA_VERSION = 1"

definition is_dirty :: "index_marker \<Rightarrow> bool" where
  "is_dirty m \<longleftrightarrow> ix_indexed_digest m \<noteq> Some (ix_projection_digest m)"

definition next_marker ::
    "('z env_scheme) \<Rightarrow> memory_record list \<Rightarrow> rstr \<Rightarrow> bool \<Rightarrow> index_marker option \<Rightarrow> index_marker" where
  "next_marker E rs now mark_index_dirty previous =
     (let digest = projection_digest E (render_projection rs) in
      \<lparr>ix_schema_version = MEMORY_INDEX_SCHEMA_VERSION, ix_projection_digest = digest,
       ix_indexed_digest =
         (if mark_index_dirty then None
          else if rs = [] then Some digest
          else case previous of None \<Rightarrow> None
            | Some m \<Rightarrow> if ix_projection_digest m = digest then ix_indexed_digest m else None),
       ix_marked_at = now\<rparr>)"

definition marker_unchanged :: "index_marker option \<Rightarrow> index_marker \<Rightarrow> bool" where
  "marker_unchanged previous m =
     (case previous of None \<Rightarrow> False
      | Some p \<Rightarrow> ix_schema_version p = ix_schema_version m \<and>
          ix_projection_digest p = ix_projection_digest m \<and> ix_indexed_digest p = ix_indexed_digest m)"

record projection_files =
  pf_projection :: "rstr option"
  pf_marker :: "index_marker option"

definition write_projection ::
    "('z env_scheme) \<Rightarrow> (rstr + unit) \<Rightarrow> (rstr + unit) \<Rightarrow> memory_record list \<Rightarrow> rstr \<Rightarrow> bool \<Rightarrow>
     projection_files \<Rightarrow> (rstr + rstr \<times> bool) \<times> projection_files" where
  "write_projection E write1 write2 rs now mark_index_dirty files =
     (let rendered = render_projection rs; stale = pf_projection files \<noteq> Some rendered;
          marker = next_marker E rs now mark_index_dirty (pf_marker files) in
      case (if stale then write1 else Inr ()) of
        Inl io \<Rightarrow> (Inl io, files)
      | Inr _ \<Rightarrow>
          let files' = files\<lparr>pf_projection := Some rendered\<rparr> in
          if marker_unchanged (pf_marker files) marker
          then (Inr (ix_projection_digest marker, is_dirty marker), files')
          else case write2 of
              Inl io \<Rightarrow> (Inl io, files')
            | Inr _ \<Rightarrow> (Inr (ix_projection_digest marker, is_dirty marker), files'\<lparr>pf_marker := Some marker\<rparr>))"

definition stamp_indexed :: "(rstr + unit) \<Rightarrow> rstr \<Rightarrow> rstr \<Rightarrow> projection_files \<Rightarrow> (rstr + unit) \<times> projection_files" where
  "stamp_indexed written digest now files =
     (case written of
        Inl io \<Rightarrow> (Inl io, files)
      | Inr _ \<Rightarrow> (Inr (), files\<lparr>pf_marker := Some \<lparr>ix_schema_version = MEMORY_INDEX_SCHEMA_VERSION,
          ix_projection_digest = digest, ix_indexed_digest = Some digest, ix_marked_at = now\<rparr>\<rparr>))"

definition carry_status_forward :: "candidate_status \<Rightarrow> memory_candidate \<Rightarrow> memory_candidate" where
  "carry_status_forward stored c = (if status_is_pending stored then c else c\<lparr>ca_status := stored\<rparr>)"

end
