(* ===== verification/Governed_History.thy ===== *)
theory Governed_History
  imports Governed_Properties
begin

text \<open>
  Loading a run re-derives it (\<open>src/state/governed_task.rs\<close>, \<open>validate_task_history\<close>): every event
  of the stored log is turned back into the mutation that wrote it and applied to an empty
  projection of the task, under the event's own clock; the result must match what is stored.  The
  mutations' fingerprints come out as a by-product and are compared with the receipts by the ledger.

  The identifiers a replay mints are drawn afresh (\<open>draw\<close>), so references between records are
  re-targeted at the projection's own identifiers before a mutation is applied.
\<close>

section \<open>Fingerprints\<close>

definition canonical_mutation :: "mutation \<Rightarrow> mutation" where
  "canonical_mutation m =
     (case m of
        MarkRuntimeExited actor None kind \<Rightarrow> MarkRuntimeExited actor (Some (lit ''runtime exited'')) kind
      | _ \<Rightarrow> m)"

definition fingerprint_bytes :: "env \<Rightarrow> nat list \<Rightarrow> rstr" where
  "fingerprint_bytes E payload = lit ''sha256-v1:'' @ sha256_hex E payload"

definition fingerprint_mutation :: "env \<Rightarrow> rstr \<Rightarrow> rstr \<Rightarrow> mutation \<Rightarrow> rstr" where
  "fingerprint_mutation E project task_id m =
     fingerprint_bytes E (mutation_bytes E project task_id (canonical_mutation m))"

definition fingerprint_registration :: "env \<Rightarrow> registration \<Rightarrow> rstr" where
  "fingerprint_registration E r = fingerprint_bytes E (registration_bytes E r)"

section \<open>Checks\<close>

definition bail_unless :: "bool \<Rightarrow> rstr \<Rightarrow> state_error + unit" where
  "bail_unless b message = ensure b (Anyhow message)"

definition require_rfc3339 :: "env \<Rightarrow> string \<Rightarrow> rstr \<Rightarrow> state_error + unit" where
  "require_rfc3339 E label value = bail_unless (parse_rfc3339 E value \<noteq> None)
     (lit label @ lit '' must be a valid RFC 3339 timestamp'')"

definition get_opt :: "'a list \<Rightarrow> nat \<Rightarrow> 'a option" where
  "get_opt xs i = (if i < length xs then Some (xs ! i) else None)"

definition insert_seen :: "rstr \<Rightarrow> rstr list \<Rightarrow> state_error + rstr list" where
  "insert_seen rid seen =
     (if rid \<in> set seen then Inl (Anyhow (lit ''duplicate governed record id `'' @ rid @ lit ''`''))
      else Inr (rid # seen))"

definition validate_record_link ::
    "env \<Rightarrow> rstr \<Rightarrow> governed_actor \<Rightarrow> nat \<Rightarrow> rstr \<Rightarrow> governed_event \<Rightarrow> rstr list \<Rightarrow>
     state_error + rstr list" where
  "validate_record_link E rid actor based_on timestamp e seen =
     and_then (checks
       [bail_unless (checked_add_u64 based_on 1 = Some (ev_revision e)) (lit ''governed record `'' @ rid @
          lit ''` is not based on the revision immediately before its event''),
        bail_unless (actor = ev_actor e) (lit ''governed record `'' @ rid @
          lit ''` actor does not match its lifecycle event''),
        require_rfc3339 E ''governed record timestamp'' timestamp]) (\<lambda>_.
     insert_seen rid seen)"

fun staged_worktrees_match :: "staged_record option \<Rightarrow> staged_record option \<Rightarrow> bool" where
  "staged_worktrees_match None None = True"
| "staged_worktrees_match (Some a) (Some b) \<longleftrightarrow>
     st_root a = st_root b \<and> st_initial a = st_initial b \<and> st_pin a = st_pin b \<and>
     st_status a = st_status b \<and> st_materialized_at a = st_materialized_at b \<and>
     st_based_on a = st_based_on b"
| "staged_worktrees_match _ _ = False"

definition require_replayed_loop_evidence ::
    "nat \<Rightarrow> claim_record \<Rightarrow> claim_record \<Rightarrow> state_error + unit" where
  "require_replayed_loop_evidence rev_no stored replayed =
     (case (cl_loop_digest stored, cl_loop_version stored) of
        (None, None) \<Rightarrow> Inr ()
      | (Some digest, Some version) \<Rightarrow>
          and_then (require_sha256_digest ''claim loop report digest'' digest) (\<lambda>_.
            if version \<noteq> current_governed_loop_version then Inr ()
            else bail_unless (cl_loop_digest replayed = cl_loop_digest stored \<and>
                cl_loop_version replayed = cl_loop_version stored)
              (lit ''governed task claim at revision '' @ dec rev_no @
               lit '' does not replay to its stored loop report digest''))
      | _ \<Rightarrow> Inl (Anyhow (lit ''governed task claim at revision '' @ dec rev_no @
            lit '' carries loop evidence with a missing digest or version'')))"

section \<open>From an event back to its mutation\<close>

record replay_state =
  rs_seen :: "rstr list"
  rs_claim :: nat
  rs_verification :: nat
  rs_supervisor :: nat
  rs_operator :: nat
  rs_promotion :: nat
  rs_staged :: nat
  rs_fingerprints :: "(nat, rstr) btree"
  rs_projection :: run

text \<open>What an event reconstructs to: the mutation to replay, the one to fingerprint, and the operator
  provenance to reproduce.\<close>

type_synonym reconstruction = "replay_state \<times> mutation \<times> mutation \<times> operator_authentication"

definition plain :: "replay_state \<Rightarrow> mutation \<Rightarrow> reconstruction" where
  "plain rs m = (rs, m, m, Declared)"

definition reconstruct_staged ::
    "env \<Rightarrow> run \<Rightarrow> governed_event \<Rightarrow> replay_state \<Rightarrow> state_error + reconstruction" where
  "reconstruct_staged E t e rs =
     and_then (ok_or (staged_worktree t) (Anyhow (lit
       ''staged worktree event has no corresponding staged record''))) (\<lambda>s.
     and_then (validate_record_link E (st_id s) (st_actor s) (st_based_on s) (st_materialized_at s) e
       (rs_seen rs)) (\<lambda>seen.
     Inr (plain (rs\<lparr>rs_seen := seen, rs_staged := rs_staged rs + 1\<rparr>)
       (MaterializeStagedWorktree \<lparr>si_actor = st_actor s, si_root = st_root s,
          si_initial = st_initial s, si_pin = st_pin s\<rparr>))))"

definition reconstruct_promotion ::
    "env \<Rightarrow> run \<Rightarrow> governed_event \<Rightarrow> replay_state \<Rightarrow> state_error + reconstruction" where
  "reconstruct_promotion E t e rs =
     and_then (ok_or (get_opt (promotions t) (rs_promotion rs)) (Anyhow (lit
       ''promotion event has no corresponding promotion record''))) (\<lambda>p.
     and_then (validate_record_link E (pr_id p) (pr_actor p) (pr_based_on p) (pr_recorded_at p) e
       (rs_seen rs)) (\<lambda>seen.
     Inr (plain (rs\<lparr>rs_seen := seen, rs_promotion := rs_promotion rs + 1\<rparr>)
       (RecordPromotion \<lparr>pi_actor = pr_actor p, pi_accepted = pr_accepted p,
          pi_initial = pr_initial p, pi_outcome = pr_outcome p\<rparr>))))"

definition reconstruct_claim ::
    "env \<Rightarrow> run \<Rightarrow> governed_event \<Rightarrow> replay_state \<Rightarrow> state_error + reconstruction" where
  "reconstruct_claim E t e rs =
     and_then (ok_or (get_opt (claims t) (rs_claim rs)) (Anyhow (lit
       ''claim event has no corresponding worker claim''))) (\<lambda>c.
     and_then (validate_record_link E (cl_id c) (cl_actor c) (cl_based_on c) (cl_submitted_at c) e
       (rs_seen rs)) (\<lambda>seen.
     Inr (plain (rs\<lparr>rs_seen := seen, rs_claim := rs_claim rs + 1\<rparr>)
       (SubmitClaim \<lparr>ci_actor = cl_actor c, ci_summary = cl_summary c, ci_subject = cl_subject c,
          ci_artifacts = cl_artifacts c, ci_diff_ref = cl_diff_ref c\<rparr>))))"

definition reconstruct_verification ::
    "env \<Rightarrow> run \<Rightarrow> governed_event \<Rightarrow> replay_state \<Rightarrow> state_error + reconstruction" where
  "reconstruct_verification E t e rs =
     and_then (ok_or (get_opt (verifications t) (rs_verification rs)) (Anyhow (lit
       ''verification event has no corresponding verification record''))) (\<lambda>v.
     and_then (validate_record_link E (vf_id v) (vf_actor v) (vf_based_on v) (vf_recorded_at v) e
       (rs_seen rs)) (\<lambda>seen.
     and_then (ok_or (get_opt (claims t) (rs_claim rs - 1)) (Anyhow (lit
       ''verification record has no preceding worker claim''))) (\<lambda>stored.
     and_then (bail_unless (vf_claim_id v = cl_id stored) (lit
       ''verification record does not reference the current worker claim'')) (\<lambda>_.
     and_then (ok_or (latest_claim (rs_projection rs)) (Anyhow (lit
       ''replayed verification has no worker claim''))) (\<lambda>replayed.
     let input = \<lparr>vi_actor = vf_actor v, vi_claim_id = cl_id stored, vi_subject = vf_subject v,
           vi_policy = vf_policy v, vi_outcome = vf_outcome v, vi_commands = vf_commands v,
           vi_artifacts = vf_artifacts v, vi_notes = vf_notes v\<rparr>
     in Inr (rs\<lparr>rs_seen := seen, rs_verification := rs_verification rs + 1\<rparr>,
          RecordVerification (input\<lparr>vi_claim_id := cl_id replayed\<rparr>), RecordVerification input,
          Declared))))))"

definition reconstruct_verdict ::
    "env \<Rightarrow> run \<Rightarrow> governed_event \<Rightarrow> replay_state \<Rightarrow> state_error + reconstruction" where
  "reconstruct_verdict E t e rs =
     and_then (ok_or (get_opt (supervisor_verdicts t) (rs_supervisor rs)) (Anyhow (lit
       ''supervisor event has no corresponding supervisor verdict''))) (\<lambda>v.
     and_then (validate_record_link E (sv_id v) (sv_actor v) (sv_based_on v) (sv_decided_at v) e
       (rs_seen rs)) (\<lambda>seen.
     and_then (ok_or (get_opt (verifications t) (rs_verification rs - 1)) (Anyhow (lit
       ''supervisor verdict has no preceding verification''))) (\<lambda>stored.
     and_then (bail_unless (sv_verification_id v = vf_id stored) (lit
       ''supervisor verdict does not reference current verification'')) (\<lambda>_.
     and_then (ok_or (latest_verification (rs_projection rs)) (Anyhow (lit
       ''replayed supervisor verdict has no verification''))) (\<lambda>replayed.
     let input = \<lparr>svi_actor = sv_actor v, svi_verification_id = vf_id stored,
           svi_verdict = sv_verdict v, svi_rationale = sv_rationale v\<rparr>
     in Inr (rs\<lparr>rs_seen := seen, rs_supervisor := rs_supervisor rs + 1\<rparr>,
          RecordSupervisorVerdict (input\<lparr>svi_verification_id := vf_id replayed\<rparr>),
          RecordSupervisorVerdict input, Declared))))))"

definition reconstruct_decision ::
    "env \<Rightarrow> run \<Rightarrow> governed_event \<Rightarrow> replay_state \<Rightarrow> state_error + reconstruction" where
  "reconstruct_decision E t e rs =
     and_then (ok_or (get_opt (operator_decisions t) (rs_operator rs)) (Anyhow (lit
       ''operator event has no corresponding operator decision''))) (\<lambda>d.
     and_then (validate_record_link E (od_id d) (od_actor d) (od_based_on d) (od_decided_at d) e
       (rs_seen rs)) (\<lambda>seen.
     and_then (ok_or (get_opt (supervisor_verdicts t) (rs_supervisor rs - 1)) (Anyhow (lit
       ''operator decision has no preceding supervisor verdict''))) (\<lambda>stored.
     and_then (bail_unless (od_verdict_id d = sv_id stored) (lit
       ''operator decision does not reference current supervisor verdict'')) (\<lambda>_.
     and_then (ok_or (latest_supervisor_verdict (rs_projection rs)) (Anyhow (lit
       ''replayed operator decision has no supervisor verdict''))) (\<lambda>replayed.
     let input = \<lparr>di_actor = od_actor d, di_verdict_id = sv_id stored, di_decision = od_decision d,
           di_rationale = od_rationale d\<rparr>
     in Inr (rs\<lparr>rs_seen := seen, rs_operator := rs_operator rs + 1\<rparr>,
          RecordOperatorDecision (input\<lparr>di_verdict_id := sv_id replayed\<rparr>),
          RecordOperatorDecision input, od_authentication d))))))"

definition reconstruct ::
    "env \<Rightarrow> run \<Rightarrow> governed_event \<Rightarrow> replay_state \<Rightarrow> state_error + reconstruction" where
  "reconstruct E t e rs =
     (case ev_kind e of
        EvRegistered \<Rightarrow> Inl (Anyhow (lit ''registration event may appear only at revision zero''))
      | EvStagedWorktreeMaterialized \<Rightarrow> reconstruct_staged E t e rs
      | EvStagedWorktreeDiscarded \<Rightarrow>
          (if staged_worktree t = None
           then Inl (Anyhow (lit ''staged worktree discard event has no staged record''))
           else Inr (plain (rs\<lparr>rs_staged := rs_staged rs + 1\<rparr>)
             (DiscardStagedWorktree (ev_actor e) (ev_detail e))))
      | EvPromotionRecorded \<Rightarrow> reconstruct_promotion E t e rs
      | EvRunning \<Rightarrow> Inr (plain rs (MarkRunning (ev_actor e)))
      | EvLaunchFailed \<Rightarrow> Inr (plain rs (MarkLaunchFailed (ev_actor e) (ev_detail e)))
      | EvRuntimeExited \<Rightarrow>
          Inr (plain rs (MarkRuntimeExited (ev_actor e) (Some (ev_detail e)) (exit_kind t)))
      | EvClaimSubmitted \<Rightarrow> reconstruct_claim E t e rs
      | EvLoopTripped \<Rightarrow> reconstruct_claim E t e rs
      | EvVerificationRecorded \<Rightarrow> reconstruct_verification E t e rs
      | EvSupervisorVerdictRecorded \<Rightarrow> reconstruct_verdict E t e rs
      | EvOperatorDecisionRecorded \<Rightarrow> reconstruct_decision E t e rs
      | EvProducerReservationInterrupted \<Rightarrow>
          Inr (plain rs (NoteProducerReservationInterrupted (ev_actor e) (ev_detail e)))
      | EvWorkerTakenOver \<Rightarrow> Inr (plain rs (TakeOverWorker (ev_actor e) (ev_detail e))))"

section \<open>Replaying one event\<close>

fun event_kind_str :: "event_kind \<Rightarrow> rstr" where
  "event_kind_str EvRegistered = lit ''Registered''"
| "event_kind_str EvStagedWorktreeMaterialized = lit ''StagedWorktreeMaterialized''"
| "event_kind_str EvStagedWorktreeDiscarded = lit ''StagedWorktreeDiscarded''"
| "event_kind_str EvRunning = lit ''Running''"
| "event_kind_str EvLaunchFailed = lit ''LaunchFailed''"
| "event_kind_str EvRuntimeExited = lit ''RuntimeExited''"
| "event_kind_str EvClaimSubmitted = lit ''ClaimSubmitted''"
| "event_kind_str EvLoopTripped = lit ''LoopTripped''"
| "event_kind_str EvVerificationRecorded = lit ''VerificationRecorded''"
| "event_kind_str EvSupervisorVerdictRecorded = lit ''SupervisorVerdictRecorded''"
| "event_kind_str EvOperatorDecisionRecorded = lit ''OperatorDecisionRecorded''"
| "event_kind_str EvProducerReservationInterrupted = lit ''ProducerReservationInterrupted''"
| "event_kind_str EvPromotionRecorded = lit ''PromotionRecorded''"
| "event_kind_str EvWorkerTakenOver = lit ''WorkerTakenOver''"

definition is_claim_event :: "governed_event \<Rightarrow> bool" where
  "is_claim_event e \<longleftrightarrow> ev_kind e = EvClaimSubmitted \<or> ev_kind e = EvLoopTripped"

definition replayed_claim_of :: "run \<Rightarrow> governed_event \<Rightarrow> nat \<Rightarrow> replayed_claim option" where
  "replayed_claim_of t e claim_index =
     (if is_claim_event e
      then map_option (\<lambda>c. \<lparr>rp_digest = cl_loop_digest c, rp_version = cl_loop_version c,
             rp_tripped = (ev_kind e = EvLoopTripped)\<rparr>) (get_opt (claims t) (claim_index - 1))
      else None)"

definition replay_context ::
    "run \<Rightarrow> governed_event \<Rightarrow> nat \<Rightarrow> operator_authentication \<Rightarrow> rstr \<times> rstr \<Rightarrow> mutation_context" where
  "replay_context t e claim_index auth uuids =
     \<lparr>mc_now = ev_created_at e, mc_auth = auth, mc_replay_claim = replayed_claim_of t e claim_index,
      mc_is_replay = True, mc_record_uuid = fst uuids, mc_event_uuid = snd uuids\<rparr>"

definition check_replayed_claim :: "run \<Rightarrow> governed_event \<Rightarrow> nat \<Rightarrow> run \<Rightarrow> state_error + unit" where
  "check_replayed_claim t e claim_index projection =
     (if is_claim_event e
      then and_then (ok_or (get_opt (claims t) (claim_index - 1)) (Anyhow (lit
             ''claim event lost its stored claim''))) (\<lambda>stored.
           and_then (ok_or (latest_claim projection) (Anyhow (lit
             ''replayed claim event produced no claim''))) (\<lambda>replayed.
           require_replayed_loop_evidence (ev_revision e) stored replayed))
      else Inr ())"

definition replay_event ::
    "env \<Rightarrow> (nat \<Rightarrow> rstr \<times> rstr) \<Rightarrow> run \<Rightarrow> nat \<Rightarrow> governed_event \<Rightarrow> replay_state \<Rightarrow>
     state_error + replay_state" where
  "replay_event E draw t index e rs0 =
     and_then (checks
       [bail_unless (ev_revision e = index) (lit ''governed task event revision '' @ dec (ev_revision e) @
          lit '' is not contiguous at index '' @ dec index),
        require_text ''governed task event detail'' (ev_detail e),
        require_rfc3339 E ''governed task event timestamp'' (ev_created_at e)]) (\<lambda>_.
     and_then (insert_seen (ev_id e) (rs_seen rs0)) (\<lambda>seen.
     and_then (ok_or (checked_sub_u64 (ev_revision e) 1) (Anyhow (lit
       ''non-registration event has revision zero''))) (\<lambda>based_on.
     let rs1 = rs0\<lparr>rs_seen := seen, rs_projection := (rs_projection rs0)\<lparr>revision := based_on\<rparr>\<rparr> in
     and_then (reconstruct E t e rs1) (\<lambda>(rs2, m, fingerprint_input, auth).
     and_then (bail_unless (\<not> bt_contains (rs_fingerprints rs2) (ev_revision e)) (lit
       ''governed task contains duplicate mutation revision '' @ dec (ev_revision e))) (\<lambda>_.
     let rs3 = rs2\<lparr>rs_fingerprints := bt_insert (ev_revision e)
           (fingerprint_mutation E (project_id t) (run_id t) fingerprint_input) (rs_fingerprints rs2)\<rparr> in
     and_then (map_err (WithContext (lit ''governed task event '' @ event_kind_str (ev_kind e) @
         lit '' at revision '' @ dec (ev_revision e) @ lit '' cannot be replayed''))
       (apply_mutation E (rs_projection rs3) m (ev_revision e)
         (replay_context t e (rs_claim rs3) auth (draw index)))) (\<lambda>projection.
     and_then (ok_or (map_option ev_kind (last_opt (events projection))) (Anyhow (lit
       ''replayed governed task mutation emitted no event''))) (\<lambda>replayed_kind.
     and_then (bail_unless (replayed_kind = ev_kind e) (lit ''governed task event at revision '' @
       dec (ev_revision e) @ lit '' replays as '' @ event_kind_str replayed_kind @ lit '', not '' @
       event_kind_str (ev_kind e))) (\<lambda>_.
     and_then (check_replayed_claim t e (rs_claim rs3) projection) (\<lambda>_.
     Inr (rs3\<lparr>rs_projection := projection\<lparr>revision := ev_revision e\<rparr>\<rparr>))))))))))"

fun replay_events ::
    "env \<Rightarrow> (nat \<Rightarrow> rstr \<times> rstr) \<Rightarrow> run \<Rightarrow> nat \<Rightarrow> governed_event list \<Rightarrow> replay_state \<Rightarrow>
     state_error + replay_state" where
  "replay_events E draw t index [] rs = Inr rs"
| "replay_events E draw t index (e # es) rs =
     and_then (replay_event E draw t index e rs) (\<lambda>rs'. replay_events E draw t (Suc index) es rs')"

section \<open>The whole history\<close>

definition empty_projection :: "run \<Rightarrow> run" where
  "empty_projection t = t\<lparr>revision := 0, execution_state := Registered, exit_kind := Natural,
     review_state := AwaitingClaim, claims := [], verifications := [], supervisor_verdicts := [],
     operator_decisions := [], promotions := [], staged_worktree := None, events := []\<rparr>"

definition records_within_limit :: "run \<Rightarrow> state_error + unit" where
  "records_within_limit t = checks (map (\<lambda>(label, len).
      bail_unless (len \<le> MAX_GOVERNED_RECORDS_PER_KIND) (lit label @ lit '' exceeds its limit of '' @
        dec MAX_GOVERNED_RECORDS_PER_KIND))
     [(''worker claims'', length (claims t)), (''verification records'', length (verifications t)),
      (''supervisor verdicts'', length (supervisor_verdicts t)),
      (''operator decisions'', length (operator_decisions t)),
      (''governed promotions'', length (promotions t))])"

definition history_header :: "env \<Rightarrow> run \<Rightarrow> state_error + unit" where
  "history_header E t =
     and_then (checks
       [require_rfc3339 E ''governed task created_at'' (created_at t),
        require_rfc3339 E ''governed task updated_at'' (updated_at t),
        bail_unless (events t \<noteq> [] \<and> length (events t) \<le> MAX_GOVERNED_EVENTS) (lit
          ''governed task event history must contain between 1 and '' @ dec MAX_GOVERNED_EVENTS @
          lit '' records''),
        records_within_limit t]) (\<lambda>_.
     and_then (ok_or (checked_add_u64 (revision t) 1) (Anyhow (lit
       ''governed task revision cannot fit in memory''))) (\<lambda>expected_events.
     let first = hd (events t) in checks
       [bail_unless (length (events t) = expected_events) (lit ''governed task revision '' @
          dec (revision t) @ lit '' requires '' @ dec expected_events @ lit '' contiguous events, found '' @
          dec (length (events t))),
        bail_unless (ev_revision first = 0 \<and> ev_kind first = EvRegistered) (lit
          ''governed task event zero must be the registration event''),
        require_actor (ev_actor first) System,
        require_text ''governed task event detail'' (ev_detail first),
        require_rfc3339 E ''governed task event timestamp'' (ev_created_at first),
        bail_unless (created_at t = ev_created_at first) (lit
          ''governed task creation timestamp must match its registration event'')]))"

definition promotions_match :: "promotion_record list \<Rightarrow> promotion_record list \<Rightarrow> bool" where
  "promotions_match replayed stored \<longleftrightarrow> length replayed = length stored \<and>
     list_all (\<lambda>(a, b). pr_accepted a = pr_accepted b \<and> pr_initial a = pr_initial b \<and>
       pr_outcome a = pr_outcome b) (zip replayed stored)"

definition history_matches :: "run \<Rightarrow> replay_state \<Rightarrow> state_error + unit" where
  "history_matches t rs = (let p = rs_projection rs in checks
     [bail_unless (rs_claim rs = length (claims t) \<and> rs_verification rs = length (verifications t) \<and>
          rs_supervisor rs = length (supervisor_verdicts t) \<and>
          rs_operator rs = length (operator_decisions t) \<and> rs_promotion rs = length (promotions t) \<and>
          \<not> (staged_worktree t \<noteq> None \<and> rs_staged rs = 0))
        (lit ''governed task contains records without matching lifecycle events''),
      bail_unless (execution_state p = execution_state t \<and> exit_kind p = exit_kind t \<and>
          review_state p = review_state t)
        (lit ''governed task materialized state does not match its replayed lifecycle history''),
      bail_unless (staged_worktrees_match (staged_worktree p) (staged_worktree t))
        (lit ''governed task staged worktree does not match its replayed lifecycle history''),
      bail_unless (promotions_match (promotions p) (promotions t))
        (lit ''governed task promotions do not match their replayed lifecycle history'')])"

definition replay_start :: "run \<Rightarrow> replay_state" where
  "replay_start t =
     \<lparr>rs_seen = [ev_id (hd (events t))], rs_claim = 0, rs_verification = 0, rs_supervisor = 0,
      rs_operator = 0, rs_promotion = 0, rs_staged = 0, rs_fingerprints = bt_empty,
      rs_projection = empty_projection t\<rparr>"

definition validate_task_history ::
    "env \<Rightarrow> (nat \<Rightarrow> rstr \<times> rstr) \<Rightarrow> run \<Rightarrow> state_error + (nat, rstr) btree" where
  "validate_task_history E draw t =
     and_then (history_header E t) (\<lambda>_.
     and_then (replay_events E draw t 1 (tl (events t)) (replay_start t)) (\<lambda>rs.
     and_then (history_matches t rs) (\<lambda>_.
     Inr (rs_fingerprints rs))))"

end
