(* ===== verification/Event_Details.thy ===== *)
theory Event_Details
  imports Governed_Run
begin

text \<open>
  The texts the daemon composes for its own events always pass the rule that reloading applies to
  them: nonblank, NUL-free and at most sixteen kilobytes.  This needs the bounds of everything that
  can enter such a text, and the record limits of a run.
\<close>

section \<open>Record limits\<close>

definition counts_bounded :: "run \<Rightarrow> bool" where
  "counts_bounded t \<longleftrightarrow> length (claims t) \<le> MAX_GOVERNED_RECORDS_PER_KIND \<and>
     length (verifications t) \<le> MAX_GOVERNED_RECORDS_PER_KIND \<and>
     length (supervisor_verdicts t) \<le> MAX_GOVERNED_RECORDS_PER_KIND \<and>
     length (operator_decisions t) \<le> MAX_GOVERNED_RECORDS_PER_KIND \<and>
     length (promotions t) \<le> MAX_GOVERNED_RECORDS_PER_KIND \<and>
     length (events t) \<le> MAX_GOVERNED_EVENTS"

lemma initial_counts: "counts_bounded (initial_run r now uuid)"
  by (simp add: counts_bounded_def initial_run_def bound_defs)

lemma counts_transition:
  "transition E ctx n t m u \<Longrightarrow> length (events t) < MAX_GOVERNED_EVENTS \<Longrightarrow> counts_bounded t \<Longrightarrow>
   counts_bounded u"
  by (induction rule: transition.induct)
    (auto simp: counts_bounded_def push_event_def claim_admissible_def
      record_promotion_preconditions_hold_def)

interpretation run_limits: invariant_machine "run_step E" counts_bounded for E
proof
  fix s :: run and op s'
  assume "counts_bounded s" "run_step E s op = Inr s'"
  then show "counts_bounded s'"
    by (auto elim!: run_stepE dest!: counts_transition simp: counts_bounded_def)
qed

section \<open>Bounded pieces of text\<close>

text \<open>A piece is NUL-free and at most \<open>n\<close> bytes.\<close>

definition piece :: "rstr \<Rightarrow> nat \<Rightarrow> bool" where
  "piece s n \<longleftrightarrow> 0 \<notin> set s \<and> byte_len s \<le> n"

lemma piece_append: "piece a m \<Longrightarrow> piece b n \<Longrightarrow> piece (a @ b) (m + n)"
  by (simp add: piece_def)

lemma piece_mono: "piece a m \<Longrightarrow> m \<le> n \<Longrightarrow> piece a n"
  by (simp add: piece_def)

lemma text_ok_piece: "text_ok a m \<Longrightarrow> piece b n \<Longrightarrow> m + n \<le> k \<Longrightarrow> text_ok (a @ b) k"
  by (rule text_ok_append) (auto simp: piece_def)

lemma text_ok_is_piece: "text_ok a n \<Longrightarrow> piece a n"
  by (simp add: text_ok_def piece_def)

lemma dec_length: "n < 10 ^ k \<Longrightarrow> 0 < k \<Longrightarrow> length (dec n) \<le> k"
proof (induction k arbitrary: n)
  case (Suc k)
  show ?case
  proof (cases "n < 10")
    case True
    then show ?thesis by (subst dec.simps) simp
  next
    case False
    then have "k \<noteq> 0" using Suc.prems by (cases k) auto
    moreover have "n div 10 < 10 ^ k" using Suc.prems by (simp add: less_mult_imp_div_less)
    ultimately have "length (dec (n div 10)) \<le> k" using Suc.IH by simp
    with False show ?thesis by (subst dec.simps) simp
  qed
qed simp

lemma dec_piece: "n \<le> u64_max \<Longrightarrow> piece (dec n) 20"
proof -
  assume "n \<le> u64_max"
  then have "length (dec n) \<le> 20" by (intro dec_length) (simp_all add: u64_max_def)
  moreover have "list_all (\<lambda>c. c < 128) (dec n)"
    using dec_digits [of n] by (fastforce simp: list_all_iff)
  ultimately show "piece (dec n) 20"
    using dec_digits [of n] by (auto simp: piece_def byte_len_ascii)
qed

lemma trim_subset: "set (trim s) \<subseteq> set s"
proof -
  have sub: "set (dropWhile P xs) \<subseteq> set xs" for P and xs :: "nat list"
    by (auto dest: set_dropWhileD)
  have "set (dropWhile is_whitespace (rev (dropWhile is_whitespace s))) \<subseteq> set (dropWhile is_whitespace s)"
    using sub [of is_whitespace "rev (dropWhile is_whitespace s)"] by simp
  also have "\<dots> \<subseteq> set s" by (rule sub)
  finally show ?thesis by (simp add: trim_def)
qed

lemma strip_cr_subset: "set (strip_cr l) \<subseteq> set l"
  by (auto simp: strip_cr_def dest: in_set_butlastD)

lemma lines_subset: "l \<in> set (lines_aux acc s) \<Longrightarrow> set l \<subseteq> set acc \<union> set s"
proof (induction acc s rule: lines_aux.induct)
  case (2 acc c cs)
  then show ?case using strip_cr_subset [of "rev acc"] by (auto split: if_splits)
qed (auto split: if_splits)

lemma error_signature_piece:
  assumes "0 \<notin> set s"
  shows "piece (error_signature alnum s) 480"
proof -
  let ?line = "case find (list_ex alnum) (map trim (lines_of s)) of Some l \<Rightarrow> l | None \<Rightarrow> trim s"
  have "set ?line \<subseteq> set s"
  proof (cases "find (list_ex alnum) (map trim (lines_of s))")
    case (Some l)
    then have "l \<in> set (map trim (lines_of s))" by (metis find_Some_iff nth_mem)
    then obtain k where "k \<in> set (lines_of s)" "l = trim k" by auto
    then show ?thesis using Some trim_subset [of k] lines_subset [of k "[]" s]
      by (auto simp: lines_of_def)
  qed (simp add: trim_subset)
  then have "set (error_signature alnum s) \<subseteq> set s"
    using set_take_subset [of ERROR_SIGNATURE_MAX_CHARS ?line]
    by (auto simp: error_signature_def Let_def)
  moreover have "length (error_signature alnum s) \<le> 120"
    by (simp add: error_signature_def Let_def ERROR_SIGNATURE_MAX_CHARS_def)
  then have "byte_len (error_signature alnum s) \<le> 480"
    using byte_len_bounds(2) [of "error_signature alnum s"] by linarith
  ultimately show ?thesis using assms by (auto simp: piece_def)
qed

section \<open>The loop trip a live claim can record\<close>

lemma streak_loop_le:
  "failure_streak_loop a k vs = (r, n) \<Longrightarrow> a = None \<longrightarrow> k = 0 \<Longrightarrow> n \<le> k + length vs"
proof (induction a k vs rule: failure_streak_loop.induct)
  case (2 a k v vs)
  then show ?case by (fastforce split: option.splits if_splits)
qed simp

lemma streak_loop_signature:
  "failure_streak_loop a k vs = (Some sig, n) \<Longrightarrow>
   a = Some sig \<or> (\<exists>v \<in> set vs. verification_failure_signature v = Some sig)"
proof (induction a k vs rule: failure_streak_loop.induct)
  case (2 a k v vs)
  then show ?case by (fastforce split: option.splits if_splits)
qed simp

lemma failure_streak_facts:
  assumes "trailing_verification_failure_streak t = Some (sig, n)" "provenance t" "counts_bounded t"
  shows "0 \<notin> set sig" "n \<le> MAX_GOVERNED_RECORDS_PER_KIND"
proof -
  have loop: "failure_streak_loop None 0 (rev (verifications t)) = (Some sig, n)"
    using assms(1) by (auto simp: trailing_verification_failure_streak_def split: prod.splits option.splits)
  show "n \<le> MAX_GOVERNED_RECORDS_PER_KIND"
    using streak_loop_le [OF loop] assms(3) by (simp add: counts_bounded_def)
  obtain v where v: "v \<in> set (verifications t)" "verification_failure_signature v = Some sig"
    using streak_loop_signature [OF loop] by auto
  with assms(2) have ok: "evidence_ok v" by (simp add: provenance_def list.pred_set)
  from v(2) have "vf_outcome v = Failed" by (auto simp: verification_failure_signature_def split: if_splits)
  with ok obtain c where "find (\<lambda>c. \<not> ce_success c) (vf_commands v) = Some c"
    by (cases "find (\<lambda>c. \<not> ce_success c) (vf_commands v)")
      (auto simp: evidence_ok_def find_None_iff list_ex_iff)
  moreover from this have "c \<in> set (vf_commands v)" by (metis find_Some_iff nth_mem)
  ultimately show "0 \<notin> set sig"
    using ok v(2) \<open>vf_outcome v = Failed\<close>
    by (auto simp: verification_failure_signature_def evidence_ok_def list.pred_set command_ok_def
        text_ok_def)
qed

lemma lit_piece_simps: "piece (lit s) n \<longleftrightarrow> 0 \<notin> set (lit s) \<and> byte_len (lit s) \<le> n"
  by (simp add: piece_def)

lemmas lit_eval = lit_def byte_len_def utf8_def utf8_char_def is_whitespace_def

lemma evaluate_trip_piece:
  assumes "evaluate_observed alnum (lc_budget governed_builder_contract) (governed_observation t elapsed) = Some trip"
    and "provenance t" "counts_bounded t"
  shows "piece (show_trip trip) 1000"
proof -
  have budget: "max_rounds (lc_budget governed_builder_contract) = 5"
    by (simp add: governed_builder_contract_def governed_builder_def GOVERNED_BUILDER_MAX_CLAIM_CYCLES_def)
  consider (cap) "trip = RoundCap 5" | (clock) "trip = WallClock (millis_u64 elapsed)"
    | (same) sig n where "trip = SameError GOVERNED_VERIFICATION_TOOL n (error_signature alnum sig)"
        "trailing_verification_failure_streak t = Some (sig, n)"
    using assms(1) unfolding evaluate_observed_def budget
    by (auto simp: governed_observation_def split: if_splits option.splits)
  then show ?thesis
  proof cases
    case cap
    have "piece (lit ''round cap of '' @ dec 5 @ lit '' reached without a final reply'') (100 + (20 + 100))"
      by (intro piece_append dec_piece) (simp_all add: piece_def lit_eval u64_max_def)
    with cap show ?thesis by (auto intro: piece_mono)
  next
    case clock
    have "piece (lit ''wall-clock budget of '' @ dec (millis_u64 elapsed) @ lit ''ms elapsed'') (100 + (20 + 100))"
      by (intro piece_append dec_piece) (simp_all add: piece_def lit_eval millis_u64_def)
    with clock show ?thesis by (auto intro: piece_mono)
  next
    case same
    note facts = failure_streak_facts [OF same(2) assms(2,3)]
    have "piece (lit ''tool '' @ [39] @ GOVERNED_VERIFICATION_TOOL @ [39] @ lit '' failed '' @ dec n @
        lit '' times in a row with the same error: '' @ error_signature alnum sig)
        (50 + (1 + (50 + (1 + (50 + (20 + (100 + 480)))))))"
      using facts by (intro piece_append dec_piece error_signature_piece)
        (simp_all add: piece_def lit_eval u64_max_def bound_defs GOVERNED_VERIFICATION_TOOL_def)
    with same show ?thesis by (auto intro: piece_mono)
  qed
qed

section \<open>Event details\<close>

definition uuid_ok :: "rstr \<Rightarrow> bool" where
  "uuid_ok u \<longleftrightarrow> byte_len u = 36 \<and> list_all (\<lambda>c. is_lower_hex_byte c \<or> c = 45) u"

lemma uuid_piece: "uuid_ok u \<Longrightarrow> piece u 36"
  by (auto simp: uuid_ok_def piece_def list_all_iff is_lower_hex_byte_def is_ascii_digit_def)

lemma record_id_piece:
  "uuid_ok u \<Longrightarrow> piece (lit p) 30 \<Longrightarrow> piece (new_record_id p u) (30 + (1 + 36))"
  unfolding new_record_id_def by (intro piece_append uuid_piece) (simp_all add: piece_def lit_eval)

lemma oid_piece: "commit_oid s \<Longrightarrow> piece s 64"
proof -
  assume oid: "commit_oid s"
  have "0 \<notin> set s"
  proof
    assume "0 \<in> set s"
    then have "0 \<in> set (utf8 s)" by (force simp: utf8_def utf8_char_def)
    with oid show False
      by (auto simp: commit_oid_def lower_hex_def list_all_iff is_lower_hex_byte_def is_ascii_digit_def)
  qed
  with oid show ?thesis by (auto simp: piece_def commit_oid_def)
qed

lemma promotion_summary_piece:
  assumes "outcome_ok p"
  shows "piece (promotion_summary (pi_outcome p)) 400"
proof (cases "pi_outcome p")
  case (Promoted oid)
  then have "commit_oid oid" using assms by (simp add: outcome_ok_def)
  then have "piece (lit ''promoted to '' @ oid) (50 + 64)"
    by (intro piece_append oid_piece) (simp_all add: piece_def lit_eval)
  with Promoted show ?thesis by (auto intro: piece_mono)
next
  case (PromotionBlocked head reason)
  then have "commit_oid head" using assms by (simp add: outcome_ok_def)
  moreover have "piece (show_blocked_reason reason) 200"
  proof (cases reason)
    case (RepositoryConfigChanged c)
    then show ?thesis by (cases c) (simp_all add: piece_def lit_eval)
  qed (simp_all add: piece_def lit_eval)
  ultimately have "piece (lit ''blocked ('' @ show_blocked_reason reason @
      lit ''); canonical head is '' @ head) (20 + (200 + (50 + 64)))"
    by (intro piece_append oid_piece) (simp_all add: piece_def lit_eval)
  with PromotionBlocked show ?thesis by (auto intro: piece_mono)
qed

lemma composed_detail:
  assumes "text_ok (lit a) 100" "piece (lit p) 30" "uuid_ok u" "piece rest 15000"
  shows "text_ok (lit a @ new_record_id p u @ rest) MAX_REASON_BYTES"
proof -
  have "piece (new_record_id p u @ rest) (30 + (1 + 36) + 15000)"
    using assms by (intro piece_append record_id_piece)
  with assms(1) show ?thesis by (rule text_ok_piece) (simp add: MAX_REASON_BYTES_def)
qed

lemma live_trip_piece:
  assumes "governed_builder_loop_state E t now None = Inr (Some ls)" "ls_trip ls = Some trip"
    and "provenance t" "counts_bounded t"
  shows "piece (show_trip trip) 1000"
proof -
  obtain elapsed where "evaluate_observed (is_alphanumeric E) (lc_budget governed_builder_contract)
      (governed_observation t elapsed) = Some trip"
    using assms(1,2) by (auto simp: governed_builder_loop_state_def Let_def split: if_splits)
  then show ?thesis using assms(3,4) by (rule evaluate_trip_piece)
qed

lemma composed_prefixes:
  "text_ok (lit ''staged worktree '') 100" "text_ok (lit ''promotion '') 100"
  "text_ok (lit ''worker completion claim '') 100" "text_ok (lit ''verification '') 100"
  "text_ok (lit ''supervisor verdict '') 100" "text_ok (lit ''operator decision '') 100"
  "text_ok (lit ''runtime launch acknowledged'') MAX_REASON_BYTES"
  "text_ok (lit ''runtime exited'') MAX_REASON_BYTES"
  "text_ok (lit ''governed task registered before runtime launch'') MAX_REASON_BYTES"
  "text_ok (lit ''impulse-daemon'') MAX_REASON_BYTES"
  by (simp_all add: text_ok_def trim_def lit_eval MAX_REASON_BYTES_def)

lemma kind_prefixes:
  "piece (lit ''staged-worktree'') 30" "piece (lit ''promotion'') 30" "piece (lit ''claim'') 30"
  "piece (lit ''verification'') 30" "piece (lit ''supervisor-verdict'') 30"
  "piece (lit ''operator-decision'') 30"
  by (simp_all add: piece_def lit_eval)

text \<open>Every event a live transition appends carries a detail that reloading accepts.\<close>

lemma transition_detail:
  "transition E ctx n t m u \<Longrightarrow> live ctx \<Longrightarrow> provenance t \<Longrightarrow> counts_bounded t \<Longrightarrow>
   uuid_ok (mc_record_uuid ctx) \<Longrightarrow> text_ok (ev_detail (last (events u))) MAX_REASON_BYTES"
proof (induction rule: transition.induct)
  case (materialize s t rid)
  have "piece (lit '' materialized'') 15000" by (simp add: piece_def lit_eval)
  with materialize show ?case
    using composed_detail [OF composed_prefixes(1) kind_prefixes(1)]
    by (simp add: push_event_def new_event_def)
next
  case (promote t p s c rid)
  have "piece (lit '' recorded as '' @ promotion_summary (pi_outcome p)) (100 + 400)"
    using promote(7) by (intro piece_append promotion_summary_piece) (simp_all add: piece_def lit_eval)
  then have "piece (lit '' recorded as '' @ promotion_summary (pi_outcome p)) 15000"
    by (rule piece_mono) simp
  with promote show ?case
    using composed_detail [OF composed_prefixes(2) kind_prefixes(2)]
    by (simp add: push_event_def new_event_def)
next
  case (claim_tripped t c ls trip)
  have "piece (show_trip trip) 1000"
    using claim_tripped by (intro live_trip_piece [of E t "mc_now ctx" ls]) (simp_all add: live_def)
  then have "piece (lit '' tripped the governed Builder loop contract: '' @ show_trip trip) (100 + 1000)"
    by (intro piece_append) (simp_all add: piece_def lit_eval)
  then have "piece (lit '' tripped the governed Builder loop contract: '' @ show_trip trip) 15000"
    by (rule piece_mono) simp
  with claim_tripped show ?case
    using composed_detail [OF composed_prefixes(3) kind_prefixes(3)]
    by (simp add: push_event_def new_event_def)
next
  case (claim_submitted t c ls)
  have "piece (lit '' submitted'') 15000" by (simp add: piece_def lit_eval)
  with claim_submitted show ?case
    using composed_detail [OF composed_prefixes(3) kind_prefixes(3)]
    by (simp add: push_event_def new_event_def)
next
  case (verification t v c rid)
  have "piece (lit '' recorded as '' @ outcome_str (vi_outcome v)) 15000"
    by (cases "vi_outcome v") (simp_all add: piece_def lit_eval)
  with verification show ?case
    using composed_detail [OF composed_prefixes(4) kind_prefixes(4)]
    by (simp add: push_event_def new_event_def)
next
  case (verdict t v f rid)
  have "piece (lit '' recorded as '' @ verdict_str (svi_verdict v)) 15000"
    by (cases "svi_verdict v") (simp_all add: piece_def lit_eval)
  with verdict show ?case
    using composed_detail [OF composed_prefixes(5) kind_prefixes(5)]
    by (simp add: push_event_def new_event_def)
next
  case (decision t d s rid)
  have "piece (lit '' recorded as '' @ decision_str (di_decision d)) 15000"
    by (cases "di_decision d") (simp_all add: piece_def lit_eval)
  with decision show ?case
    using composed_detail [OF composed_prefixes(6) kind_prefixes(6)]
    by (simp add: push_event_def new_event_def)
next
  case (runtime_exited a t reason kind)
  then show ?case
    by (cases reason) (simp_all add: push_event_def new_event_def exit_detail_def composed_prefixes)
qed (simp_all add: push_event_def new_event_def composed_prefixes)

end
