(* ===== verification/Governed_Replay.thy ===== *)
theory Governed_Replay
  imports Governed_History Event_Details
begin

text \<open>
  Every history a live ledger can write is one it can load again: the simulation between a live
  run and the projection that \<open>validate_task_history\<close> rebuilds from its events.  The projection is
  the live run up to the identifiers it mints for its own records.
\<close>

section \<open>Runs up to minted identifiers\<close>

definition blank_claim :: "claim_record \<Rightarrow> claim_record" where
  "blank_claim c = c\<lparr>cl_id := []\<rparr>"

definition blank_verification :: "verification_record \<Rightarrow> verification_record" where
  "blank_verification v = v\<lparr>vf_id := [], vf_claim_id := []\<rparr>"

definition blank_verdict :: "verdict_record \<Rightarrow> verdict_record" where
  "blank_verdict v = v\<lparr>sv_id := [], sv_verification_id := []\<rparr>"

definition blank_decision :: "decision_record \<Rightarrow> decision_record" where
  "blank_decision d = d\<lparr>od_id := [], od_verdict_id := []\<rparr>"

definition blank_promotion :: "promotion_record \<Rightarrow> promotion_record" where
  "blank_promotion p = p\<lparr>pr_id := []\<rparr>"

definition blank_staged :: "staged_record \<Rightarrow> staged_record" where
  "blank_staged s = s\<lparr>st_id := []\<rparr>"

lemmas blank_defs = blank_claim_def blank_verification_def blank_verdict_def blank_decision_def
  blank_promotion_def blank_staged_def

definition sim :: "run \<Rightarrow> run \<Rightarrow> bool" where
  "sim s p \<longleftrightarrow> task_core.truncate p = task_core.truncate s \<and> run_id p = run_id s \<and>
     created_at p = created_at s \<and> execution_state p = execution_state s \<and>
     exit_kind p = exit_kind s \<and> review_state p = review_state s \<and>
     map blank_claim (claims p) = map blank_claim (claims s) \<and>
     map blank_verification (verifications p) = map blank_verification (verifications s) \<and>
     map blank_verdict (supervisor_verdicts p) = map blank_verdict (supervisor_verdicts s) \<and>
     map blank_decision (operator_decisions p) = map blank_decision (operator_decisions s) \<and>
     map blank_promotion (promotions p) = map blank_promotion (promotions s) \<and>
     map_option blank_staged (staged_worktree p) = map_option blank_staged (staged_worktree s) \<and>
     length (events p) \<le> length (events s)"

lemma map_eq_last: "map f xs = map f ys \<Longrightarrow> xs \<noteq> [] \<Longrightarrow> ys \<noteq> [] \<and> f (last xs) = f (last ys)"
  by (metis last_map list.map_disc_iff)

lemma blank_projections:
  "blank_claim a = blank_claim b \<Longrightarrow> cl_subject a = cl_subject b"
  "blank_verification v = blank_verification w \<Longrightarrow> vf_outcome v = vf_outcome w"
  "blank_verdict x = blank_verdict y \<Longrightarrow> sv_verdict x = sv_verdict y"
  "blank_promotion p = blank_promotion q \<Longrightarrow> pr_outcome p = pr_outcome q"
  "blank_staged s = blank_staged u \<Longrightarrow>
     st_status s = st_status u \<and> st_pin s = st_pin u \<and> st_initial s = st_initial u"
  by (drule arg_cong [where f = cl_subject], simp add: blank_claim_def)
    (drule arg_cong [where f = vf_outcome], simp add: blank_verification_def,
     drule arg_cong [where f = sv_verdict], simp add: blank_verdict_def,
     drule arg_cong [where f = pr_outcome], simp add: blank_promotion_def,
     drule arg_cong [where f = "\<lambda>s. (st_status s, st_pin s, st_initial s)"], simp add: blank_staged_def)

lemma sim_fields:
  assumes "sim s p"
  shows "world_scope p = world_scope s" "agent_id p = agent_id s" "workspace_root p = workspace_root s"
    "initial_subject_revision p = initial_subject_revision s" "run_id p = run_id s"
    "created_at p = created_at s" "execution_state p = execution_state s" "exit_kind p = exit_kind s"
    "review_state p = review_state s" "length (claims p) = length (claims s)"
    "length (verifications p) = length (verifications s)"
    "length (supervisor_verdicts p) = length (supervisor_verdicts s)"
    "length (operator_decisions p) = length (operator_decisions s)"
    "length (promotions p) = length (promotions s)"
  using assms truncate_eq_fields [of p s] by (auto simp: sim_def dest: map_eq_imp_length_eq)

lemma sim_staged_None: "sim s p \<Longrightarrow> staged_worktree p = None \<longleftrightarrow> staged_worktree s = None"
  by (cases "staged_worktree p"; cases "staged_worktree s") (simp_all add: sim_def)

lemma sim_active:
  assumes "sim s p" "active_staged_worktree s = Some a"
  obtains b where "active_staged_worktree p = Some b" "blank_staged b = blank_staged a"
    "st_pin b = st_pin a" "st_initial b = st_initial a"
proof -
  from assms obtain b where "staged_worktree p = Some b" "blank_staged b = blank_staged a"
    by (auto simp: sim_def)
  moreover from this assms(2) have "active_staged_worktree p = Some b" "st_pin b = st_pin a"
    "st_initial b = st_initial a"
    by (auto dest!: blank_projections(5))
  ultimately show thesis by (intro that)
qed

lemma sim_active_None: "sim s p \<Longrightarrow> active_staged_worktree p = None \<longleftrightarrow> active_staged_worktree s = None"
  by (cases "staged_worktree p"; cases "staged_worktree s")
    (auto simp: sim_def active_staged_worktree_def dest: blank_projections)

lemma sim_claim:
  assumes "sim s p" "latest_claim s = Some c"
  obtains d where "latest_claim p = Some d" "cl_subject d = cl_subject c"
  using assms map_eq_last [of blank_claim "claims s" "claims p"]
  by (auto simp: sim_def latest_defs dest: blank_projections(1))

lemma sim_verification:
  assumes "sim s p" "latest_verification s = Some v"
  obtains w where "latest_verification p = Some w" "vf_outcome w = vf_outcome v"
  using assms map_eq_last [of blank_verification "verifications s" "verifications p"]
  by (auto simp: sim_def latest_defs dest: blank_projections(2))

lemma sim_verdict:
  assumes "sim s p" "latest_supervisor_verdict s = Some v"
  obtains w where "latest_supervisor_verdict p = Some w" "sv_verdict w = sv_verdict v"
  using assms map_eq_last [of blank_verdict "supervisor_verdicts s" "supervisor_verdicts p"]
  by (auto simp: sim_def latest_defs dest: blank_projections(3))

lemma sim_promoted:
  assumes "sim s p"
  shows "(case latest_promotion p of None \<Rightarrow> False | Some x \<Rightarrow> is_promoted (pr_outcome x)) =
    (case latest_promotion s of None \<Rightarrow> False | Some x \<Rightarrow> is_promoted (pr_outcome x))"
proof (cases "promotions s = []")
  case True
  then show ?thesis using assms by (simp add: latest_defs last_opt_def sim_def)
next
  case False
  then show ?thesis
    using map_eq_last [of blank_promotion "promotions s" "promotions p"] assms
    by (auto simp: sim_def latest_defs last_opt_def dest: blank_projections(4))
qed

lemma sim_preconditions:
  assumes "sim s p"
  shows "record_promotion_preconditions_hold p = record_promotion_preconditions_hold s"
proof -
  have "latest_claim p = None \<longleftrightarrow> latest_claim s = None"
    using sim_fields(10) [OF assms] by (auto simp: latest_defs)
  then show ?thesis
    unfolding record_promotion_preconditions_hold_def sim_promoted [OF assms]
    using sim_fields [OF assms] sim_active_None [OF assms] by (simp only:)
qed

lemma sim_discardable:
  assumes "sim s p"
  shows "staged_worktree_is_discardable p = staged_worktree_is_discardable s"
proof -
  have "(case staged_worktree p of None \<Rightarrow> False | Some x \<Rightarrow> \<not> is_comparable (st_pin x)) =
      (case staged_worktree s of None \<Rightarrow> False | Some x \<Rightarrow> \<not> is_comparable (st_pin x))"
    using assms by (auto simp: sim_def split: option.splits dest!: blank_projections(5))
  moreover have "latest_promotion p \<noteq> None \<longleftrightarrow> latest_promotion s \<noteq> None"
    using sim_fields(14) [OF assms] by (auto simp: latest_defs)
  ultimately show ?thesis
    using sim_fields [OF assms]
    by (cases "review_state s") (simp_all add: staged_worktree_is_discardable_def)
qed

section \<open>The loop contract sees the same run\<close>

lemma signature_blank: "verification_failure_signature (blank_verification v) = verification_failure_signature v"
  by (simp add: verification_failure_signature_def blank_verification_def split: option.splits)

lemma streak_loop_blank:
  "map blank_verification vs = map blank_verification ws \<Longrightarrow>
   failure_streak_loop a k vs = failure_streak_loop a k ws"
proof (induction vs arbitrary: a k ws)
  case (Cons v vs)
  then obtain w ws' where ws: "ws = w # ws'" "blank_verification v = blank_verification w"
    "map blank_verification vs = map blank_verification ws'" by auto
  then have "verification_failure_signature v = verification_failure_signature w"
    using signature_blank by metis
  with ws Cons.IH show ?case by (simp split: option.splits)
qed simp

lemma sim_loop_state:
  assumes "sim s p"
  shows "governed_builder_loop_state E p now rp = governed_builder_loop_state E s now rp"
proof -
  have blanks: "map blank_verification (verifications p) = map blank_verification (verifications s)"
    using assms by (simp add: sim_def)
  then have "map blank_verification (rev (verifications p)) = map blank_verification (rev (verifications s))"
    by (simp add: rev_map [symmetric])
  then have "failure_streak_loop None 0 (rev (verifications p)) =
      failure_streak_loop None 0 (rev (verifications s))" by (rule streak_loop_blank)
  then have "trailing_verification_failure_streak p = trailing_verification_failure_streak s"
    by (simp only: trailing_verification_failure_streak_def)
  moreover have "map vf_outcome (verifications p) = map vf_outcome (verifications s)"
  proof -
    have "map vf_outcome vs = map vf_outcome (map blank_verification vs)" for vs
      by (simp add: blank_verification_def)
    with blanks show ?thesis by metis
  qed
  moreover have count: "length (filter (\<lambda>v. vf_outcome v \<noteq> Passed) vs) =
      length (filter (\<lambda>k. k \<noteq> Passed) (map vf_outcome vs))" for vs
    by (simp add: filter_map comp_def)
  ultimately have "length (filter (\<lambda>v. vf_outcome v \<noteq> Passed) (verifications p)) =
      length (filter (\<lambda>v. vf_outcome v \<noteq> Passed) (verifications s))"
    "trailing_verification_failure_streak p = trailing_verification_failure_streak s"
    by (simp_all only: count)
  then have "governed_observation p = governed_observation s" "governed_loop_report p = governed_loop_report s"
    using sim_fields [OF assms]
    by (auto simp only: governed_observation_def governed_loop_report_def intro!: ext)
  then show ?thesis
    unfolding governed_builder_loop_state_def using sim_fields [OF assms] by (simp only:)
qed

text \<open>Replaying the evidence a live claim stored recomputes the same verdict and digest.\<close>

lemma loop_state_replays:
  assumes "governed_builder_loop_state E s now None = Inr ls"
    and "rp_version rp = map_option ls_version ls"
  shows "governed_builder_loop_state E s now (Some rp) = Inr ls"
  using assms by (auto simp: governed_builder_loop_state_def Let_def split: if_splits)

section \<open>A live step replays\<close>

text \<open>The mutation a replay applies: the same one, with references to earlier records re-targeted.\<close>

definition retarget :: "run \<Rightarrow> mutation \<Rightarrow> mutation" where
  "retarget p m =
     (case m of
        RecordVerification v \<Rightarrow> RecordVerification (v\<lparr>vi_claim_id := cl_id (last (claims p))\<rparr>)
      | RecordSupervisorVerdict v \<Rightarrow>
          RecordSupervisorVerdict (v\<lparr>svi_verification_id := vf_id (last (verifications p))\<rparr>)
      | RecordOperatorDecision d \<Rightarrow>
          RecordOperatorDecision (d\<lparr>di_verdict_id := sv_id (last (supervisor_verdicts p))\<rparr>)
      | MarkRuntimeExited a reason k \<Rightarrow> MarkRuntimeExited a (Some (exit_detail reason)) k
      | _ \<Rightarrow> m)"

definition replays_in :: "run \<Rightarrow> mutation_context \<Rightarrow> mutation_context \<Rightarrow> mutation \<Rightarrow> run \<Rightarrow> bool" where
  "replays_in p ctx ctx' m u \<longleftrightarrow> mc_now ctx' = mc_now ctx \<and> mc_is_replay ctx' \<and>
     (\<forall>d. m = RecordOperatorDecision d \<longrightarrow> mc_auth ctx' = mc_auth ctx) \<and>
     (\<forall>c. m = SubmitClaim c \<longrightarrow> (\<exists>rp. mc_replay_claim ctx' = Some rp \<and>
        rp_version rp = cl_loop_version (last (claims u))))"

lemma runtime_exited_text: "text_ok (lit ''runtime exited'') MAX_REASON_BYTES"
  by (simp add: text_ok_def lit_def trim_def is_whitespace_def byte_len_def utf8_def utf8_char_def
      MAX_REASON_BYTES_def)

lemma exit_detail_text:
  "pred_option (\<lambda>r. text_ok r MAX_REASON_BYTES) reason \<Longrightarrow> text_ok (exit_detail reason) MAX_REASON_BYTES"
  by (cases reason) (simp_all add: exit_detail_def runtime_exited_text)

definition same_last_kind :: "run \<Rightarrow> run \<Rightarrow> bool" where
  "same_last_kind u q \<longleftrightarrow> events q \<noteq> [] \<and> ev_kind (last (events q)) = ev_kind (last (events u))"

lemma sim_push:
  assumes "sim u q" "ev_kind e = ev_kind f"
  shows "sim (push_event e u) (push_event f q)" "same_last_kind (push_event e u) (push_event f q)"
  using assms by (simp_all add: sim_def push_event_def same_last_kind_def task_core.truncate_def)

lemma sim_updates:
  assumes "sim s p"
  shows "blank_staged a = blank_staged b \<Longrightarrow>
      sim (s\<lparr>staged_worktree := Some b\<rparr>) (p\<lparr>staged_worktree := Some a\<rparr>)"
    "blank_promotion x = blank_promotion y \<Longrightarrow>
      sim (s\<lparr>promotions := promotions s @ [y]\<rparr>) (p\<lparr>promotions := promotions p @ [x]\<rparr>)"
    "sim (s\<lparr>execution_state := k\<rparr>) (p\<lparr>execution_state := k\<rparr>)"
    "sim (s\<lparr>execution_state := k, exit_kind := e\<rparr>) (p\<lparr>execution_state := k, exit_kind := e\<rparr>)"
    "blank_claim c = blank_claim d \<Longrightarrow>
      sim (s\<lparr>claims := claims s @ [d], review_state := r\<rparr>) (p\<lparr>claims := claims p @ [c], review_state := r\<rparr>)"
    "blank_verification v = blank_verification w \<Longrightarrow>
      sim (s\<lparr>verifications := verifications s @ [w], review_state := r\<rparr>)
          (p\<lparr>verifications := verifications p @ [v], review_state := r\<rparr>)"
    "blank_verdict i = blank_verdict j \<Longrightarrow>
      sim (s\<lparr>supervisor_verdicts := supervisor_verdicts s @ [j], review_state := r\<rparr>)
          (p\<lparr>supervisor_verdicts := supervisor_verdicts p @ [i], review_state := r\<rparr>)"
    "blank_decision m = blank_decision n \<Longrightarrow>
      sim (s\<lparr>operator_decisions := operator_decisions s @ [n], review_state := r\<rparr>)
          (p\<lparr>operator_decisions := operator_decisions p @ [m], review_state := r\<rparr>)"
  using assms by (simp_all add: sim_def task_core.truncate_def)

lemma replay_claim_step:
  assumes sim: "sim s p" and rev: "revision p = revision s"
    and adm: "claim_admissible s c ctx" and r: "replays_in p ctx ctx' (SubmitClaim c) u"
    and ls: "governed_builder_loop_state E s (mc_now ctx) None = Inr ls"
    and u: "last (claims u) = claim_record_of s c ls ctx"
  shows "claim_admissible p c ctx'"
    "governed_builder_loop_state E p (mc_now ctx') (mc_replay_claim ctx') = Inr ls"
    "blank_claim (claim_record_of p c ls ctx') = blank_claim (claim_record_of s c ls ctx)"
proof -
  show "claim_admissible p c ctx'"
    using adm sim_fields [OF sim] r by (auto simp: claim_admissible_def replays_in_def)
  obtain rp where "mc_replay_claim ctx' = Some rp" "rp_version rp = map_option ls_version ls"
    using r u by (auto simp: replays_in_def claim_record_of_def)
  with ls r show "governed_builder_loop_state E p (mc_now ctx') (mc_replay_claim ctx') = Inr ls"
    by (simp add: sim_loop_state [OF sim] replays_in_def loop_state_replays)
  show "blank_claim (claim_record_of p c ls ctx') = blank_claim (claim_record_of s c ls ctx)"
    using rev r by (simp add: blank_claim_def claim_record_of_def replays_in_def)
qed

lemma sim_transition:
  assumes "transition E ctx n s m u" and "sim s p" "revision p = revision s" "live ctx"
    and "replays_in p ctx ctx' m u"
  shows "\<exists>q. transition E ctx' n p (retarget p m) q \<and> sim u q \<and> same_last_kind u q"
  using assms
proof (induction rule: transition.induct)
  case (claim_tripped t c ls trip)
  have rp: "replays_in p ctx ctx' (SubmitClaim c) (t\<lparr>claims := claims t @ [claim_record_of t c (Some ls) ctx]\<rparr>)"
    using claim_tripped.prems(4) by (simp add: replays_in_def push_event_def)
  note step = replay_claim_step [OF claim_tripped.prems(1,2) claim_tripped(1) rp, of E "Some ls"]
  have "governed_builder_loop_state E t (mc_now ctx) None = Inr (Some ls)"
    using claim_tripped(2) claim_tripped.prems(3) by (simp add: live_def)
  note step = step [OF this, simplified]
  show ?case
    unfolding retarget_def mutation.case
    using transition.claim_tripped [OF step(1,2) claim_tripped(3)]
    by (auto simp: new_event_def step(3) intro!: exI conjI sim_push sim_updates [OF claim_tripped.prems(1)])
next
  case (claim_submitted t c ls)
  have rp: "replays_in p ctx ctx' (SubmitClaim c) (t\<lparr>claims := claims t @ [claim_record_of t c ls ctx]\<rparr>)"
    using claim_submitted.prems(4) by (simp add: replays_in_def push_event_def)
  note step = replay_claim_step [OF claim_submitted.prems(1,2) claim_submitted(1) rp, of E ls]
  have "governed_builder_loop_state E t (mc_now ctx) None = Inr ls"
    using claim_submitted(2) claim_submitted.prems(3) by (simp add: live_def)
  note step = step [OF this, simplified]
  show ?case
    unfolding retarget_def mutation.case
    using transition.claim_submitted [OF step(1,2) claim_submitted(3)]
    by (auto simp: new_event_def step(3) intro!: exI conjI sim_push sim_updates [OF claim_submitted.prems(1)])
next
  case (materialize s t rid)
  note f = sim_fields [OF materialize.prems(1)]
  from materialize show ?case
    by (auto simp: retarget_def transition_materialize_iff f staged_root_ok_def sim_staged_None
        new_event_def blank_staged_def replays_in_def intro!: sim_push sim_updates)
next
  case (discard a reason t s)
  then obtain b where b: "staged_worktree p = Some b" "blank_staged b = blank_staged s"
    by (auto simp: sim_def)
  with discard have "st_status b = Active" by (auto dest!: blank_projections(5))
  moreover have "blank_staged (b\<lparr>st_status := Discarded\<rparr>) = blank_staged (s\<lparr>st_status := Discarded\<rparr>)"
    using b(2) by (cases b; cases s) (simp add: blank_staged_def)
  ultimately show ?case using discard b
    by (auto simp: retarget_def transition_discard_iff sim_discardable new_event_def
        intro!: sim_push sim_updates)
next
  case (promote t p' s c rid)
  note f = sim_fields [OF promote.prems(1)]
  obtain b where b: "active_staged_worktree p = Some b" "st_initial b = st_initial s"
    using sim_active [OF promote.prems(1) promote(3)] by metis
  obtain d where d: "latest_claim p = Some d" "cl_subject d = cl_subject c"
    using sim_claim [OF promote.prems(1) promote(5)] by metis
  from promote b d show ?case
    by (auto simp: retarget_def transition_promote_iff sim_preconditions new_event_def
        blank_promotion_def replays_in_def simp del: active_staged_Some intro!: sim_push sim_updates)
next
  case (takeover a reason t)
  note f = sim_fields [OF takeover.prems(1)]
  from takeover sim_active_None [OF takeover.prems(1)] show ?case
    by (simp add: retarget_def transition_takeover_iff f replays_in_def new_event_def sim_push
        del: active_staged_Some not_None_eq) (metis not_None_eq)
next
  case (start_running a t)
  note f = sim_fields [OF start_running.prems(1)]
  from start_running show ?case
    by (auto simp: retarget_def transition_running_iff f replays_in_def new_event_def
        intro!: sim_push sim_updates)
next
  case (launch_failed a reason t)
  note f = sim_fields [OF launch_failed.prems(1)]
  from launch_failed show ?case
    by (auto simp: retarget_def transition_launch_failed_iff f new_event_def
        intro!: sim_push sim_updates)
next
  case (runtime_exited a t reason kind)
  note f = sim_fields [OF runtime_exited.prems(1)]
  from runtime_exited show ?case
    by (auto simp: retarget_def transition_exited_iff f new_event_def exit_detail_text
        intro!: sim_push sim_updates)
next
  case (verification t v c rid)
  note f = sim_fields [OF verification.prems(1)]
  obtain d where d: "latest_claim p = Some d" "cl_subject d = cl_subject c"
    using sim_claim [OF verification.prems(1) verification(4)] by metis
  have "verification_ok (v\<lparr>vi_claim_id := x\<rparr>) = verification_ok v" for x
    by (simp add: verification_ok_def)
  with verification d show ?case
    by (auto simp: retarget_def transition_verification_iff f latest_claim_def new_event_def
        blank_verification_def replays_in_def intro!: sim_push sim_updates)
next
  case (verdict t v f rid)
  note ff = sim_fields [OF verdict.prems(1)]
  obtain w where w: "latest_verification p = Some w" "vf_outcome w = vf_outcome f"
    using sim_verification [OF verdict.prems(1) verdict(5)] by metis
  with verdict show ?case
    by (auto simp: retarget_def transition_verdict_iff ff latest_verification_def new_event_def
        blank_verdict_def replays_in_def intro!: sim_push sim_updates)
next
  case (decision t d s rid)
  note f = sim_fields [OF decision.prems(1)]
  obtain w where w: "latest_supervisor_verdict p = Some w" "sv_verdict w = sv_verdict s"
    using sim_verdict [OF decision.prems(1) decision(5)] by metis
  with decision show ?case
    by (auto simp: retarget_def transition_decision_iff f latest_supervisor_verdict_def new_event_def
        blank_decision_def replays_in_def intro!: sim_push sim_updates)
next
  case (note_interrupted a reason t)
  then show ?case
    by (auto simp: retarget_def transition_note_iff new_event_def intro!: sim_push)
qed

section \<open>A run and its later states\<close>

definition all_ids :: "run \<Rightarrow> rstr list" where
  "all_ids t = map ev_id (events t) @ map cl_id (claims t) @ map vf_id (verifications t) @
     map sv_id (supervisor_verdicts t) @ map od_id (operator_decisions t) @ map pr_id (promotions t) @
     (case staged_worktree t of None \<Rightarrow> [] | Some s \<Rightarrow> [st_id s])"

text \<open>\<open>extended_by s t\<close>: the run \<open>t\<close> is a later state of \<open>s\<close>.  Logs only grew, a materialized worktree
  changed at most its status, and a recorded exit kept its kind.\<close>

definition same_staged :: "staged_record option \<Rightarrow> staged_record option \<Rightarrow> bool" where
  "same_staged a b \<longleftrightarrow> a \<noteq> None \<longrightarrow>
     map_option (\<lambda>x. x\<lparr>st_status := Active\<rparr>) b = map_option (\<lambda>x. x\<lparr>st_status := Active\<rparr>) a"

definition extended_by :: "run \<Rightarrow> run \<Rightarrow> bool" where
  "extended_by s t \<longleftrightarrow> prefix (events s) (events t) \<and> prefix (claims s) (claims t) \<and>
     prefix (verifications s) (verifications t) \<and>
     prefix (supervisor_verdicts s) (supervisor_verdicts t) \<and>
     prefix (operator_decisions s) (operator_decisions t) \<and> prefix (promotions s) (promotions t) \<and>
     task_core.truncate t = task_core.truncate s \<and> run_id t = run_id s \<and>
     created_at t = created_at s \<and> same_staged (staged_worktree s) (staged_worktree t) \<and>
     (execution_state s = RuntimeExited \<longrightarrow>
        execution_state t = RuntimeExited \<and> exit_kind t = exit_kind s)"

lemma same_stagedE:
  assumes "same_staged (Some a) b"
  obtains r where "b = Some r" "st_id r = st_id a" "st_actor r = st_actor a" "st_root r = st_root a"
    "st_initial r = st_initial a" "st_pin r = st_pin a" "st_materialized_at r = st_materialized_at a"
    "st_based_on r = st_based_on a"
proof -
  from assms obtain r where r: "b = Some r" "r\<lparr>st_status := Active\<rparr> = a\<lparr>st_status := Active\<rparr>"
    by (auto simp: same_staged_def)
  show thesis by (rule that [OF r(1)]; cases r; cases a; use r(2) in simp)
qed

lemma same_staged_trans: "same_staged a b \<Longrightarrow> same_staged b c \<Longrightarrow> same_staged a c"
  by (cases a; cases b; cases c) (auto simp: same_staged_def)

lemma extended_refl: "extended_by t t"
  by (simp add: extended_by_def same_staged_def)

lemma extended_trans: "extended_by a b \<Longrightarrow> extended_by b c \<Longrightarrow> extended_by a c"
  unfolding extended_by_def
  by (auto intro: prefix_order.trans same_staged_trans)

lemma transition_extends: "transition E ctx n s m u \<Longrightarrow> extended_by s u"
  by (induction rule: transition.induct)
    (auto simp: extended_by_def push_event_def same_staged_def task_core.truncate_def claim_admissible_def)

lemma settle_extended [simp]: "extended_by (settle s now u) t = extended_by u t"
  "extended_by s (settle t now u) = extended_by s u"
  by (simp_all add: extended_by_def)

lemma run_step_extends: "run_step E s op = Inr t \<Longrightarrow> extended_by s t"
  by (auto elim!: run_stepE dest: transition_extends)

lemma settle_ids [simp]: "all_ids (settle s now u) = all_ids u"
  by (simp add: all_ids_def)

lemma extended_distinct:
  assumes "extended_by s t" "distinct (all_ids t)"
  shows "distinct (all_ids s)"
proof -
  have "subseq (case staged_worktree s of None \<Rightarrow> [] | Some x \<Rightarrow> [st_id x])
      (case staged_worktree t of None \<Rightarrow> [] | Some x \<Rightarrow> [st_id x])"
    using assms(1)
    by (cases "staged_worktree s") (auto simp: extended_by_def elim: same_stagedE)
  then have "subseq (all_ids s) (all_ids t)"
    using assms(1) unfolding all_ids_def extended_by_def
    by (intro list_emb_append_mono) (auto intro!: prefix_imp_subseq map_mono_prefix)
  with assms(2) show ?thesis by (metis subseq_conv_nths distinct_nthsI)
qed

section \<open>Reconstructing the mutation of an event\<close>

lemma get_opt_prefix: "prefix (xs @ [x]) ys \<Longrightarrow> get_opt ys (length xs) = Some x"
  by (auto simp: get_opt_def prefix_def nth_append)

lemma get_opt_last: "prefix xs ys \<Longrightarrow> xs \<noteq> [] \<Longrightarrow> get_opt ys (length xs - Suc 0) = Some (last xs)"
  using get_opt_prefix [of "butlast xs" "last xs" ys] by simp

lemma record_link_ok:
  assumes "Suc n \<le> u64_max" "ev_revision e = Suc n" "actor = ev_actor e" "parse_rfc3339 E ts \<noteq> None"
    "rid \<notin> set seen"
  shows "validate_record_link E rid actor n ts e seen = Inr (rid # seen)"
  using assms by (simp add: validate_record_link_def bail_unless_def require_rfc3339_def insert_seen_def)

definition indexed :: "run \<Rightarrow> replay_state \<Rightarrow> bool" where
  "indexed s rs \<longleftrightarrow> rs_claim rs = length (claims s) \<and> rs_verification rs = length (verifications s) \<and>
     rs_supervisor rs = length (supervisor_verdicts s) \<and>
     rs_operator rs = length (operator_decisions s) \<and> rs_promotion rs = length (promotions s) \<and>
     (staged_worktree s \<noteq> None \<longrightarrow> rs_staged rs \<noteq> 0)"

text \<open>What a successful reconstruction delivers to the rest of the replay step.\<close>

definition rebuilds ::
    "env \<Rightarrow> run \<Rightarrow> run \<Rightarrow> mutation \<Rightarrow> mutation_context \<Rightarrow> replay_state \<Rightarrow> bool" where
  "rebuilds E t u m ctx rs \<longleftrightarrow> (\<exists>rs2 m' auth.
     reconstruct E t (last (events u)) rs = Inr (rs2, retarget (rs_projection rs) m, m', auth) \<and>
     canonical_mutation m' = canonical_mutation m \<and>
     (\<forall>d. m = RecordOperatorDecision d \<longrightarrow> auth = mc_auth ctx) \<and>
     rs_projection rs2 = rs_projection rs \<and> rs_fingerprints rs2 = rs_fingerprints rs \<and>
     indexed u rs2 \<and> set (rs_seen rs2) = set (all_ids u))"

lemma fresh_by_length:
  assumes "distinct ys" "set ys = insert a (set xs)" "length xs < length ys"
  shows "a \<notin> set xs"
proof
  assume "a \<in> set xs"
  then have "length ys = card (set xs)" using assms(1,2) by (metis distinct_card insert_absorb)
  with assms(3) show False using card_length [of xs] by simp
qed

lemma record_fresh:
  assumes "distinct (all_ids u)" "set (rs_seen rs) = insert eid (set (all_ids s))"
    "set (all_ids u) = insert rid (insert eid (set (all_ids s)))"
    "length (all_ids u) = Suc (Suc (length (all_ids s)))"
  shows "rid \<notin> set (rs_seen rs)" "set (rid # rs_seen rs) = set (all_ids u)"
  using fresh_by_length [of "all_ids u" rid "eid # all_ids s"] assms by simp_all

lemma input_etas [simp]:
  "\<lparr>ci_actor = ci_actor c, ci_summary = ci_summary c, ci_subject = ci_subject c,
     ci_artifacts = ci_artifacts c, ci_diff_ref = ci_diff_ref c\<rparr> = c"
  "\<lparr>si_actor = si_actor s, si_root = si_root s, si_initial = si_initial s, si_pin = si_pin s\<rparr> = s"
  "\<lparr>pi_actor = pi_actor p, pi_accepted = pi_accepted p, pi_initial = pi_initial p,
     pi_outcome = pi_outcome p\<rparr> = p"
  "\<lparr>vi_actor = vi_actor v, vi_claim_id = vi_claim_id v, vi_subject = vi_subject v,
     vi_policy = vi_policy v, vi_outcome = vi_outcome v, vi_commands = vi_commands v,
     vi_artifacts = vi_artifacts v, vi_notes = vi_notes v\<rparr> = v"
  "\<lparr>svi_actor = svi_actor w, svi_verification_id = svi_verification_id w,
     svi_verdict = svi_verdict w, svi_rationale = svi_rationale w\<rparr> = w"
  "\<lparr>di_actor = di_actor d, di_verdict_id = di_verdict_id d, di_decision = di_decision d,
     di_rationale = di_rationale d\<rparr> = d"
  by simp_all

lemma retargeted_etas:
  "\<lparr>vi_actor = vi_actor v, vi_claim_id = x, vi_subject = vi_subject v, vi_policy = vi_policy v,
     vi_outcome = vi_outcome v, vi_commands = vi_commands v, vi_artifacts = vi_artifacts v,
     vi_notes = vi_notes v\<rparr> = v\<lparr>vi_claim_id := x\<rparr>"
  "\<lparr>svi_actor = svi_actor w, svi_verification_id = x, svi_verdict = svi_verdict w,
     svi_rationale = svi_rationale w\<rparr> = w\<lparr>svi_verification_id := x\<rparr>"
  "\<lparr>di_actor = di_actor d, di_verdict_id = x, di_decision = di_decision d,
     di_rationale = di_rationale d\<rparr> = d\<lparr>di_verdict_id := x\<rparr>"
  by (cases v, simp) (cases w, simp, cases d, simp)

lemma reconstruct_claim_ok:
  assumes "get_opt (claims t) (rs_claim rs) = Some c" "Suc (cl_based_on c) \<le> u64_max"
    "ev_revision e = Suc (cl_based_on c)" "cl_actor c = ev_actor e"
    "parse_rfc3339 E (cl_submitted_at c) \<noteq> None" "cl_id c \<notin> set (rs_seen rs)"
  shows "reconstruct_claim E t e rs =
    Inr (plain (rs\<lparr>rs_seen := cl_id c # rs_seen rs, rs_claim := rs_claim rs + 1\<rparr>)
       (SubmitClaim \<lparr>ci_actor = cl_actor c, ci_summary = cl_summary c, ci_subject = cl_subject c,
          ci_artifacts = cl_artifacts c, ci_diff_ref = cl_diff_ref c\<rparr>))"
  using assms by (simp add: reconstruct_claim_def record_link_ok ok_or_def)

lemma rebuilds_claim:
  assumes c: "claims u = claims s @ [claim_record_of s c ls ctx]" and ext: "extended_by u t"
    and e: "ev_revision (last (events u)) = Suc (revision s)" "ev_actor (last (events u)) = ci_actor c"
      "events u = events s @ [last (events u)]"
      "ev_kind (last (events u)) = EvClaimSubmitted \<or> ev_kind (last (events u)) = EvLoopTripped"
    and same: "verifications u = verifications s" "supervisor_verdicts u = supervisor_verdicts s"
      "operator_decisions u = operator_decisions s" "promotions u = promotions s"
      "staged_worktree u = staged_worktree s"
    and bound: "Suc (revision s) \<le> u64_max" and now: "parse_rfc3339 E (mc_now ctx) \<noteq> None"
    and ids: "distinct (all_ids u)" "set (rs_seen rs) = insert (ev_id (last (events u))) (set (all_ids s))"
    and idx: "indexed s rs"
  shows "rebuilds E t u (SubmitClaim c) ctx rs"
proof -
  let ?c = "claim_record_of s c ls ctx"
  have "get_opt (claims t) (rs_claim rs) = Some ?c"
    using ext idx by (auto simp: extended_by_def indexed_def c intro: get_opt_prefix)
  moreover have "all_ids u = map ev_id (events s @ [last (events u)]) @ map cl_id (claims s @ [?c]) @
      map vf_id (verifications s) @ map sv_id (supervisor_verdicts s) @
      map od_id (operator_decisions s) @ map pr_id (promotions s) @
      (case staged_worktree s of None \<Rightarrow> [] | Some s \<Rightarrow> [st_id s])"
    using e(3) by (simp add: all_ids_def c same)
  then have "set (all_ids u) = insert (cl_id ?c) (insert (ev_id (last (events u))) (set (all_ids s)))"
    "length (all_ids u) = Suc (Suc (length (all_ids s)))"
    by (auto simp: all_ids_def)
  note fresh = record_fresh [OF ids this]
  ultimately have "reconstruct_claim E t (last (events u)) rs =
    Inr (plain (rs\<lparr>rs_seen := cl_id ?c # rs_seen rs, rs_claim := rs_claim rs + 1\<rparr>) (SubmitClaim c))"
    using reconstruct_claim_ok [of t rs ?c "last (events u)" E] bound now
    by (simp add: claim_record_of_def e(1,2))
  then have "reconstruct E t (last (events u)) rs =
    Inr (plain (rs\<lparr>rs_seen := cl_id ?c # rs_seen rs, rs_claim := rs_claim rs + 1\<rparr>) (SubmitClaim c))"
    using e(4) by (auto simp: reconstruct_def)
  then show ?thesis
    using idx fresh(2)
    by (simp add: rebuilds_def plain_def retarget_def indexed_def c same)
qed

lemma reconstruct_step:
  assumes "transition E ctx n s m u" "n = Suc (revision s)" "n \<le> u64_max"
    "parse_rfc3339 E (mc_now ctx) \<noteq> None" "extended_by u t" "distinct (all_ids u)" "indexed s rs"
    "set (rs_seen rs) = insert (ev_id (last (events u))) (set (all_ids s))" "sim s (rs_projection rs)"
  shows "rebuilds E t u m ctx rs"
  using assms
  supply push = push_event_def new_event_def
    and rebuild = rebuilds_def reconstruct_def plain_def retarget_def indexed_def
proof (induction rule: transition.induct)
  case (claim_submitted s c ls)
  then show ?case by (intro rebuilds_claim [where s = s and ls = ls]) (simp_all add: push_event_def new_event_def)
next
  case (claim_tripped s c ls trip)
  then show ?case by (intro rebuilds_claim [where s = s and ls = "Some ls"]) (simp_all add: push_event_def new_event_def)
next
  case (materialize i s rid)
  let ?u = "push_event (new_event ctx n EvStagedWorktreeMaterialized (si_actor i)
          (lit ''staged worktree '' @ rid @ lit '' materialized''))
        (s\<lparr>staged_worktree := Some
           \<lparr>st_id = rid, st_actor = si_actor i, st_root = si_root i, st_initial = si_initial i,
            st_pin = si_pin i, st_status = Active, st_materialized_at = mc_now ctx,
            st_based_on = revision s\<rparr>\<rparr>)"
  have "set (all_ids ?u) = insert rid (insert (ev_id (last (events ?u))) (set (all_ids s)))"
    "length (all_ids ?u) = Suc (Suc (length (all_ids s)))"
    using materialize(3) by (auto simp: all_ids_def push_event_def)
  note fresh = record_fresh [OF materialize.prems(5) materialize.prems(7) this]
  obtain r where r: "staged_worktree t = Some r" "st_id r = rid" "st_actor r = si_actor i"
    "st_root r = si_root i" "st_initial r = si_initial i" "st_pin r = si_pin i"
    "st_materialized_at r = mc_now ctx" "st_based_on r = revision s"
    using materialize.prems(4) by (auto simp: extended_by_def push_event_def elim: same_stagedE)
  with materialize.prems(2,3) fresh(1)
  have "reconstruct_staged E t (last (events ?u)) rs =
      Inr (plain (rs\<lparr>rs_seen := rid # rs_seen rs, rs_staged := rs_staged rs + 1\<rparr>)
        (MaterializeStagedWorktree i))"
    by (simp add: reconstruct_staged_def r record_link_ok ok_or_def push materialize.prems(1))
  with fresh(2) materialize.prems(6) show ?case
    by (simp add: rebuild push all_ids_def)
next
  case (promote s p w c rid)
  let ?r = "\<lparr>pr_id = rid, pr_actor = pi_actor p, pr_accepted = pi_accepted p,
             pr_initial = pi_initial p, pr_outcome = pi_outcome p, pr_recorded_at = mc_now ctx,
             pr_based_on = revision s\<rparr>"
  let ?u = "push_event (new_event ctx n EvPromotionRecorded (pi_actor p)
          (lit ''promotion '' @ rid @ lit '' recorded as '' @ promotion_summary (pi_outcome p)))
        (s\<lparr>promotions := promotions s @ [?r]\<rparr>)"
  have "set (all_ids ?u) = insert rid (insert (ev_id (last (events ?u))) (set (all_ids s)))"
    "length (all_ids ?u) = Suc (Suc (length (all_ids s)))"
    by (auto simp: all_ids_def push_event_def)
  note fresh = record_fresh [OF promote.prems(5) promote.prems(7) this]
  have "get_opt (promotions t) (rs_promotion rs) = Some ?r"
    using promote.prems(4,6) by (auto simp: extended_by_def indexed_def push_event_def intro: get_opt_prefix)
  with promote.prems(2,3) fresh(1)
  have "reconstruct_promotion E t (last (events ?u)) rs =
      Inr (plain (rs\<lparr>rs_seen := rid # rs_seen rs, rs_promotion := rs_promotion rs + 1\<rparr>)
        (RecordPromotion p))"
    by (simp add: reconstruct_promotion_def record_link_ok ok_or_def push promote.prems(1))
  with fresh(2) promote.prems(6) show ?case
    by (simp add: rebuild push all_ids_def)
next
  case (verification s v c rid)
  let ?r = "\<lparr>vf_id = rid, vf_actor = vi_actor v, vf_claim_id = vi_claim_id v,
               vf_subject = vi_subject v, vf_policy = vi_policy v, vf_outcome = vi_outcome v,
               vf_commands = vi_commands v, vf_artifacts = vi_artifacts v, vf_notes = vi_notes v,
               vf_recorded_at = mc_now ctx, vf_based_on = revision s\<rparr>"
  let ?u = "push_event (new_event ctx n EvVerificationRecorded (vi_actor v)
          (lit ''verification '' @ rid @ lit '' recorded as '' @ outcome_str (vi_outcome v)))
        (s\<lparr>verifications := verifications s @ [?r], review_state := (if vi_outcome v = Passed then AwaitingSupervisor
                            else VerificationFailed)\<rparr>)"
  have "set (all_ids ?u) = insert rid (insert (ev_id (last (events ?u))) (set (all_ids s)))"
    "length (all_ids ?u) = Suc (Suc (length (all_ids s)))"
    by (auto simp: all_ids_def push_event_def)
  note fresh = record_fresh [OF verification.prems(5) verification.prems(7) this]
  have "get_opt (verifications t) (rs_verification rs) = Some ?r"
    using verification.prems(4,6)
    by (auto simp: extended_by_def indexed_def push_event_def intro: get_opt_prefix)
  moreover have "get_opt (claims t) (rs_claim rs - Suc 0) = Some c"
    using verification.prems(4,6) verification(4) get_opt_last [of "claims s" "claims t"]
    by (auto simp: extended_by_def indexed_def push_event_def latest_defs)
  moreover have "latest_claim (rs_projection rs) = Some (last (claims (rs_projection rs)))"
    using sim_claim [OF verification.prems(8) verification(4)] by (metis latest_claim_def last_opt_Some)
  ultimately have "reconstruct_verification E t (last (events ?u)) rs =
      Inr (rs\<lparr>rs_seen := rid # rs_seen rs, rs_verification := rs_verification rs + 1\<rparr>,
        retarget (rs_projection rs) (RecordVerification v), RecordVerification v, Declared)"
    using verification.prems(2,3) fresh(1) verification(5)
    by (auto simp: reconstruct_verification_def record_link_ok ok_or_def push verification.prems(1)
        bail_unless_def retarget_def retargeted_etas Let_def)
  with fresh(2) verification.prems(6) show ?case
    by (simp add: rebuild push all_ids_def)
next
  case (verdict s v f rid)
  let ?r = "\<lparr>sv_id = rid, sv_actor = svi_actor v, sv_verification_id = svi_verification_id v,
               sv_verdict = svi_verdict v, sv_rationale = svi_rationale v,
               sv_decided_at = mc_now ctx, sv_based_on = revision s\<rparr>"
  let ?u = "push_event (new_event ctx n EvSupervisorVerdictRecorded (svi_actor v)
          (lit ''supervisor verdict '' @ rid @ lit '' recorded as '' @ verdict_str (svi_verdict v)))
        (s\<lparr>supervisor_verdicts := supervisor_verdicts s @ [?r],
           review_state := review_after_verdict (svi_verdict v)\<rparr>)"
  have "set (all_ids ?u) = insert rid (insert (ev_id (last (events ?u))) (set (all_ids s)))"
    "length (all_ids ?u) = Suc (Suc (length (all_ids s)))"
    by (auto simp: all_ids_def push_event_def)
  note fresh = record_fresh [OF verdict.prems(5) verdict.prems(7) this]
  have "get_opt (supervisor_verdicts t) (rs_supervisor rs) = Some ?r"
    using verdict.prems(4,6)
    by (auto simp: extended_by_def indexed_def push_event_def intro: get_opt_prefix)
  moreover have "get_opt (verifications t) (rs_verification rs - Suc 0) = Some f"
    using verdict.prems(4,6) verdict(5) get_opt_last [of "verifications s" "verifications t"]
    by (auto simp: extended_by_def indexed_def push_event_def latest_defs)
  moreover have "latest_verification (rs_projection rs) = Some (last (verifications (rs_projection rs)))"
    using sim_verification [OF verdict.prems(8) verdict(5)] by (metis latest_verification_def last_opt_Some)
  ultimately have "reconstruct_verdict E t (last (events ?u)) rs =
      Inr (rs\<lparr>rs_seen := rid # rs_seen rs, rs_supervisor := rs_supervisor rs + 1\<rparr>,
        retarget (rs_projection rs) (RecordSupervisorVerdict v), RecordSupervisorVerdict v, Declared)"
    using verdict.prems(2,3) fresh(1) verdict(6)
    by (auto simp: reconstruct_verdict_def record_link_ok ok_or_def push verdict.prems(1)
        bail_unless_def retarget_def retargeted_etas Let_def)
  with fresh(2) verdict.prems(6) show ?case
    by (simp add: rebuild push all_ids_def)
next
  case (decision s d v rid)
  let ?r = "\<lparr>od_id = rid, od_actor = di_actor d, od_verdict_id = di_verdict_id d,
               od_decision = di_decision d, od_rationale = di_rationale d,
               od_decided_at = mc_now ctx, od_based_on = revision s,
               od_authentication = mc_auth ctx\<rparr>"
  let ?u = "push_event (new_event ctx n EvOperatorDecisionRecorded (di_actor d)
          (lit ''operator decision '' @ rid @ lit '' recorded as '' @ decision_str (di_decision d)))
        (s\<lparr>operator_decisions := operator_decisions s @ [?r],
           review_state := review_after_decision (di_decision d)\<rparr>)"
  have "set (all_ids ?u) = insert rid (insert (ev_id (last (events ?u))) (set (all_ids s)))"
    "length (all_ids ?u) = Suc (Suc (length (all_ids s)))"
    by (auto simp: all_ids_def push_event_def)
  note fresh = record_fresh [OF decision.prems(5) decision.prems(7) this]
  have "get_opt (operator_decisions t) (rs_operator rs) = Some ?r"
    using decision.prems(4,6)
    by (auto simp: extended_by_def indexed_def push_event_def intro: get_opt_prefix)
  moreover have "get_opt (supervisor_verdicts t) (rs_supervisor rs - Suc 0) = Some v"
    using decision.prems(4,6) decision(5) get_opt_last [of "supervisor_verdicts s" "supervisor_verdicts t"]
    by (auto simp: extended_by_def indexed_def push_event_def latest_defs)
  moreover have "latest_supervisor_verdict (rs_projection rs) = Some (last (supervisor_verdicts (rs_projection rs)))"
    using sim_verdict [OF decision.prems(8) decision(5)] by (metis latest_supervisor_verdict_def last_opt_Some)
  ultimately have "reconstruct_decision E t (last (events ?u)) rs =
      Inr (rs\<lparr>rs_seen := rid # rs_seen rs, rs_operator := rs_operator rs + 1\<rparr>,
        retarget (rs_projection rs) (RecordOperatorDecision d), RecordOperatorDecision d, mc_auth ctx)"
    using decision.prems(2,3) fresh(1) decision(6)
    by (auto simp: reconstruct_decision_def record_link_ok ok_or_def push decision.prems(1)
        bail_unless_def retarget_def retargeted_etas Let_def)
  with fresh(2) decision.prems(6) show ?case
    by (simp add: rebuild push all_ids_def)
next
  case (discard a reason s w)
  then show ?case
    by (auto simp: rebuild push all_ids_def extended_by_def same_staged_def)
next
  case (takeover a reason s)
  then show ?case
    by (simp add: rebuild push all_ids_def)
next
  case (start_running a s)
  then show ?case
    by (simp add: rebuild push all_ids_def)
next
  case (launch_failed a reason s)
  then show ?case
    by (simp add: rebuild push all_ids_def)
next
  case (runtime_exited a s reason kind)
  then show ?case
    by (auto simp: rebuild push all_ids_def extended_by_def canonical_mutation_def exit_detail_def split: option.splits)
next
  case (note_interrupted a reason s)
  then show ?case
    by (simp add: rebuild push all_ids_def)
qed

end
