(* ===== verification/Governed_Reload.thy ===== *)
theory Governed_Reload
  imports Governed_Replay
begin

text \<open>
  Loading what was written: the replay of \<open>validate_task_history\<close> succeeds on every run a live
  ledger can hold, and the fingerprints it returns are those of the accepted requests.
\<close>

section \<open>Fresh identifiers\<close>

lemma extended_sets:
  assumes "extended_by s u"
  shows "set (all_ids s) \<subseteq> set (all_ids u)"
proof -
  have "set (case staged_worktree s of None \<Rightarrow> [] | Some x \<Rightarrow> [st_id x]) \<subseteq>
      set (case staged_worktree u of None \<Rightarrow> [] | Some x \<Rightarrow> [st_id x])"
    using assms by (cases "staged_worktree s") (auto simp: extended_by_def elim: same_stagedE)
  then show ?thesis
    using assms unfolding extended_by_def all_ids_def
    by (auto dest!: set_mono_prefix)
qed

lemma event_id_fresh:
  assumes "extended_by s u" "events u = events s @ [e]" "distinct (all_ids u)"
  shows "ev_id e \<notin> set (all_ids s)"
proof -
  have ext: "extended_by s (u\<lparr>events := events s\<rparr>)"
    using assms(1) by (simp add: extended_by_def task_core.truncate_def)
  have "ev_id e \<notin> set (all_ids (u\<lparr>events := events s\<rparr>))"
    using assms(2,3) by (simp add: all_ids_def)
  with extended_sets [OF ext] show ?thesis by blast
qed

section \<open>Loop evidence of a live claim\<close>

definition sha256_hex_ok :: "env \<Rightarrow> bool" where
  "sha256_hex_ok E \<longleftrightarrow> (\<forall>payload. byte_len (sha256_hex E payload) = 64 \<and>
     list_all is_ascii_hexdigit (utf8 (sha256_hex E payload)))"

lemma live_loop_evidence:
  assumes "governed_builder_loop_state E s now None = Inr ls" "sha256_hex_ok E"
    and "blank_claim c = blank_claim (claim_record_of s i ls ctx)"
  shows "require_replayed_loop_evidence n (claim_record_of s i ls ctx) c = Inr ()"
proof -
  have c: "cl_loop_digest c = map_option ls_digest ls" "cl_loop_version c = map_option ls_version ls"
    using arg_cong [OF assms(3), of cl_loop_digest] arg_cong [OF assms(3), of cl_loop_version]
    by (simp_all add: blank_claim_def claim_record_of_def)
  have "pred_option (\<lambda>l. sha256_ref (ls_digest l) \<and> ls_version l = current_governed_loop_version) ls"
    using assms(1,2)
    by (auto simp: governed_builder_loop_state_def Let_def governed_loop_report_digest_def sha256_ref_def
        strip_prefix_def sha256_hex_ok_def split: if_splits)
  with c show ?thesis
    by (cases ls) (simp_all add: require_replayed_loop_evidence_def claim_record_of_def bail_unless_def)
qed

lemma claim_step:
  assumes "transition E ctx n s (SubmitClaim c) u" "live ctx"
  obtains ls where "governed_builder_loop_state E s (mc_now ctx) None = Inr ls"
    "claims u = claims s @ [claim_record_of s c ls ctx]" "is_claim_event (last (events u))"
proof -
  have "\<exists>ls. governed_builder_loop_state E s (mc_now ctx) None = Inr ls \<and>
      claims u = claims s @ [claim_record_of s c ls ctx] \<and> is_claim_event (last (events u))"
    using assms
    by (auto simp: transition_claim_iff live_def push_event_def new_event_def is_claim_event_def)
  then show thesis using that by blast
qed

lemma claim_event_iff:
  "transition E ctx n s m u \<Longrightarrow> is_claim_event (last (events u)) \<longleftrightarrow> (\<exists>c. m = SubmitClaim c)"
  by (induction rule: transition.induct)
    (simp_all add: push_event_def new_event_def is_claim_event_def)

section \<open>One event\<close>

definition tracks :: "run \<Rightarrow> replay_state \<Rightarrow> bool" where
  "tracks s rs \<longleftrightarrow> sim s (rs_projection rs) \<and> indexed s rs \<and> set (rs_seen rs) = set (all_ids s) \<and>
     (\<forall>k. bt_contains (rs_fingerprints rs) k \<longrightarrow> k \<le> revision s)"

lemma indexed_settle [simp]: "indexed (settle s now u) rs = indexed u rs"
  by (simp add: indexed_def)

lemma sim_settle [simp]: "sim (settle s now u) p = sim u p" "sim u (p\<lparr>revision := k\<rparr>) = sim u p"
  by (simp add: sim_def) (simp add: sim_def task_core.truncate_def)

lemma indexed_projection [simp]:
  "indexed s (rs\<lparr>rs_projection := p\<rparr>) = indexed s rs" "indexed s (rs\<lparr>rs_fingerprints := f\<rparr>) = indexed s rs"
  "indexed s (rs\<lparr>rs_seen := xs\<rparr>) = indexed s rs"
  by (simp_all add: indexed_def)

lemma latest_claim_stored:
  assumes "claims u = xs @ [c]" "extended_by u t" "indexed u rs"
  shows "get_opt (claims t) (rs_claim rs - Suc 0) = Some c"
  using get_opt_last [of "claims u" "claims t"] assms by (simp add: extended_by_def indexed_def)

text \<open>The loop evidence of the stored claim is what the projection recomputed.\<close>

lemma check_replayed_claim_ok:
  assumes tr: "transition E ctx n s m u" "live ctx" and q: "sim u q"
    and t: "extended_by u t" "indexed u rs" and sha: "sha256_hex_ok E"
  shows "check_replayed_claim t (last (events u)) (rs_claim rs) q = Inr ()"
proof (cases "\<exists>c. m = SubmitClaim c")
  case True
  then obtain c where m: "m = SubmitClaim c" by blast
  obtain ls where ls: "governed_builder_loop_state E s (mc_now ctx) None = Inr ls"
    "claims u = claims s @ [claim_record_of s c ls ctx]"
    using claim_step [OF tr [unfolded m]] by metis
  have "map blank_claim (claims q) = map blank_claim (claims u)" using q by (simp add: sim_def)
  with ls(2) have "claims q \<noteq> []" "blank_claim (last (claims q)) = blank_claim (claim_record_of s c ls ctx)"
    using map_eq_last [of blank_claim "claims u" "claims q"] by (auto simp del: map_append)
  then show ?thesis
    using latest_claim_stored [OF ls(2) t] live_loop_evidence [OF ls(1) sha]
    by (simp add: check_replayed_claim_def latest_claim_def last_opt_def)
next
  case False
  then show ?thesis using claim_event_iff [OF tr(1)] by (simp add: check_replayed_claim_def)
qed

lemma replay_context_ok:
  assumes tr: "transition E ctx n s m u" "live ctx" and t: "extended_by u t" "indexed u rs"
    and auth: "\<forall>d. m = RecordOperatorDecision d \<longrightarrow> auth = mc_auth ctx"
    and now: "ev_created_at (last (events u)) = mc_now ctx"
  shows "replays_in p ctx (replay_context t (last (events u)) (rs_claim rs) auth uuids) m u"
proof -
  have "\<exists>rp. replayed_claim_of t (last (events u)) (rs_claim rs) = Some rp \<and>
      rp_version rp = cl_loop_version (last (claims u))" if m: "m = SubmitClaim c" for c
  proof -
    obtain ls where "claims u = claims s @ [claim_record_of s c ls ctx]" "is_claim_event (last (events u))"
      using claim_step [OF tr [unfolded m]] by metis
    then show ?thesis using latest_claim_stored [OF _ t] by (simp add: replayed_claim_of_def)
  qed
  then show ?thesis using auth now by (simp add: replays_in_def replay_context_def)
qed

lemma transition_last_event:
  assumes "transition E ctx n s m u"
  shows "events u = events s @ [last (events u)]" "ev_revision (last (events u)) = n"
    "ev_created_at (last (events u)) = mc_now ctx"
proof -
  obtain k a d where "events u = events s @ [new_event ctx n k a d]"
    using transition_pushes [OF assms] by metis
  then show "events u = events s @ [last (events u)]" "ev_revision (last (events u)) = n"
    "ev_created_at (last (events u)) = mc_now ctx" by (simp_all add: new_event_def)
qed

text \<open>Everything the replay of one event needs of the live step that wrote it.\<close>

definition written :: "env \<Rightarrow> run \<Rightarrow> live_op \<Rightarrow> run \<Rightarrow> bool" where
  "written E s op u \<longleftrightarrow> transition E (op_context op) (Suc (revision s)) s (lo_mutation op) u \<and>
     run_inv s \<and> counts_bounded s \<and> length (events s) < MAX_GOVERNED_EVENTS \<and>
     parse_rfc3339 E (lo_now op) \<noteq> None \<and> uuid_ok (lo_record_uuid op)"

lemma run_inv_events: "run_inv s \<Longrightarrow> length (events s) = Suc (revision s)"
  by (auto simp: run_inv_def events_contiguous_def dest: arg_cong [where f = length])

lemma written_bound: "written E s op u \<Longrightarrow> Suc (revision s) \<le> u64_max"
  using run_inv_events by (fastforce simp: written_def MAX_GOVERNED_EVENTS_def u64_max_def)

lemma written_detail: "written E s op u \<Longrightarrow> text_ok (ev_detail (last (events u))) MAX_REASON_BYTES"
  unfolding written_def run_inv_def by (auto intro: transition_detail)

lemma replay_step:
  assumes w: "written E s op u" and t: "extended_by u t" "distinct (all_ids t)"
    and tr: "tracks s rs" and sha: "sha256_hex_ok E"
  obtains rs' where "replay_event E draw t (Suc (revision s)) (last (events u)) rs = Inr rs'"
    "tracks (settle s (lo_now op) u) rs'"
    "rs_fingerprints rs' = bt_insert (Suc (revision s))
       (fingerprint_mutation E (project_id t) (run_id t) (lo_mutation op)) (rs_fingerprints rs)"
proof -
  let ?ctx = "op_context op" and ?e = "last (events u)" and ?n = "Suc (revision s)"
  have step: "transition E ?ctx ?n s (lo_mutation op) u" using w by (simp add: written_def)
  note e = transition_last_event [OF step]
  have ids: "distinct (all_ids u)" using extended_distinct [OF t] .
  have fresh: "ev_id ?e \<notin> set (rs_seen rs)"
    using event_id_fresh [OF transition_extends [OF step] e(1) ids] tr by (simp add: tracks_def)
  define rs1 where "rs1 = rs\<lparr>rs_seen := ev_id ?e # rs_seen rs,
      rs_projection := (rs_projection rs)\<lparr>revision := revision s\<rparr>\<rparr>"
  have rs1: "indexed s rs1" "set (rs_seen rs1) = insert (ev_id ?e) (set (all_ids s))"
    "sim s (rs_projection rs1)" "revision (rs_projection rs1) = revision s"
    "rs_fingerprints rs1 = rs_fingerprints rs"
    using tr by (simp_all add: rs1_def tracks_def)
  have "rebuilds E t u (lo_mutation op) ?ctx rs1"
    by (rule reconstruct_step [OF step refl _ _ t(1) ids rs1(1-3)])
      (use written_bound [OF w] w in \<open>simp_all add: written_def\<close>)
  then obtain rs2 m' auth where
    rs2: "reconstruct E t ?e rs1 = Inr (rs2, retarget (rs_projection rs1) (lo_mutation op), m', auth)"
      "canonical_mutation m' = canonical_mutation (lo_mutation op)"
      "\<forall>d. lo_mutation op = RecordOperatorDecision d \<longrightarrow> auth = mc_auth ?ctx"
      "rs_projection rs2 = rs_projection rs1" "rs_fingerprints rs2 = rs_fingerprints rs"
      "indexed u rs2" "set (rs_seen rs2) = set (all_ids u)"
    unfolding rebuilds_def rs1(5) by blast
  let ?ctx' = "replay_context t ?e (rs_claim rs2) auth (draw ?n)"
  have "replays_in (rs_projection rs1) ?ctx ?ctx' (lo_mutation op) u"
    by (rule replay_context_ok [OF step _ t(1) rs2(6,3) e(3)]) simp
  then obtain q where q: "transition E ?ctx' ?n (rs_projection rs1) (retarget (rs_projection rs1) (lo_mutation op)) q"
      "sim u q" "same_last_kind u q"
    using sim_transition [OF step rs1(3,4)] by auto
  have "length (events (rs_projection rs1)) < MAX_GOVERNED_EVENTS"
    using rs1(3) w by (simp add: sim_def written_def)
  with q(1) have applied: "apply_mutation E (rs_projection rs1)
      (retarget (rs_projection rs1) (lo_mutation op)) ?n ?ctx' = Inr q"
    by (simp add: apply_mutation_Inr)
  have check: "check_replayed_claim t ?e (rs_claim rs2) q = Inr ()"
    by (rule check_replayed_claim_ok [OF step _ q(2) t(1) rs2(6) sha]) simp
  have new: "\<not> bt_contains (rs_fingerprints rs) ?n" using tr by (auto simp: tracks_def)
  have fp: "fingerprint_mutation E p i m' = fingerprint_mutation E p i (lo_mutation op)" for p i
    by (simp add: fingerprint_mutation_def rs2(2))
  have kind: "map_option ev_kind (last_opt (events q)) = Some (ev_kind ?e)"
    using q(3) by (simp add: same_last_kind_def last_opt_def)
  let ?rs' = "rs2\<lparr>rs_fingerprints := bt_insert ?n
      (fingerprint_mutation E (project_id t) (run_id t) (lo_mutation op)) (rs_fingerprints rs),
      rs_projection := q\<lparr>revision := ?n\<rparr>\<rparr>"
  have "replay_event E draw t ?n ?e rs = Inr ?rs'"
    using w written_detail [OF w] fresh rs2(1,4,5) applied check new kind
    by (simp add: replay_event_def e(2,3) bail_unless_def require_rfc3339_def insert_seen_def
        written_def rs1_def [symmetric] fp)
  moreover have "tracks (settle s (lo_now op) u) ?rs'"
    using rs2(6,7) q(2) tr by (auto simp: tracks_def bt_simps split: if_splits)
  ultimately show thesis by (rule that) simp
qed

section \<open>A whole served history\<close>

text \<open>The requests of a sequence that were admitted, in order.\<close>

primrec accepted :: "('s \<Rightarrow> 'op \<Rightarrow> 'e + 's) \<Rightarrow> 's \<Rightarrow> 'op list \<Rightarrow> 'op list" where
  "accepted step s [] = []"
| "accepted step s (op # ops) =
     (case step s op of Inl _ \<Rightarrow> accepted step s ops | Inr s' \<Rightarrow> op # accepted step s' ops)"

definition op_ok :: "env \<Rightarrow> live_op \<Rightarrow> bool" where
  "op_ok E op \<longleftrightarrow> parse_rfc3339 E (lo_now op) \<noteq> None \<and> uuid_ok (lo_record_uuid op)"

lemma bt_insert_last: "\<forall>a\<in>fst ` set m. a < k \<Longrightarrow> bt_insert k v m = m @ [(k, v)]"
  by (induction k v m rule: bt_insert.induct) auto

lemma bt_contains_iff: "bt_contains m k \<longleftrightarrow> k \<in> fst ` set m"
  by (auto simp: bt_contains_def bt_get_def map_of_eq_None_iff)

lemma tracks_insert: "tracks s rs \<Longrightarrow> bt_insert (Suc (revision s)) v (rs_fingerprints rs) =
    rs_fingerprints rs @ [(Suc (revision s), v)]"
  by (rule bt_insert_last) (auto simp: tracks_def bt_contains_iff less_Suc_eq_le)

lemma served_run_extends: "extended_by s (serve (run_step E) s ops)"
proof (induction ops arbitrary: s)
  case (Cons op ops)
  have "extended_by s (attempt (run_step E) s op)"
    by (cases rule: attempt_cases [of "run_step E" s op]) (auto simp: extended_refl dest: run_step_extends)
  with Cons show ?case by (auto intro: extended_trans)
qed (simp add: extended_refl)

lemma replay_serve:
  assumes "list_all (op_ok E) ops" "run_inv s" "counts_bounded s"
    and "extended_by (serve (run_step E) s ops) t" "distinct (all_ids t)" "tracks s rs" "sha256_hex_ok E"
  shows "\<exists>rs'. replay_events E draw t (Suc (revision s))
        (drop (length (events s)) (events (serve (run_step E) s ops))) rs = Inr rs' \<and>
      tracks (serve (run_step E) s ops) rs' \<and>
      rs_fingerprints rs' = rs_fingerprints rs @
        enumerate (Suc (revision s)) (map (\<lambda>op. fingerprint_mutation E (project_id t) (run_id t) (lo_mutation op))
            (accepted (run_step E) s ops))"
  using assms
proof (induction ops arbitrary: s rs)
  case (Cons op ops)
  show ?case
  proof (cases "run_step E s op")
    case (Inl e)
    then show ?thesis using Cons by simp
  next
    case (Inr s')
    then obtain u where u: "transition E (op_context op) (Suc (revision s)) s (lo_mutation op) u"
      "s' = settle s (lo_now op) u" "length (events s) < MAX_GOVERNED_EVENTS" by (elim run_stepE)
    let ?T = "serve (run_step E) s' ops"
    have ext: "extended_by s' ?T" by (rule served_run_extends)
    have T: "extended_by ?T t" using Cons.prems(4) Inr by simp
    have w: "written E s op u" using u Cons.prems(1-3) by (simp add: written_def op_ok_def)
    have "extended_by u t" using extended_trans [OF ext T] u(2) by simp
    from replay_step [OF w this Cons.prems(5-7)] obtain rs1 where
      rs1: "replay_event E draw t (Suc (revision s)) (last (events u)) rs = Inr rs1" "tracks s' rs1"
        "rs_fingerprints rs1 = rs_fingerprints rs @ [(Suc (revision s),
           fingerprint_mutation E (project_id t) (run_id t) (lo_mutation op))]"
      unfolding u(2) tracks_insert [OF Cons.prems(6)] by metis
    have inv: "run_inv s'" "counts_bounded s'"
      using run_machine.step_inv [OF Cons.prems(2) Inr] run_limits.step_inv [OF Cons.prems(3) Inr] .
    have "list_all (op_ok E) ops" using Cons.prems(1) by simp
    from Cons.IH [OF this inv T Cons.prems(5) rs1(2) Cons.prems(7)] obtain rs' where
      rs': "replay_events E draw t (Suc (revision s')) (drop (length (events s')) (events ?T)) rs1 = Inr rs'"
        "tracks ?T rs'" "rs_fingerprints rs' = rs_fingerprints rs1 @
          enumerate (Suc (revision s')) (map (\<lambda>op. fingerprint_mutation E (project_id t) (run_id t) (lo_mutation op))
              (accepted (run_step E) s' ops))" by blast
    have rev: "revision s' = Suc (revision s)" by (simp add: u(2))
    have "events s' = events s @ [last (events u)]"
      using transition_last_event(1) [OF u(1)] by (simp add: u(2))
    moreover obtain rest where "events ?T = events s' @ rest"
      using ext by (auto simp: extended_by_def prefix_def)
    ultimately have "drop (length (events s)) (events ?T) = last (events u) # drop (length (events s')) (events ?T)"
      by simp
    with rs' rs1 Inr show ?thesis by (simp add: rev)
  qed
qed simp

section \<open>Header and comparison\<close>

lemma start_tracks:
  assumes "extended_by (initial_run r now uuid) t"
  shows "tracks (initial_run r now uuid) (replay_start t)"
proof -
  have "hd (events t) = registration_event now uuid"
    using assms by (auto simp: extended_by_def initial_run_def prefix_def)
  then show ?thesis
    using assms
    by (simp add: tracks_def replay_start_def empty_projection_def sim_def indexed_def all_ids_def
        extended_by_def task_core.truncate_def bt_contains_def) (simp add: initial_run_def)
qed

lemma served_clock:
  "list_all (op_ok E) ops \<Longrightarrow> parse_rfc3339 E (updated_at s) \<noteq> None \<Longrightarrow>
   parse_rfc3339 E (updated_at (serve (run_step E) s ops)) \<noteq> None"
proof (induction ops arbitrary: s)
  case (Cons op ops)
  have "parse_rfc3339 E (updated_at (attempt (run_step E) s op)) \<noteq> None"
    using Cons.prems
    by (cases rule: attempt_cases [of "run_step E" s op]) (auto elim!: run_stepE simp: op_ok_def)
  with Cons show ?case by simp
qed simp

lemma served_header:
  assumes "extended_by (initial_run r now uuid) t" "run_inv t" "counts_bounded t"
    and "parse_rfc3339 E now \<noteq> None" "parse_rfc3339 E (updated_at t) \<noteq> None"
  shows "history_header E t = Inr ()"
proof -
  have len: "length (events t) = Suc (revision t)" using assms(2) by (rule run_inv_events)
  have first: "hd (events t) = registration_event now uuid" "created_at t = now"
    using assms(1) by (auto simp: extended_by_def initial_run_def prefix_def)
  have "length (events t) \<le> MAX_GOVERNED_EVENTS" using assms(3) by (simp add: counts_bounded_def)
  then have "Suc (revision t) \<le> u64_max" "Suc (revision t) \<le> MAX_GOVERNED_EVENTS" "events t \<noteq> []"
    using len by (auto simp: MAX_GOVERNED_EVENTS_def u64_max_def)
  moreover have "records_within_limit t = Inr ()"
    using assms(3) by (simp add: records_within_limit_def bail_unless_def counts_bounded_def)
  moreover have "actor_ok system_actor System"
    by (simp add: actor_ok_def system_actor_def composed_prefixes)
  ultimately show ?thesis
    using assms(4,5) len
    by (simp add: history_header_def first bail_unless_def require_rfc3339_def registration_event_def
        composed_prefixes)
qed

lemma staged_match_blank:
  "map_option blank_staged a = map_option blank_staged b \<Longrightarrow> staged_worktrees_match a b"
proof (induction a b rule: staged_worktrees_match.induct)
  case (2 a b)
  then show ?case by (cases a; cases b) (simp add: blank_staged_def)
qed simp_all

lemma promotions_match_blank:
  "map blank_promotion xs = map blank_promotion ys \<Longrightarrow> promotions_match xs ys"
proof (induction xs ys rule: list_induct2')
  case (4 x xs y ys)
  then show ?case by (cases x; cases y) (simp add: promotions_match_def blank_promotion_def)
qed (simp_all add: promotions_match_def)

lemma tracked_matches:
  assumes "tracks t rs"
  shows "history_matches t rs = Inr ()"
proof -
  have sim: "sim t (rs_projection rs)" and idx: "indexed t rs" using assms by (simp_all add: tracks_def)
  have "staged_worktrees_match (staged_worktree (rs_projection rs)) (staged_worktree t)"
    by (rule staged_match_blank) (use sim in \<open>simp add: sim_def\<close>)
  moreover have "promotions_match (promotions (rs_projection rs)) (promotions t)"
    by (rule promotions_match_blank) (use sim in \<open>simp add: sim_def\<close>)
  moreover have "rs_claim rs = length (claims t) \<and> rs_verification rs = length (verifications t) \<and>
      rs_supervisor rs = length (supervisor_verdicts t) \<and>
      rs_operator rs = length (operator_decisions t) \<and> rs_promotion rs = length (promotions t) \<and>
      \<not> (staged_worktree t \<noteq> None \<and> rs_staged rs = 0)"
    using idx by (auto simp: indexed_def)
  ultimately show ?thesis
    unfolding history_matches_def Let_def bail_unless_def
    using sim_fields(7-9) [OF sim] by (simp del: not_None_eq)
qed

section \<open>What was written can be loaded\<close>

lemma served_history_reloads:
  assumes "list_all (op_ok E) ops" "parse_rfc3339 E now \<noteq> None" "sha256_hex_ok E"
    and "distinct (all_ids (serve (run_step E) (initial_run r now uuid) ops))"
  shows "validate_task_history E draw (serve (run_step E) (initial_run r now uuid) ops) =
    Inr (enumerate 1 (map (\<lambda>op. fingerprint_mutation E (project_id r) (rg_task_id r) (lo_mutation op))
      (accepted (run_step E) (initial_run r now uuid) ops)))"
proof -
  let ?s = "initial_run r now uuid" and ?t = "serve (run_step E) (initial_run r now uuid) ops"
  have ext: "extended_by ?s ?t" by (rule served_run_extends)
  have "run_inv ?t" "counts_bounded ?t"
    by (auto intro: run_machine.serve_inv run_limits.serve_inv initial_run_inv initial_counts)
  then have header: "history_header E ?t = Inr ()"
    using served_header [OF ext] assms(1,2) served_clock [of E ops ?s] by (simp add: initial_run_def)
  have ids: "project_id ?t = project_id r" "run_id ?t = rg_task_id r"
    using ext by (simp_all add: extended_by_def initial_run_def task_core.truncate_def)
  have "\<exists>rs'. replay_events E draw ?t (Suc (revision ?s)) (drop (length (events ?s)) (events ?t)) (replay_start ?t) =
      Inr rs' \<and> tracks ?t rs' \<and> rs_fingerprints rs' = rs_fingerprints (replay_start ?t) @
        enumerate (Suc (revision ?s)) (map (\<lambda>op. fingerprint_mutation E (project_id ?t) (run_id ?t) (lo_mutation op))
          (accepted (run_step E) ?s ops))"
    using assms(1,3,4) initial_run_inv initial_counts start_tracks [OF ext]
    by (intro replay_serve) (auto simp: extended_refl)
  then obtain rs' where "replay_events E draw ?t 1 (tl (events ?t)) (replay_start ?t) = Inr rs'"
    "tracks ?t rs'" "rs_fingerprints rs' =
        enumerate 1 (map (\<lambda>op. fingerprint_mutation E (project_id r) (rg_task_id r) (lo_mutation op))
          (accepted (run_step E) ?s ops))"
    unfolding ids by (auto simp: initial_run_def drop_Suc replay_start_def bt_empty_def)
  with header show ?thesis by (simp add: validate_task_history_def tracked_matches)
qed

text \<open>C5: What the ledger writes it can load again: for every run served from a registration, whatever
  requests were made and in whatever order, replaying the stored history succeeds, and the
  fingerprints it returns are those of the admitted requests, numbered by revision from one.  The
  clock readings must be RFC 3339 timestamps, record identifiers must come from UUIDs and not repeat
  within the run, and a SHA-256 digest must print as 64 hexadecimal characters.\<close>

theorem every_served_history_reloads:
  assumes "list_all (op_ok E) ops" "parse_rfc3339 E now \<noteq> None" "sha256_hex_ok E"
    and "distinct (all_ids (serve (run_step E) (initial_run r now uuid) ops))"
  shows "validate_task_history E draw (serve (run_step E) (initial_run r now uuid) ops) =
    Inr (enumerate 1 (map (\<lambda>op. fingerprint_mutation E (project_id r) (rg_task_id r) (lo_mutation op))
      (accepted (run_step E) (initial_run r now uuid) ops)))"
  by (rule served_history_reloads [OF assms])

lemma demo_uuid_ok: "n < 100 \<Longrightarrow> uuid_ok (demo_uuid n)"
  by (auto simp: uuid_ok_def demo_uuid_def byte_len_def utf8_replicate_ascii utf8_def utf8_char_def
      is_lower_hex_byte_def is_ascii_digit_def list.pred_set)

lemma demo_ids: "distinct (all_ids demo_s7)"
  by (simp add: all_ids_def demo_states demo_push_def push_event_def demo_start_def initial_run_def
      registration_event_def new_record_id_def lit_def demo_uuid_def)

lemma demo_sha: "sha256_hex_ok demo_env"
proof -
  have "length bs mod 10 \<le> 9" for bs :: "nat list" by presburger
  then show ?thesis
    by (auto simp: sha256_hex_ok_def demo_env_def byte_len_def utf8_replicate_ascii is_ascii_hexdigit_def
      is_lower_hex_byte_def is_ascii_digit_def list.pred_set)
qed

lemma demo_ops_ok: "list_all (op_ok demo_env) demo_ops"
  by (simp add: demo_ops_def demo_op_def op_ok_def demo_uuid_ok)

lemma demo_accepted: "accepted (run_step demo_env) demo_start demo_ops = demo_ops"
  by (simp add: demo_ops_def demo_step_1 [simplified] demo_step_2 demo_step_3 demo_step_4 demo_step_5
      demo_step_6 demo_step_7)

theorem every_served_history_reloads_witness:
  "list_all (op_ok demo_env) demo_ops \<and> sha256_hex_ok demo_env \<and> distinct (all_ids demo_s7) \<and>
   validate_task_history demo_env (\<lambda>i. (demo_uuid i, demo_uuid i)) demo_s7 =
     Inr (enumerate 1 (map (\<lambda>op. fingerprint_mutation demo_env (lit ''w'') (lit ''task-1'') (lo_mutation op))
       demo_ops))"
proof -
  have reg: "project_id demo_registration = lit ''w''" "rg_task_id demo_registration = lit ''task-1''"
    by (simp_all add: demo_registration_def registration_builder_def)
  have demo_all: "serve (run_step demo_env) demo_start demo_ops = demo_s7"
    using demo_run_all by (simp add: demo_start_def demo_run_states)
  show ?thesis
    using every_served_history_reloads [OF demo_ops_ok _ demo_sha, of "demo_now 0" demo_registration
        "demo_uuid 0" "\<lambda>i. (demo_uuid i, demo_uuid i)"] demo_ids demo_ops_ok demo_sha
    unfolding reg demo_start_def [symmetric] demo_accepted demo_all by simp
qed

end
