(* ===== verification/Governed_Ledger.thy ===== *)
theory Governed_Ledger
  imports Governed_Reload
begin

text \<open>
  The ledger of governed tasks (\<open>src/state/governed_task.rs\<close>): the runs by task id, the receipts of
  processed requests by request id, and the schema version written to disk.  Registration and
  mutation build a candidate ledger, persist it and only then replace the one in memory, so an
  operation either commits both or neither.  The clock, the UUID draws and the outcome of the
  write are inputs of an operation.  A mutation hands its run to the memory-candidate ledger after
  the commit; that ledger is another component and \<open>mutate_and_hand_over\<close> of \<open>Memory_Ledger\<close> adds the hand-over.
\<close>

section \<open>Where the ledger lives\<close>

text \<open>The storage directory and the file system's \<open>canonicalize\<close> (\<open>Inl\<close> its I/O error).\<close>

record site =
  base_path :: rstr
  canonicalize :: "rstr \<Rightarrow> rstr + rstr"

fun component_text :: "path_component \<Rightarrow> rstr" where
  "component_text RootDir = []"
| "component_text CurDir = lit ''.''"
| "component_text ParentDir = lit ''..''"
| "component_text (NormalComponent s) = s"

definition path_text :: "path_component list \<Rightarrow> rstr" where
  "path_text cs = (if cs = [RootDir] then lit ''/'' else join (lit ''/'') (map component_text cs))"

definition path_parent :: "rstr \<Rightarrow> rstr option" where
  "path_parent p = (case rev (path_components p) of
     [] \<Rightarrow> None | RootDir # _ \<Rightarrow> None | _ # cs \<Rightarrow> Some (path_text (rev cs)))"

definition path_file_name :: "rstr \<Rightarrow> rstr option" where
  "path_file_name p = (case rev (path_components p) of NormalComponent s # _ \<Rightarrow> Some s | _ \<Rightarrow> None)"

definition sanitize_char :: "nat \<Rightarrow> nat" where
  "sanitize_char c = (if 97 \<le> c \<and> c \<le> 122 \<or> 48 \<le> c \<and> c \<le> 57 then c
     else if 65 \<le> c \<and> c \<le> 90 then c + 32 else 45)"

fun split_dash :: "rstr \<Rightarrow> rstr \<Rightarrow> rstr list" where
  "split_dash acc [] = [rev acc]"
| "split_dash acc (c # cs) =
     (if c = 45 then rev acc # split_dash [] cs else split_dash (c # acc) cs)"

definition sanitize_id :: "rstr \<Rightarrow> rstr" where
  "sanitize_id input =
     (let collapsed = join (lit ''-'') (filter (\<lambda>seg. seg \<noteq> []) (split_dash [] (map sanitize_char (trim input))))
      in if collapsed = [] then lit ''unknown'' else collapsed)"

definition governed_project_root :: "site \<Rightarrow> rstr" where
  "governed_project_root S = (case path_parent (base_path S) of
     Some parent \<Rightarrow> if parent = [] then lit ''.'' else parent
   | None \<Rightarrow> if path_is_absolute (base_path S) then base_path S else lit ''.'')"

definition canonical_governed_project_root :: "site \<Rightarrow> state_error + rstr" where
  "canonical_governed_project_root S = (let root = governed_project_root S in
     map_err (\<lambda>io. WithContext (lit ''Failed to canonicalize governed task ledger project root '' @ root)
       (Anyhow io)) (canonicalize S root))"

definition governed_project_id :: "site \<Rightarrow> rstr" where
  "governed_project_id S =
     (let root = (case canonical_governed_project_root S of Inr r \<Rightarrow> r | Inl _ \<Rightarrow> governed_project_root S)
      in sanitize_id (case path_file_name root of Some name \<Rightarrow> name | None \<Rightarrow> lit ''impulse-project''))"

definition canonical_governed_workspace :: "site \<Rightarrow> rstr \<Rightarrow> state_error + rstr" where
  "canonical_governed_workspace S received =
     and_then (canonical_governed_project_root S) (\<lambda>expected.
     and_then (map_err (\<lambda>io. WithContext (lit ''Failed to canonicalize governed workspace '' @ received)
       (Anyhow io)) (canonicalize S received)) (\<lambda>received_path.
     and_then (ensure (path_eq expected received_path) (WorkspaceMismatch expected received_path)) (\<lambda>_.
     Inr received_path)))"

section \<open>The ledger\<close>

record receipt =
  re_task_id :: rstr
  re_revision :: nat
  re_fingerprint :: rstr

record ledger =
  schema_version :: nat
  tasks :: "(rstr, run) btree"
  processed_requests :: "(rstr, receipt) btree"

definition GOVERNED_TASKS_SCHEMA_VERSION :: nat where "GOVERNED_TASKS_SCHEMA_VERSION = 2"
definition GOVERNED_TASKS_LEGACY_SCHEMA_VERSION :: nat where "GOVERNED_TASKS_LEGACY_SCHEMA_VERSION = 1"

definition default_ledger :: ledger where
  "default_ledger = \<lparr>schema_version = GOVERNED_TASKS_LEGACY_SCHEMA_VERSION, tasks = bt_empty,
     processed_requests = bt_empty\<rparr>"

definition required_schema_version :: "ledger \<Rightarrow> nat" where
  "required_schema_version l =
     (if list_ex (\<lambda>t. lease_generation t > 0) (bt_values (tasks l)) then GOVERNED_TASKS_SCHEMA_VERSION
      else GOVERNED_TASKS_LEGACY_SCHEMA_VERSION)"

definition stamp_schema_version :: "ledger \<Rightarrow> ledger" where
  "stamp_schema_version l = l\<lparr>schema_version := max (schema_version l) (required_schema_version l)\<rparr>"

definition require_project :: "rstr \<Rightarrow> rstr \<Rightarrow> state_error + unit" where
  "require_project expected received = ensure (expected = received) (ProjectMismatch expected received)"

definition require_idempotent_fingerprint :: "rstr \<Rightarrow> receipt \<Rightarrow> rstr \<Rightarrow> state_error + unit" where
  "require_idempotent_fingerprint request_id re fingerprint =
     ensure (re_fingerprint re = fingerprint) (IdempotencyPayloadConflict request_id)"

definition require_receipt_revision :: "receipt \<Rightarrow> run \<Rightarrow> state_error + unit" where
  "require_receipt_revision re t =
     bail_unless (re_revision re \<le> revision t) (lit ''governed task receipt revision '' @
       dec (re_revision re) @ lit '' exceeds current task revision '' @ dec (revision t))"

definition fenced_mutation :: "mutation \<Rightarrow> bool" where
  "fenced_mutation m =
     (case m of SubmitClaim _ \<Rightarrow> True | RecordVerification _ \<Rightarrow> True | RecordPromotion _ \<Rightarrow> True | _ \<Rightarrow> False)"

definition require_current_lease_generation ::
    "run \<Rightarrow> mutation \<Rightarrow> nat option \<Rightarrow> state_error + unit" where
  "require_current_lease_generation t m presented =
     (if \<not> fenced_mutation m then Inr ()
      else let current = lease_generation t in
        case presented of
          Some g \<Rightarrow> if g = current then Inr () else Inl (Fenced (run_id t) (Stale g) current)
        | None \<Rightarrow> if current = 0 then Inr () else Inl (Fenced (run_id t) Missing current))"

section \<open>Operations\<close>

text \<open>What the surroundings contribute to one operation: the clock, the UUID draws and the outcome of
  the write to disk.\<close>

record ambient =
  am_now :: rstr
  am_record_uuid :: rstr
  am_event_uuid :: rstr
  am_write :: "rstr + unit"

definition commit :: "ambient \<Rightarrow> string \<Rightarrow> run \<Rightarrow> rstr \<Rightarrow> receipt \<Rightarrow> ledger \<Rightarrow> state_error + ledger \<times> run" where
  "commit A label t request_id re l =
     (let candidate = stamp_schema_version (l\<lparr>tasks := bt_insert (run_id t) t (tasks l),
            processed_requests := bt_insert request_id re (processed_requests l)\<rparr>)
      in and_then (map_err (\<lambda>io. WithContext (lit label) (Anyhow io)) (am_write A)) (\<lambda>_.
         Inr (candidate, t)))"

definition register_governed_task ::
    "env \<Rightarrow> site \<Rightarrow> ambient \<Rightarrow> registration \<Rightarrow> ledger \<Rightarrow> state_error + ledger \<times> run" where
  "register_governed_task E S A r0 l =
     and_then (map_err Contract (validate_registration r0)) (\<lambda>_.
     and_then (require_project (governed_project_id S) (project_id r0)) (\<lambda>_.
     and_then (canonical_governed_workspace S (workspace_root r0)) (\<lambda>root.
     let r = r0\<lparr>workspace_root := root\<rparr>; fingerprint = fingerprint_registration E r in
     case bt_get (processed_requests l) (rg_request_id r) of
       Some re \<Rightarrow>
         and_then (require_idempotent_fingerprint (rg_request_id r) re fingerprint) (\<lambda>_.
         and_then (ok_or (bt_get (tasks l) (re_task_id re)) (Anyhow (lit
           ''governed task receipt references missing task `'' @ re_task_id re @ lit ''`''))) (\<lambda>t.
         and_then (require_receipt_revision re t) (\<lambda>_. Inr (l, t))))
     | None \<Rightarrow>
         if bt_contains (tasks l) (rg_task_id r) then Inl (AlreadyExists (rg_task_id r))
         else commit A ''Failed to persist governed task registration''
           (initial_run r (am_now A) (am_event_uuid A)) (rg_request_id r)
           \<lparr>re_task_id = rg_task_id r, re_revision = 0, re_fingerprint = fingerprint\<rparr> l)))"

definition answered_cancel :: "run \<Rightarrow> mutation \<Rightarrow> bool" where
  "answered_cancel t m =
     (case m of MarkRuntimeExited _ _ OperatorCancelled \<Rightarrow> execution_state t \<in> {RuntimeExited, LaunchFailed}
      | _ \<Rightarrow> False)"

definition check_answered_cancel :: "mutation \<Rightarrow> state_error + unit" where
  "check_answered_cancel m =
     (case m of
        MarkRuntimeExited actor reason _ \<Rightarrow> checks
          [require_actor actor System,
           (case reason of None \<Rightarrow> Inr () | Some r \<Rightarrow> require_text ''runtime exit reason'' r)]
      | _ \<Rightarrow> Inr ())"

definition op_of :: "ambient \<Rightarrow> mutation \<Rightarrow> operator_authentication \<Rightarrow> live_op" where
  "op_of A m auth = \<lparr>lo_mutation = m, lo_now = am_now A, lo_auth = auth,
     lo_record_uuid = am_record_uuid A, lo_event_uuid = am_event_uuid A\<rparr>"

definition mutate_governed_task_authenticated ::
    "env \<Rightarrow> site \<Rightarrow> ambient \<Rightarrow> mutation_request \<Rightarrow> operator_authentication \<Rightarrow> ledger \<Rightarrow>
     state_error + ledger \<times> run" where
  "mutate_governed_task_authenticated E S A q auth l =
     (let fingerprint = fingerprint_mutation E (mr_project_id q) (mr_task_id q) (mr_mutation q);
          project = governed_project_id S in
     and_then (require_project project (mr_project_id q)) (\<lambda>_.
     case bt_get (processed_requests l) (mr_request_id q) of
       Some re \<Rightarrow>
         and_then (ensure (re_task_id re = mr_task_id q)
           (IdempotencyConflict (mr_request_id q) (re_task_id re))) (\<lambda>_.
         and_then (require_idempotent_fingerprint (mr_request_id q) re fingerprint) (\<lambda>_.
         and_then (ok_or (bt_get (tasks l) (mr_task_id q)) (NotFound (mr_task_id q))) (\<lambda>t.
         and_then (require_receipt_revision re t) (\<lambda>_. Inr (l, t)))))
     | None \<Rightarrow>
         and_then (ok_or (bt_get (tasks l) (mr_task_id q)) (NotFound (mr_task_id q))) (\<lambda>current.
         and_then (require_project project (project_id current)) (\<lambda>_.
         and_then (require_current_lease_generation current (mr_mutation q) (mr_fencing_generation q)) (\<lambda>_.
         and_then (ensure (revision current = mr_expected_revision q)
           (RevisionConflict (mr_expected_revision q) (revision current))) (\<lambda>_.
         if answered_cancel current (mr_mutation q)
         then and_then (check_answered_cancel (mr_mutation q)) (\<lambda>_. Inr (l, current))
         else and_then (run_step E current (op_of A (mr_mutation q) auth)) (\<lambda>updated.
           commit A ''Failed to persist governed task mutation'' updated (mr_request_id q)
             \<lparr>re_task_id = run_id updated, re_revision = revision updated,
              re_fingerprint = fingerprint\<rparr> l)))))))"

definition mutate_governed_task ::
    "env \<Rightarrow> site \<Rightarrow> ambient \<Rightarrow> mutation_request \<Rightarrow> ledger \<Rightarrow> state_error + ledger \<times> run" where
  "mutate_governed_task E S A q l = mutate_governed_task_authenticated E S A q Declared l"

definition governed_producer_request_is_replay :: "rstr \<Rightarrow> rstr \<Rightarrow> ledger \<Rightarrow> state_error + bool" where
  "governed_producer_request_is_replay request_id task_id l =
     (case bt_get (processed_requests l) request_id of
        None \<Rightarrow> Inr False
      | Some re \<Rightarrow>
          if re_task_id re \<noteq> task_id then Inl (IdempotencyConflict request_id (re_task_id re))
          else Inr True)"

definition get_governed_task :: "site \<Rightarrow> rstr \<Rightarrow> rstr \<Rightarrow> ledger \<Rightarrow> state_error + run option" where
  "get_governed_task S project task_id l =
     and_then (require_project (governed_project_id S) project) (\<lambda>_. Inr (bt_get (tasks l) task_id))"

text \<open>\<open>sort_by\<close> is stable; newest first.\<close>

fun insert_newest :: "run \<Rightarrow> run list \<Rightarrow> run list" where
  "insert_newest t [] = [t]"
| "insert_newest t (u # us) = (if created_at u \<le> created_at t then t # u # us else u # insert_newest t us)"

definition list_governed_tasks :: "site \<Rightarrow> rstr \<Rightarrow> ledger \<Rightarrow> state_error + run list" where
  "list_governed_tasks S project l =
     and_then (require_project (governed_project_id S) project) (\<lambda>_.
       Inr (foldr insert_newest (bt_values (tasks l)) []))"

definition all_governed_tasks :: "ledger \<Rightarrow> run list" where
  "all_governed_tasks l = bt_values (tasks l)"

section \<open>Loading\<close>

definition require_request_fingerprint :: "rstr \<Rightarrow> state_error + unit" where
  "require_request_fingerprint value =
     (case strip_prefix (lit ''sha256-v1:'') value of
        None \<Rightarrow> Inl (Anyhow (lit ''request fingerprint must use sha256-v1:<hex> format''))
      | Some hex \<Rightarrow> bail_unless (byte_len hex = 64 \<and> lower_hex hex)
          (lit ''request fingerprint must contain 64 lowercase hexadecimal characters''))"

type_synonym receipt_index = "(rstr, (nat, rstr \<times> rstr) btree) btree"

definition empty_index :: "ledger \<Rightarrow> receipt_index" where
  "empty_index l = map (\<lambda>(task_id, _). (task_id, bt_empty)) (tasks l)"

definition index_receipt ::
    "ledger \<Rightarrow> rstr \<Rightarrow> receipt \<Rightarrow> receipt_index \<Rightarrow> state_error + receipt_index" where
  "index_receipt l request_id re index =
     and_then (ok_or (bt_get (tasks l) (re_task_id re)) (Anyhow (lit ''governed task receipt `'' @
       request_id @ lit ''` references missing task `'' @ re_task_id re @ lit ''`''))) (\<lambda>t.
     and_then (require_receipt_revision re t) (\<lambda>_.
     and_then (map_err (WithContext (lit ''Invalid governed task receipt fingerprint for `'' @
       request_id @ lit ''`'')) (require_request_fingerprint (re_fingerprint re))) (\<lambda>_.
     and_then (ok_or (bt_get index (re_task_id re)) (Anyhow (lit ''governed task receipt `'' @
       request_id @ lit ''` lost its validated task target''))) (\<lambda>receipts.
     and_then (bail_unless (\<not> bt_contains receipts (re_revision re)) (lit ''governed task `'' @
       re_task_id re @ lit ''` has multiple receipts for revision '' @ dec (re_revision re))) (\<lambda>_.
     Inr (bt_insert (re_task_id re)
       (bt_insert (re_revision re) (request_id, re_fingerprint re) receipts) index))))))"

fun index_receipts ::
    "ledger \<Rightarrow> (rstr \<times> receipt) list \<Rightarrow> receipt_index \<Rightarrow> state_error + receipt_index" where
  "index_receipts l [] index = Inr index"
| "index_receipts l ((request_id, re) # rest) index =
     and_then (index_receipt l request_id re index) (index_receipts l rest)"

definition stored_registration :: "run \<Rightarrow> rstr \<Rightarrow> registration" where
  "stored_registration t request_id =
     \<lparr>project_id = project_id t, workspace_root = workspace_root t, task = task t,
      acceptance_criteria = acceptance_criteria t, approval_policy = approval_policy t,
      world_scope = world_scope t, verification_profile = verification_profile t,
      role_assignment = role_assignment t, role_compatibility = role_compatibility t,
      runtime_id = runtime_id t, agent_id = agent_id t, session_id = session_id t,
      initial_subject_revision = initial_subject_revision t,
      rg_request_id = request_id, rg_task_id = run_id t\<rparr>"

definition check_stored_workspace :: "site \<Rightarrow> rstr \<Rightarrow> rstr \<Rightarrow> run \<Rightarrow> state_error + unit" where
  "check_stored_workspace S expected task_id t =
     and_then (bail_unless (path_is_absolute (workspace_root t)) (lit ''governed task `'' @ task_id @
       lit ''` workspace is not an absolute canonical path'')) (\<lambda>_.
     and_then (map_err (\<lambda>io. WithContext (lit ''Failed to canonicalize governed task `'' @ task_id @
       lit ''` workspace '' @ workspace_root t) (Anyhow io)) (canonicalize S (workspace_root t))) (\<lambda>canonical.
     ensure (path_eq canonical expected \<and> workspace_root t = canonical)
       (WorkspaceMismatch expected (workspace_root t))))"

definition check_fingerprint ::
    "rstr \<Rightarrow> (nat, rstr \<times> rstr) btree \<Rightarrow> nat \<times> rstr \<Rightarrow> state_error + unit" where
  "check_fingerprint task_id receipts = (\<lambda>(rev_no, expected).
     and_then (ok_or (bt_get receipts rev_no) (Anyhow (lit ''governed task `'' @ task_id @
       lit ''` has no receipt for mutation revision '' @ dec rev_no))) (\<lambda>(_, stored).
     bail_unless (stored = expected) (lit ''governed task `'' @ task_id @
       lit ''` receipt fingerprint at revision '' @ dec rev_no @
       lit '' does not match its lifecycle history'')))"

definition check_stored_registration ::
    "env \<Rightarrow> rstr \<Rightarrow> run \<Rightarrow> (nat, rstr \<times> rstr) btree \<Rightarrow> state_error + unit" where
  "check_stored_registration E task_id t receipts =
     and_then (ok_or (bt_get receipts 0) (Anyhow (lit ''governed task `'' @ task_id @
       lit ''` has no registration receipt''))) (\<lambda>(request_id, stored).
     and_then (map_err Contract (validate_registration (stored_registration t request_id))) (\<lambda>_.
     bail_unless (stored = fingerprint_registration E (stored_registration t request_id))
       (lit ''governed task `'' @ task_id @
        lit ''` registration receipt fingerprint does not match its immutable task record'')))"

definition validate_stored_task ::
    "env \<Rightarrow> site \<Rightarrow> (rstr \<Rightarrow> nat \<Rightarrow> rstr \<times> rstr) \<Rightarrow> rstr \<Rightarrow> receipt_index \<Rightarrow> rstr \<times> run \<Rightarrow>
     state_error + unit" where
  "validate_stored_task E S draw expected index = (\<lambda>(task_id, t).
     and_then (require_project (governed_project_id S) (project_id t)) (\<lambda>_.
     and_then (check_stored_workspace S expected task_id t) (\<lambda>_.
     and_then (ok_or (bt_get index task_id) (Anyhow (lit ''governed task `'' @ task_id @
       lit ''` has no receipt index''))) (\<lambda>receipts.
     and_then (ok_or (checked_add_u64 (revision t) 1) (Anyhow (lit ''governed task `'' @ task_id @
       lit ''` revision is too large''))) (\<lambda>expected_count.
     and_then (bail_unless (length receipts = expected_count \<and>
         list_all (bt_contains receipts) [0..<Suc (revision t)]) (lit ''governed task `'' @ task_id @
       lit ''` receipt chain does not cover every revision from 0 through '' @ dec (revision t))) (\<lambda>_.
     and_then (check_stored_registration E task_id t receipts) (\<lambda>_.
     and_then (map_err (WithContext (lit ''Invalid governed task history for `'' @ task_id @ lit ''`''))
       (validate_task_history E (draw task_id) t)) (\<lambda>fingerprints.
     checks (map (check_fingerprint task_id receipts) fingerprints)))))))))"

definition validate_ledger ::
    "env \<Rightarrow> site \<Rightarrow> (rstr \<Rightarrow> nat \<Rightarrow> rstr \<times> rstr) \<Rightarrow> ledger \<Rightarrow> state_error + unit" where
  "validate_ledger E S draw l =
     and_then (checks (map (\<lambda>(task_id, t). bail_unless (task_id = run_id t)
       (lit ''governed task ledger key `'' @ task_id @ lit ''` does not match record id `'' @
        run_id t @ lit ''`'')) (tasks l))) (\<lambda>_.
     and_then (index_receipts l (processed_requests l) (empty_index l)) (\<lambda>index.
     if tasks l = [] then Inr ()
     else and_then (canonical_governed_project_root S) (\<lambda>expected.
       checks (map (validate_stored_task E S draw expected index) (tasks l)))))"

definition load_ledger ::
    "env \<Rightarrow> site \<Rightarrow> (rstr \<Rightarrow> nat \<Rightarrow> rstr \<times> rstr) \<Rightarrow> ledger \<Rightarrow> state_error + ledger" where
  "load_ledger E S draw l =
     and_then (bail_unless (schema_version l = GOVERNED_TASKS_LEGACY_SCHEMA_VERSION \<or>
         schema_version l = GOVERNED_TASKS_SCHEMA_VERSION)
       (lit ''Unsupported governed task ledger schema version '' @ dec (schema_version l))) (\<lambda>_.
     and_then (bail_unless (required_schema_version l \<le> schema_version l)
       (lit ''governed task ledger declares schema version '' @ dec (schema_version l) @
        lit '' but records worker-lease takeovers, which require version '' @
        dec GOVERNED_TASKS_SCHEMA_VERSION)) (\<lambda>_.
     and_then (validate_ledger E S draw l) (\<lambda>_. Inr l)))"

section \<open>Sequences of operations\<close>

text \<open>The requests a ledger serves, each with what its surroundings contribute.\<close>

datatype ledger_request =
    Register registration
  | Mutate mutation_request operator_authentication

record ledger_op =
  lq_request :: ledger_request
  lq_ambient :: ambient

definition ledger_call :: "env \<Rightarrow> site \<Rightarrow> ledger \<Rightarrow> ledger_op \<Rightarrow> state_error + ledger \<times> run" where
  "ledger_call E S l op =
     (case lq_request op of
        Register r \<Rightarrow> register_governed_task E S (lq_ambient op) r l
      | Mutate q auth \<Rightarrow> mutate_governed_task_authenticated E S (lq_ambient op) q auth l)"

definition ledger_step :: "env \<Rightarrow> site \<Rightarrow> ledger \<Rightarrow> ledger_op \<Rightarrow> state_error + ledger" where
  "ledger_step E S l op = and_then (ledger_call E S l op) (\<lambda>(l', _). Inr l')"

end
