(* ===== verification/Memory_Ledger.thy ===== *)
theory Memory_Ledger
  imports Memory_Log Governed_Ledger
begin

text \<open>
  The review ledger of memory candidates (\<open>src/state/memory_candidate.rs\<close>): candidates derived from
  accepted runs, the operator's decisions on them, and their start-up reconciliation against
  governed-task truth and against the promoted-memory log.  Every operation re-reads the files under
  the storage lock; the state below holds the process's copies and the files, because a failed
  operation can leave the files changed.  The outcomes of the lock and of every write are inputs.
\<close>

section \<open>Data\<close>

datatype decision_error =
    CandidateNotFound rstr
  | LedgerRevisionConflict nat nat
  | DecisionPayloadConflict rstr
  | AlreadyDecided rstr string
  | SupersededCandidate rstr
  | InterruptedDecision rstr
  | ForeignUncommittedTail rstr rstr nat
  | DecisionProjectMismatch rstr rstr

datatype memory_error =
    Refused decision_error
  | MemoryContract memory_contract_error
  | MemoryWiring wiring_error
  | MemoryRecordError record_error
  | MemoryLogError log_error
  | TaskLedger state_error
  | MemoryMessage rstr
  | MemoryContext rstr memory_error

record candidate_ledger =
  cg_schema_version :: nat
  cg_revision :: nat
  cg_candidates :: "(rstr, memory_candidate) btree"
  cg_parked :: "(rstr, candidate_status) btree"
  cg_head :: "log_head option"
  cg_decisions :: "(rstr, memory_decision_record) btree"

definition MEMORY_CANDIDATES_LEDGER_SCHEMA_VERSION :: nat where
  "MEMORY_CANDIDATES_LEDGER_SCHEMA_VERSION = 2"
definition MEMORY_CANDIDATES_LEDGER_MIN_SUPPORTED_SCHEMA_VERSION :: nat where
  "MEMORY_CANDIDATES_LEDGER_MIN_SUPPORTED_SCHEMA_VERSION = 1"

definition default_candidate_ledger :: candidate_ledger where
  "default_candidate_ledger = \<lparr>cg_schema_version = MEMORY_CANDIDATES_LEDGER_SCHEMA_VERSION, cg_revision = 0,
     cg_candidates = bt_empty, cg_parked = bt_empty, cg_head = None, cg_decisions = bt_empty\<rparr>"

datatype ledger_file = NoLedgerFile | UnreadableLedger rstr | LedgerFile candidate_ledger

record memory_state =
  mm_ledger :: candidate_ledger
  mm_log :: memory_log
  mm_ledger_file :: ledger_file
  mm_log_file :: "log_line list option"
  mm_files :: projection_files

record memory_io =
  io_lock :: "rstr + unit"
  io_append :: append_outcome
  io_ledger :: "rstr + unit"
  io_projection :: "rstr + unit"
  io_marker :: "rstr + unit"

definition memory_bail_unless :: "bool \<Rightarrow> rstr \<Rightarrow> memory_error + unit" where
  "memory_bail_unless b message = ensure b (MemoryMessage message)"

definition memory_context :: "string \<Rightarrow> memory_error \<Rightarrow> memory_error" where
  "memory_context label = MemoryContext (lit label)"

section \<open>Loading the ledger\<close>

definition is_stale :: "memory_candidate \<Rightarrow> bool" where
  "is_stale c \<longleftrightarrow> ca_derivation_version c \<noteq> ACCEPTED_RUN_MEMORY_DERIVATION_VERSION"

fun park_decisions :: "(rstr \<times> memory_candidate) list \<Rightarrow> (rstr, candidate_status) btree \<Rightarrow>
    (rstr, candidate_status) btree" where
  "park_decisions [] parked = parked"
| "park_decisions ((_, c) # stale) parked = park_decisions stale
     (if status_is_pending (ca_status c) then parked else bt_insert (ca_task_id c) (ca_status c) parked)"

definition migrate_superseded_derivations :: "candidate_ledger \<Rightarrow> candidate_ledger" where
  "migrate_superseded_derivations l =
     l\<lparr>cg_candidates := filter (\<lambda>(_, c). \<not> is_stale c) (cg_candidates l),
       cg_parked := park_decisions (filter (\<lambda>(_, c). is_stale c) (cg_candidates l)) (cg_parked l)\<rparr>"

fun validate_candidates ::
    "('z env_scheme) \<Rightarrow> rstr list \<Rightarrow> (rstr \<times> memory_candidate) list \<Rightarrow> memory_error + unit" where
  "validate_candidates E task_ids [] = Inr ()"
| "validate_candidates E task_ids ((k, c) # cs) =
     and_then (checks
       [memory_bail_unless (k = ca_id c) (lit ''memory candidate ledger key `'' @ k @
          lit ''` does not match record id `'' @ ca_id c @ lit ''`''),
        map_err (\<lambda>e. MemoryContext (lit ''Invalid memory candidate `'' @ k @ lit ''`'') (MemoryContract e))
          (validate_candidate E c),
        memory_bail_unless (ca_task_id c \<notin> set task_ids) (lit ''governed task `'' @ ca_task_id c @
          lit ''` has more than one accepted-run memory candidate'')])
       (\<lambda>_. validate_candidates E (ca_task_id c # task_ids) cs)"

definition validate_candidate_ledger :: "('z env_scheme) \<Rightarrow> candidate_ledger \<Rightarrow> memory_error + unit" where
  "validate_candidate_ledger E l =
     and_then (memory_bail_unless
       (MEMORY_CANDIDATES_LEDGER_MIN_SUPPORTED_SCHEMA_VERSION \<le> cg_schema_version l \<and>
        cg_schema_version l \<le> MEMORY_CANDIDATES_LEDGER_SCHEMA_VERSION)
       (lit ''Unsupported memory candidate ledger schema version '' @ dec (cg_schema_version l)))
       (\<lambda>_. validate_candidates E [] (cg_candidates l))"

definition load_candidate_ledger :: "('z env_scheme) \<Rightarrow> ledger_file \<Rightarrow> memory_error + candidate_ledger" where
  "load_candidate_ledger E file =
     and_then (case file of
         NoLedgerFile \<Rightarrow> Inr default_candidate_ledger
       | UnreadableLedger m \<Rightarrow> Inl (memory_context ''Failed to read accepted-run memory candidate ledger''
           (MemoryMessage m))
       | LedgerFile l \<Rightarrow> Inr l) (\<lambda>raw.
     let l = migrate_superseded_derivations raw in
     and_then (validate_candidate_ledger E l) (\<lambda>_. Inr l))"

definition ledger_origin_of :: "ledger_file \<Rightarrow> ledger_origin" where
  "ledger_origin_of file = (if file = NoLedgerFile then AbsentLedger else LocalLedger)"

section \<open>Deriving a candidate\<close>

definition accepted_command_of :: "command_evidence \<Rightarrow> accepted_command" where
  "accepted_command_of c = \<lparr>ac_name = ce_name c, ac_command_digest = ce_command_digest c,
     ac_output_digest = ce_output_digest c, ac_exit_code = ce_exit_code c, ac_success = ce_success c,
     ac_output_bytes = ce_output_bytes c, ac_output_truncated = ce_output_truncated c\<rparr>"

definition source_assurance_of :: "run \<Rightarrow> decision_record \<Rightarrow> source_assurance_kind" where
  "source_assurance_of t d =
     (case (verification_profile t \<noteq> None, od_authentication d = CapabilityAuthenticated) of
        (True, True) \<Rightarrow> DaemonProfiledEvidenceAuthenticatedOperator
      | (True, False) \<Rightarrow> DaemonProfiledEvidenceDeclaredOperator
      | (False, _) \<Rightarrow> CallerComposedEvidenceDeclaredOperator)"

definition proposed_summary_of :: "source_assurance_kind \<Rightarrow> rstr \<Rightarrow> rstr" where
  "proposed_summary_of a task_text = lit ''Accepted governed outcome for task: '' @ task_text @
     lit (case a of
       DaemonProfiledEvidenceAuthenticatedOperator \<Rightarrow> ''. Daemon-profiled evidence passed and an authenticated operator approved it; pending semantic-memory review.''
     | DaemonProfiledEvidenceDeclaredOperator \<Rightarrow> ''. Daemon-profiled evidence passed; pending semantic-memory review.''
     | CallerComposedEvidenceDeclaredOperator \<Rightarrow> ''. Caller-composed evidence passed; pending semantic-memory review.'')"

definition candidate_source_of ::
    "run \<Rightarrow> claim_record \<Rightarrow> verification_record \<Rightarrow> verdict_record \<Rightarrow> decision_record \<Rightarrow> candidate_source" where
  "candidate_source_of t c v s d =
     \<lparr>ca_derivation_version = ACCEPTED_RUN_MEMORY_DERIVATION_VERSION, ca_project_id = project_id t,
      ca_workspace_root = workspace_root t, ca_task_id = run_id t,
      ca_accepted_revision = od_based_on d + 1, ca_task = task t, ca_criteria = acceptance_criteria t,
      ca_runtime_id = runtime_id t, ca_agent_id = agent_id t, ca_session_id = session_id t,
      ca_profile = verification_profile t, ca_policy = vf_policy v, ca_subject = vf_subject v,
      ca_claim_id = cl_id c, ca_verification_id = vf_id v, ca_verdict_id = sv_id s, ca_decision_id = od_id d,
      ca_claimed_artifacts = cl_artifacts c, ca_verification_artifacts = vf_artifacts v,
      ca_commands = map accepted_command_of (vf_commands v), ca_assurance = source_assurance_of t d,
      ca_staged_at = od_decided_at d\<rparr>"

definition candidate_of :: "memory_env \<Rightarrow> candidate_source \<Rightarrow> memory_candidate" where
  "candidate_of E src =
     (let hex = sha256_hex E (candidate_bytes E src) in
      candidate_source.extend src \<lparr>ca_id = lit ''memory-candidate-'' @ hex,
        ca_schema_version = ACCEPTED_RUN_MEMORY_CANDIDATE_SCHEMA_VERSION, ca_status = PendingReview,
        ca_summary = proposed_summary_of (ca_assurance src) (ca_task src),
        ca_source_digest = lit ''sha256-v1:'' @ hex\<rparr>)"

definition evidence_chain_coherent ::
    "run \<Rightarrow> claim_record \<Rightarrow> verification_record \<Rightarrow> verdict_record \<Rightarrow> decision_record \<Rightarrow> bool" where
  "evidence_chain_coherent t c v s d \<longleftrightarrow> vf_outcome v = Passed \<and> vf_claim_id v = cl_id c \<and>
     vf_subject v = cl_subject c \<and> sv_verdict s = RecommendAccept \<and> sv_verification_id s = vf_id v \<and>
     od_decision d = Approve \<and> od_verdict_id d = sv_id s \<and> od_based_on d + 1 \<le> revision t"

definition derive_accepted_run_memory_candidate :: "memory_env \<Rightarrow> run \<Rightarrow> memory_error + memory_candidate" where
  "derive_accepted_run_memory_candidate E t =
     and_then (memory_bail_unless (review_state t = Accepted) (lit ''governed task `'' @ run_id t @
       lit ''` is not eligible for a memory candidate'')) (\<lambda>_.
     and_then (ok_or (latest_claim t) (MemoryMessage (lit
       ''accepted governed task has no current worker claim''))) (\<lambda>c.
     and_then (ok_or (latest_verification t) (MemoryMessage (lit
       ''accepted governed task has no current verification''))) (\<lambda>v.
     and_then (ok_or (latest_supervisor_verdict t) (MemoryMessage (lit
       ''accepted governed task has no current Supervisor verdict''))) (\<lambda>s.
     and_then (ok_or (last_opt (operator_decisions t)) (MemoryMessage (lit
       ''accepted governed task has no current operator decision''))) (\<lambda>d.
     and_then (ok_or (checked_add_u64 (od_based_on d) 1) (MemoryMessage (lit
       ''accepted governed task operator decision revision exhausted u64''))) (\<lambda>_.
     and_then (memory_bail_unless (evidence_chain_coherent t c v s d) (lit ''accepted governed task `'' @
       run_id t @ lit ''` has an incoherent candidate evidence chain'')) (\<lambda>_.
     let candidate = candidate_of E (candidate_source_of t c v s d) in
     and_then (map_err MemoryContract (try_new_id (ca_id candidate))) (\<lambda>_.
     and_then (map_err MemoryContract (validate_candidate E candidate)) (\<lambda>_. Inr candidate)))))))))"

fun derive_all :: "memory_env \<Rightarrow> run list \<Rightarrow> memory_error + memory_candidate list" where
  "derive_all E [] = Inr []"
| "derive_all E (t # ts) =
     and_then (derive_accepted_run_memory_candidate E t) (\<lambda>c.
     and_then (derive_all E ts) (\<lambda>cs. Inr (c # cs)))"

definition expected_accepted_run_candidates ::
    "memory_env \<Rightarrow> run list \<Rightarrow> memory_error + (rstr, memory_candidate) btree" where
  "expected_accepted_run_candidates E ts =
     and_then (derive_all E (filter is_accepted ts)) (\<lambda>cs.
       Inr (fold (\<lambda>c m. bt_insert (ca_id c) c m) cs bt_empty))"

definition governed_tasks_on_disk ::
    "env \<Rightarrow> site \<Rightarrow> (rstr \<Rightarrow> nat \<Rightarrow> rstr \<times> rstr) \<Rightarrow> ledger \<Rightarrow> state_error + run list" where
  "governed_tasks_on_disk E S draw l =
     and_then (load_ledger E S draw l) (\<lambda>loaded. Inr (bt_values (tasks loaded)))"

definition matches_ignoring_status :: "memory_candidate \<Rightarrow> memory_candidate \<Rightarrow> bool" where
  "matches_ignoring_status stored expected \<longleftrightarrow> stored\<lparr>ca_status := ca_status expected\<rparr> = expected"

section \<open>Reconciliation with the tasks\<close>

definition check_reconcilable ::
    "(rstr, memory_candidate) btree \<Rightarrow> rstr \<times> memory_candidate \<Rightarrow> memory_error + unit" where
  "check_reconcilable expected = (\<lambda>(k, stored).
     and_then (ok_or (bt_get expected k) (MemoryMessage (lit ''memory candidate `'' @ k @
       lit ''` is orphaned from accepted governed-task truth''))) (\<lambda>e.
     memory_bail_unless (matches_ignoring_status stored e) (lit ''memory candidate `'' @ k @
       lit ''` does not match its accepted governed-task source'')))"

fun add_missing :: "(rstr \<times> memory_candidate) list \<Rightarrow> candidate_ledger \<Rightarrow> candidate_ledger" where
  "add_missing [] l = l"
| "add_missing ((k, c) # cs) l = add_missing cs
     (if bt_contains (cg_candidates l) k then l
      else case bt_get (cg_parked l) (ca_task_id c) of
          None \<Rightarrow> l\<lparr>cg_candidates := bt_insert k c (cg_candidates l)\<rparr>
        | Some status \<Rightarrow> l\<lparr>cg_candidates := bt_insert k (carry_status_forward status c) (cg_candidates l),
            cg_parked := bt_remove (ca_task_id c) (cg_parked l)\<rparr>)"

definition reconciled_candidate_ledger ::
    "candidate_ledger \<Rightarrow> (rstr, memory_candidate) btree \<Rightarrow> memory_error + candidate_ledger option" where
  "reconciled_candidate_ledger l expected =
     and_then (checks (map (check_reconcilable expected) (cg_candidates l))) (\<lambda>_.
     let added = add_missing expected l;
         repaired = added\<lparr>cg_parked := filter (\<lambda>(_, status). \<not> status_is_pending status) (cg_parked added)\<rparr>
     in Inr (if cg_candidates repaired \<noteq> cg_candidates l \<or> cg_parked repaired \<noteq> cg_parked l
        then Some repaired else None))"

definition reconcile_accepted_run_memory_candidates ::
    "memory_env \<Rightarrow> memory_io \<Rightarrow> run list \<Rightarrow> (state_error + run list) \<Rightarrow> memory_state \<Rightarrow>
     (memory_error + unit) \<times> memory_state" where
  "reconcile_accepted_run_memory_candidates E io own_tasks disk_tasks st =
     (case expected_accepted_run_candidates E own_tasks of
        Inl e \<Rightarrow> (Inl e, st)
      | Inr own \<Rightarrow>
          if reconciled_candidate_ledger (mm_ledger st) own = Inr None then (Inr (), st)
          else case and_then (map_err (\<lambda>m. memory_context
              ''Failed to lock project state to reconcile memory candidates'' (MemoryMessage m)) (io_lock io)) (\<lambda>_.
            and_then (load_candidate_ledger E (mm_ledger_file st)) (\<lambda>current.
            and_then (map_err TaskLedger disk_tasks) (\<lambda>ts.
            and_then (expected_accepted_run_candidates E ts) (\<lambda>expected.
            and_then (reconciled_candidate_ledger current expected) (\<lambda>repaired. Inr (current, repaired)))))) of
              Inl e \<Rightarrow> (Inl e, st)
            | Inr (current, None) \<Rightarrow> (Inr (), st\<lparr>mm_ledger := current\<rparr>)
            | Inr (_, Some repaired) \<Rightarrow>
                (case io_ledger io of
                   Inl m \<Rightarrow> (Inl (memory_context
                     ''Failed to persist reconciled accepted-run memory candidates'' (MemoryMessage m)), st)
                 | Inr _ \<Rightarrow> (Inr (), st\<lparr>mm_ledger := repaired, mm_ledger_file := LedgerFile repaired\<rparr>)))"

section \<open>Reconciliation with the log\<close>

definition adopted_decision_actor :: governed_actor where
  "adopted_decision_actor = \<lparr>ac_kind = System, ac_id = lit ''adopted-from-checkout''\<rparr>"

fun adopt_entry :: "log_entry \<Rightarrow> candidate_ledger \<Rightarrow> candidate_ledger" where
  "adopt_entry e l =
     (case me_source (le_record e) of
        OperatorManual _ \<Rightarrow> l
      | CandidateRef candidate_id _ task_id \<Rightarrow>
          (let status = PromotedTo (me_id (le_record e)) (me_valid_from (le_record e)) adopted_decision_actor in
           case bt_get (cg_candidates l) candidate_id of
             Some c \<Rightarrow> if status_is_pending (ca_status c)
               then l\<lparr>cg_candidates := bt_insert candidate_id (c\<lparr>ca_status := status\<rparr>) (cg_candidates l)\<rparr> else l
           | None \<Rightarrow> l\<lparr>cg_parked := bt_insert task_id status (cg_parked l)\<rparr>))"

definition adopt_log :: "memory_log \<Rightarrow> log_head \<Rightarrow> candidate_ledger \<Rightarrow> candidate_ledger" where
  "adopt_log log head l = fold adopt_entry (ml_committed log) (l\<lparr>cg_head := Some head\<rparr>)"

definition adopt_checked_out_log ::
    "memory_env \<Rightarrow> memory_io \<Rightarrow> memory_log \<Rightarrow> memory_state \<Rightarrow> (memory_error + unit) \<times> memory_state" where
  "adopt_checked_out_log E io log st =
     (case log_head_of log of
        None \<Rightarrow> (Inr (), st)
      | Some adopted \<Rightarrow>
          (case and_then (map_err (\<lambda>m. memory_context
              ''Failed to lock project state to adopt the memory log'' (MemoryMessage m)) (io_lock io)) (\<lambda>_.
            load_candidate_ledger E (mm_ledger_file st)) of
             Inl e \<Rightarrow> (Inl e, st)
           | Inr current \<Rightarrow>
               if cg_head current \<noteq> None then (Inr (), st\<lparr>mm_ledger := current\<rparr>)
               else let repaired = adopt_log log adopted current in
                 (case io_ledger io of
                    Inl m \<Rightarrow> (Inl (memory_context
                      ''Failed to record the adopted promoted-memory log head'' (MemoryMessage m)), st)
                  | Inr _ \<Rightarrow> (Inr (), st\<lparr>mm_ledger := repaired, mm_ledger_file := LedgerFile repaired\<rparr>))))"

definition restore_projection ::
    "memory_env \<Rightarrow> memory_io \<Rightarrow> rstr \<Rightarrow> memory_log \<Rightarrow> memory_state \<Rightarrow> (memory_error + unit) \<times> memory_state" where
  "restore_projection E io now log st =
     (if projected_records log = [] \<and> pf_projection (mm_files st) = None then (Inr (), st\<lparr>mm_log := log\<rparr>)
      else case write_projection E (io_projection io) (io_marker io) (projected_records log) now False (mm_files st) of
          (Inl m, files) \<Rightarrow> (Inl (memory_context ''Failed to regenerate the GENOME projection'' (MemoryMessage m)),
            st\<lparr>mm_files := files\<rparr>)
        | (Inr _, files) \<Rightarrow> (Inr (), st\<lparr>mm_log := log, mm_files := files\<rparr>))"

definition reconcile_promoted_memory_log ::
    "memory_env \<Rightarrow> memory_io \<Rightarrow> rstr \<Rightarrow> ledger_origin \<Rightarrow> memory_state \<Rightarrow> (memory_error + unit) \<times> memory_state" where
  "reconcile_promoted_memory_log E io now origin st =
     (case and_then (map_err (\<lambda>e. memory_context ''Failed to load the promoted memory log'' (MemoryLogError e))
         (load_log E (mm_log_file st) (cg_head (mm_ledger st)) origin)) (\<lambda>log.
       and_then (map_err (\<lambda>e. memory_context ''Promoted memory log does not match the candidate ledger''
           (MemoryLogError e))
         (cross_check_statuses log (bt_values (cg_candidates (mm_ledger st))) (cg_parked (mm_ledger st))
           (origin = LocalLedger))) (\<lambda>_. Inr log)) of
        Inl e \<Rightarrow> (Inl e, st)
      | Inr log \<Rightarrow>
          (case (if origin = AbsentLedger then adopt_checked_out_log E io log st else (Inr (), st)) of
             (Inl e, st') \<Rightarrow> (Inl e, st')
           | (Inr _, st') \<Rightarrow> restore_projection E io now log st'))"

section \<open>Recording a candidate after an acceptance\<close>

definition ensure_accepted_run_memory_candidate ::
    "memory_env \<Rightarrow> memory_io \<Rightarrow> run \<Rightarrow> memory_state \<Rightarrow> (memory_error + unit) \<times> memory_state" where
  "ensure_accepted_run_memory_candidate E io t st =
     (if \<not> is_accepted t then (Inr (), st)
      else case and_then (derive_accepted_run_memory_candidate E t) (\<lambda>c.
        and_then (map_err (\<lambda>m. memory_context
          ''Failed to lock project state to record a memory candidate'' (MemoryMessage m)) (io_lock io)) (\<lambda>_.
        and_then (load_candidate_ledger E (mm_ledger_file st)) (\<lambda>l. Inr (c, l)))) of
          Inl e \<Rightarrow> (Inl e, st)
        | Inr (c, l) \<Rightarrow>
            let st' = st\<lparr>mm_ledger := l\<rparr> in
            (case bt_get (cg_candidates l) (ca_id c) of
               Some stored \<Rightarrow>
                 (memory_bail_unless (matches_ignoring_status stored c) (lit ''memory candidate `'' @ ca_id c @
                    lit ''` conflicts with its deterministic accepted-run projection''), st')
             | None \<Rightarrow>
                 if list_ex (\<lambda>x. ca_task_id x = run_id t) (bt_values (cg_candidates l))
                 then (Inl (MemoryMessage (lit ''governed task `'' @ run_id t @
                   lit ''` already has a different memory candidate'')), st')
                 else let updated = l\<lparr>cg_candidates := bt_insert (ca_id c) c (cg_candidates l)\<rparr> in
                   (case io_ledger io of
                      Inl m \<Rightarrow> (Inl (memory_context
                        ''Failed to persist accepted-run memory candidate'' (MemoryMessage m)), st')
                    | Inr _ \<Rightarrow> (Inr (), st'\<lparr>mm_ledger := updated, mm_ledger_file := LedgerFile updated\<rparr>))))"

fun insert_staged :: "memory_candidate \<Rightarrow> memory_candidate list \<Rightarrow> memory_candidate list" where
  "insert_staged c [] = [c]"
| "insert_staged c (d # ds) = (if ca_staged_at d \<le> ca_staged_at c then c # d # ds else d # insert_staged c ds)"

definition list_accepted_run_memory_candidates ::
    "site \<Rightarrow> rstr \<Rightarrow> memory_state \<Rightarrow> memory_error + memory_candidate list" where
  "list_accepted_run_memory_candidates S project st =
     and_then (map_err TaskLedger (require_project (governed_project_id S) project)) (\<lambda>_.
       Inr (foldr insert_staged
         (filter (\<lambda>c. ca_project_id c = project) (bt_values (cg_candidates (mm_ledger st)))) []))"

section \<open>Deciding a candidate\<close>

fun tail_candidate_id :: "log_entry \<Rightarrow> rstr option" where
  "tail_candidate_id e = (case me_source (le_record e) of CandidateRef c _ _ \<Rightarrow> Some c | OperatorManual _ \<Rightarrow> None)"

definition is_foreign_tail :: "log_entry \<Rightarrow> candidate_ledger \<Rightarrow> bool" where
  "is_foreign_tail e l =
     (if bt_contains (cg_decisions l) (me_request_id (le_record e)) then False
      else case me_source (le_record e) of
          OperatorManual _ \<Rightarrow> True
        | CandidateRef candidate_id _ task_id \<Rightarrow>
            if bt_contains (cg_candidates l) candidate_id then False
            else \<not> bt_contains (cg_parked l) task_id)"

definition require_idempotent_decision ::
    "memory_decision_record \<Rightarrow> memory_decision_input \<Rightarrow> memory_error + unit" where
  "require_idempotent_decision recorded i =
     ensure (md_candidate_id recorded = mi_candidate_id i \<and> md_decision recorded = mi_decision i \<and>
         md_actor recorded = mi_actor i \<and> md_based_on recorded = mi_expected_revision i)
       (Refused (DecisionPayloadConflict (mi_request_id i)))"

definition replayed_decision ::
    "memory_env \<Rightarrow> memory_decision_input \<Rightarrow> memory_decision_record \<Rightarrow> candidate_ledger \<Rightarrow> memory_log \<Rightarrow>
     index_marker option \<Rightarrow> memory_error + memory_decision_outcome" where
  "replayed_decision E i recorded l log marker =
     and_then (require_idempotent_decision recorded i) (\<lambda>_.
     and_then (ok_or (bt_get (cg_candidates l) (md_candidate_id recorded))
       (Refused (CandidateNotFound (md_candidate_id recorded)))) (\<lambda>c.
     Inr \<lparr>mo_decision = recorded, mo_candidate = c,
       mo_record = Option.bind (md_record_id recorded) (committed_record log), mo_replayed = True,
       mo_projection_digest = projection_digest E (render_projection (projected_records log)),
       mo_index_dirty = (case marker of None \<Rightarrow> False | Some m \<Rightarrow> is_dirty m)\<rparr>))"

definition adopted_tail ::
    "memory_decision_input \<Rightarrow> candidate_ledger \<Rightarrow> memory_log \<Rightarrow> memory_error + memory_record option" where
  "adopted_tail i l log =
     (case ml_tail log of
        [] \<Rightarrow> Inr None
      | e # _ \<Rightarrow>
          if me_request_id (le_record e) = mi_request_id i then Inr (Some (le_record e))
          else if is_foreign_tail e l
          then Inl (Refused (ForeignUncommittedTail (me_request_id (le_record e))
            (case tail_candidate_id e of Some c \<Rightarrow> c | None \<Rightarrow> lit ''<none>'')
            (case cg_head l of Some h \<Rightarrow> lh_entry_count h | None \<Rightarrow> 0)))
          else Inl (Refused (InterruptedDecision (me_request_id (le_record e)))))"

text \<open>The checks before anything is written: the stored candidate and the entry to adopt, if any.\<close>

definition check_decision ::
    "memory_decision_input \<Rightarrow> (rstr, memory_candidate) btree \<Rightarrow> candidate_ledger \<Rightarrow> memory_log \<Rightarrow>
     memory_error + memory_candidate \<times> memory_record option" where
  "check_decision i expected l log =
     and_then (ensure (cg_revision l = mi_expected_revision i)
       (Refused (LedgerRevisionConflict (mi_expected_revision i) (cg_revision l)))) (\<lambda>_.
     and_then (ok_or (bt_get (cg_candidates l) (mi_candidate_id i))
       (Refused (CandidateNotFound (mi_candidate_id i)))) (\<lambda>stored.
     and_then (ensure (status_is_pending (ca_status stored))
       (Refused (AlreadyDecided (mi_candidate_id i) (status_label (ca_status stored))))) (\<lambda>_.
     and_then (ensure (case bt_get expected (mi_candidate_id i) of
           Some e \<Rightarrow> matches_ignoring_status stored e | None \<Rightarrow> False)
       (Refused (SupersededCandidate (mi_candidate_id i)))) (\<lambda>_.
     and_then (adopted_tail i l log) (\<lambda>adopted.
     and_then (ok_or (checked_add_u64 (cg_revision l) 1)
       (MemoryMessage (lit ''memory candidate ledger revision exhausted u64''))) (\<lambda>_.
     Inr (stored, adopted)))))))"

text \<open>The decided status, the log it leaves, and the record; a promotion with nothing to adopt appends.\<close>

definition decided_status ::
    "memory_env \<Rightarrow> memory_io \<Rightarrow> memory_decision_input \<Rightarrow> rstr \<Rightarrow> memory_candidate \<Rightarrow> memory_record option \<Rightarrow>
     nat \<Rightarrow> memory_log \<Rightarrow> log_line list option \<Rightarrow>
     (memory_error + candidate_status \<times> rstr \<times> memory_record option \<times> memory_log) \<times> log_line list option" where
  "decided_status E io i now stored adopted based_on log file =
     (case mi_decision i of
        Promote \<Rightarrow>
          (case derive_promoted_record E stored (mi_request_id i) based_on now of
             Inl e \<Rightarrow> (Inl (MemoryRecordError e), file)
           | Inr derived \<Rightarrow>
               (case adopted of
                  Some tail \<Rightarrow>
                    if me_id tail \<noteq> me_id derived
                    then (Inl (Refused (DecisionPayloadConflict (mi_request_id i))), file)
                    else (Inr (PromotedTo (me_id tail) (me_valid_from tail) (mi_actor i), me_valid_from tail,
                      Some tail, log), file)
                | None \<Rightarrow>
                    (case append_entry E (io_append io) derived log file of
                       (Inl m, file') \<Rightarrow> (Inl (memory_context ''Failed to append to the promoted memory log''
                         (MemoryMessage m)), file')
                     | (Inr log', file') \<Rightarrow>
                         (Inr (PromotedTo (me_id derived) now (mi_actor i), now, Some derived, log'), file'))))
      | Dismiss reason \<Rightarrow>
          (if adopted \<noteq> None then (Inl (Refused (DecisionPayloadConflict (mi_request_id i))), file)
           else (Inr (Dismissed reason now (mi_actor i), now, None, log), file)))"

definition decision_record_of ::
    "memory_decision_input \<Rightarrow> operator_authentication \<Rightarrow> rstr \<Rightarrow> nat \<Rightarrow> memory_record option \<Rightarrow>
     memory_decision_record" where
  "decision_record_of i auth decided_at based_on r =
     \<lparr>md_request_id = mi_request_id i, md_candidate_id = mi_candidate_id i, md_decision = mi_decision i,
      md_actor = mi_actor i, md_authentication = auth, md_decided_at = decided_at, md_based_on = based_on,
      md_resulting = based_on + 1, md_record_id = map_option me_id r\<rparr>"

definition decided_ledger ::
    "memory_decision_input \<Rightarrow> memory_decision_record \<Rightarrow> memory_candidate \<Rightarrow> log_head option \<Rightarrow> candidate_ledger \<Rightarrow>
     candidate_ledger" where
  "decided_ledger i d updated head l =
     l\<lparr>cg_schema_version := MEMORY_CANDIDATES_LEDGER_SCHEMA_VERSION, cg_revision := md_resulting d,
       cg_candidates := bt_insert (mi_candidate_id i) updated (cg_candidates l), cg_head := head,
       cg_decisions := bt_insert (mi_request_id i) d (cg_decisions l)\<rparr>"

definition commit_decision ::
    "memory_env \<Rightarrow> memory_io \<Rightarrow> memory_decision_input \<Rightarrow> operator_authentication \<Rightarrow> rstr \<Rightarrow>
     memory_candidate \<Rightarrow> candidate_status \<Rightarrow> rstr \<Rightarrow> memory_record option \<Rightarrow> memory_state \<Rightarrow>
     (memory_error + memory_decision_outcome) \<times> memory_state" where
  "commit_decision E io i auth now stored status decided_at r st =
     (let l = mm_ledger st; log = mm_log st; updated = stored\<lparr>ca_status := status\<rparr>;
          head = (if is_promote (mi_decision i) then full_head log else cg_head l);
          d = decision_record_of i auth decided_at (cg_revision l) r; l' = decided_ledger i d updated head l in
      case validate_candidate E updated of
        Inl e \<Rightarrow> (Inl (memory_context ''Decided memory candidate failed its own contract'' (MemoryContract e)), st)
      | Inr _ \<Rightarrow>
          (case io_ledger io of
             Inl m \<Rightarrow> (Inl (memory_context ''Failed to persist memory candidate decision'' (MemoryMessage m)), st)
           | Inr _ \<Rightarrow>
               let st' = st\<lparr>mm_ledger := l', mm_ledger_file := LedgerFile l', mm_log := commit_tail log\<rparr> in
               (case write_projection E (io_projection io) (io_marker io) (projected_records (commit_tail log)) now
                   (is_promote (mi_decision i)) (mm_files st') of
                  (Inl m, files) \<Rightarrow> (Inl (MemoryMessage m), st'\<lparr>mm_files := files\<rparr>)
                | (Inr (digest, dirty), files) \<Rightarrow>
                    (Inr \<lparr>mo_decision = d, mo_candidate = updated, mo_record = r, mo_replayed = False,
                       mo_projection_digest = digest, mo_index_dirty = dirty\<rparr>, st'\<lparr>mm_files := files\<rparr>))))"

definition decide_loaded ::
    "memory_env \<Rightarrow> memory_io \<Rightarrow> memory_decision_input \<Rightarrow> operator_authentication \<Rightarrow> rstr \<Rightarrow>
     (rstr, memory_candidate) btree \<Rightarrow> memory_state \<Rightarrow> (memory_error + memory_decision_outcome) \<times> memory_state" where
  "decide_loaded E io i auth now expected st =
     (let l = mm_ledger st; log = mm_log st in
      case bt_get (cg_decisions l) (mi_request_id i) of
        Some recorded \<Rightarrow> (replayed_decision E i recorded l log (pf_marker (mm_files st)), st)
      | None \<Rightarrow>
          (case check_decision i expected l log of
             Inl e \<Rightarrow> (Inl e, st)
           | Inr (stored, adopted) \<Rightarrow>
               (case decided_status E io i now stored adopted (cg_revision l) log (mm_log_file st) of
                  (Inl e, file) \<Rightarrow> (Inl e, st\<lparr>mm_log_file := file\<rparr>)
                | (Inr (status, decided_at, r, log'), file) \<Rightarrow>
                    commit_decision E io i auth now stored status decided_at r
                      (st\<lparr>mm_log := log', mm_log_file := file\<rparr>))))"

definition decide_memory_candidate ::
    "memory_env \<Rightarrow> site \<Rightarrow> memory_io \<Rightarrow> (state_error + run list) \<Rightarrow> memory_decision_input \<Rightarrow>
     operator_authentication \<Rightarrow> rstr \<Rightarrow> memory_state \<Rightarrow> (memory_error + memory_decision_outcome) \<times> memory_state" where
  "decide_memory_candidate E S io disk_tasks i auth now st =
     (case and_then (map_err (\<lambda>e. memory_context ''Invalid memory candidate decision'' (MemoryWiring e))
         (validate_decision_input i)) (\<lambda>_.
       and_then (ensure (mi_project_id i = governed_project_id S)
         (Refused (DecisionProjectMismatch (governed_project_id S) (mi_project_id i)))) (\<lambda>_.
       and_then (map_err (\<lambda>m. memory_context ''Failed to lock project state to record a memory decision''
         (MemoryMessage m)) (io_lock io)) (\<lambda>_.
       load_candidate_ledger E (mm_ledger_file st)))) of
        Inl e \<Rightarrow> (Inl e, st)
      | Inr l \<Rightarrow>
          let st1 = st\<lparr>mm_ledger := l\<rparr> in
          (case and_then (map_err TaskLedger disk_tasks) (expected_accepted_run_candidates E) of
             Inl e \<Rightarrow> (Inl e, st1)
           | Inr expected \<Rightarrow>
               (case load_log E (mm_log_file st) (cg_head l) LocalLedger of
                  Inl e \<Rightarrow> (Inl (memory_context ''Failed to load the promoted memory log'' (MemoryLogError e)), st1)
                | Inr log \<Rightarrow> decide_loaded E io i auth now expected (st1\<lparr>mm_log := log\<rparr>))))"

section \<open>Queries and indexing\<close>

definition list_promoted_memory_records :: "memory_state \<Rightarrow> memory_record list" where
  "list_promoted_memory_records st = projected_records (mm_log st)"

definition read_genome_projection :: "memory_state \<Rightarrow> rstr option" where
  "read_genome_projection st = pf_projection (mm_files st)"

definition memory_retrieval_index_is_dirty :: "memory_state \<Rightarrow> bool" where
  "memory_retrieval_index_is_dirty st = (case pf_marker (mm_files st) of None \<Rightarrow> False | Some m \<Rightarrow> is_dirty m)"

text \<open>The retrieval index itself is another store; \<open>reindex\<close> is its answer for the given records.\<close>

definition index_promoted_memory_records ::
    "memory_env \<Rightarrow> memory_io \<Rightarrow> (memory_record list \<Rightarrow> rstr + nat) \<Rightarrow> rstr \<Rightarrow> memory_state \<Rightarrow>
     (memory_error + nat) \<times> memory_state" where
  "index_promoted_memory_records E io reindex now st =
     (case reindex (list_promoted_memory_records st) of
        Inl m \<Rightarrow> (Inl (memory_context ''Failed to index promoted memory records'' (MemoryMessage m)), st)
      | Inr n \<Rightarrow>
          (case stamp_indexed (io_marker io) (projection_digest E (render_projection
              (list_promoted_memory_records st))) now (mm_files st) of
             (Inl m, files) \<Rightarrow> (Inl (memory_context ''Failed to stamp the memory retrieval index marker''
               (MemoryMessage m)), st\<lparr>mm_files := files\<rparr>)
           | (Inr _, files) \<Rightarrow> (Inr n, st\<lparr>mm_files := files\<rparr>)))"

section \<open>After a mutation\<close>

text \<open>
  A governed mutation hands its run over once the task ledger is committed (or once a replayed request
  was answered from it): the answer fails if the candidate cannot be recorded, the commit stands.  The
  answer to a cancel of an ended run hands nothing over.
\<close>

definition mutate_and_hand_over ::
    "memory_env \<Rightarrow> site \<Rightarrow> ambient \<Rightarrow> memory_io \<Rightarrow> mutation_request \<Rightarrow> operator_authentication \<Rightarrow>
     ledger \<Rightarrow> memory_state \<Rightarrow> (memory_error + run) \<times> ledger \<times> memory_state" where
  "mutate_and_hand_over E S A io q auth l st =
     (case mutate_governed_task_authenticated (env.truncate E) S A q auth l of
        Inl e \<Rightarrow> (Inl (TaskLedger e), l, st)
      | Inr (l', t) \<Rightarrow>
          if bt_get (processed_requests l) (mr_request_id q) = None \<and>
             (case bt_get (tasks l) (mr_task_id q) of None \<Rightarrow> False
              | Some current \<Rightarrow> answered_cancel current (mr_mutation q))
          then (Inr t, l', st)
          else (case ensure_accepted_run_memory_candidate E io t st of
              (Inl e, st') \<Rightarrow> (Inl e, l', st')
            | (Inr _, st') \<Rightarrow> (Inr t, l', st')))"

end
