(* ===== verification/Ledger_Invariants.thy ===== *)
theory Ledger_Invariants
  imports Governed_Ledger
begin

text \<open>
  What a successful ledger operation does, and the invariants of the ledgers the daemon can hold:
  well-formed maps, keys that are record ids, request ids that are bound forever, a schema version
  that covers the contents.
\<close>

section \<open>What an operation does\<close>

definition committed :: "run \<Rightarrow> rstr \<Rightarrow> receipt \<Rightarrow> ledger \<Rightarrow> ledger" where
  "committed t request_id re l = stamp_schema_version (l\<lparr>tasks := bt_insert (run_id t) t (tasks l),
     processed_requests := bt_insert request_id re (processed_requests l)\<rparr>)"

lemma commit_Inr [simp]:
  "(commit A label t rid re l = Inr x) = (am_write A = Inr () \<and> x = (committed t rid re l, t))"
  by (cases x) (auto simp: commit_def committed_def)

lemma committed_fields [simp]:
  "tasks (committed t rid re l) = bt_insert (run_id t) t (tasks l)"
  "processed_requests (committed t rid re l) = bt_insert rid re (processed_requests l)"
  by (simp_all add: committed_def stamp_schema_version_def)

definition registered_as :: "site \<Rightarrow> registration \<Rightarrow> registration \<Rightarrow> bool" where
  "registered_as S r0 r \<longleftrightarrow> validate_registration r0 = Inr () \<and> project_id r0 = governed_project_id S \<and>
     (\<exists>root. canonical_governed_workspace S (workspace_root r0) = Inr root \<and> r = r0\<lparr>workspace_root := root\<rparr>)"

lemma registered_as_fields:
  assumes "registered_as S r0 r"
  shows "rg_request_id r = rg_request_id r0" "rg_task_id r = rg_task_id r0"
    "project_id r = governed_project_id S"
  using assms by (auto simp: registered_as_def)

lemma register_known:
  assumes "bt_get (processed_requests l) (rg_request_id r0) = Some re"
    and "register_governed_task E S A r0 l = Inr (l', t)"
  shows "l' = l" "bt_get (tasks l) (re_task_id re) = Some t" "re_revision re \<le> revision t"
    "\<exists>r. registered_as S r0 r \<and> re_fingerprint re = fingerprint_registration E r"
  using assms
  by (auto simp: register_governed_task_def registered_as_def require_project_def Let_def
      require_idempotent_fingerprint_def require_receipt_revision_def bail_unless_def)

lemma register_fresh:
  assumes "bt_get (processed_requests l) (rg_request_id r0) = None"
    and "register_governed_task E S A r0 l = Inr (l', t)"
  obtains r where "registered_as S r0 r" "bt_get (tasks l) (rg_task_id r0) = None"
    "t = initial_run r (am_now A) (am_event_uuid A)"
    "l' = committed t (rg_request_id r0) \<lparr>re_task_id = rg_task_id r0, re_revision = 0,
       re_fingerprint = fingerprint_registration E r\<rparr> l"
proof -
  from assms obtain root where root: "canonical_governed_workspace S (workspace_root r0) = Inr root"
    "validate_registration r0 = Inr ()" "governed_project_id S = project_id r0"
    by (auto simp: register_governed_task_def require_project_def)
  let ?r = "r0\<lparr>workspace_root := root\<rparr>"
  have "registered_as S r0 ?r" using root by (simp add: registered_as_def)
  moreover from assms root have "bt_get (tasks l) (rg_task_id r0) = None"
    by (simp add: register_governed_task_def require_project_def Let_def bt_contains_def split: if_splits)
  moreover from this assms root have "t = initial_run ?r (am_now A) (am_event_uuid A)"
    "l' = committed t (rg_request_id r0) \<lparr>re_task_id = rg_task_id r0, re_revision = 0,
       re_fingerprint = fingerprint_registration E ?r\<rparr> l"
    by (simp_all add: register_governed_task_def require_project_def Let_def bt_contains_def)
  ultimately show thesis by (rule that)
qed

text \<open>The admission of a fresh mutation request, up to the transition itself.\<close>

definition admitted :: "site \<Rightarrow> mutation_request \<Rightarrow> ledger \<Rightarrow> run \<Rightarrow> bool" where
  "admitted S q l t \<longleftrightarrow> bt_get (processed_requests l) (mr_request_id q) = None \<and>
     bt_get (tasks l) (mr_task_id q) = Some t \<and> mr_project_id q = governed_project_id S \<and>
     project_id t = governed_project_id S \<and>
     require_current_lease_generation t (mr_mutation q) (mr_fencing_generation q) = Inr () \<and>
     revision t = mr_expected_revision q"

lemma mutate_known:
  assumes "bt_get (processed_requests l) (mr_request_id q) = Some re"
    and "mutate_governed_task_authenticated E S A q auth l = Inr (l', t)"
  shows "l' = l" "bt_get (tasks l) (mr_task_id q) = Some t" "re_task_id re = mr_task_id q"
    "re_fingerprint re = fingerprint_mutation E (mr_project_id q) (mr_task_id q) (mr_mutation q)"
  using assms
  by (auto simp: mutate_governed_task_authenticated_def Let_def require_idempotent_fingerprint_def)

lemma mutate_admitted:
  assumes "bt_get (processed_requests l) (mr_request_id q) = None"
    and "mutate_governed_task_authenticated E S A q auth l = Inr (l', t')"
  obtains t where "admitted S q l t"
  using assms
  by (auto simp: mutate_governed_task_authenticated_def Let_def require_project_def admitted_def)

lemma mutate_fresh:
  assumes "admitted S q l t"
  shows "mutate_governed_task_authenticated E S A q auth l =
    (if answered_cancel t (mr_mutation q)
     then and_then (check_answered_cancel (mr_mutation q)) (\<lambda>_. Inr (l, t))
     else and_then (run_step E t (op_of A (mr_mutation q) auth)) (\<lambda>t'.
       commit A ''Failed to persist governed task mutation'' t' (mr_request_id q)
         \<lparr>re_task_id = run_id t', re_revision = revision t',
          re_fingerprint = fingerprint_mutation E (mr_project_id q) (mr_task_id q) (mr_mutation q)\<rparr> l))"
  using assms
  by (simp add: mutate_governed_task_authenticated_def Let_def require_project_def admitted_def)

lemma ledger_stepE:
  assumes "ledger_step E S l op = Inr l'"
  obtains (same) "l' = l"
  | (registered) r0 r t where "lq_request op = Register r0" "registered_as S r0 r"
    "bt_get (processed_requests l) (rg_request_id r0) = None" "bt_get (tasks l) (rg_task_id r0) = None"
    "t = initial_run r (am_now (lq_ambient op)) (am_event_uuid (lq_ambient op))"
    "l' = committed t (rg_request_id r0) \<lparr>re_task_id = rg_task_id r0, re_revision = 0,
       re_fingerprint = fingerprint_registration E r\<rparr> l"
  | (mutated) q auth t t' where "lq_request op = Mutate q auth" "admitted S q l t"
    "\<not> answered_cancel t (mr_mutation q)"
    "run_step E t (op_of (lq_ambient op) (mr_mutation q) auth) = Inr t'"
    "l' = committed t' (mr_request_id q) \<lparr>re_task_id = run_id t', re_revision = revision t',
       re_fingerprint = fingerprint_mutation E (mr_project_id q) (mr_task_id q) (mr_mutation q)\<rparr> l"
proof (cases "lq_request op")
  case (Register r0)
  then obtain t where t: "register_governed_task E S (lq_ambient op) r0 l = Inr (l', t)"
    using assms by (auto simp: ledger_step_def ledger_call_def)
  show thesis
  proof (cases "bt_get (processed_requests l) (rg_request_id r0)")
    case None
    from register_fresh [OF None t] registered [OF Register _ None] show thesis by metis
  next
    case (Some re)
    from register_known(1) [OF Some t] show thesis by (rule same)
  qed
next
  case (Mutate q auth)
  then obtain t' where t': "mutate_governed_task_authenticated E S (lq_ambient op) q auth l = Inr (l', t')"
    using assms by (auto simp: ledger_step_def ledger_call_def)
  show thesis
  proof (cases "bt_get (processed_requests l) (mr_request_id q)")
    case None
    obtain t where t: "admitted S q l t" using mutate_admitted [OF None t'] .
    show thesis
    proof (cases "answered_cancel t (mr_mutation q)")
      case True
      then have "l' = l" using t' by (simp add: mutate_fresh [OF t])
      then show thesis by (rule same)
    next
      case False
      with t' show thesis
        by (intro mutated [OF Mutate t False, of t']) (simp_all add: mutate_fresh [OF t])
    qed
  next
    case (Some re)
    from mutate_known(1) [OF Some t'] show thesis by (rule same)
  qed
qed

section \<open>Well-formed ledgers\<close>

definition ledger_wf :: "ledger \<Rightarrow> bool" where
  "ledger_wf l \<longleftrightarrow> bt_wf (tasks l) \<and> bt_wf (processed_requests l) \<and>
     (\<forall>k t. bt_get (tasks l) k = Some t \<longrightarrow> run_id t = k) \<and>
     required_schema_version l \<le> schema_version l \<and>
     schema_version l \<in> {GOVERNED_TASKS_LEGACY_SCHEMA_VERSION, GOVERNED_TASKS_SCHEMA_VERSION}"

lemmas schema_versions = GOVERNED_TASKS_LEGACY_SCHEMA_VERSION_def GOVERNED_TASKS_SCHEMA_VERSION_def

lemma required_schema_cases:
  "required_schema_version l \<in> {GOVERNED_TASKS_LEGACY_SCHEMA_VERSION, GOVERNED_TASKS_SCHEMA_VERSION}"
  by (simp add: required_schema_version_def)

lemma stamp_covers:
  "required_schema_version (stamp_schema_version l) \<le> schema_version (stamp_schema_version l)"
  "schema_version l \<le> schema_version (stamp_schema_version l)"
  "schema_version l \<in> {GOVERNED_TASKS_LEGACY_SCHEMA_VERSION, GOVERNED_TASKS_SCHEMA_VERSION} \<Longrightarrow>
   schema_version (stamp_schema_version l) \<in> {GOVERNED_TASKS_LEGACY_SCHEMA_VERSION, GOVERNED_TASKS_SCHEMA_VERSION}"
  using required_schema_cases [of l]
  by (auto simp: stamp_schema_version_def required_schema_version_def schema_versions max_def)

lemma committed_wf:
  assumes "ledger_wf l"
  shows "ledger_wf (committed t rid re l)"
proof -
  let ?l = "l\<lparr>tasks := bt_insert (run_id t) t (tasks l), processed_requests := bt_insert rid re (processed_requests l)\<rparr>"
  have "bt_get (tasks (committed t rid re l)) k = Some u \<Longrightarrow> run_id u = k" for k u
    using assms by (cases "k = run_id t") (simp_all add: ledger_wf_def bt_simps)
  moreover have "schema_version ?l \<in> {GOVERNED_TASKS_LEGACY_SCHEMA_VERSION, GOVERNED_TASKS_SCHEMA_VERSION}"
    using assms by (simp add: ledger_wf_def)
  note stamp_covers(3) [OF this] stamp_covers(1) [of ?l]
  ultimately show ?thesis
    using assms unfolding ledger_wf_def committed_def [symmetric] committed_fields
    by (simp only: btree.wf_put) blast
qed

lemma default_ledger_wf: "ledger_wf default_ledger"
  by (simp add: ledger_wf_def default_ledger_def required_schema_version_def bt_values_def bt_empty_def
      bt_wf_def bt_get_def)

interpretation ledger_machine: invariant_machine "ledger_step E S" ledger_wf for E S
  by unfold_locales (auto elim!: ledger_stepE intro: committed_wf)

text \<open>A request id, once processed, is bound to its receipt forever.\<close>

interpretation bound_request:
  invariant_machine "ledger_step E S" "\<lambda>l. bt_get (processed_requests l) rid = Some re" for E S rid re
  by unfold_locales (auto elim!: ledger_stepE simp: bt_simps admitted_def)

interpretation ledger_schema: monotone_machine "ledger_step E S" schema_version for E S
proof
  fix l :: ledger and op l'
  have "schema_version l \<le> schema_version (committed t rid re l)" for t rid re
    using stamp_covers(2) [of "l\<lparr>tasks := bt_insert (run_id t) t (tasks l),
      processed_requests := bt_insert rid re (processed_requests l)\<rparr>"] by (simp add: committed_def)
  then show "ledger_step E S l op = Inr l' \<Longrightarrow> schema_version l \<le> schema_version l'"
    by (auto elim!: ledger_stepE)
qed

lemma run_step_project: "run_step E t op = Inr t' \<Longrightarrow> project_id t' = project_id t"
  using run_step_fields(1) truncate_eq_fields(3) by blast

section \<open>Each task of a ledger is a run of its own\<close>

text \<open>What one ledger step does to one task id: nothing, a registration, or one step of its run.\<close>

lemma ledger_step_task:
  assumes "ledger_step E S l op = Inr l'" "ledger_wf l"
  obtains (kept) "bt_get (tasks l') k = bt_get (tasks l) k"
  | (opened) r now uuid where "bt_get (tasks l) k = None" "rg_task_id r = k"
    "bt_get (tasks l') k = Some (initial_run r now uuid)"
  | (stepped) t t' run_op where "bt_get (tasks l) k = Some t" "run_step E t run_op = Inr t'"
    "bt_get (tasks l') k = Some t'"
  using assms(1)
proof (cases rule: ledger_stepE)
  case same
  then show thesis by (simp add: kept)
next
  case (registered r0 r t)
  have id: "rg_task_id r = rg_task_id r0" "run_id t = rg_task_id r0"
    using registered by (simp_all add: registered_as_fields initial_run_def)
  show thesis
  proof (cases "k = rg_task_id r0")
    case True
    then show thesis using registered id by (intro opened) (simp_all add: bt_simps)
  next
    case False
    then show thesis using registered(6) id by (intro kept) (simp add: bt_simps)
  qed
next
  case (mutated q auth t t')
  have id: "run_id t' = mr_task_id q"
    using mutated(2,4) assms(2) by (auto simp: admitted_def ledger_wf_def dest: run_step_fields)
  show thesis
  proof (cases "k = mr_task_id q")
    case True
    then show thesis using mutated id by (intro stepped) (simp_all add: admitted_def bt_simps)
  next
    case False
    then show thesis using mutated(5) id by (intro kept) (simp add: bt_simps)
  qed
qed

definition served_run :: "env \<Rightarrow> rstr \<Rightarrow> run \<Rightarrow> bool" where
  "served_run E k t \<longleftrightarrow>
     (\<exists>r now uuid ops. rg_task_id r = k \<and> t = serve (run_step E) (initial_run r now uuid) ops)"

lemma served_run_step: "served_run E k t \<Longrightarrow> run_step E t op = Inr t' \<Longrightarrow> served_run E k t'"
  unfolding served_run_def
  by (elim exE conjE, rule_tac x = r in exI, rule_tac x = now in exI, rule_tac x = uuid in exI,
      rule_tac x = "ops @ [op]" in exI) (simp add: serve_append attempt_def)

definition all_served :: "env \<Rightarrow> ledger \<Rightarrow> bool" where
  "all_served E l \<longleftrightarrow> ledger_wf l \<and> (\<forall>k t. bt_get (tasks l) k = Some t \<longrightarrow> served_run E k t)"

lemma initial_served: "rg_task_id r = k \<Longrightarrow> served_run E k (initial_run r now uuid)"
  unfolding served_run_def by (metis serve.simps(1))

interpretation ledger_runs: invariant_machine "ledger_step E S" "all_served E" for E S
proof
  fix l :: ledger and op l'
  assume l: "all_served E l" and step: "ledger_step E S l op = Inr l'"
  have "served_run E k t" if "bt_get (tasks l') k = Some t" for k t
    using step l [unfolded all_served_def, THEN conjunct1]
  proof (cases rule: ledger_step_task [where k = k])
    case kept
    with that l show ?thesis by (simp add: all_served_def)
  next
    case (opened r now uuid)
    with that show ?thesis by (auto intro: initial_served)
  next
    case (stepped t0 t' run_op)
    with that l show ?thesis by (auto simp: all_served_def intro: served_run_step)
  qed
  with ledger_machine.step_inv [OF _ step] l show "all_served E l'" by (simp add: all_served_def)
qed

lemma default_all_served: "all_served E default_ledger"
  using default_ledger_wf by (simp add: all_served_def default_ledger_def)

lemma ledger_run_served:
  "bt_get (tasks (serve (ledger_step E S) default_ledger ops)) k = Some t \<Longrightarrow> served_run E k t"
  using ledger_runs.serve_inv [OF default_all_served, of E S ops] by (simp add: all_served_def)

end
