(* ===== verification/Ledger_Example.thy ===== *)
theory Ledger_Example
  imports Ledger_Invariants Registration_Properties
begin

text \<open>
  The example run of \<open>Governed_Example\<close> served through a ledger: its registration and the first two
  mutations, then a takeover, on a file system that knows one directory.
\<close>

definition demo_site :: site where
  "demo_site = \<lparr>base_path = lit ''/w/.impulse'', canonicalize = (\<lambda>p. if p = lit ''/w'' then Inr p else Inl (lit ''not found''))\<rparr>"

definition demo_ambient :: "nat \<Rightarrow> ambient" where
  "demo_ambient n = \<lparr>am_now = demo_now n, am_record_uuid = demo_uuid (2 * n),
     am_event_uuid = demo_uuid (if n = 0 then 0 else 2 * n + 1), am_write = Inr ()\<rparr>"

definition demo_request_id :: "nat \<Rightarrow> rstr" where
  "demo_request_id n = lit ''req-'' @ [48 + n]"

definition demo_request :: "nat \<Rightarrow> mutation \<Rightarrow> mutation_request" where
  "demo_request n m = \<lparr>mr_request_id = demo_request_id n, mr_project_id = lit ''w'',
     mr_task_id = lit ''task-1'', mr_expected_revision = n - 1, mr_mutation = m,
     mr_fencing_generation = None\<rparr>"

definition demo_receipt :: "nat \<Rightarrow> mutation \<Rightarrow> receipt" where
  "demo_receipt n m = \<lparr>re_task_id = lit ''task-1'', re_revision = n,
     re_fingerprint = fingerprint_mutation demo_env (lit ''w'') (lit ''task-1'') m\<rparr>"

definition demo_registered :: receipt where
  "demo_registered = \<lparr>re_task_id = lit ''task-1'', re_revision = 0,
     re_fingerprint = fingerprint_registration demo_env demo_registration\<rparr>"

abbreviation demo_call :: "nat \<Rightarrow> mutation \<Rightarrow> ledger_op" where
  "demo_call n m \<equiv> \<lparr>lq_request = Mutate (demo_request n m) Declared, lq_ambient = demo_ambient n\<rparr>"

definition demo_ledger_ops :: "ledger_op list" where
  "demo_ledger_ops =
     [\<lparr>lq_request = Register demo_registration, lq_ambient = demo_ambient 0\<rparr>,
      demo_call 1 (MaterializeStagedWorktree demo_staged), demo_call 2 (MarkRunning (demo_actor System)),
      demo_call 3 (TakeOverWorker (demo_actor System) (lit ''ok''))]"

definition demo_ledger :: "nat \<Rightarrow> ledger" where
  "demo_ledger n = serve (ledger_step demo_env demo_site) default_ledger (take n demo_ledger_ops)"

lemma demo_site_facts [simp]:
  "governed_project_root demo_site = lit ''/w''" "governed_project_id demo_site = lit ''w''"
  "canonical_governed_workspace demo_site (lit ''/w'') = Inr (lit ''/w'')"
proof -
  show root: "governed_project_root demo_site = lit ''/w''"
    by (simp add: governed_project_root_def demo_site_def path_parent_def path_components_def lit_def
        path_is_absolute_def component_of_def path_text_def)
  then show "governed_project_id demo_site = lit ''w''"
    by (simp add: governed_project_id_def canonical_governed_project_root_def)
      (simp add: demo_site_def path_components_def lit_def path_is_absolute_def component_of_def
        path_file_name_def sanitize_id_def trim_def sanitize_char_def is_whitespace_def)
  show "canonical_governed_workspace demo_site (lit ''/w'') = Inr (lit ''/w'')"
    using root by (simp add: canonical_governed_workspace_def canonical_governed_project_root_def Let_def)
      (simp add: demo_site_def path_eq_def)
qed

lemma demo_request_fields [simp]:
  "mr_request_id (demo_request n m) = demo_request_id n" "mr_project_id (demo_request n m) = lit ''w''"
  "mr_task_id (demo_request n m) = lit ''task-1''" "mr_expected_revision (demo_request n m) = n - 1"
  "mr_mutation (demo_request n m) = m" "mr_fencing_generation (demo_request n m) = None"
  by (simp_all add: demo_request_def)

lemma demo_ids_ordered [simp]:
  "demo_request_id m < demo_request_id n \<longleftrightarrow> m < n" "demo_request_id m = demo_request_id n \<longleftrightarrow> m = n"
  by (simp_all add: demo_request_id_def lit_def)

lemma demo_op_of: "0 < n \<Longrightarrow> op_of (demo_ambient n) m Declared = demo_op n m"
  by (simp add: op_of_def demo_ambient_def demo_op_def)

definition demo_state :: "nat \<Rightarrow> run \<Rightarrow> (rstr \<times> receipt) list \<Rightarrow> ledger" where
  "demo_state v t rs = \<lparr>schema_version = v, tasks = [(lit ''task-1'', t)],
     processed_requests = (demo_request_id 0, demo_registered) # rs\<rparr>"

lemma demo_register:
  "ledger_step demo_env demo_site default_ledger
     \<lparr>lq_request = Register demo_registration, lq_ambient = demo_ambient 0\<rparr> = Inr (demo_state 1 demo_start [])"
proof -
  have reg: "project_id demo_registration = lit ''w''" "workspace_root demo_registration = lit ''/w''"
    "rg_task_id demo_registration = lit ''task-1''" "rg_request_id demo_registration = demo_request_id 0"
    "demo_registration\<lparr>workspace_root := lit ''/w''\<rparr> = demo_registration"
    by (simp_all add: demo_registration_def registration_builder_def demo_request_id_def lit_def)
  have start: "initial_run demo_registration (demo_now 0) (demo_uuid 0) = demo_start"
    "run_id demo_start = lit ''task-1''"
    by (simp_all add: demo_start_def [symmetric])
  have lease: "lease_generation demo_start = 0"
    by (simp add: lease_generation_def demo_start_def initial_run_def registration_event_def)
  show ?thesis
    by (simp add: ledger_step_def ledger_call_def register_governed_task_def demo_registration_valid reg start
        Let_def default_ledger_def bt_contains_def commit_def stamp_schema_version_def lease
        required_schema_version_def bt_values_def bt_empty_def bt_get_def require_project_def
        schema_versions demo_state_def demo_registered_def demo_ambient_def)
qed

lemma demo_mutate_as:
  assumes "run_step demo_env t (op_of (demo_ambient n) m auth) = Inr t'" "0 < n" "revision t = n - 1"
    and "project_id t = lit ''w''" "run_id t = lit ''task-1''" "lease_generation t = 0"
    and "\<not> answered_cancel t m" "list_all (\<lambda>(k, _). k < demo_request_id n) rs" "1 \<le> v"
  shows "mutate_governed_task_authenticated demo_env demo_site (demo_ambient n) (demo_request n m) auth
      (demo_state v t rs) =
    Inr (demo_state (if lease_generation t' > 0 then max v 2 else v) t'
      (rs @ [(demo_request_id n, demo_receipt n m)]), t')"
proof -
  have fresh: "map_of rs (demo_request_id n) = None"
    using assms(8) by (auto simp: map_of_eq_None_iff list_all_iff)
  have adm: "admitted demo_site (demo_request n m) (demo_state v t rs) t"
    using assms(2-6) fresh
    by (auto simp: admitted_def demo_state_def bt_get_def require_current_lease_generation_def)
  have id: "run_id t' = lit ''task-1''" "revision t' = n"
    using run_step_fields(2,4) [OF assms(1)] assms(2,3,5) by simp_all
  have ins: "bt_insert (demo_request_id n) x ((demo_request_id 0, y) # rs) =
      (demo_request_id 0, y) # rs @ [(demo_request_id n, x)]" for x y
    using assms(2,8) by (subst bt_insert_last) (auto simp: list_all_iff)
  have wr: "am_write (demo_ambient n) = Inr ()" by (simp add: demo_ambient_def)
  have one: "bt_insert k x [(k, y)] = [(k, x)]" for k :: rstr and x y :: run by simp
  show ?thesis
    unfolding mutate_fresh [OF adm]
    using assms(7,9) wr
    by (simp add: assms(1,2) commit_def id demo_state_def ins one stamp_schema_version_def required_schema_version_def bt_values_def schema_versions
        demo_receipt_def del: bt_insert.simps)
qed

lemma demo_op_step:
  assumes "run_step demo_env t (demo_op n m) = Inr t'" "0 < n"
  shows "run_step demo_env t (op_of (demo_ambient n) m Declared) = Inr t'"
  using assms by (simp add: demo_op_of)

lemmas demo_declared = demo_mutate_as [OF demo_op_step]

lemma demo_mutate_step:
  "mutate_governed_task_authenticated demo_env demo_site A q auth l = Inr (l', t') \<Longrightarrow>
   ledger_step demo_env demo_site l \<lparr>lq_request = Mutate q auth, lq_ambient = A\<rparr> = Inr l'"
  by (simp add: ledger_step_def ledger_call_def)

lemma demo_core_fields:
  "project_id demo_start = lit ''w''" "project_id demo_s1 = lit ''w''" "project_id demo_s2 = lit ''w''"
  "revision demo_s1 = 1" "run_id demo_s1 = lit ''task-1''" "revision demo_s2 = 2"
  "run_id demo_s2 = lit ''task-1''"
  by (simp_all add: demo_states demo_push_def settle_def push_event_def demo_start_def initial_run_def
      demo_registration_def registration_builder_def)

lemma demo_leases: "lease_generation demo_start = 0" "lease_generation demo_s1 = 0"
  "lease_generation demo_s2 = 0"
  by (simp_all add: lease_generation_def demo_states demo_push_def push_event_def demo_start_def
      initial_run_def registration_event_def)

abbreviation "demo_r1 \<equiv> (demo_request_id 1, demo_receipt 1 (MaterializeStagedWorktree demo_staged))"
abbreviation "demo_r2 \<equiv> (demo_request_id 2, demo_receipt 2 (MarkRunning (demo_actor System)))"

lemma demo_ledger_1:
  "mutate_governed_task_authenticated demo_env demo_site (demo_ambient 1)
     (demo_request 1 (MaterializeStagedWorktree demo_staged)) Declared (demo_state 1 demo_start []) =
   Inr (demo_state 1 demo_s1 [demo_r1], demo_s1)"
  using demo_declared [OF demo_step_1, of "[]" 1]
  by (simp add: demo_core_fields demo_leases answered_cancel_def)

lemma demo_ledger_2:
  "mutate_governed_task_authenticated demo_env demo_site (demo_ambient 2)
     (demo_request 2 (MarkRunning (demo_actor System))) Declared (demo_state 1 demo_s1 [demo_r1]) =
   Inr (demo_state 1 demo_s2 [demo_r1, demo_r2], demo_s2)"
  using demo_declared [OF demo_step_2, of "[demo_r1]" 1]
  by (simp add: demo_core_fields demo_leases answered_cancel_def)

definition demo_s3' :: run where
  "demo_s3' = demo_push 3 EvWorkerTakenOver System (lit ''ok'') demo_s2"

lemma demo_takeover:
  "run_step demo_env demo_s2 (demo_op 3 (TakeOverWorker (demo_actor System) (lit ''ok''))) = Inr demo_s3'"
  "lease_generation demo_s3' = 1"
  by (simp add: demo_settle demo_s2_def demo_s1_def demo_s3'_def demo_actor_def
      active_staged_worktree_def)
    (simp add: demo_s3'_def lease_generation_def demo_states demo_push_def push_event_def demo_start_def
      initial_run_def registration_event_def)

lemma demo_ledger_3:
  "mutate_governed_task_authenticated demo_env demo_site (demo_ambient 3)
     (demo_request 3 (TakeOverWorker (demo_actor System) (lit ''ok''))) Declared
     (demo_state 1 demo_s2 [demo_r1, demo_r2]) =
   Inr (demo_state 2 demo_s3' [demo_r1, demo_r2,
     (demo_request_id 3, demo_receipt 3 (TakeOverWorker (demo_actor System) (lit ''ok'')))], demo_s3')"
  using demo_declared [OF demo_takeover(1), of "[demo_r1, demo_r2]" 1]
  by (simp add: demo_core_fields demo_leases answered_cancel_def demo_takeover(2) numeral_2_eq_2)

lemma demo_ledgers:
  "demo_ledger 1 = demo_state 1 demo_start []" "demo_ledger 2 = demo_state 1 demo_s1 [demo_r1]"
  "demo_ledger 3 = demo_state 1 demo_s2 [demo_r1, demo_r2]"
  "demo_ledger 4 = demo_state 2 demo_s3' [demo_r1, demo_r2,
     (demo_request_id 3, demo_receipt 3 (TakeOverWorker (demo_actor System) (lit ''ok'')))]"
  by (simp_all add: demo_ledger_def demo_ledger_ops_def attempt_def demo_register [simplified]
      demo_mutate_step [OF demo_ledger_1, simplified] demo_mutate_step [OF demo_ledger_2, simplified]
      demo_mutate_step [OF demo_ledger_3, simplified])

lemma demo_state_fields [simp]:
  "bt_get (tasks (demo_state v t rs)) k = (if k = lit ''task-1'' then Some t else None)"
  "bt_get (processed_requests (demo_state v t rs)) k =
     (if k = demo_request_id 0 then Some demo_registered else map_of rs k)"
  by (simp_all add: demo_state_def bt_get_def)

section \<open>The run to its authenticated decision\<close>

definition demo_s6' :: run where
  "demo_s6' = demo_s6\<lparr>operator_decisions := map (\<lambda>d. d\<lparr>od_authentication := CapabilityAuthenticated\<rparr>)
     (operator_decisions demo_s6)\<rparr>"

lemma demo_later_fields:
  "project_id demo_s3 = lit ''w''" "project_id demo_s4 = lit ''w''" "project_id demo_s5 = lit ''w''"
  "run_id demo_s3 = lit ''task-1''" "run_id demo_s4 = lit ''task-1''" "run_id demo_s5 = lit ''task-1''"
  using run_step_project [OF demo_step_3] run_step_project [OF demo_step_4] run_step_project [OF demo_step_5]
    run_step_fields(2) [OF demo_step_3] run_step_fields(2) [OF demo_step_4]
    run_step_fields(2) [OF demo_step_5] demo_core_fields by simp_all

lemma demo_later_leases: "lease_generation demo_s3 = 0" "lease_generation demo_s4 = 0"
  "lease_generation demo_s5 = 0" "lease_generation demo_s6' = 0"
  by (simp_all add: lease_generation_def demo_s6'_def demo_states demo_push_def push_event_def
      demo_start_def initial_run_def registration_event_def)

lemma demo_step_6':
  "run_step demo_env demo_s5 (op_of (demo_ambient 6) (RecordOperatorDecision demo_decision)
     CapabilityAuthenticated) = Inr demo_s6'"
  by (simp add: demo_settle demo_s5_fields demo_decision_def demo_s6'_def demo_s6_def op_of_def
      demo_ambient_def)

definition demo_decided_ops :: "ledger_op list" where
  "demo_decided_ops = take 3 demo_ledger_ops @
     [demo_call 3 (SubmitClaim demo_claim), demo_call 4 (RecordVerification demo_verification),
      demo_call 5 (RecordSupervisorVerdict demo_verdict),
      \<lparr>lq_request = Mutate (demo_request 6 (RecordOperatorDecision demo_decision)) CapabilityAuthenticated,
       lq_ambient = demo_ambient 6\<rparr>]"

lemma demo_decided:
  "bt_get (tasks (serve (ledger_step demo_env demo_site) default_ledger demo_decided_ops)) (lit ''task-1'') =
   Some demo_s6'"
proof -
  note step = demo_mutate_step [OF demo_declared] and fields = demo_later_fields demo_later_leases
    demo_core_fields demo_leases answered_cancel_def demo_s3_fields demo_s4_fields demo_s5_fields
  have "serve (ledger_step demo_env demo_site) default_ledger demo_decided_ops =
      serve (ledger_step demo_env demo_site) (demo_ledger 3) (drop 3 demo_decided_ops)"
    by (simp add: demo_decided_ops_def serve_append [symmetric] demo_ledger_def demo_ledger_ops_def)
  also have "\<dots> = demo_state 1 demo_s6' ([demo_r1, demo_r2,
      (demo_request_id 3, demo_receipt 3 (SubmitClaim demo_claim)),
      (demo_request_id 4, demo_receipt 4 (RecordVerification demo_verification)),
      (demo_request_id 5, demo_receipt 5 (RecordSupervisorVerdict demo_verdict)),
      (demo_request_id 6, demo_receipt 6 (RecordOperatorDecision demo_decision))])"
    using step [OF demo_step_3, of "[demo_r1, demo_r2]" 1] step [OF demo_step_4, of "[demo_r1, demo_r2,
      (demo_request_id 3, demo_receipt 3 (SubmitClaim demo_claim))]" 1]
      step [OF demo_step_5, of "[demo_r1, demo_r2,
      (demo_request_id 3, demo_receipt 3 (SubmitClaim demo_claim)),
      (demo_request_id 4, demo_receipt 4 (RecordVerification demo_verification))]" 1]
      demo_mutate_step [OF demo_mutate_as [OF demo_step_6', of "[demo_r1, demo_r2,
      (demo_request_id 3, demo_receipt 3 (SubmitClaim demo_claim)),
      (demo_request_id 4, demo_receipt 4 (RecordVerification demo_verification)),
      (demo_request_id 5, demo_receipt 5 (RecordSupervisorVerdict demo_verdict))]" 1]]
    by (simp add: demo_ledgers demo_decided_ops_def demo_ledger_ops_def attempt_def fields)
  finally show ?thesis by simp
qed

end
