(* ===== verification/Ledger_Properties.thy ===== *)
theory Ledger_Properties
  imports Ledger_Example
begin

text \<open>
  What the ledger promises its clients: a request id is answered once and bound forever, a worker
  whose lease was taken over stays fenced out, one revision admits one writer, an answered cancel
  is not overwritten, and every task evolves as a run of its own.
\<close>

section \<open>Tasks of later ledgers\<close>

definition task_at_least :: "site \<Rightarrow> rstr \<Rightarrow> nat \<Rightarrow> nat \<Rightarrow> ledger \<Rightarrow> bool" where
  "task_at_least S k n g l \<longleftrightarrow> ledger_wf l \<and>
     (\<exists>t. bt_get (tasks l) k = Some t \<and> n \<le> revision t \<and> g \<le> lease_generation t \<and>
        project_id t = governed_project_id S)"

interpretation later_task: invariant_machine "ledger_step E S" "task_at_least S k n g" for E S k n g
proof
  fix l :: ledger and op l'
  assume l: "task_at_least S k n g l" and step: "ledger_step E S l op = Inr l'"
  have wf: "ledger_wf l" using l by (simp add: task_at_least_def)
  from step wf have "\<exists>t. bt_get (tasks l') k = Some t \<and> n \<le> revision t \<and> g \<le> lease_generation t \<and>
      project_id t = governed_project_id S"
  proof (cases rule: ledger_step_task [where k = k])
    case kept
    with l show ?thesis by (simp add: task_at_least_def)
  next
    case (opened r now uuid)
    with l show ?thesis by (simp add: task_at_least_def)
  next
    case (stepped t t' run_op)
    then have "revision t' = Suc (revision t)" "lease_generation t \<le> lease_generation t'"
      "project_id t' = project_id t"
      using run_step_fields(4) lease.step_mono run_step_project by blast+
    with stepped l show ?thesis by (auto simp: task_at_least_def)
  qed
  with ledger_machine.step_inv [OF wf step] show "task_at_least S k n g l'"
    by (simp add: task_at_least_def)
qed

text \<open>A fresh request that changed the ledger was admitted, stepped its run and left a receipt.\<close>

lemma committed_request:
  assumes "ledger_wf l" "bt_get (processed_requests l) (mr_request_id q) = None"
    and "mutate_governed_task_authenticated E S A q auth l = Inr (l1, t1)" "l1 \<noteq> l"
  shows "bt_get (processed_requests l1) (mr_request_id q) = Some \<lparr>re_task_id = mr_task_id q,
      re_revision = revision t1,
      re_fingerprint = fingerprint_mutation E (mr_project_id q) (mr_task_id q) (mr_mutation q)\<rparr>"
    "task_at_least S (mr_task_id q) (revision t1) 0 l1" "revision t1 = Suc (mr_expected_revision q)"
    "mr_project_id q = governed_project_id S"
proof -
  obtain t where t: "admitted S q l t" using mutate_admitted [OF assms(2,3)] .
  with assms(3,4) have step: "run_step E t (op_of A (mr_mutation q) auth) = Inr t1"
    and l1: "l1 = committed t1 (mr_request_id q) \<lparr>re_task_id = run_id t1, re_revision = revision t1,
       re_fingerprint = fingerprint_mutation E (mr_project_id q) (mr_task_id q) (mr_mutation q)\<rparr> l"
    by (auto simp: mutate_fresh [OF t] split: if_splits)
  have id: "run_id t1 = mr_task_id q" "project_id t1 = governed_project_id S"
    using t assms(1) run_step_fields(2) [OF step] run_step_project [OF step]
    by (simp_all add: admitted_def ledger_wf_def)
  show "bt_get (processed_requests l1) (mr_request_id q) = Some \<lparr>re_task_id = mr_task_id q,
      re_revision = revision t1,
      re_fingerprint = fingerprint_mutation E (mr_project_id q) (mr_task_id q) (mr_mutation q)\<rparr>"
    by (simp add: l1 id bt_simps)
  show "task_at_least S (mr_task_id q) (revision t1) 0 l1"
    using committed_wf [OF assms(1)] by (simp add: task_at_least_def l1 id bt_simps)
  show "revision t1 = Suc (mr_expected_revision q)" "mr_project_id q = governed_project_id S"
    using t run_step_fields(4) [OF step] by (simp_all add: admitted_def)
qed

lemma mutate_replay:
  assumes "bt_get (processed_requests l) (mr_request_id q) = Some re"
    and "mr_project_id q = governed_project_id S"
  shows "mutate_governed_task_authenticated E S A q auth l =
    (if re_task_id re \<noteq> mr_task_id q then Inl (IdempotencyConflict (mr_request_id q) (re_task_id re))
     else if re_fingerprint re \<noteq> fingerprint_mutation E (mr_project_id q) (mr_task_id q) (mr_mutation q)
     then Inl (IdempotencyPayloadConflict (mr_request_id q))
     else and_then (ok_or (bt_get (tasks l) (mr_task_id q)) (NotFound (mr_task_id q))) (\<lambda>t.
       and_then (require_receipt_revision re t) (\<lambda>_. Inr (l, t))))"
  using assms
  by (simp add: mutate_governed_task_authenticated_def require_project_def Let_def
      require_idempotent_fingerprint_def)

section \<open>Request ids\<close>



section \<open>Leases and revisions\<close>

lemma mutate_refusals:
  assumes "bt_get (processed_requests l) (mr_request_id q) = None" "bt_get (tasks l) (mr_task_id q) = Some t"
    and "mr_project_id q = governed_project_id S" "project_id t = governed_project_id S"
  shows "require_current_lease_generation t (mr_mutation q) (mr_fencing_generation q) = Inl e \<Longrightarrow>
      mutate_governed_task_authenticated E S A q auth l = Inl e"
    "require_current_lease_generation t (mr_mutation q) (mr_fencing_generation q) = Inr () \<Longrightarrow>
      revision t \<noteq> mr_expected_revision q \<Longrightarrow>
      mutate_governed_task_authenticated E S A q auth l =
        Inl (RevisionConflict (mr_expected_revision q) (revision t))"
  using assms by (simp_all add: mutate_governed_task_authenticated_def require_project_def Let_def)



text \<open>One revision admits one writer: after a request has changed a task at a revision, no other
  request that names the same revision of the task is ever applied; it is refused as fenced or with
  a revision conflict that names the current revision.\<close>

theorem one_revision_admits_one_writer:
  assumes "l = serve (ledger_step E S) default_ledger before"
    and "bt_get (processed_requests l) (mr_request_id q) = None"
    and "mutate_governed_task_authenticated E S A q auth l = Inr (l1, t1)" "l1 \<noteq> l"
    and "l2 = serve (ledger_step E S) l1 later"
    and "mr_task_id q2 = mr_task_id q" "mr_expected_revision q2 = mr_expected_revision q"
    and "mr_project_id q2 = governed_project_id S" "bt_get (processed_requests l2) (mr_request_id q2) = None"
  shows "(\<exists>current > mr_expected_revision q. mutate_governed_task_authenticated E S A2 q2 auth2 l2 =
      Inl (RevisionConflict (mr_expected_revision q) current)) \<or>
    (\<exists>presented current. mutate_governed_task_authenticated E S A2 q2 auth2 l2 =
      Inl (Fenced (mr_task_id q) presented current))"
proof -
  have wf: "ledger_wf l" by (simp add: assms(1) ledger_machine.serve_inv default_ledger_wf)
  note fin = committed_request [OF wf assms(2-4)]
  have "task_at_least S (mr_task_id q) (revision t1) 0 l2"
    unfolding assms(5) by (rule later_task.serve_inv [OF fin(2)])
  then obtain t where t: "bt_get (tasks l2) (mr_task_id q2) = Some t"
    "Suc (mr_expected_revision q) \<le> revision t" "project_id t = governed_project_id S" "run_id t = mr_task_id q"
    by (auto simp: task_at_least_def ledger_wf_def fin(3) assms(6))
  have fence: "require_current_lease_generation t (mr_mutation q2) (mr_fencing_generation q2) = Inr () \<or>
      (\<exists>presented current. require_current_lease_generation t (mr_mutation q2) (mr_fencing_generation q2) =
        Inl (Fenced (mr_task_id q) presented current))"
    by (auto simp: require_current_lease_generation_def Let_def t(4) split: option.splits)
  show ?thesis
    using fence mutate_refusals [OF assms(9) t(1) assms(8) t(3)] t(2) assms(7) by fastforce
qed

theorem one_revision_admits_one_writer_witness:
  "\<exists>current > 0. mutate_governed_task_authenticated demo_env demo_site (demo_ambient 5)
     ((demo_request 1 (MarkRunning (demo_actor System)))\<lparr>mr_request_id := demo_request_id 5\<rparr>) Declared
     (demo_ledger 2) = Inl (RevisionConflict 0 current)"
proof -
  let ?q = "demo_request 1 (MaterializeStagedWorktree demo_staged)"
  let ?q2 = "(demo_request 1 (MarkRunning (demo_actor System)))\<lparr>mr_request_id := demo_request_id 5\<rparr>"
  have l: "demo_ledger 1 = serve (ledger_step demo_env demo_site) default_ledger (take 1 demo_ledger_ops)"
    by (simp only: demo_ledger_def)
  have fresh: "bt_get (processed_requests (demo_ledger 1)) (mr_request_id ?q) = None"
    using demo_ledgers(1) by simp
  have new: "demo_ledger 2 \<noteq> demo_ledger 1" unfolding demo_ledgers by (simp add: demo_state_def)
  have none: "demo_ledger 2 = serve (ledger_step demo_env demo_site) (demo_ledger 2) []" by simp
  note one = one_revision_admits_one_writer [OF l fresh demo_ledger_1 [folded demo_ledgers(1,2)] new none, of ?q2]
  have "mutate_governed_task_authenticated demo_env demo_site (demo_ambient 5) ?q2 Declared (demo_ledger 2) \<noteq>
      Inl (Fenced (lit ''task-1'') p c)" for p c
    by (simp add: demo_ledgers mutate_governed_task_authenticated_def require_project_def demo_request_def
        require_current_lease_generation_def fenced_mutation_def demo_core_fields Let_def)
  then show ?thesis
    using one [of "demo_ambient 5" Declared] by (simp add: demo_ledgers demo_request_def)
qed

text \<open>A recorded end is not overwritten: once a task's runtime has exited or failed to launch, a
  well-formed operator cancel at the current revision is answered with the run as it is, and no exit
  request of any kind, cancel or not, changes the ledger any more.\<close>

theorem recorded_end_is_not_overwritten:
  assumes "bt_get (tasks l) (mr_task_id q) = Some t" "execution_state t \<in> {RuntimeExited, LaunchFailed}"
    and "mr_mutation q = MarkRuntimeExited a reason kind"
  shows "(mutate_governed_task_authenticated E S A q auth l = Inr (l', t') \<longrightarrow> l' = l \<and> t' = t) \<and>
    (admitted S q l t \<and> kind = OperatorCancelled \<and> actor_ok a System \<and>
       pred_option (\<lambda>r. text_ok r MAX_REASON_BYTES) reason \<longrightarrow>
     mutate_governed_task_authenticated E S A q auth l = Inr (l, t))"
proof -
  have never: "run_step E t (op_of A (mr_mutation q) auth) \<noteq> Inr u" for u
    using assms(2,3) by (auto simp: run_step_Inr op_of_def transition_exited_iff)
  have "l' = l \<and> t' = t" if m: "mutate_governed_task_authenticated E S A q auth l = Inr (l', t')"
  proof (cases "bt_get (processed_requests l) (mr_request_id q)")
    case None
    obtain u where u: "admitted S q l u" using mutate_admitted [OF None m] .
    then have "u = t" using assms(1) by (simp add: admitted_def)
    with m u never show ?thesis by (auto simp: mutate_fresh [OF u] split: if_splits)
  next
    case (Some re)
    then show ?thesis using mutate_known(1,2) [OF Some m] assms(1) by simp
  qed
  moreover have "mutate_governed_task_authenticated E S A q auth l = Inr (l, t)"
    if "admitted S q l t" "kind = OperatorCancelled" "actor_ok a System"
      "pred_option (\<lambda>r. text_ok r MAX_REASON_BYTES) reason"
    using that assms(2,3)
    by (cases reason) (auto simp: mutate_fresh [OF that(1)] answered_cancel_def check_answered_cancel_def)
  ultimately show ?thesis by blast
qed

theorem recorded_end_is_not_overwritten_witness:
  "let t = demo_start\<lparr>execution_state := LaunchFailed\<rparr>;
       q = demo_request 1 (MarkRuntimeExited (demo_actor System) None OperatorCancelled)
   in mutate_governed_task_authenticated demo_env demo_site (demo_ambient 5) q Declared (demo_state 1 t []) =
     Inr (demo_state 1 t [], t)"
proof -
  let ?t = "demo_start\<lparr>execution_state := LaunchFailed\<rparr>"
  let ?q = "demo_request 1 (MarkRuntimeExited (demo_actor System) None OperatorCancelled)"
  have "admitted demo_site ?q (demo_state 1 ?t []) ?t"
    by (simp add: admitted_def require_current_lease_generation_def fenced_mutation_def demo_core_fields)
  then show ?thesis
    using recorded_end_is_not_overwritten [of "demo_state 1 ?t []" ?q ?t "demo_actor System" None
        OperatorCancelled demo_env demo_site "demo_ambient 5" Declared "demo_state 1 ?t []" ?t]
    by (simp add: Let_def)
qed

section \<open>The ledger as a set of runs\<close>



text \<open>Which connection a decision came over.\<close>

definition authenticated_request :: "rstr \<Rightarrow> ledger_op \<Rightarrow> bool" where
  "authenticated_request k op \<longleftrightarrow>
     (\<exists>q. lq_request op = Mutate q CapabilityAuthenticated \<and> mr_task_id q = k)"

lemma decision_authentication:
  "transition E ctx n t m u \<Longrightarrow> d \<in> set (operator_decisions u) \<Longrightarrow>
   d \<in> set (operator_decisions t) \<or> od_authentication d = mc_auth ctx"
  by (induction rule: transition.induct) (auto simp: push_event_def)

lemma step_authentication:
  assumes "run_step E t op = Inr t'" "d \<in> set (operator_decisions t')"
  shows "d \<in> set (operator_decisions t) \<or> od_authentication d = lo_auth op"
  using assms by (auto elim!: run_stepE dest: decision_authentication)

lemma ledger_decision_source:
  assumes "ledger_step E S l op = Inr l'" "ledger_wf l" "bt_get (tasks l') k = Some t'"
    and "d \<in> set (operator_decisions t')" "od_authentication d = CapabilityAuthenticated"
  shows "(\<exists>t. bt_get (tasks l) k = Some t \<and> d \<in> set (operator_decisions t)) \<or> authenticated_request k op"
  using assms(1)
proof (cases rule: ledger_stepE)
  case same
  then show ?thesis using assms by blast
next
  case (registered r0 r t)
  then show ?thesis
    using assms by (cases "k = run_id t") (auto simp: bt_simps initial_run_def)
next
  case (mutated q auth t u)
  have id: "run_id u = mr_task_id q"
    using mutated(2,4) assms(2) by (auto simp: admitted_def ledger_wf_def dest: run_step_fields)
  show ?thesis
  proof (cases "k = mr_task_id q")
    case True
    then have "t' = u" using mutated(5) id assms(3) by (simp add: bt_simps)
    then have "d \<in> set (operator_decisions t) \<or> auth = CapabilityAuthenticated"
      using step_authentication [OF mutated(4)] assms(4,5) by (auto simp: op_of_def)
    then show ?thesis
      using mutated(1,2) True by (auto simp: admitted_def authenticated_request_def)
  next
    case False
    then show ?thesis using mutated(5) id assms(3,4) by (simp add: bt_simps)
  qed
qed

text \<open>An approval says truthfully how it was authenticated: if a decision stored in any reachable
  ledger is marked as authenticated by a capability, then some request for that task came over a
  connection the daemon had authenticated; no payload can claim it.\<close>

theorem authenticated_decision_has_authenticated_connection:
  assumes "bt_get (tasks (serve (ledger_step E S) default_ledger ops)) k = Some t"
    and "d \<in> set (operator_decisions t)" "od_authentication d = CapabilityAuthenticated"
  shows "\<exists>op \<in> set ops. authenticated_request k op"
  using assms(1,2)
proof (induction ops arbitrary: t rule: rev_induct)
  case Nil
  then show ?case by (simp add: default_ledger_def)
next
  case (snoc op ops)
  let ?l = "serve (ledger_step E S) default_ledger ops"
  have wf: "ledger_wf ?l" by (simp add: ledger_machine.serve_inv default_ledger_wf)
  show ?case
  proof (cases "ledger_step E S ?l op")
    case (Inl e)
    then show ?thesis using snoc by (auto simp: serve_append)
  next
    case (Inr l')
    then have "bt_get (tasks l') k = Some t" using snoc.prems(1) by (simp add: serve_append)
    from ledger_decision_source [OF Inr wf this snoc.prems(2) assms(3)] snoc.IH show ?thesis by auto
  qed
qed

theorem authenticated_decision_has_authenticated_connection_witness:
  "\<exists>op \<in> set demo_decided_ops. authenticated_request (lit ''task-1'') op"
proof -
  obtain d where "d \<in> set (operator_decisions demo_s6')" "od_authentication d = CapabilityAuthenticated"
    by (auto simp: demo_s6'_def demo_s6_def)
  then show ?thesis by (rule authenticated_decision_has_authenticated_connection [OF demo_decided])
qed

section \<open>Listing\<close>

lemma insert_newest_mset: "mset (insert_newest t us) = add_mset t (mset us)"
  by (induction t us rule: insert_newest.induct) auto

lemma insert_newest_sorted:
  "sorted_wrt (\<lambda>a b. created_at b \<le> created_at a) us \<Longrightarrow>
   sorted_wrt (\<lambda>a b. created_at b \<le> created_at a) (insert_newest t us)"
proof (induction t us rule: insert_newest.induct)
  case (2 t u us)
  have set: "set (insert_newest t us) = insert t (set us)"
    using insert_newest_mset [of t us] by (metis set_mset_add_mset_insert set_mset_mset)
  from 2 show ?case by (auto simp: set intro: order_trans)
qed simp

text \<open>The task list is complete and newest first: for the ledger's own project it returns exactly the
  stored runs, each once, in decreasing order of creation time; any other project is refused.\<close>

theorem task_list_is_complete_and_ordered:
  "list_governed_tasks S project l =
     (if project = governed_project_id S then Inr (foldr insert_newest (all_governed_tasks l) [])
      else Inl (ProjectMismatch (governed_project_id S) project)) \<and>
   mset (foldr insert_newest (all_governed_tasks l) []) = mset (all_governed_tasks l) \<and>
   sorted_wrt (\<lambda>a b. created_at b \<le> created_at a) (foldr insert_newest (all_governed_tasks l) [])"
proof -
  have "mset (foldr insert_newest ts []) = mset ts" for ts
    by (induction ts) (simp_all add: insert_newest_mset)
  moreover have "sorted_wrt (\<lambda>a b. created_at b \<le> created_at a) (foldr insert_newest ts [])" for ts
    by (induction ts) (simp_all add: insert_newest_sorted)
  ultimately show ?thesis
    by (simp add: list_governed_tasks_def all_governed_tasks_def require_project_def)
qed

end
