(* ===== verification/Ledger_Reload.thy ===== *)
theory Ledger_Reload
  imports Ledger_Properties
begin

text \<open>
  Every ledger the daemon writes loads again: the receipts of a served ledger cover every revision of
  every task exactly once, with the fingerprints that replaying the histories recomputes.
\<close>

section \<open>Histories behind a ledger\<close>

record task_history =
  th_registration :: registration
  th_now :: rstr
  th_uuid :: rstr
  th_ops :: "live_op list"

abbreviation th_start :: "task_history \<Rightarrow> run" where
  "th_start h \<equiv> initial_run (th_registration h) (th_now h) (th_uuid h)"

definition expected_fingerprint :: "env \<Rightarrow> task_history \<Rightarrow> nat \<Rightarrow> rstr" where
  "expected_fingerprint E h i =
     (if i = 0 then fingerprint_registration E (th_registration h)
      else fingerprint_mutation E (project_id (th_registration h)) (rg_task_id (th_registration h))
        (lo_mutation (th_ops h ! (i - 1))))"

definition storable :: "site \<Rightarrow> registration \<Rightarrow> bool" where
  "storable S r \<longleftrightarrow> validate_registration r = Inr () \<and> project_id r = governed_project_id S \<and>
     path_is_absolute (workspace_root r) \<and> canonicalize S (workspace_root r) = Inr (workspace_root r) \<and>
     (\<exists>e. canonical_governed_project_root S = Inr e \<and> path_eq (workspace_root r) e)"

text \<open>The history of a task, and one receipt for each of its revisions.\<close>

definition backed_by :: "env \<Rightarrow> site \<Rightarrow> ledger \<Rightarrow> rstr \<Rightarrow> run \<Rightarrow> task_history \<Rightarrow> bool" where
  "backed_by E S l k t h \<longleftrightarrow> t = serve (run_step E) (th_start h) (th_ops h) \<and>
     accepted (run_step E) (th_start h) (th_ops h) = th_ops h \<and> storable S (th_registration h) \<and>
     rg_task_id (th_registration h) = k \<and> parse_rfc3339 E (th_now h) \<noteq> None \<and>
     list_all (op_ok E) (th_ops h) \<and>
     (\<forall>i \<le> revision t. \<exists>a. bt_get (processed_requests l) a =
        Some \<lparr>re_task_id = k, re_revision = i, re_fingerprint = expected_fingerprint E h i\<rparr> \<and>
        (i = 0 \<longrightarrow> a = rg_request_id (th_registration h)))"

definition receipts_ok :: "env \<Rightarrow> ledger \<Rightarrow> bool" where
  "receipts_ok E l \<longleftrightarrow>
     (\<forall>a re. bt_get (processed_requests l) a = Some re \<longrightarrow>
        (\<exists>t. bt_get (tasks l) (re_task_id re) = Some t \<and> re_revision re \<le> revision t) \<and>
        (\<exists>payload. re_fingerprint re = fingerprint_bytes E payload)) \<and>
     (\<forall>a b x y. bt_get (processed_requests l) a = Some x \<and> bt_get (processed_requests l) b = Some y \<and>
        re_task_id x = re_task_id y \<and> re_revision x = re_revision y \<longrightarrow> a = b)"

definition backed :: "env \<Rightarrow> site \<Rightarrow> ledger \<Rightarrow> bool" where
  "backed E S l \<longleftrightarrow> ledger_wf l \<and> receipts_ok E l \<and>
     (\<forall>k t. bt_get (tasks l) k = Some t \<longrightarrow> (\<exists>h. backed_by E S l k t h))"

text \<open>What is relied on of the surroundings: canonical paths are absolute, NUL-free, bounded by the
  platform's path limit and canonical themselves.\<close>

definition fs_ok :: "site \<Rightarrow> bool" where
  "fs_ok S \<longleftrightarrow> (\<forall>p c. canonicalize S p = Inr c \<longrightarrow>
     path_is_absolute c \<and> 0 \<notin> set c \<and> byte_len c \<le> 4096 \<and> canonicalize S c = Inr c)"

definition ledger_op_ok :: "env \<Rightarrow> ledger_op \<Rightarrow> bool" where
  "ledger_op_ok E op \<longleftrightarrow> parse_rfc3339 E (am_now (lq_ambient op)) \<noteq> None \<and>
     uuid_ok (am_record_uuid (lq_ambient op))"

section \<open>Steps keep ledgers backed\<close>

lemma absolute_nonblank: "path_is_absolute p \<Longrightarrow> trim p \<noteq> []"
  unfolding trim_nonempty by (rule bexI [of _ 47]) (auto simp: path_is_absolute_def is_whitespace_def dest: hd_in_set)

lemma workspace_irrelevant:
  "validate_world_scope (r\<lparr>workspace_root := root\<rparr>) = validate_world_scope r"
  "validate_profile (r\<lparr>workspace_root := root\<rparr>) = validate_profile r"
  "validate_compatibility (r\<lparr>workspace_root := root\<rparr>) = validate_compatibility r"
  by (simp_all add: validate_world_scope_def validate_profile_def validate_compatibility_def
      cong: option.case_cong)

lemma workspace_validates:
  assumes "validate_registration r = Inr ()" "text_ok root (16 * 1024)"
  shows "validate_registration (r\<lparr>workspace_root := root\<rparr>) = Inr ()"
proof -
  have "validate_identity r = Inr () \<Longrightarrow> validate_identity (r\<lparr>workspace_root := root\<rparr>) = Inr ()"
    using assms(2) by (simp add: validate_identity_def)
  with assms(1) show ?thesis by (simp add: validate_registration_def workspace_irrelevant)
qed

lemma registered_storable:
  assumes "registered_as S r0 r" "fs_ok S"
  shows "storable S r"
proof -
  obtain root e where root: "r = r0\<lparr>workspace_root := root\<rparr>" "canonicalize S (workspace_root r0) = Inr root"
    "canonical_governed_project_root S = Inr e" "path_eq e root"
    using assms(1) by (auto simp: registered_as_def canonical_governed_workspace_def)
  have "path_is_absolute root" "text_ok root (16 * 1024)" "canonicalize S root = Inr root"
    using root(2) assms(2) absolute_nonblank [of root] by (fastforce simp: fs_ok_def text_ok_def)+
  with root assms(1) show ?thesis
    by (auto simp: storable_def registered_as_def path_eq_def intro: workspace_validates)
qed

lemma accepted_snoc:
  "step (serve step s ops) op = Inr s' \<Longrightarrow> accepted step s (ops @ [op]) = accepted step s ops @ [op]"
proof (induction ops arbitrary: s)
  case (Cons x xs)
  then show ?case by (cases "step s x") auto
qed simp

lemma served_revision:
  "revision (serve (run_step E) s ops) = revision s + length (accepted (run_step E) s ops)"
proof (induction ops arbitrary: s)
  case (Cons op ops)
  then show ?case by (cases "run_step E s op") (auto simp: run_step_fields(4))
qed simp

lemma backed_by_revision: "backed_by E S l k t h \<Longrightarrow> revision t = length (th_ops h)"
  using served_revision [of E "th_start h" "th_ops h"]
  by (simp add: backed_by_def) (simp add: initial_run_def)

lemma backed_by_mono:
  assumes "backed_by E S l k t h"
    and "\<And>a re. bt_get (processed_requests l) a = Some re \<Longrightarrow> bt_get (processed_requests l') a = Some re"
  shows "backed_by E S l' k t h"
  using assms unfolding backed_by_def by blast

lemma committed_receipts:
  assumes "bt_get (processed_requests l) rid = None"
  shows "bt_get (processed_requests l) a = Some re \<Longrightarrow>
    bt_get (processed_requests (committed t rid new l)) a = Some re"
  using assms by (auto simp: bt_simps)

lemma receipts_committed:
  assumes "receipts_ok E l" "bt_get (processed_requests l) rid = None"
    and "\<And>a x. bt_get (processed_requests l) a = Some x \<Longrightarrow> re_task_id x = run_id t \<Longrightarrow> re_revision x < revision t \<or>
        bt_get (tasks l) (run_id t) = None"
    and "\<And>u. bt_get (tasks l) (run_id t) = Some u \<Longrightarrow> revision u \<le> revision t"
  shows "receipts_ok E (committed t rid \<lparr>re_task_id = run_id t, re_revision = revision t,
      re_fingerprint = fingerprint_bytes E payload\<rparr> l)"
proof -
  let ?l = "committed t rid \<lparr>re_task_id = run_id t, re_revision = revision t,
      re_fingerprint = fingerprint_bytes E payload\<rparr> l"
  have old: "\<exists>u. bt_get (tasks ?l) (re_task_id re) = Some u \<and> re_revision re \<le> revision u"
    "\<exists>p. re_fingerprint re = fingerprint_bytes E p"
    if "bt_get (processed_requests l) a = Some re" for a re
    using assms(1) [unfolded receipts_ok_def, THEN conjunct1, rule_format, OF that] assms(4)
    by (auto simp: bt_simps intro: order_trans)
  have less: "re_revision x \<noteq> revision t \<or> re_task_id x \<noteq> run_id t"
    if "bt_get (processed_requests l) a = Some x" for a x
    using assms(1) [unfolded receipts_ok_def, THEN conjunct1, rule_format, OF that] assms(3) [OF that] by auto
  have uniq: "bt_get (processed_requests l) a = Some x \<Longrightarrow> bt_get (processed_requests l) b = Some y \<Longrightarrow>
      re_task_id x = re_task_id y \<Longrightarrow> re_revision x = re_revision y \<Longrightarrow> a = b" for a b x y
    using assms(1) unfolding receipts_ok_def by blast
  show ?thesis
    unfolding receipts_ok_def
  proof (intro conjI allI impI)
    fix a re assume a: "bt_get (processed_requests ?l) a = Some re"
    show "\<exists>u. bt_get (tasks ?l) (re_task_id re) = Some u \<and> re_revision re \<le> revision u"
    proof (cases "a = rid")
      case True
      then show ?thesis using a by (auto simp: bt_simps)
    next
      case False
      then show ?thesis using a old(1) by (simp add: bt_simps)
    qed
    show "\<exists>p. re_fingerprint re = fingerprint_bytes E p"
    proof (cases "a = rid")
      case True
      then show ?thesis using a by (auto simp: bt_simps)
    next
      case False
      then show ?thesis using a old(2) by (simp add: bt_simps)
    qed
  next
    fix a b x y
    assume ab: "bt_get (processed_requests ?l) a = Some x \<and> bt_get (processed_requests ?l) b = Some y \<and>
      re_task_id x = re_task_id y \<and> re_revision x = re_revision y"
    show "a = b"
    proof (cases "a = rid \<or> b = rid")
      case True
      then show ?thesis using ab less [of b y] less [of a x] by (auto simp: bt_simps split: if_splits)
    next
      case False
      then show ?thesis using ab uniq by (simp add: bt_simps)
    qed
  qed
qed

lemma fingerprints_of_bytes:
  "\<exists>p. fingerprint_registration E r = fingerprint_bytes E p"
  "\<exists>p. fingerprint_mutation E project k m = fingerprint_bytes E p"
  by (auto simp: fingerprint_registration_def fingerprint_mutation_def)

lemma backed_registered:
  assumes b: "backed E S l" and fs: "fs_ok S" and reg: "registered_as S r0 r"
    and fresh: "bt_get (processed_requests l) (rg_request_id r0) = None" "bt_get (tasks l) (rg_task_id r0) = None"
    and t: "t = initial_run r now uuid" "parse_rfc3339 E now \<noteq> None"
  shows "backed E S (committed t (rg_request_id r0) \<lparr>re_task_id = rg_task_id r0, re_revision = 0,
       re_fingerprint = fingerprint_registration E r\<rparr> l)" (is "backed E S ?l")
proof -
  have id: "run_id t = rg_task_id r0" "revision t = 0"
    using registered_as_fields(2) [OF reg] by (simp_all add: t initial_run_def)
  have "receipts_ok E l" using b by (simp add: backed_def)
  moreover obtain p where p: "fingerprint_registration E r = fingerprint_bytes E p"
    using fingerprints_of_bytes(1) by blast
  ultimately have receipts: "receipts_ok E ?l"
    using receipts_committed [of E l "rg_request_id r0" t p] fresh id by simp
  have "\<exists>h. backed_by E S ?l k u h" if u: "bt_get (tasks ?l) k = Some u" for k u
  proof (cases "k = rg_task_id r0")
    case True
    let ?h = "\<lparr>th_registration = r, th_now = now, th_uuid = uuid, th_ops = []\<rparr>"
    have "u = t" using u True by (simp add: bt_simps id)
    then have "backed_by E S ?l k u ?h"
      using True registered_storable [OF reg fs] registered_as_fields(1,2) [OF reg] t id
      by (auto simp: backed_by_def expected_fingerprint_def bt_simps)
    then show ?thesis by blast
  next
    case False
    then obtain h where "backed_by E S l k u h" using u b by (auto simp: bt_simps id backed_def)
    then have "backed_by E S ?l k u h" by (rule backed_by_mono) (rule committed_receipts [OF fresh(1)])
    then show ?thesis by blast
  qed
  with receipts b show ?thesis by (simp add: backed_def committed_wf)
qed

lemma backed_by_step:
  assumes h: "backed_by E S l k t h" and step: "run_step E t op = Inr t'" "op_ok E op"
    and fresh: "bt_get (processed_requests l) rid = None"
    and re: "re = \<lparr>re_task_id = k, re_revision = revision t',
       re_fingerprint = fingerprint_mutation E (project_id t) k (lo_mutation op)\<rparr>"
  shows "backed_by E S (committed t' rid re l) k t' (h\<lparr>th_ops := th_ops h @ [op]\<rparr>)"
proof -
  have serve: "serve (run_step E) (th_start h) (th_ops h) = t" using h by (simp add: backed_by_def)
  have rev: "revision t' = Suc (length (th_ops h))"
    using run_step_fields(4) [OF step(1)] backed_by_revision [OF h] by simp
  have acc: "accepted (run_step E) (th_start h) (th_ops h @ [op]) = th_ops h @ [op]"
    using accepted_snoc [of "run_step E" "th_start h" "th_ops h" op t'] serve step(1) h
    by (simp add: backed_by_def)
  have project: "project_id t = project_id (th_registration h)"
    using served_run_extends [of "th_start h" E "th_ops h"] serve
    by (simp add: extended_by_def task_core.truncate_def) (simp add: initial_run_def)
  have key: "rg_task_id (th_registration h) = k" using h by (simp add: backed_by_def)
  have receipt: "\<exists>a. bt_get (processed_requests (committed t' rid re l)) a =
      Some \<lparr>re_task_id = k, re_revision = i,
        re_fingerprint = expected_fingerprint E (h\<lparr>th_ops := th_ops h @ [op]\<rparr>) i\<rparr> \<and>
      (i = 0 \<longrightarrow> a = rg_request_id (th_registration h))" if "i \<le> revision t'" for i
  proof (cases "i = revision t'")
    case True
    have "expected_fingerprint E (h\<lparr>th_ops := th_ops h @ [op]\<rparr>) i =
        fingerprint_mutation E (project_id t) k (lo_mutation op)"
      by (simp add: expected_fingerprint_def True rev nth_append project key)
    then show ?thesis using True rev re by (intro exI [of _ rid]) (simp add: bt_simps)
  next
    case False
    with that have i: "i \<le> revision t" using run_step_fields(4) [OF step(1)] by simp
    then have "expected_fingerprint E (h\<lparr>th_ops := th_ops h @ [op]\<rparr>) i = expected_fingerprint E h i"
      using backed_by_revision [OF h] by (auto simp: expected_fingerprint_def nth_append)
    moreover obtain a where "bt_get (processed_requests l) a =
        Some \<lparr>re_task_id = k, re_revision = i, re_fingerprint = expected_fingerprint E h i\<rparr>"
      "i = 0 \<longrightarrow> a = rg_request_id (th_registration h)"
      using h i unfolding backed_by_def by blast
    ultimately show ?thesis using committed_receipts [OF fresh] by metis
  qed
  show ?thesis
    using h step acc receipt serve unfolding backed_by_def
    by (simp add: serve_append attempt_def)
qed

lemma backed_mutated:
  assumes b: "backed E S l" and adm: "admitted S q l t"
    and step: "run_step E t op = Inr t'" "op_ok E op" "lo_mutation op = mr_mutation q"
  shows "backed E S (committed t' (mr_request_id q) \<lparr>re_task_id = run_id t', re_revision = revision t',
       re_fingerprint = fingerprint_mutation E (mr_project_id q) (mr_task_id q) (mr_mutation q)\<rparr> l)"
    (is "backed E S ?l")
proof -
  have fresh: "bt_get (processed_requests l) (mr_request_id q) = None"
    and t: "bt_get (tasks l) (mr_task_id q) = Some t" "mr_project_id q = project_id t"
    using adm by (simp_all add: admitted_def)
  have id: "run_id t' = mr_task_id q" "revision t' = Suc (revision t)"
    using b t run_step_fields(2,4) [OF step(1)] by (simp_all add: backed_def ledger_wf_def)
  have ok: "receipts_ok E l" using b by (simp add: backed_def)
  have "re_revision x < revision t'"
    if "bt_get (processed_requests l) a = Some x" "re_task_id x = run_id t'" for a x
    using ok [unfolded receipts_ok_def, THEN conjunct1, rule_format, OF that(1)] that(2) t(1) id by auto
  moreover obtain p where p: "fingerprint_mutation E (mr_project_id q) (mr_task_id q) (mr_mutation q) =
      fingerprint_bytes E p" using fingerprints_of_bytes(2) by blast
  moreover have "revision u \<le> revision t'" if "bt_get (tasks l) (run_id t') = Some u" for u
    using that t(1) id by simp
  ultimately have receipts: "receipts_ok E ?l"
    using receipts_committed [OF ok fresh, of t' p] by simp
  have "\<exists>h. backed_by E S ?l k u h" if u: "bt_get (tasks ?l) k = Some u" for k u
  proof (cases "k = mr_task_id q")
    case True
    then have "u = t'" using u id by (simp add: bt_simps)
    moreover obtain h where "backed_by E S l k t h" using b t(1) True by (auto simp: backed_def)
    ultimately show ?thesis
      using backed_by_step [OF _ step(1,2) fresh refl, of S k h] True id step(3) t(2) by auto
  next
    case False
    then obtain h where "backed_by E S l k u h" using u b by (auto simp: bt_simps id backed_def)
    then have "backed_by E S ?l k u h" by (rule backed_by_mono) (rule committed_receipts [OF fresh])
    then show ?thesis by blast
  qed
  with receipts b show ?thesis by (simp add: backed_def committed_wf)
qed

lemma backed_step:
  assumes "ledger_step E S l op = Inr l'" "backed E S l" "fs_ok S" "ledger_op_ok E op"
  shows "backed E S l'"
  using assms(1)
proof (cases rule: ledger_stepE)
  case (registered r0 r t)
  then show ?thesis using backed_registered [OF assms(2,3)] assms(4) by (simp add: ledger_op_ok_def)
next
  case (mutated q auth t t')
  have "op_ok E (op_of (lq_ambient op) (mr_mutation q) auth)"
    using assms(4) by (simp add: op_ok_def ledger_op_ok_def op_of_def)
  then show ?thesis using mutated backed_mutated [OF assms(2)] by (simp add: op_of_def)
qed (use assms in simp)

lemma served_backed:
  assumes "fs_ok S" "list_all (ledger_op_ok E) ops"
  shows "backed E S (serve (ledger_step E S) default_ledger ops)"
  using assms(2)
proof (induction ops rule: rev_induct)
  case Nil
  show ?case using default_ledger_wf by (simp add: backed_def receipts_ok_def default_ledger_def)
next
  case (snoc op ops)
  then show ?case
    by (cases "ledger_step E S (serve (ledger_step E S) default_ledger ops) op")
      (auto simp: serve_append dest: backed_step [OF _ _ assms(1)])
qed

section \<open>The receipt index of a load\<close>

definition indexes :: "ledger \<Rightarrow> receipt_index \<Rightarrow> (rstr \<times> receipt) list \<Rightarrow> bool" where
  "indexes l index seen \<longleftrightarrow> (\<forall>k t. bt_get (tasks l) k = Some t \<longrightarrow> (\<exists>m. bt_get index k = Some m \<and> bt_wf m \<and>
     (\<forall>i a f. bt_get m i = Some (a, f) \<longleftrightarrow>
        (a, \<lparr>re_task_id = k, re_revision = i, re_fingerprint = f\<rparr>) \<in> set seen)))"

abbreviation slot :: "rstr \<times> receipt \<Rightarrow> rstr \<times> nat" where
  "slot \<equiv> \<lambda>(_, re). (re_task_id re, re_revision re)"

definition indexable :: "ledger \<Rightarrow> receipt \<Rightarrow> bool" where
  "indexable l re \<longleftrightarrow> (\<exists>t. bt_get (tasks l) (re_task_id re) = Some t \<and> re_revision re \<le> revision t) \<and>
     require_request_fingerprint (re_fingerprint re) = Inr ()"

lemma indexes_empty: "indexes l (empty_index l) []"
proof -
  have "map_of (map (\<lambda>(a, _). (a, bt_empty)) m) k = Some bt_empty" if "map_of m k = Some t"
    for m :: "(rstr, run) btree" and k t using that by (induction m) auto
  then have "bt_get (tasks l) k = Some t \<Longrightarrow> bt_get (empty_index l) k = Some bt_empty" for k t
    by (simp add: empty_index_def bt_get_def)
  then show ?thesis unfolding indexes_def by (auto intro!: exI [of _ bt_empty])
qed

lemma index_receipt_ok:
  assumes ix: "indexes l index seen" and re: "indexable l re" and new: "slot (rid, re) \<notin> slot ` set seen"
  shows "\<exists>index'. index_receipt l rid re index = Inr index' \<and> indexes l index' (seen @ [(rid, re)])"
proof -
  obtain t where t: "bt_get (tasks l) (re_task_id re) = Some t" "re_revision re \<le> revision t"
    using re by (auto simp: indexable_def)
  obtain m where m: "bt_get index (re_task_id re) = Some m" "bt_wf m"
    "\<And>i a f. bt_get m i = Some (a, f) \<longleftrightarrow>
        (a, \<lparr>re_task_id = re_task_id re, re_revision = i, re_fingerprint = f\<rparr>) \<in> set seen"
    using ix t(1) unfolding indexes_def by blast
  have free: "bt_get m (re_revision re) = None"
  proof (rule ccontr)
    assume "bt_get m (re_revision re) \<noteq> None"
    then obtain a f where "(a, \<lparr>re_task_id = re_task_id re, re_revision = re_revision re,
        re_fingerprint = f\<rparr>) \<in> set seen" using m(3) by (metis not_None_eq prod.exhaust)
    then show False using new by force
  qed
  let ?m = "bt_insert (re_revision re) (rid, re_fingerprint re) m"
  let ?index = "bt_insert (re_task_id re) ?m index"
  have "index_receipt l rid re index = Inr ?index"
    using t m(1) re free by (simp add: index_receipt_def indexable_def require_receipt_revision_def
        bail_unless_def bt_contains_def)
  moreover have "\<exists>m'. bt_get ?index k = Some m' \<and> bt_wf m' \<and>
      (\<forall>i a f. bt_get m' i = Some (a, f) \<longleftrightarrow>
        (a, \<lparr>re_task_id = k, re_revision = i, re_fingerprint = f\<rparr>) \<in> set (seen @ [(rid, re)]))"
    if "bt_get (tasks l) k = Some u" for k u
  proof (cases "k = re_task_id re")
    case True
    have "(a, \<lparr>re_task_id = re_task_id re, re_revision = re_revision re, re_fingerprint = f\<rparr>) \<notin> set seen"
      for a f using new by force
    then have "bt_get ?m i = Some (a, f) \<longleftrightarrow>
        (a, \<lparr>re_task_id = k, re_revision = i, re_fingerprint = f\<rparr>) \<in> set (seen @ [(rid, re)])" for i a f
      using True m(3) by (cases re) (auto simp: bt_simps)
    then show ?thesis using True m(2) by (simp add: bt_simps)
  next
    case False
    then have "(a, \<lparr>re_task_id = k, re_revision = i, re_fingerprint = f\<rparr>) \<in> set (seen @ [(rid, re)]) \<longleftrightarrow>
        (a, \<lparr>re_task_id = k, re_revision = i, re_fingerprint = f\<rparr>) \<in> set seen" for i a f by auto
    with False ix that show ?thesis unfolding indexes_def by (simp add: bt_simps)
  qed
  ultimately show ?thesis unfolding indexes_def by blast
qed

lemma index_receipts_ok:
  assumes "indexes l index seen" "list_all (\<lambda>(_, re). indexable l re) rs" "distinct (map slot (seen @ rs))"
  shows "\<exists>index'. index_receipts l rs index = Inr index' \<and> indexes l index' (seen @ rs)"
  using assms
proof (induction rs arbitrary: index seen)
  case (Cons x rs)
  obtain rid re where x: "x = (rid, re)" by (cases x)
  obtain index1 where "index_receipt l rid re index = Inr index1" "indexes l index1 (seen @ [x])"
    using index_receipt_ok [OF Cons.prems(1), of re rid] Cons.prems(2,3) x by auto
  with Cons.IH [of index1 "seen @ [x]"] Cons.prems(2,3) show ?case by (auto simp: x)
qed simp

text \<open>A digest prints as 64 lower-case hexadecimal characters.\<close>

definition sha256_lower :: "env \<Rightarrow> bool" where
  "sha256_lower E \<longleftrightarrow> (\<forall>payload. byte_len (sha256_hex E payload) = 64 \<and> lower_hex (sha256_hex E payload))"

lemma fingerprint_format: "sha256_lower E \<Longrightarrow> require_request_fingerprint (fingerprint_bytes E p) = Inr ()"
  by (simp add: require_request_fingerprint_def fingerprint_bytes_def strip_prefix_def sha256_lower_def bail_unless_def)

lemma backed_index:
  assumes "backed E S l" "sha256_lower E"
  shows "\<exists>index. index_receipts l (processed_requests l) (empty_index l) = Inr index \<and>
    indexes l index (processed_requests l)"
proof -
  have wf: "bt_wf (processed_requests l)" and ok: "receipts_ok E l"
    using assms(1) by (simp_all add: backed_def ledger_wf_def)
  have "indexable l re" if "(a, re) \<in> set (processed_requests l)" for a re
  proof -
    have "bt_get (processed_requests l) a = Some re" using that bt_wf_get [OF wf] by simp
    with ok have "\<exists>t. bt_get (tasks l) (re_task_id re) = Some t \<and> re_revision re \<le> revision t"
      "\<exists>p. re_fingerprint re = fingerprint_bytes E p" unfolding receipts_ok_def by blast+
    with assms(2) show ?thesis unfolding indexable_def by (metis fingerprint_format)
  qed
  then have "list_all (\<lambda>(_, re). indexable l re) (processed_requests l)" by (auto simp: list.pred_set)
  moreover have "inj_on slot (set (processed_requests l))"
  proof (rule inj_onI, clarify)
    fix a x b y
    assume "(a, x) \<in> set (processed_requests l)" "(b, y) \<in> set (processed_requests l)"
      "re_task_id x = re_task_id y" "re_revision x = re_revision y"
    then show "a = b \<and> x = y"
      using ok unfolding receipts_ok_def bt_wf_get [OF wf] by (metis option.inject)
  qed
  then have "distinct (map slot (processed_requests l))"
    using bt_wf_distinct [OF wf] by (simp add: distinct_map)
  ultimately show ?thesis using index_receipts_ok [OF indexes_empty, of l "processed_requests l"] by simp
qed

section \<open>Loading a served ledger\<close>

lemma sha256_lower_ok: "sha256_lower E \<Longrightarrow> sha256_hex_ok E"
  by (auto simp: sha256_lower_def sha256_hex_ok_def lower_hex_def list.pred_set
      is_lower_hex_byte_def is_ascii_hexdigit_def is_ascii_digit_def)

lemma history_revision_bound: "validate_task_history E draw t = Inr fs \<Longrightarrow> Suc (revision t) \<le> u64_max"
  by (auto simp: validate_task_history_def history_header_def Let_def)

lemma receipts_cover:
  assumes "bt_wf m" "\<And>i. bt_contains m i \<longleftrightarrow> i \<le> n"
  shows "length m = Suc n"
proof -
  have "fst ` set m = {..n}"
    using assms by (force simp: bt_contains_def bt_wf_get [symmetric] image_iff)
  then have "card (fst ` set m) = Suc n" by simp
  moreover have "length m = card (fst ` set m)"
    using bt_wf_distinct [OF assms(1)] by (metis distinct_card length_map list.set_map)
  ultimately show ?thesis by simp
qed

lemma indexed_receipts:
  assumes b: "backed E S l" and h: "backed_by E S l k t h" and m: "bt_wf m"
    and ix: "\<And>i a f. bt_get m i = Some (a, f) \<longleftrightarrow>
      (a, \<lparr>re_task_id = k, re_revision = i, re_fingerprint = f\<rparr>) \<in> set (processed_requests l)"
    and t: "bt_get (tasks l) k = Some t"
  shows "length m = Suc (revision t)" "\<And>i. bt_contains m i \<longleftrightarrow> i \<le> revision t"
    "\<And>i. i \<le> revision t \<Longrightarrow> \<exists>a. bt_get m i = Some (a, expected_fingerprint E h i) \<and>
       (i = 0 \<longrightarrow> a = rg_request_id (th_registration h))"
proof -
  have wf: "bt_wf (processed_requests l)" and ok: "receipts_ok E l"
    using b by (simp_all add: backed_def ledger_wf_def)
  show cover: "\<exists>a. bt_get m i = Some (a, expected_fingerprint E h i) \<and>
       (i = 0 \<longrightarrow> a = rg_request_id (th_registration h))" if "i \<le> revision t" for i
    using h that unfolding backed_by_def ix bt_wf_get [OF wf] by blast
  show all: "bt_contains m i \<longleftrightarrow> i \<le> revision t" for i
  proof
    assume "bt_contains m i"
    then obtain a f where "bt_get m i = Some (a, f)" by (auto simp: bt_contains_def)
    then have "bt_get (processed_requests l) a = Some \<lparr>re_task_id = k, re_revision = i, re_fingerprint = f\<rparr>"
      by (simp add: ix bt_wf_get [OF wf])
    then show "i \<le> revision t" using ok [unfolded receipts_ok_def, THEN conjunct1, rule_format] t by fastforce
  next
    assume "i \<le> revision t"
    then obtain x where "bt_get m i = Some x" using cover by blast
    then show "bt_contains m i" by (simp add: bt_contains_def)
  qed
  show "length m = Suc (revision t)" using receipts_cover [OF m all] .
qed

lemma backed_registration:
  assumes "backed_by E S l k t h"
  shows "stored_registration t (rg_request_id (th_registration h)) = th_registration h"
    "run_id t = k" "project_id t = governed_project_id S" "workspace_root t = workspace_root (th_registration h)"
proof -
  have "extended_by (th_start h) t" using assms served_run_extends by (simp add: backed_by_def)
  then have "task_core.truncate t = task_core.truncate (th_registration h)" "run_id t = rg_task_id (th_registration h)"
    by (simp_all add: extended_by_def initial_run_def task_core.truncate_def)
  then show "stored_registration t (rg_request_id (th_registration h)) = th_registration h"
    "run_id t = k" "project_id t = governed_project_id S" "workspace_root t = workspace_root (th_registration h)"
    using assms by (simp_all add: stored_registration_def task_core.truncate_def backed_by_def storable_def)
qed

lemma backed_history:
  assumes "backed_by E S l k t h" "sha256_lower E" "distinct (all_ids t)"
  shows "validate_task_history E draw t = Inr (enumerate 1 (map (\<lambda>op. fingerprint_mutation E
    (project_id (th_registration h)) (rg_task_id (th_registration h)) (lo_mutation op)) (th_ops h)))"
  using served_history_reloads [of E "th_ops h" "th_now h" "th_registration h" "th_uuid h" draw]
    sha256_lower_ok [OF assms(2)] assms(1,3)
  by (simp add: backed_by_def)

lemma stored_task_loads:
  assumes b: "backed E S l" "sha256_lower E" and t: "bt_get (tasks l) k = Some t" "distinct (all_ids t)"
    and ix: "indexes l index (processed_requests l)" and root: "canonical_governed_project_root S = Inr expected"
  shows "validate_stored_task E S draw expected index (k, t) = Inr ()"
proof -
  obtain h where h: "backed_by E S l k t h" using b(1) t(1) by (auto simp: backed_def)
  obtain m where m: "bt_get index k = Some m" "bt_wf m" "\<And>i a f. bt_get m i = Some (a, f) \<longleftrightarrow>
      (a, \<lparr>re_task_id = k, re_revision = i, re_fingerprint = f\<rparr>) \<in> set (processed_requests l)"
    using ix t(1) unfolding indexes_def by blast
  note cover = indexed_receipts [OF b(1) h m(2,3) t(1)] and reg = backed_registration [OF h]
  have store: "storable S (th_registration h)" using h by (simp add: backed_by_def)
  have "check_stored_workspace S expected k t = Inr ()"
    using store root reg(4) by (auto simp: check_stored_workspace_def storable_def bail_unless_def)
  moreover have "check_stored_registration E k t m = Inr ()"
    using cover(3) [of 0] store reg(1)
    by (auto simp: check_stored_registration_def bail_unless_def expected_fingerprint_def storable_def)
  moreover have "check_fingerprint k m x = Inr ()" if x: "x \<in> set (enumerate 1 (map (\<lambda>op.
      fingerprint_mutation E (project_id (th_registration h)) (rg_task_id (th_registration h))
        (lo_mutation op)) (th_ops h)))" for x
  proof -
    obtain i f where p: "x = (i, f)" by (cases x)
    have i: "1 \<le> i" "i \<le> length (th_ops h)"
      "f = fingerprint_mutation E (project_id (th_registration h)) (rg_task_id (th_registration h))
         (lo_mutation (th_ops h ! (i - 1)))"
      using x unfolding p in_set_enumerate_eq by auto
    then have "f = expected_fingerprint E h i" by (simp add: expected_fingerprint_def)
    then show ?thesis
      using cover(3) [of i] p i(2) backed_by_revision [OF h] by (auto simp: check_fingerprint_def bail_unless_def)
  qed
  moreover have "Suc (revision t) \<le> u64_max"
    using backed_history [OF h b(2) t(2), of "draw k"] by (rule history_revision_bound)
  ultimately show ?thesis
    using m(1) cover(1,2) reg(3) backed_history [OF h b(2) t(2), of "draw k"]
    by (auto simp: validate_stored_task_def require_project_def bail_unless_def list.pred_set)
qed

lemma backed_loads:
  assumes "backed E S l" "sha256_lower E" "\<And>k t. bt_get (tasks l) k = Some t \<Longrightarrow> distinct (all_ids t)"
  shows "load_ledger E S draw l = Inr l"
proof -
  have wf: "ledger_wf l" using assms(1) by (simp add: backed_def)
  obtain index where ix: "index_receipts l (processed_requests l) (empty_index l) = Inr index"
    "indexes l index (processed_requests l)" using backed_index [OF assms(1,2)] by blast
  have mem: "(k, t) \<in> set (tasks l) \<longleftrightarrow> bt_get (tasks l) k = Some t" for k t
    using wf by (simp add: ledger_wf_def bt_wf_get)
  have "\<exists>e. canonical_governed_project_root S = Inr e" if "tasks l \<noteq> []"
  proof -
    from that obtain k t where "bt_get (tasks l) k = Some t" using mem by (cases "tasks l") auto
    then obtain h where "backed_by E S l k t h" using assms(1) by (auto simp: backed_def)
    then show ?thesis by (auto simp: backed_by_def storable_def)
  qed
  moreover have "validate_stored_task E S draw e index (k, t) = Inr ()"
    if "canonical_governed_project_root S = Inr e" "(k, t) \<in> set (tasks l)" for e k t
    using stored_task_loads [OF assms(1,2) _ _ ix(2) that(1)] assms(3) that(2) mem by blast
  ultimately have "validate_ledger E S draw l = Inr ()"
    using ix(1) wf mem
    by (cases "tasks l = []") (auto simp: validate_ledger_def list.pred_set bail_unless_def ledger_wf_def)
  then show ?thesis using wf by (auto simp: load_ledger_def ledger_wf_def bail_unless_def)
qed

text \<open>C4: What the daemon writes it can read back: whatever registrations and mutations were requested,
  in whatever order and with whatever failures in between, the ledger they leave passes every check of
  a restart and is loaded unchanged.  Canonical paths must be stable, clock readings RFC 3339, digests
  64 lower-case hexadecimal characters, and drawn identifiers distinct within a task.\<close>

theorem served_ledger_loads:
  assumes "fs_ok S" "sha256_lower E" "list_all (ledger_op_ok E) ops"
    and "\<And>k t. bt_get (tasks (serve (ledger_step E S) default_ledger ops)) k = Some t \<Longrightarrow> distinct (all_ids t)"
  shows "load_ledger E S draw (serve (ledger_step E S) default_ledger ops) =
    Inr (serve (ledger_step E S) default_ledger ops)"
  using backed_loads [OF served_backed [OF assms(1,3)] assms(2,4)] .

lemma demo_fs: "fs_ok demo_site"
proof -
  have "path_is_absolute (lit ''/w'')" "0 \<notin> set (lit ''/w'')" "byte_len (lit ''/w'') \<le> 4096"
    by (simp_all add: lit_def path_is_absolute_def byte_len_def utf8_def utf8_char_def)
  then show ?thesis by (simp add: fs_ok_def demo_site_def)
qed

lemma demo_sha_lower: "sha256_lower demo_env"
proof -
  have "length bs mod 10 \<le> 9" for bs :: "nat list" by presburger
  then show ?thesis
    by (auto simp: sha256_lower_def demo_env_def byte_len_def utf8_replicate_ascii lower_hex_def
      is_lower_hex_byte_def is_ascii_digit_def list.pred_set)
qed

lemma demo_ledger_ops_ok: "list_all (ledger_op_ok demo_env) demo_ledger_ops"
  by (simp add: demo_ledger_ops_def ledger_op_ok_def demo_ambient_def demo_uuid_ok)

lemma demo_taken_ids: "distinct (all_ids demo_s3')"
  by (simp add: all_ids_def demo_s3'_def demo_states demo_push_def push_event_def demo_start_def
      initial_run_def registration_event_def new_record_id_def lit_def demo_uuid_def)

theorem served_ledger_loads_witness:
  "fs_ok demo_site \<and> sha256_lower demo_env \<and> list_all (ledger_op_ok demo_env) demo_ledger_ops \<and>
   bt_get (tasks (demo_ledger 4)) (lit ''task-1'') = Some demo_s3' \<and>
   load_ledger demo_env demo_site (\<lambda>_ i. (demo_uuid i, demo_uuid i)) (demo_ledger 4) = Inr (demo_ledger 4)"
proof -
  have l: "demo_ledger 4 = serve (ledger_step demo_env demo_site) default_ledger demo_ledger_ops"
    by (simp add: demo_ledger_def demo_ledger_ops_def)
  have "distinct (all_ids t)" if "bt_get (tasks (demo_ledger 4)) k = Some t" for k t
    using that demo_taken_ids by (simp add: demo_ledgers split: if_splits)
  then have "load_ledger demo_env demo_site (\<lambda>_ i. (demo_uuid i, demo_uuid i)) (demo_ledger 4) =
      Inr (demo_ledger 4)"
    using served_ledger_loads [OF demo_fs demo_sha_lower demo_ledger_ops_ok] unfolding l by blast
  then show ?thesis using demo_fs demo_sha_lower demo_ledger_ops_ok by (simp add: demo_ledgers)
qed

end
