(* ===== verification/Memory_Derivation.thy ===== *)
theory Memory_Derivation
  imports Memory_Ledger Ledger_Reload
begin

text \<open>
  Accepted runs and their candidates: the limits of the governed-task ledger are tight enough for the
  memory contract, so every accepted run of a served ledger derives a candidate, and nothing that
  happens to the run afterwards changes the candidate it derives.
\<close>

section \<open>Texts\<close>

lemma lower_hex_chars: "lower_hex s \<Longrightarrow> c \<in> set s \<Longrightarrow> is_lower_hex_byte c"
proof (induction s)
  case (Cons x s)
  have "is_lower_hex_byte x" if "list_all is_lower_hex_byte (utf8_char x)"
    using that by (auto simp: utf8_char_def is_lower_hex_byte_def is_ascii_digit_def split: if_splits)
  with Cons show ?case by (auto simp: lower_hex_def utf8_def)
qed simp

lemma lower_hex_open_id: "lower_hex s \<Longrightarrow> open_id_chars s"
  using lower_hex_chars [of s]
  by (fastforce simp: open_id_chars_def list.pred_set is_lower_hex_byte_def is_ascii_digit_def
      is_whitespace_def is_control_def)

lemma prefixed_hex_id:
  assumes "open_id_chars p" "p \<noteq> []" "length p \<le> 40" "byte_len hex = 64" "lower_hex hex"
  shows "try_new_id (p @ hex) = Inr (p @ hex)"
proof -
  have "byte_len p \<le> 160" using byte_len_bounds(2) [of p] assms(3) by simp
  then show ?thesis
    using assms lower_hex_open_id [OF assms(5)]
    by (simp add: try_new_id_Inr memory_limits open_id_chars_def)
qed

lemma lit_nonzero: "list_all (\<lambda>c. of_char c \<noteq> (0::nat)) s \<Longrightarrow> 0 \<notin> set (lit s)"
  by (induction s) (auto simp: lit_def)

lemma text_ok_framed:
  assumes "text_ok s n" "0 \<notin> set a" "0 \<notin> set b" "n + 4 * (length a + length b) \<le> m"
  shows "text_ok (a @ s @ b) m"
proof -
  have "byte_len a + byte_len b \<le> 4 * (length a + length b)"
    using byte_len_bounds(2) [of a] byte_len_bounds(2) [of b] by simp
  with assms show ?thesis by (auto simp: text_ok_def trim_nonempty)
qed

lemma summary_ok: "text_ok s MAX_TASK_BYTES \<Longrightarrow> text_ok (proposed_summary_of a s) MAX_PROPOSED_SUMMARY_BYTES"
  unfolding proposed_summary_of_def
  by (rule text_ok_framed; cases a) (simp_all add: lit_def memory_limits, simp_all)

section \<open>What the records of a served run satisfy\<close>

definition records_shaped :: "env \<Rightarrow> run \<Rightarrow> bool" where
  "records_shaped E t \<longleftrightarrow> revision t \<le> u64_max \<and>
     list_all (\<lambda>c. refs_ok (cl_artifacts c)) (claims t) \<and>
     list_all (\<lambda>v. text_ok (vf_subject v) MAX_GOVERNED_REFERENCE_BYTES \<and>
       text_ok (vf_policy v) MAX_GOVERNED_REFERENCE_BYTES \<and> length (vf_commands v) \<le> MAX_GOVERNED_COMMANDS \<and>
       refs_ok (vf_artifacts v)) (verifications t) \<and>
     list_all (\<lambda>d. parse_rfc3339 E (od_decided_at d) \<noteq> None \<and> od_based_on d < revision t) (operator_decisions t)"

lemma records_shaped_transition:
  assumes "transition E ctx r t m u" "parse_rfc3339 F (mc_now ctx) \<noteq> None"
  shows "list_all (\<lambda>c. refs_ok (cl_artifacts c)) (claims t) \<Longrightarrow> list_all (\<lambda>c. refs_ok (cl_artifacts c)) (claims u)"
    and "list_all (\<lambda>v. text_ok (vf_subject v) MAX_GOVERNED_REFERENCE_BYTES \<and>
       text_ok (vf_policy v) MAX_GOVERNED_REFERENCE_BYTES \<and> length (vf_commands v) \<le> MAX_GOVERNED_COMMANDS \<and>
       refs_ok (vf_artifacts v)) (verifications t) \<Longrightarrow>
      list_all (\<lambda>v. text_ok (vf_subject v) MAX_GOVERNED_REFERENCE_BYTES \<and>
       text_ok (vf_policy v) MAX_GOVERNED_REFERENCE_BYTES \<and> length (vf_commands v) \<le> MAX_GOVERNED_COMMANDS \<and>
       refs_ok (vf_artifacts v)) (verifications u)"
    and "list_all (\<lambda>d. parse_rfc3339 F (od_decided_at d) \<noteq> None \<and> od_based_on d < revision t) (operator_decisions t) \<Longrightarrow>
      list_all (\<lambda>d. parse_rfc3339 F (od_decided_at d) \<noteq> None \<and> od_based_on d < Suc (revision t)) (operator_decisions u)"
  using assms
  by (induction rule: transition.induct)
    (auto simp: push_event_def claim_record_of_def claim_admissible_def claim_ok_def verification_ok_def
      list.pred_set less_Suc_eq)

lemma records_shaped_step:
  assumes "run_step E t op = Inr t'" "op_ok E op" "records_shaped E t"
  shows "records_shaped E t'"
proof -
  obtain u where u: "transition E (op_context op) (Suc (revision t)) t (lo_mutation op) u"
    "t' = settle t (lo_now op) u" "Suc (revision t) \<le> u64_max"
    using assms(1) by (auto simp: run_step_Inr)
  have now: "parse_rfc3339 E (mc_now (op_context op)) \<noteq> None" using assms(2) by (simp add: op_ok_def)
  show ?thesis
    using records_shaped_transition [OF u(1) now] assms(3) u(2,3) by (simp add: records_shaped_def)
qed

lemma records_shaped_serve:
  "list_all (op_ok E) ops \<Longrightarrow> records_shaped E t \<Longrightarrow> records_shaped E (serve (run_step E) t ops)"
proof (induction ops arbitrary: t)
  case (Cons op ops)
  then show ?case
    by (cases "run_step E t op") (auto dest: records_shaped_step)
qed simp

lemma initial_shaped: "records_shaped E (initial_run r now uuid)"
  by (simp add: records_shaped_def initial_run_def)

section \<open>Every accepted run derives a candidate\<close>

definition registered_shape :: "run \<Rightarrow> bool" where
  "registered_shape t \<longleftrightarrow> text_ok (project_id t) 256 \<and> text_ok (workspace_root t) (16 * 1024) \<and>
     text_ok (task t) (8 * 1024) \<and> text_ok (runtime_id t) 256 \<and> text_ok (agent_id t) 256 \<and>
     length (acceptance_criteria t) \<le> 64 \<and> list_all (\<lambda>c. text_ok c (16 * 1024)) (acceptance_criteria t) \<and>
     pred_option (\<lambda>s. text_ok s 256) (session_id t) \<and>
     (verification_profile t \<noteq> None \<longrightarrow> acceptance_criteria t \<noteq> [])"

lemma validated_shape:
  assumes "validate_registration r = Inr ()"
  shows "registered_shape (initial_run r now uuid)"
proof -
  have "validate_identity r = Inr ()" "validate_profile r = Inr ()"
    using assms by (simp_all add: validate_registration_def)
  then show ?thesis
    by (auto simp: registered_shape_def initial_run_def validate_identity_def validate_profile_def
        validate_nonblank_def MAX_GOVERNED_TASK_BYTES_def MAX_GOVERNED_TEXT_BYTES_def
        MAX_ACCEPTANCE_CRITERIA_def list.pred_map comp_def option.pred_set
        split: option.splits)
qed

lemma registered_shape_core:
  "task_core.truncate t' = task_core.truncate t \<Longrightarrow> registered_shape t' = registered_shape t"
  by (simp add: registered_shape_def task_core.truncate_def)

lemma truncate_env [simp]:
  "parse_rfc3339 (env.truncate E) = parse_rfc3339 E" "sha256_hex (env.truncate E) = sha256_hex E"
  by (simp_all add: env.truncate_def)

lemma candidate_id_ok: "sha256_lower (env.truncate E) \<Longrightarrow> try_new_id (ca_id (candidate_of E src)) = Inr (ca_id (candidate_of E src))"
proof -
  assume "sha256_lower (env.truncate E)"
  then have "byte_len (sha256_hex E (candidate_bytes E src)) = 64" "lower_hex (sha256_hex E (candidate_bytes E src))"
    by (simp_all add: sha256_lower_def)
  moreover have "open_id_chars (lit ''memory-candidate-'')"
    by (simp add: open_id_chars_def lit_def is_whitespace_def is_control_def)
  ultimately show ?thesis
    using prefixed_hex_id [of "lit ''memory-candidate-''" "sha256_hex E (candidate_bytes E src)"]
    by (simp add: candidate_of_def candidate_source.defs Let_def lit_def)
qed

definition source_shaped :: "env \<Rightarrow> candidate_source \<Rightarrow> bool" where
  "source_shaped E src \<longleftrightarrow> ca_derivation_version src = ACCEPTED_RUN_MEMORY_DERIVATION_VERSION \<and>
     text_ok (ca_project_id src) 256 \<and> text_ok (ca_workspace_root src) (16 * 1024) \<and>
     text_ok (ca_task src) (8 * 1024) \<and> length (ca_criteria src) \<le> 64 \<and>
     (is_daemon_profiled (ca_assurance src) \<longrightarrow> ca_criteria src \<noteq> [] \<and> commit_oid (ca_subject src)) \<and>
     list_all (\<lambda>c. text_ok c (16 * 1024)) (ca_criteria src) \<and> text_ok (ca_runtime_id src) 256 \<and>
     text_ok (ca_agent_id src) 256 \<and> pred_option (\<lambda>s. text_ok s 256) (ca_session_id src) \<and>
     text_ok (ca_policy src) (4 * 1024) \<and> text_ok (ca_subject src) (4 * 1024) \<and>
     refs_ok (ca_claimed_artifacts src) \<and> refs_ok (ca_verification_artifacts src) \<and>
     ca_commands src \<noteq> [] \<and> length (ca_commands src) \<le> 64 \<and>
     list_all (\<lambda>c. validate_accepted_command c = Inr ()) (ca_commands src) \<and>
     parse_rfc3339 E (ca_staged_at src) \<noteq> None"

lemma shaped_candidate_valid:
  assumes "source_shaped (env.truncate E) src" "sha256_lower (env.truncate E)"
  shows "validate_candidate E (candidate_of E src) = Inr ()"
proof -
  let ?hex = "sha256_hex E (candidate_bytes E src)"
  have hex: "byte_len ?hex = 64" "lower_hex ?hex" using assms(2) by (simp_all add: sha256_lower_def)
  have "text_ok (proposed_summary_of (ca_assurance src) (ca_task src)) (12 * 1024)"
    using assms(1) summary_ok by (simp add: source_shaped_def memory_limits)
  with assms(1) hex show ?thesis
    unfolding source_shaped_def
    by (cases "ca_session_id src")
      (simp_all add: validate_candidate_def candidate_of_def Let_def candidate_source.defs memory_limits
        list.pred_map comp_def refs_ok_def MAX_GOVERNED_REFERENCES_def MAX_GOVERNED_REFERENCE_BYTES_def)
qed

lemma accepted_source_shaped:
  assumes "records_shaped E t" "registered_shape t" "provenance t"
    and "latest_claim t = Some c" "latest_verification t = Some v" "operator_decisions t = [d]"
    and "vf_outcome v = Passed" "verification_profile t \<noteq> None \<Longrightarrow> commit_oid (vf_subject v)"
  shows "source_shaped E (candidate_source_of t c v s d)"
proof -
  have mem: "c \<in> set (claims t)" "v \<in> set (verifications t)" using assms(4,5) by (auto simp: latest_defs)
  then have "evidence_ok v" using assms(3) by (auto simp: provenance_def list.pred_set)
  then have cmds: "vf_commands v \<noteq> []" "list_all command_ok (vf_commands v)" "list_all ce_success (vf_commands v)"
    using assms(7) by (simp_all add: evidence_ok_def)
  then have "validate_accepted_command (accepted_command_of k) = Inr ()" if "k \<in> set (vf_commands v)" for k
    using that by (auto simp: list.pred_set validate_accepted_command_def accepted_command_of_def command_ok_def
        memory_limits MAX_GOVERNED_REFERENCE_BYTES_def)
  then have "list_all (\<lambda>c. validate_accepted_command c = Inr ()) (map accepted_command_of (vf_commands v))"
    by (simp add: list.pred_set)
  moreover have "is_daemon_profiled (source_assurance_of t d) \<longleftrightarrow> verification_profile t \<noteq> None"
    by (simp add: source_assurance_of_def is_daemon_profiled_def split: bool.splits)
  moreover have "refs_ok (cl_artifacts c)" "parse_rfc3339 E (od_decided_at d) \<noteq> None"
    "text_ok (vf_subject v) MAX_GOVERNED_REFERENCE_BYTES" "text_ok (vf_policy v) MAX_GOVERNED_REFERENCE_BYTES"
    "length (vf_commands v) \<le> MAX_GOVERNED_COMMANDS" "refs_ok (vf_artifacts v)"
    using assms(1,6) mem by (simp_all add: records_shaped_def list.pred_set)
  ultimately show ?thesis
    using assms(2,8) cmds(1)
    by (simp add: source_shaped_def candidate_source_of_def registered_shape_def
        MAX_GOVERNED_REFERENCE_BYTES_def MAX_GOVERNED_COMMANDS_def)
qed

lemma accepted_derives:
  assumes "run_inv t" "records_shaped (env.truncate E) t" "registered_shape t" "is_accepted t"
    and "sha256_lower (env.truncate E)"
    and "\<And>c. verification_profile t \<noteq> None \<Longrightarrow> latest_claim t = Some c \<Longrightarrow> commit_oid (cl_subject c)"
  obtains c v s d where "latest_claim t = Some c" "latest_verification t = Some v"
    "latest_supervisor_verdict t = Some s" "operator_decisions t = [d]" "evidence_chain_coherent t c v s d"
    "derive_accepted_run_memory_candidate E t = Inr (candidate_of E (candidate_source_of t c v s d))"
proof -
  have "decided t Approve" using assms(1,4) by (simp add: run_inv_def review_coherent_def is_accepted_def)
  then obtain c v s d where l: "latest_claim t = Some c" "latest_verification t = Some v"
    "latest_supervisor_verdict t = Some s" "operator_decisions t = [d]"
    and links: "vf_claim_id v = cl_id c" "vf_subject v = cl_subject c" "vf_outcome v = Passed"
    "sv_verification_id s = vf_id v" "sv_verdict s = RecommendAccept"
    "od_verdict_id d = sv_id s" "od_decision d = Approve" by (rule decidedD)
  have rev: "Suc (od_based_on d) \<le> revision t" "revision t \<le> u64_max"
    using assms(2) l(4) by (simp_all add: records_shaped_def Suc_le_eq)
  then have coherent: "evidence_chain_coherent t c v s d" using links by (simp add: evidence_chain_coherent_def)
  have "provenance t" using assms(1) by (simp add: run_inv_def)
  then have "source_shaped (env.truncate E) (candidate_source_of t c v s d)"
    using accepted_source_shaped [OF assms(2,3) _ l(1,2,4)] links assms(6) l(1) by simp
  then have "validate_candidate E (candidate_of E (candidate_source_of t c v s d)) = Inr ()"
    using shaped_candidate_valid assms(5) by blast
  then have "derive_accepted_run_memory_candidate E t = Inr (candidate_of E (candidate_source_of t c v s d))"
    using l coherent rev candidate_id_ok [OF assms(5)] assms(4)
    by (simp add: derive_accepted_run_memory_candidate_def is_accepted_def memory_bail_unless_def last_opt_def)
  then show thesis using that l coherent by blast
qed

lemma served_derives:
  assumes "validate_registration r = Inr ()" "list_all (op_ok (env.truncate E)) ops" "sha256_lower (env.truncate E)"
    and t: "t = serve (run_step (env.truncate E)) (initial_run r now uuid) ops" and "is_accepted t"
    and oid: "\<And>c. verification_profile r \<noteq> None \<Longrightarrow> latest_claim t = Some c \<Longrightarrow> commit_oid (cl_subject c)"
  obtains c v s d where "latest_claim t = Some c" "latest_verification t = Some v"
    "latest_supervisor_verdict t = Some s" "operator_decisions t = [d]" "evidence_chain_coherent t c v s d"
    "derive_accepted_run_memory_candidate E t = Inr (candidate_of E (candidate_source_of t c v s d))"
proof -
  have "task_core.truncate t = task_core.truncate (initial_run r now uuid)"
    by (simp add: t serve_core)
  then have "registered_shape t" "verification_profile t = verification_profile (initial_run r now uuid)"
    using validated_shape [OF assms(1), of now uuid] registered_shape_core truncate_eq_fields(6) by blast+
  then have shape: "registered_shape t" "verification_profile t = verification_profile r"
    by (simp_all add: initial_run_def)
  have "records_shaped (env.truncate E) t" unfolding t
    by (rule records_shaped_serve [OF assms(2) initial_shaped])
  moreover have "run_inv t" unfolding t by (rule run_inv_serve)
  ultimately show thesis
    using accepted_derives [of t E thesis] shape assms(3,5) oid that by auto
qed

section \<open>The candidate does not change\<close>

lemma derive_frozen:
  assumes "derive_accepted_run_memory_candidate E t = Inr c" "review_record u = review_record t"
    and "task_core.truncate u = task_core.truncate t" "run_id u = run_id t" "revision t \<le> revision u"
  shows "derive_accepted_run_memory_candidate E u = Inr c"
proof -
  have same: "review_state u = review_state t" "claims u = claims t" "verifications u = verifications t"
    "supervisor_verdicts u = supervisor_verdicts t" "operator_decisions u = operator_decisions t"
    using assms(2) by (simp_all add: review_record_def)
  have src: "candidate_source_of u a b d e = candidate_source_of t a b d e" for a b d e
    using assms(3,4) by (simp add: candidate_source_of_def source_assurance_of_def task_core.truncate_def)
  have coherent: "evidence_chain_coherent t a b d e \<Longrightarrow> evidence_chain_coherent u a b d e" for a b d e
    using assms(5) by (simp add: evidence_chain_coherent_def)
  show ?thesis
    using assms(1) coherent
    by (auto simp: derive_accepted_run_memory_candidate_def latest_defs same src memory_bail_unless_def Let_def)
qed

lemma served_revision_mono: "revision t \<le> revision (serve (run_step E) t ops)"
  by (simp add: served_revision)

lemma served_candidate_frozen:
  assumes "derive_accepted_run_memory_candidate E t = Inr c"
  shows "derive_accepted_run_memory_candidate E (serve (run_step F) t ops) = Inr c"
proof -
  have "settled t"
    using assms by (simp add: derive_accepted_run_memory_candidate_def settled_def memory_bail_unless_def)
  then have "review_record (serve (run_step F) t ops) = review_record t"
    by (rule settled_review.serve_frozen)
  with assms show ?thesis
    by (rule derive_frozen) (simp_all add: serve_core serve_run_id served_revision_mono)
qed

text \<open>C32: An acceptance always reaches the review queue: every accepted run that was served from a
  registration the contract admits derives a memory candidate, which is pending, names the run's own
  evidence chain record by record, and carries the task text, criteria and verified subject unchanged.
  A profiled run must have claimed a Git commit, digests must print as 64 lower-case hexadecimal
  characters, and clock readings must be RFC 3339.\<close>

theorem accepted_run_becomes_candidate:
  assumes "validate_registration r = Inr ()" "list_all (op_ok (env.truncate E)) ops" "sha256_lower (env.truncate E)"
    and "t = serve (run_step (env.truncate E)) (initial_run r now uuid) ops" "is_accepted t"
    and "\<And>c. verification_profile r \<noteq> None \<Longrightarrow> latest_claim t = Some c \<Longrightarrow> commit_oid (cl_subject c)"
  shows "\<exists>m c v s d. derive_accepted_run_memory_candidate E t = Inr m \<and> ca_status m = PendingReview \<and>
    validate_candidate E m = Inr () \<and> latest_claim t = Some c \<and> latest_verification t = Some v \<and>
    latest_supervisor_verdict t = Some s \<and> operator_decisions t = [d] \<and>
    ca_claim_id m = cl_id c \<and> ca_verification_id m = vf_id v \<and> ca_verdict_id m = sv_id s \<and>
    ca_decision_id m = od_id d \<and> ca_subject m = cl_subject c \<and> ca_task m = task t \<and>
    ca_criteria m = acceptance_criteria t \<and> ca_task_id m = run_id t"
proof -
  obtain c v s d where l: "latest_claim t = Some c" "latest_verification t = Some v"
    "latest_supervisor_verdict t = Some s" "operator_decisions t = [d]" "evidence_chain_coherent t c v s d"
    and m: "derive_accepted_run_memory_candidate E t = Inr (candidate_of E (candidate_source_of t c v s d))"
    by (rule served_derives [OF assms])
  have "validate_candidate E (candidate_of E (candidate_source_of t c v s d)) = Inr ()"
    using m by (auto simp: derive_accepted_run_memory_candidate_def Let_def)
  moreover have "ca_subject (candidate_of E (candidate_source_of t c v s d)) = cl_subject c"
    using l(5) by (simp add: evidence_chain_coherent_def candidate_of_def candidate_source_of_def
        candidate_source.defs Let_def)
  moreover have "ca_status m = PendingReview \<and> ca_claim_id m = cl_id c \<and> ca_verification_id m = vf_id v \<and>
      ca_verdict_id m = sv_id s \<and> ca_decision_id m = od_id d \<and> ca_task m = task t \<and>
      ca_criteria m = acceptance_criteria t \<and> ca_task_id m = run_id t"
    if "m = candidate_of E (candidate_source_of t c v s d)" for m
    using that by (simp add: candidate_of_def candidate_source_of_def candidate_source.defs Let_def)
  ultimately show ?thesis using m l by blast
qed

text \<open>An example environment whose entry serialization writes every field with its length.\<close>

fun demo_encode :: "rstr list \<Rightarrow> nat list" where
  "demo_encode [] = []"
| "demo_encode (x # xs) = length x # x @ demo_encode xs"

lemma demo_encode_inj: "demo_encode xs = demo_encode ys \<Longrightarrow> xs = ys"
proof (induction xs arbitrary: ys)
  case Nil
  then show ?case by (cases ys) simp_all
next
  case (Cons x xs)
  then show ?case by (cases ys) auto
qed

fun demo_source_text :: "memory_source \<Rightarrow> rstr list" where
  "demo_source_text (CandidateRef a b c) = [[0], a, b, c]"
| "demo_source_text (OperatorManual a) = [[1], a, [], []]"

definition demo_entry_bytes :: "nat \<Rightarrow> rstr \<Rightarrow> memory_record \<Rightarrow> nat list" where
  "demo_entry_bytes i p r = demo_encode (demo_source_text (me_source r) @
     [[i], p, [me_schema_version r], kind_label (me_kind r), scope_label (me_scope r), me_project_id r,
      me_request_id r, [me_based_on r], me_title r, me_body r, me_id r, me_valid_from r,
      (case me_superseded_by r of None \<Rightarrow> [] | Some s \<Rightarrow> 1 # s), me_digest r])"

definition demo_memory_env :: memory_env where
  "demo_memory_env = env.extend demo_env \<lparr>candidate_bytes = (\<lambda>s. ca_task s),
     record_bytes = (\<lambda>s. me_request_id s), entry_bytes = demo_entry_bytes\<rparr>"

lemma demo_source_text_facts:
  "length (demo_source_text s) = 4" "demo_source_text s = demo_source_text s' \<longleftrightarrow> s = s'"
  by (cases s; cases s'; auto)+

lemma demo_labels_inj:
  "kind_label k = kind_label k' \<longleftrightarrow> k = k'" "scope_label sc = scope_label sc' \<longleftrightarrow> sc = sc'"
  by (cases k; cases k'; simp add: lit_def) (cases sc; cases sc'; simp add: lit_def)

lemma demo_entry_bytes_inj:
  assumes "demo_entry_bytes i p r = demo_entry_bytes j q s"
  shows "i = j \<and> p = q \<and> r = s"
proof -
  have "demo_source_text (me_source r) = demo_source_text (me_source s)"
    and rest: "[[i], p, [me_schema_version r], kind_label (me_kind r), scope_label (me_scope r), me_project_id r,
      me_request_id r, [me_based_on r], me_title r, me_body r, me_id r, me_valid_from r,
      (case me_superseded_by r of None \<Rightarrow> [] | Some x \<Rightarrow> 1 # x), me_digest r] =
      [[j], q, [me_schema_version s], kind_label (me_kind s), scope_label (me_scope s), me_project_id s,
      me_request_id s, [me_based_on s], me_title s, me_body s, me_id s, me_valid_from s,
      (case me_superseded_by s of None \<Rightarrow> [] | Some x \<Rightarrow> 1 # x), me_digest s]"
    using demo_encode_inj [OF assms [unfolded demo_entry_bytes_def]] by (simp_all add: demo_source_text_facts(1))
  then have src: "me_source r = me_source s" by (simp add: demo_source_text_facts(2))
  have sup: "(case a of None \<Rightarrow> [] | Some x \<Rightarrow> 1 # x) = (case b of None \<Rightarrow> [] | Some x \<Rightarrow> 1 # x) \<Longrightarrow> a = b"
    for a b :: "rstr option" by (cases a; cases b) simp_all
  show ?thesis
    using rest src sup [of "me_superseded_by r" "me_superseded_by s"]
    by (auto simp: demo_labels_inj intro!: memory_record.equality)
qed

lemma demo_truncate [simp]: "env.truncate demo_memory_env = demo_env"
  by (simp add: demo_memory_env_def env.defs)

lemma demo_accepted_run:
  "serve (run_step demo_env) (initial_run demo_registration (demo_now 0) (demo_uuid 0)) (take 6 demo_ops) = demo_s6"
  using demo_run_states(7) by (simp add: demo_run_def demo_start_def)

lemma demo_s6_claim: "is_accepted demo_s6" "latest_claim demo_s6 = Some c \<Longrightarrow> commit_oid (cl_subject c)"
  by (auto simp: is_accepted_def latest_defs demo_states demo_push_def push_event_def demo_claim_def)

theorem accepted_run_becomes_candidate_witness:
  "validate_registration demo_registration = Inr () \<and> is_accepted demo_s6 \<and>
   (\<exists>m. derive_accepted_run_memory_candidate demo_memory_env demo_s6 = Inr m \<and> ca_status m = PendingReview \<and>
      ca_task m = task demo_s6)"
proof -
  have "list_all (op_ok (env.truncate demo_memory_env)) (take 6 demo_ops)"
    using demo_ops_ok by (auto simp: list.pred_set dest: in_set_takeD)
  then show ?thesis
    using accepted_run_becomes_candidate [of demo_registration demo_memory_env "take 6 demo_ops" demo_s6
        "demo_now 0" "demo_uuid 0"] demo_registration_valid demo_sha_lower demo_accepted_run demo_s6_claim
    by auto
qed

text \<open>The identity of a candidate is final: whatever is requested of a run after its acceptance
  (promotions, takeovers, exits, further evidence), the run keeps deriving the same candidate, so a
  stored candidate never stops matching the run it came from.\<close>

theorem candidate_survives_later_requests:
  assumes "derive_accepted_run_memory_candidate E t = Inr m"
  shows "derive_accepted_run_memory_candidate E (serve (run_step (env.truncate E)) t ops) = Inr m"
  by (rule served_candidate_frozen [OF assms])

theorem candidate_survives_later_requests_witness:
  "\<exists>m. derive_accepted_run_memory_candidate demo_memory_env demo_s6 = Inr m \<and>
     derive_accepted_run_memory_candidate demo_memory_env demo_s7 = Inr m \<and> promotions demo_s7 \<noteq> promotions demo_s6"
proof -
  have ops: "list_all (op_ok (env.truncate demo_memory_env)) (take 6 demo_ops)"
    using demo_ops_ok by (auto simp: list.pred_set dest: in_set_takeD)
  obtain m where m: "derive_accepted_run_memory_candidate demo_memory_env demo_s6 = Inr m"
    using served_derives [OF demo_registration_valid ops _ _ demo_s6_claim(1), of "demo_now 0" "demo_uuid 0"]
      demo_sha_lower demo_accepted_run demo_s6_claim(2) by auto
  have "serve (run_step demo_env) demo_s6 (drop 6 demo_ops) = demo_s7"
    using demo_step_7 by (simp add: demo_ops_def)
  then have "derive_accepted_run_memory_candidate demo_memory_env demo_s7 = Inr m"
    using candidate_survives_later_requests [OF m, of "drop 6 demo_ops"] by simp
  moreover have "promotions demo_s7 \<noteq> promotions demo_s6"
    by (simp add: demo_states demo_push_def push_event_def)
  ultimately show ?thesis using m by blast
qed

end
