(* ===== verification/Memory_Log_Properties.thy ===== *)
theory Memory_Log_Properties
  imports Memory_Derivation
begin

text \<open>
  The promoted-memory log: what is appended loads again, a committed head pins the whole history
  behind it, and the text of a record cannot forge structure in the rendered projection.
\<close>

section \<open>Chains\<close>

lemma parse_lines_snoc:
  "parse_lines i ls = Inr es \<Longrightarrow> parse_lines i (ls @ [EntryLine e]) = Inr (es @ [e])"
  by (induction i ls arbitrary: es rule: parse_lines.induct) auto

definition chain_end :: "rstr \<Rightarrow> log_entry list \<Rightarrow> rstr" where
  "chain_end previous es = (if es = [] then previous else le_digest (last es))"

lemma chain_end_simps [simp]:
  "chain_end p [] = p" "chain_end p (e # es) = chain_end (le_digest e) es" "chain_end p (es @ [e]) = le_digest e"
  by (simp_all add: chain_end_def)

lemma verify_chain_append:
  "verify_chain E k p (es @ fs) =
     and_then (verify_chain E k p es) (\<lambda>_. verify_chain E (k + length es) (chain_end p es) fs)"
  by (induction es arbitrary: k p) (simp_all add: and_then_assoc)

lemma verify_entry_sealed:
  "verify_entry E k p e = Inr () \<Longrightarrow> le_seq e = k \<and> le_previous e = p \<and> le_digest e = seal_digest E k p (le_record e)"
  by (simp add: verify_entry_def verify_links_def)

lemma verify_fresh_entry:
  assumes "verify_record_identity E r = Inr ()" "sha256_lower (env.truncate E)"
  shows "verify_entry E k p \<lparr>le_seq = k, le_previous = p, le_record = r, le_digest = seal_digest E k p r\<rparr> = Inr ()"
proof -
  have "validate_record E r = Inr ()" using assms(1) by (simp add: verify_record_identity_def)
  moreover have "lower_sha256 MEMORY_LOG_DIGEST_PREFIX (seal_digest E k p r)"
    using assms(2) by (simp add: seal_digest_def sha256_lower_def)
  ultimately show ?thesis using assms(1) by (simp add: verify_entry_def verify_links_def)
qed

lemma no_duplicate_ids: "first_duplicate seen xs = None \<longleftrightarrow> distinct xs \<and> set seen \<inter> set xs = {}"
  by (induction xs arbitrary: seen) auto

abbreviation entry_ids :: "log_entry list \<Rightarrow> rstr list" where
  "entry_ids es \<equiv> map (\<lambda>e. me_id (le_record e)) es"

lemma load_log_Inr:
  "load_log E file head origin = Inr log \<longleftrightarrow>
     (\<exists>es n. parse_lines 0 (file_lines file) = Inr es \<and> verify_chain E 0 MEMORY_LOG_GENESIS_DIGEST es = Inr () \<and>
        committed_count head origin es = Inr n \<and> length es - n \<le> 1 \<and> distinct (entry_ids es) \<and>
        log = \<lparr>ml_committed = take n es, ml_tail = drop n es\<rparr>)"
proof -
  have dup: "(case x of None \<Rightarrow> Inr () | Some rid \<Rightarrow> Inl (DuplicateRecord rid)) = Inr () \<longleftrightarrow> x = None" for x
    by (cases x) simp_all
  show ?thesis
    by (auto simp: load_log_def file_lines_def dup no_duplicate_ids MAX_UNCOMMITTED_TAIL_ENTRIES_def)
qed

lemma committed_count_le: "committed_count head origin es = Inr n \<Longrightarrow> n \<le> length es"
  by (auto simp: committed_count_def Let_def split: option.splits ledger_origin.splits if_splits)

lemma loaded_entries:
  assumes "load_log E file head origin = Inr log"
  shows "parse_lines 0 (file_lines file) = Inr (ml_committed log @ ml_tail log)"
    "verify_chain E 0 MEMORY_LOG_GENESIS_DIGEST (ml_committed log @ ml_tail log) = Inr ()"
    "distinct (entry_ids (ml_committed log @ ml_tail log))" "length (ml_tail log) \<le> 1"
    "committed_count head origin (ml_committed log @ ml_tail log) = Inr (length (ml_committed log))"
proof -
  obtain es n where es: "parse_lines 0 (file_lines file) = Inr es"
    "verify_chain E 0 MEMORY_LOG_GENESIS_DIGEST es = Inr ()" "committed_count head origin es = Inr n"
    "length es - n \<le> 1" "distinct (entry_ids es)" "log = \<lparr>ml_committed = take n es, ml_tail = drop n es\<rparr>"
    using assms unfolding load_log_Inr by blast
  moreover have "n \<le> length es" using es(3) by (rule committed_count_le)
  ultimately show "parse_lines 0 (file_lines file) = Inr (ml_committed log @ ml_tail log)"
    "verify_chain E 0 MEMORY_LOG_GENESIS_DIGEST (ml_committed log @ ml_tail log) = Inr ()"
    "distinct (entry_ids (ml_committed log @ ml_tail log))" "length (ml_tail log) \<le> 1"
    "committed_count head origin (ml_committed log @ ml_tail log) = Inr (length (ml_committed log))"
    by simp_all
qed

section \<open>What is appended loads again\<close>

lemma sealed_entry_chain:
  assumes "load_log E file head origin = Inr log" "verify_record_identity E r = Inr ()"
    "sha256_lower (env.truncate E)"
  shows "verify_chain E 0 MEMORY_LOG_GENESIS_DIGEST (ml_committed log @ ml_tail log @ [sealed_entry E log r]) = Inr ()"
proof -
  have "next_previous_digest log = chain_end MEMORY_LOG_GENESIS_DIGEST (ml_committed log @ ml_tail log)"
    by (simp add: next_previous_digest_def last_opt_def chain_end_def)
  then have "verify_entry E (next_seq log) (chain_end MEMORY_LOG_GENESIS_DIGEST (ml_committed log @ ml_tail log))
      (sealed_entry E log r) = Inr ()"
    using verify_fresh_entry [OF assms(2,3)] by (simp add: sealed_entry_def)
  then show ?thesis
    using loaded_entries(2) [OF assms(1)]
    by (simp add: verify_chain_append [of _ _ _ "ml_committed log @ ml_tail log" "[_]", simplified append_assoc]
        next_seq_def)
qed

lemma appended_loads:
  assumes load: "load_log E file head LocalLedger = Inr log" and tail: "ml_tail log = []"
    and r: "verify_record_identity E r = Inr ()" "me_id r \<notin> set (entry_ids (ml_committed log))"
    and sha: "sha256_lower (env.truncate E)"
    and app: "append_entry E Appended r log file = (Inr log', file')"
  shows "load_log E file' head LocalLedger = Inr log'"
    "load_log E file' (full_head log') LocalLedger = Inr (commit_tail log')"
proof -
  let ?e = "sealed_entry E log r" and ?cs = "ml_committed log"
  have log': "log' = \<lparr>ml_committed = ?cs, ml_tail = [?e]\<rparr>" and file': "file' = Some (file_lines file @ [EntryLine ?e])"
    using app tail by (cases log, auto simp: append_entry_def Let_def)
  have parse: "parse_lines 0 (file_lines file') = Inr (?cs @ [?e])"
    using parse_lines_snoc [OF loaded_entries(1) [OF load]] tail by (simp add: file' file_lines_def)
  have chain: "verify_chain E 0 MEMORY_LOG_GENESIS_DIGEST (?cs @ [?e]) = Inr ()"
    using sealed_entry_chain [OF load r(1) sha] tail by simp
  have ids: "distinct (entry_ids (?cs @ [?e]))"
    using loaded_entries(3) [OF load] r(2) tail by (simp add: sealed_entry_def)
  have "committed_count head LocalLedger (?cs @ [?e]) = Inr (length ?cs)"
    using loaded_entries(5) [OF load] tail
    by (cases head) (auto simp: committed_count_def Let_def nth_append split: if_splits)
  then show "load_log E file' head LocalLedger = Inr log'"
    using parse chain ids unfolding load_log_Inr
    by (intro exI [of _ "?cs @ [?e]"] exI [of _ "length ?cs"]) (simp add: log')
  have "committed_count (full_head log') LocalLedger (?cs @ [?e]) = Inr (Suc (length ?cs))"
    by (simp add: full_head_def log' last_opt_def committed_count_def)
  then show "load_log E file' (full_head log') LocalLedger = Inr (commit_tail log')"
    using parse chain ids unfolding load_log_Inr
    by (intro exI [of _ "?cs @ [?e]"] exI [of _ "Suc (length ?cs)"]) (simp add: log' commit_tail_def)
qed

section \<open>A head pins its history\<close>

definition entry_source :: "memory_env \<Rightarrow> log_entry \<Rightarrow> nat list" where
  "entry_source E e = entry_bytes E (le_seq e) (le_previous e) (le_record e)"

definition entries_collide :: "memory_env \<Rightarrow> log_entry \<Rightarrow> log_entry \<Rightarrow> bool" where
  "entries_collide E e f \<longleftrightarrow> entry_source E e \<noteq> entry_source E f \<and>
     sha256_hex E (entry_source E e) = sha256_hex E (entry_source E f)"

lemma chains_agree:
  assumes "verify_chain E k p es = Inr ()" "verify_chain E k p fs = Inr ()" "length es = length fs"
    and "chain_end p es = chain_end p fs"
    and inj: "\<And>i p r j q s. entry_bytes E i p r = entry_bytes E j q s \<Longrightarrow> i = j \<and> p = q \<and> r = s"
  shows "es = fs \<or> (\<exists>i < length es. entries_collide E (es ! i) (fs ! i))"
  using assms(1-4)
proof (induction es arbitrary: fs rule: rev_induct)
  case (snoc e es)
  obtain f fs' where fs: "fs = fs' @ [f]" "length es = length fs'"
    using snoc.prems(3) by (cases fs rule: rev_cases) auto
  have e: "verify_chain E k p es = Inr ()" "verify_entry E (k + length es) (chain_end p es) e = Inr ()"
    and f: "verify_chain E k p fs' = Inr ()" "verify_entry E (k + length es) (chain_end p fs') f = Inr ()"
    using snoc.prems(1,2) fs by (simp_all add: verify_chain_append)
  note se = verify_entry_sealed [OF e(2)] and sf = verify_entry_sealed [OF f(2)]
  have digest: "sha256_hex E (entry_source E e) = sha256_hex E (entry_source E f)"
    using snoc.prems(4) fs se sf by (simp add: seal_digest_def entry_source_def)
  show ?case
  proof (cases "entry_source E e = entry_source E f")
    case True
    then have same: "le_previous e = le_previous f" "le_record e = le_record f"
      using inj unfolding entry_source_def by blast+
    then have "e = f" using se sf snoc.prems(4) fs by (cases e, cases f) simp
    moreover have "es = fs' \<or> (\<exists>i < length es. entries_collide E (es ! i) (fs' ! i))"
      using snoc.IH [OF e(1) f(1) fs(2)] same(1) se sf by simp
    ultimately show ?thesis using fs by (auto simp: nth_append less_Suc_eq)
  next
    case False
    then have "entries_collide E ((es @ [e]) ! length es) (fs ! length es)"
      using digest fs by (simp add: entries_collide_def nth_append)
    then show ?thesis by auto
  qed
qed simp

lemma loaded_head:
  assumes "load_log E file (Some h) origin = Inr log"
  shows "verify_chain E 0 MEMORY_LOG_GENESIS_DIGEST (ml_committed log) = Inr ()"
    "length (ml_committed log) = lh_entry_count h" "chain_end MEMORY_LOG_GENESIS_DIGEST (ml_committed log) = lh_digest h"
proof -
  show "verify_chain E 0 MEMORY_LOG_GENESIS_DIGEST (ml_committed log) = Inr ()"
    using loaded_entries(2) [OF assms] by (simp add: verify_chain_append)
  have "lh_entry_count h \<noteq> 0" "length (ml_committed log) = lh_entry_count h"
    "le_digest ((ml_committed log @ ml_tail log) ! (lh_entry_count h - 1)) = lh_digest h"
    using loaded_entries(5) [OF assms] by (auto simp: committed_count_def Let_def split: if_splits)
  then show "length (ml_committed log) = lh_entry_count h"
    "chain_end MEMORY_LOG_GENESIS_DIGEST (ml_committed log) = lh_digest h"
    by (auto simp: chain_end_def last_conv_nth nth_append)
qed

text \<open>C24: A committed head pins the history behind it: two log files that load under the same recorded
  head have the same committed entries, or at some position they hold two different entries whose
  hashed bytes have the same SHA-256 digest.  Editing, reordering or cutting committed entries without
  such a collision is refused at load.  The serialization of an entry must determine the entry.\<close>

theorem committed_head_pins_history:
  assumes "load_log E f (Some h) o1 = Inr l" "load_log E g (Some h) o2 = Inr m"
    and "\<And>i p r j q s. entry_bytes E i p r = entry_bytes E j q s \<Longrightarrow> i = j \<and> p = q \<and> r = s"
  shows "ml_committed l = ml_committed m \<or>
    (\<exists>i < lh_entry_count h. entries_collide E (ml_committed l ! i) (ml_committed m ! i))"
  using chains_agree [OF loaded_head(1) [OF assms(1)] loaded_head(1) [OF assms(2)] _ _ assms(3)]
    loaded_head(2,3) [OF assms(1)] loaded_head(2,3) [OF assms(2)] by auto

section \<open>Rendered text forges nothing\<close>

lemma longest_backticks_mono: "l \<le> longest_backticks l c s"
  by (induction l c s rule: longest_backticks.induct) auto

lemma longest_backticks_run: "0 < n \<Longrightarrow> c + n \<le> longest_backticks l c (replicate n 96 @ ys)"
proof (induction n arbitrary: l c)
  case (Suc n)
  then show ?case
    using longest_backticks_mono [of "max l (Suc c)" "Suc c" ys] Suc.IH [of "Suc c" "max l (Suc c)"]
    by (cases "n = 0") auto
qed simp

lemma longest_backticks_bound: "0 < n \<Longrightarrow> n \<le> longest_backticks l c (xs @ replicate n 96 @ ys)"
proof (induction xs arbitrary: l c)
  case Nil
  then show ?case using longest_backticks_run [of n c l ys] by simp
qed simp

lemma fence_unclosed: "body \<noteq> xs @ projection_fence body @ ys"
proof
  assume "body = xs @ projection_fence body @ ys"
  then have "body = xs @ replicate (max (longest_backticks 0 0 body) 2 + 1) 96 @ ys"
    by (simp only: projection_fence_def)
  then have "max (longest_backticks 0 0 body) 2 + 1 \<le> longest_backticks 0 0 body"
    using longest_backticks_bound [of "max (longest_backticks 0 0 body) 2 + 1" 0 0 xs ys] by simp
  then show False by simp
qed

lemma trim_end_prefix: "\<exists>ys. s = trim_end s @ ys"
proof -
  have "rev s = takeWhile is_whitespace (rev s) @ rev (trim_end s)"
    by (simp add: trim_end_def)
  then have "s = trim_end s @ rev (takeWhile is_whitespace (rev s))"
    by (metis rev_append rev_rev_ident)
  then show ?thesis by blast
qed

lemma words_no_whitespace:
  "list_all (\<lambda>c. \<not> is_whitespace c) acc \<Longrightarrow> w \<in> set (words_aux acc s) \<Longrightarrow> c \<in> set w \<Longrightarrow> \<not> is_whitespace c"
  by (induction acc s rule: words_aux.induct) (auto simp: list.pred_set split: if_splits)

lemma join_set: "set (join sep xs) \<subseteq> set sep \<union> (\<Union>x \<in> set xs. set x)"
  by (induction sep xs rule: join.induct) auto

lemma inline_one_line: "c \<in> set (projection_inline s) \<Longrightarrow> is_whitespace c \<Longrightarrow> c = 32"
proof -
  assume c: "c \<in> set (projection_inline s)" "is_whitespace c"
  then have "c \<in> set (join (lit '' '') (split_whitespace s))"
    by (auto simp: projection_inline_def Let_def is_whitespace_def split: list.splits if_splits)
  then have "c = 32 \<or> (\<exists>w \<in> set (split_whitespace s). c \<in> set w)"
    using join_set [of "lit '' ''" "split_whitespace s"] by (auto simp: lit_def)
  then show "c = 32" using words_no_whitespace [of "[]" _ s c] c(2) by (auto simp: split_whitespace_def)
qed

lemma inline_head: "projection_inline s = c # cs \<Longrightarrow> c \<notin> set (lit ''#->*+=|'')"
  by (auto simp: projection_inline_def Let_def lit_def split: list.splits if_splits)

text \<open>Nothing a Builder writes into a record can forge structure in the projection: the fence
  around a body occurs nowhere inside it, so the body cannot close its own block, and a title is
  rendered on one line that does not start with a Markdown structure character.\<close>

theorem projection_cannot_be_forged:
  "trim_end (me_body r) \<noteq> xs @ projection_fence (me_body r) @ ys \<and> 10 \<notin> set (projection_inline (me_title r)) \<and>
   set (take 1 (projection_inline (me_title r))) \<inter> set (lit ''#->*+=|'') = {}"
proof -
  have "trim_end (me_body r) \<noteq> xs @ projection_fence (me_body r) @ ys"
    using fence_unclosed [of "me_body r" xs] trim_end_prefix [of "me_body r"] by (metis append.assoc)
  moreover have "10 \<notin> set (projection_inline (me_title r))"
    using inline_one_line [of 10 "me_title r"] by (auto simp: is_whitespace_def)
  moreover have "set (take 1 (projection_inline (me_title r))) \<inter> set (lit ''#->*+=|'') = {}"
    using inline_head [of "me_title r"] by (cases "projection_inline (me_title r)") auto
  ultimately show ?thesis by blast
qed

section \<open>Which candidates can be promoted\<close>

lemma record_id_ok:
  assumes "sha256_lower (env.truncate E)"
  shows "try_new_id (me_id (promoted_record E c rid n now)) = Inr (me_id (promoted_record E c rid n now))"
proof -
  let ?hex = "sha256_hex E (record_bytes E (promoted_source c rid n))"
  have "byte_len ?hex = 64" "lower_hex ?hex" using assms by (simp_all add: sha256_lower_def)
  moreover have "open_id_chars MEMORY_RECORD_ID_PREFIX"
    by (simp add: open_id_chars_def lit_def is_whitespace_def is_control_def MEMORY_RECORD_ID_PREFIX_def)
  ultimately show ?thesis
    using prefixed_hex_id [of MEMORY_RECORD_ID_PREFIX ?hex]
    by (simp add: promoted_record_def record_source.defs promoted_source_def Let_def lit_def MEMORY_RECORD_ID_PREFIX_def)
qed

lemma identity_of_promoted: "identity_source (promoted_record E c rid n now) = promoted_source c rid n"
  by (simp add: identity_source_def promoted_record_def record_source.defs Let_def promoted_source_def)

lemma promoted_identity:
  assumes "sha256_lower (env.truncate E)"
  shows "verify_record_identity E (promoted_record E c rid n now) = Inr () \<longleftrightarrow>
    text_ok (ca_project_id c) MAX_OPEN_ID_BYTES \<and> lower_sha256 (lit ''memory-candidate-'') (ca_id c) \<and>
    lower_sha256 (lit ''sha256-v1:'') (ca_source_digest c) \<and> text_ok (ca_task c) MAX_RECORD_TITLE_BYTES \<and>
    text_ok (render_record_body c) MAX_RECORD_BODY_BYTES \<and> parse_rfc3339 E now \<noteq> None"
proof -
  let ?hex = "sha256_hex E (record_bytes E (promoted_source c rid n))"
  have "byte_len ?hex = 64" "lower_hex ?hex" using assms by (simp_all add: sha256_lower_def)
  then show ?thesis
    unfolding verify_record_identity_def Let_def identity_of_promoted
    by (auto simp: validate_record_def validate_source_def identity_hex_def promoted_record_def
        record_source.defs promoted_source_def Let_def is_writable_now_def)
qed

lemma derive_promoted_Inr:
  "sha256_lower (env.truncate E) \<Longrightarrow> derive_promoted_record E c rid n now = Inr r \<longleftrightarrow>
     r = promoted_record E c rid n now \<and> verify_record_identity E r = Inr ()"
  by (auto simp: derive_promoted_record_def record_id_ok Let_def)

lemma commit_oid_nonzero: "commit_oid s \<Longrightarrow> 0 \<notin> set s"
  using lower_hex_chars [of s 0] by (auto simp: commit_oid_def is_lower_hex_byte_def is_ascii_digit_def)

lemma record_body_ok:
  assumes "validate_candidate E c = Inr ()" "0 \<notin> set (ca_task_id c)"
    and "byte_len (render_record_body c) \<le> MAX_RECORD_BODY_BYTES"
  shows "text_ok (render_record_body c) MAX_RECORD_BODY_BYTES"
proof -
  have v: "text_ok (ca_summary c) MAX_PROPOSED_SUMMARY_BYTES" "text_ok (ca_policy c) MAX_ARTIFACT_REFERENCE_BYTES"
    "list_all (\<lambda>x. text_ok x MAX_CRITERION_BYTES) (ca_criteria c)"
    "commit_oid (ca_subject c) \<or> text_ok (ca_subject c) MAX_ARTIFACT_REFERENCE_BYTES"
    using assms(1) by (auto simp: validate_candidate_def list.pred_map comp_def split: if_splits)
  then have "0 \<notin> set (ca_subject c)" using commit_oid_nonzero by (auto simp: text_ok_def)
  with v assms(2) have "0 \<notin> set (render_record_body c)"
    by (auto simp: render_record_body_def text_ok_def list.pred_set lit_def)
  moreover have "\<exists>x \<in> set (render_record_body c). \<not> is_whitespace x"
    using v(1) by (auto simp: text_ok_def trim_nonempty render_record_body_def)
  ultimately show ?thesis using assms(3) by (simp add: text_ok_def trim_nonempty)
qed

lemma promotable:
  assumes "validate_candidate E c = Inr ()" "sha256_lower (env.truncate E)" "0 \<notin> set (ca_task_id c)"
    and "byte_len (ca_task c) \<le> MAX_RECORD_TITLE_BYTES" "byte_len (render_record_body c) \<le> MAX_RECORD_BODY_BYTES"
    and "parse_rfc3339 E now \<noteq> None"
  shows "derive_promoted_record E c rid n now = Inr (promoted_record E c rid n now)"
proof -
  have "text_ok (ca_project_id c) MAX_OPEN_ID_BYTES" "lower_sha256 (lit ''memory-candidate-'') (ca_id c)"
    "lower_sha256 (lit ''sha256-v1:'') (ca_source_digest c)" "text_ok (ca_task c) MAX_TASK_BYTES"
    using assms(1) by (auto simp: validate_candidate_def list.pred_map comp_def)
  then show ?thesis
    using assms record_body_ok [OF assms(1,3,5)] by (simp add: derive_promoted_Inr promoted_identity text_ok_def)
qed

section \<open>An example log\<close>

definition demo_candidate :: memory_candidate where
  "demo_candidate = candidate_of demo_memory_env (candidate_source_of demo_s6 (last (claims demo_s6))
     (last (verifications demo_s6)) (last (supervisor_verdicts demo_s6)) (last (operator_decisions demo_s6)))"

lemma demo_derives: "derive_accepted_run_memory_candidate demo_memory_env demo_s6 = Inr demo_candidate"
proof -
  have "list_all (op_ok (env.truncate demo_memory_env)) (take 6 demo_ops)"
    using demo_ops_ok by (auto simp: list.pred_set dest: in_set_takeD)
  then show ?thesis
    using served_derives [OF demo_registration_valid _ _ _ demo_s6_claim(1), where E = demo_memory_env and
        ops = "take 6 demo_ops" and now = "demo_now 0" and uuid = "demo_uuid 0" and
        thesis = "derive_accepted_run_memory_candidate demo_memory_env demo_s6 = Inr demo_candidate"]
      demo_sha_lower demo_accepted_run demo_s6_claim(2) by (auto simp: latest_defs demo_candidate_def)
qed

lemma demo_candidate_valid: "validate_candidate demo_memory_env demo_candidate = Inr ()"
  using demo_derives by (auto simp: derive_accepted_run_memory_candidate_def Let_def)

lemma demo_s6_core: "task demo_s6 = lit ''do it''" "run_id demo_s6 = lit ''task-1''"
  "acceptance_criteria demo_s6 = [lit ''tests pass'']" "verification_profile demo_s6 = Some RustWorkspaceV1"
  by (simp_all add: demo_states demo_push_def push_event_def settle_def demo_start_def initial_run_def
      demo_registration_def registration_builder_def)

lemma demo_s6_records:
  "vf_policy (last (verifications demo_s6)) = lit ''rust''" "vf_subject (last (verifications demo_s6)) = demo_new_oid"
  "od_authentication (last (operator_decisions demo_s6)) = Declared"
  by (simp_all add: demo_states demo_push_def push_event_def demo_verification_def demo_op_def)

lemma demo_candidate_fields:
  "ca_task demo_candidate = lit ''do it''" "ca_task_id demo_candidate = lit ''task-1''"
  "ca_status demo_candidate = PendingReview" "byte_len (render_record_body demo_candidate) \<le> MAX_RECORD_BODY_BYTES"
proof -
  show f: "ca_task demo_candidate = lit ''do it''" "ca_task_id demo_candidate = lit ''task-1''"
    "ca_status demo_candidate = PendingReview"
    by (simp_all add: demo_candidate_def candidate_of_def candidate_source_of_def candidate_source.defs Let_def
        demo_s6_core)
  have "length (render_record_body demo_candidate) \<le> 1000"
    by (simp add: render_record_body_def demo_candidate_def candidate_of_def candidate_source_of_def
        candidate_source.defs Let_def demo_s6_core demo_s6_records source_assurance_of_def proposed_summary_of_def lit_def
        demo_new_oid_def)
  then show "byte_len (render_record_body demo_candidate) \<le> MAX_RECORD_BODY_BYTES"
    using byte_len_bounds(2) [of "render_record_body demo_candidate"] by (simp add: memory_limits)
qed

definition demo_record :: memory_record where
  "demo_record = promoted_record demo_memory_env demo_candidate (lit ''m-1'') 0 (demo_now 8)"

lemma demo_clock: "parse_rfc3339 demo_memory_env (demo_now n) \<noteq> None"
  by (simp add: demo_memory_env_def env.defs demo_env_def demo_now_def)

lemma demo_promotable:
  "derive_promoted_record demo_memory_env demo_candidate rid k (demo_now n) =
     Inr (promoted_record demo_memory_env demo_candidate rid k (demo_now n))"
proof (rule promotable [OF demo_candidate_valid])
  show "sha256_lower (env.truncate demo_memory_env)" using demo_sha_lower by simp
  show "0 \<notin> set (ca_task_id demo_candidate)" by (simp add: demo_candidate_fields lit_def)
  show "byte_len (ca_task demo_candidate) \<le> MAX_RECORD_TITLE_BYTES"
    using byte_len_bounds(2) [of "lit ''do it''"] by (simp add: demo_candidate_fields lit_def memory_limits)
qed (rule demo_candidate_fields demo_clock)+

lemma demo_record_ok: "verify_record_identity demo_memory_env demo_record = Inr ()"
  using demo_promotable [of "lit ''m-1''" 0 8] demo_sha_lower by (simp add: derive_promoted_Inr demo_record_def)

lemma demo_empty_log: "load_log demo_memory_env None None LocalLedger = Inr empty_log"
  by (simp add: load_log_def committed_count_def empty_log_def)

abbreviation demo_entry :: log_entry where
  "demo_entry \<equiv> sealed_entry demo_memory_env empty_log demo_record"

lemma demo_appended:
  "append_entry demo_memory_env Appended demo_record empty_log None =
     (Inr \<lparr>ml_committed = [], ml_tail = [demo_entry]\<rparr>, Some [EntryLine demo_entry])"
  by (simp add: append_entry_def empty_log_def file_lines_def Let_def)

text \<open>What a promotion appends loads again: a record that verifies and whose id is not in the log yet,
  appended to a loaded log without an interrupted entry, gives a file that loads under the old head
  with the entry as its uncommitted tail, and under the new head with the entry committed.\<close>

theorem appended_record_loads:
  assumes "load_log E file head LocalLedger = Inr log" "ml_tail log = []" "verify_record_identity E r = Inr ()"
    and "me_id r \<notin> set (entry_ids (ml_committed log))" "sha256_lower (env.truncate E)"
    and "append_entry E Appended r log file = (Inr log', file')"
  shows "load_log E file' head LocalLedger = Inr log' \<and>
    load_log E file' (full_head log') LocalLedger = Inr (commit_tail log')"
  using appended_loads [OF assms] by blast

theorem appended_record_loads_witness:
  "load_log demo_memory_env None None LocalLedger = Inr empty_log \<and>
   verify_record_identity demo_memory_env demo_record = Inr () \<and>
   load_log demo_memory_env (Some [EntryLine demo_entry]) None LocalLedger =
     Inr \<lparr>ml_committed = [], ml_tail = [demo_entry]\<rparr> \<and>
   load_log demo_memory_env (Some [EntryLine demo_entry]) (Some \<lparr>lh_entry_count = 1, lh_digest = le_digest demo_entry\<rparr>)
     LocalLedger = Inr \<lparr>ml_committed = [demo_entry], ml_tail = []\<rparr>"
proof -
  have sha: "sha256_lower (env.truncate demo_memory_env)" using demo_sha_lower by simp
  show ?thesis
    using appended_record_loads [OF demo_empty_log _ demo_record_ok _ sha demo_appended] demo_empty_log demo_record_ok
    by (simp add: empty_log_def full_head_def last_opt_def commit_tail_def)
qed

theorem committed_head_pins_history_witness:
  "\<exists>h l m. load_log demo_memory_env (Some [EntryLine demo_entry]) (Some h) LocalLedger = Inr l \<and>
     load_log demo_memory_env (Some [BlankLine, EntryLine demo_entry]) (Some h) AbsentLedger = Inr m \<and>
     ml_committed l = [demo_entry] \<and>
     (ml_committed l = ml_committed m \<or>
      (\<exists>i < lh_entry_count h. entries_collide demo_memory_env (ml_committed l ! i) (ml_committed m ! i)))"
proof -
  let ?h = "\<lparr>lh_entry_count = 1, lh_digest = le_digest demo_entry\<rparr>"
  have sha: "sha256_lower (env.truncate demo_memory_env)" using demo_sha_lower by simp
  have l: "load_log demo_memory_env (Some [EntryLine demo_entry]) (Some ?h) LocalLedger =
      Inr \<lparr>ml_committed = [demo_entry], ml_tail = []\<rparr>"
    using appended_loads(2) [OF demo_empty_log _ demo_record_ok _ sha demo_appended]
    by (simp add: empty_log_def full_head_def last_opt_def commit_tail_def)
  then have m: "load_log demo_memory_env (Some [BlankLine, EntryLine demo_entry]) (Some ?h) AbsentLedger =
      Inr \<lparr>ml_committed = [demo_entry], ml_tail = []\<rparr>"
    by (simp add: load_log_Inr file_lines_def committed_count_def)
  have inj: "entry_bytes demo_memory_env i p r = entry_bytes demo_memory_env j q s \<Longrightarrow> i = j \<and> p = q \<and> r = s"
    for i p r j q s
    using demo_entry_bytes_inj by (simp add: demo_memory_env_def env.defs)
  show ?thesis using committed_head_pins_history [OF l m] inj l m by fastforce
qed

end
