(* ===== verification/Memory_Machine.thy ===== *)
theory Memory_Machine
  imports Memory_Log_Properties
begin

text \<open>
  Sequences of memory operations.  An operation that fails can still have changed the files, so a step
  is the state an operation leaves, whatever it answered: decisions, hand-overs of accepted runs, the
  two start-up reconciliations and the reindexing, in any order, with any outcome of every lock and
  write.
\<close>

datatype memory_request =
    Decide memory_decision_input operator_authentication rstr
  | HandOver run
  | Reconcile "run list"
  | ReconcileLog rstr ledger_origin
  | Reindex "memory_record list \<Rightarrow> rstr + nat" rstr

record memory_call =
  mq_request :: memory_request
  mq_io :: memory_io
  mq_tasks :: "state_error + run list"

definition memory_effect :: "memory_env \<Rightarrow> site \<Rightarrow> memory_state \<Rightarrow> memory_call \<Rightarrow> memory_state" where
  "memory_effect E S st call =
     (case mq_request call of
        Decide i auth now \<Rightarrow> snd (decide_memory_candidate E S (mq_io call) (mq_tasks call) i auth now st)
      | HandOver t \<Rightarrow> snd (ensure_accepted_run_memory_candidate E (mq_io call) t st)
      | Reconcile own \<Rightarrow> snd (reconcile_accepted_run_memory_candidates E (mq_io call) own (mq_tasks call) st)
      | ReconcileLog now origin \<Rightarrow> snd (reconcile_promoted_memory_log E (mq_io call) now origin st)
      | Reindex reindex now \<Rightarrow> snd (index_promoted_memory_records E (mq_io call) reindex now st))"

definition memory_step :: "memory_env \<Rightarrow> site \<Rightarrow> memory_state \<Rightarrow> memory_call \<Rightarrow> rstr + memory_state" where
  "memory_step E S st call = Inr (memory_effect E S st call)"

section \<open>The log file only grows\<close>

lemma decided_status_file:
  "decided_status E io i now stored adopted b log file = (res, file') \<Longrightarrow> prefix (file_lines file) (file_lines file')"
  by (auto simp: decided_status_def append_entry_def Let_def file_lines_def prefix_def
      split: memory_decision.splits sum.splits option.splits if_splits append_outcome.splits)

lemma commit_decision_log [simp]:
  "mm_log_file (snd (commit_decision E io i auth now stored status at r st)) = mm_log_file st"
  by (simp add: commit_decision_def Let_def split: sum.splits prod.splits)

lemma decide_loaded_log:
  "prefix (file_lines (mm_log_file st)) (file_lines (mm_log_file (snd (decide_loaded E io i auth now expected st))))"
  using decided_status_file [of E io i now]
  by (auto simp: decide_loaded_def Let_def split: sum.splits prod.splits option.splits)

lemma decide_log:
  "prefix (file_lines (mm_log_file st))
     (file_lines (mm_log_file (snd (decide_memory_candidate E S io ts i auth now st))))"
  using decide_loaded_log [of "st\<lparr>mm_ledger := _, mm_log := _\<rparr>" E io i auth now]
  by (auto simp: decide_memory_candidate_def Let_def split: sum.splits)

lemma other_logs [simp]:
  "mm_log_file (snd (ensure_accepted_run_memory_candidate E io t st)) = mm_log_file st"
  "mm_log_file (snd (reconcile_accepted_run_memory_candidates E io own ts st)) = mm_log_file st"
  "mm_log_file (snd (adopt_checked_out_log E io log st)) = mm_log_file st"
  "mm_log_file (snd (restore_projection E io now log st)) = mm_log_file st"
  "mm_log_file (snd (index_promoted_memory_records E io reindex now st)) = mm_log_file st"
  by (simp_all add: ensure_accepted_run_memory_candidate_def reconcile_accepted_run_memory_candidates_def
      adopt_checked_out_log_def restore_projection_def index_promoted_memory_records_def Let_def
      split: sum.splits prod.splits option.splits)

lemma reconcile_log_cases:
  obtains (failed) "snd (reconcile_promoted_memory_log E io now origin st) = st"
  | (adoption) log where "snd (reconcile_promoted_memory_log E io now origin st) =
      snd (adopt_checked_out_log E io log st)"
  | (restored) log where "snd (reconcile_promoted_memory_log E io now origin st) =
      snd (restore_projection E io now log (snd (adopt_checked_out_log E io log st)))"
  | (local) log where "snd (reconcile_promoted_memory_log E io now origin st) =
      snd (restore_projection E io now log st)"
proof -
  obtain x where eq: "reconcile_promoted_memory_log E io now origin st = (case x of
      Inl e \<Rightarrow> (Inl e, st)
    | Inr log \<Rightarrow> (case (if origin = AbsentLedger then adopt_checked_out_log E io log st else (Inr (), st)) of
        (Inl e, st') \<Rightarrow> (Inl e, st') | (Inr _, st') \<Rightarrow> restore_projection E io now log st'))"
    unfolding reconcile_promoted_memory_log_def by blast
  show thesis
  proof (cases x)
    case (Inl e)
    then show thesis using eq by (intro failed) simp
  next
    case (Inr log)
    show thesis
    proof (cases "origin = AbsentLedger")
      case True
      obtain res st1 where ad: "adopt_checked_out_log E io log st = (res, st1)" by (cases "adopt_checked_out_log E io log st")
      show thesis
      proof (cases res)
        case (Inl e)
        then show thesis using eq \<open>x = Inr log\<close> True ad by (intro adoption [of log]) simp
      next
        case (Inr u)
        then show thesis using eq \<open>x = Inr log\<close> True ad by (intro restored [of log]) simp
      qed
    next
      case False
      then show thesis using eq Inr by (intro local [of log]) simp
    qed
  qed
qed

interpretation memory_log_file: append_only_machine "memory_step E S" "\<lambda>st. file_lines (mm_log_file st)" for E S
proof
  fix st st' call
  assume "memory_step E S st call = Inr st'"
  then have st': "st' = memory_effect E S st call" by (simp add: memory_step_def)
  show "prefix (file_lines (mm_log_file st)) (file_lines (mm_log_file st'))"
  proof (cases "mq_request call")
    case (ReconcileLog now origin)
    then have "mm_log_file st' = mm_log_file st"
      by (cases rule: reconcile_log_cases [of E "mq_io call" now origin st]) (simp_all add: st' memory_effect_def)
    then show ?thesis by simp
  qed (simp_all add: st' memory_effect_def decide_log)
qed

section \<open>Decided candidates stay decided\<close>

definition on_file :: "rstr \<Rightarrow> memory_candidate \<Rightarrow> memory_state \<Rightarrow> bool" where
  "on_file k c st \<longleftrightarrow> (\<exists>l. mm_ledger_file st = LedgerFile l \<and> bt_get (cg_candidates l) k = Some c)"

definition final_candidate :: "memory_candidate \<Rightarrow> bool" where
  "final_candidate c \<longleftrightarrow> \<not> status_is_pending (ca_status c) \<and> \<not> is_stale c"

lemma map_of_filter_first:
  "map_of m k = Some v \<Longrightarrow> P (k, v) \<Longrightarrow> map_of (filter P m) k = Some v"
  by (induction m) (auto split: if_splits)

lemma load_keeps:
  assumes "load_candidate_ledger E (mm_ledger_file st) = Inr l" "on_file k c st" "\<not> is_stale c"
  shows "bt_get (cg_candidates l) k = Some c"
proof -
  obtain raw where raw: "mm_ledger_file st = LedgerFile raw" "map_of (cg_candidates raw) k = Some c"
    using assms(2) by (auto simp: on_file_def bt_get_def)
  have "l = migrate_superseded_derivations raw" using assms(1) raw(1) by (simp add: load_candidate_ledger_def Let_def)
  then show ?thesis
    using map_of_filter_first [OF raw(2), of "\<lambda>(_, c). \<not> is_stale c"] assms(3)
    by (simp add: migrate_superseded_derivations_def bt_get_def)
qed

lemma add_missing_keeps:
  "bt_get (cg_candidates l) k = Some c \<Longrightarrow> bt_get (cg_candidates (add_missing cs l)) k = Some c"
proof (induction cs l rule: add_missing.induct)
  case (2 k' c' cs l)
  show ?case
  proof (cases "bt_contains (cg_candidates l) k'")
    case True
    then show ?thesis using 2 by simp
  next
    case False
    with "2.prems" have "k \<noteq> k'" by (auto simp: bt_contains_def)
    with False show ?thesis using "2.IH" "2.prems"
      by (cases "bt_get (cg_parked l) (ca_task_id c')") (simp_all add: bt_simps)
  qed
qed simp

lemma reconciled_keeps:
  "reconciled_candidate_ledger l expected = Inr (Some l') \<Longrightarrow> bt_get (cg_candidates l) k = Some c \<Longrightarrow>
   bt_get (cg_candidates l') k = Some c"
  by (auto simp: reconciled_candidate_ledger_def Let_def add_missing_keeps split: if_splits)

lemma adopt_entry_keeps:
  "bt_get (cg_candidates l) k = Some c \<Longrightarrow> \<not> status_is_pending (ca_status c) \<Longrightarrow>
   bt_get (cg_candidates (adopt_entry e l)) k = Some c"
  by (auto simp: Let_def bt_simps split: memory_source.splits option.splits)

lemma adopt_log_keeps:
  assumes "bt_get (cg_candidates l) k = Some c" "\<not> status_is_pending (ca_status c)"
  shows "bt_get (cg_candidates (adopt_log log head l)) k = Some c"
proof -
  have "bt_get (cg_candidates (fold adopt_entry es m)) k = Some c" if "bt_get (cg_candidates m) k = Some c" for es m
    using that adopt_entry_keeps [OF _ assms(2)] by (induction es arbitrary: m) (simp_all del: adopt_entry.simps)
  then show ?thesis using assms(1) by (simp add: adopt_log_def)
qed

lemma hand_over_keeps:
  assumes "on_file k c st" "final_candidate c"
  shows "on_file k c (snd (ensure_accepted_run_memory_candidate E io t st))"
proof -
  have "bt_get (cg_candidates l) k = Some c" if "load_candidate_ledger E (mm_ledger_file st) = Inr l" for l
    using load_keeps [OF that assms(1)] assms(2) by (simp add: final_candidate_def)
  then show ?thesis
    using assms(1)
    by (auto simp: ensure_accepted_run_memory_candidate_def Let_def on_file_def bt_simps
        split: sum.splits option.splits)
qed

lemma reconcile_keeps:
  assumes "on_file k c st" "final_candidate c"
  shows "on_file k c (snd (reconcile_accepted_run_memory_candidates E io own ts st))"
proof -
  have "bt_get (cg_candidates l') k = Some c"
    if "load_candidate_ledger E (mm_ledger_file st) = Inr l" "reconciled_candidate_ledger l x = Inr (Some l')" for l l' x
    using load_keeps [OF that(1) assms(1)] reconciled_keeps [OF that(2)] assms(2) by (simp add: final_candidate_def)
  then show ?thesis
    using assms(1)
    by (auto simp: reconcile_accepted_run_memory_candidates_def Let_def on_file_def
        split: sum.splits option.splits)
qed

lemma adopt_keeps:
  assumes "on_file k c st" "final_candidate c"
  shows "on_file k c (snd (adopt_checked_out_log E io log st))"
proof -
  have "bt_get (cg_candidates (adopt_log log h l)) k = Some c"
    if "load_candidate_ledger E (mm_ledger_file st) = Inr l" for l h
    using load_keeps [OF that assms(1)] adopt_log_keeps assms(2) by (simp add: final_candidate_def)
  then show ?thesis
    using assms(1)
    by (auto simp: adopt_checked_out_log_def Let_def on_file_def split: sum.splits option.splits)
qed

lemma restore_ledger [simp]: "mm_ledger_file (snd (restore_projection E io now log st)) = mm_ledger_file st"
  by (simp add: restore_projection_def split: sum.splits prod.splits)

lemma reindex_ledger [simp]:
  "mm_ledger_file (snd (index_promoted_memory_records E io reindex now st)) = mm_ledger_file st"
  by (simp add: index_promoted_memory_records_def split: sum.splits prod.splits)

lemma on_file_other [simp]:
  "on_file k c (snd (restore_projection E io now log st)) = on_file k c st"
  "on_file k c (snd (index_promoted_memory_records E io reindex now st)) = on_file k c st"
  "on_file k c (st\<lparr>mm_ledger := l\<rparr>) = on_file k c st"
  by (simp_all add: on_file_def)

lemma commit_decision_file:
  "mm_ledger_file (snd (commit_decision E io i auth now stored status at r st)) =
     (if validate_candidate E (stored\<lparr>ca_status := status\<rparr>) = Inr () \<and> io_ledger io = Inr ()
      then LedgerFile (decided_ledger i (decision_record_of i auth at (cg_revision (mm_ledger st)) r)
        (stored\<lparr>ca_status := status\<rparr>)
        (if is_promote (mi_decision i) then full_head (mm_log st) else cg_head (mm_ledger st)) (mm_ledger st))
      else mm_ledger_file st)"
  by (cases "validate_candidate E (stored\<lparr>ca_status := status\<rparr>)"; cases "io_ledger io")
    (simp_all add: commit_decision_def Let_def split: sum.splits prod.splits)

lemma check_decision_pending:
  "check_decision i expected l log = Inr (stored, adopted) \<Longrightarrow>
   bt_get (cg_candidates l) (mi_candidate_id i) = Some stored \<and> status_is_pending (ca_status stored)"
  by (auto simp: check_decision_def)

lemma decide_loaded_keeps:
  assumes "on_file k c st" "final_candidate c" "bt_get (cg_candidates (mm_ledger st)) k = Some c"
  shows "on_file k c (snd (decide_loaded E io i auth now expected st))"
proof (cases "bt_get (cg_decisions (mm_ledger st)) (mi_request_id i)")
  case (Some recorded)
  then show ?thesis using assms(1) by (simp add: decide_loaded_def)
next
  case None
  show ?thesis
  proof (cases "check_decision i expected (mm_ledger st) (mm_log st)")
    case (Inl e)
    then show ?thesis using None assms(1) by (simp add: decide_loaded_def)
  next
    case (Inr x)
    obtain stored adopted where x: "x = (stored, adopted)" by (cases x)
    have other: "k \<noteq> mi_candidate_id i"
      using check_decision_pending [OF Inr [unfolded x]] assms(2,3) by (auto simp: final_candidate_def)
    obtain res file' where ds: "decided_status E io i now stored adopted (cg_revision (mm_ledger st)) (mm_log st)
        (mm_log_file st) = (res, file')" by (metis prod.exhaust)
    show ?thesis
    proof (cases res)
      case (Inl e)
      then show ?thesis using None \<open>check_decision _ _ _ _ = Inr x\<close> x ds assms(1)
        by (simp add: decide_loaded_def on_file_def)
    next
      case (Inr y)
      obtain status at r log' where y: "y = (status, at, r, log')" by (cases y)
      let ?st = "st\<lparr>mm_log := log', mm_log_file := file'\<rparr>"
      have eq: "snd (decide_loaded E io i auth now expected st) =
          snd (commit_decision E io i auth now stored status at r ?st)"
        using None \<open>check_decision _ _ _ _ = Inr x\<close> x ds Inr y by (simp add: decide_loaded_def)
      show ?thesis
        using assms(1,3) other
        by (simp add: eq on_file_def commit_decision_file decided_ledger_def bt_simps)
    qed
  qed
qed

lemma decide_keeps:
  assumes "on_file k c st" "final_candidate c"
  shows "on_file k c (snd (decide_memory_candidate E S io ts i auth now st))"
proof -
  have loaded: "bt_get (cg_candidates l) k = Some c" if "load_candidate_ledger E (mm_ledger_file st) = Inr l" for l
    using load_keeps [OF that assms(1)] assms(2) by (simp add: final_candidate_def)
  have "on_file k c (snd (decide_loaded E io i auth now x (st\<lparr>mm_ledger := l, mm_log := log\<rparr>)))"
    if "load_candidate_ledger E (mm_ledger_file st) = Inr l" for l log x
    using decide_loaded_keeps [of k c "st\<lparr>mm_ledger := l, mm_log := log\<rparr>"] assms loaded [OF that]
    by (simp add: on_file_def)
  then show ?thesis
    using assms(1)
    by (auto simp: decide_memory_candidate_def Let_def split: sum.splits)
qed

lemma reconcile_log_keeps:
  assumes "on_file k c st" "final_candidate c"
  shows "on_file k c (snd (reconcile_promoted_memory_log E io now origin st))"
  by (cases rule: reconcile_log_cases [of E io now origin st])
    (simp_all add: assms adopt_keeps)

interpretation decided_candidate: invariant_machine "memory_step E S"
  "\<lambda>st. on_file k c st \<and> final_candidate c" for E S k c
  by unfold_locales
    (auto simp: memory_step_def memory_effect_def decide_keeps hand_over_keeps reconcile_keeps
      reconcile_log_keeps split: memory_request.splits)

end
