(* ===== verification/Memory_Properties.thy ===== *)
theory Memory_Properties
  imports Memory_Machine
begin

text \<open>
  The properties of the review ledger over sequences of operations and failures, each applied to the
  example candidate of \<open>Memory_Log_Properties\<close>.
\<close>

section \<open>The stages of a decision\<close>

definition decision_admitted ::
    "memory_env \<Rightarrow> site \<Rightarrow> memory_io \<Rightarrow> (state_error + run list) \<Rightarrow> memory_decision_input \<Rightarrow> memory_state \<Rightarrow>
     candidate_ledger \<Rightarrow> (rstr, memory_candidate) btree \<Rightarrow> memory_log \<Rightarrow> bool" where
  "decision_admitted E S io ts i st l expected log \<longleftrightarrow>
     validate_decision_input i = Inr () \<and> mi_project_id i = governed_project_id S \<and> io_lock io = Inr () \<and>
     load_candidate_ledger E (mm_ledger_file st) = Inr l \<and>
     and_then (map_err TaskLedger ts) (expected_accepted_run_candidates E) = Inr expected \<and>
     load_log E (mm_log_file st) (cg_head l) LocalLedger = Inr log"

lemma decide_admitted:
  "decision_admitted E S io ts i st l expected log \<Longrightarrow>
   decide_memory_candidate E S io ts i auth now st =
     decide_loaded E io i auth now expected (st\<lparr>mm_ledger := l, mm_log := log\<rparr>)"
  by (simp add: decision_admitted_def decide_memory_candidate_def Let_def del: and_then_Inr)

lemma decide_succeeds:
  assumes "decide_memory_candidate E S io ts i auth now st = (Inr out, st')"
  obtains l expected log where "decision_admitted E S io ts i st l expected log"
  using assms
  by (auto simp: decide_memory_candidate_def decision_admitted_def Let_def split: sum.splits)

lemma decide_promotes:
  assumes "bt_get (cg_decisions (mm_ledger st)) (mi_request_id i) = None" "mi_decision i = Promote"
    and "check_decision i expected (mm_ledger st) (mm_log st) = Inr (stored, None)" "io_append io = Appended"
    and "derive_promoted_record E stored (mi_request_id i) (cg_revision (mm_ledger st)) now = Inr r"
  shows "decide_loaded E io i auth now expected st =
    commit_decision E io i auth now stored (PromotedTo (me_id r) now (mi_actor i)) now (Some r)
      (st\<lparr>mm_log := (mm_log st)\<lparr>ml_tail := ml_tail (mm_log st) @ [sealed_entry E (mm_log st) r]\<rparr>,
          mm_log_file := Some (file_lines (mm_log_file st) @ [EntryLine (sealed_entry E (mm_log st) r)])\<rparr>)"
  using assms by (simp add: decide_loaded_def decided_status_def append_entry_def Let_def)

lemma decide_adopts:
  assumes "bt_get (cg_decisions (mm_ledger st)) (mi_request_id i) = None" "mi_decision i = Promote"
    and "check_decision i expected (mm_ledger st) (mm_log st) = Inr (stored, Some r)"
    and "derive_promoted_record E stored (mi_request_id i) (cg_revision (mm_ledger st)) now = Inr r'" "me_id r' = me_id r"
  shows "decide_loaded E io i auth now expected st =
    commit_decision E io i auth now stored (PromotedTo (me_id r) (me_valid_from r) (mi_actor i)) (me_valid_from r)
      (Some r) st"
  using assms by (simp add: decide_loaded_def decided_status_def Let_def)

lemma write_projection_any_time:
  assumes "write_projection E w1 w2 rs now dirty files = (Inr x, files')"
  shows "\<exists>y files''. write_projection E w1 w2 rs now' dirty files = (Inr y, files'')"
proof -
  have m: "marker_unchanged p (next_marker E rs now dirty q) = marker_unchanged p (next_marker E rs now' dirty q)" for p q
    by (simp add: marker_unchanged_def next_marker_def Let_def split: option.splits)
  show ?thesis
    using assms by (cases w1; cases w2) (auto simp: write_projection_def Let_def m split: if_splits)
qed

lemma commit_any_time:
  assumes "commit_decision E io i auth now stored status at r st = (Inr out, st')"
  shows "\<exists>out2 st2. commit_decision E io i auth now' stored status at r st = (Inr out2, st2) \<and>
    mo_decision out2 = mo_decision out \<and> mo_candidate out2 = mo_candidate out \<and> mo_record out2 = mo_record out \<and>
    mm_ledger_file st2 = mm_ledger_file st' \<and> mm_log_file st2 = mm_log_file st'"
proof -
  let ?l = "decided_ledger i (decision_record_of i auth at (cg_revision (mm_ledger st)) r) (stored\<lparr>ca_status := status\<rparr>)
    (if is_promote (mi_decision i) then full_head (mm_log st) else cg_head (mm_ledger st)) (mm_ledger st)"
  have ok: "validate_candidate E (stored\<lparr>ca_status := status\<rparr>) = Inr ()" "io_ledger io = Inr ()"
    using assms by (auto simp: commit_decision_def Let_def split: sum.splits)
  obtain x files where w: "write_projection E (io_projection io) (io_marker io)
      (projected_records (commit_tail (mm_log st))) now (is_promote (mi_decision i)) (mm_files st) = (Inr x, files)"
    using assms ok by (auto simp: commit_decision_def Let_def split: sum.splits prod.splits)
  then obtain y files' where w': "write_projection E (io_projection io) (io_marker io)
      (projected_records (commit_tail (mm_log st))) now' (is_promote (mi_decision i)) (mm_files st) = (Inr y, files')"
    using write_projection_any_time by blast
  show ?thesis
    using assms ok w w' by (cases x; cases y) (auto simp: commit_decision_def Let_def)
qed

lemma commit_outcome:
  "commit_decision E io i auth now stored status at r st = (Inr out, st') \<Longrightarrow> mo_record out = r"
  by (auto simp: commit_decision_def Let_def split: sum.splits prod.splits)

lemma commit_interrupted:
  assumes "commit_decision E io i auth now stored status at r st = (Inr out, st')"
  shows "commit_decision E (io\<lparr>io_ledger := Inl m\<rparr>) i auth now stored status at r st =
    (Inl (memory_context ''Failed to persist memory candidate decision'' (MemoryMessage m)), st)"
proof -
  have "validate_candidate E (stored\<lparr>ca_status := status\<rparr>) = Inr ()"
    using assms by (auto simp: commit_decision_def Let_def split: sum.splits)
  then show ?thesis by (simp add: commit_decision_def Let_def)
qed

lemma promoted_id_timeless: "me_id (promoted_record E c rid n now) = me_id (promoted_record E c rid n now')"
  by (simp add: promoted_record_def record_source.defs Let_def)

lemma promoted_fields [simp]:
  "me_request_id (promoted_record E c rid n now) = rid" "me_valid_from (promoted_record E c rid n now) = now"
  by (simp_all add: promoted_record_def promoted_source_def record_source.defs Let_def)

lemma rederive_later:
  assumes "derive_promoted_record E c rid n now = Inr r" "sha256_lower (env.truncate E)" "parse_rfc3339 E now' \<noteq> None"
  shows "derive_promoted_record E c rid n now' = Inr (promoted_record E c rid n now')"
  using assms by (auto simp: derive_promoted_Inr promoted_identity)

lemma fresh_promotion:
  assumes out: "decide_loaded E io i auth now expected st = (Inr out, st')" and "mi_decision i = Promote"
    and "\<not> mo_replayed out" "io_append io = Appended" "ml_tail (mm_log st) = []"
  obtains stored r where "bt_get (cg_decisions (mm_ledger st)) (mi_request_id i) = None"
    "check_decision i expected (mm_ledger st) (mm_log st) = Inr (stored, None)"
    "derive_promoted_record E stored (mi_request_id i) (cg_revision (mm_ledger st)) now = Inr r"
proof -
  have none: "bt_get (cg_decisions (mm_ledger st)) (mi_request_id i) = None"
    using out assms(3) by (auto simp: decide_loaded_def replayed_decision_def Let_def split: option.splits)
  then obtain stored adopted where c: "check_decision i expected (mm_ledger st) (mm_log st) = Inr (stored, adopted)"
    using out by (auto simp: decide_loaded_def Let_def split: sum.splits prod.splits)
  then have "adopted = None" using assms(5) by (auto simp: check_decision_def adopted_tail_def)
  moreover have "\<exists>r. derive_promoted_record E stored (mi_request_id i) (cg_revision (mm_ledger st)) now = Inr r"
    using out none c assms(2)
    by (cases "derive_promoted_record E stored (mi_request_id i) (cg_revision (mm_ledger st)) now")
      (simp_all add: decide_loaded_def decided_status_def Let_def)
  ultimately show thesis using that none c by blast
qed

lemma adoption_check:
  assumes "check_decision i expected l log = Inr (stored, None)" "ml_tail log' = [e]"
    and "me_request_id (le_record e) = mi_request_id i"
  shows "check_decision i expected l log' = Inr (stored, Some (le_record e))"
  using assms by (auto simp: check_decision_def adopted_tail_def)

lemma interrupted_then_finished:
  assumes adm: "decision_admitted E S io ts i st l expected log" and tail: "ml_tail log = []"
    and out: "decide_memory_candidate E S io ts i auth now st = (Inr out, st_ok)"
    and i: "mi_decision i = Promote" "\<not> mo_replayed out" and io: "io_append io = Appended"
    and fresh: "\<And>r. mo_record out = Some r \<Longrightarrow> me_id r \<notin> set (entry_ids (ml_committed log))"
    and sha: "sha256_lower (env.truncate E)" and later: "parse_rfc3339 E now' \<noteq> None"
  shows "\<exists>e st1 out2 st2. decide_memory_candidate E S (io\<lparr>io_ledger := Inl m\<rparr>) ts i auth now st = (Inl e, st1) \<and>
    mm_ledger_file st1 = mm_ledger_file st \<and> decide_memory_candidate E S io ts i auth now' st1 = (Inr out2, st2) \<and>
    mo_decision out2 = mo_decision out \<and> mo_candidate out2 = mo_candidate out \<and> mo_record out2 = mo_record out \<and>
    mm_ledger_file st2 = mm_ledger_file st_ok \<and> mm_log_file st2 = mm_log_file st_ok"
proof -
  let ?st = "st\<lparr>mm_ledger := l, mm_log := log\<rparr>"
  have loaded: "decide_loaded E io i auth now expected ?st = (Inr out, st_ok)"
    using out decide_admitted [OF adm] by simp
  obtain stored r where c: "bt_get (cg_decisions l) (mi_request_id i) = None"
    "check_decision i expected l log = Inr (stored, None)"
    "derive_promoted_record E stored (mi_request_id i) (cg_revision l) now = Inr r"
    using fresh_promotion [OF loaded i io] tail by auto
  have r: "r = promoted_record E stored (mi_request_id i) (cg_revision l) now" "verify_record_identity E r = Inr ()"
    using c(3) sha by (auto simp: derive_promoted_Inr)
  let ?e = "sealed_entry E log r"
  let ?log = "log\<lparr>ml_tail := [?e]\<rparr>" and ?file = "Some (file_lines (mm_log_file st) @ [EntryLine ?e])"
  let ?st1 = "st\<lparr>mm_ledger := l, mm_log := ?log, mm_log_file := ?file\<rparr>"
  have eq: "decide_loaded E j i auth now expected ?st =
      commit_decision E j i auth now stored (PromotedTo (me_id r) now (mi_actor i)) now (Some r) ?st1"
    if "io_append j = Appended" for j
    using decide_promotes [of ?st i expected stored j E now r auth] c i(1) that tail by simp
  have commit: "commit_decision E io i auth now stored (PromotedTo (me_id r) now (mi_actor i)) now (Some r) ?st1 =
      (Inr out, st_ok)" using loaded eq [OF io] by simp
  have adm1: "decision_admitted E S (io\<lparr>io_ledger := Inl m\<rparr>) ts i st l expected log"
    using adm by (simp add: decision_admitted_def)
  have first: "decide_memory_candidate E S (io\<lparr>io_ledger := Inl m\<rparr>) ts i auth now st =
      (Inl (memory_context ''Failed to persist memory candidate decision'' (MemoryMessage m)), ?st1)"
    using decide_admitted [OF adm1] eq [of "io\<lparr>io_ledger := Inl m\<rparr>"] commit_interrupted [OF commit] io by simp
  have "mo_record out = Some r"
    using commit by (rule commit_outcome)
  then have id: "me_id r \<notin> set (entry_ids (ml_committed log))" by (rule fresh)
  have app: "append_entry E Appended r log (mm_log_file st) = (Inr ?log, ?file)"
    using tail by (simp add: append_entry_def Let_def)
  have "load_log E (mm_log_file st) (cg_head l) LocalLedger = Inr log"
    using adm by (simp add: decision_admitted_def)
  then have "load_log E ?file (cg_head l) LocalLedger = Inr ?log"
    by (rule appended_loads(1) [OF _ tail r(2) id sha app])
  then have adm2: "decision_admitted E S io ts i ?st1 l expected ?log"
    using adm by (simp add: decision_admitted_def)
  have check2: "check_decision i expected l ?log = Inr (stored, Some r)"
    using adoption_check [OF c(2), of ?log ?e] r(1) by (simp add: sealed_entry_def)
  have again: "?st1\<lparr>mm_ledger := l, mm_log := ?log\<rparr> = ?st1" by simp
  have second: "decide_memory_candidate E S io ts i auth now' ?st1 =
      commit_decision E io i auth now' stored (PromotedTo (me_id r) now (mi_actor i)) now (Some r) ?st1"
    unfolding decide_admitted [OF adm2] again
    using decide_adopts [of ?st1 i expected stored r E now' _ io auth] c(1) i(1) check2
      rederive_later [OF c(3) sha later] promoted_id_timeless r(1) by simp
  obtain out2 st2 where "decide_memory_candidate E S io ts i auth now' ?st1 = (Inr out2, st2)"
    "mo_decision out2 = mo_decision out" "mo_candidate out2 = mo_candidate out" "mo_record out2 = mo_record out"
    "mm_ledger_file st2 = mm_ledger_file st_ok" "mm_log_file st2 = mm_log_file st_ok"
    unfolding second using commit_any_time [OF commit, of now'] by blast
  moreover have "mm_ledger_file ?st1 = mm_ledger_file st" by simp
  ultimately show ?thesis using first by blast
qed

text \<open>C30: An interrupted promotion loses nothing and is finished by replaying it: where a promotion would
  succeed, the process may die after the append and before the ledger is written, leaving the ledger
  file as it was; sending the same request again, at any later time, then succeeds, with the same
  decision, candidate and record, and leaves exactly the ledger and the log file that the
  uninterrupted promotion would have left.  The record's id must not already be in the log.\<close>

theorem interrupted_promotion_is_finished:
  assumes "decision_admitted E S io ts i st l expected log" "ml_tail log = []"
    and "decide_memory_candidate E S io ts i auth now st = (Inr out, st_ok)" "mi_decision i = Promote"
    and "\<not> mo_replayed out" "io_append io = Appended"
    and "\<And>r. mo_record out = Some r \<Longrightarrow> me_id r \<notin> set (entry_ids (ml_committed log))"
    and "sha256_lower (env.truncate E)" "parse_rfc3339 E now' \<noteq> None"
  shows "\<exists>e st1 out2 st2. decide_memory_candidate E S (io\<lparr>io_ledger := Inl m\<rparr>) ts i auth now st = (Inl e, st1) \<and>
    mm_ledger_file st1 = mm_ledger_file st \<and> decide_memory_candidate E S io ts i auth now' st1 = (Inr out2, st2) \<and>
    mo_decision out2 = mo_decision out \<and> mo_candidate out2 = mo_candidate out \<and> mo_record out2 = mo_record out \<and>
    mm_ledger_file st2 = mm_ledger_file st_ok \<and> mm_log_file st2 = mm_log_file st_ok"
  using interrupted_then_finished [OF assms] .

section \<open>An example decision\<close>

definition demo_memory_ledger :: candidate_ledger where
  "demo_memory_ledger = default_candidate_ledger\<lparr>cg_candidates := [(ca_id demo_candidate, demo_candidate)]\<rparr>"

definition demo_memory_state :: memory_state where
  "demo_memory_state = \<lparr>mm_ledger = demo_memory_ledger, mm_log = empty_log,
     mm_ledger_file = LedgerFile demo_memory_ledger, mm_log_file = None,
     mm_files = \<lparr>pf_projection = None, pf_marker = None\<rparr>\<rparr>"

definition demo_io :: memory_io where
  "demo_io = \<lparr>io_lock = Inr (), io_append = Appended, io_ledger = Inr (), io_projection = Inr (), io_marker = Inr ()\<rparr>"

definition demo_promotion_request :: memory_decision_input where
  "demo_promotion_request = \<lparr>mi_request_id = lit ''m-1'', mi_project_id = lit ''w'',
     mi_candidate_id = ca_id demo_candidate, mi_decision = Promote, mi_actor = demo_actor Operator,
     mi_expected_revision = 0\<rparr>"

lemma decided_valid:
  "validate_candidate E c = Inr () \<Longrightarrow> validate_status E s = Inr () \<Longrightarrow> validate_candidate E (c\<lparr>ca_status := s\<rparr>) = Inr ()"
  by (simp add: validate_candidate_def split: if_splits)

lemma demo_ledger_loads: "load_candidate_ledger demo_memory_env (LedgerFile demo_memory_ledger) = Inr demo_memory_ledger"
proof -
  have "\<not> is_stale demo_candidate"
    by (simp add: is_stale_def demo_candidate_def candidate_of_def candidate_source_of_def candidate_source.defs Let_def)
  then show ?thesis
    using demo_candidate_valid
    by (simp add: load_candidate_ledger_def migrate_superseded_derivations_def demo_memory_ledger_def
        default_candidate_ledger_def validate_candidate_ledger_def memory_bail_unless_def
        MEMORY_CANDIDATES_LEDGER_SCHEMA_VERSION_def MEMORY_CANDIDATES_LEDGER_MIN_SUPPORTED_SCHEMA_VERSION_def)
qed

abbreviation demo_expected :: "(rstr, memory_candidate) btree" where
  "demo_expected \<equiv> [(ca_id demo_candidate, demo_candidate)]"

lemma demo_admitted:
  assumes "text_ok (ac_id a) n" "io_lock io = Inr ()"
  shows "decision_admitted demo_memory_env demo_site io (Inr [demo_s6]) (demo_promotion_request\<lparr>mi_actor := a\<rparr>)
    demo_memory_state demo_memory_ledger demo_expected empty_log"
proof -
  have "validate_decision_input (demo_promotion_request\<lparr>mi_actor := a\<rparr>) = Inr ()"
    using assms(1) demo_texts(1) by (simp add: validate_decision_input_def demo_promotion_request_def text_ok_def)
      (simp add: lit_def trim_def is_whitespace_def)
  moreover have "mi_project_id demo_promotion_request = governed_project_id demo_site"
    by (simp add: demo_promotion_request_def)
  moreover have "expected_accepted_run_candidates demo_memory_env [demo_s6] = Inr demo_expected"
    using demo_derives demo_s6_claim(1) by (simp add: expected_accepted_run_candidates_def bt_empty_def)
  ultimately show ?thesis
    using assms(2) demo_ledger_loads demo_empty_log
    by (simp add: decision_admitted_def demo_memory_state_def)
      (simp add: demo_memory_ledger_def default_candidate_ledger_def)
qed

lemma demo_check:
  "check_decision (demo_promotion_request\<lparr>mi_actor := a\<rparr>) demo_expected demo_memory_ledger empty_log =
     Inr (demo_candidate, None)"
  by (simp add: check_decision_def demo_promotion_request_def demo_memory_ledger_def default_candidate_ledger_def
      bt_get_def matches_ignoring_status_def adopted_tail_def empty_log_def demo_candidate_fields
      status_is_pending_def u64_max_def)

abbreviation demo_pending_commit :: memory_state where
  "demo_pending_commit \<equiv> demo_memory_state\<lparr>mm_log := \<lparr>ml_committed = [], ml_tail = [demo_entry]\<rparr>,
     mm_log_file := Some [EntryLine demo_entry]\<rparr>"

lemma demo_decide:
  assumes "text_ok (ac_id a) n" "io_lock io = Inr ()" "io_append io = Appended"
  shows "decide_memory_candidate demo_memory_env demo_site io (Inr [demo_s6]) (demo_promotion_request\<lparr>mi_actor := a\<rparr>)
      auth (demo_now 8) demo_memory_state =
    commit_decision demo_memory_env io (demo_promotion_request\<lparr>mi_actor := a\<rparr>) auth (demo_now 8) demo_candidate
      (PromotedTo (me_id demo_record) (demo_now 8) a) (demo_now 8) (Some demo_record) demo_pending_commit"
proof -
  let ?i = "demo_promotion_request\<lparr>mi_actor := a\<rparr>"
  have st: "demo_memory_state\<lparr>mm_ledger := demo_memory_ledger, mm_log := empty_log\<rparr> = demo_memory_state"
    by (simp add: demo_memory_state_def)
  have "decide_loaded demo_memory_env io ?i auth (demo_now 8) demo_expected demo_memory_state =
      commit_decision demo_memory_env io ?i auth (demo_now 8) demo_candidate
        (PromotedTo (me_id demo_record) (demo_now 8) (mi_actor ?i)) (demo_now 8) (Some demo_record)
        (demo_memory_state\<lparr>mm_log := (mm_log demo_memory_state)\<lparr>ml_tail := ml_tail (mm_log demo_memory_state) @
             [sealed_entry demo_memory_env (mm_log demo_memory_state) demo_record]\<rparr>,
          mm_log_file := Some (file_lines (mm_log_file demo_memory_state) @
             [EntryLine (sealed_entry demo_memory_env (mm_log demo_memory_state) demo_record)])\<rparr>)"
  proof (rule decide_promotes)
    show "check_decision ?i demo_expected (mm_ledger demo_memory_state) (mm_log demo_memory_state) =
        Inr (demo_candidate, None)" using demo_check by (simp add: demo_memory_state_def)
    show "derive_promoted_record demo_memory_env demo_candidate (mi_request_id ?i)
        (cg_revision (mm_ledger demo_memory_state)) (demo_now 8) = Inr demo_record"
      using demo_promotable [of "lit ''m-1''" 0 8]
      by (simp add: demo_promotion_request_def demo_memory_state_def demo_memory_ledger_def
          default_candidate_ledger_def demo_record_def)
  qed (simp_all add: demo_memory_state_def demo_memory_ledger_def default_candidate_ledger_def
      demo_promotion_request_def assms(3))
  then show ?thesis
    using decide_admitted [OF demo_admitted [OF assms(1,2)]]
    by (simp add: st) (simp add: demo_memory_state_def file_lines_def empty_log_def)
qed

lemma demo_actor_texts: "text_ok (ac_id (demo_actor Operator)) 256" "text_ok (ac_id (demo_actor Operator)) MAX_OPEN_ID_BYTES"
  by (simp_all add: demo_actor_def memory_limits)

lemma demo_same_actor: "demo_promotion_request\<lparr>mi_actor := demo_actor Operator\<rparr> = demo_promotion_request"
  by (simp add: demo_promotion_request_def)

lemma demo_status_valid: "validate_status demo_memory_env (PromotedTo (me_id demo_record) (demo_now 8) (demo_actor Operator)) = Inr ()"
proof -
  have "validate_record demo_memory_env demo_record = Inr ()"
    using demo_record_ok by (simp add: verify_record_identity_def)
  then have "lower_sha256 MEMORY_RECORD_ID_PREFIX (me_id demo_record)" by (simp add: validate_record_def)
  then show ?thesis using demo_clock demo_actor_texts(2) by (simp add: validate_decided_by_def)
qed

lemma demo_commits:
  "\<exists>out st'. decide_memory_candidate demo_memory_env demo_site demo_io (Inr [demo_s6]) demo_promotion_request auth
     (demo_now 8) demo_memory_state = (Inr out, st') \<and> \<not> mo_replayed out \<and> mo_record out = Some demo_record \<and>
     on_file (ca_id demo_candidate)
       (demo_candidate\<lparr>ca_status := PromotedTo (me_id demo_record) (demo_now 8) (demo_actor Operator)\<rparr>) st'"
proof -
  have v: "validate_candidate demo_memory_env (demo_candidate\<lparr>ca_status :=
      PromotedTo (me_id demo_record) (demo_now 8) (demo_actor Operator)\<rparr>) = Inr ()"
    using decided_valid [OF demo_candidate_valid demo_status_valid] .
  have "\<exists>out st'. commit_decision demo_memory_env demo_io demo_promotion_request auth (demo_now 8) demo_candidate
      (PromotedTo (me_id demo_record) (demo_now 8) (demo_actor Operator)) (demo_now 8) (Some demo_record)
      demo_pending_commit = (Inr out, st') \<and> \<not> mo_replayed out \<and> mo_record out = Some demo_record \<and>
     on_file (ca_id demo_candidate)
       (demo_candidate\<lparr>ca_status := PromotedTo (me_id demo_record) (demo_now 8) (demo_actor Operator)\<rparr>) st'"
    by (simp add: commit_decision_def Let_def v demo_io_def write_projection_def demo_memory_state_def marker_unchanged_def
        on_file_def decided_ledger_def bt_simps demo_promotion_request_def)
  then show ?thesis
    using demo_decide [OF demo_actor_texts(1), of demo_io auth] demo_same_actor by (simp add: demo_io_def)
qed

theorem interrupted_promotion_is_finished_witness:
  "\<exists>out st_ok e st1 out2 st2.
     decide_memory_candidate demo_memory_env demo_site demo_io (Inr [demo_s6]) demo_promotion_request Declared
       (demo_now 8) demo_memory_state = (Inr out, st_ok) \<and>
     decide_memory_candidate demo_memory_env demo_site (demo_io\<lparr>io_ledger := Inl (lit ''killed'')\<rparr>) (Inr [demo_s6])
       demo_promotion_request Declared (demo_now 8) demo_memory_state = (Inl e, st1) \<and>
     decide_memory_candidate demo_memory_env demo_site demo_io (Inr [demo_s6]) demo_promotion_request Declared
       (demo_now 9) st1 = (Inr out2, st2) \<and>
     mo_record out2 = Some demo_record \<and> mm_ledger_file st2 = mm_ledger_file st_ok"
proof -
  obtain out st_ok where out: "decide_memory_candidate demo_memory_env demo_site demo_io (Inr [demo_s6])
      demo_promotion_request Declared (demo_now 8) demo_memory_state = (Inr out, st_ok)"
    "\<not> mo_replayed out" "mo_record out = Some demo_record" using demo_commits by blast
  have adm: "decision_admitted demo_memory_env demo_site demo_io (Inr [demo_s6]) demo_promotion_request
      demo_memory_state demo_memory_ledger demo_expected empty_log"
    using demo_admitted [OF demo_actor_texts(1), of demo_io] demo_same_actor by (simp add: demo_io_def)
  have "\<exists>e st1 out2 st2. decide_memory_candidate demo_memory_env demo_site (demo_io\<lparr>io_ledger := Inl (lit ''killed'')\<rparr>)
      (Inr [demo_s6]) demo_promotion_request Declared (demo_now 8) demo_memory_state = (Inl e, st1) \<and>
    mm_ledger_file st1 = mm_ledger_file demo_memory_state \<and>
    decide_memory_candidate demo_memory_env demo_site demo_io (Inr [demo_s6]) demo_promotion_request Declared
      (demo_now 9) st1 = (Inr out2, st2) \<and>
    mo_decision out2 = mo_decision out \<and> mo_candidate out2 = mo_candidate out \<and> mo_record out2 = mo_record out \<and>
    mm_ledger_file st2 = mm_ledger_file st_ok \<and> mm_log_file st2 = mm_log_file st_ok"
  proof (rule interrupted_promotion_is_finished [OF adm _ out(1) _ out(2)])
    show "sha256_lower (env.truncate demo_memory_env)" using demo_sha_lower by simp
    show "parse_rfc3339 demo_memory_env (demo_now 9) \<noteq> None" by (rule demo_clock)
  qed (simp_all add: empty_log_def demo_promotion_request_def demo_io_def)
  then show ?thesis using out by auto
qed

section \<open>Over sequences of operations\<close>


text \<open>A review decision is terminal: once a candidate of the current derivation is promoted or
  dismissed in the ledger file, no sequence of decisions, hand-overs, reconciliations or failures
  changes or removes it.\<close>

theorem decided_candidate_stays_decided:
  assumes "mm_ledger_file st = LedgerFile l" "bt_get (cg_candidates l) k = Some c"
    and "ca_status c \<noteq> PendingReview" "ca_derivation_version c = ACCEPTED_RUN_MEMORY_DERIVATION_VERSION"
  shows "\<exists>l'. mm_ledger_file (serve (memory_step E S) st calls) = LedgerFile l' \<and> bt_get (cg_candidates l') k = Some c"
proof -
  have "on_file k c st \<and> final_candidate c"
    using assms by (simp add: on_file_def final_candidate_def status_is_pending_def is_stale_def)
  then have "on_file k c (serve (memory_step E S) st calls)" using decided_candidate.serve_inv by blast
  then show ?thesis by (simp add: on_file_def)
qed

theorem decided_candidate_stays_decided_witness:
  "\<exists>c st l'. on_file (ca_id demo_candidate) c st \<and> ca_status c \<noteq> PendingReview \<and>
     mm_ledger_file (serve (memory_step demo_memory_env demo_site) st
       [\<lparr>mq_request = Decide demo_promotion_request CapabilityAuthenticated (demo_now 9), mq_io = demo_io,
         mq_tasks = Inr [demo_s6]\<rparr>, \<lparr>mq_request = HandOver demo_s6, mq_io = demo_io, mq_tasks = Inr []\<rparr>]) = LedgerFile l' \<and>
     bt_get (cg_candidates l') (ca_id demo_candidate) = Some c"
proof -
  let ?c = "demo_candidate\<lparr>ca_status := PromotedTo (me_id demo_record) (demo_now 8) (demo_actor Operator)\<rparr>"
  obtain st where st: "on_file (ca_id demo_candidate) ?c st" using demo_commits by blast
  then obtain l where l: "mm_ledger_file st = LedgerFile l" "bt_get (cg_candidates l) (ca_id demo_candidate) = Some ?c"
    by (auto simp: on_file_def)
  have "ca_derivation_version demo_candidate = ACCEPTED_RUN_MEMORY_DERIVATION_VERSION"
    by (simp add: demo_candidate_def candidate_of_def candidate_source_of_def candidate_source.defs Let_def)
  then show ?thesis
    using decided_candidate_stays_decided [OF l, of demo_memory_env demo_site
        "[\<lparr>mq_request = Decide demo_promotion_request CapabilityAuthenticated (demo_now 9), mq_io = demo_io,
           mq_tasks = Inr [demo_s6]\<rparr>, \<lparr>mq_request = HandOver demo_s6, mq_io = demo_io, mq_tasks = Inr []\<rparr>]"] st
    by (intro exI [of _ ?c] exI [of _ st]) simp
qed

section \<open>Promotions that are refused\<close>

lemma derived_title: "derive_promoted_record E c rid n now = Inr r \<Longrightarrow> byte_len (ca_task c) \<le> MAX_RECORD_TITLE_BYTES"
  by (auto simp: derive_promoted_record_def verify_record_identity_def validate_record_def promoted_record_def
      promoted_source_def record_source.defs Let_def text_ok_def)

lemma unpromotable_loaded:
  assumes "bt_get (cg_candidates (mm_ledger st)) (mi_candidate_id i) = Some c" "mi_decision i = Promote"
    and "MAX_RECORD_TITLE_BYTES < byte_len (ca_task c)" "bt_get (cg_decisions (mm_ledger st)) (mi_request_id i) = None"
  shows "\<exists>e. decide_loaded E io i auth now expected st = (Inl e, st)"
proof (cases "check_decision i expected (mm_ledger st) (mm_log st)")
  case (Inr x)
  obtain stored adopted where x: "x = (stored, adopted)" by (cases x)
  have "stored = c" using check_decision_pending [OF Inr [unfolded x]] assms(1) by simp
  then obtain e where "derive_promoted_record E stored (mi_request_id i) (cg_revision (mm_ledger st)) now = Inl e"
    using derived_title [of E c] assms(3) by (metis linorder_not_less obj_sumE)
  then show ?thesis using Inr x assms(2,4) by (simp add: decide_loaded_def decided_status_def Let_def)
qed (use assms(4) in \<open>simp add: decide_loaded_def Let_def\<close>)

text \<open>A candidate whose task text is longer than a record title can never be promoted: every attempt is
  refused, whatever the surroundings do, and writes nothing.  Task texts may be twice as long as titles,
  so the contract admits such candidates.\<close>

theorem long_task_cannot_be_promoted:
  assumes "load_candidate_ledger E (mm_ledger_file st) = Inr l"
    and "bt_get (cg_candidates l) (mi_candidate_id i) = Some c" "MAX_RECORD_TITLE_BYTES < byte_len (ca_task c)"
    and "mi_decision i = Promote" "bt_get (cg_decisions l) (mi_request_id i) = None"
  shows "\<exists>e st'. decide_memory_candidate E S io ts i auth now st = (Inl e, st') \<and>
    mm_ledger_file st' = mm_ledger_file st \<and> mm_log_file st' = mm_log_file st \<and> mm_files st' = mm_files st"
proof (cases "\<exists>l expected log. decision_admitted E S io ts i st l expected log")
  case True
  then obtain expected log where adm: "decision_admitted E S io ts i st l expected log"
    using assms(1) by (auto simp: decision_admitted_def)
  have "\<exists>e. decide_loaded E io i auth now expected (st\<lparr>mm_ledger := l, mm_log := log\<rparr>) =
      (Inl e, st\<lparr>mm_ledger := l, mm_log := log\<rparr>)"
    by (rule unpromotable_loaded) (use assms in simp_all)
  then obtain e where "decide_memory_candidate E S io ts i auth now st = (Inl e, st\<lparr>mm_ledger := l, mm_log := log\<rparr>)"
    using decide_admitted [OF adm] by auto
  then show ?thesis by (intro exI conjI) (assumption, simp_all)
next
  case False
  then show ?thesis
    by (auto simp: decide_memory_candidate_def decision_admitted_def Let_def split: sum.splits)
qed

definition demo_long_task :: rstr where
  "demo_long_task = replicate 5000 97"

definition demo_long_candidate :: memory_candidate where
  "demo_long_candidate = demo_candidate\<lparr>ca_task := demo_long_task\<rparr>"

theorem long_task_cannot_be_promoted_witness:
  "validate_candidate demo_memory_env demo_long_candidate = Inr () \<and>
   (\<exists>e st'. decide_memory_candidate demo_memory_env demo_site demo_io (Inr []) demo_promotion_request Declared
      (demo_now 8) (demo_memory_state\<lparr>mm_ledger_file := LedgerFile (default_candidate_ledger\<lparr>cg_candidates :=
        [(ca_id demo_candidate, demo_long_candidate)]\<rparr>)\<rparr>) = (Inl e, st') \<and> mm_log_file st' = None)"
proof -
  let ?l = "default_candidate_ledger\<lparr>cg_candidates := [(ca_id demo_candidate, demo_long_candidate)]\<rparr>"
  have size: "byte_len demo_long_task = 5000" by (simp add: byte_len_def utf8_replicate_ascii demo_long_task_def)
  have task: "ca_task demo_long_candidate = demo_long_task" by (simp add: demo_long_candidate_def)
  have "text_ok demo_long_task MAX_TASK_BYTES"
    unfolding demo_long_task_def by (subst text_ok_replicate) (simp_all add: is_whitespace_def memory_limits)
  then have v: "validate_candidate demo_memory_env demo_long_candidate = Inr ()"
    using demo_candidate_valid unfolding demo_long_candidate_def validate_candidate_def
    by (simp split: if_splits)
  have "\<not> is_stale demo_long_candidate"
    using v by (simp add: validate_candidate_def is_stale_def)
  then have "load_candidate_ledger demo_memory_env (LedgerFile ?l) = Inr ?l"
    using v by (simp add: load_candidate_ledger_def migrate_superseded_derivations_def
        default_candidate_ledger_def validate_candidate_ledger_def memory_bail_unless_def demo_long_candidate_def
        MEMORY_CANDIDATES_LEDGER_SCHEMA_VERSION_def MEMORY_CANDIDATES_LEDGER_MIN_SUPPORTED_SCHEMA_VERSION_def)
  then have "load_candidate_ledger demo_memory_env (mm_ledger_file
      (demo_memory_state\<lparr>mm_ledger_file := LedgerFile ?l\<rparr>)) = Inr ?l" by simp
  note loads = this
  have request: "mi_decision demo_promotion_request = Promote" by (simp add: demo_promotion_request_def)
  have found: "bt_get (cg_candidates ?l) (mi_candidate_id demo_promotion_request) = Some demo_long_candidate"
    "bt_get (cg_decisions ?l) (mi_request_id demo_promotion_request) = None"
    by (simp_all add: bt_get_def demo_promotion_request_def default_candidate_ledger_def bt_empty_def)
  have limit: "(MAX_RECORD_TITLE_BYTES < 5000) = True" by (simp add: memory_limits)
  note loads
  then have "\<exists>e st'. decide_memory_candidate demo_memory_env demo_site demo_io (Inr []) demo_promotion_request Declared
      (demo_now 8) (demo_memory_state\<lparr>mm_ledger_file := LedgerFile ?l\<rparr>) = (Inl e, st') \<and>
      mm_ledger_file st' = mm_ledger_file (demo_memory_state\<lparr>mm_ledger_file := LedgerFile ?l\<rparr>) \<and>
      mm_log_file st' = mm_log_file (demo_memory_state\<lparr>mm_ledger_file := LedgerFile ?l\<rparr>) \<and>
      mm_files st' = mm_files (demo_memory_state\<lparr>mm_ledger_file := LedgerFile ?l\<rparr>)"
    by (rule long_task_cannot_be_promoted [where c = demo_long_candidate])
      (simp_all only: request found task size limit)
  then show ?thesis using v by (auto simp: demo_memory_state_def)
qed

text \<open>The actor of a promotion is checked too late: where a promotion would succeed, the same request
  from an actor whose id is longer than the contract allows is refused, but only after its record was
  appended to the log, which keeps the entry while the ledger stays as it was.\<close>

theorem oversized_actor_leaves_uncommitted_entry:
  assumes "decision_admitted E S io ts i st l expected log" "ml_tail log = []"
    and "decide_memory_candidate E S io ts i auth now st = (Inr out, st_ok)" "mi_decision i = Promote"
    and "\<not> mo_replayed out" "io_append io = Appended" "trim (ac_id a) \<noteq> []" "MAX_OPEN_ID_BYTES < byte_len (ac_id a)"
  shows "\<exists>e st' entry. decide_memory_candidate E S io ts (i\<lparr>mi_actor := a\<rparr>) auth now st = (Inl e, st') \<and>
    mm_ledger_file st' = mm_ledger_file st \<and>
    file_lines (mm_log_file st') = file_lines (mm_log_file st) @ [EntryLine entry]"
proof -
  let ?i = "i\<lparr>mi_actor := a\<rparr>" and ?st = "st\<lparr>mm_ledger := l, mm_log := log\<rparr>"
  have "decide_loaded E io i auth now expected ?st = (Inr out, st_ok)"
    using assms(3) decide_admitted [OF assms(1)] by simp
  then obtain stored r where c: "bt_get (cg_decisions l) (mi_request_id i) = None"
    "check_decision i expected l log = Inr (stored, None)"
    "derive_promoted_record E stored (mi_request_id i) (cg_revision l) now = Inr r"
    using fresh_promotion [of E io i auth now expected ?st] assms(2,4,5,6) by auto
  have "check_decision ?i expected l log = Inr (stored, None)"
    using c(2) assms(2) by (simp add: check_decision_def adopted_tail_def)
  then have loaded: "decide_loaded E io ?i auth now expected ?st =
      commit_decision E io ?i auth now stored (PromotedTo (me_id r) now a) now (Some r)
        (?st\<lparr>mm_log := log\<lparr>ml_tail := [sealed_entry E log r]\<rparr>,
          mm_log_file := Some (file_lines (mm_log_file st) @ [EntryLine (sealed_entry E log r)])\<rparr>)" (is "_ = commit_decision _ _ _ _ _ _ _ _ _ ?st'")
    using decide_promotes [of ?st ?i expected stored io E now r auth] c assms(2,4,6) by simp
  have "decision_admitted E S io ts ?i st l expected log"
    using assms(1,7) by (auto simp: decision_admitted_def validate_decision_input_def)
  note eq = decide_admitted [OF this, of auth now, unfolded loaded]
  have "validate_candidate E (stored\<lparr>ca_status := PromotedTo (me_id r) now a\<rparr>) \<noteq> Inr ()"
    using assms(8) by (simp add: validate_candidate_def validate_decided_by_def text_ok_def)
  then obtain e where "validate_candidate E (stored\<lparr>ca_status := PromotedTo (me_id r) now a\<rparr>) = Inl e"
    by (cases "validate_candidate E (stored\<lparr>ca_status := PromotedTo (me_id r) now a\<rparr>)") auto
  then have "\<exists>e. decide_memory_candidate E S io ts ?i auth now st = (Inl e, ?st')"
    unfolding eq by (simp add: commit_decision_def)
  moreover have "mm_ledger_file ?st' = mm_ledger_file st"
    "file_lines (mm_log_file ?st') = file_lines (mm_log_file st) @ [EntryLine (sealed_entry E log r)]"
    by (simp_all add: file_lines_def)
  ultimately show ?thesis by blast
qed

theorem oversized_actor_leaves_uncommitted_entry_witness:
  "\<exists>e st' entry. decide_memory_candidate demo_memory_env demo_site demo_io (Inr [demo_s6])
     (demo_promotion_request\<lparr>mi_actor := \<lparr>ac_kind = Operator, ac_id = replicate 300 97\<rparr>\<rparr>) Declared
     (demo_now 8) demo_memory_state = (Inl e, st') \<and>
   mm_ledger_file st' = LedgerFile demo_memory_ledger \<and> file_lines (mm_log_file st') = [EntryLine entry]"
proof -
  obtain out st_ok where out: "decide_memory_candidate demo_memory_env demo_site demo_io (Inr [demo_s6])
      demo_promotion_request Declared (demo_now 8) demo_memory_state = (Inr out, st_ok)"
    "\<not> mo_replayed out" using demo_commits by blast
  have adm: "decision_admitted demo_memory_env demo_site demo_io (Inr [demo_s6]) demo_promotion_request
      demo_memory_state demo_memory_ledger demo_expected empty_log"
    using demo_admitted [OF demo_actor_texts(1), of demo_io] demo_same_actor by (simp add: demo_io_def)
  let ?a = "\<lparr>ac_kind = Operator, ac_id = replicate 300 97\<rparr>"
  have "trim (ac_id ?a) \<noteq> []" unfolding trim_nonempty by (simp add: is_whitespace_def)
  moreover have "MAX_OPEN_ID_BYTES < byte_len (ac_id ?a)"
    by (simp add: byte_len_def utf8_replicate_ascii memory_limits)
  ultimately show ?thesis
    using oversized_actor_leaves_uncommitted_entry [OF adm _ out(1) _ out(2), of ?a]
    by (simp add: empty_log_def demo_promotion_request_def demo_io_def demo_memory_state_def file_lines_def)
qed

end
