(* ===== verification/Producer_Reservation.thy ===== *)
theory Producer_Reservation
  imports Memory_Ledger Actor_Provenance Governed_Wiring
begin

text \<open>
  The producer reservation journal (\<open>src/state/producer_reservation.rs\<close>).  A producer reserves its
  slot for a task before its side effect and closes the reservation once the receipt is durable; what
  is still open at startup was interrupted and is closed as needing a rerun.  Every operation builds a
  candidate journal, persists it and only then replaces the one in memory, so it is modelled as a
  function that either returns the journal that is now both live and on disk, or an error.  The clock,
  the UUID draw and the outcome of the write are inputs, and the JSON bytes that are hashed a
  parameter; a poisoned lock is not modelled.
\<close>

section \<open>Data\<close>

datatype producer_kind = VerificationProducer | SupervisorReviewProducer | PromotionProducer

fun producer_debug :: "producer_kind \<Rightarrow> rstr" where
  "producer_debug VerificationProducer = lit ''Verification''"
| "producer_debug SupervisorReviewProducer = lit ''SupervisorReview''"
| "producer_debug PromotionProducer = lit ''Promotion''"

datatype reservation_outcome = Released rstr | NeedsRerun rstr

datatype effect_outcome = EffectConfirmed | EffectFailedKnown | EffectUnknown

datatype journal_error =
    LedgerDigestMismatch
  | UnsupportedSchemaVersion nat
  | KeyIdMismatch rstr rstr
  | DuplicateOpenReservation rstr producer_kind
  | ReservationNotFound rstr
  | AlreadyReleased rstr
  | JournalMessage rstr
  | JournalContext rstr journal_error

text \<open>
  \<open>anyhow::Error\<close> as the daemon's producers see it: the typed errors of the components, context
  layers, and the marker a producer puts around an error raised after its side effect was dispatched.
\<close>

datatype daemon_error =
    DaemonMessage rstr
  | DaemonContext rstr daemon_error
  | DaemonTask memory_error
  | DaemonContract contract_error
  | DaemonProvenance provenance_error
  | DaemonJournal journal_error
  | DaemonConfigRefusal staged_config_refusal
  | EffectDispatched daemon_error

datatype side_effect_error = SideEffectFailed daemon_error | ReceiptLost daemon_error | SideEffectDispatched daemon_error

fun into_inner :: "side_effect_error \<Rightarrow> daemon_error" where
  "into_inner (SideEffectFailed e) = e"
| "into_inner (ReceiptLost e) = e"
| "into_inner (SideEffectDispatched e) = e"

text \<open>\<open>downcast\<close> looks through context layers.\<close>

fun downcast_dispatched :: "daemon_error \<Rightarrow> daemon_error option" where
  "downcast_dispatched (EffectDispatched e) = Some e"
| "downcast_dispatched (DaemonContext _ e) = downcast_dispatched e"
| "downcast_dispatched _ = None"

definition wrap_dispatched :: "daemon_error \<Rightarrow> daemon_error" where
  "wrap_dispatched e = (if downcast_dispatched e \<noteq> None then e else EffectDispatched e)"

definition classify_producer_error :: "daemon_error \<Rightarrow> side_effect_error" where
  "classify_producer_error e =
     (case downcast_dispatched e of Some inner \<Rightarrow> SideEffectDispatched inner | None \<Rightarrow> SideEffectFailed e)"

record reservation =
  rv_id :: rstr
  rv_task_id :: rstr
  rv_revision :: nat
  rv_request_id :: rstr
  rv_producer :: producer_kind
  rv_reserved_at :: rstr
  rv_released_at :: "rstr option"
  rv_outcome :: "reservation_outcome option"
  rv_effect :: "effect_outcome option"

definition is_open :: "reservation \<Rightarrow> bool" where
  "is_open r \<longleftrightarrow> rv_released_at r = None"

definition reservation_effect_outcome :: "reservation \<Rightarrow> effect_outcome option" where
  "reservation_effect_outcome r =
     (case rv_effect r of
        Some e \<Rightarrow> Some e
      | None \<Rightarrow> (case rv_outcome r of
            None \<Rightarrow> None
          | Some (NeedsRerun _) \<Rightarrow> Some EffectUnknown
          | Some (Released receipt) \<Rightarrow>
              if strip_prefix (lit ''failed: '') receipt \<noteq> None then Some EffectFailedKnown
              else Some EffectConfirmed))"

record journal =
  jr_schema_version :: nat
  jr_reservations :: "(rstr, reservation) btree"
  jr_digest :: rstr

definition PRODUCER_RESERVATIONS_SCHEMA_VERSION :: nat where "PRODUCER_RESERVATIONS_SCHEMA_VERSION = 2"
definition PRODUCER_RESERVATIONS_LEGACY_SCHEMA_VERSION :: nat where
  "PRODUCER_RESERVATIONS_LEGACY_SCHEMA_VERSION = 1"

text \<open>The JSON bytes of the reservation map and the two renderings of an error are parameters.\<close>

record journal_env = memory_env +
  reservation_bytes :: "(rstr, reservation) btree \<Rightarrow> nat list"
  error_text :: "daemon_error \<Rightarrow> rstr"
  error_chain :: "daemon_error \<Rightarrow> rstr"

record journal_io =
  jo_now :: rstr
  jo_uuid :: rstr
  jo_write :: "rstr + unit"

section \<open>Loading and persisting\<close>

definition compute_digest :: "journal_env \<Rightarrow> (rstr, reservation) btree \<Rightarrow> rstr" where
  "compute_digest E rs = lit ''sha256:'' @ sha256_hex E (reservation_bytes E rs)"

definition default_journal :: "journal_env \<Rightarrow> journal" where
  "default_journal E = \<lparr>jr_schema_version = PRODUCER_RESERVATIONS_LEGACY_SCHEMA_VERSION,
     jr_reservations = bt_empty, jr_digest = compute_digest E bt_empty\<rparr>"

definition required_journal_version :: "journal \<Rightarrow> nat" where
  "required_journal_version j =
     (if list_ex (\<lambda>r. rv_effect r \<noteq> None) (bt_values (jr_reservations j))
      then PRODUCER_RESERVATIONS_SCHEMA_VERSION else PRODUCER_RESERVATIONS_LEGACY_SCHEMA_VERSION)"

definition validate_journal :: "journal_env \<Rightarrow> journal \<Rightarrow> journal_error + unit" where
  "validate_journal E j = checks
     ([ensure (jr_schema_version j = PRODUCER_RESERVATIONS_LEGACY_SCHEMA_VERSION \<or>
         jr_schema_version j = PRODUCER_RESERVATIONS_SCHEMA_VERSION)
         (UnsupportedSchemaVersion (jr_schema_version j)),
       ensure (required_journal_version j \<le> jr_schema_version j) (JournalMessage (lit
         ''producer reservation journal declares schema version '' @ dec (jr_schema_version j) @
         lit '' but records effect outcomes, which require version '' @
         dec PRODUCER_RESERVATIONS_SCHEMA_VERSION))] @
      map (\<lambda>(key, r). ensure (key = rv_id r) (KeyIdMismatch key (rv_id r))) (jr_reservations j) @
      [ensure (compute_digest E (jr_reservations j) = jr_digest j) LedgerDigestMismatch])"

definition load_journal :: "journal_env \<Rightarrow> journal \<Rightarrow> journal_error + journal" where
  "load_journal E j = and_then (validate_journal E j) (\<lambda>_. Inr j)"

definition persist_journal :: "journal_env \<Rightarrow> journal_io \<Rightarrow> journal \<Rightarrow> journal_error + journal" where
  "persist_journal E io j =
     (let stamped = j\<lparr>jr_schema_version := max (jr_schema_version j) (required_journal_version j),
            jr_digest := compute_digest E (jr_reservations j)\<rparr>
      in and_then (map_err (\<lambda>m. JournalContext (lit ''Failed to persist producer reservation journal'')
           (JournalMessage m)) (jo_write io)) (\<lambda>_. Inr stamped))"

section \<open>Operations\<close>

definition new_reservation_id :: "journal_io \<Rightarrow> rstr" where
  "new_reservation_id io = lit ''producer-reservation-'' @ jo_uuid io"

definition same_slot :: "rstr \<Rightarrow> producer_kind \<Rightarrow> reservation \<Rightarrow> bool" where
  "same_slot task_id producer r \<longleftrightarrow> rv_task_id r = task_id \<and> rv_producer r = producer \<and> is_open r"

fun stale_reservations ::
    "rstr \<Rightarrow> nat \<Rightarrow> producer_kind \<Rightarrow> reservation list \<Rightarrow> journal_error + rstr list" where
  "stale_reservations task_id rev_no producer [] = Inr []"
| "stale_reservations task_id rev_no producer (r # rs) =
     (if \<not> same_slot task_id producer r then stale_reservations task_id rev_no producer rs
      else if rv_revision r < rev_no
        then and_then (stale_reservations task_id rev_no producer rs) (\<lambda>ids. Inr (rv_id r # ids))
      else Inl (DuplicateOpenReservation task_id producer))"

definition closed_as :: "rstr \<Rightarrow> reservation_outcome \<Rightarrow> effect_outcome \<Rightarrow> reservation \<Rightarrow> reservation" where
  "closed_as now res effect r =
     r\<lparr>rv_released_at := Some now, rv_outcome := Some res, rv_effect := Some effect\<rparr>"

definition superseded_reason :: "nat \<Rightarrow> reservation \<Rightarrow> rstr" where
  "superseded_reason rev_no r =
     lit ''superseded by a new reservation at revision '' @ dec rev_no @
     lit '' (this one was reserved at revision '' @ dec (rv_revision r) @ lit '')''"

definition close_stale :: "rstr \<Rightarrow> nat \<Rightarrow> rstr \<Rightarrow> (rstr, reservation) btree \<Rightarrow> (rstr, reservation) btree" where
  "close_stale now rev_no stale_id rs =
     (case bt_get rs stale_id of
        None \<Rightarrow> rs
      | Some r \<Rightarrow> bt_insert stale_id (closed_as now (NeedsRerun (superseded_reason rev_no r)) EffectUnknown r) rs)"

definition new_reservation :: "journal_io \<Rightarrow> rstr \<Rightarrow> nat \<Rightarrow> rstr \<Rightarrow> producer_kind \<Rightarrow> reservation" where
  "new_reservation io task_id rev_no request_id producer =
     \<lparr>rv_id = new_reservation_id io, rv_task_id = task_id, rv_revision = rev_no, rv_request_id = request_id,
      rv_producer = producer, rv_reserved_at = jo_now io, rv_released_at = None, rv_outcome = None,
      rv_effect = None\<rparr>"

definition reserve ::
    "journal_env \<Rightarrow> journal_io \<Rightarrow> rstr \<Rightarrow> nat \<Rightarrow> rstr \<Rightarrow> producer_kind \<Rightarrow> journal \<Rightarrow>
     journal_error + journal \<times> rstr" where
  "reserve E io task_id rev_no request_id producer j =
     and_then (stale_reservations task_id rev_no producer (bt_values (jr_reservations j))) (\<lambda>stale.
     let rs = fold (close_stale (jo_now io) rev_no) stale (jr_reservations j);
         rid = new_reservation_id io
     in and_then (persist_journal E io (j\<lparr>jr_reservations :=
          bt_insert rid (new_reservation io task_id rev_no request_id producer) rs\<rparr>)) (\<lambda>j'. Inr (j', rid)))"

definition close_reservation ::
    "journal_env \<Rightarrow> journal_io \<Rightarrow> rstr \<Rightarrow> reservation_outcome \<Rightarrow> effect_outcome \<Rightarrow> journal \<Rightarrow> journal_error + journal" where
  "close_reservation E io rid res effect j =
     and_then (ok_or (bt_get (jr_reservations j) rid) (ReservationNotFound rid)) (\<lambda>r.
     and_then (ensure (is_open r) (AlreadyReleased rid)) (\<lambda>_.
     persist_journal E io (j\<lparr>jr_reservations :=
       bt_insert rid (closed_as (jo_now io) res effect r) (jr_reservations j)\<rparr>)))"

definition close_released ::
    "journal_env \<Rightarrow> journal_io \<Rightarrow> rstr \<Rightarrow> rstr \<Rightarrow> effect_outcome \<Rightarrow> journal \<Rightarrow> journal_error + journal" where
  "close_released E io rid receipt_ref effect = close_reservation E io rid (Released receipt_ref) effect"

definition release :: "journal_env \<Rightarrow> journal_io \<Rightarrow> rstr \<Rightarrow> rstr \<Rightarrow> journal \<Rightarrow> journal_error + journal" where
  "release E io rid receipt_ref = close_released E io rid receipt_ref EffectConfirmed"

definition release_failed ::
    "journal_env \<Rightarrow> journal_io \<Rightarrow> rstr \<Rightarrow> daemon_error \<Rightarrow> journal \<Rightarrow> journal_error + journal" where
  "release_failed E io rid e = close_released E io rid (lit ''failed: '' @ error_text E e) EffectFailedKnown"

definition close_reservation_needs_rerun ::
    "journal_env \<Rightarrow> journal_io \<Rightarrow> rstr \<Rightarrow> rstr \<Rightarrow> journal \<Rightarrow> journal_error + journal" where
  "close_reservation_needs_rerun E io rid reason = close_reservation E io rid (NeedsRerun reason) EffectUnknown"

definition open_reservations :: "journal \<Rightarrow> reservation list" where
  "open_reservations j = filter is_open (bt_values (jr_reservations j))"

definition request_reservations :: "rstr \<Rightarrow> producer_kind \<Rightarrow> rstr \<Rightarrow> journal \<Rightarrow> reservation list" where
  "request_reservations task_id producer request_id j =
     filter (\<lambda>r. rv_task_id r = task_id \<and> rv_producer r = producer \<and> rv_request_id r = request_id)
       (bt_values (jr_reservations j))"

text \<open>The key \<open>(DateTime::parse_from_rfc3339(..).ok(), reserved_at)\<close>; \<open>max_by_key\<close> keeps the last of
  equal maxima.\<close>

definition reserved_before :: "journal_env \<Rightarrow> reservation \<Rightarrow> reservation \<Rightarrow> bool" where
  "reserved_before E a b =
     (case (parse_rfc3339 E (rv_reserved_at a), parse_rfc3339 E (rv_reserved_at b)) of
        (None, Some _) \<Rightarrow> True
      | (Some _, None) \<Rightarrow> False
      | (Some x, Some y) \<Rightarrow> x < y \<or> x = y \<and> rv_reserved_at a \<le> rv_reserved_at b
      | (None, None) \<Rightarrow> rv_reserved_at a \<le> rv_reserved_at b)"

definition latest_reservation ::
    "journal_env \<Rightarrow> rstr \<Rightarrow> producer_kind \<Rightarrow> rstr \<Rightarrow> journal \<Rightarrow> reservation option" where
  "latest_reservation E task_id producer request_id j =
     fold (\<lambda>r best. case best of None \<Rightarrow> Some r
         | Some b \<Rightarrow> if reserved_before E b r then Some r else Some b)
       (request_reservations task_id producer request_id j) None"

fun rerun_reason :: "reservation \<Rightarrow> rstr option" where
  "rerun_reason r = (case rv_outcome r of Some (NeedsRerun reason) \<Rightarrow> Some reason | _ \<Rightarrow> None)"

fun find_map :: "('a \<Rightarrow> 'b option) \<Rightarrow> 'a list \<Rightarrow> 'b option" where
  "find_map f [] = None"
| "find_map f (x # xs) = (case f x of Some y \<Rightarrow> Some y | None \<Rightarrow> find_map f xs)"

definition pending_rerun_reason :: "rstr \<Rightarrow> producer_kind \<Rightarrow> rstr \<Rightarrow> journal \<Rightarrow> rstr option" where
  "pending_rerun_reason task_id producer request_id j =
     find_map rerun_reason (rev (sort_key rv_reserved_at (request_reservations task_id producer request_id j)))"

section \<open>Reconciliation at startup\<close>

text \<open>The durable state behind a producer: the governed-task ledger and the memory state it hands to.\<close>

record durable =
  du_ledger :: ledger
  du_memory :: memory_state

record reconcile_io =
  ri_journal :: journal_io
  ri_ambient :: ambient
  ri_memory :: memory_io

definition interruption_note :: "site \<Rightarrow> run \<Rightarrow> reservation \<Rightarrow> rstr \<Rightarrow> rstr \<Rightarrow> mutation_request" where
  "interruption_note S t r reason request_id =
     \<lparr>mr_request_id = request_id, mr_project_id = governed_project_id S, mr_task_id = rv_task_id r,
      mr_expected_revision = revision t,
      mr_mutation = NoteProducerReservationInterrupted
        \<lparr>ac_kind = System, ac_id = lit ''producer-reservation-journal''\<rparr>
        (lit ''producer reservation '' @ rv_id r @ lit '' ('' @ producer_debug (rv_producer r) @
         lit '') for request '' @ rv_request_id r @ lit '' needs rerun (effect outcome unknown): '' @ reason),
      mr_fencing_generation = None\<rparr>"

definition note_producer_reservation_interrupted ::
    "journal_env \<Rightarrow> site \<Rightarrow> ambient \<Rightarrow> memory_io \<Rightarrow> reservation \<Rightarrow> rstr \<Rightarrow> durable \<Rightarrow>
     (daemon_error + unit) \<times> durable" where
  "note_producer_reservation_interrupted E S A mio r reason d =
     (case and_then (map_err (DaemonTask \<circ> TaskLedger)
             (get_governed_task S (governed_project_id S) (rv_task_id r) (du_ledger d))) (\<lambda>found.
           and_then (ok_or found (DaemonMessage (lit ''governed task `'' @ rv_task_id r @
             lit ''` not found for interrupted producer reservation `'' @ rv_id r @ lit ''`''))) (\<lambda>t.
           and_then (map_err (\<lambda>e. DaemonContext (lit ''Failed to build deterministic reconcile request id'')
             (DaemonContract e)) (governed_request_id (lit ''producer-reservation-reconcile-'' @ rv_id r)))
             (\<lambda>request_id. Inr (t, request_id)))) of
        Inl e \<Rightarrow> (Inl e, d)
      | Inr (t, request_id) \<Rightarrow>
          (case mutate_and_hand_over (memory_env.truncate E) S A mio (interruption_note S t r reason request_id)
                  Declared (du_ledger d) (du_memory d) of
             (res, l, m) \<Rightarrow> (map_err DaemonTask (and_then res (\<lambda>_. Inr ())), \<lparr>du_ledger = l, du_memory = m\<rparr>)))"

definition interrupted_reason :: rstr where
  "interrupted_reason = lit ''interrupted before receipt''"

fun reconcile_each ::
    "journal_env \<Rightarrow> site \<Rightarrow> (rstr \<Rightarrow> reconcile_io) \<Rightarrow> reservation list \<Rightarrow> journal \<Rightarrow> durable \<Rightarrow>
     (journal_error + unit) \<times> journal \<times> durable" where
  "reconcile_each E S ios [] j d = (Inr (), j, d)"
| "reconcile_each E S ios (r # rs) j d =
     (let io = ios (rv_id r) in
      case close_reservation_needs_rerun E (ri_journal io) (rv_id r) interrupted_reason j of
        Inl e \<Rightarrow> (Inl e, j, d)
      | Inr j' \<Rightarrow> reconcile_each E S ios rs j'
          (snd (note_producer_reservation_interrupted E S (ri_ambient io) (ri_memory io) r interrupted_reason d)))"

definition reconcile_producer_reservations ::
    "journal_env \<Rightarrow> site \<Rightarrow> (rstr \<Rightarrow> reconcile_io) \<Rightarrow> journal \<Rightarrow> durable \<Rightarrow>
     (journal_error + unit) \<times> journal \<times> durable" where
  "reconcile_producer_reservations E S ios j d = reconcile_each E S ios (open_reservations j) j d"

section \<open>Running a side effect under a reservation\<close>

definition keep_on_error :: "journal_error + journal \<Rightarrow> journal \<Rightarrow> journal" where
  "keep_on_error r j = (case r of Inl _ \<Rightarrow> j | Inr j' \<Rightarrow> j')"

definition with_reservation_effect ::
    "journal_env \<Rightarrow> journal_io \<Rightarrow> journal_io \<Rightarrow> rstr \<Rightarrow> nat \<Rightarrow> rstr \<Rightarrow> producer_kind \<Rightarrow>
     ('s \<Rightarrow> (side_effect_error + 'v \<times> rstr) \<times> 's) \<Rightarrow> journal \<Rightarrow> 's \<Rightarrow> (daemon_error + 'v) \<times> journal \<times> 's" where
  "with_reservation_effect E io io' task_id rev_no request_id producer side_effect j s =
     (case reserve E io task_id rev_no request_id producer j of
        Inl e \<Rightarrow> (Inl (DaemonJournal e), j, s)
      | Inr (j', rid) \<Rightarrow>
          (case side_effect s of
             (Inr (v, receipt_ref), s') \<Rightarrow> (Inr v, keep_on_error (release E io' rid receipt_ref j') j', s')
           | (Inl (SideEffectDispatched e), s') \<Rightarrow>
               (Inl e, keep_on_error (close_reservation_needs_rerun E io' rid
                  (lit ''side effect dispatched but its outcome was not observed: '' @ error_chain E e) j') j', s')
           | (Inl (ReceiptLost e), s') \<Rightarrow>
               (Inl e, keep_on_error (close_reservation_needs_rerun E io' rid
                  (lit ''receipt not recorded after the side effect ran: '' @ error_chain E e) j') j', s')
           | (Inl (SideEffectFailed e), s') \<Rightarrow>
               (Inl e, keep_on_error (release_failed E io' rid e j') j', s')))"

definition with_reservation ::
    "journal_env \<Rightarrow> journal_io \<Rightarrow> journal_io \<Rightarrow> rstr \<Rightarrow> nat \<Rightarrow> rstr \<Rightarrow> producer_kind \<Rightarrow>
     ('s \<Rightarrow> (daemon_error + 'v \<times> rstr) \<times> 's) \<Rightarrow> journal \<Rightarrow> 's \<Rightarrow> (daemon_error + 'v) \<times> journal \<times> 's" where
  "with_reservation E io io' task_id rev_no request_id producer side_effect j s =
     with_reservation_effect E io io' task_id rev_no request_id producer
       (\<lambda>s. case side_effect s of (res, s') \<Rightarrow> (map_err classify_producer_error res, s')) j s"

section \<open>Sequences of journal operations\<close>

datatype journal_request =
    Reserve rstr nat rstr producer_kind
  | Release rstr rstr
  | ReleaseFailed rstr daemon_error
  | CloseNeedsRerun rstr rstr

record journal_op =
  jq_request :: journal_request
  jq_io :: journal_io

definition journal_step :: "journal_env \<Rightarrow> journal \<Rightarrow> journal_op \<Rightarrow> journal_error + journal" where
  "journal_step E j op =
     (case jq_request op of
        Reserve task_id rev_no request_id producer \<Rightarrow>
          and_then (reserve E (jq_io op) task_id rev_no request_id producer j) (\<lambda>(j', _). Inr j')
      | Release rid receipt_ref \<Rightarrow> release E (jq_io op) rid receipt_ref j
      | ReleaseFailed rid e \<Rightarrow> release_failed E (jq_io op) rid e j
      | CloseNeedsRerun rid reason \<Rightarrow> close_reservation_needs_rerun E (jq_io op) rid reason j)"

end
