(* ===== verification/Utf8_Decode.thy ===== *)
theory Utf8_Decode
  imports Rust_Text
begin

text \<open>
  \<open>String::from_utf8\<close>: the strict decoder of the standard library, the inverse of the encoder of
  \<open>Rust_Text\<close> on exactly the well-formed byte sequences (no overlong form, no surrogate, nothing above
  U+10FFFF).
\<close>

text \<open>\<open>String::from_utf8\<close>.\<close>

definition is_cont :: "nat \<Rightarrow> bool" where
  "is_cont b \<longleftrightarrow> 128 \<le> b \<and> b \<le> 191"

definition second_ok :: "nat \<Rightarrow> nat \<Rightarrow> bool" where
  "second_ok b c \<longleftrightarrow>
     (if b = 224 then 160 \<le> c \<and> c \<le> 191 else if b = 237 then 128 \<le> c \<and> c \<le> 159
      else if b = 240 then 144 \<le> c \<and> c \<le> 191 else if b = 244 then 128 \<le> c \<and> c \<le> 143 else is_cont c)"

fun from_utf8 :: "nat list \<Rightarrow> rstr option" where
  "from_utf8 [] = Some []"
| "from_utf8 (b # bs) =
     (if b < 128 then map_option ((#) b) (from_utf8 bs)
      else if 194 \<le> b \<and> b \<le> 223 then
        (case bs of c # rest \<Rightarrow> if is_cont c
            then map_option ((#) ((b - 192) * 64 + (c - 128))) (from_utf8 rest) else None
         | _ \<Rightarrow> None)
      else if 224 \<le> b \<and> b \<le> 239 then
        (case bs of c # d # rest \<Rightarrow> if second_ok b c \<and> is_cont d
            then map_option ((#) ((b - 224) * 4096 + (c - 128) * 64 + (d - 128))) (from_utf8 rest) else None
         | _ \<Rightarrow> None)
      else if 240 \<le> b \<and> b \<le> 244 then
        (case bs of c # d # e # rest \<Rightarrow> if second_ok b c \<and> is_cont d \<and> is_cont e
            then map_option ((#) ((b - 240) * 262144 + (c - 128) * 4096 + (d - 128) * 64 + (e - 128)))
              (from_utf8 rest) else None
         | _ \<Rightarrow> None)
      else None)"

text \<open>A Unicode scalar value.\<close>

definition scalar_value :: "nat \<Rightarrow> bool" where
  "scalar_value c \<longleftrightarrow> c < 55296 \<or> 57344 \<le> c \<and> c < 1114112"

lemma sextets:
  fixes c :: nat
  shows "c mod 64 \<le> 63" "c div 64 mod 64 \<le> 63" "c div 4096 mod 64 \<le> 63"
    "c div 64 * 64 + c mod 64 = c" "c div 4096 * 4096 + c div 64 mod 64 * 64 + c mod 64 = c"
    "c div 262144 * 262144 + c div 4096 mod 64 * 4096 + c div 64 mod 64 * 64 + c mod 64 = c"
proof -
  have digit: "n mod 64 \<le> 63" for n :: nat using mod_less_divisor [of 64 n] by linarith
  have nest: "c div 4096 = c div 64 div 64" "c div 262144 = c div 4096 div 64" by (simp_all add: div_mult2_eq [symmetric])
  note parts = div_mult_mod_eq [of c 64] div_mult_mod_eq [of "c div 64" 64] div_mult_mod_eq [of "c div 4096" 64]
  show "c div 64 * 64 + c mod 64 = c" by (rule parts(1))
  show "c div 4096 * 4096 + c div 64 mod 64 * 64 + c mod 64 = c" using parts(1,2) unfolding nest(1) by linarith
  show "c div 262144 * 262144 + c div 4096 mod 64 * 4096 + c div 64 mod 64 * 64 + c mod 64 = c"
    using parts unfolding nest by linarith
qed (use mod_less_divisor [of 64] in \<open>simp_all add: less_Suc_eq_le [symmetric]\<close>)

lemma decode_two:
  assumes "128 \<le> c" "c < 2048"
  shows "from_utf8 (utf8_char c @ bs) = map_option ((#) c) (from_utf8 bs)"
proof -
  obtain a b where ab: "c div 64 = a" "c mod 64 = b" by blast
  then have "2 \<le> a" "a \<le> 31" "b \<le> 63" "c = a * 64 + b" using assms sextets(1,4) [of c] by linarith+
  then show ?thesis using assms by (simp add: utf8_char_def is_cont_def ab)
qed

lemma decode_three:
  assumes "2048 \<le> c" "c < 65536" "scalar_value c"
  shows "from_utf8 (utf8_char c @ bs) = map_option ((#) c) (from_utf8 bs)"
proof -
  have top: "c div 4096 \<le> 15" using assms(2) sextets(5) [of c] by linarith
  have "second_ok (224 + c div 4096) (128 + c div 64 mod 64)"
    using assms sextets(1,2,5) [of c]
    by (auto simp: second_ok_def is_cont_def scalar_value_def)
  then show ?thesis
    using assms(1,2) top sextets(1,2,5) [of c] by (simp add: utf8_char_def is_cont_def)
qed

lemma decode_four:
  assumes "65536 \<le> c" "scalar_value c"
  shows "from_utf8 (utf8_char c @ bs) = map_option ((#) c) (from_utf8 bs)"
proof -
  have top: "c div 262144 \<le> 4" using assms(2) sextets(6) [of c] unfolding scalar_value_def by linarith
  have "second_ok (240 + c div 262144) (128 + c div 4096 mod 64)"
    using assms sextets(1,2,3,6) [of c]
    by (auto simp: second_ok_def is_cont_def scalar_value_def)
  then show ?thesis
    using assms(1) top sextets(1,2,3,6) [of c] by (simp add: utf8_char_def is_cont_def)
qed

lemma decode_char:
  assumes "scalar_value c"
  shows "from_utf8 (utf8_char c @ bs) = map_option ((#) c) (from_utf8 bs)"
proof -
  consider "c < 128" | "128 \<le> c" "c < 2048" | "2048 \<le> c" "c < 65536" | "65536 \<le> c" by linarith
  then show ?thesis
  proof cases
    case 1
    then show ?thesis by (simp add: utf8_char_def)
  next
    case 2
    then show ?thesis by (rule decode_two)
  next
    case 3
    then show ?thesis using assms by (rule decode_three)
  next
    case 4
    then show ?thesis using assms by (rule decode_four)
  qed
qed

lemma decode_encode: "list_all scalar_value s \<Longrightarrow> from_utf8 (utf8 s) = Some s"
  by (induction s) (simp_all add: utf8_def decode_char)

end
