(* ===== verification/Governed_Producers.thy ===== *)
theory Governed_Producers
  imports Producer_Reservation Utf8_Decode
begin

text \<open>
  The daemon-owned producers (\<open>src/governed_producers.rs\<close>): what the daemon concludes from Git,
  Cargo and the Supervisor model, and which evidence it builds from it.  The processes, the file
  system and the model are outside: each probe's outcome (an exit status with its output, a file that
  exists, a parsed reply) is an input, and everything the code decides from it is written out.
  Timeouts are the \<open>go_timed_out\<close> flag of an outcome.  Creating and removing worktrees, capturing
  streams and walking the configuration include chain (\<open>Config_Chain\<close>) are outcomes here; the text of a wrapped decoding
  or directory error is left empty.
\<close>

section \<open>Decoding Git output\<close>

record git_output =
  go_timed_out :: bool
  go_status :: "int option"
  go_stdout :: "nat list"
  go_truncated :: bool

datatype git_probe_failure = TimedOut rstr | Killed rstr

fun show_probe_failure :: "git_probe_failure \<Rightarrow> rstr" where
  "show_probe_failure (TimedOut command) = lit ''`'' @ command @
     lit ''` timed out in a governed producer; the observation is unknown, not a finding''"
| "show_probe_failure (Killed command) = lit ''`'' @ command @ lit
     ''` was killed before reporting an exit status in a governed producer; the observation is unknown, not a finding''"

definition git_completed_successfully :: "git_output \<Rightarrow> rstr \<Rightarrow> git_probe_failure + bool" where
  "git_completed_successfully out command =
     (if go_timed_out out then Inl (TimedOut command)
      else case go_status out of Some status \<Rightarrow> Inr (status = 0) | None \<Rightarrow> Inl (Killed command))"

definition probe :: "git_output \<Rightarrow> rstr \<Rightarrow> daemon_error + bool" where
  "probe out command =
     map_err (\<lambda>f. DaemonMessage (show_probe_failure f)) (git_completed_successfully out command)"

definition successful_git_bytes :: "daemon_error + git_output \<Rightarrow> rstr \<Rightarrow> rstr \<Rightarrow> daemon_error + nat list" where
  "successful_git_bytes run_result command label =
     and_then run_result (\<lambda>out.
     and_then (map_err (DaemonContext (label @ lit '' could not be observed'')) (probe out command)) (\<lambda>ok.
     and_then (ensure ok (DaemonMessage (label @ lit '' failed for governed workspace''))) (\<lambda>_.
     and_then (ensure (\<not> go_truncated out)
       (DaemonMessage (label @ lit '' exceeded the bounded Git output limit''))) (\<lambda>_.
     Inr (go_stdout out)))))"

definition successful_git_text :: "daemon_error + git_output \<Rightarrow> rstr \<Rightarrow> rstr \<Rightarrow> daemon_error + rstr" where
  "successful_git_text run_result command label =
     and_then (successful_git_bytes run_result command label) (\<lambda>bytes.
     and_then (ok_or (from_utf8 bytes) (DaemonContext (label @ lit '' returned non-UTF-8 output'')
       (DaemonMessage []))) (\<lambda>text. Inr (trim text)))"

section \<open>Cleanliness\<close>

definition path_bytes :: "string \<Rightarrow> nat list" where
  "path_bytes s = lit s"

definition starts_with :: "nat list \<Rightarrow> nat list \<Rightarrow> bool" where
  "starts_with p path \<longleftrightarrow> strip_prefix p path \<noteq> None"

definition is_impulse_memory_evidence_artifact :: "nat list \<Rightarrow> bool" where
  "is_impulse_memory_evidence_artifact path \<longleftrightarrow>
     path = path_bytes ''.impulse/MEMORY.jsonl'' \<or> path = path_bytes ''.impulse/GENOME_PROJECTION.md'' \<or>
     starts_with (path_bytes ''.impulse/GENOME_PROJECTION.tmp.'') path"

definition runtime_artifacts :: "nat list list" where
  "runtime_artifacts = map path_bytes
     [''.impulse/GOVERNED_TASKS.json'', ''.impulse/DESKTOP_GOVERNED_LIFECYCLE_OUTBOX.json'',
      ''.impulse/DESKTOP_GOVERNED_LIFECYCLE_OUTBOX.lock'', ''.impulse/sockets/impulse.pid'',
      ''.impulse/worktrees'', ''.impulse/worktrees/'', ''.impulse/PRODUCER_RESERVATIONS.json'',
      ''.impulse/MEMORY_CANDIDATES.json'', ''.impulse/MEMORY_INDEX.json'', ''.impulse/blackboard.db'']"

definition runtime_artifact_prefixes :: "nat list list" where
  "runtime_artifact_prefixes = map path_bytes
     [''.impulse/GOVERNED_TASKS.tmp.'', ''.impulse/blackboard.db-'',
      ''.impulse/DESKTOP_GOVERNED_LIFECYCLE_OUTBOX.tmp-'', ''.impulse/PRODUCER_RESERVATIONS.tmp.'',
      ''.impulse/MEMORY_CANDIDATES.tmp.'', ''.impulse/MEMORY_INDEX.tmp.'', ''.impulse/worktrees/'']"

definition is_untracked_impulse_runtime_artifact :: "nat list \<Rightarrow> bool" where
  "is_untracked_impulse_runtime_artifact path \<longleftrightarrow>
     path \<in> set runtime_artifacts \<or> list_ex (\<lambda>p. starts_with p path) runtime_artifact_prefixes \<or>
     is_impulse_memory_evidence_artifact path"

definition EXEMPT_TRACKED_STATUS_CODES :: "nat list list" where
  "EXEMPT_TRACKED_STATUS_CODES = map path_bytes ['' M'', ''M '', ''MM'', ''A '', ''AM'']"

definition tracked_status_and_path :: "nat list \<Rightarrow> (nat list \<times> nat list) option" where
  "tracked_status_and_path status_entry =
     (if length status_entry < 4 \<or> status_entry ! 2 \<noteq> 32 then None
      else if take 2 status_entry \<notin> set EXEMPT_TRACKED_STATUS_CODES then None
      else Some (take 2 status_entry, drop 3 status_entry))"

fun split_zero :: "nat list \<Rightarrow> nat list \<Rightarrow> nat list list" where
  "split_zero acc [] = [rev acc]"
| "split_zero acc (b # bs) = (if b = 0 then rev acc # split_zero [] bs else split_zero (b # acc) bs)"

definition record_is_subject_change :: "nat list \<Rightarrow> bool" where
  "record_is_subject_change rec =
     (if rec = [] then False
      else case strip_prefix (path_bytes ''?? '') rec of
        Some path \<Rightarrow> \<not> is_untracked_impulse_runtime_artifact path
      | None \<Rightarrow> (case tracked_status_and_path rec of
            Some (_, path) \<Rightarrow> \<not> is_impulse_memory_evidence_artifact path
          | None \<Rightarrow> True))"

definition status_contains_subject_change :: "nat list \<Rightarrow> bool" where
  "status_contains_subject_change status = list_ex record_is_subject_change (split_zero [] status)"

section \<open>Observing a clean subject\<close>

definition validate_oid :: "rstr \<Rightarrow> daemon_error + unit" where
  "validate_oid oid = ensure (commit_oid oid)
     (DaemonMessage (lit ''governed Git subject is not a lowercase commit OID''))"

text \<open>What one observation of a working tree finds: the canonical paths and the Git runs.\<close>

record git_view =
  gv_workspace :: "daemon_error + rstr"
  gv_toplevel :: "daemon_error + git_output"
  gv_canonical_root :: "rstr \<Rightarrow> daemon_error + rstr"
  gv_status :: "daemon_error + git_output"
  gv_head :: "daemon_error + git_output"
  gv_ancestry :: "rstr \<Rightarrow> rstr \<Rightarrow> daemon_error + git_output"

definition check_ancestry :: "git_view \<Rightarrow> rstr option \<Rightarrow> rstr \<Rightarrow> daemon_error + unit" where
  "check_ancestry W initial oid =
     (case initial of
        None \<Rightarrow> Inr ()
      | Some init \<Rightarrow>
          and_then (validate_oid init) (\<lambda>_.
          and_then (gv_ancestry W init oid) (\<lambda>out.
          and_then (probe out (lit ''git merge-base --is-ancestor'')) (\<lambda>ok.
          ensure ok (DaemonMessage (lit
            ''governed Git subject is not descended from the registered initial OID''))))))"

definition observe_clean_git_subject :: "git_view \<Rightarrow> rstr option \<Rightarrow> daemon_error + rstr" where
  "observe_clean_git_subject W initial =
     and_then (gv_workspace W) (\<lambda>workspace.
     and_then (successful_git_text (gv_toplevel W) (lit ''git rev-parse --show-toplevel'')
       (lit ''git root discovery'')) (\<lambda>git_root.
     and_then (gv_canonical_root W git_root) (\<lambda>root.
     and_then (ensure (path_eq root workspace) (DaemonMessage (lit
       ''governed workspace must equal the Git worktree root (workspace='' @ workspace @
       lit '', git_root='' @ root @ lit '')''))) (\<lambda>_.
     and_then (successful_git_bytes (gv_status W)
       (lit ''git status --porcelain=v1 -z --untracked-files=all'') (lit ''git cleanliness check'')) (\<lambda>status.
     and_then (ensure (\<not> status_contains_subject_change status) (DaemonMessage (lit
       ''governed workspace is dirty; commit or remove every change before continuing''))) (\<lambda>_.
     and_then (successful_git_text (gv_head W) (lit ''git rev-parse --verify HEAD^{commit}'')
       (lit ''git subject resolution'')) (\<lambda>oid.
     and_then (validate_oid oid) (\<lambda>_.
     and_then (check_ancestry W initial oid) (\<lambda>_. Inr oid)))))))))"

section \<open>The configuration pin\<close>

record config_view =
  cv_common_dir :: "daemon_error + rstr"
  cv_staged_git_dir :: "daemon_error + rstr"
  cv_exists :: "rstr \<Rightarrow> bool"
  cv_digest :: "daemon_error + shared_config_digest"

definition submodule_candidates :: "config_view \<Rightarrow> rstr \<Rightarrow> rstr option \<Rightarrow> daemon_error + rstr list" where
  "submodule_candidates W workspace staged_root =
     and_then (cv_common_dir W) (\<lambda>common.
     let base = [path_join workspace (lit ''.gitmodules''), path_join common (lit ''modules'')] in
     case staged_root of
       None \<Rightarrow> Inr base
     | Some root \<Rightarrow> and_then (cv_staged_git_dir W) (\<lambda>git_dir.
         Inr (base @ [path_join root (lit ''.gitmodules''), path_join git_dir (lit ''modules'')])))"

definition ensure_no_submodule_configuration ::
    "config_view \<Rightarrow> rstr \<Rightarrow> rstr option \<Rightarrow> daemon_error + unit" where
  "ensure_no_submodule_configuration W workspace staged_root =
     and_then (submodule_candidates W workspace staged_root) (\<lambda>candidates.
     case List.find (cv_exists W) candidates of
       Some path \<Rightarrow> Inl (DaemonConfigRefusal (UnsupportedSubmodules path))
     | None \<Rightarrow> Inr ())"

definition ensure_staged_config_pin_holds :: "config_view \<Rightarrow> run \<Rightarrow> daemon_error + unit" where
  "ensure_staged_config_pin_holds W t =
     (case active_staged_worktree t of
        None \<Rightarrow> Inr ()
      | Some staged \<Rightarrow>
          and_then (ensure_no_submodule_configuration W (workspace_root t) (Some (st_root staged))) (\<lambda>_.
          and_then (ok_or (pin_comparable (st_pin staged)) (DaemonConfigRefusal Unpinned)) (\<lambda>pinned.
          and_then (cv_digest W) (\<lambda>observed.
          case first_difference pinned observed of
            Some component \<Rightarrow> Inl (DaemonConfigRefusal (Changed component))
          | None \<Rightarrow> Inr ()))))"

definition governed_source_root :: "run \<Rightarrow> daemon_error + rstr" where
  "governed_source_root t =
     map_err (\<lambda>e. DaemonContext (lit ''governed producer cannot locate the task's source tree'')
       (DaemonMessage [])) (launch_working_directory t)"

section \<open>Claims\<close>

record claim_world =
  cw_config :: config_view
  cw_subject :: git_view

definition derive_claim :: "claim_world \<Rightarrow> run \<Rightarrow> claim_request \<Rightarrow> daemon_error + claim_input" where
  "derive_claim W t r =
     and_then (ok_or (verification_profile t) (DaemonMessage (lit
       ''governed claim requires a closed-loop verification profile''))) (\<lambda>_.
     and_then (ok_or (initial_subject_revision t) (DaemonMessage (lit
       ''profiled governed task lost its initial Git OID''))) (\<lambda>initial.
     and_then (ensure_staged_config_pin_holds (cw_config W) t) (\<lambda>_.
     and_then (governed_source_root t) (\<lambda>_.
     and_then (observe_clean_git_subject (cw_subject W) (Some initial)) (\<lambda>subject.
     Inr \<lparr>ci_actor = \<lparr>ac_kind = Worker, ac_id = agent_id t\<rparr>, ci_summary = gc_summary r,
       ci_subject = subject, ci_artifacts = gc_artifacts r, ci_diff_ref = None\<rparr>)))))"

section \<open>Verification\<close>

fun profile_label :: "verification_profile_kind \<Rightarrow> rstr" where
  "profile_label RustWorkspaceV1 = lit ''rust_workspace_v1''"

definition verifier_actor :: "verification_profile_kind \<Rightarrow> governed_actor" where
  "verifier_actor profile = \<lparr>ac_kind = Verifier, ac_id = lit ''impulse-daemon:'' @ profile_label profile\<rparr>"

record command_spec =
  cs_name :: rstr
  cs_executable :: rstr
  cs_args :: "rstr list"

definition rust_workspace_v1_steps :: "command_spec list" where
  "rust_workspace_v1_steps =
     [\<lparr>cs_name = lit ''cargo fmt check'', cs_executable = lit ''cargo'',
       cs_args = map lit [''fmt'', ''--all'', ''--'', ''--check'']\<rparr>,
      \<lparr>cs_name = lit ''cargo check'', cs_executable = lit ''cargo'',
       cs_args = map lit [''check'', ''--locked'', ''--workspace'', ''--all-targets'']\<rparr>,
      \<lparr>cs_name = lit ''cargo clippy'', cs_executable = lit ''cargo'',
       cs_args = map lit [''clippy'', ''--locked'', ''--workspace'', ''--all-targets'', ''--'', ''-D'', ''warnings'']\<rparr>,
      \<lparr>cs_name = lit ''cargo test'', cs_executable = lit ''cargo'',
       cs_args = map lit [''test'', ''--locked'', ''--workspace'']\<rparr>]"

fun profile_steps :: "verification_profile_kind \<Rightarrow> command_spec list" where
  "profile_steps RustWorkspaceV1 = rust_workspace_v1_steps"

record observed_command =
  oc_evidence :: command_evidence
  oc_timed_out :: bool

record verification_world =
  vw_config :: config_view
  vw_before :: git_view
  vw_materialize :: "daemon_error + unit"
  vw_lockfile :: "daemon_error + unit"
  vw_manifest_before :: "daemon_error + rstr"
  vw_run :: "command_spec \<Rightarrow> daemon_error + observed_command"
  vw_source_after :: git_view
  vw_detached_after :: git_view
  vw_manifest_after :: "daemon_error + rstr"

text \<open>The command loop stops at the first failing command; a command that cannot be run is an error.\<close>

fun run_steps :: "(command_spec \<Rightarrow> daemon_error + observed_command) \<Rightarrow> command_spec list \<Rightarrow>
    daemon_error + observed_command list" where
  "run_steps f [] = Inr []"
| "run_steps f (step # steps) =
     and_then (f step) (\<lambda>oc.
       if \<not> ce_success (oc_evidence oc) then Inr [oc]
       else and_then (run_steps f steps) (\<lambda>rest. Inr (oc # rest)))"

definition verification_input_of ::
    "verification_profile_kind \<Rightarrow> claim_record \<Rightarrow> verification_outcome \<Rightarrow> command_evidence list \<Rightarrow> rstr \<Rightarrow>
     verification_input" where
  "verification_input_of profile claim outc commands notes =
     \<lparr>vi_actor = verifier_actor profile, vi_claim_id = cl_id claim, vi_subject = cl_subject claim,
      vi_policy = profile_label profile, vi_outcome = outc, vi_commands = commands, vi_artifacts = [],
      vi_notes = Some notes\<rparr>"

definition verification_outcome_of :: "bool \<Rightarrow> command_evidence list \<Rightarrow> verification_outcome" where
  "verification_outcome_of steady commands =
     (if \<not> steady then Inconclusive
      else if commands \<noteq> [] \<and> list_all ce_success commands then Passed else Failed)"

definition verification_notes ::
    "verification_profile_kind \<Rightarrow> bool \<Rightarrow> observed_command list \<Rightarrow> rstr" where
  "verification_notes profile steady ocs =
     (if \<not> steady then lit
        ''source or detached verification subject changed, became dirty, or its byte manifest changed during daemon-owned verification''
      else if list_ex oc_timed_out ocs then lit ''a daemon-owned verification command exceeded its bounded timeout''
      else lit ''daemon observed '' @ dec (length ocs) @ lit '' command(s) under '' @ profile_label profile)"

definition subject_stable :: "verification_world \<Rightarrow> rstr \<Rightarrow> claim_record \<Rightarrow> rstr \<Rightarrow> bool" where
  "subject_stable W initial claim manifest \<longleftrightarrow>
     observe_clean_git_subject (vw_source_after W) (Some initial) = Inr (cl_subject claim) \<and>
     observe_clean_git_subject (vw_detached_after W) (Some (cl_subject claim)) = Inr (cl_subject claim) \<and>
     vw_manifest_after W = Inr manifest"

definition run_commands ::
    "verification_world \<Rightarrow> verification_profile_kind \<Rightarrow> rstr \<Rightarrow> claim_record \<Rightarrow> rstr \<Rightarrow> daemon_error + verification_input" where
  "run_commands W profile initial claim manifest =
     and_then (run_steps (vw_run W) (profile_steps profile)) (\<lambda>ocs.
     let steady = subject_stable W initial claim manifest; commands = map oc_evidence ocs in
     Inr (verification_input_of profile claim (verification_outcome_of steady commands) commands
       (verification_notes profile steady ocs)))"

definition run_verification :: "journal_env \<Rightarrow> verification_world \<Rightarrow> run \<Rightarrow> daemon_error + verification_input" where
  "run_verification E W t =
     and_then (ok_or (verification_profile t) (DaemonMessage (lit
       ''governed verification requires a closed-loop profile''))) (\<lambda>profile.
     and_then (ok_or (initial_subject_revision t) (DaemonMessage (lit
       ''profiled governed task lost its initial Git OID''))) (\<lambda>initial.
     and_then (ok_or (latest_claim t) (DaemonMessage (lit
       ''governed verification requires a current worker claim''))) (\<lambda>claim.
     and_then (ensure_staged_config_pin_holds (vw_config W) t) (\<lambda>_.
     and_then (governed_source_root t) (\<lambda>_.
     and_then (observe_clean_git_subject (vw_before W) (Some initial)) (\<lambda>before.
     and_then (ensure (before = cl_subject claim) (DaemonMessage (lit
       ''governed source HEAD does not match the claimed subject revision''))) (\<lambda>_.
     and_then (vw_materialize W) (\<lambda>_.
     case vw_lockfile W of
       Inl e \<Rightarrow> Inr (verification_input_of profile claim Inconclusive [] (error_text E e))
     | Inr _ \<Rightarrow> (case vw_manifest_before W of
           Inl e \<Rightarrow> Inr (verification_input_of profile claim Inconclusive [] (lit
             ''could not attest detached source bytes before verification: '' @ error_text E e))
         | Inr manifest \<Rightarrow> run_commands W profile initial claim manifest)))))))))"

section \<open>Supervisor review\<close>

definition be_bytes :: "nat \<Rightarrow> nat list" where
  "be_bytes n = map (\<lambda>i. n div 256 ^ (7 - i) mod 256) [0..<8]"

definition criteria_bytes :: "rstr list \<Rightarrow> nat list" where
  "criteria_bytes criteria =
     be_bytes (length criteria) @ concat (map (\<lambda>c. be_bytes (byte_len c) @ utf8 c) criteria)"

definition acceptance_criteria_digest :: "journal_env \<Rightarrow> rstr list \<Rightarrow> rstr" where
  "acceptance_criteria_digest E criteria = lit ''sha256:'' @ sha256_hex E (criteria_bytes criteria)"

text \<open>The prompt itself is rendered JSON and a fixed system text; what is checked before is this.\<close>

definition supervisor_review_admitted :: "run \<Rightarrow> daemon_error + claim_record \<times> verification_record" where
  "supervisor_review_admitted t =
     and_then (ok_or (latest_claim t) (DaemonMessage (lit ''Supervisor review requires a current claim''))) (\<lambda>claim.
     and_then (ok_or (latest_verification t) (DaemonMessage (lit
       ''Supervisor review requires current verification''))) (\<lambda>verification.
     and_then (ensure (byte_len (task t) \<le> MAX_PROFILED_TASK_BYTES \<and>
         length (acceptance_criteria t) \<le> MAX_PROFILED_ACCEPTANCE_CRITERIA \<and>
         list_all (\<lambda>c. byte_len c \<le> MAX_PROFILED_ACCEPTANCE_CRITERION_BYTES) (acceptance_criteria t) \<and>
         byte_len (cl_summary claim) \<le> MAX_PROFILED_CLAIM_SUMMARY_BYTES)
       (DaemonMessage (lit
         ''governed Supervisor review refuses semantic input outside the exact profiled bounds''))) (\<lambda>_.
     Inr (claim, verification))))"

text \<open>\<open>reply\<close> is what \<open>serde_json\<close> makes of the trimmed response.\<close>

definition bind_supervisor_review ::
    "journal_env \<Rightarrow> run \<Rightarrow> rstr + review_envelope \<Rightarrow> governed_actor \<Rightarrow> daemon_error + verdict_input" where
  "bind_supervisor_review E t reply actor =
     and_then (ensure (ac_kind actor = Supervisor \<and> trim (ac_id actor) \<noteq> []) (DaemonMessage (lit
       ''governed Supervisor producer supplied invalid runtime provenance''))) (\<lambda>_.
     and_then (map_err (\<lambda>m. DaemonContext (lit ''Supervisor response must be one strict JSON object'')
       (DaemonMessage m)) reply) (\<lambda>envelope.
     and_then (map_err DaemonContract (validate_review_envelope envelope)) (\<lambda>_.
     and_then (ok_or (latest_claim t) (DaemonMessage (lit ''Supervisor response has no current claim''))) (\<lambda>claim.
     and_then (ok_or (latest_verification t) (DaemonMessage (lit
       ''Supervisor response has no current verification''))) (\<lambda>verification.
     and_then (ensure (review_envelope.re_task_id envelope = run_id t \<and> re_task_revision envelope = revision t \<and>
         re_claim_id envelope = cl_id claim \<and> re_verification_id envelope = vf_id verification \<and>
         re_subject envelope = cl_subject claim \<and> re_criteria_count envelope = length (acceptance_criteria t) \<and>
         re_criteria_digest envelope = acceptance_criteria_digest E (acceptance_criteria t) \<and>
         vf_claim_id verification = cl_id claim \<and> vf_subject verification = cl_subject claim)
       (DaemonMessage (lit ''Supervisor response identity does not match current governed task evidence''))) (\<lambda>_.
     Inr \<lparr>svi_actor = actor, svi_verification_id = vf_id verification, svi_verdict = re_verdict envelope,
       svi_rationale = re_rationale envelope\<rparr>))))))"

section \<open>Staged worktrees\<close>

definition staged_system_actor :: governed_actor where
  "staged_system_actor = \<lparr>ac_kind = System, ac_id = lit ''impulse-daemon:staged_worktree''\<rparr>"

definition require_staged_scope :: "run \<Rightarrow> daemon_error + unit" where
  "require_staged_scope t = ensure (world_scope t = StagedAuthoritative)
     (DaemonMessage (lit ''this producer requires a staged_authoritative world scope''))"

record materialize_world =
  mw_config :: config_view
  mw_canonical :: git_view
  mw_occupied :: bool
  mw_create_parent :: "daemon_error + unit"
  mw_add_worktree :: "daemon_error + unit"
  mw_digest :: "daemon_error + shared_config_digest"

text \<open>A checkout exists afterwards exactly when the result is \<open>Inr\<close>: a failure after
  \<open>git worktree add\<close> removes it again.\<close>

definition materialize_staged_worktree :: "materialize_world \<Rightarrow> run \<Rightarrow> daemon_error + staged_input" where
  "materialize_staged_worktree W t =
     and_then (require_staged_scope t) (\<lambda>_.
     and_then (ok_or (initial_subject_revision t) (DaemonMessage (lit
       ''staged governed task lost its initial Git OID''))) (\<lambda>initial.
     and_then (validate_oid initial) (\<lambda>_.
     and_then (ensure_no_submodule_configuration (mw_config W) (workspace_root t) None) (\<lambda>_.
     and_then (observe_clean_git_subject (mw_canonical W) None) (\<lambda>head.
     and_then (ensure (head = initial) (DaemonMessage (lit
       ''canonical workspace HEAD moved off the registered initial OID before staging''))) (\<lambda>_.
     and_then (map_err (\<lambda>e. DaemonContext (lit ''staged governed task cannot derive its worktree root'')
       (DaemonContract e)) (expected_staged_worktree_root t)) (\<lambda>root.
     and_then (ensure (\<not> mw_occupied W) (DaemonMessage (lit ''staged worktree path '' @ root @
       lit '' already exists; refusing to reuse it. If it survived an interrupted run, delete that directory and then run `git -C '' @
       workspace_root t @ lit '' worktree prune` to drop its administrative entry.''))) (\<lambda>_.
     and_then (mw_create_parent W) (\<lambda>_.
     and_then (mw_add_worktree W) (\<lambda>_.
     and_then (mw_digest W) (\<lambda>digest.
     Inr \<lparr>si_actor = staged_system_actor, si_root = root, si_initial = initial, si_pin = Recorded digest\<rparr>)))))))))))"

definition discard_staged_worktree :: "daemon_error + unit \<Rightarrow> run \<Rightarrow> daemon_error + unit" where
  "discard_staged_worktree removed t =
     and_then (require_staged_scope t) (\<lambda>_.
     and_then (ok_or (active_staged_worktree t) (DaemonMessage (lit
       ''task has no active staged worktree to discard''))) (\<lambda>_. removed))"

section \<open>Promotion\<close>

record promotion_world =
  pw_config :: config_view
  pw_head_without_git :: "daemon_error + rstr"
  pw_staged :: git_view
  pw_canonical :: git_view
  pw_branch :: "daemon_error + rstr option"
  pw_reflog :: "daemon_error + git_output"
  pw_swap :: "daemon_error + git_output"
  pw_observed_head :: "daemon_error + rstr"
  pw_sync :: "daemon_error + git_output"
  pw_after :: git_view

definition promotion_reflog_message :: "rstr \<Rightarrow> rstr \<Rightarrow> rstr" where
  "promotion_reflog_message initial target = lit ''impulse governed promotion '' @ initial @ lit ''..'' @ target"

fun split_once :: "nat \<Rightarrow> rstr \<Rightarrow> rstr \<times> rstr" where
  "split_once sep [] = ([], [])"
| "split_once sep (c # cs) = (if c = sep then ([], cs) else (case split_once sep cs of (a, b) \<Rightarrow> (c # a, b)))"

fun reflog_shows :: "rstr \<Rightarrow> rstr \<Rightarrow> rstr list \<Rightarrow> bool" where
  "reflog_shows target expected [] = False"
| "reflog_shows target expected (entry # entries) =
     (let (rev_text, subject) = split_once 9 entry in
      if rev_text \<noteq> target then False
      else if subject = expected then True else reflog_shows target expected entries)"

definition branch_carries_this_promotion ::
    "daemon_error + git_output \<Rightarrow> rstr \<Rightarrow> rstr \<Rightarrow> daemon_error + bool" where
  "branch_carries_this_promotion reflog initial target =
     and_then reflog (\<lambda>out.
     and_then (probe out (lit ''git reflog show'')) (\<lambda>ok.
     if \<not> ok then Inr False
     else and_then (ensure (\<not> go_truncated out) (DaemonMessage (lit
         ''promotion reflog check exceeded the bounded Git output limit''))) (\<lambda>_.
       and_then (ok_or (from_utf8 (go_stdout out)) (DaemonContext (lit ''branch reflog is not valid UTF-8'')
         (DaemonMessage []))) (\<lambda>text.
       Inr (reflog_shows target (promotion_reflog_message initial target) (lines_of text))))))"

definition compare_and_swap_canonical_branch ::
    "daemon_error + git_output \<Rightarrow> rstr \<Rightarrow> rstr \<Rightarrow> daemon_error + bool" where
  "compare_and_swap_canonical_branch swap expected target =
     and_then (validate_oid expected) (\<lambda>_. and_then (validate_oid target) (\<lambda>_.
     and_then swap (\<lambda>out. probe out (lit ''git update-ref''))))"

definition sync_canonical_worktree :: "daemon_error + git_output \<Rightarrow> rstr \<Rightarrow> daemon_error + unit" where
  "sync_canonical_worktree sync target =
     and_then (validate_oid target) (\<lambda>_.
     and_then sync (\<lambda>out.
     and_then (map_err (DaemonContext (lit ''governed outcome promotion advanced the canonical branch to '' @
       target @ lit '', but the working-tree sync never reported an exit status; sync it manually before further work''))
       (probe out (lit ''git worktree sync''))) (\<lambda>completed.
     ensure completed (DaemonMessage (lit ''governed outcome promotion advanced the canonical branch to '' @
       target @ lit '', but the working tree could not be synced to it; sync it manually before further work'')))))"

definition promotion_input_of :: "rstr \<Rightarrow> rstr \<Rightarrow> promotion_outcome \<Rightarrow> promotion_input" where
  "promotion_input_of target initial outc =
     \<lparr>pi_actor = staged_system_actor, pi_accepted = target, pi_initial = initial, pi_outcome = outc\<rparr>"

definition config_block :: "promotion_world \<Rightarrow> staged_record \<Rightarrow> daemon_error + promotion_blocked_reason option" where
  "config_block W staged =
     (case pin_comparable (st_pin staged) of
        None \<Rightarrow> Inr (Some RepositoryConfigUnpinned)
      | Some pinned \<Rightarrow> and_then (cv_digest (pw_config W)) (\<lambda>observed.
          Inr (map_option RepositoryConfigChanged (first_difference pinned observed))))"

text \<open>From the compare-and-swap on: every failure is marked as raised after the effect was dispatched.\<close>

definition swap_and_sync :: "promotion_world \<Rightarrow> rstr \<Rightarrow> rstr \<Rightarrow> rstr \<Rightarrow> daemon_error + promotion_input" where
  "swap_and_sync W initial target canonical_head =
     and_then (map_err wrap_dispatched (compare_and_swap_canonical_branch (pw_swap W) initial target)) (\<lambda>swapped.
     if \<not> swapped
     then Inr (promotion_input_of target initial (PromotionBlocked
       (case pw_observed_head W of Inr head \<Rightarrow> head | Inl _ \<Rightarrow> canonical_head) ConcurrentBranchUpdate))
     else and_then (map_err wrap_dispatched (sync_canonical_worktree (pw_sync W) target)) (\<lambda>_.
       and_then (map_err wrap_dispatched (observe_clean_git_subject (pw_after W) (Some initial))) (\<lambda>promoted.
       if promoted \<noteq> target
       then Inl (wrap_dispatched (DaemonMessage (lit
         ''canonical head did not land the accepted revision after promotion'')))
       else Inr (promotion_input_of target initial (Promoted target)))))"

definition advance_canonical :: "promotion_world \<Rightarrow> staged_record \<Rightarrow> rstr \<Rightarrow> rstr \<Rightarrow> daemon_error + promotion_input" where
  "advance_canonical W staged initial target =
     and_then (map_err (DaemonContext (lit ''staged worktree is not a clean descendant of the initial OID''))
       (observe_clean_git_subject (pw_staged W) (Some initial))) (\<lambda>staged_head.
     and_then (ensure (staged_head = target) (DaemonMessage (lit
       ''staged worktree HEAD does not match the accepted subject revision''))) (\<lambda>_.
     and_then (observe_clean_git_subject (pw_canonical W) None) (\<lambda>canonical_head.
     and_then (pw_branch W) (\<lambda>branch.
     case branch of
       None \<Rightarrow> Inr (promotion_input_of target initial (PromotionBlocked canonical_head DetachedHead))
     | Some _ \<Rightarrow>
         and_then (if canonical_head = target then branch_carries_this_promotion (pw_reflog W) initial target
           else Inr False) (\<lambda>carried.
         if carried then Inr (promotion_input_of target initial (Promoted target))
         else if canonical_head \<noteq> initial
         then Inr (promotion_input_of target initial (PromotionBlocked canonical_head CanonicalHeadMoved))
         else swap_and_sync W initial target canonical_head)))))"

definition promote_governed_outcome :: "promotion_world \<Rightarrow> run \<Rightarrow> daemon_error + promotion_input" where
  "promote_governed_outcome W t =
     and_then (require_staged_scope t) (\<lambda>_.
     and_then (ensure (is_accepted t) (DaemonMessage (lit ''promotion requires an accepted governed task''))) (\<lambda>_.
     and_then (ok_or (active_staged_worktree t) (DaemonMessage (lit
       ''promotion requires an active staged worktree''))) (\<lambda>staged.
     and_then (ok_or (latest_claim t) (DaemonMessage (lit ''promotion requires an accepted worker claim''))) (\<lambda>claim.
     let target = cl_subject claim; initial = st_initial staged in
     and_then (validate_oid target) (\<lambda>_.
     and_then (ensure_no_submodule_configuration (pw_config W) (workspace_root t) (Some (st_root staged))) (\<lambda>_.
     and_then (config_block W staged) (\<lambda>block.
     case block of
       Some reason \<Rightarrow>
         and_then (map_err (DaemonContext (lit ''promotion is blocked ('' @ show_blocked_reason reason @
           lit '') and the canonical head could not be read without running Git in a repository whose configuration is in question''))
           (pw_head_without_git W)) (\<lambda>head.
         Inr (promotion_input_of target initial (PromotionBlocked head reason)))
     | None \<Rightarrow> advance_canonical W staged initial target)))))))"

end
