(* ===== verification/Input_Validation.thy ===== *)
theory Input_Validation
  imports Rust_Text
begin

text \<open>
  The checks on caller-supplied strings (\<open>src/validate.rs\<close>): control characters and bidirectional
  controls, percent-encoding, resource names, lengths, and the composed checks for session ids, tool ids
  and file arguments.  Each returns the first violation in the order of the code.
\<close>

datatype validation_error =
    ControlChars string
  | PathTraversal rstr
  | PercentEncoded string
  | InvalidResourceName rstr nat
  | TooLong string nat nat
  | Empty string

fun validation_kind :: "validation_error \<Rightarrow> string" where
  "validation_kind (ControlChars _) = ''control_chars''"
| "validation_kind (PathTraversal _) = ''path_traversal''"
| "validation_kind (PercentEncoded _) = ''percent_encoded''"
| "validation_kind (InvalidResourceName _ _) = ''invalid_resource_name''"
| "validation_kind (TooLong _ _ _) = ''too_long''"
| "validation_kind (Empty _) = ''empty_input''"

fun show_validation_error :: "validation_error \<Rightarrow> rstr" where
  "show_validation_error (ControlChars field) = lit ''control characters in input: '' @ lit field"
| "show_validation_error (PathTraversal path) = lit ''path traversal detected: '' @ path"
| "show_validation_error (PercentEncoded field) = lit ''percent-encoded input rejected: '' @ lit field"
| "show_validation_error (InvalidResourceName name ch) =
     lit ''invalid resource name (contains '' @ [39, ch, 39] @ lit ''): '' @ name"
| "show_validation_error (TooLong field len maximum) =
     lit ''input too long ('' @ dec len @ lit '' > '' @ dec maximum @ lit ''): '' @ lit field"
| "show_validation_error (Empty field) = lit ''empty input: '' @ lit field"

definition is_bidi_control :: "nat \<Rightarrow> bool" where
  "is_bidi_control c \<longleftrightarrow> 8234 \<le> c \<and> c \<le> 8238 \<or> 8294 \<le> c \<and> c \<le> 8297"

definition forbidden_char :: "nat \<Rightarrow> bool" where
  "forbidden_char c \<longleftrightarrow> is_control c \<and> c \<noteq> 10 \<and> c \<noteq> 13 \<and> c \<noteq> 9 \<or> is_bidi_control c"

fun reject_control_chars :: "rstr \<Rightarrow> string \<Rightarrow> validation_error + unit" where
  "reject_control_chars [] field = Inr ()"
| "reject_control_chars (c # cs) field =
     (if forbidden_char c then Inl (ControlChars field) else reject_control_chars cs field)"

definition validate_single_line_text :: "rstr \<Rightarrow> string \<Rightarrow> validation_error + unit" where
  "validate_single_line_text input field =
     ensure (\<not> list_ex (\<lambda>c. is_control c \<or> is_bidi_control c) input) (ControlChars field)"

fun has_percent_escape :: "nat list \<Rightarrow> bool" where
  "has_percent_escape (a # b # c # bs) =
     (a = 37 \<and> is_ascii_hexdigit b \<and> is_ascii_hexdigit c \<or> has_percent_escape (b # c # bs))"
| "has_percent_escape _ = False"

definition reject_percent_encoded :: "rstr \<Rightarrow> string \<Rightarrow> validation_error + unit" where
  "reject_percent_encoded input field = ensure (\<not> has_percent_escape (utf8 input)) (PercentEncoded field)"

text \<open>The characters \<open>?\<close>, \<open>#\<close>, NUL, slash and backslash, in the order they are looked for.\<close>

definition resource_delimiters :: "nat list" where
  "resource_delimiters = [63, 35, 0, 47, 92]"

definition validate_resource_name :: "rstr \<Rightarrow> string \<Rightarrow> validation_error + unit" where
  "validate_resource_name name field =
     and_then (checks (map (\<lambda>c. ensure (c \<notin> set name) (InvalidResourceName name c)) resource_delimiters))
       (\<lambda>_. reject_control_chars name field)"

definition validate_length :: "rstr \<Rightarrow> string \<Rightarrow> nat \<Rightarrow> validation_error + unit" where
  "validate_length input field maximum =
     ensure (byte_len input \<le> maximum) (TooLong field (byte_len input) maximum)"

definition reject_empty :: "rstr \<Rightarrow> string \<Rightarrow> validation_error + unit" where
  "reject_empty input field = ensure (trim input \<noteq> []) (Empty field)"

definition validate_named :: "string \<Rightarrow> nat \<Rightarrow> rstr \<Rightarrow> validation_error + unit" where
  "validate_named field maximum input = checks
     [reject_empty input field, validate_length input field maximum, validate_resource_name input field]"

definition validate_session_id :: "rstr \<Rightarrow> validation_error + unit" where
  "validate_session_id = validate_named ''session_id'' 256"

definition validate_tool_id :: "rstr \<Rightarrow> validation_error + unit" where
  "validate_tool_id = validate_named ''tool_id'' 128"

definition validate_file_arg :: "rstr \<Rightarrow> validation_error + unit" where
  "validate_file_arg path = checks
     [reject_empty path ''file'', reject_control_chars path ''file'', validate_length path ''file'' 4096]"

section \<open>What is accepted\<close>

lemma reject_control_chars_iff: "reject_control_chars s field = Inr () \<longleftrightarrow> list_all (\<lambda>c. \<not> forbidden_char c) s"
  by (induction s field rule: reject_control_chars.induct) simp_all

text \<open>A path segment a name cannot leave: no separator, no NUL, no query or fragment delimiter.\<close>

definition name_char :: "nat \<Rightarrow> bool" where
  "name_char c \<longleftrightarrow> c \<notin> set resource_delimiters \<and> \<not> forbidden_char c"

lemma validate_named_iff:
  "validate_named field n s = Inr () \<longleftrightarrow> trim s \<noteq> [] \<and> byte_len s \<le> n \<and> list_all name_char s"
  by (auto simp: validate_named_def reject_empty_def validate_length_def validate_resource_name_def
      reject_control_chars_iff resource_delimiters_def name_char_def list_all_iff intro: gr0I)

text \<open>A session id is accepted exactly when it is not blank, has at most 256 bytes of UTF-8 and holds
  none of the delimiters, controls and bidirectional controls; a tool id with at most 128 bytes.\<close>

theorem accepted_ids:
  "(validate_session_id s = Inr () \<longleftrightarrow> trim s \<noteq> [] \<and> byte_len s \<le> 256 \<and> list_all name_char s) \<and>
   (validate_tool_id s = Inr () \<longleftrightarrow> trim s \<noteq> [] \<and> byte_len s \<le> 128 \<and> list_all name_char s)"
  by (simp add: validate_session_id_def validate_tool_id_def validate_named_iff)

text \<open>The documentation of \<open>validate_session_id\<close> says no control characters; line breaks pass.\<close>

lemma session_id_may_break_lines: "validate_session_id (lit ''a'' @ [10] @ lit ''b'') = Inr ()"
  by (simp add: validate_session_id_def validate_named_iff lit_def trim_def is_whitespace_def byte_len_def utf8_def utf8_char_def name_char_def
      resource_delimiters_def forbidden_char_def is_control_def is_bidi_control_def)

end
