(* ===== verification/Daemon_Governed.thy ===== *)
theory Daemon_Governed
  imports Governed_Producers Input_Validation
begin

text \<open>
  The governed endpoints of the daemon (\<open>src/daemon/governed_wiring.rs\<close> and the governed part of
  \<open>src/daemon/handlers.rs\<close>): registration with staged materialization, the generic mutation endpoint
  and its authorization, the claim, verification, review, promotion and discard producers, and the
  connection loop that raises a connection to operator class.  The daemon's state is the governed-task
  ledger with the memory state behind it and the reservation journal.  The per-task producer lock makes
  the requests of one task sequential, so a request is one function from state to state; an error can
  still have changed the state.  JSON encoding of replies is not modelled.
\<close>

section \<open>State, surroundings and replies\<close>

record daemon =
  dm_durable :: durable
  dm_journal :: journal

record daemon_io =
  dq_ambient :: ambient
  dq_ambient2 :: ambient
  dq_memory :: memory_io
  dq_reserve :: journal_io
  dq_close :: journal_io

record producer_ack =
  ga_task :: run
  ga_replayed :: bool
  ga_pending_rerun :: "rstr option"

record discard_ack =
  da_task :: run
  da_discarded_root :: rstr
  da_unreferenced :: "rstr option"

record producer_request =
  pq_request_id :: rstr
  pq_project_id :: rstr
  pq_task_id :: rstr
  pq_expected_revision :: nat

section \<open>Shared steps of the handlers\<close>

definition require_operator_class :: "connection_class \<Rightarrow> string \<Rightarrow> daemon_error + unit" where
  "require_operator_class c request =
     ensure (is_operator c) (DaemonProvenance (OperatorClassRequired request))"

definition require_staged_registration_class :: "registration \<Rightarrow> connection_class \<Rightarrow> daemon_error + unit" where
  "require_staged_registration_class r c =
     (if \<not> requires_staged_worktree (world_scope r) then Inr ()
      else require_operator_class c ''RegisterGovernedTask with a staged world scope'')"

definition require_staged_task :: "run \<Rightarrow> string \<Rightarrow> daemon_error + unit" where
  "require_staged_task t what = ensure (world_scope t = StagedAuthoritative)
     (DaemonMessage (lit ''governed '' @ lit what @ lit '' requires a staged_authoritative world scope''))"

definition require_current_governed_task :: "site \<Rightarrow> rstr \<Rightarrow> rstr \<Rightarrow> durable \<Rightarrow> daemon_error + run" where
  "require_current_governed_task S project tid d =
     and_then (map_err (DaemonTask \<circ> TaskLedger) (get_governed_task S project tid (du_ledger d))) (\<lambda>found.
     ok_or found (DaemonMessage (lit ''governed task `'' @ tid @ lit ''` was not found'')))"

definition mutate_durable ::
    "journal_env \<Rightarrow> site \<Rightarrow> ambient \<Rightarrow> memory_io \<Rightarrow> mutation_request \<Rightarrow> operator_authentication \<Rightarrow> durable \<Rightarrow>
     (daemon_error + run) \<times> durable" where
  "mutate_durable E S A mio q auth d =
     (case mutate_and_hand_over (memory_env.truncate E) S A mio q auth (du_ledger d) (du_memory d) of
        (res, l, m) \<Rightarrow> (map_err DaemonTask res, \<lparr>du_ledger = l, du_memory = m\<rparr>))"

definition persist_governed_mutation ::
    "journal_env \<Rightarrow> site \<Rightarrow> daemon_io \<Rightarrow> mutation_request \<Rightarrow> durable \<Rightarrow> (daemon_error + run) \<times> durable" where
  "persist_governed_mutation E S io q d = mutate_durable E S (dq_ambient io) (dq_memory io) q Declared d"

definition require_producer_request_state :: "run \<Rightarrow> rstr \<Rightarrow> nat \<Rightarrow> durable \<Rightarrow> daemon_error + bool" where
  "require_producer_request_state t request_id expected d =
     and_then (map_err (DaemonTask \<circ> TaskLedger)
       (governed_producer_request_is_replay request_id (run_id t) (du_ledger d))) (\<lambda>replay.
     if replay then
       (if revision t \<le> expected then Inl (DaemonMessage (lit
          ''governed producer replay receipt does not advance beyond expected revision '' @ dec expected))
        else Inr True)
     else if revision t \<noteq> expected then Inl (DaemonMessage (lit
         ''governed task revision conflict: expected '' @ dec expected @ lit '', current '' @ dec (revision t)))
     else Inr False)"

section \<open>Preflight checks and replayed inputs\<close>

definition bail_if :: "bool \<Rightarrow> string \<Rightarrow> daemon_error + unit" where
  "bail_if b message = ensure (\<not> b) (DaemonMessage (lit message))"

definition preflight_claim :: "run \<Rightarrow> claim_request \<Rightarrow> daemon_error + unit" where
  "preflight_claim t r = checks
     [map_err DaemonContract (validate_claim_request r),
      bail_if (execution_state t \<notin> {Running, RuntimeExited}) ''governed claim requires a launched or exited runtime'',
      bail_if (review_state t \<notin> {AwaitingClaim, ChangesRequested, VerificationFailed})
        ''governed task review state does not accept a worker claim'',
      bail_if (requires_staged_worktree (world_scope t) \<and> active_staged_worktree t = None)
        ''governed claim requires an active staged worktree'',
      bail_if (MAX_GOVERNED_RECORDS_PER_KIND \<le> length (claims t)) ''governed worker claim capacity is exhausted'']"

definition preflight_verification :: "run \<Rightarrow> daemon_error + unit" where
  "preflight_verification t = checks
     [bail_if (review_state t \<noteq> AwaitingVerification) ''governed verification requires an awaiting-verification task'',
      bail_if (latest_claim t = None) ''governed verification requires a current worker claim'',
      bail_if (MAX_GOVERNED_RECORDS_PER_KIND \<le> length (verifications t)) ''governed verification capacity is exhausted'']"

definition preflight_supervisor_review :: "run \<Rightarrow> daemon_error + unit" where
  "preflight_supervisor_review t = checks
     [bail_if (review_state t \<notin> {AwaitingSupervisor, VerificationFailed})
        ''governed Supervisor review requires current verification'',
      bail_if (latest_verification t = None) ''governed Supervisor review requires a verification record'',
      bail_if (MAX_GOVERNED_RECORDS_PER_KIND \<le> length (supervisor_verdicts t))
        ''governed Supervisor verdict capacity is exhausted'']"

definition replay_claim_input :: "run \<Rightarrow> claim_request \<Rightarrow> daemon_error + claim_input" where
  "replay_claim_input t r =
     and_then (ok_or (List.find (\<lambda>c. cl_based_on c = gc_expected_revision r) (claims t)) (DaemonMessage (lit
       ''stale governed claim request has no record at its expected revision''))) (\<lambda>c.
     and_then (bail_if (cl_summary c \<noteq> gc_summary r \<or> cl_artifacts c \<noteq> gc_artifacts r)
       ''replayed governed claim request changed its summary or artifact IDs'') (\<lambda>_.
     Inr \<lparr>ci_actor = cl_actor c, ci_summary = cl_summary c, ci_subject = cl_subject c,
       ci_artifacts = cl_artifacts c, ci_diff_ref = cl_diff_ref c\<rparr>))"

definition replay_verification_input :: "run \<Rightarrow> nat \<Rightarrow> daemon_error + verification_input" where
  "replay_verification_input t expected =
     and_then (ok_or (List.find (\<lambda>v. vf_based_on v = expected) (verifications t)) (DaemonMessage (lit
       ''stale governed verification request has no record at its expected revision''))) (\<lambda>v.
     Inr \<lparr>vi_actor = vf_actor v, vi_claim_id = vf_claim_id v, vi_subject = vf_subject v,
       vi_policy = vf_policy v, vi_outcome = vf_outcome v, vi_commands = vf_commands v,
       vi_artifacts = vf_artifacts v, vi_notes = vf_notes v\<rparr>)"

definition replay_supervisor_input :: "run \<Rightarrow> nat \<Rightarrow> daemon_error + verdict_input" where
  "replay_supervisor_input t expected =
     and_then (ok_or (List.find (\<lambda>v. sv_based_on v = expected) (supervisor_verdicts t)) (DaemonMessage (lit
       ''stale governed Supervisor request has no verdict at its expected revision''))) (\<lambda>v.
     Inr \<lparr>svi_actor = sv_actor v, svi_verification_id = sv_verification_id v, svi_verdict = sv_verdict v,
       svi_rationale = sv_rationale v\<rparr>)"

definition replay_promotion :: "run \<Rightarrow> nat \<Rightarrow> daemon_error + promotion_record" where
  "replay_promotion t expected =
     ok_or (List.find (\<lambda>p. pr_based_on p = expected) (promotions t)) (DaemonMessage (lit
       ''stale governed promotion request has no record at its expected revision''))"

definition promote_preflight :: "run \<Rightarrow> daemon_error + unit" where
  "promote_preflight t =
     map_err (\<lambda>f. DaemonMessage (lit ''governed promotion refused: '' @ show_precondition_failure f))
       (record_promotion_preconditions_hold t)"

section \<open>Registration\<close>

text \<open>What a registration observes: the canonical workspace path, the runtime's capability result, the
  clean HEAD, and the materialization.  The third result is the checkout that exists afterwards; a
  rollback removes it.\<close>

record registration_world =
  rw_canonical :: "daemon_error + rstr"
  rw_compatibility :: "daemon_error + role_compat"
  rw_subject :: git_view
  rw_materialize :: materialize_world

definition provisional_staged_task :: "registration_world \<Rightarrow> rstr \<Rightarrow> registration \<Rightarrow> daemon_error + run" where
  "provisional_staged_task W now r =
     and_then (map_err (DaemonContext (lit ''Failed to canonicalize governed workspace '' @ workspace_root r))
       (rw_canonical W)) (\<lambda>root.
     Inr ((initial_run (r\<lparr>workspace_root := root\<rparr>) now [])\<lparr>events := []\<rparr>))"

definition materialization_request :: "run \<Rightarrow> staged_input \<Rightarrow> rstr \<Rightarrow> mutation_request" where
  "materialization_request t staged request_id =
     \<lparr>mr_request_id = request_id, mr_project_id = project_id t, mr_task_id = run_id t,
      mr_expected_revision = revision t, mr_mutation = MaterializeStagedWorktree staged,
      mr_fencing_generation = None\<rparr>"

definition register_plain ::
    "journal_env \<Rightarrow> site \<Rightarrow> ambient \<Rightarrow> registration \<Rightarrow> durable \<Rightarrow> (daemon_error + run) \<times> durable" where
  "register_plain E S A r d =
     (case register_governed_task (env.truncate E) S A r (du_ledger d) of
        Inl e \<Rightarrow> (Inl (DaemonTask (TaskLedger e)), d)
      | Inr (l, t) \<Rightarrow> (Inr t, d\<lparr>du_ledger := l\<rparr>))"

definition record_materialization ::
    "journal_env \<Rightarrow> site \<Rightarrow> daemon_io \<Rightarrow> run \<Rightarrow> staged_input \<Rightarrow> durable \<Rightarrow>
     (daemon_error + run) \<times> durable \<times> staged_input option" where
  "record_materialization E S io t staged d =
     (case and_then (map_err DaemonContract (expected_staged_worktree_root t)) (\<lambda>expected.
           and_then (ensure (path_eq expected (si_root staged)) (DaemonMessage (lit
             ''staged worktree was materialized at '' @ si_root staged @
             lit '' but the registered task derives '' @ expected))) (\<lambda>_.
           map_err (\<lambda>e. DaemonContext (lit
             ''staged governed task id does not form a valid mutation request id'') (DaemonContract e))
             (governed_request_id (lit ''staged-worktree-'' @ run_id t)))) of
        Inl e \<Rightarrow> (Inl e, d, None)
      | Inr request_id \<Rightarrow>
          (case mutate_durable E S (dq_ambient2 io) (dq_memory io) (materialization_request t staged request_id)
                  Declared d of
             (Inr t', d') \<Rightarrow> (Inr t', d', Some staged)
           | (Inl e, d') \<Rightarrow> (Inl (DaemonContext (lit
               ''staged worktree was materialized but could not be recorded; the checkout was rolled back and the registered task has no staged worktree'') e),
               d', None)))"

definition register_staged ::
    "journal_env \<Rightarrow> site \<Rightarrow> daemon_io \<Rightarrow> registration_world \<Rightarrow> registration \<Rightarrow> durable \<Rightarrow>
     (daemon_error + run) \<times> durable \<times> staged_input option" where
  "register_staged E S io W r d =
     (case and_then (provisional_staged_task W (am_now (dq_ambient io)) r) (\<lambda>provisional.
           map_err (DaemonContext (lit ''failed to materialize the staged worktree for this registration''))
             (materialize_staged_worktree (rw_materialize W) provisional)) of
        Inl e \<Rightarrow> (Inl e, d, None)
      | Inr staged \<Rightarrow>
          (case register_plain E S (dq_ambient io) r d of
             (Inl e, d') \<Rightarrow> (Inl e, d', None)
           | (Inr t, d') \<Rightarrow> record_materialization E S io t staged d'))"

definition daemon_register ::
    "journal_env \<Rightarrow> site \<Rightarrow> daemon_io \<Rightarrow> registration_world \<Rightarrow> registration \<Rightarrow> connection_class \<Rightarrow> durable \<Rightarrow>
     (daemon_error + run) \<times> durable \<times> staged_input option" where
  "daemon_register E S io W r c d =
     (if \<not> requires_staged_worktree (world_scope r)
      then (case register_plain E S (dq_ambient io) r d of (res, d') \<Rightarrow> (res, d', None))
      else case and_then (require_staged_registration_class r c) (\<lambda>_.
          map_err (DaemonTask \<circ> TaskLedger)
            (governed_producer_request_is_replay (rg_request_id r) (rg_task_id r) (du_ledger d))) of
        Inl e \<Rightarrow> (Inl e, d, None)
      | Inr True \<Rightarrow>
          (case register_plain E S (dq_ambient io) r d of
             (res, d') \<Rightarrow> (map_err (DaemonContext (lit
               ''failed to replay a recorded staged governed registration'')) res, d', None))
      | Inr False \<Rightarrow> register_staged E S io W r d)"

definition profiled_preflight :: "registration_world \<Rightarrow> registration \<Rightarrow> daemon_error + unit" where
  "profiled_preflight W r =
     (if verification_profile r = None then Inr ()
      else and_then (map_err DaemonContract (validate_registration r)) (\<lambda>_.
        and_then (ok_or (role_assignment r) (DaemonMessage (lit
          ''profiled governed task lost its Builder assignment''))) (\<lambda>_.
        and_then (ok_or (role_compatibility r) (DaemonMessage (lit
          ''profiled governed task lost its runtime compatibility''))) (\<lambda>supplied.
        and_then (rw_compatibility W) (\<lambda>observed.
        and_then (bail_if (supplied \<noteq> observed)
          ''profiled governed task compatibility must equal the daemon-observed runtime capability result'') (\<lambda>_.
        and_then (observe_clean_git_subject (rw_subject W) None) (\<lambda>head.
        bail_if (initial_subject_revision r \<noteq> Some head)
          ''profiled governed task initial revision must equal daemon-observed clean HEAD'')))))))"

definition handle_register ::
    "journal_env \<Rightarrow> site \<Rightarrow> daemon_io \<Rightarrow> registration_world \<Rightarrow> registration \<Rightarrow> connection_class \<Rightarrow> durable \<Rightarrow>
     (daemon_error + run) \<times> durable \<times> staged_input option" where
  "handle_register E S io W r c d =
     (case and_then (require_staged_registration_class r c) (\<lambda>_. profiled_preflight W r) of
        Inl e \<Rightarrow> (Inl e, d, None)
      | Inr _ \<Rightarrow> daemon_register E S io W r c d)"

section \<open>The generic mutation endpoint\<close>

definition profiled_evidence :: "mutation \<Rightarrow> bool" where
  "profiled_evidence m =
     (case m of SubmitClaim _ \<Rightarrow> True | RecordVerification _ \<Rightarrow> True | RecordSupervisorVerdict _ \<Rightarrow> True | _ \<Rightarrow> False)"

definition admit_mutation :: "site \<Rightarrow> mutation_request \<Rightarrow> connection_class \<Rightarrow> durable \<Rightarrow> daemon_error + unit" where
  "admit_mutation S q c d =
     and_then (if mutation_authorization_needs_profile (mr_mutation q)
       then and_then (map_err (DaemonTask \<circ> TaskLedger)
           (get_governed_task S (mr_project_id q) (mr_task_id q) (du_ledger d))) (\<lambda>found.
         Inr (case found of Some t \<Rightarrow> verification_profile t \<noteq> None | None \<Rightarrow> False))
       else Inr False) (\<lambda>profiled.
     and_then (map_err DaemonProvenance (authorize_governed_mutation (mr_mutation q) profiled c)) (\<lambda>_.
     if \<not> profiled_evidence (mr_mutation q) then Inr ()
     else and_then (require_current_governed_task S (mr_project_id q) (mr_task_id q) d) (\<lambda>t.
       bail_if (verification_profile t \<noteq> None)
         ''profiled governed tasks require daemon-owned claim, verification, and Supervisor producer requests'')))"

definition handle_mutate ::
    "journal_env \<Rightarrow> site \<Rightarrow> daemon_io \<Rightarrow> mutation_request \<Rightarrow> connection_class \<Rightarrow> durable \<Rightarrow>
     (daemon_error + run) \<times> durable" where
  "handle_mutate E S io q c d =
     (case admit_mutation S q c d of
        Inl e \<Rightarrow> (Inl e, d)
      | Inr _ \<Rightarrow> mutate_durable E S (dq_ambient io) (dq_memory io) q (class_authentication c) d)"

section \<open>Producers\<close>

definition claim_mutation :: "claim_request \<Rightarrow> claim_input \<Rightarrow> mutation_request" where
  "claim_mutation r claim =
     \<lparr>mr_request_id = gc_request_id r, mr_project_id = gc_project_id r, mr_task_id = gc_task_id r,
      mr_expected_revision = gc_expected_revision r, mr_mutation = SubmitClaim claim,
      mr_fencing_generation = gc_generation r\<rparr>"

definition prepare_claim :: "site \<Rightarrow> claim_world \<Rightarrow> claim_request \<Rightarrow> durable \<Rightarrow> daemon_error + claim_input" where
  "prepare_claim S W r d =
     and_then (require_current_governed_task S (gc_project_id r) (gc_task_id r) d) (\<lambda>t.
     and_then (bail_if (verification_profile t = None) ''governed claim producer requires a closed-loop task profile'') (\<lambda>_.
     and_then (require_producer_request_state t (gc_request_id r) (gc_expected_revision r) d) (\<lambda>replay.
     if replay then replay_claim_input t r
     else and_then (preflight_claim t r) (\<lambda>_. derive_claim W t r))))"

definition submit_governed_claim ::
    "journal_env \<Rightarrow> site \<Rightarrow> daemon_io \<Rightarrow> claim_world \<Rightarrow> claim_request \<Rightarrow> durable \<Rightarrow> (daemon_error + run) \<times> durable" where
  "submit_governed_claim E S io W r d =
     (case prepare_claim S W r d of
        Inl e \<Rightarrow> (Inl e, d)
      | Inr claim \<Rightarrow> persist_governed_mutation E S io (claim_mutation r claim) d)"

definition reserved_effect ::
    "journal_env \<Rightarrow> site \<Rightarrow> daemon_io \<Rightarrow> daemon_error + mutation_request \<Rightarrow> durable \<Rightarrow>
     (side_effect_error + run \<times> rstr) \<times> durable" where
  "reserved_effect E S io built d =
     (case built of
        Inl e \<Rightarrow> (Inl (classify_producer_error e), d)
      | Inr q \<Rightarrow> (case persist_governed_mutation E S io q d of
            (Inl e, d') \<Rightarrow> (Inl (ReceiptLost e), d')
          | (Inr t, d') \<Rightarrow> (Inr (t, mr_request_id q), d')))"

definition reserved_producer ::
    "journal_env \<Rightarrow> site \<Rightarrow> daemon_io \<Rightarrow> producer_request \<Rightarrow> producer_kind \<Rightarrow> daemon_error + mutation_request \<Rightarrow>
     daemon \<Rightarrow> (daemon_error + run) \<times> daemon" where
  "reserved_producer E S io r producer built s =
     (case with_reservation_effect E (dq_reserve io) (dq_close io) (pq_task_id r) (pq_expected_revision r)
             (pq_request_id r) producer (reserved_effect E S io built) (dm_journal s) (dm_durable s) of
        (res, j, d) \<Rightarrow> (res, \<lparr>dm_durable = d, dm_journal = j\<rparr>))"

definition producer_mutation :: "producer_request \<Rightarrow> mutation \<Rightarrow> nat option \<Rightarrow> mutation_request" where
  "producer_mutation r m generation =
     \<lparr>mr_request_id = pq_request_id r, mr_project_id = pq_project_id r, mr_task_id = pq_task_id r,
      mr_expected_revision = pq_expected_revision r, mr_mutation = m, mr_fencing_generation = generation\<rparr>"

definition producer_pending :: "producer_request \<Rightarrow> producer_kind \<Rightarrow> daemon \<Rightarrow> rstr option" where
  "producer_pending r producer s = pending_rerun_reason (pq_task_id r) producer (pq_request_id r) (dm_journal s)"

text \<open>The tail every reserved producer shares: run under a reservation and acknowledge.\<close>

definition run_reserved ::
    "journal_env \<Rightarrow> site \<Rightarrow> daemon_io \<Rightarrow> producer_request \<Rightarrow> producer_kind \<Rightarrow> daemon_error + mutation_request \<Rightarrow>
     daemon \<Rightarrow> (daemon_error + producer_ack) \<times> daemon" where
  "run_reserved E S io r producer built s =
     (case reserved_producer E S io r producer built s of
        (res, s') \<Rightarrow> (and_then res (\<lambda>t. Inr \<lparr>ga_task = t, ga_replayed = False,
          ga_pending_rerun = producer_pending r producer s\<rparr>), s'))"

text \<open>Answering from a durable receipt: the recorded evidence is sent again.\<close>

definition replay_recorded ::
    "journal_env \<Rightarrow> site \<Rightarrow> daemon_io \<Rightarrow> daemon_error + mutation_request \<Rightarrow> daemon \<Rightarrow>
     (daemon_error + producer_ack) \<times> daemon" where
  "replay_recorded E S io built s =
     (case built of
        Inl e \<Rightarrow> (Inl e, s)
      | Inr q \<Rightarrow> (case persist_governed_mutation E S io q (dm_durable s) of
            (res, d) \<Rightarrow> (and_then res (\<lambda>t. Inr \<lparr>ga_task = t, ga_replayed = True, ga_pending_rerun = None\<rparr>),
              s\<lparr>dm_durable := d\<rparr>)))"

definition admit_producer ::
    "site \<Rightarrow> producer_request \<Rightarrow> string \<Rightarrow> daemon \<Rightarrow> daemon_error + run \<times> bool" where
  "admit_producer S r unprofiled s =
     and_then (require_current_governed_task S (pq_project_id r) (pq_task_id r) (dm_durable s)) (\<lambda>t.
     and_then (bail_if (verification_profile t = None) unprofiled) (\<lambda>_.
     and_then (require_producer_request_state t (pq_request_id r) (pq_expected_revision r) (dm_durable s)) (\<lambda>replay.
     Inr (t, replay))))"

definition run_governed_verification ::
    "journal_env \<Rightarrow> site \<Rightarrow> daemon_io \<Rightarrow> verification_world \<Rightarrow> producer_request \<Rightarrow> daemon \<Rightarrow>
     (daemon_error + producer_ack) \<times> daemon" where
  "run_governed_verification E S io W r s =
     (case admit_producer S r ''governed verification producer requires a closed-loop task profile'' s of
        Inl e \<Rightarrow> (Inl e, s)
      | Inr (t, True) \<Rightarrow> replay_recorded E S io
          (and_then (replay_verification_input t (pq_expected_revision r)) (\<lambda>v.
             Inr (producer_mutation r (RecordVerification v) (Some (lease_generation t))))) s
      | Inr (t, False) \<Rightarrow>
          (case preflight_verification t of
             Inl e \<Rightarrow> (Inl e, s)
           | Inr _ \<Rightarrow> run_reserved E S io r VerificationProducer
               (and_then (run_verification E W t) (\<lambda>v.
                  Inr (producer_mutation r (RecordVerification v) (Some (lease_generation t))))) s))"

text \<open>The Supervisor turn: whether the agent is free and ready, its actor, and what it replied.\<close>

record supervisor_world =
  sw_agent :: "daemon_error + governed_actor"
  sw_reply :: "daemon_error + (rstr + review_envelope)"

definition run_governed_supervisor_review ::
    "journal_env \<Rightarrow> site \<Rightarrow> daemon_io \<Rightarrow> supervisor_world \<Rightarrow> producer_request \<Rightarrow> daemon \<Rightarrow>
     (daemon_error + producer_ack) \<times> daemon" where
  "run_governed_supervisor_review E S io W r s =
     (case admit_producer S r ''governed Supervisor producer requires a closed-loop task profile'' s of
        Inl e \<Rightarrow> (Inl e, s)
      | Inr (t, True) \<Rightarrow> replay_recorded E S io
          (and_then (replay_supervisor_input t (pq_expected_revision r)) (\<lambda>v.
             Inr (producer_mutation r (RecordSupervisorVerdict v) None))) s
      | Inr (t, False) \<Rightarrow>
          (case and_then (preflight_supervisor_review t) (\<lambda>_.
                and_then (supervisor_review_admitted t) (\<lambda>_. sw_agent W)) of
             Inl e \<Rightarrow> (Inl e, s)
           | Inr actor \<Rightarrow> run_reserved E S io r SupervisorReviewProducer
               (and_then (sw_reply W) (\<lambda>reply. and_then (bind_supervisor_review E t reply actor) (\<lambda>v.
                  Inr (producer_mutation r (RecordSupervisorVerdict v) None)))) s))"

definition promote_admit :: "site \<Rightarrow> producer_request \<Rightarrow> connection_class \<Rightarrow> daemon \<Rightarrow> daemon_error + run \<times> bool" where
  "promote_admit S r c s =
     and_then (require_operator_class c ''PromoteGovernedOutcome'') (\<lambda>_.
     and_then (require_current_governed_task S (pq_project_id r) (pq_task_id r) (dm_durable s)) (\<lambda>t.
     and_then (require_staged_task t ''promotion'') (\<lambda>_.
     and_then (require_producer_request_state t (pq_request_id r) (pq_expected_revision r) (dm_durable s)) (\<lambda>replay.
     Inr (t, replay)))))"

definition promote_outcome ::
    "journal_env \<Rightarrow> site \<Rightarrow> daemon_io \<Rightarrow> promotion_world \<Rightarrow> producer_request \<Rightarrow> connection_class \<Rightarrow> daemon \<Rightarrow>
     (daemon_error + producer_ack) \<times> daemon" where
  "promote_outcome E S io W r c s =
     (case promote_admit S r c s of
        Inl e \<Rightarrow> (Inl e, s)
      | Inr (t, True) \<Rightarrow>
          (and_then (replay_promotion t (pq_expected_revision r)) (\<lambda>_.
             Inr \<lparr>ga_task = t, ga_replayed = True, ga_pending_rerun = None\<rparr>), s)
      | Inr (t, False) \<Rightarrow>
          (case promote_preflight t of
             Inl e \<Rightarrow> (Inl e, s)
           | Inr _ \<Rightarrow> run_reserved E S io r PromotionProducer
               (and_then (promote_governed_outcome W t) (\<lambda>p.
                  Inr (producer_mutation r (RecordPromotion p) (Some (lease_generation t))))) s))"

section \<open>Discard\<close>

definition discard_mutation :: "discard_request \<Rightarrow> mutation_request" where
  "discard_mutation r =
     \<lparr>mr_request_id = dr_request_id r, mr_project_id = dr_project_id r, mr_task_id = dr_task_id r,
      mr_expected_revision = dr_expected_revision r,
      mr_mutation = DiscardStagedWorktree staged_system_actor (dr_reason r), mr_fencing_generation = None\<rparr>"

definition discard_admit ::
    "site \<Rightarrow> discard_request \<Rightarrow> connection_class \<Rightarrow> durable \<Rightarrow> daemon_error + run \<times> bool \<times> rstr" where
  "discard_admit S r c d =
     and_then (require_operator_class c ''DiscardGovernedStagedWorktree'') (\<lambda>_.
     and_then (map_err DaemonContract (validate_discard_request r)) (\<lambda>_.
     and_then (require_current_governed_task S (dr_project_id r) (dr_task_id r) d) (\<lambda>t.
     and_then (require_staged_task t ''staged worktree discard'') (\<lambda>_.
     and_then (require_producer_request_state t (dr_request_id r) (dr_expected_revision r) d) (\<lambda>replay.
     and_then (ok_or (staged_worktree t) (DaemonMessage (lit
       ''governed staged worktree discard requires a materialized worktree''))) (\<lambda>staged.
     Inr (t, replay, st_root staged)))))))"

fun execution_debug :: "execution_state_kind \<Rightarrow> rstr" where
  "execution_debug Registered = lit ''Registered''"
| "execution_debug Running = lit ''Running''"
| "execution_debug LaunchFailed = lit ''LaunchFailed''"
| "execution_debug RuntimeExited = lit ''RuntimeExited''"

fun review_debug :: "review_state_kind \<Rightarrow> rstr" where
  "review_debug AwaitingClaim = lit ''AwaitingClaim''"
| "review_debug AwaitingVerification = lit ''AwaitingVerification''"
| "review_debug VerificationFailed = lit ''VerificationFailed''"
| "review_debug AwaitingSupervisor = lit ''AwaitingSupervisor''"
| "review_debug ChangesRequested = lit ''ChangesRequested''"
| "review_debug Escalated = lit ''Escalated''"
| "review_debug AwaitingOperator = lit ''AwaitingOperator''"
| "review_debug Accepted = lit ''Accepted''"
| "review_debug Rejected = lit ''Rejected''"

definition discard_preflight :: "daemon_error + unit \<Rightarrow> run \<Rightarrow> daemon_error + unit" where
  "discard_preflight removed t =
     and_then (bail_if (active_staged_worktree t = None) ''governed staged worktree was already discarded'') (\<lambda>_.
     and_then (ensure (wire_worktree_is_discardable t) (DaemonMessage (lit
       ''a staged worktree is discarded only after a rejection, an escalation, a launch failure, a runtime that exited before a claim, or a recorded promotion outcome; this task is execution='' @
       execution_debug (execution_state t) @ lit '' review='' @ review_debug (review_state t)))) (\<lambda>_.
     discard_staged_worktree removed t))"

definition discard_governed_staged_worktree ::
    "journal_env \<Rightarrow> site \<Rightarrow> daemon_io \<Rightarrow> daemon_error + unit \<Rightarrow> discard_request \<Rightarrow> connection_class \<Rightarrow> durable \<Rightarrow>
     (daemon_error + discard_ack) \<times> durable" where
  "discard_governed_staged_worktree E S io removed r c d =
     (case discard_admit S r c d of
        Inl e \<Rightarrow> (Inl e, d)
      | Inr (t, True, root) \<Rightarrow> (Inr \<lparr>da_task = t, da_discarded_root = root,
          da_unreferenced = unreferenced_accepted_commit_on_discard t\<rparr>, d)
      | Inr (t, False, root) \<Rightarrow>
          (case discard_preflight removed t of
             Inl e \<Rightarrow> (Inl e, d)
           | Inr _ \<Rightarrow> (case persist_governed_mutation E S io (discard_mutation r) d of
                 (res, d') \<Rightarrow> (and_then res (\<lambda>u. Inr \<lparr>da_task = u, da_discarded_root = root,
                   da_unreferenced = unreferenced_accepted_commit_on_discard t\<rparr>), d'))))"

section \<open>Dispatch\<close>

datatype daemon_request =
    RegisterGovernedTask registration
  | GetGovernedTask rstr rstr
  | ListGovernedTasks rstr
  | MutateGovernedTask mutation_request
  | SubmitGovernedClaim claim_request
  | RunGovernedVerification producer_request
  | RunGovernedSupervisorReview producer_request
  | PromoteGovernedOutcome producer_request
  | DiscardGovernedStagedWorktree discard_request

datatype daemon_reply =
    ReplyRun run
  | ReplyRunOption "run option"
  | ReplyRuns "run list"
  | ReplyAck producer_ack
  | ReplyDiscard discard_ack
  | ReplyRefusal refusal_ack
  | ReplyError daemon_error

fun staged_config_refusal_of :: "daemon_error \<Rightarrow> staged_config_refusal option" where
  "staged_config_refusal_of (DaemonConfigRefusal reason) = Some reason"
| "staged_config_refusal_of (DaemonContext _ e) = staged_config_refusal_of e"
| "staged_config_refusal_of _ = None"

definition respond_producer_error :: "run option \<Rightarrow> daemon_error \<Rightarrow> daemon_reply" where
  "respond_producer_error unchanged e =
     (case (unchanged, staged_config_refusal_of e) of
        (Some t, Some reason) \<Rightarrow> ReplyRefusal (refusal_ack_new t reason)
      | _ \<Rightarrow> ReplyError e)"

definition task_before :: "site \<Rightarrow> rstr \<Rightarrow> rstr \<Rightarrow> durable \<Rightarrow> run option" where
  "task_before S project tid d =
     (case require_current_governed_task S project tid d of Inr t \<Rightarrow> Some t | Inl _ \<Rightarrow> None)"

fun reply_with :: "('a \<Rightarrow> daemon_reply) \<Rightarrow> (daemon_error \<Rightarrow> daemon_reply) \<Rightarrow> daemon_error + 'a \<Rightarrow> daemon_reply" where
  "reply_with f g (Inr a) = f a"
| "reply_with f g (Inl e) = g e"

record daemon_world =
  wo_registration :: registration_world
  wo_claim :: claim_world
  wo_verification :: verification_world
  wo_supervisor :: supervisor_world
  wo_promotion :: promotion_world
  wo_removed :: "daemon_error + unit"

definition handle_governed_promotion ::
    "journal_env \<Rightarrow> site \<Rightarrow> daemon_io \<Rightarrow> promotion_world \<Rightarrow> producer_request \<Rightarrow> connection_class \<Rightarrow> daemon \<Rightarrow>
     daemon_reply \<times> daemon" where
  "handle_governed_promotion E S io W r c s =
     (case require_operator_class c ''PromoteGovernedOutcome'' of
        Inl e \<Rightarrow> (ReplyError e, s)
      | Inr _ \<Rightarrow> (case promote_outcome E S io W r c s of
            (res, s') \<Rightarrow> (reply_with ReplyAck (respond_producer_error
              (task_before S (pq_project_id r) (pq_task_id r) (dm_durable s))) res, s')))"

definition handle_governed_verification ::
    "journal_env \<Rightarrow> site \<Rightarrow> daemon_io \<Rightarrow> verification_world \<Rightarrow> producer_request \<Rightarrow> daemon \<Rightarrow> daemon_reply \<times> daemon" where
  "handle_governed_verification E S io W r s =
     (case run_governed_verification E S io W r s of
        (res, s') \<Rightarrow> (reply_with ReplyAck (respond_producer_error
          (task_before S (pq_project_id r) (pq_task_id r) (dm_durable s))) res, s'))"

definition handle_claim ::
    "journal_env \<Rightarrow> site \<Rightarrow> daemon_io \<Rightarrow> claim_world \<Rightarrow> claim_request \<Rightarrow> daemon \<Rightarrow> daemon_reply \<times> daemon" where
  "handle_claim E S io W r s =
     (case submit_governed_claim E S io W r (dm_durable s) of
        (res, d) \<Rightarrow> (reply_with ReplyRun (respond_producer_error
          (task_before S (gc_project_id r) (gc_task_id r) (dm_durable s))) res, s\<lparr>dm_durable := d\<rparr>))"

definition process_governed ::
    "journal_env \<Rightarrow> site \<Rightarrow> daemon_io \<Rightarrow> daemon_world \<Rightarrow> connection_class \<Rightarrow> daemon_request \<Rightarrow> daemon \<Rightarrow>
     daemon_reply \<times> daemon" where
  "process_governed E S io W c request s =
     (case request of
        RegisterGovernedTask r \<Rightarrow>
          (case handle_register E S io (wo_registration W) r c (dm_durable s) of
             (res, d, _) \<Rightarrow> (reply_with ReplyRun ReplyError res, s\<lparr>dm_durable := d\<rparr>))
      | GetGovernedTask project tid \<Rightarrow>
          (reply_with ReplyRunOption ReplyError (map_err (DaemonTask \<circ> TaskLedger)
             (get_governed_task S project tid (du_ledger (dm_durable s)))), s)
      | ListGovernedTasks project \<Rightarrow>
          (reply_with ReplyRuns ReplyError (map_err (DaemonTask \<circ> TaskLedger)
             (list_governed_tasks S project (du_ledger (dm_durable s)))), s)
      | MutateGovernedTask q \<Rightarrow>
          (case handle_mutate E S io q c (dm_durable s) of
             (res, d) \<Rightarrow> (reply_with ReplyRun ReplyError res, s\<lparr>dm_durable := d\<rparr>))
      | SubmitGovernedClaim r \<Rightarrow> handle_claim E S io (wo_claim W) r s
      | RunGovernedVerification r \<Rightarrow> handle_governed_verification E S io (wo_verification W) r s
      | RunGovernedSupervisorReview r \<Rightarrow>
          (case run_governed_supervisor_review E S io (wo_supervisor W) r s of
             (res, s') \<Rightarrow> (reply_with ReplyAck ReplyError res, s'))
      | PromoteGovernedOutcome r \<Rightarrow> handle_governed_promotion E S io (wo_promotion W) r c s
      | DiscardGovernedStagedWorktree r \<Rightarrow>
          (case discard_governed_staged_worktree E S io (wo_removed W) r c (dm_durable s) of
             (res, d) \<Rightarrow> (reply_with ReplyDiscard ReplyError res, s\<lparr>dm_durable := d\<rparr>)))"

text \<open>The field checks that precede the dispatch; a registration and a mutation are validated further in.\<close>

definition validate_request_fields :: "daemon_request \<Rightarrow> validation_error + unit" where
  "validate_request_fields request =
     (case request of
        RegisterGovernedTask _ \<Rightarrow> Inr ()
      | MutateGovernedTask _ \<Rightarrow> Inr ()
      | GetGovernedTask project _ \<Rightarrow> reject_control_chars project ''project_id''
      | ListGovernedTasks project \<Rightarrow> reject_control_chars project ''project_id''
      | SubmitGovernedClaim r \<Rightarrow> reject_control_chars (gc_project_id r) ''project_id''
      | RunGovernedVerification r \<Rightarrow> reject_control_chars (pq_project_id r) ''project_id''
      | RunGovernedSupervisorReview r \<Rightarrow> reject_control_chars (pq_project_id r) ''project_id''
      | PromoteGovernedOutcome r \<Rightarrow> reject_control_chars (pq_project_id r) ''project_id''
      | DiscardGovernedStagedWorktree r \<Rightarrow> reject_control_chars (dr_project_id r) ''project_id'')"

definition process_request ::
    "journal_env \<Rightarrow> site \<Rightarrow> daemon_io \<Rightarrow> daemon_world \<Rightarrow> connection_class \<Rightarrow> daemon_request \<Rightarrow> daemon \<Rightarrow>
     daemon_reply \<times> daemon" where
  "process_request E S io W c request s =
     (case validate_request_fields request of
        Inl e \<Rightarrow> (ReplyError (DaemonMessage (show_validation_error e)), s)
      | Inr _ \<Rightarrow> process_governed E S io W c request s)"

section \<open>Connections\<close>

datatype socket_request = PresentOperatorCapability rstr | GovernedRequest daemon_request

record socket_call =
  sk_request :: socket_request
  sk_io :: daemon_io
  sk_world :: daemon_world

text \<open>One line of a connection: a presentation changes the connection, anything else the daemon.\<close>

definition socket_step ::
    "journal_env \<Rightarrow> site \<Rightarrow> operator_capability option \<Rightarrow> connection_provenance \<times> daemon \<Rightarrow> socket_call \<Rightarrow>
     connection_provenance \<times> daemon" where
  "socket_step E S cap = (\<lambda>(p, s) call.
     case sk_request call of
       PresentOperatorCapability token \<Rightarrow>
         ((case present_capability token cap p of Inr p' \<Rightarrow> p' | Inl _ \<Rightarrow> p), s)
     | GovernedRequest request \<Rightarrow>
         (p, snd (process_request E S (sk_io call) (sk_world call) (cp_class p) request s)))"

definition serve_connection ::
    "journal_env \<Rightarrow> site \<Rightarrow> operator_capability option \<Rightarrow> connection_provenance \<times> daemon \<Rightarrow> socket_call list \<Rightarrow>
     connection_provenance \<times> daemon" where
  "serve_connection E S cap = foldl (socket_step E S cap)"

end
