(* ===== verification/Daemon_Machine.thy ===== *)
theory Daemon_Machine
  imports Daemon_Governed Ledger_Properties
begin

text \<open>
  What a request can do to the ledger: every governed endpoint drives the ledger through its own
  operations only, and \<open>driven\<close> says which operations a request of a given connection class can cause.
  The theorems about the ledger carry over to the daemon through this.
\<close>

section \<open>Driving the ledger\<close>

definition drives :: "journal_env \<Rightarrow> site \<Rightarrow> (ledger_op \<Rightarrow> bool) \<Rightarrow> ledger \<Rightarrow> ledger \<Rightarrow> bool" where
  "drives E S P l l' \<longleftrightarrow> (\<exists>ops. list_all P ops \<and> l' = serve (ledger_step (env.truncate E) S) l ops)"

lemma drives_refl [simp, intro]: "drives E S P l l"
  unfolding drives_def by (rule exI [of _ "[]"]) simp

lemma drives_step: "P op \<Longrightarrow> drives E S P l (attempt (ledger_step (env.truncate E) S) l op)"
  unfolding drives_def by (rule exI [of _ "[op]"]) simp

lemma drives_trans: "drives E S P l l' \<Longrightarrow> drives E S P l' l'' \<Longrightarrow> drives E S P l l''"
  unfolding drives_def
proof (elim exE conjE)
  fix xs ys assume "list_all P xs" "list_all P ys"
    "l' = serve (ledger_step (env.truncate E) S) l xs" "l'' = serve (ledger_step (env.truncate E) S) l' ys"
  then show "\<exists>ops. list_all P ops \<and> l'' = serve (ledger_step (env.truncate E) S) l ops"
    by (intro exI [of _ "xs @ ys"] conjI) (simp_all only: list_all_append serve_append)
qed

lemma drives_mono: "drives E S P l l' \<Longrightarrow> (\<And>op. P op \<Longrightarrow> Q op) \<Longrightarrow> drives E S Q l l'"
  unfolding drives_def list_all_iff by blast

lemma env_truncate [simp]: "env.truncate (memory_env.truncate E) = env.truncate E"
  by (simp add: env.defs memory_env.defs)

section \<open>The durable operations\<close>

lemma mutate_durable_ledger:
  assumes "mutate_durable E S A mio q auth d = (res, d')"
  shows "du_ledger d' = attempt (ledger_step (env.truncate E) S) (du_ledger d) \<lparr>lq_request = Mutate q auth, lq_ambient = A\<rparr>"
  using assms
  by (auto simp: mutate_durable_def mutate_and_hand_over_def attempt_def ledger_step_def ledger_call_def
      split: sum.splits prod.splits if_splits)

lemma mutate_durable_known:
  assumes "mutate_durable E S A mio q auth d = (res, d')"
    and "bt_get (processed_requests (du_ledger d)) (mr_request_id q) = Some re"
  shows "du_ledger d' = du_ledger d"
proof (cases "ledger_step (env.truncate E) S (du_ledger d) \<lparr>lq_request = Mutate q auth, lq_ambient = A\<rparr>")
  case (Inr l')
  then have "l' = du_ledger d"
    using mutate_known(1) [OF assms(2)] by (auto simp: ledger_step_def ledger_call_def)
  then show ?thesis using mutate_durable_ledger [OF assms(1)] Inr by simp
qed (simp add: mutate_durable_ledger [OF assms(1)])

lemma register_plain_ledger:
  assumes "register_plain E S A r d = (res, d')"
  shows "du_ledger d' = attempt (ledger_step (env.truncate E) S) (du_ledger d) \<lparr>lq_request = Register r, lq_ambient = A\<rparr>"
  using assms by (auto simp: register_plain_def attempt_def ledger_step_def ledger_call_def split: sum.splits prod.splits)

lemma with_reservation_state:
  assumes "with_reservation_effect E io io' tid n rid p f j s = (res, j', s')"
  shows "s' = s \<or> s' = snd (f s)"
  using assms by (auto simp: with_reservation_effect_def split: sum.splits prod.splits side_effect_error.splits)

lemma reserved_producer_ledger:
  assumes "reserved_producer E S io r p built s = (res, s')"
  shows "du_ledger (dm_durable s') = du_ledger (dm_durable s) \<or>
    (\<exists>q. built = Inr q \<and> du_ledger (dm_durable s') = attempt (ledger_step (env.truncate E) S) (du_ledger (dm_durable s))
       \<lparr>lq_request = Mutate q Declared, lq_ambient = dq_ambient io\<rparr>)"
proof -
  obtain j d where d: "with_reservation_effect E (dq_reserve io) (dq_close io) (pq_task_id r) (pq_expected_revision r)
      (pq_request_id r) p (reserved_effect E S io built) (dm_journal s) (dm_durable s) = (res, j, d)"
    "dm_durable s' = d"
    using assms by (auto simp: reserved_producer_def split: prod.splits)
  from with_reservation_state [OF d(1)] show ?thesis
  proof
    assume "d = snd (reserved_effect E S io built (dm_durable s))"
    then show ?thesis
      using d(2) mutate_durable_ledger [of E S "dq_ambient io" "dq_memory io" _ Declared "dm_durable s"]
      by (cases built) (auto simp: reserved_effect_def persist_governed_mutation_def split: prod.splits sum.splits)
  qed (use d(2) in simp)
qed

lemma run_reserved_ledger:
  assumes "run_reserved E S io r p built s = (res, s')" "\<And>q. built = Inr q \<Longrightarrow> P \<lparr>lq_request = Mutate q Declared, lq_ambient = dq_ambient io\<rparr>"
  shows "drives E S P (du_ledger (dm_durable s)) (du_ledger (dm_durable s'))"
proof -
  obtain res' where "reserved_producer E S io r p built s = (res', s')"
    using assms(1) by (auto simp: run_reserved_def split: prod.splits)
  from reserved_producer_ledger [OF this] show ?thesis
    using assms(2) by (auto intro: drives_step)
qed

lemma require_replay:
  assumes "require_producer_request_state t rid n d = Inr True"
  obtains re where "bt_get (processed_requests (du_ledger d)) rid = Some re"
  using assms by (auto simp: require_producer_request_state_def governed_producer_request_is_replay_def
      split: option.splits if_splits)

lemma replay_recorded_ledger:
  assumes "replay_recorded E S io built s = (res, s')"
    and "\<And>q. built = Inr q \<Longrightarrow> bt_get (processed_requests (du_ledger (dm_durable s))) (mr_request_id q) = Some re"
  shows "du_ledger (dm_durable s') = du_ledger (dm_durable s)" "dm_journal s' = dm_journal s"
  using assms mutate_durable_known [of E S "dq_ambient io" "dq_memory io" _ Declared "dm_durable s"]
  by (auto simp: replay_recorded_def persist_governed_mutation_def split: sum.splits prod.splits)

section \<open>What each request can cause\<close>

definition materializing :: "ledger_request \<Rightarrow> bool" where
  "materializing q \<longleftrightarrow> (\<exists>t staged rid. q = Mutate (materialization_request t staged rid) Declared)"

lemma materializing_request [simp]: "materializing (Mutate (materialization_request t staged rid) Declared)"
  by (auto simp: materializing_def)

definition driven ::
    "journal_env \<Rightarrow> site \<Rightarrow> daemon_world \<Rightarrow> connection_class \<Rightarrow> daemon_request \<Rightarrow> durable \<Rightarrow> ledger_op \<Rightarrow> bool" where
  "driven E S W c request d op =
     (case request of
        RegisterGovernedTask r \<Rightarrow> lq_request op = Register r \<or> is_operator c \<and> materializing (lq_request op)
      | MutateGovernedTask q \<Rightarrow>
          lq_request op = Mutate q (class_authentication c) \<and> admit_mutation S q c d = Inr ()
      | SubmitGovernedClaim r \<Rightarrow> \<exists>t claim. bt_get (tasks (du_ledger d)) (gc_task_id r) = Some t \<and>
          verification_profile t \<noteq> None \<and> derive_claim (wo_claim W) t r = Inr claim \<and>
          lq_request op = Mutate (claim_mutation r claim) Declared
      | RunGovernedVerification r \<Rightarrow> \<exists>t v. bt_get (tasks (du_ledger d)) (pq_task_id r) = Some t \<and>
          verification_profile t \<noteq> None \<and> run_verification E (wo_verification W) t = Inr v \<and>
          lq_request op = Mutate (producer_mutation r (RecordVerification v) (Some (lease_generation t))) Declared
      | RunGovernedSupervisorReview r \<Rightarrow> \<exists>t reply actor v. bt_get (tasks (du_ledger d)) (pq_task_id r) = Some t \<and>
          verification_profile t \<noteq> None \<and> sw_agent (wo_supervisor W) = Inr actor \<and>
          sw_reply (wo_supervisor W) = Inr reply \<and> bind_supervisor_review E t reply actor = Inr v \<and>
          lq_request op = Mutate (producer_mutation r (RecordSupervisorVerdict v) None) Declared
      | PromoteGovernedOutcome r \<Rightarrow> is_operator c \<and> (\<exists>t p. bt_get (tasks (du_ledger d)) (pq_task_id r) = Some t \<and>
          promote_governed_outcome (wo_promotion W) t = Inr p \<and>
          lq_request op = Mutate (producer_mutation r (RecordPromotion p) (Some (lease_generation t))) Declared)
      | DiscardGovernedStagedWorktree r \<Rightarrow> is_operator c \<and> lq_request op = Mutate (discard_mutation r) Declared
      | _ \<Rightarrow> False)"

lemma current_task_Inr:
  "require_current_governed_task S project tid d = Inr t \<longleftrightarrow>
     project = governed_project_id S \<and> bt_get (tasks (du_ledger d)) tid = Some t"
  by (auto simp: require_current_governed_task_def get_governed_task_def require_project_def)

lemma register_drives:
  assumes "handle_register E S io W r c d = (res, d', kept)"
  shows "drives E S (\<lambda>op. lq_request op = Register r \<or> is_operator c \<and> materializing (lq_request op))
    (du_ledger d) (du_ledger d')"
proof -
  let ?P = "\<lambda>op. lq_request op = Register r \<or> is_operator c \<and> materializing (lq_request op)"
  have plain: "drives E S ?P (du_ledger d) (du_ledger d1)" if "register_plain E S (dq_ambient io) r d = (res1, d1)" for res1 d1
    unfolding register_plain_ledger [OF that] by (rule drives_step) simp
  have recorded: "drives E S ?P (du_ledger d1) (du_ledger d2)"
    if "record_materialization E S io t staged d1 = (res2, d2, kept2)" "is_operator c" for t staged d1 res2 d2 kept2
    using that mutate_durable_ledger [of E S "dq_ambient2 io" "dq_memory io" _ Declared d1]
    by (auto simp: record_materialization_def split: sum.splits prod.splits intro!: drives_step)
  have staged: "drives E S ?P (du_ledger d) (du_ledger d2)"
    if "register_staged E S io W r d = (res2, d2, kept2)" "is_operator c" for res2 d2 kept2
    using that plain recorded by (auto simp: register_staged_def split: sum.splits prod.splits intro: drives_trans)
  show ?thesis
    using assms plain staged
    by (auto simp: handle_register_def daemon_register_def require_staged_registration_class_def
        require_operator_class_def split: sum.splits prod.splits if_splits bool.splits)
qed

lemma claim_drives:
  assumes "submit_governed_claim E S io (wo_claim W) r d = (res, d')"
  shows "drives E S (driven E S W c (SubmitGovernedClaim r) d) (du_ledger d) (du_ledger d')"
proof (cases "prepare_claim S (wo_claim W) r d")
  case (Inl e)
  then show ?thesis using assms by (auto simp: submit_governed_claim_def)
next
  case (Inr claim)
  then have m: "mutate_durable E S (dq_ambient io) (dq_memory io) (claim_mutation r claim) Declared d = (res, d')"
    using assms by (simp add: submit_governed_claim_def persist_governed_mutation_def)
  from Inr obtain t replay where t: "bt_get (tasks (du_ledger d)) (gc_task_id r) = Some t" "verification_profile t \<noteq> None"
    "require_producer_request_state t (gc_request_id r) (gc_expected_revision r) d = Inr replay"
    "replay \<or> derive_claim (wo_claim W) t r = Inr claim"
    by (auto simp: prepare_claim_def current_task_Inr bail_if_def split: if_splits)
  show ?thesis
  proof (cases replay)
    case True
    then show ?thesis
      using require_replay [of t "gc_request_id r"] mutate_durable_known [OF m] t(3)
      by (metis claim_mutation_def drives_refl mutation_request.select_convs(1))
  next
    case False
    then show ?thesis
      unfolding mutate_durable_ledger [OF m] using t by (intro drives_step) (auto simp: driven_def)
  qed
qed

lemma admit_producer_Inr:
  assumes "admit_producer S r m s = Inr (t, replay)"
  shows "bt_get (tasks (du_ledger (dm_durable s))) (pq_task_id r) = Some t" "verification_profile t \<noteq> None"
    "require_producer_request_state t (pq_request_id r) (pq_expected_revision r) (dm_durable s) = Inr replay"
  using assms by (auto simp: admit_producer_def current_task_Inr bail_if_def)

lemma replay_producer_ledger:
  assumes "replay_recorded E S io (and_then x (\<lambda>v. Inr (producer_mutation r (f v) g))) s = (res, s')"
    and "require_producer_request_state t (pq_request_id r) n (dm_durable s) = Inr True"
  shows "du_ledger (dm_durable s') = du_ledger (dm_durable s)" "dm_journal s' = dm_journal s"
proof -
  obtain re where "bt_get (processed_requests (du_ledger (dm_durable s))) (pq_request_id r) = Some re"
    by (rule require_replay [OF assms(2)])
  then have "\<And>q. and_then x (\<lambda>v. Inr (producer_mutation r (f v) g)) = Inr q \<Longrightarrow>
      bt_get (processed_requests (du_ledger (dm_durable s))) (mr_request_id q) = Some re"
    by (auto simp: producer_mutation_def)
  from replay_recorded_ledger [OF assms(1) this]
  show "du_ledger (dm_durable s') = du_ledger (dm_durable s)" "dm_journal s' = dm_journal s" by simp_all
qed

lemma verification_drives:
  assumes "run_governed_verification E S io (wo_verification W) r s = (res, s')"
  shows "drives E S (driven E S W c (RunGovernedVerification r) (dm_durable s))
    (du_ledger (dm_durable s)) (du_ledger (dm_durable s'))"
proof (cases "admit_producer S r ''governed verification producer requires a closed-loop task profile'' s")
  case (Inl e)
  then show ?thesis using assms by (simp add: run_governed_verification_def)
next
  case (Inr x)
  obtain t replay where x: "x = (t, replay)" by (cases x)
  note adm = admit_producer_Inr [OF Inr [unfolded x]]
  show ?thesis
  proof (cases replay)
    case True
    then show ?thesis
      using assms Inr x replay_producer_ledger [of E S io _ r RecordVerification _ s res s' t] adm(3)
      by (simp add: run_governed_verification_def)
  next
    case False
    then show ?thesis
      using assms Inr x adm
      by (auto simp: run_governed_verification_def driven_def split: sum.splits elim!: run_reserved_ledger)
  qed
qed

lemma review_drives:
  assumes "run_governed_supervisor_review E S io (wo_supervisor W) r s = (res, s')"
  shows "drives E S (driven E S W c (RunGovernedSupervisorReview r) (dm_durable s))
    (du_ledger (dm_durable s)) (du_ledger (dm_durable s'))"
proof (cases "admit_producer S r ''governed Supervisor producer requires a closed-loop task profile'' s")
  case (Inl e)
  then show ?thesis using assms by (simp add: run_governed_supervisor_review_def)
next
  case (Inr x)
  obtain t replay where x: "x = (t, replay)" by (cases x)
  note adm = admit_producer_Inr [OF Inr [unfolded x]]
  show ?thesis
  proof (cases replay)
    case True
    then show ?thesis
      using assms Inr x replay_producer_ledger [of E S io _ r RecordSupervisorVerdict _ s res s' t] adm(3)
      by (simp add: run_governed_supervisor_review_def)
  next
    case False
    then show ?thesis
      using assms Inr x adm
      by (auto simp: run_governed_supervisor_review_def driven_def split: sum.splits elim!: run_reserved_ledger)
  qed
qed

lemma promote_drives:
  assumes "promote_outcome E S io (wo_promotion W) r c s = (res, s')"
  shows "drives E S (driven E S W c (PromoteGovernedOutcome r) (dm_durable s))
    (du_ledger (dm_durable s)) (du_ledger (dm_durable s'))"
  using assms
  by (auto simp: promote_outcome_def promote_admit_def require_operator_class_def current_task_Inr driven_def
      split: sum.splits prod.splits bool.splits elim!: run_reserved_ledger)

lemma discard_drives:
  assumes "discard_governed_staged_worktree E S io removed r c d = (res, d')"
  shows "drives E S (driven E S W c (DiscardGovernedStagedWorktree r) d) (du_ledger d) (du_ledger d')"
  using assms
  by (auto simp: discard_governed_staged_worktree_def discard_admit_def require_operator_class_def driven_def
      persist_governed_mutation_def mutate_durable_ledger
      split: sum.splits prod.splits bool.splits intro!: drives_step)

lemma process_drives:
  assumes "process_governed E S io W c request s = (reply, s')"
  shows "drives E S (driven E S W c request (dm_durable s)) (du_ledger (dm_durable s)) (du_ledger (dm_durable s'))"
proof (cases request)
  case (RegisterGovernedTask r)
  then obtain res d kept where d: "handle_register E S io (wo_registration W) r c (dm_durable s) = (res, d, kept)"
    "dm_durable s' = d" using assms by (auto simp: process_governed_def split: prod.splits)
  show ?thesis unfolding RegisterGovernedTask d(2)
    using register_drives [OF d(1)] by (rule drives_mono) (simp add: driven_def)
next
  case (MutateGovernedTask q)
  then show ?thesis
    using assms mutate_durable_ledger [of E S "dq_ambient io" "dq_memory io" q "class_authentication c" "dm_durable s"]
    by (auto simp: process_governed_def handle_mutate_def driven_def split: prod.splits sum.splits intro!: drives_step)
next
  case (SubmitGovernedClaim r)
  then show ?thesis using assms claim_drives by (auto simp: process_governed_def handle_claim_def split: prod.splits)
next
  case (RunGovernedVerification r)
  then show ?thesis
    using assms verification_drives by (auto simp: process_governed_def handle_governed_verification_def split: prod.splits)
next
  case (RunGovernedSupervisorReview r)
  then show ?thesis using assms review_drives by (auto simp: process_governed_def split: prod.splits)
next
  case (PromoteGovernedOutcome r)
  then show ?thesis
    using assms promote_drives
    by (auto simp: process_governed_def handle_governed_promotion_def split: prod.splits sum.splits)
next
  case (DiscardGovernedStagedWorktree r)
  then show ?thesis using assms discard_drives by (auto simp: process_governed_def split: prod.splits)
qed (use assms in \<open>auto simp: process_governed_def\<close>)

lemma request_drives:
  assumes "process_request E S io W c request s = (reply, s')"
  shows "drives E S (driven E S W c request (dm_durable s)) (du_ledger (dm_durable s)) (du_ledger (dm_durable s'))"
  using assms process_drives by (auto simp: process_request_def drives_refl split: sum.splits)

end
