(* ===== verification/Reservation_Properties.thy ===== *)
theory Reservation_Properties
  imports Producer_Reservation
begin

text \<open>
  The reservation journal over sequences of operations: it always loads, a slot has at most one open
  reservation, a closed reservation is final, and reconciliation closes whatever was left open.
\<close>

section \<open>The invariant\<close>

definition well_keyed :: "(rstr, reservation) btree \<Rightarrow> bool" where
  "well_keyed rs \<longleftrightarrow> bt_wf rs \<and> (\<forall>k r. bt_get rs k = Some r \<longrightarrow> rv_id r = k)"

definition slot :: "reservation \<Rightarrow> rstr \<times> producer_kind" where
  "slot r = (rv_task_id r, rv_producer r)"

definition one_open :: "(rstr, reservation) btree \<Rightarrow> bool" where
  "one_open rs \<longleftrightarrow> (\<forall>k l r s. bt_get rs k = Some r \<longrightarrow> bt_get rs l = Some s \<longrightarrow> is_open r \<longrightarrow> is_open s \<longrightarrow>
     slot r = slot s \<longrightarrow> k = l)"

definition journal_ok :: "journal_env \<Rightarrow> journal \<Rightarrow> bool" where
  "journal_ok E j \<longleftrightarrow> well_keyed (jr_reservations j) \<and> one_open (jr_reservations j) \<and>
     jr_schema_version j \<in> {1, 2} \<and> required_journal_version j \<le> jr_schema_version j \<and>
     jr_digest j = compute_digest E (jr_reservations j)"

lemmas journal_versions = PRODUCER_RESERVATIONS_SCHEMA_VERSION_def PRODUCER_RESERVATIONS_LEGACY_SCHEMA_VERSION_def

lemma required_journal_versions: "required_journal_version j \<in> {1, 2}"
  by (simp add: required_journal_version_def journal_versions)

lemma well_keyed_values: "well_keyed rs \<Longrightarrow> r \<in> set (bt_values rs) \<longleftrightarrow> bt_get rs (rv_id r) = Some r"
  by (metis bt_values_get well_keyed_def)

lemma well_keyed_insert: "well_keyed rs \<Longrightarrow> rv_id r = k \<Longrightarrow> well_keyed (bt_insert k r rs)"
  by (auto simp: well_keyed_def bt_simps)

lemma well_keyed_pairs: "well_keyed rs \<Longrightarrow> (k, r) \<in> set rs \<Longrightarrow> k = rv_id r"
  by (auto simp: well_keyed_def bt_wf_get)

lemma persisted:
  "persist_journal E io j = Inr j' \<longleftrightarrow> jo_write io = Inr () \<and>
     j' = j\<lparr>jr_schema_version := max (jr_schema_version j) (required_journal_version j),
            jr_digest := compute_digest E (jr_reservations j)\<rparr>"
  by (auto simp: persist_journal_def Let_def)

lemma persisted_reservations:
  "persist_journal E io j = Inr j' \<Longrightarrow> jr_reservations j' = jr_reservations j"
  by (simp add: persisted)

lemma persist_ok:
  assumes "journal_ok E j" "well_keyed rs" "one_open rs" "persist_journal E io (j\<lparr>jr_reservations := rs\<rparr>) = Inr j'"
  shows "journal_ok E j'"
  using assms required_journal_versions [of "j\<lparr>jr_reservations := rs\<rparr>"]
  by (auto simp: persisted journal_ok_def required_journal_version_def max_def)

lemma default_journal_ok: "journal_ok E (default_journal E)"
  by (simp add: journal_ok_def default_journal_def well_keyed_def one_open_def required_journal_version_def
      journal_versions bt_values_def bt_empty_def bt_wf_def bt_get_def)

lemma journal_ok_loads: "journal_ok E j \<Longrightarrow> load_journal E j = Inr j"
  by (auto simp: load_journal_def validate_journal_def journal_ok_def journal_versions list_all_iff
      dest: well_keyed_pairs)

lemma one_open_distinct:
  assumes "well_keyed rs" "one_open rs"
  shows "distinct (map slot (filter is_open (bt_values rs)))"
proof -
  have d: "distinct (map rv_id (bt_values rs))"
  proof -
    have "map rv_id (bt_values rs) = map fst rs"
      using well_keyed_pairs [OF assms(1)] by (auto simp: bt_values_def)
    then show ?thesis using assms(1) by (simp add: well_keyed_def bt_wf_distinct)
  qed
  have "inj_on slot (set (filter is_open (bt_values rs)))"
  proof (rule inj_onI)
    fix r s assume "r \<in> set (filter is_open (bt_values rs))" "s \<in> set (filter is_open (bt_values rs))" "slot r = slot s"
    then have rs: "bt_get rs (rv_id r) = Some r" "bt_get rs (rv_id s) = Some s" and "is_open r" "is_open s"
      using well_keyed_values [OF assms(1), of r] well_keyed_values [OF assms(1), of s] by simp_all
    then have "rv_id r = rv_id s" using assms(2) \<open>slot r = slot s\<close> unfolding one_open_def by blast
    then show "r = s" using rs by (metis option.inject)
  qed
  moreover have "distinct (filter is_open (bt_values rs))" using d by (simp add: distinct_map)
  ultimately show ?thesis by (simp add: distinct_map)
qed

section \<open>Closing and superseding\<close>

lemma closed_as_fields [simp]:
  "rv_id (closed_as now res e r) = rv_id r" "rv_revision (closed_as now res e r) = rv_revision r"
  "is_open (closed_as now res e r) = False" "slot (closed_as now res e r) = slot r"
  "rv_outcome (closed_as now res e r) = Some res" "rv_effect (closed_as now res e r) = Some e"
  "rv_request_id (closed_as now res e r) = rv_request_id r"
  "rv_task_id (closed_as now res e r) = rv_task_id r" "rv_producer (closed_as now res e r) = rv_producer r"
  by (simp_all add: closed_as_def is_open_def slot_def)

lemma closed_as_again: "closed_as now res e (closed_as now res e r) = closed_as now res e r"
  by (simp add: closed_as_def)

lemma one_open_close:
  "one_open rs \<Longrightarrow> bt_get rs k = Some r \<Longrightarrow> \<not> is_open r' \<Longrightarrow> one_open (bt_insert k r' rs)"
  unfolding one_open_def bt_get_insert by (metis option.inject)

lemma stale_reservations_Inr:
  "stale_reservations tid rev_no p rs = Inr ids \<longleftrightarrow>
     (\<forall>r \<in> set rs. same_slot tid p r \<longrightarrow> rv_revision r < rev_no) \<and> ids = map rv_id (filter (same_slot tid p) rs)"
  by (induction tid rev_no p rs arbitrary: ids rule: stale_reservations.induct) auto

definition superseded :: "rstr \<Rightarrow> nat \<Rightarrow> reservation \<Rightarrow> reservation" where
  "superseded now rev_no r = closed_as now (NeedsRerun (superseded_reason rev_no r)) EffectUnknown r"

lemma superseded_again: "superseded now n (superseded now n r) = superseded now n r"
  by (simp add: superseded_def superseded_reason_def closed_as_again)

lemma superseded_fields [simp]: "rv_id (superseded now n r) = rv_id r" "is_open (superseded now n r) = False"
  by (simp_all add: superseded_def)

lemma close_stale_get:
  "bt_get (close_stale now n s rs) k = map_option (\<lambda>r. if k = s then superseded now n r else r) (bt_get rs k)"
  by (cases "bt_get rs k"; cases "bt_get rs s") (auto simp: close_stale_def superseded_def bt_get_insert)

lemma fold_close_stale_get:
  "bt_get (fold (close_stale now n) ids rs) k =
     map_option (\<lambda>r. if k \<in> set ids then superseded now n r else r) (bt_get rs k)"
proof (induction ids arbitrary: rs)
  case (Cons a ids)
  then show ?case by (cases "bt_get rs k") (simp_all add: close_stale_get superseded_again)
qed (simp add: option.map_ident)

lemma fold_close_stale_wf: "bt_wf rs \<Longrightarrow> bt_wf (fold (close_stale now n) ids rs)"
  by (induction ids arbitrary: rs) (auto simp: close_stale_def bt_wf_insert split: option.splits)

lemma fold_close_stale_keyed: "well_keyed rs \<Longrightarrow> well_keyed (fold (close_stale now n) ids rs)"
  by (auto simp: well_keyed_def fold_close_stale_wf fold_close_stale_get)

lemma fold_close_stale_one_open: "one_open rs \<Longrightarrow> one_open (fold (close_stale now n) ids rs)"
  unfolding one_open_def fold_close_stale_get by (auto split: if_splits)

lemma one_open_add:
  assumes "one_open rs" "\<And>k s. bt_get rs k = Some s \<Longrightarrow> is_open s \<Longrightarrow> slot s \<noteq> slot r"
  shows "one_open (bt_insert k r rs)"
  using assms unfolding one_open_def bt_get_insert by (metis option.inject)

section \<open>Every operation keeps the invariant\<close>

lemma reserve_Inr:
  assumes "reserve E io tid rev_no request p j = Inr (j', rid)" "well_keyed (jr_reservations j)"
  obtains ids where "ids = map rv_id (filter (same_slot tid p) (bt_values (jr_reservations j)))"
    "persist_journal E io (j\<lparr>jr_reservations := bt_insert rid (new_reservation io tid rev_no request p)
       (fold (close_stale (jo_now io) rev_no) ids (jr_reservations j))\<rparr>) = Inr j'"
    "rid = new_reservation_id io"
    "\<And>r. bt_get (jr_reservations j) (rv_id r) = Some r \<Longrightarrow> same_slot tid p r \<Longrightarrow> rv_revision r < rev_no"
proof (rule that [OF refl])
  show "persist_journal E io (j\<lparr>jr_reservations := bt_insert rid (new_reservation io tid rev_no request p)
      (fold (close_stale (jo_now io) rev_no) (map rv_id (filter (same_slot tid p) (bt_values (jr_reservations j))))
        (jr_reservations j))\<rparr>) = Inr j'" and "rid = new_reservation_id io"
    using assms(1) unfolding reserve_def Let_def and_then_Inr stale_reservations_Inr sum.inject prod.inject by blast+
  show "rv_revision r < rev_no" if "bt_get (jr_reservations j) (rv_id r) = Some r" "same_slot tid p r" for r
  proof -
    have "r \<in> set (bt_values (jr_reservations j))" using well_keyed_values [OF assms(2)] that(1) by blast
    then show ?thesis using assms(1) that(2) by (auto simp: reserve_def stale_reservations_Inr)
  qed
qed

lemma reserve_ok:
  assumes "reserve E io tid rev_no request p j = Inr (j', rid)" "journal_ok E j"
  shows "journal_ok E j'"
proof -
  have keyed: "well_keyed (jr_reservations j)" and one: "one_open (jr_reservations j)"
    using assms(2) by (simp_all add: journal_ok_def)
  obtain ids where ids: "ids = map rv_id (filter (same_slot tid p) (bt_values (jr_reservations j)))"
    and p: "persist_journal E io (j\<lparr>jr_reservations := bt_insert rid (new_reservation io tid rev_no request p)
       (fold (close_stale (jo_now io) rev_no) ids (jr_reservations j))\<rparr>) = Inr j'"
    and rid: "rid = new_reservation_id io"
    using reserve_Inr [OF assms(1) keyed] by metis
  let ?rs = "fold (close_stale (jo_now io) rev_no) ids (jr_reservations j)"
  have free: "\<not> is_open r \<or> slot r \<noteq> (tid, p)" if "bt_get ?rs k = Some r" for k r
  proof -
    from that obtain r0 where r0: "bt_get (jr_reservations j) k = Some r0"
      "r = (if k \<in> set ids then superseded (jo_now io) rev_no r0 else r0)"
      by (auto simp: fold_close_stale_get)
    have "k \<in> set ids" if "same_slot tid p r0"
      
    proof -
      have "rv_id r0 = k" using keyed r0(1) by (auto simp: well_keyed_def)
      then have "r0 \<in> set (bt_values (jr_reservations j))" using well_keyed_values [OF keyed] r0(1) by blast
      then show ?thesis using that \<open>rv_id r0 = k\<close> by (force simp: ids)
    qed
    then show ?thesis using r0(2) by (auto simp: same_slot_def slot_def)
  qed
  have "one_open (bt_insert rid (new_reservation io tid rev_no request p) ?rs)"
  proof (rule one_open_add)
    show "one_open ?rs" by (rule fold_close_stale_one_open [OF one])
    show "slot s \<noteq> slot (new_reservation io tid rev_no request p)" if "bt_get ?rs k = Some s" "is_open s" for k s
      using free [OF that(1)] that(2) by (simp add: new_reservation_def slot_def)
  qed
  moreover have "well_keyed (bt_insert rid (new_reservation io tid rev_no request p) ?rs)"
    by (rule well_keyed_insert) (simp_all add: fold_close_stale_keyed keyed new_reservation_def rid)
  ultimately show ?thesis using persist_ok [OF assms(2) _ _ p] by simp
qed

lemma close_Inr:
  "close_reservation E io rid res e j = Inr j' \<longleftrightarrow>
     (\<exists>r. bt_get (jr_reservations j) rid = Some r \<and> is_open r \<and>
        persist_journal E io (j\<lparr>jr_reservations :=
          bt_insert rid (closed_as (jo_now io) res e r) (jr_reservations j)\<rparr>) = Inr j')"
  by (auto simp: close_reservation_def)

lemma close_ok:
  assumes "close_reservation E io rid res e j = Inr j'" "journal_ok E j"
  shows "journal_ok E j'"
proof -
  from assms(1) obtain r where r: "bt_get (jr_reservations j) rid = Some r" and
    p: "persist_journal E io (j\<lparr>jr_reservations :=
      bt_insert rid (closed_as (jo_now io) res e r) (jr_reservations j)\<rparr>) = Inr j'"
    by (auto simp: close_Inr)
  have "well_keyed (bt_insert rid (closed_as (jo_now io) res e r) (jr_reservations j))"
    using assms(2) r by (intro well_keyed_insert) (auto simp: journal_ok_def well_keyed_def)
  moreover have "one_open (bt_insert rid (closed_as (jo_now io) res e r) (jr_reservations j))"
    using assms(2) r by (intro one_open_close) (auto simp: journal_ok_def)
  ultimately show ?thesis using persist_ok [OF assms(2) _ _ p] by simp
qed

lemmas close_variants = release_def release_failed_def close_released_def close_reservation_needs_rerun_def

interpretation journal_machine: invariant_machine "journal_step E" "journal_ok E" for E
proof unfold_locales
  fix j op j' assume ok: "journal_ok E j" and s: "journal_step E j op = Inr j'"
  show "journal_ok E j'"
  proof (cases "jq_request op")
    case (Reserve tid rev_no request p)
    then show ?thesis using s ok by (auto simp: journal_step_def intro: reserve_ok)
  qed (use s ok close_ok in \<open>auto simp: journal_step_def close_variants\<close>)
qed

text \<open>C15: The journal never locks itself out: whatever reservations, releases and failures were requested
  and whichever writes failed, the journal on disk passes every check of a restart (schema version,
  keys, digest) and loads unchanged, and no task has two open reservations for one producer.\<close>

theorem served_journal_loads:
  fixes E ops
  defines "j \<equiv> serve (journal_step E) (default_journal E) ops"
  shows "load_journal E j = Inr j \<and> distinct (map (\<lambda>r. (rv_task_id r, rv_producer r)) (open_reservations j))"
proof -
  have ok: "journal_ok E j" unfolding j_def by (rule journal_machine.serve_inv [OF default_journal_ok])
  then have "distinct (map slot (open_reservations j))"
    using one_open_distinct by (simp add: journal_ok_def open_reservations_def)
  then show ?thesis using journal_ok_loads [OF ok] by (simp add: slot_def [abs_def])
qed

section \<open>What an operation does to one reservation\<close>

lemma stale_ids_open:
  assumes "well_keyed rs" "k \<in> set (map rv_id (filter (same_slot tid p) (bt_values rs)))"
  obtains s where "bt_get rs k = Some s" "is_open s" "slot s = (tid, p)"
  using assms by (auto simp: same_slot_def slot_def well_keyed_values [OF assms(1)])

lemma reserve_get:
  assumes "reserve E io tid rev_no request p j = Inr (j', rid)" "well_keyed (jr_reservations j)"
  shows "bt_get (jr_reservations j') k =
    (if k = rid then Some (new_reservation io tid rev_no request p)
     else map_option (\<lambda>r. if is_open r \<and> slot r = (tid, p) then superseded (jo_now io) rev_no r else r)
       (bt_get (jr_reservations j) k))"
proof -
  obtain ids where ids: "ids = map rv_id (filter (same_slot tid p) (bt_values (jr_reservations j)))"
    and w: "persist_journal E io (j\<lparr>jr_reservations := bt_insert rid (new_reservation io tid rev_no request p)
       (fold (close_stale (jo_now io) rev_no) ids (jr_reservations j))\<rparr>) = Inr j'"
    using reserve_Inr [OF assms] by metis
  note j' = persisted_reservations [OF w, simplified]
  have "k \<in> set ids \<longleftrightarrow> is_open r \<and> slot r = (tid, p)" if "bt_get (jr_reservations j) k = Some r" for r
  proof
    assume "k \<in> set ids"
    then show "is_open r \<and> slot r = (tid, p)"
      using stale_ids_open [OF assms(2), of k tid p] that by (metis ids option.inject)
  next
    assume open_r: "is_open r \<and> slot r = (tid, p)"
    have "rv_id r = k" using assms(2) that by (auto simp: well_keyed_def)
    then have "r \<in> set (bt_values (jr_reservations j))" using well_keyed_values [OF assms(2)] that by blast
    then show "k \<in> set ids" using open_r \<open>rv_id r = k\<close> by (force simp: ids same_slot_def slot_def)
  qed
  then show ?thesis
    by (cases "bt_get (jr_reservations j) k") (simp_all add: j' bt_get_insert fold_close_stale_get)
qed

lemma reserve_fresh_slot:
  "reserve E io tid rev_no request p j = Inr (j', rid) \<Longrightarrow> rid = new_reservation_id io"
  by (auto simp: reserve_def Let_def)

lemma close_get:
  assumes "close_reservation E io rid res e j = Inr j'"
  obtains r where "bt_get (jr_reservations j) rid = Some r" "is_open r"
    "\<And>k. bt_get (jr_reservations j') k =
       (if k = rid then Some (closed_as (jo_now io) res e r) else bt_get (jr_reservations j) k)"
  using assms by (auto simp: close_Inr bt_get_insert dest!: persisted_reservations)

lemma step_keeps_closed:
  assumes "journal_ok E j" "journal_step E j op = Inr j'" "bt_get (jr_reservations j) k = Some r" "\<not> is_open r"
    and "new_reservation_id (jq_io op) \<noteq> k"
  shows "bt_get (jr_reservations j') k = Some r"
proof (cases "jq_request op")
  case (Reserve tid rev_no request p)
  then obtain rid where "reserve E (jq_io op) tid rev_no request p j = Inr (j', rid)"
    using assms(2) by (auto simp: journal_step_def)
  then show ?thesis
    using reserve_get [of E "jq_io op" tid rev_no request p j j' rid k] reserve_fresh_slot assms
    by (auto simp: journal_ok_def)
qed (use assms in \<open>auto simp: journal_step_def close_variants elim!: close_get split: if_splits\<close>)

lemma serve_keeps_closed:
  assumes "journal_ok E j" "bt_get (jr_reservations j) k = Some r" "\<not> is_open r"
    and "list_all (\<lambda>op. new_reservation_id (jq_io op) \<noteq> k) ops"
  shows "bt_get (jr_reservations (serve (journal_step E) j ops)) k = Some r"
  using assms
proof (induction ops arbitrary: j)
  case (Cons op ops)
  have "bt_get (jr_reservations (attempt (journal_step E) j op)) k = Some r"
    by (cases rule: attempt_cases [of "journal_step E" j op])
      (use Cons.prems step_keeps_closed in \<open>auto\<close>)
  then show ?case using Cons journal_machine.attempt_inv by simp
qed simp

text \<open>The record of an attempt is final: once a reservation is closed, with whatever outcome, no later
  reservation, release or reconciliation changes it.  The identifiers drawn later must not repeat its
  own.\<close>

theorem closed_reservation_is_final:
  assumes "bt_get (jr_reservations (serve (journal_step E) (default_journal E) earlier)) k = Some r" "\<not> is_open r"
    and "list_all (\<lambda>op. new_reservation_id (jq_io op) \<noteq> k) later"
  shows "bt_get (jr_reservations (serve (journal_step E) (default_journal E) (earlier @ later))) k = Some r"
  unfolding serve_append
  by (rule serve_keeps_closed [OF journal_machine.serve_inv [OF default_journal_ok] assms])

section \<open>Reconciliation\<close>

definition interrupted :: "(rstr \<Rightarrow> reconcile_io) \<Rightarrow> reservation \<Rightarrow> reservation" where
  "interrupted ios r = closed_as (jo_now (ri_journal (ios (rv_id r)))) (NeedsRerun interrupted_reason) EffectUnknown r"

lemma interrupted_fields [simp]: "rv_id (interrupted ios r) = rv_id r" "is_open (interrupted ios r) = False"
  by (simp_all add: interrupted_def)

lemma close_succeeds:
  assumes "bt_get (jr_reservations j) rid = Some r" "is_open r" "jo_write io = Inr ()"
  obtains j' where "close_reservation E io rid res e j = Inr j'"
    "\<And>k. bt_get (jr_reservations j') k =
       (if k = rid then Some (closed_as (jo_now io) res e r) else bt_get (jr_reservations j) k)"
  using assms by (auto simp: close_reservation_def persist_journal_def Let_def bt_get_insert)

lemma reconcile_each_closes:
  assumes "\<And>k. jo_write (ri_journal (ios k)) = Inr ()" "journal_ok E j"
    and "distinct (map rv_id rs)" "\<And>r. r \<in> set rs \<Longrightarrow> bt_get (jr_reservations j) (rv_id r) = Some r \<and> is_open r"
  shows "\<exists>j' d'. reconcile_each E S ios rs j d = (Inr (), j', d') \<and> journal_ok E j' \<and>
    (\<forall>k. bt_get (jr_reservations j') k = map_option (\<lambda>r. if k \<in> rv_id ` set rs then interrupted ios r else r)
       (bt_get (jr_reservations j) k))"
  using assms(2-)
proof (induction rs arbitrary: j d)
  case Nil
  then show ?case by (simp add: option.map_ident)
next
  case (Cons r rs)
  let ?io = "ri_journal (ios (rv_id r))"
  have r: "bt_get (jr_reservations j) (rv_id r) = Some r" "is_open r" using Cons.prems(3) by auto
  obtain j1 where j1: "close_reservation E ?io (rv_id r) (NeedsRerun interrupted_reason) EffectUnknown j = Inr j1"
    "\<And>k. bt_get (jr_reservations j1) k = (if k = rv_id r then Some (interrupted ios r) else bt_get (jr_reservations j) k)"
    using close_succeeds [OF r, of ?io E "NeedsRerun interrupted_reason" EffectUnknown] assms(1)
    unfolding interrupted_def by metis
  have rest: "bt_get (jr_reservations j1) (rv_id s) = Some s \<and> is_open s" if "s \<in> set rs" for s
  proof -
    have "rv_id s \<noteq> rv_id r" using Cons.prems(2) imageI [OF that, of rv_id] by auto
    then show ?thesis using Cons.prems(3) [of s] j1(2) that by simp
  qed
  have tail: "distinct (map rv_id rs)" using Cons.prems(2) by simp
  obtain j' d' where j': "reconcile_each E S ios rs j1
      (snd (note_producer_reservation_interrupted E S (ri_ambient (ios (rv_id r))) (ri_memory (ios (rv_id r))) r
        interrupted_reason d)) = (Inr (), j', d')" "journal_ok E j'"
    "\<forall>k. bt_get (jr_reservations j') k = map_option (\<lambda>r. if k \<in> rv_id ` set rs then interrupted ios r else r)
       (bt_get (jr_reservations j1) k)"
    using Cons.IH [OF close_ok [OF j1(1) Cons.prems(1)] tail rest] by blast
  have "bt_get (jr_reservations j') k = map_option (\<lambda>s. if k \<in> rv_id ` set (r # rs) then interrupted ios s else s)
      (bt_get (jr_reservations j) k)" for k
    using j'(3) j1(2) Cons.prems(2) r(1) by auto
  moreover have "reconcile_each E S ios (r # rs) j d = (Inr (), j', d')"
    using j1(1) j'(1) by (simp add: close_reservation_needs_rerun_def Let_def)
  ultimately show ?case using j'(2) by blast
qed

lemma open_ids_distinct: "well_keyed rs \<Longrightarrow> distinct (map rv_id (filter is_open (bt_values rs)))"
proof -
  assume k: "well_keyed rs"
  then have "map rv_id (bt_values rs) = map fst rs"
    using well_keyed_pairs by (auto simp: bt_values_def)
  then show ?thesis using k by (metis bt_wf_distinct distinct_map_filter well_keyed_def)
qed

lemma reconcile_closes:
  assumes "journal_ok E j" "\<And>k. jo_write (ri_journal (ios k)) = Inr ()"
  obtains j' d' where "reconcile_producer_reservations E S ios j d = (Inr (), j', d')" "journal_ok E j'"
    "\<And>k. bt_get (jr_reservations j') k =
       map_option (\<lambda>r. if is_open r then interrupted ios r else r) (bt_get (jr_reservations j) k)"
proof -
  have keyed: "well_keyed (jr_reservations j)" using assms(1) by (simp add: journal_ok_def)
  have mem: "r \<in> set (open_reservations j) \<longleftrightarrow> bt_get (jr_reservations j) (rv_id r) = Some r \<and> is_open r" for r
    using well_keyed_values [OF keyed, of r] by (auto simp: open_reservations_def)
  have "\<exists>j' d'. reconcile_each E S ios (open_reservations j) j d = (Inr (), j', d') \<and> journal_ok E j' \<and>
    (\<forall>k. bt_get (jr_reservations j') k = map_option
       (\<lambda>r. if k \<in> rv_id ` set (open_reservations j) then interrupted ios r else r) (bt_get (jr_reservations j) k))"
    by (rule reconcile_each_closes)
      (use assms mem open_ids_distinct [OF keyed] in \<open>simp_all add: open_reservations_def [symmetric]\<close>)
  then obtain j' d' where j': "reconcile_producer_reservations E S ios j d = (Inr (), j', d')" "journal_ok E j'"
    "\<And>k. bt_get (jr_reservations j') k = map_option
       (\<lambda>r. if k \<in> rv_id ` set (open_reservations j) then interrupted ios r else r) (bt_get (jr_reservations j) k)"
    unfolding reconcile_producer_reservations_def by blast
  have "k \<in> rv_id ` set (open_reservations j) \<longleftrightarrow> is_open r" if "bt_get (jr_reservations j) k = Some r" for k r
  proof -
    have "rv_id r = k" using keyed that by (auto simp: well_keyed_def)
    then have "is_open r \<Longrightarrow> k \<in> rv_id ` set (open_reservations j)" using mem [of r] that by blast
    moreover have "s = r" if "s \<in> set (open_reservations j)" "rv_id s = k" for s
      using mem [of s] that \<open>bt_get (jr_reservations j) k = Some r\<close> by simp
    then have "k \<in> rv_id ` set (open_reservations j) \<Longrightarrow> is_open r" using mem by blast
    ultimately show ?thesis by blast
  qed
  then have "bt_get (jr_reservations j') k = map_option (\<lambda>r. if is_open r then interrupted ios r else r)
      (bt_get (jr_reservations j) k)" for k
    by (cases "bt_get (jr_reservations j) k") (simp_all add: j'(3))
  then show ?thesis using that [OF j'(1,2)] by blast
qed

lemma none_open:
  assumes "journal_ok E j" "\<And>k r. bt_get (jr_reservations j) k = Some r \<Longrightarrow> \<not> is_open r"
  shows "open_reservations j = []"
  using assms bt_values_get [of "jr_reservations j"]
  by (auto simp: open_reservations_def filter_empty_conv journal_ok_def well_keyed_def)

lemma free_slot_reserves:
  assumes "\<And>r. r \<in> set (open_reservations j) \<Longrightarrow> slot r \<noteq> (tid, p)" "jo_write io = Inr ()"
  shows "\<exists>j' rid. reserve E io tid rev_no request p j = Inr (j', rid)"
proof -
  have "stale_reservations tid rev_no p (bt_values (jr_reservations j)) = Inr []"
    using assms(1) by (auto simp: stale_reservations_Inr open_reservations_def same_slot_def slot_def
        filter_empty_conv)
  then show ?thesis using assms(2) by (simp add: reserve_def persist_journal_def Let_def)
qed

text \<open>C18: A crash never blocks a producer for good: whatever the journal went through, reconciling at the
  next startup (with its writes succeeding) closes every reservation that was left open, as needing a
  rerun with an unknown effect and never as failed, keeps every closed one, and afterwards any request
  can reserve any slot at any revision.  What happens to the notes on the tasks does not matter.\<close>

theorem restart_frees_every_slot:
  assumes "j = serve (journal_step E) (default_journal E) ops" "\<And>k. jo_write (ri_journal (ios k)) = Inr ()"
    and "jo_write io = Inr ()"
  shows "\<exists>j' d'. reconcile_producer_reservations E S ios j d = (Inr (), j', d') \<and> open_reservations j' = [] \<and>
    (\<forall>k. bt_get (jr_reservations j') k = map_option (\<lambda>r. if is_open r
        then closed_as (jo_now (ri_journal (ios (rv_id r)))) (NeedsRerun interrupted_reason) EffectUnknown r else r)
      (bt_get (jr_reservations j) k)) \<and>
    (\<exists>j'' rid. reserve E io tid rev_no request p j' = Inr (j'', rid))"
proof -
  have ok: "journal_ok E j" unfolding assms(1) by (rule journal_machine.serve_inv [OF default_journal_ok])
  obtain j' d' where j': "reconcile_producer_reservations E S ios j d = (Inr (), j', d')" "journal_ok E j'"
    "\<And>k. bt_get (jr_reservations j') k =
       map_option (\<lambda>r. if is_open r then interrupted ios r else r) (bt_get (jr_reservations j) k)"
    by (rule reconcile_closes [OF ok, of ios S d]) (rule assms(2), blast)
  have "open_reservations j' = []"
  proof (rule none_open [OF j'(2)])
    show "\<not> is_open r" if "bt_get (jr_reservations j') k = Some r" for k r
      using that [unfolded j'(3)] by (auto split: if_splits) (metis interrupted_fields(2))
  qed
  then show ?thesis
    using j'(1) j'(3) [unfolded interrupted_def] free_slot_reserves [of j' tid p io E rev_no request] assms(3)
    by auto
qed

end
