(* ===== verification/Daemon_Properties.thy ===== *)
theory Daemon_Properties
  imports Daemon_Machine Reservation_Properties
begin

text \<open>
  End-to-end properties of the daemon's governed endpoints: who can decide, where evidence comes from,
  and what the reservation journal says about a producer's effect.
\<close>

section \<open>Authority\<close>

definition authority :: "run \<Rightarrow> bool \<times> decision_record list \<times> promotion_record list \<times> staged_record option \<times> nat" where
  "authority t = (is_accepted t, operator_decisions t, promotions t, staged_worktree t, lease_generation t)"

definition authority_at ::
    "ledger \<Rightarrow> rstr \<Rightarrow> bool \<times> decision_record list \<times> promotion_record list \<times> staged_record option \<times> nat" where
  "authority_at l k = (case bt_get (tasks l) k of Some t \<Rightarrow> authority t | None \<Rightarrow> (False, [], [], None, 0))"

lemma verdict_never_accepts: "review_after_verdict v \<noteq> Accepted"
  by (cases v) simp_all

lemma transition_authority:
  "transition E ctx r t m u \<Longrightarrow> gated_mutation m False = None \<Longrightarrow> authority u = authority t"
  by (induction rule: transition.induct)
    (auto simp: authority_def is_accepted_def push_event_def gated_mutation_def lease_generation_def
      claim_admissible_def new_event_def verdict_never_accepts)

lemma settle_authority [simp]: "authority (settle t now u) = authority u"
  by (simp add: authority_def is_accepted_def settle_def lease_generation_def)

lemma step_authority:
  "run_step E t op = Inr t' \<Longrightarrow> gated_mutation (lo_mutation op) False = None \<Longrightarrow> authority t' = authority t"
  by (auto elim!: run_stepE dest: transition_authority)

lemma initial_authority: "authority (initial_run r now uuid) = (False, [], [], None, 0)"
  by (simp add: authority_def is_accepted_def initial_run_def lease_generation_def registration_event_def)

definition powerless :: "ledger_op \<Rightarrow> bool" where
  "powerless op = (case lq_request op of Register _ \<Rightarrow> True | Mutate q _ \<Rightarrow> gated_mutation (mr_mutation q) False = None)"

lemma powerless_step:
  assumes "ledger_step E S l op = Inr l'" "ledger_wf l" "powerless op"
  shows "authority_at l' k = authority_at l k"
  using assms(1)
proof (cases rule: ledger_stepE)
  case (registered r0 r t)
  have "run_id t = rg_task_id r0" using registered(2) by (auto simp: registered(5) initial_run_def registered_as_def)
  moreover have "authority t = (False, [], [], None, 0)" by (simp add: registered(5) initial_authority)
  ultimately show ?thesis
    using registered(4) unfolding registered(6) by (simp add: authority_at_def bt_simps)
next
  case (mutated q auth t u)
  have id: "run_id u = mr_task_id q"
    using mutated(2,4) assms(2) by (auto simp: admitted_def ledger_wf_def dest: run_step_fields)
  have "authority u = authority t"
    using step_authority [OF mutated(4)] assms(3) mutated(1) by (simp add: powerless_def op_of_def)
  then show ?thesis
    using mutated(2,5) id by (simp add: authority_at_def bt_simps admitted_def)
qed simp

interpretation powerless_ledger: invariant_machine
    "\<lambda>l op. if powerless op then ledger_step E S l op else Inl (Anyhow [])"
    "\<lambda>l. ledger_wf l \<and> authority_at l k = a" for E S k a
  by unfold_locales (auto split: if_splits simp: powerless_step dest: ledger_machine.step_inv)

lemma serve_restricted:
  "list_all P ops \<Longrightarrow> serve step l ops = serve (\<lambda>l op. if P op then step l op else Inl e) l ops"
  by (induction ops arbitrary: l) (simp_all add: attempt_def)

lemma powerless_drives:
  assumes "drives E S powerless l l'" "ledger_wf l"
  shows "ledger_wf l'" "authority_at l' k = authority_at l k"
proof -
  obtain ops where ops: "list_all powerless ops" "l' = serve (ledger_step (env.truncate E) S) l ops"
    using assms(1) by (auto simp: drives_def)
  have "serve (ledger_step (env.truncate E) S) l ops =
      serve (\<lambda>l op. if powerless op then ledger_step (env.truncate E) S l op else Inl (Anyhow [])) l ops"
    by (rule serve_restricted [OF ops(1)])
  moreover have "ledger_wf (serve (\<lambda>l op. if powerless op then ledger_step (env.truncate E) S l op else Inl (Anyhow [])) l ops) \<and>
      authority_at (serve (\<lambda>l op. if powerless op then ledger_step (env.truncate E) S l op else Inl (Anyhow [])) l ops) k =
      authority_at l k"
    by (rule powerless_ledger.serve_inv) (simp add: assms(2))
  ultimately have "ledger_wf l' \<and> authority_at l' k = authority_at l k" unfolding ops(2) by simp
  then show "ledger_wf l'" "authority_at l' k = authority_at l k" by simp_all
qed

lemma driven_powerless:
  assumes "driven E S W NonOperator request d op"
  shows "powerless op"
proof (cases request)
  case (MutateGovernedTask q)
  then have q: "lq_request op = Mutate q Declared" "admit_mutation S q NonOperator d = Inr ()"
    using assms by (simp_all add: driven_def)
  from q(2) have "gated_mutation (mr_mutation q) False = None"
    by (cases "mr_mutation q")
      (auto simp: admit_mutation_def authorize_governed_mutation_def gated_mutation_def
        mutation_authorization_needs_profile_def)
  then show ?thesis by (simp add: powerless_def q(1))
qed (use assms in \<open>auto simp: driven_def powerless_def claim_mutation_def producer_mutation_def gated_mutation_def\<close>)

lemma non_operator_request:
  assumes "process_request E S io W NonOperator request s = (reply, s')" "ledger_wf (du_ledger (dm_durable s))"
  shows "ledger_wf (du_ledger (dm_durable s'))"
    "authority_at (du_ledger (dm_durable s')) k = authority_at (du_ledger (dm_durable s)) k"
  using powerless_drives [OF drives_mono [OF request_drives [OF assms(1)] driven_powerless] assms(2)] by simp_all

text \<open>Where the capability was never presented correctly, the connection stays without authority.\<close>

definition presents_capability :: "operator_capability option \<Rightarrow> connection_provenance \<Rightarrow> socket_call \<Rightarrow> bool" where
  "presents_capability cap p call =
     (case sk_request call of
        PresentOperatorCapability token \<Rightarrow> cp_peer_uid p = Some (cp_daemon_uid p) \<and>
          (case cap of Some c \<Rightarrow> matches c token | None \<Rightarrow> False)
      | GovernedRequest _ \<Rightarrow> False)"

lemma unpresented_step:
  assumes "cp_class p = NonOperator" "\<not> presents_capability cap p call" "ledger_wf (du_ledger (dm_durable s))"
    and "socket_step E S cap (p, s) call = (p', s')"
  shows "p' = p" "ledger_wf (du_ledger (dm_durable s'))"
    "authority_at (du_ledger (dm_durable s')) k = authority_at (du_ledger (dm_durable s)) k"
proof -
  have "p' = p \<and> ledger_wf (du_ledger (dm_durable s')) \<and>
    authority_at (du_ledger (dm_durable s')) k = authority_at (du_ledger (dm_durable s)) k"
  proof (cases "sk_request call")
    case (PresentOperatorCapability token)
    then have "present_capability token cap p \<noteq> Inr x" for x
      using assms(2) by (auto simp: presents_capability_def present_capability_def)
    then show ?thesis
      using assms(3,4) PresentOperatorCapability by (auto simp: socket_step_def split: sum.splits)
  next
    case (GovernedRequest request)
    then obtain reply where "process_request E S (sk_io call) (sk_world call) NonOperator request s = (reply, s')"
      using assms(1,4) by (cases "process_request E S (sk_io call) (sk_world call) NonOperator request s")
        (auto simp: socket_step_def)
    from non_operator_request [OF this assms(3)]
    have "ledger_wf (du_ledger (dm_durable s')) \<and>
        authority_at (du_ledger (dm_durable s')) k = authority_at (du_ledger (dm_durable s)) k" by simp
    then show ?thesis using assms(4) GovernedRequest by (simp add: socket_step_def)
  qed
  then show "p' = p" "ledger_wf (du_ledger (dm_durable s'))"
    "authority_at (du_ledger (dm_durable s')) k = authority_at (du_ledger (dm_durable s)) k" by simp_all
qed

text \<open>C2: Only an operator connection decides: on a connection that never presents this daemon run's
  capability from the daemon's own uid, whatever requests it sends and whatever the producers find, no
  task becomes or stops being accepted, and no operator decision, promotion, worktree record or lease
  generation of any task changes.  In particular a launched Builder cannot accept its own work.\<close>

theorem only_operator_connections_decide:
  assumes "cp_class p = NonOperator" "list_all (\<lambda>call. \<not> presents_capability cap p call) calls"
    and "ledger_wf (du_ledger (dm_durable s))" "serve_connection E S cap (p, s) calls = (p', s')"
  shows "cp_class p' = NonOperator \<and>
    authority_at (du_ledger (dm_durable s')) k = authority_at (du_ledger (dm_durable s)) k"
  using assms
proof (induction calls arbitrary: s)
  case (Cons call calls)
  obtain p1 s1 where s1: "socket_step E S cap (p, s) call = (p1, s1)" by force
  have step: "p1 = p" "ledger_wf (du_ledger (dm_durable s1))"
    "authority_at (du_ledger (dm_durable s1)) k = authority_at (du_ledger (dm_durable s)) k"
    using unpresented_step [OF _ _ _ s1] Cons.prems(1,2,3) by auto
  show ?case using Cons.IH [of s1] Cons.prems step s1 by (simp add: serve_connection_def)
qed (simp add: serve_connection_def)

section \<open>Where evidence comes from\<close>

definition records_verification :: "verification_input \<Rightarrow> verification_record \<Rightarrow> bool" where
  "records_verification i v \<longleftrightarrow> vf_actor v = vi_actor i \<and> vf_claim_id v = vi_claim_id i \<and>
     vf_subject v = vi_subject i \<and> vf_policy v = vi_policy i \<and> vf_outcome v = vi_outcome i \<and>
     vf_commands v = vi_commands i \<and> vf_notes v = vi_notes i"

definition sends_verification :: "rstr \<Rightarrow> verification_record \<Rightarrow> ledger_op \<Rightarrow> bool" where
  "sends_verification k v op \<longleftrightarrow> (\<exists>q auth i. lq_request op = Mutate q auth \<and> mr_task_id q = k \<and>
     mr_mutation q = RecordVerification i \<and> records_verification i v)"

lemma new_verification_source:
  "transition E ctx r t m u \<Longrightarrow> v \<in> set (verifications u) \<Longrightarrow> v \<notin> set (verifications t) \<Longrightarrow>
   \<exists>i. m = RecordVerification i \<and> records_verification i v"
  by (induction rule: transition.induct) (auto simp: push_event_def records_verification_def)

lemma ledger_verification_source:
  assumes "ledger_step E S l op = Inr l'" "ledger_wf l" "bt_get (tasks l') k = Some t'" "v \<in> set (verifications t')"
  shows "(\<exists>t. bt_get (tasks l) k = Some t \<and> v \<in> set (verifications t)) \<or> sends_verification k v op"
  using assms(1)
proof (cases rule: ledger_stepE)
  case (registered r0 r t)
  then show ?thesis using assms by (cases "k = run_id t") (auto simp: bt_simps initial_run_def)
next
  case (mutated q auth t u)
  have id: "run_id u = mr_task_id q"
    using mutated(2,4) assms(2) by (auto simp: admitted_def ledger_wf_def dest: run_step_fields)
  show ?thesis
  proof (cases "k = mr_task_id q")
    case True
    then have "t' = u" using mutated(5) id assms(3) by (simp add: bt_simps)
    then have "v \<in> set (verifications t) \<or> (\<exists>i. mr_mutation q = RecordVerification i \<and> records_verification i v)"
      using mutated(4) assms(4) by (auto elim!: run_stepE dest: new_verification_source simp: op_of_def)
    then show ?thesis
      using mutated(1,2) True by (auto simp: admitted_def sends_verification_def)
  next
    case False
    then show ?thesis using mutated(5) id assms(3,4) by (simp add: bt_simps)
  qed
qed (use assms in blast)

lemma served_verification_source:
  assumes "ledger_wf l" "bt_get (tasks (serve (ledger_step E S) l ops)) k = Some t'" "v \<in> set (verifications t')"
  shows "(\<exists>t. bt_get (tasks l) k = Some t \<and> v \<in> set (verifications t)) \<or> (\<exists>op \<in> set ops. sends_verification k v op)"
  using assms(2,3)
proof (induction ops arbitrary: t' rule: rev_induct)
  case (snoc op ops)
  let ?l = "serve (ledger_step E S) l ops"
  have wf: "ledger_wf ?l" by (rule ledger_machine.serve_inv [OF assms(1)])
  show ?case
  proof (cases "ledger_step E S ?l op")
    case (Inl e)
    then show ?thesis using snoc by (auto simp: serve_append)
  next
    case (Inr l')
    then have "bt_get (tasks l') k = Some t'" using snoc.prems(1) by (simp add: serve_append)
    from ledger_verification_source [OF Inr wf this snoc.prems(2)] snoc.IH show ?thesis by auto
  qed
qed (auto)

lemma driven_verification:
  assumes "driven E S W c request d op" "sends_verification k v op"
    and "bt_get (tasks (du_ledger d)) k = Some t" "verification_profile t \<noteq> None"
  shows "\<exists>r i. request = RunGovernedVerification r \<and> run_verification E (wo_verification W) t = Inr i \<and>
    records_verification i v"
proof (cases request)
  case (MutateGovernedTask q)
  then show ?thesis
    using assms by (auto simp: driven_def sends_verification_def admit_mutation_def profiled_evidence_def
        current_task_Inr bail_if_def split: if_splits)
qed (use assms in \<open>auto simp: driven_def sends_verification_def claim_mutation_def producer_mutation_def
      materializing_def materialization_request_def discard_mutation_def\<close>)

section \<open>What a passed verification means\<close>

lemma run_steps_success:
  "run_steps f steps = Inr ocs \<Longrightarrow> list_all (ce_success \<circ> oc_evidence) ocs \<Longrightarrow> map f steps = map Inr ocs"
  by (induction f steps arbitrary: ocs rule: run_steps.induct) (auto split: if_splits)

lemma verification_input_fields [simp]:
  "vi_outcome (verification_input_of p c outc cmds n) = outc" "vi_commands (verification_input_of p c outc cmds n) = cmds"
  "vi_subject (verification_input_of p c outc cmds n) = cl_subject c"
  "vi_claim_id (verification_input_of p c outc cmds n) = cl_id c"
  by (simp_all add: verification_input_of_def)

lemma passed_verification:
  assumes "run_verification E W t = Inr i" "vi_outcome i = Passed"
  obtains ocs claim profile initial where "latest_claim t = Some claim" "verification_profile t = Some profile"
    "initial_subject_revision t = Some initial"
    "map (vw_run W) (profile_steps profile) = map Inr ocs" "list_all (ce_success \<circ> oc_evidence) ocs"
    "vi_commands i = map oc_evidence ocs" "vi_subject i = cl_subject claim" "vi_claim_id i = cl_id claim"
    "observe_clean_git_subject (vw_before W) (Some initial) = Inr (cl_subject claim)"
    "observe_clean_git_subject (vw_source_after W) (Some initial) = Inr (cl_subject claim)"
    "observe_clean_git_subject (vw_detached_after W) (Some (cl_subject claim)) = Inr (cl_subject claim)"
proof -
  from assms(1) obtain profile initial claim where
    facts: "verification_profile t = Some profile" "initial_subject_revision t = Some initial" "latest_claim t = Some claim"
    "observe_clean_git_subject (vw_before W) (Some initial) = Inr (cl_subject claim)"
    and rest: "(case vw_lockfile W of
       Inl e \<Rightarrow> Inr (verification_input_of profile claim Inconclusive [] (error_text E e))
     | Inr _ \<Rightarrow> (case vw_manifest_before W of
           Inl e \<Rightarrow> Inr (verification_input_of profile claim Inconclusive [] (lit
             ''could not attest detached source bytes before verification: '' @ error_text E e))
         | Inr manifest \<Rightarrow> run_commands W profile initial claim manifest)) = Inr i"
    unfolding run_verification_def by auto
  obtain manifest where "run_commands W profile initial claim manifest = Inr i"
    using rest assms(2) by (cases "vw_lockfile W"; cases "vw_manifest_before W") auto
  then obtain ocs where run: "run_steps (vw_run W) (profile_steps profile) = Inr ocs"
    and i: "i = verification_input_of profile claim (verification_outcome_of (subject_stable W initial claim manifest)
      (map oc_evidence ocs)) (map oc_evidence ocs)
      (verification_notes profile (subject_stable W initial claim manifest) ocs)"
    unfolding run_commands_def Let_def by auto
  have ok: "subject_stable W initial claim manifest" "list_all (ce_success \<circ> oc_evidence) ocs"
    using assms(2) by (auto simp: i verification_outcome_of_def list_all_iff split: if_splits)
  show thesis
    by (rule that [OF facts(3,1,2) run_steps_success [OF run ok(2)] ok(2)])
      (use ok(1) facts(4) in \<open>simp_all add: i subject_stable_def\<close>)
qed

text \<open>C3: A passed verification of a profiled task is never a client's word: whenever a request leaves a
  profiled task with a verification it did not have before, the request asked the daemon to verify,
  and if that verification passed, then every command of the task's profile was run and succeeded,
  the record lists exactly those commands, and the subject the record names is the latest claim's,
  which was the clean commit of the source tree before and after the run and of the detached copy
  after it.\<close>

theorem passed_verification_was_run_by_daemon:
  assumes "process_request E S io W c request s = (reply, s')" "ledger_wf (du_ledger (dm_durable s))"
    and "bt_get (tasks (du_ledger (dm_durable s))) k = Some t" "verification_profile t = Some profile"
    and "bt_get (tasks (du_ledger (dm_durable s'))) k = Some t'" "v \<in> set (verifications t')"
    and "v \<notin> set (verifications t)" "vf_outcome v = Passed"
  shows "\<exists>r ocs claim initial. request = RunGovernedVerification r \<and> latest_claim t = Some claim \<and>
    initial_subject_revision t = Some initial \<and> vf_subject v = cl_subject claim \<and> vf_claim_id v = cl_id claim \<and>
    map (vw_run (wo_verification W)) (profile_steps profile) = map Inr ocs \<and>
    list_all (ce_success \<circ> oc_evidence) ocs \<and> vf_commands v = map oc_evidence ocs \<and>
    observe_clean_git_subject (vw_before (wo_verification W)) (Some initial) = Inr (vf_subject v) \<and>
    observe_clean_git_subject (vw_source_after (wo_verification W)) (Some initial) = Inr (vf_subject v) \<and>
    observe_clean_git_subject (vw_detached_after (wo_verification W)) (Some (vf_subject v)) = Inr (vf_subject v)"
proof -
  obtain ops where ops: "list_all (driven E S W c request (dm_durable s)) ops"
    "du_ledger (dm_durable s') = serve (ledger_step (env.truncate E) S) (du_ledger (dm_durable s)) ops"
    using request_drives [OF assms(1)] by (auto simp: drives_def)
  then obtain op where op: "op \<in> set ops" "sends_verification k v op"
    using served_verification_source [OF assms(2)] assms(3,5,6,7) by fastforce
  then obtain r i where i: "request = RunGovernedVerification r" "run_verification E (wo_verification W) t = Inr i"
    "records_verification i v"
    using driven_verification [of E S W c request "dm_durable s" op k v t] ops(1) assms(3,4) by (auto simp: list_all_iff)
  then have "vi_outcome i = Passed" using assms(8) by (simp add: records_verification_def)
  then obtain ocs claim profile' initial where
    f: "latest_claim t = Some claim" "verification_profile t = Some profile'" "initial_subject_revision t = Some initial"
    "map (vw_run (wo_verification W)) (profile_steps profile') = map Inr ocs" "list_all (ce_success \<circ> oc_evidence) ocs"
    "vi_commands i = map oc_evidence ocs" "vi_subject i = cl_subject claim" "vi_claim_id i = cl_id claim"
    "observe_clean_git_subject (vw_before (wo_verification W)) (Some initial) = Inr (cl_subject claim)"
    "observe_clean_git_subject (vw_source_after (wo_verification W)) (Some initial) = Inr (cl_subject claim)"
    "observe_clean_git_subject (vw_detached_after (wo_verification W)) (Some (cl_subject claim)) = Inr (cl_subject claim)"
    by (rule passed_verification [OF i(2)])
  have "profile' = profile" using f(2) assms(4) by simp
  then show ?thesis
    using i(1,3) f by (intro exI [of _ r] exI [of _ ocs] exI [of _ claim] exI [of _ initial])
      (simp add: records_verification_def)
qed

section \<open>The journal and the ledger\<close>

lemma mutation_leaves_receipt:
  assumes "mutate_governed_task_authenticated E S A q auth l = Inr (l', t)" "\<And>t. \<not> answered_cancel t (mr_mutation q)"
  shows "bt_get (processed_requests l') (mr_request_id q) \<noteq> None"
proof (cases "bt_get (processed_requests l) (mr_request_id q)")
  case None
  then show ?thesis
    using assms by (auto simp: mutate_governed_task_authenticated_def commit_def stamp_schema_version_def Let_def bt_simps)
next
  case (Some re)
  then show ?thesis using mutate_known(1) [OF Some assms(1)] by simp
qed

lemma persisted_receipt:
  assumes "persist_governed_mutation E S io q d = (Inr t, d')" "\<And>t. \<not> answered_cancel t (mr_mutation q)"
  shows "bt_get (processed_requests (du_ledger d')) (mr_request_id q) \<noteq> None"
  using assms(1) mutation_leaves_receipt [of "env.truncate E" S "dq_ambient io" q Declared "du_ledger d"] assms(2)
  by (auto simp: persist_governed_mutation_def mutate_durable_def mutate_and_hand_over_def
      split: sum.splits prod.splits if_splits)

lemma verification_receipt:
  "persist_governed_mutation E S io (producer_mutation r (RecordVerification i) g) d = (Inr t, d') \<Longrightarrow>
   bt_get (processed_requests (du_ledger d')) (pq_request_id r) \<noteq> None"
  using persisted_receipt [of E S io "producer_mutation r (RecordVerification i) g" d t d']
  by (simp add: producer_mutation_def answered_cancel_def)

lemma with_reservation_record:
  assumes "with_reservation_effect E io io' tid n request p f j d = (res, j', d')" "journal_ok E j"
    and "bt_get (jr_reservations j) (new_reservation_id io) = None"
    and "bt_get (jr_reservations j') (new_reservation_id io) = Some rv"
  shows "(\<exists>v receipt. f d = (Inr (v, receipt), d') \<and> reservation_effect_outcome rv \<in> {None, Some EffectConfirmed}) \<or>
    (\<exists>e. f d = (Inl (SideEffectFailed e), d') \<and> reservation_effect_outcome rv \<in> {None, Some EffectFailedKnown}) \<or>
    (\<exists>e. (f d = (Inl (ReceiptLost e), d') \<or> f d = (Inl (SideEffectDispatched e), d')) \<and>
       reservation_effect_outcome rv \<in> {None, Some EffectUnknown})"
proof (cases "reserve E io tid n request p j")
  case (Inl e)
  then show ?thesis using assms by (simp add: with_reservation_effect_def)
next
  case (Inr x)
  obtain j1 rid where x: "x = (j1, rid)" by (cases x)
  have rid: "rid = new_reservation_id io" by (rule reserve_fresh_slot [OF Inr [unfolded x]])
  have keyed: "well_keyed (jr_reservations j)" using assms(2) by (simp add: journal_ok_def)
  have new: "bt_get (jr_reservations j1) rid = Some (new_reservation io tid n request p)"
    using reserve_get [OF Inr [unfolded x] keyed, of rid] by simp
  have closing: "reservation_effect_outcome rv \<in> {None, Some e}"
    if "j' = keep_on_error (close_reservation E io' rid outc e j1) j1" for outc e
  proof (cases "close_reservation E io' rid outc e j1")
    case (Inl err)
    then have "rv = new_reservation io tid n request p" using that assms(4) new rid by (simp add: keep_on_error_def)
    then show ?thesis by (simp add: reservation_effect_outcome_def new_reservation_def)
  next
    case (Inr j2)
    then have "j' = j2" using that by (simp add: keep_on_error_def)
    then obtain r where "rv = closed_as (jo_now io') outc e r"
      using close_get [OF Inr] assms(4) rid by (metis option.inject)
    then show ?thesis by (simp add: reservation_effect_outcome_def)
  qed
  show ?thesis
    using assms(1) Inr x
    by (auto simp: with_reservation_effect_def close_variants split: prod.splits sum.splits side_effect_error.splits
        dest!: closing)
qed

text \<open>C9: The journal tells the truth about a verification: after a verification request, the reservation
  it took says \<open>confirmed\<close> only if the ledger holds the receipt of this very request, and says
  \<open>failed\<close> only if the ledger is untouched; whatever could not be recorded is unknown or still
  open.  An acknowledged verification has its receipt.  The identifier drawn must be new.\<close>

theorem journal_agrees_with_ledger:
  assumes "run_governed_verification E S io W r s = (res, s')"
    and "dm_journal s = serve (journal_step E) (default_journal E) earlier"
    and "bt_get (jr_reservations (dm_journal s)) (new_reservation_id (dq_reserve io)) = None"
    and "bt_get (jr_reservations (dm_journal s')) (new_reservation_id (dq_reserve io)) = Some rv"
  shows "(reservation_effect_outcome rv = Some EffectConfirmed \<longrightarrow>
      bt_get (processed_requests (du_ledger (dm_durable s'))) (pq_request_id r) \<noteq> None) \<and>
    (reservation_effect_outcome rv = Some EffectFailedKnown \<longrightarrow> dm_durable s' = dm_durable s) \<and>
    (is_ok res \<longrightarrow> bt_get (processed_requests (du_ledger (dm_durable s'))) (pq_request_id r) \<noteq> None)"
proof -
  have ok: "journal_ok E (dm_journal s)"
    unfolding assms(2) by (rule journal_machine.serve_inv [OF default_journal_ok])
  have changed: "dm_journal s' \<noteq> dm_journal s" using assms(3,4) by auto
  obtain t where t: "admit_producer S r ''governed verification producer requires a closed-loop task profile'' s = Inr (t, False)"
    "preflight_verification t = Inr ()"
  proof (cases "admit_producer S r ''governed verification producer requires a closed-loop task profile'' s")
    case (Inl e)
    then show ?thesis using assms(1) changed by (simp add: run_governed_verification_def)
  next
    case (Inr x)
    obtain t replay where x: "x = (t, replay)" by (cases x)
    have "\<not> replay"
    proof
      assume replay
      then have "dm_journal s' = dm_journal s"
        using assms(1) Inr x admit_producer_Inr(3) [OF Inr [unfolded x]]
          replay_producer_ledger(2) [of E S io _ r RecordVerification _ s res s' t]
        by (simp add: run_governed_verification_def)
      then show False using changed by simp
    qed
    moreover have "preflight_verification t = Inr ()"
      using assms(1) Inr x \<open>\<not> replay\<close> changed
      by (cases "preflight_verification t") (auto simp: run_governed_verification_def)
    ultimately show ?thesis using that Inr x by simp
  qed
  let ?built = "and_then (run_verification E W t) (\<lambda>v.
    Inr (producer_mutation r (RecordVerification v) (Some (lease_generation t))))"
  obtain res' j' d' where wr: "with_reservation_effect E (dq_reserve io) (dq_close io) (pq_task_id r)
      (pq_expected_revision r) (pq_request_id r) VerificationProducer (reserved_effect E S io ?built)
      (dm_journal s) (dm_durable s) = (res', j', d')"
    and s': "s' = \<lparr>dm_durable = d', dm_journal = j'\<rparr>" and res: "is_ok res = is_ok res'"
    using assms(1) t
    by (cases "with_reservation_effect E (dq_reserve io) (dq_close io) (pq_task_id r) (pq_expected_revision r)
        (pq_request_id r) VerificationProducer (reserved_effect E S io ?built) (dm_journal s) (dm_durable s)")
      (auto simp: run_governed_verification_def run_reserved_def reserved_producer_def is_ok_iff)
  have receipt: "bt_get (processed_requests (du_ledger d')) (pq_request_id r) \<noteq> None"
    if "reserved_effect E S io ?built (dm_durable s) = (Inr (v, rec), d')" for v rec
    using that by (cases "run_verification E W t")
      (auto simp: reserved_effect_def split: prod.splits sum.splits dest!: verification_receipt)
  have failed: "d' = dm_durable s"
    if "reserved_effect E S io ?built (dm_durable s) = (Inl (SideEffectFailed e), d')" for e
    using that by (cases "run_verification E W t") (auto simp: reserved_effect_def split: prod.splits sum.splits)
  have ack: "is_ok res' \<Longrightarrow> \<exists>v rec. reserved_effect E S io ?built (dm_durable s) = (Inr (v, rec), d')"
    using wr by (auto simp: with_reservation_effect_def split: prod.splits sum.splits side_effect_error.splits)
  show ?thesis
    using with_reservation_record [OF wr ok assms(3)] assms(4) receipt failed ack res by (auto simp: s')
qed

end
