(* ===== verification/Daemon_Recovery.thy ===== *)
theory Daemon_Recovery
  imports Daemon_Properties
begin

text \<open>
  What survives a crash of the daemon and a retry of its client: recorded work is not repeated, and a
  staged registration whose worktree could not be recorded.
\<close>

section \<open>Receipts survive a restart\<close>

lemma mutate_durable_keeps_receipt:
  assumes "mutate_durable E S A mio q auth d = (res, d')" "bt_get (processed_requests (du_ledger d)) rid = Some re"
  shows "bt_get (processed_requests (du_ledger d')) rid = Some re"
  unfolding mutate_durable_ledger [OF assms(1)] by (rule bound_request.attempt_inv [OF assms(2)])

lemma note_keeps_receipt:
  assumes "bt_get (processed_requests (du_ledger d)) rid = Some re"
  shows "bt_get (processed_requests (du_ledger (snd (note_producer_reservation_interrupted E S A mio r reason d)))) rid = Some re"
proof -
  have "bt_get (processed_requests l) rid = Some re"
    if "mutate_and_hand_over (memory_env.truncate E) S A mio q Declared (du_ledger d) (du_memory d) = (res, l, m)" for q res l m
    using mutate_durable_keeps_receipt [of E S A mio q Declared d "map_err DaemonTask res" "\<lparr>du_ledger = l, du_memory = m\<rparr>"]
      assms that by (simp add: mutate_durable_def)
  then show ?thesis
    using assms by (auto simp: note_producer_reservation_interrupted_def split: sum.splits prod.splits)
qed

lemma reconcile_each_keeps_receipt:
  "reconcile_each E S ios rs j d = (res, j', d') \<Longrightarrow> bt_get (processed_requests (du_ledger d)) rid = Some re \<Longrightarrow>
   bt_get (processed_requests (du_ledger d')) rid = Some re"
  by (induction E S ios rs j d rule: reconcile_each.induct)
    (auto simp: Let_def note_keeps_receipt split: sum.splits)

lemma recorded_state:
  assumes "bt_get (processed_requests (du_ledger d)) rid = Some re" "require_producer_request_state t rid n d = Inr replay"
  shows replay
  using assms by (auto simp: require_producer_request_state_def governed_producer_request_is_replay_def split: if_splits)

lemma recorded_verification_replays:
  assumes "bt_get (processed_requests (du_ledger (dm_durable s))) (pq_request_id r) = Some re"
    and "run_governed_verification E S io W r s = (res, s')"
  shows "run_governed_verification E S io W' r s = (res, s')" "du_ledger (dm_durable s') = du_ledger (dm_durable s)"
    "dm_journal s' = dm_journal s"
proof -
  have "run_governed_verification E S io W' r s = (res, s') \<and> du_ledger (dm_durable s') = du_ledger (dm_durable s) \<and>
    dm_journal s' = dm_journal s"
  proof (cases "admit_producer S r ''governed verification producer requires a closed-loop task profile'' s")
    case (Inl e)
    then show ?thesis using assms(2) by (auto simp: run_governed_verification_def)
  next
    case (Inr x)
    obtain t replay where x: "x = (t, replay)" by (cases x)
    note st = admit_producer_Inr(3) [OF Inr [unfolded x]]
    have replay by (rule recorded_state [OF assms(1) st])
    then show ?thesis
      using assms(2) Inr x st replay_producer_ledger [of E S io _ r RecordVerification _ s res s' t]
      by (auto simp: run_governed_verification_def)
  qed
  then show "run_governed_verification E S io W' r s = (res, s')" "du_ledger (dm_durable s') = du_ledger (dm_durable s)"
    "dm_journal s' = dm_journal s" by simp_all
qed

text \<open>C13: Recorded work is not repeated, even across a crash: once the ledger holds the receipt of a
  verification request, the daemon may die before it closes the reservation; after a restart (whatever
  its reconciliation does, succeeds at or fails at) the same request is answered without looking at the
  outside world, so no command is run again, and neither the ledger nor the journal changes.\<close>

theorem recorded_verification_is_not_rerun:
  assumes "bt_get (processed_requests (du_ledger d)) (pq_request_id r) = Some re"
    and "reconcile_producer_reservations E S ios j d = (res, j', d')" "s = \<lparr>dm_durable = d', dm_journal = j'\<rparr>"
    and "run_governed_verification E S io W r s = (ans, s')"
  shows "run_governed_verification E S io W' r s = (ans, s') \<and> du_ledger (dm_durable s') = du_ledger (dm_durable s) \<and>
    dm_journal s' = dm_journal s"
proof -
  have "bt_get (processed_requests (du_ledger (dm_durable s))) (pq_request_id r) = Some re"
    using reconcile_each_keeps_receipt assms(1,2,3) by (simp add: reconcile_producer_reservations_def)
  from recorded_verification_replays [OF this assms(4)] show ?thesis by simp
qed

section \<open>Staged registration\<close>

lemma register_replays:
  assumes "bt_get (processed_requests l) (rg_request_id r) = None" "register_governed_task E S A r l = Inr (l', t)"
  shows "register_governed_task E S A' r l' = Inr (l', t)" "bt_get (processed_requests l') (rg_request_id r) \<noteq> None"
    "governed_producer_request_is_replay (rg_request_id r) (rg_task_id r) l' = Inr True"
proof -
  obtain r1 where r1: "registered_as S r r1" "t = initial_run r1 (am_now A) (am_event_uuid A)"
    "l' = committed t (rg_request_id r) \<lparr>re_task_id = rg_task_id r, re_revision = 0,
       re_fingerprint = fingerprint_registration E r1\<rparr> l"
    by (rule register_fresh [OF assms])
  have id: "run_id t = rg_task_id r" "revision t = 0"
    using registered_as_fields [OF r1(1)] by (simp_all add: r1(2) initial_run_def)
  have "bt_get (processed_requests l') (rg_request_id r) = Some \<lparr>re_task_id = rg_task_id r, re_revision = 0,
      re_fingerprint = fingerprint_registration E r1\<rparr>" "bt_get (tasks l') (rg_task_id r) = Some t"
    by (simp_all add: r1(3) id bt_simps)
  moreover obtain root where "validate_registration r = Inr ()" "project_id r = governed_project_id S"
    "canonical_governed_workspace S (workspace_root r) = Inr root" "r1 = r\<lparr>workspace_root := root\<rparr>"
    using r1(1) by (auto simp: registered_as_def)
  ultimately show "register_governed_task E S A' r l' = Inr (l', t)" "bt_get (processed_requests l') (rg_request_id r) \<noteq> None"
    "governed_producer_request_is_replay (rg_request_id r) (rg_task_id r) l' = Inr True"
    by (simp_all add: register_governed_task_def require_project_def Let_def require_idempotent_fingerprint_def
        require_receipt_revision_def bail_unless_def id governed_producer_request_is_replay_def)
qed

lemma unwritten_mutation:
  assumes "bt_get (processed_requests (du_ledger d)) (mr_request_id q) = None" "am_write A = Inl m"
    and "\<And>t. \<not> answered_cancel t (mr_mutation q)"
  shows "\<exists>e. mutate_durable E S A mio q auth d = (Inl e, d)"
proof -
  have "\<exists>e. mutate_governed_task_authenticated (env.truncate E) S A q auth (du_ledger d) = Inl e"
  proof (cases "mutate_governed_task_authenticated (env.truncate E) S A q auth (du_ledger d)")
    case (Inr x)
    then show ?thesis using assms by (auto simp: mutate_governed_task_authenticated_def commit_def Let_def)
  qed simp
  then show ?thesis by (auto simp: mutate_durable_def mutate_and_hand_over_def)
qed

lemma unrecorded_worktree:
  assumes "bt_get (processed_requests (du_ledger d)) (lit ''staged-worktree-'' @ run_id t) = None"
    and "am_write (dq_ambient2 io) = Inl m"
  shows "\<exists>e. record_materialization E S io t staged d = (Inl e, d, None)"
proof (cases "governed_request_id (lit ''staged-worktree-'' @ run_id t)")
  case (Inr request_id)
  then have id: "request_id = lit ''staged-worktree-'' @ run_id t"
    by (auto simp: governed_request_id_def validate_open_id_def split: if_splits)
  have "\<exists>e. mutate_durable E S (dq_ambient2 io) (dq_memory io) (materialization_request t staged request_id) Declared d =
      (Inl e, d)"
    by (rule unwritten_mutation) (use assms id in \<open>simp_all add: materialization_request_def answered_cancel_def\<close>)
  then show ?thesis
    using Inr by (auto simp: record_materialization_def split: sum.splits)
qed (auto simp: record_materialization_def split: sum.splits)


end
