(* ===== verification/Daemon_Example.thy ===== *)
theory Daemon_Example
  imports Daemon_Recovery Memory_Properties
begin

text \<open>
  The example task of \<open>Governed_Example\<close> behind the daemon: a working tree Git reports as clean, a
  verification whose four commands pass, and a reservation journal.  The properties of the daemon are
  applied to it.
\<close>

section \<open>The surroundings\<close>

definition demo_daemon_env :: journal_env where
  "demo_daemon_env = memory_env.extend demo_memory_env
     \<lparr>reservation_bytes = (\<lambda>rs. [length rs]), error_text = (\<lambda>_. lit ''error''), error_chain = (\<lambda>_. lit ''error'')\<rparr>"

lemma demo_daemon_env_facts [simp]:
  "memory_env.truncate demo_daemon_env = demo_memory_env" "env.truncate demo_daemon_env = demo_env"
  by (simp_all add: demo_daemon_env_def demo_memory_env_def env.defs memory_env.defs)

definition demo_journal_io :: "nat \<Rightarrow> journal_io" where
  "demo_journal_io n = \<lparr>jo_now = demo_now n, jo_uuid = demo_uuid n, jo_write = Inr ()\<rparr>"

definition demo_reservation_id :: rstr where
  "demo_reservation_id = new_reservation_id (demo_journal_io 4)"

definition demo_reserved :: journal_op where
  "demo_reserved = \<lparr>jq_request = Reserve (lit ''task-1'') 3 (demo_request_id 4) VerificationProducer,
     jq_io = demo_journal_io 4\<rparr>"

definition demo_released :: journal_op where
  "demo_released = \<lparr>jq_request = Release demo_reservation_id (demo_request_id 4), jq_io = demo_journal_io 5\<rparr>"

definition demo_open :: reservation where
  "demo_open = new_reservation (demo_journal_io 4) (lit ''task-1'') 3 (demo_request_id 4) VerificationProducer"

definition demo_closed :: reservation where
  "demo_closed = closed_as (demo_now 5) (Released (demo_request_id 4)) EffectConfirmed demo_open"

definition demo_journal :: "nat \<Rightarrow> reservation \<Rightarrow> journal" where
  "demo_journal v r = \<lparr>jr_schema_version = v, jr_reservations = [(demo_reservation_id, r)],
     jr_digest = compute_digest demo_daemon_env [(demo_reservation_id, r)]\<rparr>"

lemmas demo_journal_simps = demo_journal_def demo_reserved_def demo_released_def demo_open_def demo_closed_def
  demo_journal_io_def new_reservation_def closed_as_def is_open_def persist_journal_def required_journal_version_def
  default_journal_def journal_versions bt_values_def bt_empty_def bt_get_def Let_def

lemma demo_reserve:
  "reserve demo_daemon_env (demo_journal_io 4) (lit ''task-1'') 3 (demo_request_id 4) VerificationProducer
     (default_journal demo_daemon_env) = Inr (demo_journal 1 demo_open, demo_reservation_id)"
  by (simp add: reserve_def demo_journal_simps demo_reservation_id_def)

lemma demo_release:
  "release demo_daemon_env (demo_journal_io 5) demo_reservation_id (demo_request_id 4) (demo_journal 1 demo_open) =
     Inr (demo_journal 2 demo_closed)"
  by (simp add: release_def close_released_def close_reservation_def demo_journal_simps)

lemma demo_journals:
  "serve (journal_step demo_daemon_env) (default_journal demo_daemon_env) [demo_reserved] = demo_journal 1 demo_open"
  "serve (journal_step demo_daemon_env) (default_journal demo_daemon_env) [demo_reserved, demo_released] =
     demo_journal 2 demo_closed"
  using demo_reserve demo_release by (simp_all add: attempt_def journal_step_def demo_reserved_def demo_released_def)

theorem closed_reservation_is_final_witness:
  "\<not> is_open demo_closed \<and>
   bt_get (jr_reservations (serve (journal_step demo_daemon_env) (default_journal demo_daemon_env)
     ([demo_reserved, demo_released] @ [demo_released]))) demo_reservation_id = Some demo_closed"
proof -
  have closed: "\<not> is_open demo_closed" by (simp add: demo_closed_def closed_as_def is_open_def)
  have found: "bt_get (jr_reservations (serve (journal_step demo_daemon_env) (default_journal demo_daemon_env)
      [demo_reserved, demo_released])) demo_reservation_id = Some demo_closed"
    unfolding demo_journals by (simp add: demo_journal_def bt_get_def)
  have fresh: "list_all (\<lambda>op. new_reservation_id (jq_io op) \<noteq> demo_reservation_id) [demo_released]"
    by (simp add: demo_released_def demo_reservation_id_def new_reservation_id_def demo_journal_io_def demo_uuid_def)
  show ?thesis using closed closed_reservation_is_final [OF found closed fresh] by simp
qed

definition demo_reconcile_io :: reconcile_io where
  "demo_reconcile_io = \<lparr>ri_journal = demo_journal_io 6, ri_ambient = demo_ambient 5, ri_memory = demo_io\<rparr>"

definition demo_durable :: "ledger \<Rightarrow> durable" where
  "demo_durable l = \<lparr>du_ledger = l, du_memory = demo_memory_state\<rparr>"

theorem restart_frees_every_slot_witness:
  "open_reservations (demo_journal 1 demo_open) = [demo_open] \<and>
   (\<exists>j' d'. reconcile_producer_reservations demo_daemon_env demo_site (\<lambda>_. demo_reconcile_io)
       (demo_journal 1 demo_open) (demo_durable (demo_ledger 3)) = (Inr (), j', d') \<and> open_reservations j' = [] \<and>
     (\<exists>j'' rid. reserve demo_daemon_env (demo_journal_io 7) (lit ''task-1'') 3 (demo_request_id 4)
       VerificationProducer j' = Inr (j'', rid)))"
proof -
  have "open_reservations (demo_journal 1 demo_open) = [demo_open]"
    by (simp add: open_reservations_def demo_journal_simps)
  moreover have "\<exists>j' d'. reconcile_producer_reservations demo_daemon_env demo_site (\<lambda>_. demo_reconcile_io)
      (demo_journal 1 demo_open) (demo_durable (demo_ledger 3)) = (Inr (), j', d') \<and> open_reservations j' = [] \<and>
    (\<forall>k. bt_get (jr_reservations j') k = map_option (\<lambda>r. if is_open r
        then closed_as (jo_now (ri_journal demo_reconcile_io)) (NeedsRerun interrupted_reason) EffectUnknown r else r)
      (bt_get (jr_reservations (demo_journal 1 demo_open)) k)) \<and>
    (\<exists>j'' rid. reserve demo_daemon_env (demo_journal_io 7) (lit ''task-1'') 3 (demo_request_id 4)
       VerificationProducer j' = Inr (j'', rid))"
    by (rule restart_frees_every_slot [OF demo_journals(1) [symmetric]])
      (simp_all add: demo_reconcile_io_def demo_journal_io_def)
  ultimately show ?thesis by blast
qed

section \<open>A verification the daemon runs\<close>

definition demo_git_ok :: "rstr \<Rightarrow> git_output" where
  "demo_git_ok out = \<lparr>go_timed_out = False, go_status = Some 0, go_stdout = out, go_truncated = False\<rparr>"

definition demo_git :: "rstr \<Rightarrow> rstr \<Rightarrow> git_view" where
  "demo_git root oid = \<lparr>gv_workspace = Inr root, gv_toplevel = Inr (demo_git_ok root), gv_canonical_root = Inr,
     gv_status = Inr (demo_git_ok []), gv_head = Inr (demo_git_ok oid),
     gv_ancestry = (\<lambda>_ _. Inr (demo_git_ok []))\<rparr>"

definition demo_config :: config_view where
  "demo_config = \<lparr>cv_common_dir = Inr (lit ''/w/.git''), cv_staged_git_dir = Inr (lit ''/w/.git/worktrees/task-1''),
     cv_exists = (\<lambda>_. False), cv_digest = Inr (digest_current demo_digest None None)\<rparr>"

lemma demo_from_utf8: "list_all (\<lambda>b. b < 128) bs \<Longrightarrow> from_utf8 bs = Some bs"
  by (induction bs) simp_all

lemma demo_clean:
  assumes "list_all (\<lambda>b. b < 128) root" "trim root = root" "list_all (\<lambda>b. b < 128) oid" "trim oid = oid" "commit_oid oid"
    and "\<And>i. initial = Some i \<Longrightarrow> commit_oid i"
  shows "observe_clean_git_subject (demo_git root oid) initial = Inr oid"
  using assms
  by (cases initial) (simp_all add: observe_clean_git_subject_def demo_git_def demo_git_ok_def successful_git_text_def
    successful_git_bytes_def probe_def git_completed_successfully_def demo_from_utf8 status_contains_subject_change_def
    record_is_subject_change_def validate_oid_def check_ancestry_def path_eq_def)

lemma demo_oids:
  "list_all (\<lambda>b. b < 128) demo_oid" "trim demo_oid = demo_oid" "list_all (\<lambda>b. b < 128) demo_new_oid"
  "trim demo_new_oid = demo_new_oid"
  by (simp_all add: demo_oid_def demo_new_oid_def trim_def is_whitespace_def list.pred_set)

lemma demo_roots:
  "list_all (\<lambda>b. b < 128) (lit ''/w/.impulse/worktrees/task-1'')" "list_all (\<lambda>b. b < 128) (lit ''/w'')"
  "trim (lit ''/w/.impulse/worktrees/task-1'') = lit ''/w/.impulse/worktrees/task-1''" "trim (lit ''/w'') = lit ''/w''"
  by (simp_all add: lit_def trim_def is_whitespace_def)

abbreviation demo_tree :: "rstr \<Rightarrow> git_view" where
  "demo_tree \<equiv> demo_git (lit ''/w/.impulse/worktrees/task-1'')"

definition demo_verification_world :: verification_world where
  "demo_verification_world = \<lparr>vw_config = demo_config, vw_before = demo_tree demo_new_oid, vw_materialize = Inr (),
     vw_lockfile = Inr (), vw_manifest_before = Inr demo_digest,
     vw_run = (\<lambda>_. Inr \<lparr>oc_evidence = demo_command, oc_timed_out = False\<rparr>),
     vw_source_after = demo_tree demo_new_oid, vw_detached_after = demo_tree demo_new_oid,
     vw_manifest_after = Inr demo_digest\<rparr>"

definition demo_notes :: rstr where
  "demo_notes = lit ''daemon observed '' @ dec 4 @ lit '' command(s) under '' @ lit ''rust_workspace_v1''"

definition demo_observed :: verification_input where
  "demo_observed = verification_input_of RustWorkspaceV1 (last (claims demo_s3)) Passed (replicate 4 demo_command) demo_notes"

lemma demo_s3_task:
  "verification_profile demo_s3 = Some RustWorkspaceV1" "initial_subject_revision demo_s3 = Some demo_oid"
  "latest_claim demo_s3 = Some (last (claims demo_s3))"
  by (simp_all add: demo_s3_def demo_s2_def demo_s1_def demo_push_def push_event_def settle_def demo_start_def
      initial_run_def demo_registration_def registration_builder_def latest_defs)

lemma demo_s3_staged:
  obtains st where "active_staged_worktree demo_s3 = Some st" "st_root st = lit ''/w/.impulse/worktrees/task-1''"
    "st_pin st = demo_pin"
  by (rule that [of "the (staged_worktree demo_s1)"]) (simp_all add: demo_s3_def demo_s2_def demo_s1_def
      active_staged_worktree_def)

lemma demo_pin_holds: "ensure_staged_config_pin_holds demo_config demo_s3 = Inr ()"
proof -
  obtain st where "active_staged_worktree demo_s3 = Some st" "st_pin st = demo_pin" by (rule demo_s3_staged)
  then show ?thesis
    by (simp add: active_staged_worktree_def ensure_staged_config_pin_holds_def ensure_no_submodule_configuration_def submodule_candidates_def
      demo_config_def Let_def demo_pin_def pin_comparable_def digest_current_def is_current_scheme_def first_difference_def)
qed

lemma demo_verification_runs: "run_verification demo_daemon_env demo_verification_world demo_s3 = Inr demo_observed"
proof -
  have source: "governed_source_root demo_s3 = Inr (lit ''/w/.impulse/worktrees/task-1'')"
    by (rule demo_s3_staged) (simp add: active_staged_worktree_def governed_source_root_def launch_working_directory_def)
  have clean: "observe_clean_git_subject (demo_tree demo_new_oid) (Some i) = Inr demo_new_oid" if "commit_oid i" for i
    by (rule demo_clean) (use that demo_oids demo_roots in simp_all)
  have steps: "run_steps (vw_run demo_verification_world) rust_workspace_v1_steps =
      Inr (replicate 4 \<lparr>oc_evidence = demo_command, oc_timed_out = False\<rparr>)"
    by (simp add: demo_verification_world_def rust_workspace_v1_steps_def eval_nat_numeral)
  have steady: "subject_stable demo_verification_world demo_oid (last (claims demo_s3)) demo_digest"
    by (simp add: subject_stable_def demo_verification_world_def clean demo_s3_fields)
  have commands: "run_commands demo_verification_world RustWorkspaceV1 demo_oid (last (claims demo_s3)) demo_digest =
      Inr demo_observed"
    by (simp add: run_commands_def steps steady verification_outcome_of_def verification_notes_def demo_observed_def
        demo_notes_def Let_def list.pred_set list_ex_iff)
  have world: "vw_config demo_verification_world = demo_config" "vw_before demo_verification_world = demo_tree demo_new_oid"
    "vw_materialize demo_verification_world = Inr ()" "vw_lockfile demo_verification_world = Inr ()"
    "vw_manifest_before demo_verification_world = Inr demo_digest"
    by (simp_all add: demo_verification_world_def)
  show ?thesis
    using demo_pin_holds source clean [of demo_oid] commands
    by (simp add: run_verification_def demo_s3_task demo_s3_fields world)
qed

definition demo_claimed_ledger :: ledger where
  "demo_claimed_ledger = serve (ledger_step demo_env demo_site) default_ledger (take 4 demo_decided_ops)"

abbreviation "demo_r3 \<equiv> (demo_request_id 3, demo_receipt 3 (SubmitClaim demo_claim))"

lemma demo_claimed: "demo_claimed_ledger = demo_state 1 demo_s3 [demo_r1, demo_r2, demo_r3]"
proof -
  have "demo_claimed_ledger = attempt (ledger_step demo_env demo_site) (demo_ledger 3) (demo_call 3 (SubmitClaim demo_claim))"
    by (simp add: demo_claimed_ledger_def demo_decided_ops_def demo_ledger_def demo_ledger_ops_def)
  then show ?thesis
    using demo_mutate_step [OF demo_declared [OF demo_step_3, of "[demo_r1, demo_r2]" 1]]
    by (simp add: attempt_def demo_ledgers demo_core_fields demo_leases demo_later_leases answered_cancel_def)
qed

lemma demo_claimed_wf: "ledger_wf demo_claimed_ledger"
  unfolding demo_claimed_ledger_def by (rule ledger_machine.serve_inv [OF default_ledger_wf])

definition demo_checked :: verification_record where
  "demo_checked = \<lparr>vf_id = new_record_id ''verification'' (demo_uuid 8),
     vf_actor = verifier_actor RustWorkspaceV1, vf_claim_id = new_record_id ''claim'' (demo_uuid 6),
     vf_subject = demo_new_oid, vf_policy = lit ''rust_workspace_v1'', vf_outcome = Passed,
     vf_commands = replicate 4 demo_command, vf_artifacts = [], vf_notes = Some demo_notes,
     vf_recorded_at = demo_now 4, vf_based_on = 3\<rparr>"

definition demo_v4 :: run where
  "demo_v4 = settle demo_s3 (demo_now 4) (push_event
     \<lparr>ev_id = new_record_id ''event'' (demo_uuid 9), ev_revision = 4, ev_kind = EvVerificationRecorded,
      ev_actor = verifier_actor RustWorkspaceV1, ev_detail =
        lit ''verification '' @ new_record_id ''verification'' (demo_uuid 8) @ lit '' recorded as '' @ lit ''Passed'',
      ev_created_at = demo_now 4\<rparr>
     (demo_s3\<lparr>verifications := [demo_checked], review_state := AwaitingSupervisor\<rparr>))"

lemma demo_verifier_ok: "actor_ok (verifier_actor RustWorkspaceV1) Verifier" "text_ok demo_notes MAX_REASON_BYTES"
  "text_ok (lit ''rust_workspace_v1'') MAX_GOVERNED_REFERENCE_BYTES"
  by (simp_all add: actor_ok_def verifier_actor_def demo_notes_def text_ok_def lit_def trim_def is_whitespace_def
      byte_len_def utf8_def utf8_char_def dec.simps bound_defs MAX_REASON_BYTES_def)

lemma demo_observed_fields:
  "vi_actor demo_observed = verifier_actor RustWorkspaceV1" "vi_claim_id demo_observed = new_record_id ''claim'' (demo_uuid 6)"
  "vi_subject demo_observed = demo_new_oid" "vi_policy demo_observed = lit ''rust_workspace_v1''"
  "vi_outcome demo_observed = Passed" "vi_commands demo_observed = replicate 4 demo_command"
  "vi_artifacts demo_observed = []" "vi_notes demo_observed = Some demo_notes"
  by (simp_all add: demo_observed_def verification_input_of_def demo_s3_fields)

lemma demo_observed_ok: "verification_ok demo_observed"
  by (simp add: verification_ok_def demo_observed_fields demo_verifier_ok list.pred_set refs_ok_def)
    (simp add: bound_defs)

lemma demo_v4_step:
  "run_step demo_env demo_s3 (op_of (demo_ambient 4) (RecordVerification demo_observed) Declared) = Inr demo_v4"
  by (simp add: demo_settle demo_s3_fields demo_observed_fields demo_observed_ok demo_verifier_ok demo_v4_def
      demo_checked_def op_of_def demo_ambient_def)

lemma demo_v4_fields: "run_id demo_v4 = lit ''task-1''" "revision demo_v4 = 4" "\<not> is_accepted demo_v4"
  "lease_generation demo_v4 = 0" "verifications demo_v4 = [demo_checked]"
  using run_step_fields(2,4) [OF demo_v4_step]
  by (simp_all add: demo_later_fields demo_s3_fields)
    (simp_all add: demo_v4_def is_accepted_def push_event_def settle_def lease_generation_def demo_s3_def demo_s2_def
      demo_s1_def demo_push_def demo_start_def initial_run_def registration_event_def)

definition demo_producer_request :: producer_request where
  "demo_producer_request = \<lparr>pq_request_id = demo_request_id 4, pq_project_id = lit ''w'', pq_task_id = lit ''task-1'',
     pq_expected_revision = 3\<rparr>"

abbreviation demo_verify :: mutation_request where
  "demo_verify \<equiv> producer_mutation demo_producer_request (RecordVerification demo_observed) (Some 0)"

definition demo_verified_ledger :: ledger where
  "demo_verified_ledger = demo_state 1 demo_v4 [demo_r1, demo_r2, demo_r3,
     (demo_request_id 4, demo_receipt 4 (RecordVerification demo_observed))]"

lemma demo_verify_mutates:
  "mutate_governed_task_authenticated demo_env demo_site (demo_ambient 4) demo_verify Declared demo_claimed_ledger =
     Inr (demo_verified_ledger, demo_v4)"
proof -
  have "admitted demo_site demo_verify demo_claimed_ledger demo_s3"
    by (auto simp: admitted_def demo_claimed producer_mutation_def demo_producer_request_def demo_later_fields
        demo_later_leases demo_s3_fields require_current_lease_generation_def Let_def)
  from mutate_fresh [OF this, of demo_env "demo_ambient 4" Declared] show ?thesis
    using demo_v4_step demo_v4_fields
    by (simp add: producer_mutation_def demo_producer_request_def commit_def demo_claimed demo_verified_ledger_def
        demo_state_def stamp_schema_version_def required_schema_version_def bt_values_def schema_versions
        demo_receipt_def answered_cancel_def demo_ambient_def)
qed

definition demo_daemon_io :: daemon_io where
  "demo_daemon_io = \<lparr>dq_ambient = demo_ambient 4, dq_ambient2 = demo_ambient 5, dq_memory = demo_io,
     dq_reserve = demo_journal_io 4, dq_close = demo_journal_io 5\<rparr>"

definition demo_daemon :: "ledger \<Rightarrow> journal \<Rightarrow> daemon" where
  "demo_daemon l j = \<lparr>dm_durable = demo_durable l, dm_journal = j\<rparr>"

lemma demo_daemon_fields [simp]:
  "dm_durable (demo_daemon l j) = demo_durable l" "dm_journal (demo_daemon l j) = j"
  "du_ledger (demo_durable l) = l" "du_memory (demo_durable l) = demo_memory_state"
  by (simp_all add: demo_daemon_def demo_durable_def)

definition demo_ack :: producer_ack where
  "demo_ack = \<lparr>ga_task = demo_v4, ga_replayed = False, ga_pending_rerun = None\<rparr>"

lemma demo_persisted:
  "persist_governed_mutation demo_daemon_env demo_site demo_daemon_io demo_verify (demo_durable demo_claimed_ledger) =
     (Inr demo_v4, demo_durable demo_verified_ledger)"
proof -
  have calm: "\<not> (bt_get (processed_requests l) k = None \<and> (case bt_get (tasks l) k' of None \<Rightarrow> False
      | Some current \<Rightarrow> answered_cancel current (mr_mutation demo_verify)))" for l k k'
    by (auto simp: producer_mutation_def answered_cancel_def split: option.splits)
  have io: "dq_ambient demo_daemon_io = demo_ambient 4" by (simp add: demo_daemon_io_def)
  show ?thesis
    using calm [of demo_claimed_ledger "mr_request_id demo_verify" "mr_task_id demo_verify"]
    by (simp add: persist_governed_mutation_def mutate_durable_def mutate_and_hand_over_def io demo_verify_mutates
        ensure_accepted_run_memory_candidate_def demo_v4_fields demo_durable_def)
qed

lemma demo_current:
  "require_current_governed_task demo_site (lit ''w'') (lit ''task-1'') (demo_durable demo_claimed_ledger) = Inr demo_s3"
  by (simp add: require_current_governed_task_def get_governed_task_def require_project_def demo_claimed
      demo_later_fields)

lemma demo_admit:
  "admit_producer demo_site demo_producer_request m (demo_daemon demo_claimed_ledger j) = Inr (demo_s3, False)"
proof -
  have "bt_get (processed_requests demo_claimed_ledger) (demo_request_id 4) = None" by (simp add: demo_claimed)
  then show ?thesis
    by (simp add: admit_producer_def demo_producer_request_def demo_current bail_if_def demo_s3_task
        require_producer_request_state_def governed_producer_request_is_replay_def demo_s3_fields)
qed

lemma demo_preflight: "preflight_verification demo_s3 = Inr ()"
  by (simp add: preflight_verification_def bail_if_def demo_s3_fields demo_s3_task bound_defs)

lemma demo_verified:
  "run_governed_verification demo_daemon_env demo_site demo_daemon_io demo_verification_world demo_producer_request
     (demo_daemon demo_claimed_ledger (default_journal demo_daemon_env)) =
   (Inr demo_ack, demo_daemon demo_verified_ledger (demo_journal 2 demo_closed))"
proof -
  have request: "pq_task_id demo_producer_request = lit ''task-1''" "pq_expected_revision demo_producer_request = 3"
    "pq_request_id demo_producer_request = demo_request_id 4"
    by (simp_all add: demo_producer_request_def)
  have id: "mr_request_id demo_verify = demo_request_id 4" by (simp add: producer_mutation_def request)
  have io: "dq_reserve demo_daemon_io = demo_journal_io 4" "dq_close demo_daemon_io = demo_journal_io 5"
    by (simp_all add: demo_daemon_io_def)
  have pending: "producer_pending demo_producer_request VerificationProducer
      (demo_daemon demo_claimed_ledger (default_journal demo_daemon_env)) = None"
    by (simp add: producer_pending_def pending_rerun_reason_def request_reservations_def default_journal_def
        bt_values_def bt_empty_def)
  show ?thesis
    using demo_reserve demo_release
    by (simp add: run_governed_verification_def demo_admit demo_preflight demo_verification_runs run_reserved_def
        reserved_producer_def with_reservation_effect_def request io reserved_effect_def demo_persisted id
        demo_later_leases keep_on_error_def pending demo_ack_def demo_daemon_def [symmetric])
qed

definition demo_world :: daemon_world where
  "demo_world = \<lparr>wo_registration = \<lparr>rw_canonical = Inr (lit ''/w''), rw_compatibility = Inr demo_compatibility,
       rw_subject = demo_git (lit ''/w'') demo_oid, rw_materialize = \<lparr>mw_config = demo_config,
         mw_canonical = demo_git (lit ''/w'') demo_oid, mw_occupied = False, mw_create_parent = Inr (),
         mw_add_worktree = Inr (), mw_digest = Inr (digest_current demo_digest None None)\<rparr>\<rparr>,
     wo_claim = \<lparr>cw_config = demo_config, cw_subject = demo_tree demo_new_oid\<rparr>,
     wo_verification = demo_verification_world,
     wo_supervisor = \<lparr>sw_agent = Inl (DaemonMessage []), sw_reply = Inl (DaemonMessage [])\<rparr>,
     wo_promotion = \<lparr>pw_config = demo_config, pw_head_without_git = Inr demo_oid, pw_staged = demo_tree demo_new_oid,
       pw_canonical = demo_git (lit ''/w'') demo_oid, pw_branch = Inr (Some (lit ''main'')),
       pw_reflog = Inr (demo_git_ok []), pw_swap = Inr (demo_git_ok []), pw_observed_head = Inr demo_oid,
       pw_sync = Inr (demo_git_ok []), pw_after = demo_git (lit ''/w'') demo_new_oid\<rparr>,
     wo_removed = Inr ()\<rparr>"

lemma demo_processed:
  "process_request demo_daemon_env demo_site demo_daemon_io demo_world NonOperator
     (RunGovernedVerification demo_producer_request) (demo_daemon demo_claimed_ledger (default_journal demo_daemon_env)) =
   (ReplyAck demo_ack, demo_daemon demo_verified_ledger (demo_journal 2 demo_closed))"
proof -
  have "validate_request_fields (RunGovernedVerification demo_producer_request) = Inr ()"
    by (simp add: validate_request_fields_def demo_producer_request_def lit_def forbidden_char_def is_control_def
        is_bidi_control_def)
  then show ?thesis
    by (simp add: process_request_def process_governed_def handle_governed_verification_def demo_verified demo_world_def)
qed

theorem passed_verification_was_run_by_daemon_witness:
  "vf_outcome demo_checked = Passed \<and> (\<exists>ocs. map (vw_run demo_verification_world) (profile_steps RustWorkspaceV1) =
     map Inr ocs \<and> list_all (ce_success \<circ> oc_evidence) ocs \<and> vf_commands demo_checked = map oc_evidence ocs)"
proof -
  have "bt_get (tasks (du_ledger (dm_durable (demo_daemon demo_claimed_ledger (default_journal demo_daemon_env)))))
      (lit ''task-1'') = Some demo_s3"
    "bt_get (tasks (du_ledger (dm_durable (demo_daemon demo_verified_ledger (demo_journal 2 demo_closed))))) (lit ''task-1'') =
      Some demo_v4"
    by (simp_all add: demo_claimed demo_verified_ledger_def)
  from passed_verification_was_run_by_daemon [OF demo_processed _ this(1) demo_s3_task(1) this(2), of demo_checked]
  show ?thesis
    using demo_claimed_wf by (auto simp: demo_v4_fields demo_s3_fields demo_world_def)
      (auto simp: demo_checked_def)
qed

theorem journal_agrees_with_ledger_witness:
  "reservation_effect_outcome demo_closed = Some EffectConfirmed \<and>
   bt_get (processed_requests demo_verified_ledger) (demo_request_id 4) \<noteq> None"
proof -
  have "dm_journal (demo_daemon demo_claimed_ledger (default_journal demo_daemon_env)) =
      serve (journal_step demo_daemon_env) (default_journal demo_daemon_env) []" by simp
  from journal_agrees_with_ledger [OF demo_verified this, of demo_closed]
  have "bt_get (processed_requests demo_verified_ledger) (demo_request_id 4) \<noteq> None"
    by (simp add: demo_daemon_io_def demo_producer_request_def)
      (simp add: demo_journal_def default_journal_def bt_empty_def bt_get_def demo_reservation_id_def)
  moreover have "reservation_effect_outcome demo_closed = Some EffectConfirmed"
    by (simp add: reservation_effect_outcome_def demo_closed_def closed_as_def)
  ultimately show ?thesis by blast
qed

theorem recorded_verification_is_not_rerun_witness:
  "bt_get (processed_requests demo_verified_ledger) (demo_request_id 4) \<noteq> None \<and>
   (\<exists>res j' d' ans s'. reconcile_producer_reservations demo_daemon_env demo_site (\<lambda>_. demo_reconcile_io)
       (demo_journal 1 demo_open) (demo_durable demo_verified_ledger) = (res, j', d') \<and>
     run_governed_verification demo_daemon_env demo_site demo_daemon_io demo_verification_world demo_producer_request
       \<lparr>dm_durable = d', dm_journal = j'\<rparr> = (ans, s') \<and>
     run_governed_verification demo_daemon_env demo_site demo_daemon_io
       (demo_verification_world\<lparr>vw_run := \<lambda>_. Inl (DaemonMessage [])\<rparr>) demo_producer_request
       \<lparr>dm_durable = d', dm_journal = j'\<rparr> = (ans, s'))"
proof -
  obtain re where re: "bt_get (processed_requests (du_ledger (demo_durable demo_verified_ledger)))
      (pq_request_id demo_producer_request) = Some re"
    by (simp add: demo_verified_ledger_def demo_producer_request_def)
  obtain res j' d' where r: "reconcile_producer_reservations demo_daemon_env demo_site (\<lambda>_. demo_reconcile_io)
      (demo_journal 1 demo_open) (demo_durable demo_verified_ledger) = (res, j', d')"
    by (cases "reconcile_producer_reservations demo_daemon_env demo_site (\<lambda>_. demo_reconcile_io)
      (demo_journal 1 demo_open) (demo_durable demo_verified_ledger)")
  obtain ans s' where run: "run_governed_verification demo_daemon_env demo_site demo_daemon_io demo_verification_world
      demo_producer_request \<lparr>dm_durable = d', dm_journal = j'\<rparr> = (ans, s')"
    by (cases "run_governed_verification demo_daemon_env demo_site demo_daemon_io demo_verification_world
      demo_producer_request \<lparr>dm_durable = d', dm_journal = j'\<rparr>")
  have "run_governed_verification demo_daemon_env demo_site demo_daemon_io
      (demo_verification_world\<lparr>vw_run := \<lambda>_. Inl (DaemonMessage [])\<rparr>) demo_producer_request
      \<lparr>dm_durable = d', dm_journal = j'\<rparr> = (ans, s')"
    using recorded_verification_is_not_rerun [OF re r refl run] by blast
  then show ?thesis
    using re r run by (auto simp: demo_producer_request_def)
qed

section \<open>A connection that is not the operator's\<close>

definition demo_decide :: socket_call where
  "demo_decide = \<lparr>sk_request = GovernedRequest (MutateGovernedTask (demo_request 4 (RecordOperatorDecision demo_decision))),
     sk_io = demo_daemon_io, sk_world = demo_world\<rparr>"

definition demo_guess :: socket_call where
  "demo_guess = \<lparr>sk_request = PresentOperatorCapability (lit ''guess''), sk_io = demo_daemon_io, sk_world = demo_world\<rparr>"

theorem only_operator_connections_decide_witness:
  "\<exists>p s. serve_connection demo_daemon_env demo_site (Some (generate [7])) (new_connection (Some 501) 501,
       demo_daemon demo_claimed_ledger (default_journal demo_daemon_env)) [demo_guess, demo_decide] = (p, s) \<and>
     cp_class p = NonOperator \<and>
     authority_at (du_ledger (dm_durable s)) (lit ''task-1'') = authority_at demo_claimed_ledger (lit ''task-1'')"
proof -
  obtain p s where step: "serve_connection demo_daemon_env demo_site (Some (generate [7])) (new_connection (Some 501) 501,
      demo_daemon demo_claimed_ledger (default_journal demo_daemon_env)) [demo_guess, demo_decide] = (p, s)"
    by (cases "serve_connection demo_daemon_env demo_site (Some (generate [7])) (new_connection (Some 501) 501,
      demo_daemon demo_claimed_ledger (default_journal demo_daemon_env)) [demo_guess, demo_decide]")
  have "\<not> matches (generate [7]) (lit ''guess'')"
    by (simp add: matches_def Let_def str_bytes_def generate_def hex_byte_def hex_digit_def utf8_def utf8_char_def
        lit_def trim_def is_whitespace_def)
  then have calls: "list_all (\<lambda>call. \<not> presents_capability (Some (generate [7])) (new_connection (Some 501) 501) call)
      [demo_guess, demo_decide]"
    by (simp add: presents_capability_def demo_guess_def demo_decide_def)
  have "cp_class p = NonOperator \<and>
      authority_at (du_ledger (dm_durable s)) (lit ''task-1'') = authority_at demo_claimed_ledger (lit ''task-1'')"
    using only_operator_connections_decide [OF _ calls _ step, of "lit ''task-1''"] demo_claimed_wf
    by (simp add: new_connection_def)
  with step show ?thesis by blast
qed

section \<open>A staged registration that cannot be recorded\<close>

definition demo_full_disk :: daemon_io where
  "demo_full_disk = demo_daemon_io\<lparr>dq_ambient := demo_ambient 0, dq_ambient2 := (demo_ambient 1)\<lparr>am_write := Inl (lit ''disk full'')\<rparr>\<rparr>"

lemma demo_main_clean: "observe_clean_git_subject (demo_git (lit ''/w'') demo_oid) None = Inr demo_oid"
  by (rule demo_clean) (use demo_oids demo_roots in simp_all)

lemma demo_register_preflight: "profiled_preflight (wo_registration demo_world) demo_registration = Inr ()"
  using demo_registration_valid demo_main_clean
  by (simp add: profiled_preflight_def demo_world_def bail_if_def)
    (simp add: demo_registration_def registration_builder_def)

lemma demo_provisional:
  obtains t where "provisional_staged_task (wo_registration demo_world) now demo_registration = Inr t"
    "world_scope t = StagedAuthoritative" "initial_subject_revision t = Some demo_oid" "workspace_root t = lit ''/w''"
    "run_id t = lit ''task-1''"
  by (rule that [of "initial_run demo_registration now []\<lparr>events := []\<rparr>"])
    (simp_all add: provisional_staged_task_def demo_world_def initial_run_def demo_registration_def registration_builder_def)

lemma demo_materializes:
  assumes "world_scope t = StagedAuthoritative" "initial_subject_revision t = Some demo_oid" "workspace_root t = lit ''/w''"
    and "run_id t = lit ''task-1''"
  shows "\<exists>staged. materialize_staged_worktree (rw_materialize (wo_registration demo_world)) t = Inr staged"
  using assms demo_main_clean
  by (simp add: materialize_staged_worktree_def demo_world_def require_staged_scope_def validate_oid_def
      ensure_no_submodule_configuration_def submodule_candidates_def demo_config_def Let_def
      expected_staged_worktree_root_def)


end
