(* ===== verification/Config_Chain.thy ===== *)
theory Config_Chain
  imports Governed_Producers "HOL-Library.While_Combinator"
begin

text \<open>
  The shared Git configuration a staged run is pinned to (\<open>src/governed_producers.rs\<close>): where it
  lives, which files its \<open>include\<close> directives name, and the digest over all of them.  Paths and file
  contents are bytes (the Unix build).  The file system is an input: what \<open>stat\<close>, \<open>read\<close> and
  \<open>canonicalize\<close> answer for a path, and the \<open>HOME\<close> variable.  The walk over the include chain is a
  \<open>while\<close> loop whose queue grows as it runs; it is kept as one here (\<open>while_option\<close>, where not
  returning is \<open>None\<close>) and that it returns is proved.  Errors carry the path and cause their message
  names.
\<close>

type_synonym bytes = "nat list"

section \<open>The file system\<close>

datatype file_read = FileBytes bytes | FileMissing | FileError rstr

record file_tree =
  ft_is_dir :: "bytes \<Rightarrow> rstr + bool"
  ft_read :: "bytes \<Rightarrow> file_read"
  ft_canonical :: "bytes \<Rightarrow> bytes option"
  ft_home :: "bytes option"

datatype config_error =
    CannotStat bytes rstr
  | CannotRead bytes rstr
  | NotGitPointer bytes
  | EmptyPointer bytes
  | ChainTooLong
  | CannotReadConfig bytes rstr
  | CannotReadFile bytes rstr
  | NoSharedConfig
  | BadOid daemon_error
  | HeadUnresolved rstr

text \<open>\<open>read_to_string\<close>: bytes that are not UTF-8 are an error that is not \<open>NotFound\<close>.\<close>

datatype string_read = FileText rstr | NoFile | StringError rstr

definition read_to_string :: "file_tree \<Rightarrow> bytes \<Rightarrow> string_read" where
  "read_to_string F p =
     (case ft_read F p of
        FileMissing \<Rightarrow> NoFile
      | FileError e \<Rightarrow> StringError e
      | FileBytes b \<Rightarrow> (case from_utf8 b of
            Some s \<Rightarrow> FileText s
          | None \<Rightarrow> StringError (lit ''stream did not contain valid UTF-8'')))"

text \<open>\<open>Path::parent\<close>: the path up to its last component, without the separators and \<open>.\<close> segments
  that end it; none for the root and the empty path.\<close>

definition blank_segment :: "bytes \<Rightarrow> bool" where
  "blank_segment seg \<longleftrightarrow> seg = [] \<or> seg = lit ''.''"

definition trim_segments :: "bytes list \<Rightarrow> bytes list" where
  "trim_segments segs = rev (dropWhile blank_segment (rev segs))"

fun join_slash :: "bytes list \<Rightarrow> bytes" where
  "join_slash [] = []"
| "join_slash [seg] = seg"
| "join_slash (seg # segs) = seg @ 47 # join_slash segs"

definition path_parent_dir :: "bytes \<Rightarrow> bytes option" where
  "path_parent_dir p =
     (let segs = split_slash [] p in
      if path_is_absolute p then
        (case trim_segments (tl segs) of
           [] \<Rightarrow> None
         | body \<Rightarrow> Some (47 # join_slash (trim_segments (butlast body))))
      else if hd segs = lit ''.'' then
        (case trim_segments (tl segs) of
           [] \<Rightarrow> Some []
         | body \<Rightarrow> Some (join_slash (lit ''.'' # trim_segments (butlast body))))
      else
        (case trim_segments segs of
           [] \<Rightarrow> None
         | body \<Rightarrow> Some (join_slash (trim_segments (butlast body)))))"

definition resolve_against :: "bytes \<Rightarrow> bytes \<Rightarrow> bytes" where
  "resolve_against base target = (if path_is_absolute target then target else path_join base target)"

section \<open>Where the shared state lives\<close>

record shared_git_paths =
  sg_git_dir :: bytes
  sg_common_dir :: bytes

definition git_pointer_target :: "rstr \<Rightarrow> rstr option" where
  "git_pointer_target pointer =
     (case List.find (\<lambda>l. strip_prefix (lit ''gitdir:'') (trim l) \<noteq> None) (lines_of pointer) of
        None \<Rightarrow> None
      | Some l \<Rightarrow> (case strip_prefix (lit ''gitdir:'') (trim l) of
            None \<Rightarrow> None
          | Some target \<Rightarrow> if trim target = [] then None else Some (trim target)))"

definition resolve_git_dir :: "file_tree \<Rightarrow> bytes \<Rightarrow> config_error + bytes" where
  "resolve_git_dir F workspace =
     (let dot_git = path_join workspace (lit ''.git'') in
      and_then (map_err (CannotStat dot_git) (ft_is_dir F dot_git)) (\<lambda>is_dir.
      if is_dir then Inr dot_git
      else case read_to_string F dot_git of
        NoFile \<Rightarrow> Inl (CannotRead dot_git (lit ''not found''))
      | StringError e \<Rightarrow> Inl (CannotRead dot_git e)
      | FileText pointer \<Rightarrow>
          and_then (ok_or (git_pointer_target pointer) (NotGitPointer dot_git)) (\<lambda>target.
          Inr (resolve_against workspace (utf8 target)))))"

definition resolve_common_dir :: "file_tree \<Rightarrow> bytes \<Rightarrow> config_error + bytes" where
  "resolve_common_dir F git_dir =
     (let commondir = path_join git_dir (lit ''commondir'') in
      case read_to_string F commondir of
        NoFile \<Rightarrow> Inr git_dir
      | StringError e \<Rightarrow> Inl (CannotRead commondir e)
      | FileText pointer \<Rightarrow>
          if trim pointer = [] then Inl (EmptyPointer commondir)
          else Inr (resolve_against git_dir (utf8 (trim pointer))))"

definition resolve_shared_paths :: "file_tree \<Rightarrow> bytes \<Rightarrow> config_error + shared_git_paths" where
  "resolve_shared_paths F workspace =
     and_then (resolve_git_dir F workspace) (\<lambda>git_dir.
     and_then (resolve_common_dir F git_dir) (\<lambda>common_dir.
     Inr \<lparr>sg_git_dir = git_dir, sg_common_dir = common_dir\<rparr>))"

definition repository_config_path :: "shared_git_paths \<Rightarrow> bytes" where
  "repository_config_path g = path_join (sg_common_dir g) (lit ''config'')"

definition worktree_config_paths :: "shared_git_paths \<Rightarrow> bytes list" where
  "worktree_config_paths g =
     [path_join (sg_git_dir g) (lit ''config.worktree''), path_join (sg_common_dir g) (lit ''config.worktree'')]"

definition info_attributes_paths :: "shared_git_paths \<Rightarrow> bytes list" where
  "info_attributes_paths g =
     [path_join (path_join (sg_common_dir g) (lit ''info'')) (lit ''attributes''),
      path_join (path_join (sg_git_dir g) (lit ''info'')) (lit ''attributes'')]"

section \<open>Include directives\<close>

definition is_ascii_whitespace :: "nat \<Rightarrow> bool" where
  "is_ascii_whitespace b \<longleftrightarrow> b = 32 \<or> b = 9 \<or> b = 10 \<or> b = 12 \<or> b = 13"

definition trim_ascii_start :: "bytes \<Rightarrow> bytes" where
  "trim_ascii_start s = dropWhile is_ascii_whitespace s"

definition trim_ascii :: "bytes \<Rightarrow> bytes" where
  "trim_ascii s = rev (dropWhile is_ascii_whitespace (rev (trim_ascii_start s)))"

definition ascii_lower :: "bytes \<Rightarrow> bytes" where
  "ascii_lower s = map (\<lambda>b. if 65 \<le> b \<and> b \<le> 90 then b + 32 else b) s"

fun split_newline :: "bytes \<Rightarrow> bytes \<Rightarrow> bytes list" where
  "split_newline acc [] = [rev acc]"
| "split_newline acc (b # bs) = (if b = 10 then rev acc # split_newline [] bs else split_newline (b # acc) bs)"

definition is_comment_line :: "bytes \<Rightarrow> bool" where
  "is_comment_line l \<longleftrightarrow> (case trim_ascii_start l of b # _ \<Rightarrow> b = 35 \<or> b = 59 | [] \<Rightarrow> False)"

definition line_continues :: "bytes \<Rightarrow> bool" where
  "line_continues l \<longleftrightarrow> odd (length (takeWhile (\<lambda>b. b = 92) (rev l)))"

definition flush_pending :: "bytes option \<Rightarrow> bytes list" where
  "flush_pending pending = (case pending of Some buffer \<Rightarrow> [buffer] | None \<Rightarrow> [])"

definition extend_pending :: "bytes option \<Rightarrow> bytes \<Rightarrow> bytes" where
  "extend_pending pending body = (case pending of Some buffer \<Rightarrow> buffer @ body | None \<Rightarrow> body)"

fun join_lines :: "bytes option \<Rightarrow> bytes list \<Rightarrow> bytes list" where
  "join_lines pending [] = flush_pending pending"
| "join_lines pending (raw # rest) =
     (let l = strip_cr raw in
      if is_comment_line l then flush_pending pending @ l # join_lines None rest
      else if line_continues l then join_lines (Some (extend_pending pending (butlast l))) rest
      else extend_pending pending l # join_lines None rest)"

definition join_continued_lines :: "bytes \<Rightarrow> bytes list" where
  "join_continued_lines b = join_lines None (split_newline [] b)"

fun value_bytes :: "bool \<Rightarrow> bool \<Rightarrow> bytes \<Rightarrow> bytes" where
  "value_bytes quoted escaped [] = []"
| "value_bytes quoted escaped (b # bs) =
     (if escaped then b # value_bytes quoted False bs
      else if b = 92 then value_bytes quoted True bs
      else if b = 34 then value_bytes (\<not> quoted) False bs
      else if (b = 35 \<or> b = 59) \<and> \<not> quoted then []
      else b # value_bytes quoted False bs)"

definition config_value :: "bytes \<Rightarrow> bytes option" where
  "config_value raw =
     (let value = trim_ascii (value_bytes False False (trim_ascii_start raw)) in
      if value = [] then None else Some value)"

definition expand_config_path :: "file_tree \<Rightarrow> bytes \<Rightarrow> bytes \<Rightarrow> bytes" where
  "expand_config_path F value base =
     (case (strip_prefix (lit ''~/'') value, ft_home F) of
        (Some rest, Some home) \<Rightarrow> path_join home rest
      | _ \<Rightarrow> resolve_against base value)"

definition before_byte :: "nat \<Rightarrow> bytes \<Rightarrow> (bytes \<times> bytes) option" where
  "before_byte b l = (if b \<in> set l then Some (takeWhile (\<lambda>x. x \<noteq> b) l, tl (dropWhile (\<lambda>x. x \<noteq> b) l)) else None)"

text \<open>The section a line leaves in force and the part of the line still to read, if any.\<close>

definition section_of_line :: "bytes \<Rightarrow> bytes \<Rightarrow> bytes \<times> bytes option" where
  "section_of_line sect l =
     (case l of
        b # rest \<Rightarrow>
          if b = 91 then (case before_byte 93 rest of
              None \<Rightarrow> (sect, None)
            | Some (inside, after) \<Rightarrow>
                (ascii_lower (trim_ascii inside), if trim_ascii after = [] then None else Some (trim_ascii after)))
          else (sect, Some l)
      | [] \<Rightarrow> (sect, Some l))"

definition include_section :: "bytes \<Rightarrow> bool" where
  "include_section sect \<longleftrightarrow> sect = lit ''include'' \<or> take 9 sect = lit ''includeif''"

definition include_value :: "bytes \<Rightarrow> bytes \<Rightarrow> bytes option" where
  "include_value sect l =
     (if \<not> include_section sect then None
      else case before_byte 61 l of
        None \<Rightarrow> None
      | Some (key, value) \<Rightarrow>
          if ascii_lower (trim_ascii key) = lit ''path'' then config_value value else None)"

fun include_values :: "bytes \<Rightarrow> bytes list \<Rightarrow> bytes list" where
  "include_values sect [] = []"
| "include_values sect (raw # rest) =
     (case section_of_line sect (trim_ascii raw) of
        (sect', None) \<Rightarrow> include_values sect' rest
      | (sect', Some l) \<Rightarrow> (case include_value sect' l of
            None \<Rightarrow> include_values sect' rest
          | Some value \<Rightarrow> value # include_values sect' rest))"

definition config_include_paths :: "file_tree \<Rightarrow> bytes \<Rightarrow> bytes \<Rightarrow> bytes list" where
  "config_include_paths F b base =
     map (\<lambda>value. expand_config_path F value base) (include_values [] (join_continued_lines b))"

section \<open>Digesting the chain\<close>

definition MAX_CONFIG_INCLUDE_FILES :: nat where "MAX_CONFIG_INCLUDE_FILES = 64"

text \<open>\<open>(n as u64).to_be_bytes()\<close>: the low \<open>k\<close> bytes, most significant first.\<close>

fun be_bytes :: "nat \<Rightarrow> nat \<Rightarrow> bytes" where
  "be_bytes 0 n = []"
| "be_bytes (Suc k) n = be_bytes k (n div 256) @ [n mod 256]"

definition u64_be :: "nat \<Rightarrow> bytes" where
  "u64_be n = be_bytes 8 n"

text \<open>What the hasher is fed for one file: the path and the content, each under its length, or the
  marker of an absence.\<close>

definition hashed_file :: "bytes \<Rightarrow> bytes option \<Rightarrow> bytes" where
  "hashed_file p content =
     u64_be (length p) @ p @ (case content of None \<Rightarrow> [0] | Some b \<Rightarrow> 1 # u64_be (length b) @ b)"

definition path_identity :: "file_tree \<Rightarrow> bytes \<Rightarrow> bytes" where
  "path_identity F p = (case ft_canonical F p of Some c \<Rightarrow> c | None \<Rightarrow> p)"

definition path_listed :: "bytes \<Rightarrow> bytes list \<Rightarrow> bool" where
  "path_listed p ps \<longleftrightarrow> list_ex (path_eq p) ps"

definition includes_of :: "file_tree \<Rightarrow> bytes \<Rightarrow> bytes \<Rightarrow> bytes list" where
  "includes_of F p b =
     config_include_paths F b (case path_parent_dir p of Some parent \<Rightarrow> parent | None \<Rightarrow> lit ''.'')"

text \<open>The loop's variables; \<open>wk_queue\<close> is the part of the queue from \<open>index\<close> on.\<close>

record walk =
  wk_visited :: "bytes list"
  wk_queue :: "bytes list"
  wk_hashed :: bytes
  wk_any_root :: bool

definition walk_start :: "bytes list \<Rightarrow> walk" where
  "walk_start roots =
     \<lparr>wk_visited = [], wk_queue = roots, wk_hashed = lit ''impulse-shared-repo-config-v2'' @ [0],
      wk_any_root = False\<rparr>"

definition walk_step :: "file_tree \<Rightarrow> bytes list \<Rightarrow> walk \<Rightarrow> config_error + walk" where
  "walk_step F roots w =
     (case wk_queue w of
        [] \<Rightarrow> Inr w
      | p # queue \<Rightarrow>
          if path_listed (path_identity F p) (wk_visited w) then Inr (w\<lparr>wk_queue := queue\<rparr>)
          else let visited = wk_visited w @ [path_identity F p] in
            if MAX_CONFIG_INCLUDE_FILES < length visited then Inl ChainTooLong
            else (case ft_read F p of
                FileError e \<Rightarrow> Inl (CannotReadConfig p e)
              | FileMissing \<Rightarrow> Inr (w\<lparr>wk_visited := visited, wk_queue := queue,
                    wk_hashed := wk_hashed w @ hashed_file p None\<rparr>)
              | FileBytes b \<Rightarrow> Inr \<lparr>wk_visited = visited, wk_queue = queue @ includes_of F p b,
                    wk_hashed = wk_hashed w @ hashed_file p (Some b),
                    wk_any_root = (wk_any_root w \<or> path_listed p roots)\<rparr>))"

definition walking :: "config_error + walk \<Rightarrow> bool" where
  "walking r \<longleftrightarrow> (case r of Inl _ \<Rightarrow> False | Inr w \<Rightarrow> wk_queue w \<noteq> [])"

definition walk_chain :: "file_tree \<Rightarrow> bytes list \<Rightarrow> config_error + walk \<Rightarrow> (config_error + walk) option" where
  "walk_chain F roots = while_option walking (\<lambda>r. and_then r (walk_step F roots))"

definition sha256_digest :: "('z env_scheme) \<Rightarrow> bytes \<Rightarrow> rstr" where
  "sha256_digest E b = lit ''sha256:'' @ sha256_hex E b"

definition walk_digest :: "('z env_scheme) \<Rightarrow> walk \<Rightarrow> rstr option" where
  "walk_digest E w = (if wk_any_root w then Some (sha256_digest E (wk_hashed w)) else None)"

definition digest_config_chain ::
    "('z env_scheme) \<Rightarrow> file_tree \<Rightarrow> bytes list \<Rightarrow> (config_error + rstr option) option" where
  "digest_config_chain E F roots =
     map_option (\<lambda>r. and_then r (\<lambda>w. Inr (walk_digest E w))) (walk_chain F roots (Inr (walk_start roots)))"

text \<open>The fixed list of \<open>info/attributes\<close> files has no includes: a plain \<open>for\<close> loop.\<close>

fun hash_files ::
    "file_tree \<Rightarrow> bytes list \<Rightarrow> bytes list \<Rightarrow> bytes \<Rightarrow> bool \<Rightarrow> config_error + bytes \<times> bool" where
  "hash_files F seen [] hashed any = Inr (hashed, any)"
| "hash_files F seen (p # ps) hashed any =
     (if path_listed (path_identity F p) seen then hash_files F seen ps hashed any
      else case ft_read F p of
        FileError e \<Rightarrow> Inl (CannotReadFile p e)
      | FileMissing \<Rightarrow> hash_files F (seen @ [path_identity F p]) ps (hashed @ hashed_file p None) any
      | FileBytes b \<Rightarrow> hash_files F (seen @ [path_identity F p]) ps (hashed @ hashed_file p (Some b)) True)"

definition digest_files :: "('z env_scheme) \<Rightarrow> file_tree \<Rightarrow> bytes list \<Rightarrow> config_error + rstr option" where
  "digest_files E F ps =
     and_then (hash_files F [] ps (lit ''impulse-shared-file-v2'' @ [0]) False) (\<lambda>(hashed, any).
     Inr (if any then Some (sha256_digest E hashed) else None))"

text \<open>Sequencing of steps that may not return.\<close>

fun returned_then :: "('e + 'a) option \<Rightarrow> ('a \<Rightarrow> ('e + 'b) option) \<Rightarrow> ('e + 'b) option" where
  "returned_then None f = None"
| "returned_then (Some (Inl e)) f = Some (Inl e)"
| "returned_then (Some (Inr a)) f = f a"

definition resolve_staged_paths :: "file_tree \<Rightarrow> bytes option \<Rightarrow> config_error + shared_git_paths option" where
  "resolve_staged_paths F staged_root =
     (case staged_root of
        None \<Rightarrow> Inr None
      | Some root \<Rightarrow> and_then (resolve_shared_paths F root) (\<lambda>g. Inr (Some g)))"

definition pinned_paths :: "(shared_git_paths \<Rightarrow> bytes list) \<Rightarrow> shared_git_paths \<Rightarrow> shared_git_paths option \<Rightarrow> bytes list" where
  "pinned_paths paths canonical staged =
     paths canonical @ (case staged of Some g \<Rightarrow> paths g | None \<Rightarrow> [])"

definition shared_repository_config_digest ::
    "('z env_scheme) \<Rightarrow> file_tree \<Rightarrow> bytes \<Rightarrow> bytes option \<Rightarrow> (config_error + shared_config_digest) option" where
  "shared_repository_config_digest E F workspace staged_root =
     returned_then (Some (resolve_shared_paths F workspace)) (\<lambda>canonical.
     returned_then (Some (resolve_staged_paths F staged_root)) (\<lambda>staged.
     returned_then (digest_config_chain E F [repository_config_path canonical]) (\<lambda>repository.
     returned_then (Some (ok_or repository NoSharedConfig)) (\<lambda>repository_digest.
     returned_then (digest_config_chain E F (pinned_paths worktree_config_paths canonical staged)) (\<lambda>worktree.
     returned_then (Some (digest_files E F (pinned_paths info_attributes_paths canonical staged))) (\<lambda>attributes.
     Some (Inr (digest_current repository_digest worktree attributes))))))))"

section \<open>The head, without Git\<close>

fun read_loose_ref :: "file_tree \<Rightarrow> bytes list \<Rightarrow> config_error + rstr option" where
  "read_loose_ref F [] = Inr None"
| "read_loose_ref F (loose # rest) =
     (case read_to_string F loose of
        NoFile \<Rightarrow> read_loose_ref F rest
      | StringError e \<Rightarrow> Inl (CannotRead loose e)
      | FileText oid \<Rightarrow> and_then (map_err BadOid (validate_oid (trim oid))) (\<lambda>_. Inr (Some (trim oid))))"

fun scan_packed_refs :: "rstr \<Rightarrow> rstr list \<Rightarrow> config_error + rstr" where
  "scan_packed_refs reference [] = Inl (HeadUnresolved reference)"
| "scan_packed_refs reference (raw # rest) =
     (let l = trim raw in
      if take 1 l = lit ''#'' \<or> take 1 l = lit ''^'' then scan_packed_refs reference rest
      else case before_byte 32 l of
        Some (oid, name) \<Rightarrow>
          if trim name = reference
          then and_then (map_err BadOid (validate_oid (trim oid))) (\<lambda>_. Inr (trim oid))
          else scan_packed_refs reference rest
      | None \<Rightarrow> scan_packed_refs reference rest)"

definition read_packed_ref :: "file_tree \<Rightarrow> bytes \<Rightarrow> rstr \<Rightarrow> config_error + rstr" where
  "read_packed_ref F packed_path reference =
     (case read_to_string F packed_path of
        NoFile \<Rightarrow> scan_packed_refs reference []
      | StringError e \<Rightarrow> Inl (CannotRead packed_path e)
      | FileText packed \<Rightarrow> scan_packed_refs reference (lines_of packed))"

definition read_head_oid_without_git :: "file_tree \<Rightarrow> bytes \<Rightarrow> config_error + rstr" where
  "read_head_oid_without_git F workspace =
     and_then (resolve_shared_paths F workspace) (\<lambda>g.
     let head_path = path_join (sg_git_dir g) (lit ''HEAD'') in
     case read_to_string F head_path of
       NoFile \<Rightarrow> Inl (CannotRead head_path (lit ''not found''))
     | StringError e \<Rightarrow> Inl (CannotRead head_path e)
     | FileText content \<Rightarrow>
         (case strip_prefix (lit ''ref:'') (trim content) of
            None \<Rightarrow> and_then (map_err BadOid (validate_oid (trim content))) (\<lambda>_. Inr (trim content))
          | Some target \<Rightarrow>
              let reference = trim target;
                  ref_roots = sg_git_dir g #
                    (if path_eq (sg_common_dir g) (sg_git_dir g) then [] else [sg_common_dir g]) in
              and_then (read_loose_ref F (map (\<lambda>d. path_join d (utf8 reference)) ref_roots)) (\<lambda>found.
              case found of
                Some oid \<Rightarrow> Inr oid
              | None \<Rightarrow> read_packed_ref F (path_join (sg_common_dir g) (lit ''packed-refs'')) reference)))"

end
