(* ===== verification/Config_Pin.thy ===== *)
theory Config_Pin
  imports Config_Chain
begin

text \<open>
  What the configuration pin is worth: the include walk always returns, it reads at most 64 files, it
  covers every file its own files name, and two equal pins mean byte-identical files.  The reference is
  \<open>chain_files\<close>, the list of files a walk reads, from which the loop's digest is computed.
\<close>

section \<open>The reference\<close>

function chain_files ::
    "file_tree \<Rightarrow> bytes list \<Rightarrow> bytes list \<Rightarrow> config_error + (bytes \<times> bytes option) list" where
  "chain_files F visited [] = Inr []"
| "chain_files F visited (p # queue) =
     (if path_listed (path_identity F p) visited then chain_files F visited queue
      else if MAX_CONFIG_INCLUDE_FILES \<le> length visited then Inl ChainTooLong
      else case ft_read F p of
        FileError e \<Rightarrow> Inl (CannotReadConfig p e)
      | FileMissing \<Rightarrow>
          and_then (chain_files F (visited @ [path_identity F p]) queue) (\<lambda>fs. Inr ((p, None) # fs))
      | FileBytes b \<Rightarrow>
          and_then (chain_files F (visited @ [path_identity F p]) (queue @ includes_of F p b))
            (\<lambda>fs. Inr ((p, Some b) # fs)))"
  by pat_completeness auto

termination
  by (relation "inv_image (less_than <*lex*> less_than)
      (\<lambda>(F, visited, queue). (MAX_CONFIG_INCLUDE_FILES - length visited, length queue))") auto

definition hashed_files :: "(bytes \<times> bytes option) list \<Rightarrow> bytes" where
  "hashed_files fs = concat (map (\<lambda>(p, c). hashed_file p c) fs)"

definition read_root :: "bytes list \<Rightarrow> bytes \<times> bytes option \<Rightarrow> bool" where
  "read_root roots f \<longleftrightarrow> snd f \<noteq> None \<and> path_listed (fst f) roots"

text \<open>The files a pin component covers; \<open>None\<close> when no root exists.\<close>

definition config_chain ::
    "file_tree \<Rightarrow> bytes list \<Rightarrow> config_error + (bytes \<times> bytes option) list option" where
  "config_chain F roots =
     and_then (chain_files F [] roots) (\<lambda>fs. Inr (if list_ex (read_root roots) fs then Some fs else None))"

section \<open>The loop computes the reference\<close>

lemma walk_chain_unfold:
  "walk_chain F roots r =
     (if walking r then walk_chain F roots (and_then r (walk_step F roots)) else Some r)"
  unfolding walk_chain_def by (rule while_option_unfold)

lemma walk_chain_Inl [simp]: "walk_chain F roots (Inl e) = Some (Inl e)"
  by (subst walk_chain_unfold) (simp add: walking_def)

lemma hashed_files_simps [simp]:
  "hashed_files [] = []" "hashed_files ((p, c) # fs) = hashed_file p c @ hashed_files fs"
  by (simp_all add: hashed_files_def)

lemma walk_chain_Nil [simp]:
  "walk_chain F roots (Inr \<lparr>wk_visited = vs, wk_queue = [], wk_hashed = h, wk_any_root = any\<rparr>) =
     Some (Inr \<lparr>wk_visited = vs, wk_queue = [], wk_hashed = h, wk_any_root = any\<rparr>)"
  by (subst walk_chain_unfold) (simp add: walking_def)

lemma walk_chain_Cons:
  "walk_chain F roots (Inr \<lparr>wk_visited = vs, wk_queue = p # q, wk_hashed = h, wk_any_root = any\<rparr>) =
     (if path_listed (path_identity F p) vs
      then walk_chain F roots (Inr \<lparr>wk_visited = vs, wk_queue = q, wk_hashed = h, wk_any_root = any\<rparr>)
      else if MAX_CONFIG_INCLUDE_FILES \<le> length vs then Some (Inl ChainTooLong)
      else case ft_read F p of
        FileError e \<Rightarrow> Some (Inl (CannotReadConfig p e))
      | FileMissing \<Rightarrow> walk_chain F roots (Inr \<lparr>wk_visited = vs @ [path_identity F p], wk_queue = q,
          wk_hashed = h @ hashed_file p None, wk_any_root = any\<rparr>)
      | FileBytes b \<Rightarrow> walk_chain F roots (Inr \<lparr>wk_visited = vs @ [path_identity F p],
          wk_queue = q @ includes_of F p b, wk_hashed = h @ hashed_file p (Some b),
          wk_any_root = (any \<or> path_listed p roots)\<rparr>))"
  by (subst walk_chain_unfold)
    (auto simp: walking_def walk_step_def Let_def split: file_read.split)

text \<open>What a run of the loop ends with, given the files it read.\<close>

definition walk_ended ::
    "bytes list \<Rightarrow> bytes \<Rightarrow> bool \<Rightarrow> config_error + (bytes \<times> bytes option) list \<Rightarrow> (config_error + walk) option \<Rightarrow> bool" where
  "walk_ended roots h any files out \<longleftrightarrow>
     (case files of
        Inl e \<Rightarrow> out = Some (Inl e)
      | Inr fs \<Rightarrow> (\<exists>w. out = Some (Inr w) \<and> wk_hashed w = h @ hashed_files fs \<and>
          wk_any_root w = (any \<or> list_ex (read_root roots) fs)))"

lemma walk_ended_Cons:
  assumes "walk_ended roots (h @ hashed_file p c) (any \<or> read_root roots (p, c)) files out"
  shows "walk_ended roots h any (and_then files (\<lambda>fs. Inr ((p, c) # fs))) out"
  using assms by (cases files) (auto simp: walk_ended_def)

lemma walk_chain_is_chain_files:
  "walk_ended roots h any (chain_files F vs q)
     (walk_chain F roots (Inr \<lparr>wk_visited = vs, wk_queue = q, wk_hashed = h, wk_any_root = any\<rparr>))"
proof (induction F vs q arbitrary: h any rule: chain_files.induct)
  case (1 F visited)
  show ?case by (simp add: walk_ended_def)
next
  case (2 F vs p q)
  show ?case
  proof (cases "path_listed (path_identity F p) vs \<or> MAX_CONFIG_INCLUDE_FILES \<le> length vs")
    case True
    with "2.IH"(1) show ?thesis by (auto simp: walk_chain_Cons walk_ended_def)
  next
    case False
    then have fresh: "\<not> path_listed (path_identity F p) vs" "\<not> MAX_CONFIG_INCLUDE_FILES \<le> length vs" by simp_all
    show ?thesis
    proof (cases "ft_read F p")
      case (FileBytes b)
      from "2.IH"(2) [OF fresh FileBytes] fresh FileBytes show ?thesis
        by (simp add: walk_chain_Cons) (rule walk_ended_Cons, simp add: read_root_def)
    next
      case FileMissing
      from "2.IH"(3) [OF fresh FileMissing] fresh FileMissing show ?thesis
        by (simp add: walk_chain_Cons) (rule walk_ended_Cons, simp add: read_root_def)
    next
      case (FileError e)
      with fresh show ?thesis by (simp add: walk_chain_Cons walk_ended_def)
    qed
  qed
qed

definition chain_preamble :: bytes where
  "chain_preamble = lit ''impulse-shared-repo-config-v2'' @ [0]"

lemma digest_config_chain_is_config_chain:
  "digest_config_chain E F roots =
     Some (and_then (config_chain F roots) (\<lambda>fs.
       Inr (map_option (\<lambda>fs. sha256_digest E (chain_preamble @ hashed_files fs)) fs)))"
proof -
  have ended: "walk_ended roots chain_preamble False (chain_files F [] roots)
      (walk_chain F roots (Inr (walk_start roots)))"
    unfolding walk_start_def chain_preamble_def by (rule walk_chain_is_chain_files)
  show ?thesis
  proof (cases "chain_files F [] roots")
    case (Inl e)
    with ended show ?thesis by (simp add: walk_ended_def digest_config_chain_def config_chain_def)
  next
    case (Inr fs)
    with ended obtain w where "walk_chain F roots (Inr (walk_start roots)) = Some (Inr w)"
      "wk_hashed w = chain_preamble @ hashed_files fs" "wk_any_root w = list_ex (read_root roots) fs"
      by (auto simp: walk_ended_def)
    with Inr show ?thesis by (simp add: digest_config_chain_def config_chain_def walk_digest_def)
  qed
qed

section \<open>Equal streams\<close>

lemma length_be_bytes [simp]: "length (be_bytes k n) = k"
  by (induction k arbitrary: n) auto

lemma be_bytes_inj: "be_bytes k n = be_bytes k m \<Longrightarrow> n < 256 ^ k \<Longrightarrow> m < 256 ^ k \<Longrightarrow> n = m"
proof (induction k arbitrary: n m)
  case (Suc k)
  then have "n div 256 = m div 256" "n mod 256 = m mod 256"
    by (auto simp: less_mult_imp_div_less mult.commute)
  then show ?case by (metis div_mult_mod_eq)
qed simp

definition fits_u64 :: "bytes \<Rightarrow> bool" where
  "fits_u64 b \<longleftrightarrow> length b < 2 ^ 64"

lemma length_u64_be [simp]: "length (u64_be n) = 8"
  by (simp add: u64_be_def)

lemma counted_prefix:
  assumes "u64_be (length a) @ a @ s = u64_be (length b) @ b @ t" and "fits_u64 a" and "fits_u64 b"
  shows "a = b \<and> s = t"
proof -
  from assms(1) have "u64_be (length a) = u64_be (length b)" and rest: "a @ s = b @ t"
    by (metis append_eq_append_conv length_u64_be)+
  then have "length a = length b"
    using be_bytes_inj [of 8 "length a" "length b"] assms(2, 3) by (simp add: u64_be_def fits_u64_def)
  with rest show ?thesis by simp
qed

definition file_fits :: "bytes \<times> bytes option \<Rightarrow> bool" where
  "file_fits f \<longleftrightarrow> fits_u64 (fst f) \<and> (case snd f of None \<Rightarrow> True | Some b \<Rightarrow> fits_u64 b)"

lemma hashed_file_prefix:
  assumes "hashed_file p c @ s = hashed_file q d @ t" and "file_fits (p, c)" and "file_fits (q, d)"
  shows "p = q \<and> c = d \<and> s = t"
proof -
  define body where "body = (\<lambda>x. case x of None \<Rightarrow> [0] | Some b \<Rightarrow> 1 # u64_be (length b) @ b)"
  from assms(1) have "u64_be (length p) @ p @ (body c @ s) = u64_be (length q) @ q @ (body d @ t)"
    by (simp add: hashed_file_def body_def)
  from counted_prefix [OF this] assms(2, 3) have heads: "p = q" "body c @ s = body d @ t"
    by (simp_all add: file_fits_def)
  moreover have "c = d \<and> s = t"
    using heads(2) assms(2, 3) counted_prefix [of "the c" s "the d" t]
    by (cases c; cases d) (simp_all add: file_fits_def body_def)
  ultimately show ?thesis by simp
qed

lemma hashed_file_not_Nil [simp]: "hashed_file p c \<noteq> []"
  by (simp add: hashed_file_def split: option.split)

lemma hashed_files_inj:
  "hashed_files fs = hashed_files gs \<Longrightarrow> list_all file_fits fs \<Longrightarrow> list_all file_fits gs \<Longrightarrow> fs = gs"
proof (induction fs arbitrary: gs)
  case Nil
  then show ?case by (cases gs) auto
next
  case (Cons f fs)
  then obtain g gs' where gs: "gs = g # gs'" by (cases gs; cases f) auto
  obtain p c where f: "f = (p, c)" by (cases f)
  obtain q d where g: "g = (q, d)" by (cases g)
  from Cons.prems hashed_file_prefix [of p c "hashed_files fs" q d "hashed_files gs'"]
  have "f = g" "hashed_files fs = hashed_files gs'" by (auto simp: f g gs)
  with Cons show ?case by (simp add: gs)
qed

section \<open>What a walk reads\<close>

text \<open>Every file of the chain is listed with what the file system holds, and nothing is read twice.\<close>

definition same_file :: "file_tree \<Rightarrow> bytes \<Rightarrow> bytes \<Rightarrow> bool" where
  "same_file F p q \<longleftrightarrow> path_eq (path_identity F p) (path_identity F q)"

definition named_by :: "file_tree \<Rightarrow> bytes \<times> bytes option \<Rightarrow> bytes list" where
  "named_by F f = (case snd f of Some b \<Rightarrow> includes_of F (fst f) b | None \<Rightarrow> [])"

definition holds_content :: "file_tree \<Rightarrow> bytes \<times> bytes option \<Rightarrow> bool" where
  "holds_content F f \<longleftrightarrow> ft_read F (fst f) = (case snd f of None \<Rightarrow> FileMissing | Some b \<Rightarrow> FileBytes b)"

text \<open>Induction over a walk that succeeds: the queue is empty, its head was seen, or its head is read.\<close>

lemma chain_files_ok_induct [consumes 1, case_names Done Seen Read]:
  assumes "chain_files F vs q = Inr fs"
    and "\<And>vs. P vs [] []"
    and "\<And>vs p q fs. path_listed (path_identity F p) vs \<Longrightarrow> P vs q fs \<Longrightarrow> P vs (p # q) fs"
    and "\<And>vs p c q fs. \<not> path_listed (path_identity F p) vs \<Longrightarrow> length vs < MAX_CONFIG_INCLUDE_FILES \<Longrightarrow>
      holds_content F (p, c) \<Longrightarrow> P (vs @ [path_identity F p]) (q @ named_by F (p, c)) fs \<Longrightarrow>
      P vs (p # q) ((p, c) # fs)"
  shows "P vs q fs"
  using assms
proof (induction F vs q arbitrary: fs rule: chain_files.induct)
  case (1 F vs)
  then show ?case by simp
next
  case (2 F vs p q)
  note rules = "2.prems"(2-4)
  show ?case
  proof (cases "path_listed (path_identity F p) vs")
    case True
    with "2.prems"(1) have "P vs q fs" by (intro "2.IH"(1) rules) simp_all
    with True show ?thesis by (rule rules(2))
  next
    case False
    with "2.prems"(1) have room: "\<not> MAX_CONFIG_INCLUDE_FILES \<le> length vs" by (auto split: if_splits)
    show ?thesis
    proof (cases "ft_read F p")
      case (FileBytes b)
      with False room "2.prems"(1) obtain gs where gs: "fs = (p, Some b) # gs"
        "chain_files F (vs @ [path_identity F p]) (q @ includes_of F p b) = Inr gs" by auto
      have "P (vs @ [path_identity F p]) (q @ named_by F (p, Some b)) gs"
        using "2.IH"(2) [OF False room FileBytes gs(2) rules] by (simp add: named_by_def)
      with gs(1) rules(3) [of p vs "Some b" q gs] False room FileBytes show ?thesis by (simp add: holds_content_def)
    next
      case FileMissing
      with False room "2.prems"(1) obtain gs where gs: "fs = (p, None) # gs"
        "chain_files F (vs @ [path_identity F p]) q = Inr gs" by auto
      have "P (vs @ [path_identity F p]) (q @ named_by F (p, None)) gs"
        using "2.IH"(3) [OF False room FileMissing gs(2) rules] by (simp add: named_by_def)
      with gs(1) rules(3) [of p vs None q gs] False room FileMissing show ?thesis by (simp add: holds_content_def)
    next
      case (FileError e)
      with False room "2.prems"(1) show ?thesis by simp
    qed
  qed
qed

lemma chain_files_length:
  assumes "chain_files F vs q = Inr fs" and "length vs \<le> MAX_CONFIG_INCLUDE_FILES"
  shows "length vs + length fs \<le> MAX_CONFIG_INCLUDE_FILES"
  using assms by (induction rule: chain_files_ok_induct) auto

lemma chain_files_content:
  assumes "chain_files F vs q = Inr fs"
  shows "list_all (holds_content F) fs"
  using assms by (induction rule: chain_files_ok_induct) auto

lemma path_listed_append [simp]: "path_listed p (ps @ qs) \<longleftrightarrow> path_listed p ps \<or> path_listed p qs"
  by (simp add: path_listed_def)

lemma path_listed_single [simp]: "path_listed p [q] \<longleftrightarrow> path_eq p q"
  by (simp add: path_listed_def)

lemma same_file_refl [simp]: "same_file F p p"
  by (simp add: same_file_def path_eq_def)

lemma chain_files_cover:
  assumes "chain_files F vs q = Inr fs" and "p \<in> set q \<union> (\<Union>f \<in> set fs. set (named_by F f))"
  shows "path_listed (path_identity F p) vs \<or> (\<exists>f \<in> set fs. same_file F p (fst f))"
  using assms
proof (induction rule: chain_files_ok_induct)
  case (Read vs x c q fs)
  then show ?case by (auto simp: same_file_def path_eq_def)
qed auto

lemma chain_files_distinct:
  assumes "chain_files F vs q = Inr fs"
  shows "list_all (\<lambda>f. \<not> path_listed (path_identity F (fst f)) vs) fs \<and>
    sorted_wrt (\<lambda>f g. \<not> same_file F (fst g) (fst f)) fs"
  using assms
proof (induction rule: chain_files_ok_induct)
  case (Read vs x c q fs)
  then show ?case by (auto simp: same_file_def list_all_iff)
qed auto

text \<open>The paths the roots name through any number of directives.\<close>

inductive named :: "file_tree \<Rightarrow> bytes list \<Rightarrow> bytes \<Rightarrow> bool" for F roots where
  Root: "p \<in> set roots \<Longrightarrow> named F roots p"
| Include: "named F roots p \<Longrightarrow> ft_read F p = FileBytes b \<Longrightarrow> i \<in> set (includes_of F p b) \<Longrightarrow> named F roots i"

lemma chain_files_named:
  assumes "chain_files F vs q = Inr fs" and "\<forall>p \<in> set q. named F roots p" and "f \<in> set fs"
  shows "named F roots (fst f)"
  using assms
proof (induction rule: chain_files_ok_induct)
  case (Read vs p c q fs)
  then have "\<forall>i \<in> set (named_by F (p, c)). named F roots i"
    by (auto simp: named_by_def holds_content_def split: option.splits intro: named.Include)
  with Read show ?case by auto
qed auto

text \<open>No two different paths of the chain lead to one file.\<close>

definition unaliased :: "file_tree \<Rightarrow> bytes list \<Rightarrow> bool" where
  "unaliased F roots \<longleftrightarrow>
     (\<forall>p q. named F roots p \<longrightarrow> named F roots q \<longrightarrow> same_file F p q \<longrightarrow> p = q)"

lemma unaliased_chain_is_complete:
  assumes "chain_files F [] roots = Inr fs" and "unaliased F roots"
  shows "fst ` set fs = {p. named F roots p}"
proof -
  have sound: "f \<in> set fs \<Longrightarrow> named F roots (fst f)" for f
    using chain_files_named [OF assms(1), of roots f] by (auto intro: named.Root)
  have cover: "p \<in> fst ` set fs" if "named F roots p" "p \<in> set roots \<union> (\<Union>f \<in> set fs. set (named_by F f))" for p
  proof -
    from chain_files_cover [OF assms(1) that(2)] obtain f where "f \<in> set fs" "same_file F p (fst f)"
      by (auto simp: path_listed_def)
    with sound that(1) assms(2) show ?thesis unfolding unaliased_def by blast
  qed
  have "p \<in> fst ` set fs" if "named F roots p" for p
    using that
  proof induction
    case (Root p)
    then show ?case using cover named.Root by blast
  next
    case (Include p b i)
    then obtain c where f: "(p, c) \<in> set fs" by auto
    with chain_files_content [OF assms(1)] Include(2) have "c = Some b"
      by (auto simp: list_all_iff holds_content_def split: option.splits)
    with f Include(3) have "i \<in> (\<Union>f \<in> set fs. set (named_by F f))"
      by (intro UN_I [of "(p, Some b)"]) (simp_all add: named_by_def)
    then show ?case by (intro cover named.Include [OF Include(1, 2, 3)]) simp
  qed
  with sound show ?thesis by auto
qed

section \<open>The whole pin\<close>

fun plain_files :: "file_tree \<Rightarrow> bytes list \<Rightarrow> bytes list \<Rightarrow> config_error + (bytes \<times> bytes option) list" where
  "plain_files F seen [] = Inr []"
| "plain_files F seen (p # ps) =
     (if path_listed (path_identity F p) seen then plain_files F seen ps
      else case ft_read F p of
        FileError e \<Rightarrow> Inl (CannotReadFile p e)
      | FileMissing \<Rightarrow> and_then (plain_files F (seen @ [path_identity F p]) ps) (\<lambda>fs. Inr ((p, None) # fs))
      | FileBytes b \<Rightarrow> and_then (plain_files F (seen @ [path_identity F p]) ps) (\<lambda>fs. Inr ((p, Some b) # fs)))"

definition present :: "bytes \<times> bytes option \<Rightarrow> bool" where
  "present f \<longleftrightarrow> snd f \<noteq> None"

definition file_list :: "file_tree \<Rightarrow> bytes list \<Rightarrow> config_error + (bytes \<times> bytes option) list option" where
  "file_list F ps =
     and_then (plain_files F [] ps) (\<lambda>fs. Inr (if list_ex present fs then Some fs else None))"

definition list_preamble :: bytes where
  "list_preamble = lit ''impulse-shared-file-v2'' @ [0]"

lemma and_then_and_then: "and_then (and_then r f) g = and_then r (\<lambda>x. and_then (f x) g)"
  by (cases r) simp_all

lemma hash_files_is_plain_files:
  "hash_files F seen ps h any = and_then (plain_files F seen ps) (\<lambda>fs.
     Inr (h @ hashed_files fs, any \<or> list_ex present fs))"
  by (induction F seen ps arbitrary: h any rule: plain_files.induct)
    (auto simp: and_then_and_then present_def split: file_read.split)

lemma digest_files_is_file_list:
  "digest_files E F ps = and_then (file_list F ps) (\<lambda>fs.
     Inr (map_option (\<lambda>fs. sha256_digest E (list_preamble @ hashed_files fs)) fs))"
  by (cases "plain_files F [] ps")
    (simp_all add: digest_files_def file_list_def hash_files_is_plain_files list_preamble_def)

text \<open>The files the three components of a pin are computed from.\<close>

type_synonym pinned_files =
  "(bytes \<times> bytes option) list \<times> (bytes \<times> bytes option) list option \<times> (bytes \<times> bytes option) list option"

definition pinned_configuration :: "file_tree \<Rightarrow> bytes \<Rightarrow> bytes option \<Rightarrow> config_error + pinned_files" where
  "pinned_configuration F workspace staged_root =
     and_then (resolve_shared_paths F workspace) (\<lambda>canonical.
     and_then (resolve_staged_paths F staged_root) (\<lambda>staged.
     and_then (config_chain F [repository_config_path canonical]) (\<lambda>repository.
     and_then (ok_or repository NoSharedConfig) (\<lambda>repository_files.
     and_then (config_chain F (pinned_paths worktree_config_paths canonical staged)) (\<lambda>worktree.
     and_then (file_list F (pinned_paths info_attributes_paths canonical staged)) (\<lambda>attributes.
     Inr (repository_files, worktree, attributes)))))))"

definition pin_of :: "('z env_scheme) \<Rightarrow> pinned_files \<Rightarrow> shared_config_digest" where
  "pin_of E files = (case files of (repository, worktree, attributes) \<Rightarrow>
     digest_current (sha256_digest E (chain_preamble @ hashed_files repository))
       (map_option (\<lambda>fs. sha256_digest E (chain_preamble @ hashed_files fs)) worktree)
       (map_option (\<lambda>fs. sha256_digest E (list_preamble @ hashed_files fs)) attributes))"

lemma returned_then_Some: "returned_then (Some r) (\<lambda>a. Some (f a)) = Some (and_then r f)"
  by (cases r) simp_all

lemma ok_or_map_option: "ok_or (map_option f x) e = and_then (ok_or x e) (\<lambda>y. Inr (f y))"
  by (cases x) (simp_all add: ok_or_def)

lemma shared_digest_is_pin:
  "shared_repository_config_digest E F workspace staged_root =
     Some (and_then (pinned_configuration F workspace staged_root) (\<lambda>files. Inr (pin_of E files)))"
  by (simp add: shared_repository_config_digest_def pinned_configuration_def digest_config_chain_is_config_chain
      digest_files_is_file_list returned_then_Some and_then_and_then ok_or_map_option pin_of_def)

section \<open>Equal pins\<close>

fun pin_streams :: "pinned_files \<Rightarrow> bytes set" where
  "pin_streams (repository, worktree, attributes) =
     {chain_preamble @ hashed_files repository} \<union>
     set_option (map_option (\<lambda>fs. chain_preamble @ hashed_files fs) worktree) \<union>
     set_option (map_option (\<lambda>fs. list_preamble @ hashed_files fs) attributes)"

fun pin_fits :: "pinned_files \<Rightarrow> bool" where
  "pin_fits (repository, worktree, attributes) \<longleftrightarrow>
     list_all file_fits repository \<and> pred_option (list_all file_fits) worktree \<and>
     pred_option (list_all file_fits) attributes"

definition digested :: "('z env_scheme) \<Rightarrow> bytes \<Rightarrow> (bytes \<times> bytes option) list \<Rightarrow> rstr" where
  "digested E preamble fs = sha256_digest E (preamble @ hashed_files fs)"

lemma digested_inj:
  assumes "digested E pre fs = digested E pre gs" and "inj_on (sha256_hex E) S"
    and "pre @ hashed_files fs \<in> S" "pre @ hashed_files gs \<in> S"
    and "list_all file_fits fs" "list_all file_fits gs"
  shows "fs = gs"
proof -
  from assms(1-4) have "pre @ hashed_files fs = pre @ hashed_files gs"
    using inj_onD [OF assms(2) _ assms(3, 4)] by (simp add: digested_def sha256_digest_def)
  with assms(5, 6) show ?thesis by (simp add: hashed_files_inj)
qed

lemma digested_option_inj:
  assumes "map_option (digested E pre) x = map_option (digested E pre) y" and "inj_on (sha256_hex E) S"
    and "set_option (map_option (\<lambda>fs. pre @ hashed_files fs) x) \<subseteq> S"
    and "set_option (map_option (\<lambda>fs. pre @ hashed_files fs) y) \<subseteq> S"
    and "pred_option (list_all file_fits) x" "pred_option (list_all file_fits) y"
  shows "x = y"
  using assms digested_inj [of E pre "the x" "the y" S] by (cases x; cases y) simp_all

lemma pin_of_inj:
  assumes "first_difference (pin_of E files) (pin_of E files') = None"
    and "inj_on (sha256_hex E) (pin_streams files \<union> pin_streams files')" and "pin_fits files" and "pin_fits files'"
  shows "files = files'"
proof -
  obtain r w a where files: "files = (r, w, a)" by (cases files)
  obtain r' w' a' where files': "files' = (r', w', a')" by (cases files')
  let ?S = "pin_streams files \<union> pin_streams files'"
  from assms(1) have digests: "digested E chain_preamble r = digested E chain_preamble r'"
    "map_option (digested E chain_preamble) w = map_option (digested E chain_preamble) w'"
    "map_option (digested E list_preamble) a = map_option (digested E list_preamble) a'"
    unfolding digested_def
    by (simp_all add: files files' pin_of_def first_difference_def digest_current_def split: if_splits)
  have "r = r'" using assms(3, 4) by (intro digested_inj [OF digests(1) assms(2)]) (simp_all add: files files')
  moreover have "w = w'"
    using assms(3, 4) by (intro digested_option_inj [OF digests(2) assms(2)]) (auto simp: files files')
  moreover have "a = a'"
    using assms(3, 4) by (intro digested_option_inj [OF digests(3) assms(2)]) (auto simp: files files')
  ultimately show ?thesis by (simp add: files files')
qed

section \<open>Properties\<close>

text \<open>C21: The digest of the shared configuration always returns, a value or an error, whatever the file system
  holds: include cycles, symbolic links and chains without end included.\<close>

theorem config_pin_always_returns:
  "\<exists>r. shared_repository_config_digest E F workspace staged_root = Some r"
  by (simp add: shared_digest_is_pin)

text \<open>A chain digest is the digest of a list of at most 64 files.  Every listed file is listed with what
  the file system holds for it (its bytes, or its absence), no file is listed twice under its canonical
  path, and every root and every path a listed file includes is listed, up to canonical paths.  Where no
  two paths of the chain lead to one file, the list is exactly the files the roots name, directly or
  through other files.\<close>

theorem chain_digest_covers_its_includes:
  assumes "digest_config_chain E F roots = Some (Inr (Some d))"
  shows "\<exists>fs. d = sha256_digest E (chain_preamble @ hashed_files fs) \<and>
    length fs \<le> MAX_CONFIG_INCLUDE_FILES \<and> list_all (holds_content F) fs \<and>
    sorted_wrt (\<lambda>f g. \<not> same_file F (fst g) (fst f)) fs \<and>
    (\<forall>p \<in> set roots \<union> (\<Union>f \<in> set fs. set (named_by F f)). \<exists>f \<in> set fs. same_file F p (fst f)) \<and>
    (unaliased F roots \<longrightarrow> fst ` set fs = {p. named F roots p})"
proof -
  from assms obtain fs where fs: "chain_files F [] roots = Inr fs"
    and d: "d = sha256_digest E (chain_preamble @ hashed_files fs)"
    by (auto simp: digest_config_chain_is_config_chain config_chain_def split: if_splits)
  have "\<exists>f \<in> set fs. same_file F p (fst f)" if "p \<in> set roots \<union> (\<Union>f \<in> set fs. set (named_by F f))" for p
    using chain_files_cover [OF fs that] by (simp add: path_listed_def)
  with fs d chain_files_length [OF fs] chain_files_content [OF fs] chain_files_distinct [OF fs]
    unaliased_chain_is_complete [OF fs] show ?thesis by (intro exI [of _ fs]) simp
qed

text \<open>C14: A producer that goes past the pin works on the configuration the pin was taken from.  If a staged
  worktree was pinned on one state of the file system and the check passes on another, the same files, in
  the same order and with the same bytes, make up the shared configuration in both.  Assumed: SHA-256 does
  not collide on the byte streams of the two pins, and no path or file is 2^64 bytes long.\<close>

theorem held_pin_means_unchanged_configuration:
  assumes "active_staged_worktree t = Some staged"
    and "shared_repository_config_digest E F workspace root = Some (Inr pinned)" "st_pin staged = Recorded pinned"
    and "shared_repository_config_digest E F' workspace root = Some (Inr observed)" "cv_digest W = Inr observed"
    and "ensure_staged_config_pin_holds W t = Inr ()"
    and "\<And>files files'. pinned_configuration F workspace root = Inr files \<Longrightarrow>
      pinned_configuration F' workspace root = Inr files' \<Longrightarrow>
      pin_fits files \<and> pin_fits files' \<and> inj_on (sha256_hex E) (pin_streams files \<union> pin_streams files')"
  shows "\<exists>files. pinned_configuration F workspace root = Inr files \<and> pinned_configuration F' workspace root = Inr files"
proof -
  from assms(2, 4) obtain files files' where files:
    "pinned_configuration F workspace root = Inr files" "pinned = pin_of E files"
    "pinned_configuration F' workspace root = Inr files'" "observed = pin_of E files'"
    by (auto simp: shared_digest_is_pin)
  have "first_difference pinned observed = None"
    using assms(3, 5, 6) unfolding ensure_staged_config_pin_holds_def assms(1)
    by (auto simp: ok_or_def pin_comparable_def split: option.splits if_splits)
  with files assms(7) [OF files(1, 3)] have "files = files'" using pin_of_inj [of E files files'] by simp
  with files show ?thesis by (intro exI [of _ files]) simp
qed

section \<open>The head read without Git\<close>

lemma read_loose_ref_commit: "read_loose_ref F paths = Inr (Some oid) \<Longrightarrow> commit_oid oid"
  by (induction paths) (auto simp: validate_oid_def split: string_read.splits)

lemma scan_packed_refs_commit: "scan_packed_refs reference ls = Inr oid \<Longrightarrow> commit_oid oid"
  by (induction ls) (auto simp: validate_oid_def Let_def split: if_splits option.splits prod.splits)

text \<open>Whatever the ref files hold, a head that is reported is a commit OID.\<close>

lemma read_packed_ref_commit: "read_packed_ref F packed reference = Inr oid \<Longrightarrow> commit_oid oid"
  by (auto simp: read_packed_ref_def dest: scan_packed_refs_commit split: string_read.splits)

lemma head_without_git_is_a_commit:
  assumes "read_head_oid_without_git F workspace = Inr oid"
  shows "commit_oid oid"
proof -
  from assms obtain g content where g: "resolve_shared_paths F workspace = Inr g"
    and content: "read_to_string F (path_join (sg_git_dir g) (lit ''HEAD'')) = FileText content"
    by (cases "resolve_shared_paths F workspace")
      (auto simp: read_head_oid_without_git_def Let_def split: string_read.splits)
  show ?thesis
  proof (cases "strip_prefix (lit ''ref:'') (trim content)")
    case None
    with assms g content show ?thesis by (auto simp: read_head_oid_without_git_def validate_oid_def)
  next
    case (Some target)
    with assms g content obtain paths found where "read_loose_ref F paths = Inr found"
      "(case found of Some oid \<Rightarrow> Inr oid
        | None \<Rightarrow> read_packed_ref F (path_join (sg_common_dir g) (lit ''packed-refs'')) (trim target)) = Inr oid"
      by (auto simp: read_head_oid_without_git_def Let_def simp del: read_loose_ref.simps list.map)
    then show ?thesis by (auto dest: read_loose_ref_commit read_packed_ref_commit split: option.splits)
  qed
qed

section \<open>A file outside the pin\<close>

definition tree_of :: "(bytes \<times> bytes) list \<Rightarrow> (bytes \<times> bytes) list \<Rightarrow> file_tree" where
  "tree_of files links =
     (let target = (\<lambda>p. case map_of links p of Some q \<Rightarrow> q | None \<Rightarrow> p) in
      \<lparr>ft_is_dir = (\<lambda>p. Inr (map_of files (target p) = None)),
       ft_read = (\<lambda>p. case map_of files (target p) of Some b \<Rightarrow> FileBytes b | None \<Rightarrow> FileMissing),
       ft_canonical = (\<lambda>p. Some (target p)), ft_home = None\<rparr>)"

definition include_file :: "string list \<Rightarrow> bytes" where
  "include_file paths = lit ''[include]'' @ concat (map (\<lambda>p. 10 # lit ''path = '' @ lit p) paths)"

text \<open>\<open>sub/p\<close> is a link to \<open>q\<close>, which includes \<open>x\<close>: read as \<open>sub/p\<close> it names \<open>sub/x\<close>.\<close>

definition aliased_tree :: "bytes option \<Rightarrow> file_tree" where
  "aliased_tree x = tree_of
     ([(lit ''/r/config'', include_file [''q'', ''sub/p'']), (lit ''/r/q'', include_file [''x''])] @
      (case x of Some b \<Rightarrow> [(lit ''/r/sub/x'', b)] | None \<Rightarrow> []))
     [(lit ''/r/sub/p'', lit ''/r/q'')]"

lemma include_file_values:
  "include_values [] (join_continued_lines (include_file [''q'', ''sub/p''])) = [lit ''q'', lit ''sub/p'']"
  "include_values [] (join_continued_lines (include_file [''x''])) = [lit ''x'']"
  by code_simp+

lemma parents:
  "path_parent_dir (lit ''/r/config'') = Some (lit ''/r'')" "path_parent_dir (lit ''/r/q'') = Some (lit ''/r'')"
  "path_parent_dir (lit ''/r/sub/p'') = Some (lit ''/r/sub'')"
  by code_simp+

lemma demo_joins:
  "path_join (lit ''/r'') (lit ''q'') = lit ''/r/q''" "path_join (lit ''/r'') (lit ''sub/p'') = lit ''/r/sub/p''"
  "path_join (lit ''/r'') (lit ''x'') = lit ''/r/x''" "path_join (lit ''/r/sub'') (lit ''x'') = lit ''/r/sub/x''"
  "path_is_absolute (lit ''q'') = False" "path_is_absolute (lit ''x'') = False" "path_is_absolute (lit ''sub/p'') = False"
  "strip_prefix (lit ''~/'') (lit ''q'') = None" "strip_prefix (lit ''~/'') (lit ''x'') = None"
  "strip_prefix (lit ''~/'') (lit ''sub/p'') = None"
  by code_simp+

lemma demo_includes:
  "includes_of F (lit ''/r/config'') (include_file [''q'', ''sub/p'']) = [lit ''/r/q'', lit ''/r/sub/p'']"
  "includes_of F (lit ''/r/q'') (include_file [''x'']) = [lit ''/r/x'']"
  "includes_of F (lit ''/r/sub/p'') (include_file [''x'']) = [lit ''/r/sub/x'']"
  by (simp_all add: includes_of_def config_include_paths_def include_file_values parents expand_config_path_def
      resolve_against_def demo_joins)

lemma aliased_reads:
  "ft_read (aliased_tree x) (lit ''/r/config'') = FileBytes (include_file [''q'', ''sub/p''])"
  "ft_read (aliased_tree x) (lit ''/r/q'') = FileBytes (include_file [''x''])"
  "ft_read (aliased_tree x) (lit ''/r/sub/p'') = FileBytes (include_file [''x''])"
  "ft_read (aliased_tree x) (lit ''/r/x'') = FileMissing"
  "ft_read (aliased_tree x) (lit ''/r/sub/x'') = (case x of Some b \<Rightarrow> FileBytes b | None \<Rightarrow> FileMissing)"
  by (simp_all add: aliased_tree_def tree_of_def lit_def split: option.split)

lemma aliased_identities:
  "path_identity (aliased_tree x) (lit ''/r/config'') = lit ''/r/config''"
  "path_identity (aliased_tree x) (lit ''/r/q'') = lit ''/r/q''"
  "path_identity (aliased_tree x) (lit ''/r/sub/p'') = lit ''/r/q''"
  "path_identity (aliased_tree x) (lit ''/r/x'') = lit ''/r/x''"
  by (simp_all add: path_identity_def aliased_tree_def tree_of_def lit_def)

lemma demo_path_eq:
  "path_eq p p" "\<not> path_eq (lit ''/r/q'') (lit ''/r/config'')" "\<not> path_eq (lit ''/r/x'') (lit ''/r/config'')"
  "\<not> path_eq (lit ''/r/x'') (lit ''/r/q'')"
  by (simp add: path_eq_def) code_simp+

lemma aliased_chain:
  "config_chain (aliased_tree x) [lit ''/r/config''] = Inr (Some
     [(lit ''/r/config'', Some (include_file [''q'', ''sub/p''])), (lit ''/r/q'', Some (include_file [''x''])),
      (lit ''/r/x'', None)])"
  by (simp add: config_chain_def aliased_reads aliased_identities demo_path_eq path_listed_def demo_includes
      MAX_CONFIG_INCLUDE_FILES_def read_root_def)


end
