(* ===== verification/Config_Example.thy ===== *)
theory Config_Example
  imports Config_Pin Daemon_Example
begin

text \<open>
  The properties of the configuration pin at work: a pinned staged worktree whose producer goes past the
  check, and the chain of a configuration with includes.
\<close>

definition demo_config_env :: env where
  "demo_config_env = demo_env\<lparr>sha256_hex := \<lambda>_. replicate 64 99\<rparr>"

text \<open>A canonical checkout at \<open>/w\<close> and its linked worktree.\<close>

definition demo_config_files :: "(bytes \<times> bytes) list" where
  "demo_config_files =
     [(lit ''/w/.git/config'', lit ''[core]''),
      (lit ''/w/.impulse/worktrees/task-1/.git'', lit ''gitdir: /w/.git/worktrees/task-1''),
      (lit ''/w/.git/worktrees/task-1/commondir'', lit ''/w/.git'')]"

definition demo_config_tree :: file_tree where
  "demo_config_tree = tree_of demo_config_files []"

definition demo_pinned_files :: pinned_files where
  "demo_pinned_files = ([(lit ''/w/.git/config'', Some (lit ''[core]''))], None, None)"

lemma demo_canonical_paths:
  "resolve_shared_paths demo_config_tree (lit ''/w'') =
     Inr \<lparr>sg_git_dir = lit ''/w/.git'', sg_common_dir = lit ''/w/.git''\<rparr>"
  by code_simp

lemma demo_pointer:
  "git_pointer_target (lit ''gitdir: /w/.git/worktrees/task-1'') = Some (lit ''/w/.git/worktrees/task-1'')"
  "trim (lit ''/w/.git'') = lit ''/w/.git''"
  by (simp_all add: git_pointer_target_def lines_of_def strip_prefix_def trim_def is_whitespace_def lit_def)

lemma demo_config_reads:
  "read_to_string demo_config_tree (lit ''/w/.impulse/worktrees/task-1/.git'') =
     FileText (lit ''gitdir: /w/.git/worktrees/task-1'')"
  "read_to_string demo_config_tree (lit ''/w/.git/worktrees/task-1/commondir'') = FileText (lit ''/w/.git'')"
  "ft_is_dir demo_config_tree (lit ''/w/.impulse/worktrees/task-1/.git'') = Inr False"
  by (simp_all add: read_to_string_def demo_config_tree_def tree_of_def demo_config_files_def lit_def demo_from_utf8)

lemma demo_pointer_paths:
  "path_join (lit ''/w/.impulse/worktrees/task-1'') (lit ''.git'') = lit ''/w/.impulse/worktrees/task-1/.git''"
  "path_join (lit ''/w/.git/worktrees/task-1'') (lit ''commondir'') = lit ''/w/.git/worktrees/task-1/commondir''"
  "utf8 (lit ''/w/.git/worktrees/task-1'') = lit ''/w/.git/worktrees/task-1''" "utf8 (lit ''/w/.git'') = lit ''/w/.git''"
  "path_is_absolute (lit ''/w/.git/worktrees/task-1'')" "path_is_absolute (lit ''/w/.git'')" "lit ''/w/.git'' \<noteq> []"
  by (simp_all add: path_join_def path_is_absolute_def lit_def utf8_def utf8_char_def)

lemma demo_staged_paths:
  "resolve_shared_paths demo_config_tree (lit ''/w/.impulse/worktrees/task-1'') =
     Inr \<lparr>sg_git_dir = lit ''/w/.git/worktrees/task-1'', sg_common_dir = lit ''/w/.git''\<rparr>"
  by (simp add: resolve_shared_paths_def resolve_git_dir_def resolve_common_dir_def demo_config_reads demo_pointer
      demo_pointer_paths resolve_against_def ok_or_def Let_def)

lemma demo_repository_chain:
  "config_chain demo_config_tree [lit ''/w/.git/config''] = Inr (Some [(lit ''/w/.git/config'', Some (lit ''[core]''))])"
  by code_simp

lemma demo_worktree_chain:
  "config_chain demo_config_tree
     [lit ''/w/.git/config.worktree'', lit ''/w/.git/config.worktree'',
      lit ''/w/.git/worktrees/task-1/config.worktree'', lit ''/w/.git/config.worktree''] = Inr None"
  by code_simp

lemma demo_attributes:
  "file_list demo_config_tree
     [lit ''/w/.git/info/attributes'', lit ''/w/.git/info/attributes'',
      lit ''/w/.git/info/attributes'', lit ''/w/.git/worktrees/task-1/info/attributes''] = Inr None"
  by code_simp

lemma demo_pinned_paths:
  "path_join (lit ''/w/.git'') (lit ''config'') = lit ''/w/.git/config''"
  "path_join (lit ''/w/.git'') (lit ''config.worktree'') = lit ''/w/.git/config.worktree''"
  "path_join (lit ''/w/.git/worktrees/task-1'') (lit ''config.worktree'') = lit ''/w/.git/worktrees/task-1/config.worktree''"
  "path_join (path_join (lit ''/w/.git'') (lit ''info'')) (lit ''attributes'') = lit ''/w/.git/info/attributes''"
  "path_join (path_join (lit ''/w/.git/worktrees/task-1'') (lit ''info'')) (lit ''attributes'') =
     lit ''/w/.git/worktrees/task-1/info/attributes''"
  by (simp_all add: path_join_def path_is_absolute_def lit_def)

lemma demo_pinned_configuration:
  "pinned_configuration demo_config_tree (lit ''/w'') (Some (lit ''/w/.impulse/worktrees/task-1'')) = Inr demo_pinned_files"
  by (simp add: pinned_configuration_def resolve_staged_paths_def demo_canonical_paths demo_staged_paths pinned_paths_def
      repository_config_path_def worktree_config_paths_def info_attributes_paths_def demo_pinned_paths
      demo_repository_chain demo_worktree_chain demo_attributes demo_pinned_files_def ok_or_def)

lemma demo_pinned_digest:
  "shared_repository_config_digest demo_config_env demo_config_tree (lit ''/w'')
     (Some (lit ''/w/.impulse/worktrees/task-1'')) = Some (Inr (digest_current demo_digest None None))"
  by (simp add: shared_digest_is_pin demo_pinned_configuration demo_pinned_files_def pin_of_def sha256_digest_def
      demo_config_env_def demo_digest_def)

theorem held_pin_means_unchanged_configuration_witness:
  "ensure_staged_config_pin_holds demo_config demo_s3 = Inr () \<and>
   (\<exists>files. pinned_configuration demo_config_tree (lit ''/w'') (Some (lit ''/w/.impulse/worktrees/task-1'')) = Inr files)"
proof -
  obtain st where st: "active_staged_worktree demo_s3 = Some st" "st_pin st = demo_pin" by (rule demo_s3_staged)
  have pin: "st_pin st = Recorded (digest_current demo_digest None None)"
    and seen: "cv_digest demo_config = Inr (digest_current demo_digest None None)"
    using st(2) by (simp_all add: demo_pin_def demo_config_def)
  have fits: "pin_fits demo_pinned_files \<and> inj_on (sha256_hex demo_config_env) (pin_streams demo_pinned_files)"
    by (simp add: demo_pinned_files_def file_fits_def fits_u64_def lit_def)
  have "\<exists>files. pinned_configuration demo_config_tree (lit ''/w'') (Some (lit ''/w/.impulse/worktrees/task-1'')) = Inr files \<and>
      pinned_configuration demo_config_tree (lit ''/w'') (Some (lit ''/w/.impulse/worktrees/task-1'')) = Inr files"
    by (rule held_pin_means_unchanged_configuration [OF st(1) demo_pinned_digest pin demo_pinned_digest seen demo_pin_holds])
      (use fits in \<open>simp add: demo_pinned_configuration\<close>)
  with demo_pin_holds show ?thesis by blast
qed

theorem chain_digest_covers_its_includes_witness:
  "\<exists>d. digest_config_chain demo_env (aliased_tree None) [lit ''/r/config''] = Some (Inr (Some d)) \<and>
    (\<exists>fs. d = sha256_digest demo_env (chain_preamble @ hashed_files fs) \<and>
      list_all (holds_content (aliased_tree None)) fs \<and>
      (\<forall>p \<in> {lit ''/r/config''} \<union> (\<Union>f \<in> set fs. set (named_by (aliased_tree None) f)).
         \<exists>f \<in> set fs. same_file (aliased_tree None) p (fst f)))"
proof -
  obtain d where d: "digest_config_chain demo_env (aliased_tree None) [lit ''/r/config''] = Some (Inr (Some d))"
    by (auto simp: digest_config_chain_is_config_chain aliased_chain)
  from d chain_digest_covers_its_includes [OF d] show ?thesis by (intro exI [of _ d]) auto
qed

end
