(* ===== verification/Basis_Set.thy ===== *)
theory Basis_Set
  imports Loop_Contract Utf8_Decode
begin

text \<open>
  The stale-basis predicate (\<open>src/basis.rs\<close>).  A run records the sources it read, each with a version
  handle; at settlement every handle is read again and compared.  The file system and Git are a
  \<open>basis_world\<close>: what reading a file returns (its bytes, or the error text) and what \<open>git rev-parse\<close>
  returns (whether it succeeded, with its decoded output and error output).  SHA-256 and \<open>serde_json\<close>
  (parsing, pointer lookup, rendering) are parameters.
\<close>

section \<open>Data\<close>

datatype basis_error =
    EmptyBasis
  | BasisOverCap nat nat
  | DuplicateSource rstr
  | Unreadable rstr rstr

text \<open>The message of \<open>OverCap\<close> has an em dash.\<close>

fun show_basis_error :: "basis_error \<Rightarrow> rstr" where
  "show_basis_error EmptyBasis = lit ''empty basis: a run that reads nothing before acting has no plan to settle''"
| "show_basis_error (BasisOverCap n cap) = lit ''basis of '' @ dec n @ lit '' sources exceeds the cap of '' @
     dec cap @ lit '': a WorkItem that reads this much is carrying a snapshot of the machine instead of a plan '' @
     [8212] @ lit '' split it into narrower items''"
| "show_basis_error (DuplicateSource name) = lit ''duplicate basis source `'' @ name @
     lit ''`: the basis is a set, one version handle per source''"
| "show_basis_error (Unreadable name reason) = lit ''cannot read basis source `'' @ name @ lit ''`: '' @ reason"

datatype basis_declaration =
    DeclareFile rstr
  | DeclareGit rstr rstr
  | DeclareRegistry rstr rstr
  | DeclareLedger rstr
  | DeclareUnverifiable rstr

datatype basis_source =
    FileHash rstr rstr
  | GitRef rstr rstr rstr
  | RegistryEntry rstr rstr rstr
  | LedgerSection rstr nat rstr
  | UnverifiableSource rstr

record basis_world =
  bw_read :: "rstr \<Rightarrow> rstr + nat list"
  bw_git :: "rstr \<Rightarrow> rstr \<Rightarrow> rstr + bool \<times> rstr \<times> rstr"

record basis_env =
  be_sha256_hex :: "nat list \<Rightarrow> rstr"
  be_json :: "rstr \<Rightarrow> rstr + json"
  be_pointer :: "json \<Rightarrow> rstr \<Rightarrow> json option"
  be_render :: "json \<Rightarrow> rstr"

record basis_mismatch =
  mi_source :: rstr
  mi_planned :: rstr
  mi_found :: rstr

datatype freshness = Match | Mismatch basis_mismatch | NotVerifiable

datatype basis_verdict = Fresh "rstr list" | Stale "basis_mismatch list" "rstr list"

record basis_set =
  bs_sources :: "basis_source list"
  bs_cap :: nat

definition DEFAULT_BASIS_CAP :: nat where "DEFAULT_BASIS_CAP = 32"

section \<open>Reading version handles\<close>

definition read_text :: "basis_world \<Rightarrow> rstr \<Rightarrow> basis_error + rstr" where
  "read_text W path =
     and_then (map_err (Unreadable path) (bw_read W path)) (\<lambda>bytes.
     ok_or (from_utf8 bytes) (Unreadable path (lit ''stream did not contain valid UTF-8'')))"

definition file_sha256 :: "basis_env \<Rightarrow> basis_world \<Rightarrow> rstr \<Rightarrow> basis_error + rstr" where
  "file_sha256 E W path =
     and_then (map_err (Unreadable path) (bw_read W path)) (\<lambda>bytes. Inr (be_sha256_hex E bytes))"

definition git_commit :: "basis_world \<Rightarrow> rstr \<Rightarrow> rstr \<Rightarrow> basis_error + rstr" where
  "git_commit W repo refname =
     and_then (map_err (Unreadable (repo @ lit ''#'' @ refname)) (bw_git W repo refname)) (\<lambda>(success, out, err).
     if \<not> success then Inl (Unreadable (repo @ lit ''#'' @ refname) (trim err)) else Inr (trim out))"

definition registry_value :: "basis_env \<Rightarrow> basis_world \<Rightarrow> rstr \<Rightarrow> rstr \<Rightarrow> basis_error + rstr" where
  "registry_value E W path pointer =
     and_then (read_text W path) (\<lambda>text.
     and_then (map_err (Unreadable path) (be_json E text)) (\<lambda>value.
     and_then (ok_or (be_pointer E value pointer) (Unreadable (path @ pointer) (lit ''json pointer not found''))) (\<lambda>found.
     Inr (case found of JString s \<Rightarrow> s | other \<Rightarrow> be_render E other))))"

definition ledger_handle :: "basis_env \<Rightarrow> basis_world \<Rightarrow> rstr \<Rightarrow> basis_error + nat \<times> rstr" where
  "ledger_handle E W path =
     and_then (read_text W path) (\<lambda>text. Inr (length (lines_of text), be_sha256_hex E (utf8 text)))"

definition encode_ledger :: "nat \<Rightarrow> rstr \<Rightarrow> rstr" where
  "encode_ledger line_count content = dec line_count @ lit '':'' @ content"

definition capture_one :: "basis_env \<Rightarrow> basis_world \<Rightarrow> basis_declaration \<Rightarrow> basis_error + basis_source" where
  "capture_one E W d =
     (case d of
        DeclareFile path \<Rightarrow> and_then (file_sha256 E W path) (\<lambda>h. Inr (FileHash path h))
      | DeclareGit repo refname \<Rightarrow> and_then (git_commit W repo refname) (\<lambda>c. Inr (GitRef repo refname c))
      | DeclareRegistry path pointer \<Rightarrow>
          and_then (registry_value E W path pointer) (\<lambda>v. Inr (RegistryEntry path pointer v))
      | DeclareLedger path \<Rightarrow> and_then (ledger_handle E W path) (\<lambda>(n, h). Inr (LedgerSection path n h))
      | DeclareUnverifiable description \<Rightarrow> Inr (UnverifiableSource description))"

section \<open>Sources\<close>

fun read_current :: "basis_env \<Rightarrow> basis_world \<Rightarrow> basis_source \<Rightarrow> basis_error + rstr option" where
  "read_current E W (FileHash path _) = and_then (file_sha256 E W path) (\<lambda>h. Inr (Some h))"
| "read_current E W (GitRef repo refname _) = and_then (git_commit W repo refname) (\<lambda>c. Inr (Some c))"
| "read_current E W (RegistryEntry path pointer _) = and_then (registry_value E W path pointer) (\<lambda>v. Inr (Some v))"
| "read_current E W (LedgerSection path _ _) =
     and_then (ledger_handle E W path) (\<lambda>(n, h). Inr (Some (encode_ledger n h)))"
| "read_current E W (UnverifiableSource _) = Inr None"

fun planned_version :: "basis_source \<Rightarrow> rstr option" where
  "planned_version (FileHash _ h) = Some h"
| "planned_version (GitRef _ _ c) = Some c"
| "planned_version (RegistryEntry _ _ v) = Some v"
| "planned_version (LedgerSection _ n h) = Some (encode_ledger n h)"
| "planned_version (UnverifiableSource _) = None"

fun source_id :: "basis_source \<Rightarrow> rstr" where
  "source_id (FileHash path _) = lit ''file:'' @ path"
| "source_id (GitRef repo refname _) = lit ''git:'' @ repo @ lit ''#'' @ refname"
| "source_id (RegistryEntry path pointer _) = lit ''registry:'' @ path @ pointer"
| "source_id (LedgerSection path _ _) = lit ''ledger:'' @ path"
| "source_id (UnverifiableSource description) = lit ''unverifiable:'' @ description"

definition check_source :: "basis_env \<Rightarrow> basis_world \<Rightarrow> basis_source \<Rightarrow> freshness" where
  "check_source E W s =
     (case planned_version s of
        None \<Rightarrow> NotVerifiable
      | Some planned \<Rightarrow>
          let found = (case read_current E W s of
                Inr (Some found) \<Rightarrow> Some found
              | Inr None \<Rightarrow> None
              | Inl e \<Rightarrow> Some (lit ''<unreadable: '' @ show_basis_error e @ lit ''>'')) in
          (case found of
             None \<Rightarrow> NotVerifiable
           | Some found \<Rightarrow> if found = planned then Match
               else Mismatch \<lparr>mi_source = source_id s, mi_planned = planned, mi_found = found\<rparr>))"

section \<open>The set\<close>

fun repeated_id :: "rstr list \<Rightarrow> rstr list \<Rightarrow> rstr option" where
  "repeated_id seen [] = None"
| "repeated_id seen (x # xs) = (if x \<in> set seen then Some x else repeated_id (x # seen) xs)"

definition from_sources_with_cap :: "basis_source list \<Rightarrow> nat \<Rightarrow> basis_error + basis_set" where
  "from_sources_with_cap sources cap =
     and_then (ensure (sources \<noteq> []) EmptyBasis) (\<lambda>_.
     and_then (ensure (length sources \<le> cap) (BasisOverCap (length sources) cap)) (\<lambda>_.
     case repeated_id [] (map source_id sources) of
       Some name \<Rightarrow> Inl (DuplicateSource name)
     | None \<Rightarrow> Inr \<lparr>bs_sources = sources, bs_cap = cap\<rparr>))"

definition from_sources :: "basis_source list \<Rightarrow> basis_error + basis_set" where
  "from_sources sources = from_sources_with_cap sources DEFAULT_BASIS_CAP"

fun capture_all :: "basis_env \<Rightarrow> basis_world \<Rightarrow> basis_declaration list \<Rightarrow> basis_error + basis_source list" where
  "capture_all E W [] = Inr []"
| "capture_all E W (d # ds) =
     and_then (capture_one E W d) (\<lambda>s. and_then (capture_all E W ds) (\<lambda>ss. Inr (s # ss)))"

definition capture_with_cap ::
    "basis_env \<Rightarrow> basis_world \<Rightarrow> basis_declaration list \<Rightarrow> nat \<Rightarrow> basis_error + basis_set" where
  "capture_with_cap E W ds cap =
     and_then (capture_all E W ds) (\<lambda>sources. from_sources_with_cap sources cap)"

definition capture :: "basis_env \<Rightarrow> basis_world \<Rightarrow> basis_declaration list \<Rightarrow> basis_error + basis_set" where
  "capture E W ds = capture_with_cap E W ds DEFAULT_BASIS_CAP"

text \<open>Rehydration from JSON: the decoded sources and cap go through the constructor again.\<close>

definition basis_set_from_wire :: "basis_source list \<times> nat \<Rightarrow> basis_error + basis_set" where
  "basis_set_from_wire = (\<lambda>(sources, cap). from_sources_with_cap sources cap)"

fun collect_checks ::
    "basis_env \<Rightarrow> basis_world \<Rightarrow> basis_source list \<Rightarrow> basis_mismatch list \<times> rstr list" where
  "collect_checks E W [] = ([], [])"
| "collect_checks E W (s # ss) =
     (case collect_checks E W ss of (ms, us) \<Rightarrow>
        (case check_source E W s of
           Match \<Rightarrow> (ms, us)
         | Mismatch m \<Rightarrow> (m # ms, us)
         | NotVerifiable \<Rightarrow> (ms, source_id s # us)))"

definition verify :: "basis_env \<Rightarrow> basis_world \<Rightarrow> basis_set \<Rightarrow> basis_verdict" where
  "verify E W b = (case collect_checks E W (bs_sources b) of
     (ms, us) \<Rightarrow> if ms = [] then Fresh us else Stale ms us)"

section \<open>Verdicts\<close>

fun settles :: "basis_verdict \<Rightarrow> bool" where
  "settles (Fresh _) = True"
| "settles (Stale _ _) = False"

fun verdict_mismatches :: "basis_verdict \<Rightarrow> basis_mismatch list" where
  "verdict_mismatches (Fresh _) = []"
| "verdict_mismatches (Stale ms _) = ms"

fun verdict_unverifiable :: "basis_verdict \<Rightarrow> rstr list" where
  "verdict_unverifiable (Fresh us) = us"
| "verdict_unverifiable (Stale _ us) = us"

definition show_mismatch :: "basis_mismatch \<Rightarrow> rstr" where
  "show_mismatch m = mi_source m @ lit '' planned='' @ mi_planned m @ lit '' found='' @ mi_found m"

definition verdict_report :: "basis_verdict \<Rightarrow> rstr" where
  "verdict_report v =
     (case v of
        Fresh _ \<Rightarrow> lit ''basis fresh: settlement may proceed'' @ [10]
      | Stale ms _ \<Rightarrow> lit ''basis stale: settlement held, '' @ dec (length ms) @
          lit '' source(s) moved since plan'' @ [10] @
          concat (map (\<lambda>m. lit ''  moved: '' @ show_mismatch m @ [10]) ms)) @
     concat (map (\<lambda>a. lit ''  assumption (unverifiable): '' @ a @ [10]) (verdict_unverifiable v))"

section \<open>Well-formed sets\<close>

lemma repeated_id_None: "repeated_id seen xs = None \<longleftrightarrow> distinct xs \<and> set xs \<inter> set seen = {}"
  by (induction xs arbitrary: seen) auto

lemma from_sources_iff:
  "from_sources_with_cap ss cap = Inr b \<longleftrightarrow> ss \<noteq> [] \<and> length ss \<le> cap \<and> distinct (map source_id ss) \<and>
     b = \<lparr>bs_sources = ss, bs_cap = cap\<rparr>"
  using repeated_id_None [of "[]" "map source_id ss"]
  by (auto simp: from_sources_with_cap_def split: option.splits)

lemma capture_all_Inr: "capture_all E W ds = Inr ss \<longleftrightarrow> list_all2 (\<lambda>d s. capture_one E W d = Inr s) ds ss"
  by (induction ds arbitrary: ss) (auto simp: list_all2_Cons1)

text \<open>A basis is a bounded set, however it was made: what capturing or rehydrating accepts has at least
  one source, at most its cap, and one version per source; and writing it out and reading it back gives
  the same basis.\<close>

theorem basis_survives_rehydration:
  assumes "capture_with_cap E W ds cap = Inr b \<or> basis_set_from_wire wire = Inr b"
  shows "bs_sources b \<noteq> [] \<and> length (bs_sources b) \<le> bs_cap b \<and> distinct (map source_id (bs_sources b)) \<and>
    basis_set_from_wire (bs_sources b, bs_cap b) = Inr b"
  using assms by (cases wire) (auto simp: capture_with_cap_def basis_set_from_wire_def from_sources_iff)

section \<open>Freshness\<close>

text \<open>What a re-read shows: the current version, or the text that stands for an unreadable source.\<close>

definition found_version :: "basis_env \<Rightarrow> basis_world \<Rightarrow> basis_source \<Rightarrow> rstr option" where
  "found_version E W s = (case read_current E W s of Inr v \<Rightarrow> v
     | Inl e \<Rightarrow> Some (lit ''<unreadable: '' @ show_basis_error e @ lit ''>''))"

lemma read_verifiable: "read_current E W s = Inr None \<longleftrightarrow> planned_version s = None"
  by (cases s) (auto split: prod.splits)

lemma check_source_cases:
  "check_source E W s = Match \<longleftrightarrow> planned_version s \<noteq> None \<and> found_version E W s = planned_version s"
  "check_source E W s = NotVerifiable \<longleftrightarrow> planned_version s = None"
  using read_verifiable [of E W s]
  by (cases "planned_version s"; auto simp: check_source_def found_version_def split: option.splits sum.splits)+

lemma collect_mismatches: "fst (collect_checks E W ss) = [] \<longleftrightarrow> list_all (\<lambda>s. check_source E W s = Match \<or> check_source E W s = NotVerifiable) ss"
  by (induction ss) (auto split: freshness.splits prod.splits)

lemma collect_unverifiable: "snd (collect_checks E W ss) = map source_id (filter (\<lambda>s. planned_version s = None) ss)"
  by (induction ss) (auto split: freshness.splits prod.splits
      dest: check_source_cases(2) [of E W, THEN iffD1] check_source_cases(2) [of E W, THEN iffD2])

lemma verify_settles:
  "settles (verify E W b) \<longleftrightarrow> list_all (\<lambda>s. planned_version s = None \<or> found_version E W s = planned_version s) (bs_sources b)"
  using collect_mismatches [of E W "bs_sources b"]
  by (auto simp: verify_def check_source_cases list_all_iff split: prod.splits)

lemma verify_unverifiable:
  "verdict_unverifiable (verify E W b) = map source_id (filter (\<lambda>s. planned_version s = None) (bs_sources b))"
  using collect_unverifiable [of E W "bs_sources b"] by (auto simp: verify_def split: prod.splits)

lemma captured_is_current:
  "capture_one E W d = Inr s \<Longrightarrow> planned_version s = None \<or> found_version E W s = planned_version s"
  by (cases d) (auto simp: capture_one_def found_version_def)

text \<open>A basis is fresh as long as nothing moves: verifying a captured basis against the very world it was
  captured in settles, and the verdict lists exactly the declared assumptions.\<close>

theorem captured_basis_is_fresh:
  assumes "capture_with_cap E W ds cap = Inr b"
  shows "verify E W b = Fresh (map source_id (filter (\<lambda>s. planned_version s = None) (bs_sources b)))"
proof -
  have "list_all (\<lambda>s. planned_version s = None \<or> found_version E W s = planned_version s) (bs_sources b)"
    using assms captured_is_current
    by (fastforce simp: capture_with_cap_def from_sources_iff capture_all_Inr list_all_iff in_set_conv_nth list_all2_conv_all_nth)
  then have "settles (verify E W b)" by (simp add: verify_settles)
  then show ?thesis
    using verify_unverifiable [of E W b] by (cases "verify E W b") simp_all
qed

text \<open>C29: Settlement fails closed: if a basis settles in some world, then every verifiable source of it can
  still be read there and has the version it was planned against, unless that version is itself spelled
  like the marker of an unreadable source; and the assumptions are all listed, whether it settles or not.\<close>

theorem settlement_needs_unmoved_basis:
  assumes "settles (verify E W b)" "s \<in> set (bs_sources b)" "planned_version s = Some v"
    and "\<And>rest. v \<noteq> lit ''<unreadable: '' @ rest"
  shows "read_current E W s = Inr (Some v) \<and>
    verdict_unverifiable (verify E W' b) = map source_id (filter (\<lambda>s. planned_version s = None) (bs_sources b))"
proof -
  have "found_version E W s = Some v" using assms(1,2,3) by (auto simp: verify_settles list_all_iff)
  then have "read_current E W s = Inr (Some v)"
    using assms(4) by (auto simp: found_version_def split: sum.splits)
  then show ?thesis by (simp add: verify_unverifiable)
qed

section \<open>The marker of an unreadable source\<close>

definition demo_basis_env :: basis_env where
  "demo_basis_env = \<lparr>be_sha256_hex = (\<lambda>bs. replicate 64 (97 + length bs mod 6)), be_json = (\<lambda>t. Inr (JString t)),
     be_pointer = (\<lambda>j _. Some j), be_render = (\<lambda>_. lit ''null'')\<rparr>"

definition demo_marker :: rstr where
  "demo_marker = lit ''<unreadable: cannot read basis source `r`: gone>''"

definition demo_world_of :: "rstr + nat list \<Rightarrow> basis_world" where
  "demo_world_of r = \<lparr>bw_read = (\<lambda>_. r), bw_git = (\<lambda>_ _. Inl (lit ''no git''))\<rparr>"

text \<open>The exception is real: a registry entry whose value was, at capture, the text of the marker settles
  after its file has become unreadable.\<close>

theorem unreadable_registry_settles:
  "\<exists>b. capture demo_basis_env (demo_world_of (Inr demo_marker)) [DeclareRegistry (lit ''r'') []] = Inr b \<and>
     bw_read (demo_world_of (Inl (lit ''gone''))) (lit ''r'') = Inl (lit ''gone'') \<and>
     settles (verify demo_basis_env (demo_world_of (Inl (lit ''gone''))) b)"
proof -
  have held: "read_text (demo_world_of (Inr demo_marker)) (lit ''r'') = Inr demo_marker"
    by (simp add: read_text_def demo_world_of_def demo_marker_def lit_def)
  have gone: "read_text (demo_world_of (Inl (lit ''gone''))) (lit ''r'') = Inl (Unreadable (lit ''r'') (lit ''gone''))"
    by (simp add: read_text_def demo_world_of_def)
  let ?b = "\<lparr>bs_sources = [RegistryEntry (lit ''r'') [] demo_marker], bs_cap = 32\<rparr>"
  have "capture demo_basis_env (demo_world_of (Inr demo_marker)) [DeclareRegistry (lit ''r'') []] = Inr ?b"
    by (simp add: capture_def capture_with_cap_def capture_one_def registry_value_def held demo_basis_env_def
        from_sources_iff DEFAULT_BASIS_CAP_def)
  moreover have "settles (verify demo_basis_env (demo_world_of (Inl (lit ''gone''))) ?b)"
    by (simp add: verify_settles found_version_def registry_value_def gone demo_marker_def) (simp add: lit_def)
  ultimately show ?thesis by (auto simp: demo_world_of_def)
qed

section \<open>An example\<close>

definition demo_declarations :: "basis_declaration list" where
  "demo_declarations = [DeclareFile (lit ''f''), DeclareLedger (lit ''l''), DeclareUnverifiable (lit ''ok'')]"

definition demo_basis :: basis_set where
  "demo_basis = \<lparr>bs_sources = [FileHash (lit ''f'') (replicate 64 99), LedgerSection (lit ''l'') 1 (replicate 64 99),
     UnverifiableSource (lit ''ok'')], bs_cap = 32\<rparr>"

lemma demo_captured: "capture_with_cap demo_basis_env (demo_world_of (Inr [104, 105])) demo_declarations 32 = Inr demo_basis"
  by (simp add: capture_with_cap_def demo_declarations_def capture_one_def file_sha256_def ledger_handle_def read_text_def
      demo_world_of_def demo_basis_env_def from_sources_iff demo_basis_def lines_of_def utf8_def utf8_char_def)
    (simp add: lit_def)

theorem basis_survives_rehydration_witness:
  "basis_set_from_wire (bs_sources demo_basis, bs_cap demo_basis) = Inr demo_basis"
  using basis_survives_rehydration [of demo_basis_env "demo_world_of (Inr [104, 105])" demo_declarations 32 demo_basis "([], 0)"]
    demo_captured by simp

theorem captured_basis_is_fresh_witness:
  "verify demo_basis_env (demo_world_of (Inr [104, 105])) demo_basis = Fresh [lit ''unverifiable:ok'']"
  using captured_basis_is_fresh [OF demo_captured] by (simp add: demo_basis_def) (simp add: lit_def)

theorem settlement_needs_unmoved_basis_witness:
  "settles (verify demo_basis_env (demo_world_of (Inr [104, 105])) demo_basis) \<and>
   file_sha256 demo_basis_env (demo_world_of (Inr [104, 105])) (lit ''f'') = Inr (replicate 64 99)"
proof -
  have settled: "settles (verify demo_basis_env (demo_world_of (Inr [104, 105])) demo_basis)"
    by (simp add: verify_settles demo_basis_def found_version_def file_sha256_def ledger_handle_def read_text_def
        demo_world_of_def demo_basis_env_def lines_of_def utf8_def utf8_char_def)
  have "replicate 64 99 \<noteq> lit ''<unreadable: '' @ rest" for rest
    by (auto simp: lit_def dest!: arg_cong [where f = hd])
  from settlement_needs_unmoved_basis [OF settled, of "FileHash (lit ''f'') (replicate 64 99)" "replicate 64 99"
      "demo_world_of (Inr [])", OF _ _ this]
  show ?thesis using settled by (simp add: demo_basis_def)
qed

end
