(* ===== verification/Settlement.thy ===== *)
theory Settlement
  imports Basis_Set
begin

text \<open>
  Comparative settlement (\<open>src/settlement.rs\<close>): the record of choosing one of several candidate runs.
  The constructor is the only way to a record and is translated check by check, in the order of the
  code; whether an archive is on disk is the parameter \<open>exists\<close>.  Identifiers are strings that
  \<open>try_new\<close> accepted.  Hash sets are lists here: only membership and a minimum are asked of them.
\<close>

section \<open>Data\<close>

datatype check_outcome = CheckPassed | CheckFailed | CheckInconclusive

fun show_check_outcome :: "check_outcome \<Rightarrow> rstr" where
  "show_check_outcome CheckPassed = lit ''passed''"
| "show_check_outcome CheckFailed = lit ''failed''"
| "show_check_outcome CheckInconclusive = lit ''inconclusive''"

record check_result =
  ck_check :: rstr
  ck_outcome :: check_outcome
  ck_fatal :: bool
  ck_evidence :: "rstr option"

record candidate_result =
  cr_id :: rstr
  cr_archive :: rstr
  cr_diff_summary :: rstr
  cr_basis :: basis_verdict
  cr_checks :: "check_result list"

record graft =
  gr_from :: rstr
  gr_piece :: rstr

record dissent =
  ds_candidate :: rstr
  ds_diff_summary :: rstr
  ds_note :: "rstr option"

record settlement_parts =
  se_candidates :: "candidate_result list"
  se_selected :: rstr
  se_rationale :: rstr
  se_grafts :: "graft list"
  se_dissent :: "dissent list"

record settlement_record = settlement_parts +
  se_winner :: candidate_result

datatype settlement_error =
    InvalidId string rstr
  | NoCandidates
  | SingleCandidate rstr
  | DuplicateCandidate rstr
  | UnknownCandidate string rstr
  | IneligibleSelection rstr rstr
  | NoChecks rstr
  | MissingCheck rstr rstr
  | RationaleTooShort nat nat
  | ArchiveMissing rstr rstr
  | PassingCandidateNotRecorded rstr
  | CandidatesOverCap nat nat
  | FatalDisagreement rstr

definition DEFAULT_CANDIDATE_CAP :: nat where "DEFAULT_CANDIDATE_CAP = 8"
definition MIN_RATIONALE_BYTES :: nat where "MIN_RATIONALE_BYTES = 40"

definition settlement_id :: "string \<Rightarrow> rstr \<Rightarrow> settlement_error + rstr" where
  "settlement_id kind value =
     (if value = [] \<or> 256 < byte_len value \<or> list_ex (\<lambda>c. is_whitespace c \<or> is_control c) value
      then Inl (InvalidId kind value) else Inr value)"

section \<open>Candidates\<close>

definition disqualifying :: "check_result \<Rightarrow> bool" where
  "disqualifying r \<longleftrightarrow> ck_fatal r \<and> ck_outcome r \<noteq> CheckPassed"

definition passed_all :: "candidate_result \<Rightarrow> bool" where
  "passed_all c \<longleftrightarrow> cr_checks c \<noteq> [] \<and> list_all (\<lambda>r. ck_outcome r = CheckPassed) (cr_checks c)"

fun join :: "rstr \<Rightarrow> rstr list \<Rightarrow> rstr" where
  "join sep [] = []"
| "join sep [x] = x"
| "join sep (x # y # xs) = x @ sep @ join sep (y # xs)"

definition ineligibility_reason :: "candidate_result \<Rightarrow> rstr option" where
  "ineligibility_reason c =
     (if \<not> settles (cr_basis c) then
        let moved = map mi_source (verdict_mismatches (cr_basis c)) in
        Some (lit ''basis stale, '' @ dec (length moved) @ lit '' source(s) moved since plan: '' @
          join (lit '', '') moved)
      else map_option (\<lambda>r. case ck_outcome r of
             CheckFailed \<Rightarrow> lit ''fatal check `'' @ ck_check r @ lit ''` failed''
           | _ \<Rightarrow> lit ''fatal check `'' @ ck_check r @ lit ''` did not conclude'')
         (List.find disqualifying (cr_checks c)))"

definition eligible :: "candidate_result \<Rightarrow> bool" where
  "eligible c \<longleftrightarrow> ineligibility_reason c = None"

definition check_ids :: "candidate_result \<Rightarrow> rstr list" where
  "check_ids c = map ck_check (cr_checks c)"

section \<open>The constructor\<close>

fun least :: "rstr list \<Rightarrow> rstr option" where
  "least [] = None"
| "least (x # xs) = (case least xs of None \<Rightarrow> Some x | Some y \<Rightarrow> Some (min x y))"

definition check_candidate_count :: "candidate_result list \<Rightarrow> nat \<Rightarrow> settlement_error + unit" where
  "check_candidate_count cs cap =
     (case cs of
        [] \<Rightarrow> Inl NoCandidates
      | [c] \<Rightarrow> Inl (SingleCandidate (cr_id c))
      | _ \<Rightarrow> ensure (length cs \<le> cap) (CandidatesOverCap (length cs) cap))"

definition check_distinct :: "candidate_result list \<Rightarrow> settlement_error + unit" where
  "check_distinct cs =
     (case repeated_id [] (map cr_id cs) of Some name \<Rightarrow> Inl (DuplicateCandidate name) | None \<Rightarrow> Inr ())"

definition check_candidate_matrix :: "rstr list \<Rightarrow> candidate_result \<Rightarrow> settlement_error + unit" where
  "check_candidate_matrix every c =
     and_then (ensure (cr_checks c \<noteq> []) (NoChecks (cr_id c))) (\<lambda>_.
     case least (filter (\<lambda>k. k \<notin> set (check_ids c)) every) of
       Some missing \<Rightarrow> Inl (MissingCheck (cr_id c) missing)
     | None \<Rightarrow> Inr ())"

definition check_matrix :: "candidate_result list \<Rightarrow> settlement_error + unit" where
  "check_matrix cs = checks (map (check_candidate_matrix (concat (map check_ids cs))) cs)"

fun scan_fatal :: "(rstr \<times> bool) list \<Rightarrow> check_result list \<Rightarrow> settlement_error + unit" where
  "scan_fatal known [] = Inr ()"
| "scan_fatal known (r # rs) =
     (case map_of known (ck_check r) of
        Some prior \<Rightarrow> if prior \<noteq> ck_fatal r then Inl (FatalDisagreement (ck_check r)) else scan_fatal known rs
      | None \<Rightarrow> scan_fatal ((ck_check r, ck_fatal r) # known) rs)"

definition check_fatal_flags :: "candidate_result list \<Rightarrow> settlement_error + unit" where
  "check_fatal_flags cs = scan_fatal [] (concat (map cr_checks cs))"

definition select_winner :: "candidate_result list \<Rightarrow> rstr \<Rightarrow> settlement_error + candidate_result" where
  "select_winner cs selected =
     and_then (ok_or (List.find (\<lambda>c. cr_id c = selected) cs) (UnknownCandidate ''selected'' selected)) (\<lambda>w.
     case ineligibility_reason w of
       Some reason \<Rightarrow> Inl (IneligibleSelection selected reason)
     | None \<Rightarrow> Inr w)"

definition check_rationale :: "rstr \<Rightarrow> settlement_error + unit" where
  "check_rationale rationale =
     ensure (MIN_RATIONALE_BYTES \<le> byte_len (trim rationale))
       (RationaleTooShort (byte_len (trim rationale)) MIN_RATIONALE_BYTES)"

definition check_graft :: "(rstr \<Rightarrow> bool) \<Rightarrow> candidate_result list \<Rightarrow> graft \<Rightarrow> settlement_error + unit" where
  "check_graft exists cs g =
     and_then (ok_or (List.find (\<lambda>c. cr_id c = gr_from g) cs) (UnknownCandidate ''graft.from'' (gr_from g))) (\<lambda>source.
     ensure (exists (cr_archive source)) (ArchiveMissing (gr_from g) (cr_archive source)))"

definition check_dissent :: "candidate_result list \<Rightarrow> rstr \<Rightarrow> dissent list \<Rightarrow> settlement_error + unit" where
  "check_dissent cs selected ds = checks
     (map (\<lambda>d. ensure (ds_candidate d \<in> set (map cr_id cs)) (UnknownCandidate ''dissent.candidate'' (ds_candidate d))) ds @
      map (\<lambda>c. ensure (\<not> (cr_id c \<noteq> selected \<and> passed_all c \<and> cr_id c \<notin> set (map ds_candidate ds)))
        (PassingCandidateNotRecorded (cr_id c))) cs)"

definition settle_new_with_cap ::
    "(rstr \<Rightarrow> bool) \<Rightarrow> settlement_parts \<Rightarrow> nat \<Rightarrow> settlement_error + settlement_record" where
  "settle_new_with_cap exists p cap =
     and_then (check_candidate_count (se_candidates p) cap) (\<lambda>_.
     and_then (check_distinct (se_candidates p)) (\<lambda>_.
     and_then (check_matrix (se_candidates p)) (\<lambda>_.
     and_then (check_fatal_flags (se_candidates p)) (\<lambda>_.
     and_then (select_winner (se_candidates p) (se_selected p)) (\<lambda>w.
     and_then (check_rationale (se_rationale p)) (\<lambda>_.
     and_then (checks (map (check_graft exists (se_candidates p)) (se_grafts p))) (\<lambda>_.
     and_then (check_dissent (se_candidates p) (se_selected p) (se_dissent p)) (\<lambda>_.
     Inr (settlement_parts.extend p \<lparr>se_winner = w\<rparr>)))))))))"

definition settle_new :: "(rstr \<Rightarrow> bool) \<Rightarrow> settlement_parts \<Rightarrow> settlement_error + settlement_record" where
  "settle_new exists p = settle_new_with_cap exists p DEFAULT_CANDIDATE_CAP"

text \<open>Deserialization: the identifiers are validated as they are decoded, in the order a record is
  written, and the constructor runs again.\<close>

definition decode_candidate_ids :: "candidate_result \<Rightarrow> settlement_error + unit" where
  "decode_candidate_ids c = checks
     (and_then (settlement_id ''candidate_id'' (cr_id c)) (\<lambda>_. Inr ()) #
      map (\<lambda>r. and_then (settlement_id ''check_id'' (ck_check r)) (\<lambda>_. Inr ())) (cr_checks c))"

definition settlement_from_wire :: "(rstr \<Rightarrow> bool) \<Rightarrow> settlement_parts \<Rightarrow> settlement_error + settlement_record" where
  "settlement_from_wire exists p =
     and_then (checks (map decode_candidate_ids (se_candidates p) @
       map (\<lambda>k. and_then (settlement_id ''candidate_id'' k) (\<lambda>_. Inr ()))
         (se_selected p # map gr_from (se_grafts p) @ map ds_candidate (se_dissent p)))) (\<lambda>_.
     settle_new exists p)"

definition settlement_to_wire :: "settlement_record \<Rightarrow> settlement_parts" where
  "settlement_to_wire r = settlement_parts.truncate r"

section \<open>The report\<close>

definition standing :: "settlement_record \<Rightarrow> candidate_result \<Rightarrow> rstr" where
  "standing r c =
     (if cr_id c = se_selected r then lit ''selected''
      else case ineligibility_reason c of
        Some reason \<Rightarrow> lit ''ineligible: '' @ reason
      | None \<Rightarrow> lit ''eligible'')"

definition matrix_report :: "settlement_record \<Rightarrow> rstr" where
  "matrix_report r =
     lit ''settlement: selected `'' @ se_selected r @ lit ''` from '' @ dec (length (se_candidates r)) @
     lit '' candidates'' @ [10] @
     lit ''  rationale: '' @ trim (se_rationale r) @ [10] @
     concat (map (\<lambda>c. lit ''  candidate `'' @ cr_id c @ lit ''` ['' @ standing r c @ lit '']'' @ [10] @
       concat (map (\<lambda>k. lit ''    check `'' @ ck_check k @ lit ''`: '' @ show_check_outcome (ck_outcome k) @
         (if ck_fatal k then lit '' (fatal)'' else []) @ [10]) (cr_checks c))) (se_candidates r)) @
     concat (map (\<lambda>g. lit ''  graft: `'' @ gr_piece g @ lit ''` from candidate `'' @ gr_from g @ lit ''`'' @ [10])
       (se_grafts r)) @
     concat (map (\<lambda>d. lit ''  dissent: candidate `'' @ ds_candidate d @ lit ''` '' @ [8212] @ lit '' '' @
       ds_diff_summary d @ [10]) (se_dissent r))"

section \<open>The contract\<close>

text \<open>Like compared with like: every candidate ran at least one check, and all ran the same ones.\<close>

definition complete_matrix :: "candidate_result list \<Rightarrow> bool" where
  "complete_matrix cs \<longleftrightarrow> (\<forall>c \<in> set cs. cr_checks c \<noteq> [] \<and> (\<forall>d \<in> set cs. set (check_ids d) = set (check_ids c)))"

text \<open>A check is fatal for every candidate or for none.\<close>

definition fatal_flags_agree :: "candidate_result list \<Rightarrow> bool" where
  "fatal_flags_agree cs \<longleftrightarrow> (\<forall>c \<in> set cs. \<forall>r \<in> set (cr_checks c). \<forall>d \<in> set cs. \<forall>q \<in> set (cr_checks d).
     ck_check r = ck_check q \<longrightarrow> ck_fatal r = ck_fatal q)"

definition admissible_winner :: "candidate_result \<Rightarrow> bool" where
  "admissible_winner w \<longleftrightarrow> settles (cr_basis w) \<and> (\<forall>r \<in> set (cr_checks w). ck_fatal r \<longrightarrow> ck_outcome r = CheckPassed)"

definition grafts_reviewable :: "(rstr \<Rightarrow> bool) \<Rightarrow> candidate_result list \<Rightarrow> graft list \<Rightarrow> bool" where
  "grafts_reviewable exists cs gs \<longleftrightarrow>
     (\<forall>g \<in> set gs. \<exists>c \<in> set cs. cr_id c = gr_from g \<and> exists (cr_archive c))"

text \<open>The road not taken: every losing candidate that passed everything is in the dissent.\<close>

definition dissent_complete :: "candidate_result list \<Rightarrow> rstr \<Rightarrow> dissent list \<Rightarrow> bool" where
  "dissent_complete cs selected ds \<longleftrightarrow> ds_candidate ` set ds \<subseteq> cr_id ` set cs \<and>
     (\<forall>c \<in> set cs. cr_id c \<noteq> selected \<longrightarrow> passed_all c \<longrightarrow> cr_id c \<in> ds_candidate ` set ds)"

definition settlement_contract :: "(rstr \<Rightarrow> bool) \<Rightarrow> settlement_parts \<Rightarrow> nat \<Rightarrow> bool" where
  "settlement_contract exists p cap \<longleftrightarrow>
     2 \<le> length (se_candidates p) \<and> length (se_candidates p) \<le> cap \<and> distinct (map cr_id (se_candidates p)) \<and>
     complete_matrix (se_candidates p) \<and> fatal_flags_agree (se_candidates p) \<and>
     (\<exists>w \<in> set (se_candidates p). cr_id w = se_selected p \<and> admissible_winner w) \<and>
     MIN_RATIONALE_BYTES \<le> byte_len (trim (se_rationale p)) \<and>
     grafts_reviewable exists (se_candidates p) (se_grafts p) \<and>
     dissent_complete (se_candidates p) (se_selected p) (se_dissent p)"

lemma eligible_iff: "ineligibility_reason c = None \<longleftrightarrow> admissible_winner c"
  by (auto simp: ineligibility_reason_def admissible_winner_def Let_def find_None_iff disqualifying_def)

lemma least_None: "least xs = None \<longleftrightarrow> xs = []"
  by (cases xs) (auto split: option.splits)

lemma count_Inr: "check_candidate_count cs cap = Inr u \<longleftrightarrow> 2 \<le> length cs \<and> length cs \<le> cap"
  by (auto simp: check_candidate_count_def split: list.splits)

lemma distinct_Inr: "check_distinct cs = Inr u \<longleftrightarrow> distinct (map cr_id cs)"
  using repeated_id_None [of "[]" "map cr_id cs"] by (auto simp: check_distinct_def split: option.splits)

lemma candidate_matrix_Inr:
  "check_candidate_matrix every c = Inr u \<longleftrightarrow> cr_checks c \<noteq> [] \<and> set every \<subseteq> set (check_ids c)"
  using least_None [of "filter (\<lambda>k. k \<notin> set (check_ids c)) every"]
  by (cases "least (filter (\<lambda>k. k \<notin> set (check_ids c)) every)")
    (auto simp: check_candidate_matrix_def filter_empty_conv)

lemma matrix_Inr: "check_matrix cs = Inr u \<longleftrightarrow> complete_matrix cs"
  by (auto simp: check_matrix_def complete_matrix_def list_all_iff candidate_matrix_Inr)

lemma scan_fatal_Inr:
  "scan_fatal known rs = Inr u \<longleftrightarrow> (\<exists>g. (\<forall>k f. map_of known k = Some f \<longrightarrow> g k = f) \<and> (\<forall>r \<in> set rs. g (ck_check r) = ck_fatal r))"
proof (induction known rs rule: scan_fatal.induct)
  case (1 known)
  show ?case by (auto intro!: exI [of _ "\<lambda>k. the (map_of known k)"])
next
  case (2 known r rs)
  show ?case
  proof (cases "map_of known (ck_check r)")
    case None
    then have "(\<forall>k f. map_of ((ck_check r, ck_fatal r) # known) k = Some f \<longrightarrow> g k = f) \<longleftrightarrow>
        (\<forall>k f. map_of known k = Some f \<longrightarrow> g k = f) \<and> g (ck_check r) = ck_fatal r" for g by auto
    then show ?thesis using 2(1) [OF None] None by auto
  next
    case (Some f)
    then show ?thesis using 2(2) [OF Some] by (cases "f = ck_fatal r") auto
  qed
qed

lemma fatal_Inr: "check_fatal_flags cs = Inr u \<longleftrightarrow> fatal_flags_agree cs"
proof
  assume "check_fatal_flags cs = Inr u"
  then obtain g where "\<forall>c \<in> set cs. \<forall>r \<in> set (cr_checks c). g (ck_check r) = ck_fatal r"
    by (auto simp: check_fatal_flags_def scan_fatal_Inr)
  then show "fatal_flags_agree cs" unfolding fatal_flags_agree_def by metis
next
  assume "fatal_flags_agree cs"
  then have agree: "ck_fatal r = ck_fatal q" if "r \<in> set (concat (map cr_checks cs))" "q \<in> set (concat (map cr_checks cs))"
      "ck_check r = ck_check q" for r q using that unfolding fatal_flags_agree_def by auto
  have "(\<exists>q \<in> set (concat (map cr_checks cs)). ck_check q = ck_check r \<and> ck_fatal q) = ck_fatal r"
    if "r \<in> set (concat (map cr_checks cs))" for r
    using that agree [of _ r] by blast
  then show "check_fatal_flags cs = Inr u"
    unfolding check_fatal_flags_def scan_fatal_Inr
    by (intro exI [of _ "\<lambda>k. \<exists>q \<in> set (concat (map cr_checks cs)). ck_check q = k \<and> ck_fatal q"]) simp
qed

lemma find_id: "distinct (map f cs) \<Longrightarrow> List.find (\<lambda>c. f c = k) cs = Some w \<longleftrightarrow> w \<in> set cs \<and> f w = k"
  by (induction cs) auto

lemma winner_Inr:
  "distinct (map cr_id cs) \<Longrightarrow> select_winner cs k = Inr w \<longleftrightarrow> w \<in> set cs \<and> cr_id w = k \<and> admissible_winner w"
  using eligible_iff by (auto simp: select_winner_def find_id split: option.splits)

lemma grafts_Inr:
  "distinct (map cr_id cs) \<Longrightarrow> checks (map (check_graft exists cs) gs) = Inr u \<longleftrightarrow> grafts_reviewable exists cs gs"
  by (auto simp: check_graft_def find_id grafts_reviewable_def list_all_iff)

lemma checks_ensure: "checks (map (\<lambda>x. ensure (P x) (e x)) xs) = Inr u \<longleftrightarrow> (\<forall>x \<in> set xs. P x)"
  by (simp add: list.pred_map comp_def list_all_iff)

lemma dissent_Inr: "check_dissent cs k ds = Inr u \<longleftrightarrow> dissent_complete cs k ds"
  unfolding check_dissent_def checks_append and_then_Inr checks_ensure dissent_complete_def by auto

lemma settle_Inr:
  "settle_new_with_cap exists p cap = Inr r \<longleftrightarrow> settlement_contract exists p cap \<and>
     (\<exists>w \<in> set (se_candidates p). cr_id w = se_selected p \<and> r = settlement_parts.extend p \<lparr>se_winner = w\<rparr>)"
proof (cases "distinct (map cr_id (se_candidates p))")
  case True
  have same: "w = v" if "w \<in> set (se_candidates p)" "v \<in> set (se_candidates p)" "cr_id w = cr_id v" for w v
    using True that by (auto simp: distinct_map dest: inj_onD)
  show ?thesis
    unfolding settle_new_with_cap_def settlement_contract_def and_then_Inr count_Inr distinct_Inr matrix_Inr fatal_Inr
      winner_Inr [OF True] check_rationale_def ensure_Inr grafts_Inr [OF True] dissent_Inr
    using True same by (auto, metis)
next
  case False
  then show ?thesis by (auto simp: settle_new_with_cap_def settlement_contract_def distinct_Inr)
qed

lemma settlement_parts_of [simp]:
  "se_candidates (settlement_parts.extend p m) = se_candidates p" "se_selected (settlement_parts.extend p m) = se_selected p"
  "se_rationale (settlement_parts.extend p m) = se_rationale p" "se_grafts (settlement_parts.extend p m) = se_grafts p"
  "se_dissent (settlement_parts.extend p m) = se_dissent p"
  "settlement_to_wire (settlement_parts.extend p \<lparr>se_winner = w\<rparr>) = p"
  "se_winner (settlement_parts.extend p \<lparr>se_winner = w\<rparr>) = w"
  by (simp_all add: settlement_parts.defs settlement_to_wire_def)

section \<open>Properties\<close>

text \<open>C27: The constructor enforces exactly the four-part contract: it succeeds if and only if the candidates are
  two or more within the cap with distinct ids and a complete matrix whose fatal flags agree, the selected
  one is admissible, the rationale is long enough, every graft's archive is on disk and the dissent is
  complete; the record it makes holds the given parts and the selected candidate.\<close>

theorem settlement_is_its_contract:
  "settle_new_with_cap exists p cap = Inr r \<longleftrightarrow> settlement_contract exists p cap \<and>
     (\<exists>w \<in> set (se_candidates p). cr_id w = se_selected p \<and> r = settlement_parts.extend p \<lparr>se_winner = w\<rparr>)"
  by (rule settle_Inr)

text \<open>C28: The winner of a settlement has earned it: its basis was fresh, and it ran and passed every check that
  is fatal for any of the candidates, not only those recorded as fatal on its own row.\<close>

theorem settled_winner_passed_every_fatal_check:
  assumes "settle_new_with_cap exists p cap = Inr r" "c \<in> set (se_candidates r)" "k \<in> set (cr_checks c)" "ck_fatal k"
  shows "se_winner r \<in> set (se_candidates r) \<and> cr_id (se_winner r) = se_selected r \<and> settles (cr_basis (se_winner r)) \<and>
    (\<exists>q \<in> set (cr_checks (se_winner r)). ck_check q = ck_check k \<and> ck_outcome q = CheckPassed)"
proof -
  obtain w where w: "settlement_contract exists p cap" "w \<in> set (se_candidates p)" "cr_id w = se_selected p"
    "r = settlement_parts.extend p \<lparr>se_winner = w\<rparr>"
    using assms(1) by (auto simp: settle_Inr)
  then obtain v where v: "v \<in> set (se_candidates p)" "cr_id v = cr_id w" "admissible_winner v"
    and inj: "inj_on cr_id (set (se_candidates p))"
    and matrix: "complete_matrix (se_candidates p)" "fatal_flags_agree (se_candidates p)"
    by (auto simp: settlement_contract_def distinct_map)
  have "v = w" by (rule inj_onD [OF inj v(2,1) w(2)])
  then have ok: "admissible_winner w" using v(3) by simp
  have c: "c \<in> set (se_candidates p)" using assms(2) w(4) by simp
  have "set (check_ids c) = set (check_ids w)" using matrix(1) c w(2) unfolding complete_matrix_def by blast
  moreover have "ck_check k \<in> set (check_ids c)" using assms(3) by (simp add: check_ids_def)
  ultimately have "ck_check k \<in> set (check_ids w)" by blast
  then obtain q where q: "q \<in> set (cr_checks w)" "ck_check q = ck_check k" unfolding check_ids_def by auto
  have "ck_fatal q = ck_fatal k" using matrix(2) c w(2) q assms(3) unfolding fatal_flags_agree_def by blast
  then have "ck_outcome q = CheckPassed" using ok q(1) assms(4) by (simp add: admissible_winner_def)
  then show ?thesis using ok q w(2,3,4) by (auto simp: admissible_winner_def)
qed

text \<open>The identifiers of a record, as their constructors accept them.\<close>

definition settlement_ids_ok :: "settlement_parts \<Rightarrow> bool" where
  "settlement_ids_ok p \<longleftrightarrow> list_all (\<lambda>c. is_ok (settlement_id ''candidate_id'' (cr_id c)) \<and>
       list_all (\<lambda>r. is_ok (settlement_id ''check_id'' (ck_check r))) (cr_checks c)) (se_candidates p) \<and>
     list_all (\<lambda>k. is_ok (settlement_id ''candidate_id'' k))
       (se_selected p # map gr_from (se_grafts p) @ map ds_candidate (se_dissent p))"

lemma is_ok_exists: "is_ok x \<longleftrightarrow> (\<exists>v. x = Inr v)"
  by (cases x) simp_all

lemma wire_ids: "settlement_ids_ok p \<Longrightarrow> settlement_from_wire exists p = settle_new exists p"
proof -
  assume "settlement_ids_ok p"
  then have "checks (map decode_candidate_ids (se_candidates p) @
       map (\<lambda>k. and_then (settlement_id ''candidate_id'' k) (\<lambda>_. Inr ()))
         (se_selected p # map gr_from (se_grafts p) @ map ds_candidate (se_dissent p))) = Inr ()"
    by (auto simp: settlement_ids_ok_def list_all_iff is_ok_exists decode_candidate_ids_def)
  then show ?thesis unfolding settlement_from_wire_def by (simp only: and_then.simps)
qed

text \<open>What a settlement written out needs to be read back: a record made with any cap reloads, unchanged,
  exactly when it has at most the default number of candidates (the cap is not stored) and the archives
  its grafts came from are still on disk at that time.\<close>

theorem settlement_reloads_iff:
  assumes "settle_new_with_cap exists p cap = Inr r" "settlement_ids_ok p"
  shows "settlement_from_wire exists' (settlement_to_wire r) = Inr r \<longleftrightarrow>
    length (se_candidates r) \<le> 8 \<and> grafts_reviewable exists' (se_candidates r) (se_grafts r)"
proof -
  obtain w where w: "settlement_contract exists p cap" "w \<in> set (se_candidates p)" "cr_id w = se_selected p"
    "r = settlement_parts.extend p \<lparr>se_winner = w\<rparr>"
    using assms(1) by (auto simp: settle_Inr)
  have "settlement_from_wire exists' (settlement_to_wire r) = settle_new_with_cap exists' p 8"
    using wire_ids [OF assms(2)] by (simp add: w(4) settle_new_def DEFAULT_CANDIDATE_CAP_def)
  then show ?thesis using w by (auto simp: settle_Inr settlement_contract_def)
qed

section \<open>An example\<close>

definition demo_candidate_run :: "rstr \<Rightarrow> candidate_result" where
  "demo_candidate_run k = \<lparr>cr_id = k, cr_archive = lit ''/a/'' @ k, cr_diff_summary = lit ''three files'', cr_basis = Fresh [],
     cr_checks = [\<lparr>ck_check = lit ''build'', ck_outcome = CheckPassed, ck_fatal = True, ck_evidence = None\<rparr>]\<rparr>"

definition demo_settlement :: settlement_parts where
  "demo_settlement = \<lparr>se_candidates = [demo_candidate_run (lit ''a''), demo_candidate_run (lit ''b'')],
     se_selected = lit ''b'', se_rationale = lit ''b keeps the lock out of the subprocess await, a does not'',
     se_grafts = [\<lparr>gr_from = lit ''a'', gr_piece = lit ''helper''\<rparr>],
     se_dissent = [\<lparr>ds_candidate = lit ''a'', ds_diff_summary = lit ''three files'', ds_note = None\<rparr>]\<rparr>"

definition demo_settled :: settlement_record where
  "demo_settled = settlement_parts.extend demo_settlement \<lparr>se_winner = demo_candidate_run (lit ''b'')\<rparr>"

lemma demo_settles: "settle_new_with_cap (\<lambda>_. True) demo_settlement 2 = Inr demo_settled"
proof -
  have "MIN_RATIONALE_BYTES \<le> byte_len (trim (se_rationale demo_settlement))"
    by (simp add: demo_settlement_def lit_def trim_def is_whitespace_def byte_len_def utf8_def utf8_char_def
        MIN_RATIONALE_BYTES_def)
  then have "settlement_contract (\<lambda>_. True) demo_settlement 2"
    by (simp add: settlement_contract_def)
      (auto simp: demo_settlement_def demo_candidate_run_def complete_matrix_def check_ids_def fatal_flags_agree_def
        admissible_winner_def grafts_reviewable_def dissent_complete_def lit_def)
  then show ?thesis by (auto simp: settle_Inr demo_settled_def demo_settlement_def demo_candidate_run_def lit_def)
qed

theorem settled_winner_passed_every_fatal_check_witness:
  "settles (cr_basis (se_winner demo_settled)) \<and>
   (\<exists>q \<in> set (cr_checks (se_winner demo_settled)). ck_check q = lit ''build'' \<and> ck_outcome q = CheckPassed)"
  using settled_winner_passed_every_fatal_check [OF demo_settles, of "demo_candidate_run (lit ''a'')"
      "\<lparr>ck_check = lit ''build'', ck_outcome = CheckPassed, ck_fatal = True, ck_evidence = None\<rparr>"]
  by (simp add: demo_settled_def demo_settlement_def demo_candidate_run_def)

theorem settlement_reloads_iff_witness:
  "settlement_from_wire (\<lambda>_. True) (settlement_to_wire demo_settled) = Inr demo_settled \<and>
   settlement_from_wire (\<lambda>_. False) (settlement_to_wire demo_settled) \<noteq> Inr demo_settled"
proof -
  have ids: "settlement_ids_ok demo_settlement"
    by (simp add: settlement_ids_ok_def demo_settlement_def demo_candidate_run_def settlement_id_def lit_def byte_len_def
        utf8_def utf8_char_def is_whitespace_def is_control_def)
  show ?thesis
    using settlement_reloads_iff [OF demo_settles ids, of "\<lambda>_. True"] settlement_reloads_iff [OF demo_settles ids, of "\<lambda>_. False"]
    by (simp add: demo_settled_def grafts_reviewable_def) (simp add: demo_settlement_def demo_candidate_run_def)
qed

end
