(* ===== verification/Handoff_Types.thy ===== *)
theory Handoff_Types
  imports Loop_Contract Ordered_Map
begin

text \<open>
  The typed input of the findings handoff (\<open>src/handoff/types.rs\<close>): subject keys, identifiers, paths,
  commit hashes, URLs and claims, with their validation and normalization, and the results of a call.
  Paths are UTF-8 text.  Times and durations are integers of nanoseconds.  The text of each refusal is
  the source's.
\<close>

section \<open>Errors and results\<close>

datatype handoff_error =
    Invalid rstr
  | RequestError rstr rstr
  | StoreError string rstr
  | CorruptError rstr

datatype check_kind = Request | ClaimsPresent | SourceResolves | FetchUnusable | SubjectMatches | StaleRead
  | HandoffExists | ArtifactExists | AlreadyAccepted

record gate_failure =
  gf_target :: rstr
  gf_check :: check_kind
  gf_field :: "rstr option"
  gf_fix :: rstr

record next_step =
  ns_action :: rstr
  ns_detail :: rstr

datatype workflow_state = WorkflowPending | WorkflowAccepted | WorkflowRecorded

text \<open>The snapshot is the JSON rendering of the record it is about; \<open>'s\<close> is that record.\<close>

record 's workflow_result =
  wr_state :: workflow_state
  wr_accepted :: bool
  wr_snapshot :: 's
  wr_failures :: "gate_failure list"
  wr_next :: next_step

definition result_pending ::
    "'s \<Rightarrow> gate_failure list \<Rightarrow> next_step \<Rightarrow> handoff_error + 's workflow_result" where
  "result_pending snapshot failures step =
     (if failures = [] then Inl (Invalid (lit
        ''a pending handoff result requires at least one failure; refusing to report a silent pass''))
      else Inr \<lparr>wr_state = WorkflowPending, wr_accepted = False, wr_snapshot = snapshot,
        wr_failures = failures, wr_next = step\<rparr>)"

definition result_accepted :: "'s \<Rightarrow> next_step \<Rightarrow> 's workflow_result" where
  "result_accepted snapshot step =
     \<lparr>wr_state = WorkflowAccepted, wr_accepted = True, wr_snapshot = snapshot, wr_failures = [], wr_next = step\<rparr>"

definition result_recorded :: "'s \<Rightarrow> next_step \<Rightarrow> 's workflow_result" where
  "result_recorded snapshot step =
     \<lparr>wr_state = WorkflowRecorded, wr_accepted = False, wr_snapshot = snapshot, wr_failures = [], wr_next = step\<rparr>"

section \<open>Admission\<close>

definition DEFAULT_FETCH_MAX_AGE_SECS :: int where "DEFAULT_FETCH_MAX_AGE_SECS = 24 * 60 * 60"

definition NANOS :: int where "NANOS = 1000000000"

record admission_context =
  ad_execution_origin :: rstr
  ad_session_id :: "rstr option"
  ad_fetch_max_age :: int

definition default_fetch_max_age :: int where
  "default_fetch_max_age = DEFAULT_FETCH_MAX_AGE_SECS * NANOS"

definition blank_to_none :: "rstr option \<Rightarrow> rstr option" where
  "blank_to_none value =
     (case value of None \<Rightarrow> None | Some v \<Rightarrow> if trim v = [] then None else Some (trim v))"

definition admission_direct :: admission_context where
  "admission_direct = \<lparr>ad_execution_origin = lit ''direct'', ad_session_id = None,
     ad_fetch_max_age = default_fetch_max_age\<rparr>"

definition admission_from_tool :: "rstr \<Rightarrow> rstr option \<Rightarrow> admission_context" where
  "admission_from_tool origin session_id =
     \<lparr>ad_execution_origin = (if trim origin = [] then lit ''direct'' else trim origin),
      ad_session_id = blank_to_none session_id, ad_fetch_max_age = default_fetch_max_age\<rparr>"

section \<open>Keys and identifiers\<close>

definition MAX_SUBJECT_LEN :: nat where "MAX_SUBJECT_LEN = 253"
definition MAX_ID_LEN :: nat where "MAX_ID_LEN = 128"
definition MAX_STATEMENT_BYTES :: nat where "MAX_STATEMENT_BYTES = 8 * 1024"
definition MAX_CLAIMS :: nat where "MAX_CLAIMS = 32"
definition MAX_ARTIFACT_BYTES :: nat where "MAX_ARTIFACT_BYTES = 256 * 1024"
definition SUBJECT_SCAN_BYTES :: nat where "SUBJECT_SCAN_BYTES = 64 * 1024"

definition ascii_alphanumeric :: "nat \<Rightarrow> bool" where
  "ascii_alphanumeric b \<longleftrightarrow> is_ascii_letter b \<or> is_ascii_digit b"

definition ascii_uppercase :: "nat \<Rightarrow> bool" where
  "ascii_uppercase c \<longleftrightarrow> 65 \<le> c \<and> c \<le> 90"

definition to_ascii_lowercase :: "rstr \<Rightarrow> rstr" where
  "to_ascii_lowercase s = map (\<lambda>c. if ascii_uppercase c then c + 32 else c) s"

fun doubled_dot :: "rstr \<Rightarrow> bool" where
  "doubled_dot (a # b # s) \<longleftrightarrow> (a = 46 \<and> b = 46) \<or> doubled_dot (b # s)"
| "doubled_dot s \<longleftrightarrow> False"

definition subject_parse :: "rstr \<Rightarrow> handoff_error + rstr" where
  "subject_parse raw =
     (let value = trim raw in
      if value = [] \<or> MAX_SUBJECT_LEN < byte_len value then Inl (Invalid (lit ''subject key `'' @ raw @
        lit ''` must be 1..='' @ dec MAX_SUBJECT_LEN @ lit '' characters''))
      else if list_ex ascii_uppercase value then Inl (Invalid (lit ''subject key `'' @ value @
        lit ''` must be lowercase''))
      else let bytes = utf8 value;
          alphabet_ok = list_all (\<lambda>b. ascii_alphanumeric b \<or> b = 46 \<or> b = 45) bytes;
          edges_ok = ascii_alphanumeric (hd bytes) \<and> ascii_alphanumeric (last bytes) in
        if \<not> alphabet_ok \<or> \<not> edges_ok \<or> doubled_dot value then Inl (Invalid (lit ''subject key `'' @ value @ lit
          ''` must be a lowercase domain or token (letters, digits, dots, and hyphens; no leading, trailing, or doubled dots or hyphens)''))
        else Inr value)"

definition validate_id :: "string \<Rightarrow> rstr \<Rightarrow> handoff_error + rstr" where
  "validate_id field raw =
     (let value = trim raw in
      if value \<noteq> [] \<and> byte_len value \<le> MAX_ID_LEN \<and>
         list_all (\<lambda>b. ascii_alphanumeric b \<or> b = 46 \<or> b = 95 \<or> b = 45) (utf8 value)
      then Inr value
      else Inl (RequestError (lit field) (lit field @ lit '' `'' @ raw @ lit ''` must be 1..='' @ dec MAX_ID_LEN @ lit
        '' characters of letters, digits, '.', '_', or '-'' @ [39])))"

definition validate_statement :: "rstr \<Rightarrow> handoff_error + rstr" where
  "validate_statement raw =
     (let value = trim raw in
      if value = [] then Inl (Invalid (lit ''claim statement must not be empty''))
      else if MAX_STATEMENT_BYTES < byte_len value then Inl (Invalid (lit ''claim statement is '' @
        dec (byte_len value) @ lit '' bytes; the maximum is '' @ dec MAX_STATEMENT_BYTES))
      else Inr value)"

section \<open>Paths\<close>

fun normal_parts :: "path_component list \<Rightarrow> (path_component + rstr list)" where
  "normal_parts [] = Inr []"
| "normal_parts (CurDir # cs) = normal_parts cs"
| "normal_parts (NormalComponent part # cs) = and_then (normal_parts cs) (\<lambda>parts. Inr (part # parts))"
| "normal_parts (ParentDir # cs) = Inl ParentDir"
| "normal_parts (RootDir # cs) = Inl RootDir"

fun join_parts :: "rstr list \<Rightarrow> rstr" where
  "join_parts [] = []"
| "join_parts [part] = part"
| "join_parts (part # parts) = part @ 47 # join_parts parts"

definition validate_relative_path :: "string \<Rightarrow> rstr \<Rightarrow> handoff_error + rstr" where
  "validate_relative_path field raw =
     (let path = trim raw; name = lit field @ lit '' `'' @ path in
      if path = [] then Inl (Invalid (lit field @ lit '' must not be empty''))
      else if 256 < byte_len path then Inl (Invalid (name @ lit ''` is longer than 256 characters''))
      else if 92 \<in> set path \<or> 0 \<in> set path then Inl (Invalid (name @ lit ''` must be a relative path using `/`''))
      else case normal_parts (path_components path) of
        Inl ParentDir \<Rightarrow> Inl (Invalid (name @ lit ''` must not contain `..`''))
      | Inl _ \<Rightarrow> Inl (Invalid (name @ lit ''` must be a relative path inside the workspace''))
      | Inr parts \<Rightarrow> if parts = [] then Inl (Invalid (name @ lit ''` must name a file'')) else Inr (join_parts parts))"

text \<open>What the file system and Git answer during one call.\<close>

datatype git_run = GitExited bool rstr rstr | GitTimedOut rstr | GitNotStarted rstr

record handoff_world =
  hw_canonical :: "rstr \<Rightarrow> rstr option"
  hw_is_dir :: "rstr \<Rightarrow> bool"
  hw_is_file :: "rstr \<Rightarrow> bool"
  hw_exists :: "rstr \<Rightarrow> bool"
  hw_read :: "rstr \<Rightarrow> rstr + nat list"
  hw_git :: "rstr \<Rightarrow> rstr list \<Rightarrow> git_run"

definition normalize_workspace :: "handoff_world \<Rightarrow> rstr \<Rightarrow> handoff_error + rstr" where
  "normalize_workspace W raw =
     (let trimmed = trim raw in
      if trimmed = [] then Inl (Invalid (lit ''workspace must not be empty''))
      else if 0 \<in> set trimmed then Inl (Invalid (lit ''workspace must not contain a NUL byte''))
      else if ParentDir \<in> set (path_components trimmed) then Inl (Invalid (lit ''workspace must not contain `..`''))
      else case hw_canonical W trimmed of
        None \<Rightarrow> Inl (Invalid (lit ''workspace `'' @ trimmed @ lit ''` does not exist or could not be resolved''))
      | Some canonical \<Rightarrow>
          if hw_is_dir W canonical then Inr canonical
          else Inl (Invalid (lit ''workspace `'' @ canonical @ lit ''` must be a directory'')))"

section \<open>Commits, digests and URLs\<close>

definition validate_commit_hash :: "rstr \<Rightarrow> handoff_error + rstr" where
  "validate_commit_hash raw =
     (let hash = trim raw in
      if \<not> (7 \<le> byte_len hash \<and> byte_len hash \<le> 40 \<and> list_all is_ascii_hexdigit (utf8 hash)) \<or>
         list_ex ascii_uppercase hash
      then Inl (Invalid (lit ''commit hash `'' @ raw @ lit ''` must be 7..=40 lowercase hex characters''))
      else Inr hash)"

definition parse_digest :: "rstr \<Rightarrow> handoff_error + rstr" where
  "parse_digest raw =
     (let hex = (case strip_prefix (lit ''sha256:'') (trim raw) of Some hex \<Rightarrow> hex | None \<Rightarrow> trim raw) in
      if byte_len hex = 64 \<and> list_all is_ascii_hexdigit (utf8 hex) \<and> \<not> list_ex ascii_uppercase hex
      then Inr (lit ''sha256:'' @ hex)
      else Inl (Invalid (lit
        ''body_digest must be 64 lowercase hex characters, with an optional `sha256:` prefix'')))"

text \<open>\<open>str::find("://")\<close>: the text before and after the first occurrence.\<close>

fun split_scheme :: "rstr \<Rightarrow> (rstr \<times> rstr) option" where
  "split_scheme [] = None"
| "split_scheme (c # cs) =
     (if take 3 (c # cs) = lit ''://'' then Some ([], drop 3 (c # cs))
      else case split_scheme cs of Some (a, b) \<Rightarrow> Some (c # a, b) | None \<Rightarrow> None)"

text \<open>\<open>rsplit_once(':')\<close>.\<close>

definition rsplit_colon :: "rstr \<Rightarrow> (rstr \<times> rstr) option" where
  "rsplit_colon s =
     (if 58 \<in> set s
      then Some (rev (tl (dropWhile (\<lambda>c. c \<noteq> 58) (rev s))), rev (takeWhile (\<lambda>c. c \<noteq> 58) (rev s)))
      else None)"

definition digits_value :: "rstr \<Rightarrow> nat" where
  "digits_value s = foldl (\<lambda>n c. n * 10 + (c - 48)) 0 s"

definition split_host_port :: "rstr \<Rightarrow> handoff_error + rstr \<times> nat option" where
  "split_host_port hostport =
     (if take 1 hostport = lit ''['' then Inl (Invalid (lit ''URL host must be a domain name, not an IP literal''))
      else case rsplit_colon hostport of
        None \<Rightarrow> Inr (hostport, None)
      | Some (host, port) \<Rightarrow>
          if host = [] \<or> port = [] \<or> \<not> list_all is_ascii_digit (utf8 port)
          then Inl (Invalid (lit ''URL host `'' @ hostport @ lit ''` has no numeric port''))
          else if 65535 < digits_value port then Inl (Invalid (lit ''URL port `'' @ port @ lit ''` is out of range''))
          else Inr (host, Some (digits_value port)))"

definition url_end :: "nat \<Rightarrow> bool" where
  "url_end c \<longleftrightarrow> c = 47 \<or> c = 63 \<or> c = 35"

definition normalize_url :: "rstr \<Rightarrow> handoff_error + rstr \<times> rstr" where
  "normalize_url untrimmed =
     (let raw = trim untrimmed; not_http = Invalid (lit ''URL `'' @ raw @ lit ''` must start with http:// or https://'') in
      case split_scheme raw of
        None \<Rightarrow> Inl not_http
      | Some (before, rest) \<Rightarrow>
          let scheme = to_ascii_lowercase before in
          if scheme \<noteq> lit ''https'' \<and> scheme \<noteq> lit ''http'' then Inl not_http
          else if rest = [] \<or> 32 \<in> set rest
          then Inl (Invalid (lit ''URL `'' @ raw @ lit ''` is not a usable http(s) URL''))
          else let authority = takeWhile (\<lambda>c. \<not> url_end c) rest; after = dropWhile (\<lambda>c. \<not> url_end c) rest in
            if authority = [] then Inl (Invalid (lit ''URL `'' @ raw @ lit ''` has no host''))
            else if 64 \<in> set authority then Inl (Invalid (lit
              ''URL must not include userinfo (a username or password). Cite the URL without credentials.''))
            else and_then (split_host_port authority) (\<lambda>(host, port).
              and_then (map_err (\<lambda>_. Invalid (lit ''URL host `'' @ host @ lit
                ''` is not a subject key. Use a lowercase domain name.'')) (subject_parse (to_ascii_lowercase host))) (\<lambda>subject.
              let unfragmented = takeWhile (\<lambda>c. c \<noteq> 35) after;
                  path_and_query = (if unfragmented = [] then [47] else unfragmented);
                  port_suffix = (case port of
                      None \<Rightarrow> []
                    | Some p \<Rightarrow>
                        if (scheme = lit ''https'' \<and> p = 443) \<or> (scheme = lit ''http'' \<and> p = 80) then []
                        else lit '':'' @ dec p) in
              Inr (scheme @ lit ''://'' @ subject @ port_suffix @ path_and_query, subject))))"

section \<open>Claims\<close>

datatype claim_source = FileSource rstr | CommitSource rstr | UrlSource rstr

record claim =
  ch_id :: rstr
  ch_statement :: rstr
  ch_subject :: rstr
  ch_source :: claim_source

fun normalize_source :: "claim_source \<Rightarrow> handoff_error + claim_source" where
  "normalize_source (FileSource path) =
     and_then (validate_relative_path ''file source'' path) (\<lambda>p. Inr (FileSource p))"
| "normalize_source (CommitSource hash) = and_then (validate_commit_hash hash) (\<lambda>h. Inr (CommitSource h))"
| "normalize_source (UrlSource url) = and_then (normalize_url url) (\<lambda>(normalized, _). Inr (UrlSource normalized))"

definition claim_try_new :: "rstr \<Rightarrow> rstr \<Rightarrow> rstr \<Rightarrow> claim_source \<Rightarrow> handoff_error + claim" where
  "claim_try_new cid statement subject source =
     and_then (validate_id ''claim id'' cid) (\<lambda>i.
     and_then (validate_statement statement) (\<lambda>st.
     and_then (subject_parse subject) (\<lambda>sb.
     and_then (normalize_source source) (\<lambda>so.
     Inr \<lparr>ch_id = i, ch_statement = st, ch_subject = sb, ch_source = so\<rparr>))))"

text \<open>Reading a claim back from the ledger goes through the same constructor.\<close>

definition claim_reloaded :: "claim \<Rightarrow> handoff_error + claim" where
  "claim_reloaded c = claim_try_new (ch_id c) (ch_statement c) (ch_subject c) (ch_source c)"

end
