(* ===== verification/Handoff_Gate.thy ===== *)
theory Handoff_Gate
  imports Handoff_Types Utf8_Decode
begin

text \<open>
  The deterministic checks of a findings handoff (\<open>src/handoff/gate.rs\<close>).  A claim passes when its
  source resolves and records the subject the claim declares: a file in the workspace by its
  \<open>impulse-subject:\<close> line, a commit by its \<open>Impulse-Subject:\<close> trailer, a URL by its host once the sender
  has recorded a usable fetch.  Files and Git are inputs; the output of Git is text.
\<close>

text \<open>Code outside the repository: \<open>chrono\<close>'s rendering and parser of RFC 3339 times, and \<open>serde\<close>'s reading
  of the four fields of a claim (or its message).\<close>

record handoff_env =
  he_show_time :: "int \<Rightarrow> rstr"
  he_parse_time :: "rstr \<Rightarrow> int option"
  he_raw_claim :: "json \<Rightarrow> rstr + rstr \<times> rstr \<times> rstr \<times> claim_source"

record recorded_fetch =
  rf_sender :: rstr
  rf_host :: rstr
  rf_status :: nat
  rf_fetched_at :: int
  rf_session_id :: "rstr option"

record fetch_admission =
  fa_now :: int
  fa_max_age :: int
  fa_session_id :: "rstr option"

definition FILE_SUBJECT_PREFIX :: rstr where "FILE_SUBJECT_PREFIX = lit ''impulse-subject:''"
definition COMMIT_SUBJECT_TRAILER :: rstr where "COMMIT_SUBJECT_TRAILER = lit ''Impulse-Subject:''"

section \<open>Failures\<close>

definition resolve_failure :: "claim \<Rightarrow> string \<Rightarrow> rstr \<Rightarrow> gate_failure" where
  "resolve_failure c field fix_text =
     \<lparr>gf_target = ch_id c, gf_check = SourceResolves, gf_field = Some (lit field), gf_fix = fix_text\<rparr>"

definition unusable :: "claim \<Rightarrow> string \<Rightarrow> rstr \<Rightarrow> gate_failure" where
  "unusable c field fix_text =
     \<lparr>gf_target = ch_id c, gf_check = FetchUnusable, gf_field = Some (lit field), gf_fix = fix_text\<rparr>"

definition subject_mismatch :: "claim \<Rightarrow> rstr \<Rightarrow> rstr \<Rightarrow> gate_failure option" where
  "subject_mismatch c source_label found =
     (if ch_subject c = found then None
      else Some \<lparr>gf_target = ch_id c, gf_check = SubjectMatches, gf_field = Some (lit ''subject''),
        gf_fix = lit ''claim `'' @ ch_id c @ lit ''` is about `'' @ ch_subject c @ lit ''` but its source '' @
          source_label @ lit '' records subject `'' @ found @ lit ''`. Cite a source about `'' @ ch_subject c @
          lit ''`, or change the claim subject to `'' @ found @ lit ''` if that is what the claim is about.''\<rparr>)"

section \<open>Recorded subjects\<close>

fun recorded_subject_in_lines :: "rstr \<Rightarrow> rstr list \<Rightarrow> rstr option" where
  "recorded_subject_in_lines prefix_text [] = None"
| "recorded_subject_in_lines prefix_text (l # ls) =
     (case strip_prefix prefix_text (trim l) of
        None \<Rightarrow> recorded_subject_in_lines prefix_text ls
      | Some rest \<Rightarrow> (case subject_parse (trim rest) of Inr s \<Rightarrow> Some s | Inl _ \<Rightarrow> None))"

definition recorded_subject_in_text :: "rstr \<Rightarrow> rstr \<Rightarrow> rstr option" where
  "recorded_subject_in_text s prefix_text = recorded_subject_in_lines prefix_text (lines_of s)"

definition read_recorded_subject :: "handoff_world \<Rightarrow> rstr \<Rightarrow> rstr \<Rightarrow> rstr + rstr option" where
  "read_recorded_subject W path prefix_text =
     and_then (map_err (\<lambda>e. lit ''file could not be read: '' @ e) (hw_read W path)) (\<lambda>bytes.
     case from_utf8 (take SUBJECT_SCAN_BYTES bytes) of
       None \<Rightarrow> Inl (lit ''file is not UTF-8 in its first 64 KiB, so its recorded subject cannot be read'')
     | Some s \<Rightarrow> Inr (recorded_subject_in_text s prefix_text))"

section \<open>Files\<close>

definition canonicalize_dir :: "handoff_world \<Rightarrow> rstr \<Rightarrow> rstr option" where
  "canonicalize_dir W path =
     (case hw_canonical W path of
        None \<Rightarrow> None
      | Some canonical \<Rightarrow> if hw_is_dir W canonical then Some canonical else None)"

definition path_starts_with :: "rstr \<Rightarrow> rstr \<Rightarrow> bool" where
  "path_starts_with p root \<longleftrightarrow>
     take (length (path_components root)) (path_components p) = path_components root"

definition evaluate_file :: "handoff_world \<Rightarrow> claim \<Rightarrow> rstr \<Rightarrow> rstr \<Rightarrow> gate_failure option" where
  "evaluate_file W c workspace relative =
     (let named = lit ''payload.path `'' @ relative @ lit ''`'' in
      case canonicalize_dir W workspace of
        None \<Rightarrow> Some (resolve_failure c ''workspace'' (lit ''payload.workspace `'' @ workspace @
          lit ''` does not exist, so file `'' @ relative @
          lit ''` cannot be resolved. Cite a file inside an existing workspace.''))
      | Some root \<Rightarrow>
          let candidate = path_join root relative in
          if \<not> hw_exists W candidate then Some (resolve_failure c ''path'' (named @
            lit '' does not exist under the workspace. Cite a file that exists, and put `impulse-subject: '' @
            ch_subject c @ lit ''` in it only if the file is about that subject.''))
          else case hw_canonical W candidate of
            None \<Rightarrow> Some (resolve_failure c ''path'' (named @ lit '' could not be resolved inside the workspace''))
          | Some canonical \<Rightarrow>
              if \<not> path_starts_with canonical root then Some (resolve_failure c ''path'' (named @
                lit '' resolves outside the workspace. Cite a file inside the workspace.''))
              else if \<not> hw_is_file W canonical
              then Some (resolve_failure c ''path'' (named @ lit '' is not a regular file''))
              else case read_recorded_subject W canonical FILE_SUBJECT_PREFIX of
                Inr (Some found) \<Rightarrow> subject_mismatch c (lit ''file `'' @ relative @ lit ''`'') found
              | Inr None \<Rightarrow> Some (resolve_failure c ''path'' (named @ lit '' has no recorded subject in its first '' @
                  dec SUBJECT_SCAN_BYTES @ lit '' bytes. Add a line `'' @ FILE_SUBJECT_PREFIX @ lit '' '' @ ch_subject c @
                  lit ''` only if this file is about that subject, or cite a different source.''))
              | Inl message \<Rightarrow> Some (resolve_failure c ''path'' message))"

section \<open>Commits\<close>

definition stderr_tail :: "rstr \<Rightarrow> rstr" where
  "stderr_tail err =
     (if trim err = [] then lit ''git reported no detail'' else lit ''git reported: '' @ take 180 (trim err))"

definition rev_parse_args :: "rstr \<Rightarrow> rstr list" where
  "rev_parse_args hash =
     [lit ''rev-parse'', lit ''--verify'', lit ''--end-of-options'', hash @ lit ''^{commit}'']"

definition log_args :: "rstr \<Rightarrow> rstr list" where
  "log_args hash = [lit ''log'', lit ''-1'', lit ''--format=%B'', hash]"

definition evaluate_commit_message :: "handoff_world \<Rightarrow> claim \<Rightarrow> rstr \<Rightarrow> rstr \<Rightarrow> gate_failure option" where
  "evaluate_commit_message W c workspace hash =
     (let named = lit ''payload.hash `'' @ hash @ lit ''`'' in
      case hw_git W workspace (log_args hash) of
        GitTimedOut e \<Rightarrow> Some (resolve_failure c ''hash'' (named @ lit '' message could not be read: '' @ e))
      | GitNotStarted e \<Rightarrow> Some (resolve_failure c ''hash'' (named @ lit '' message could not be read: '' @ e))
      | GitExited ok message err \<Rightarrow>
          if \<not> ok then Some (resolve_failure c ''hash'' (named @
            lit '' exists but its message could not be read. '' @ stderr_tail err))
          else case recorded_subject_in_text message COMMIT_SUBJECT_TRAILER of
            Some found \<Rightarrow> subject_mismatch c (lit ''commit `'' @ hash @ lit ''`'') found
          | None \<Rightarrow> Some (resolve_failure c ''hash'' (named @ lit '' has no `'' @ COMMIT_SUBJECT_TRAILER @
              lit ''` trailer. Record the subject in the commit message as `'' @ COMMIT_SUBJECT_TRAILER @ lit '' '' @
              ch_subject c @ lit ''` only if the commit is about that subject.'')))"

definition evaluate_commit :: "handoff_world \<Rightarrow> claim \<Rightarrow> rstr \<Rightarrow> rstr \<Rightarrow> gate_failure option" where
  "evaluate_commit W c workspace hash =
     (let named = lit ''payload.hash `'' @ hash @ lit ''`'' in
      if isl (validate_commit_hash hash)
      then Some (resolve_failure c ''hash'' (named @ lit '' must be 7..=40 lowercase hex characters''))
      else if canonicalize_dir W workspace = None
      then Some (resolve_failure c ''workspace'' (lit ''payload.workspace `'' @ workspace @
        lit ''` does not exist, so commit `'' @ hash @ lit ''` cannot be resolved''))
      else case hw_git W workspace (rev_parse_args hash) of
        GitExited ok _ err \<Rightarrow>
          if ok then evaluate_commit_message W c workspace hash
          else Some (resolve_failure c ''hash'' (named @ lit '' does not exist in `'' @ workspace @ lit ''`. '' @
            stderr_tail err @ lit ''. Cite a commit that exists in this workspace.''))
      | GitTimedOut _ \<Rightarrow> Some (resolve_failure c ''hash'' (named @
          lit '' could not be checked because git exceeded 30s. Retry the submit once git responds.''))
      | GitNotStarted e \<Rightarrow> Some (resolve_failure c ''hash'' (named @
          lit '' could not be checked because git failed to start: '' @ e)))"

section \<open>URLs\<close>

definition sessions_match :: "rstr option \<Rightarrow> rstr option \<Rightarrow> bool" where
  "sessions_match recorded current = (blank_to_none recorded = blank_to_none current)"

definition session_label :: "rstr option \<Rightarrow> rstr" where
  "session_label session =
     (case blank_to_none session of
        Some s \<Rightarrow> lit ''session `'' @ s @ lit ''`''
      | None \<Rightarrow> lit ''no session'')"

definition show_int :: "int \<Rightarrow> rstr" where
  "show_int i = (if i < 0 then lit ''-'' @ dec (nat (- i)) else dec (nat i))"

text \<open>\<open>Duration::num_seconds\<close> truncates towards zero.\<close>

definition num_seconds :: "int \<Rightarrow> int" where
  "num_seconds d = (if d < 0 then - ((- d) div NANOS) else d div NANOS)"

definition fetch_usability ::
    "handoff_env \<Rightarrow> claim \<Rightarrow> rstr \<Rightarrow> recorded_fetch \<Rightarrow> fetch_admission \<Rightarrow> gate_failure option" where
  "fetch_usability E c url f a =
     (let age = fa_now a - rf_fetched_at f; stamped = lit ''payload.fetched_at `'' @ he_show_time E (rf_fetched_at f) @
        lit ''` for `'' @ url @ lit ''`'' in
      if \<not> (200 \<le> rf_status f \<and> rf_status f < 300) then Some (unusable c ''status'' (lit ''payload.status '' @
        dec (rf_status f) @ lit '' for `'' @ url @ lit
        ''` is not a 2xx response. Record the fetch again with a status from 200 to 299. The gate does not fetch the URL and does not rewrite the recorded status.''))
      else if fa_max_age a \<le> 0 then Some (unusable c ''fetch_max_age'' (lit ''payload.fetch_max_age is '' @
        show_int (num_seconds (fa_max_age a)) @ lit
        ''s, which does not admit URL evidence. Configure a positive max age and submit again.''))
      else if fa_now a < rf_fetched_at f then Some (unusable c ''fetched_at'' (stamped @ lit '' is after the gate clock `'' @
        he_show_time E (fa_now a) @ lit
        ''`. Record the fetch again with a fetched_at at or before the current time. The gate does not rewrite the timestamp.''))
      else if fa_max_age a < age then Some (unusable c ''fetched_at'' (stamped @ lit '' is '' @
        show_int (num_seconds age) @ lit ''s old, which is older than the maximum age of '' @
        show_int (num_seconds (fa_max_age a)) @ lit ''s. Record a new fetch. The gate does not fetch the URL.''))
      else if \<not> sessions_match (rf_session_id f) (fa_session_id a) then Some (unusable c ''session_id'' (lit
        ''payload.session_id for `'' @ url @ lit ''` was recorded as '' @ session_label (rf_session_id f) @
        lit '' and this submit is '' @ session_label (fa_session_id a) @
        lit ''. Record the fetch again in this session. The gate does not copy another session's fetch.''))
      else None)"

definition show_handoff_error :: "handoff_error \<Rightarrow> rstr" where
  "show_handoff_error e =
     (case e of
        Invalid m \<Rightarrow> lit ''invalid handoff input: '' @ m
      | RequestError _ m \<Rightarrow> m
      | StoreError doing source \<Rightarrow> lit ''failed to '' @ lit doing @ lit '' the handoff store: '' @ source
      | CorruptError m \<Rightarrow> lit ''handoff store is unreadable: '' @ m)"

definition evaluate_url ::
    "handoff_env \<Rightarrow> claim \<Rightarrow> rstr \<Rightarrow> rstr \<Rightarrow> fetch_admission \<Rightarrow> (rstr \<Rightarrow> recorded_fetch option) \<Rightarrow>
     gate_failure option" where
  "evaluate_url E c url sender a fetch_for =
     (case normalize_url url of
        Inl e \<Rightarrow> Some (resolve_failure c ''url'' (lit ''payload.url `'' @ url @ lit ''` cannot be resolved: '' @
          show_handoff_error e))
      | Inr (_, host) \<Rightarrow> (case fetch_for url of
          None \<Rightarrow> Some (resolve_failure c ''url'' (lit ''payload.url `'' @ url @ lit ''` has no recorded fetch by `'' @
            sender @ lit
            ''`. Call handoff action `record_fetch` with the HTTP status and body digest before submitting this claim.''))
        | Some f \<Rightarrow>
            if rf_sender f \<noteq> sender then Some (resolve_failure c ''sender'' (lit ''payload.sender `'' @ url @
              lit ''` was fetched by `'' @ rf_sender f @ lit ''`, not by the handoff sender `'' @ sender @ lit
              ''`. The sender must record the fetch with action `record_fetch` before submitting.''))
            else if rf_host f \<noteq> host then Some (resolve_failure c ''host'' (lit ''payload.host for `'' @ url @
              lit ''` is `'' @ rf_host f @ lit ''`, which does not match the URL host `'' @ host @
              lit ''`. Record the fetch again.''))
            else case fetch_usability E c url f a of
              Some failure \<Rightarrow> Some failure
            | None \<Rightarrow> subject_mismatch c (lit ''URL `'' @ url @ lit ''` (host `'' @ host @ lit ''`)'') host))"

section \<open>All claims\<close>

definition evaluate_claim ::
    "handoff_env \<Rightarrow> handoff_world \<Rightarrow> rstr \<Rightarrow> rstr \<Rightarrow> fetch_admission \<Rightarrow> (rstr \<Rightarrow> recorded_fetch option) \<Rightarrow> claim \<Rightarrow>
     gate_failure option" where
  "evaluate_claim E W workspace sender a fetch_for c =
     (case ch_source c of
        FileSource path \<Rightarrow> evaluate_file W c workspace path
      | CommitSource hash \<Rightarrow> evaluate_commit W c workspace hash
      | UrlSource url \<Rightarrow> evaluate_url E c url sender a fetch_for)"

definition evaluate_claims ::
    "handoff_env \<Rightarrow> handoff_world \<Rightarrow> rstr \<Rightarrow> rstr \<Rightarrow> fetch_admission \<Rightarrow> (rstr \<Rightarrow> recorded_fetch option) \<Rightarrow> claim list \<Rightarrow>
     gate_failure list" where
  "evaluate_claims E W workspace sender a fetch_for claims =
     List.map_filter (evaluate_claim E W workspace sender a fetch_for) claims"

section \<open>What a passing claim rests on\<close>

definition file_evidence :: "handoff_world \<Rightarrow> rstr \<Rightarrow> rstr \<Rightarrow> rstr \<Rightarrow> bool" where
  "file_evidence W workspace relative subject \<longleftrightarrow>
     (\<exists>root canonical bytes s. hw_canonical W workspace = Some root \<and> hw_is_dir W root \<and>
       hw_canonical W (path_join root relative) = Some canonical \<and> path_starts_with canonical root \<and>
       hw_is_file W canonical \<and> hw_read W canonical = Inr bytes \<and>
       from_utf8 (take SUBJECT_SCAN_BYTES bytes) = Some s \<and>
       recorded_subject_in_text s FILE_SUBJECT_PREFIX = Some subject)"

definition commit_evidence :: "handoff_world \<Rightarrow> rstr \<Rightarrow> rstr \<Rightarrow> rstr \<Rightarrow> bool" where
  "commit_evidence W workspace hash subject \<longleftrightarrow>
     (\<exists>resolved err message err'. hw_git W workspace (rev_parse_args hash) = GitExited True resolved err \<and>
       hw_git W workspace (log_args hash) = GitExited True message err' \<and>
       recorded_subject_in_text message COMMIT_SUBJECT_TRAILER = Some subject)"

definition fetch_evidence ::
    "rstr \<Rightarrow> fetch_admission \<Rightarrow> (rstr \<Rightarrow> recorded_fetch option) \<Rightarrow> rstr \<Rightarrow> rstr \<Rightarrow> bool" where
  "fetch_evidence sender a fetch_for url subject \<longleftrightarrow>
     (\<exists>f normalized. fetch_for url = Some f \<and> normalize_url url = Inr (normalized, subject) \<and>
       rf_sender f = sender \<and> rf_host f = subject \<and> 200 \<le> rf_status f \<and> rf_status f < 300 \<and>
       rf_fetched_at f \<le> fa_now a \<and> fa_now a - rf_fetched_at f \<le> fa_max_age a \<and>
       sessions_match (rf_session_id f) (fa_session_id a))"

definition evidenced ::
    "handoff_world \<Rightarrow> rstr \<Rightarrow> rstr \<Rightarrow> fetch_admission \<Rightarrow> (rstr \<Rightarrow> recorded_fetch option) \<Rightarrow> claim \<Rightarrow> bool" where
  "evidenced W workspace sender a fetch_for c \<longleftrightarrow>
     (case ch_source c of
        FileSource path \<Rightarrow> file_evidence W workspace path (ch_subject c)
      | CommitSource hash \<Rightarrow> commit_evidence W workspace hash (ch_subject c)
      | UrlSource url \<Rightarrow> fetch_evidence sender a fetch_for url (ch_subject c))"

lemma subject_mismatch_None [simp]: "subject_mismatch c l found = None \<longleftrightarrow> ch_subject c = found"
  by (simp add: subject_mismatch_def)

lemma fetch_usability_None:
  "fetch_usability E c url f a = None \<longleftrightarrow>
     200 \<le> rf_status f \<and> rf_status f < 300 \<and> 0 < fa_max_age a \<and> rf_fetched_at f \<le> fa_now a \<and>
     fa_now a - rf_fetched_at f \<le> fa_max_age a \<and> sessions_match (rf_session_id f) (fa_session_id a)"
  by (auto simp: fetch_usability_def Let_def)

lemma evaluate_file_None: "evaluate_file W c workspace path = None \<Longrightarrow> file_evidence W workspace path (ch_subject c)"
  by (auto simp: evaluate_file_def file_evidence_def canonicalize_dir_def read_recorded_subject_def Let_def
      split: option.splits if_splits sum.splits)

lemma evaluate_commit_None:
  "evaluate_commit W c workspace hash = None \<Longrightarrow> commit_evidence W workspace hash (ch_subject c)"
  by (auto simp: evaluate_commit_def evaluate_commit_message_def commit_evidence_def Let_def
      split: option.splits if_splits git_run.splits)

lemma evaluate_url_None:
  "evaluate_url E c url sender a fetch_for = None \<Longrightarrow> fetch_evidence sender a fetch_for url (ch_subject c)"
  by (auto simp: evaluate_url_def fetch_evidence_def fetch_usability_None
      split: sum.splits option.splits if_splits prod.splits)

lemma evaluate_claim_None:
  "evaluate_claim E W workspace sender a fetch_for c = None \<Longrightarrow> evidenced W workspace sender a fetch_for c"
  by (auto simp: evaluate_claim_def evidenced_def evaluate_file_None evaluate_commit_None evaluate_url_None
      split: claim_source.splits)

lemma evaluate_claims_Nil:
  "evaluate_claims E W workspace sender a fetch_for claims = [] \<Longrightarrow>
     list_all (evidenced W workspace sender a fetch_for) claims"
  by (induction claims)
    (auto simp: evaluate_claims_def List.map_filter_simps evaluate_claim_None split: option.splits)

end
