(* ===== verification/Handoff_Store.thy ===== *)
theory Handoff_Store
  imports Handoff_Gate
begin

text \<open>
  The handoff ledger and the workflow over it (\<open>src/handoff/store.rs\<close>, \<open>src/handoff/mod.rs\<close>): recorded
  fetches by sender and URL, handoffs by id, shared artifacts by id.  One call takes the lock, loads the
  file, runs the action on the store and writes the whole store back; the file changes only if all of
  that succeeds.  Whether the directory, the lock, the read and the write succeed are inputs.  The file
  holds a schema 3 store; the rewriting of schema 1 and 2 files is not part of the model.  A payload is a
  JSON value; how \<open>serde\<close> reads the four fields of a claim from it is a parameter.  The path of the ledger
  is left out of messages.
\<close>

section \<open>The store\<close>

record recorded_via =
  rv_execution_origin :: rstr
  rv_session_id :: "rstr option"

record fetch_record =
  fr_url :: rstr
  fr_host :: rstr
  fr_status :: nat
  fr_body_digest :: rstr
  fr_fetched_at :: int
  fr_sender :: rstr
  fr_recorded_via :: recorded_via

datatype handoff_phase = PhasePending "gate_failure list" | PhaseAccepted int

record stored_handoff =
  sh_id :: rstr
  sh_from_agent :: rstr
  sh_to_agent :: rstr
  sh_workspace :: rstr
  sh_claims :: "claim list"
  sh_phase :: handoff_phase
  sh_updated_at :: int
  sh_recorded_via :: recorded_via

record read_mark =
  rm_generation :: nat
  rm_read_at :: int

record shared_artifact =
  sa_generation :: nat
  sa_content :: rstr
  sa_last_writer :: rstr
  sa_last_written_at :: int
  sa_reads :: "(rstr, read_mark) btree"

record gate_store =
  gs_schema_version :: nat
  gs_fetches :: "(rstr, (rstr, fetch_record) btree) btree"
  gs_handoffs :: "(rstr, stored_handoff) btree"
  gs_artifacts :: "(rstr, shared_artifact) btree"

definition HANDOFF_SCHEMA_VERSION :: nat where "HANDOFF_SCHEMA_VERSION = 3"

definition default_store :: gate_store where
  "default_store = \<lparr>gs_schema_version = HANDOFF_SCHEMA_VERSION, gs_fetches = bt_empty, gs_handoffs = bt_empty,
     gs_artifacts = bt_empty\<rparr>"

definition store_fetch :: "gate_store \<Rightarrow> rstr \<Rightarrow> rstr \<Rightarrow> fetch_record option" where
  "store_fetch s sender url =
     (case bt_get (gs_fetches s) sender of None \<Rightarrow> None | Some by_url \<Rightarrow> bt_get by_url url)"

definition fetch_total :: "gate_store \<Rightarrow> nat" where
  "fetch_total s = sum_list (map length (bt_values (gs_fetches s)))"

definition insert_fetch :: "fetch_record \<Rightarrow> gate_store \<Rightarrow> handoff_error + gate_store" where
  "insert_fetch f s =
     (if 256 \<le> fetch_total s \<and> store_fetch s (fr_sender f) (fr_url f) = None
      then Inl (Invalid (lit
        ''the fetch ledger already holds 256 recorded fetches. Submit or drop a recorded fetch before adding another.''))
      else let by_url = (case bt_get (gs_fetches s) (fr_sender f) of Some m \<Rightarrow> m | None \<Rightarrow> bt_empty) in
        Inr (s\<lparr>gs_fetches := bt_insert (fr_sender f) (bt_insert (fr_url f) f by_url) (gs_fetches s)\<rparr>))"

definition store_handoff :: "gate_store \<Rightarrow> rstr \<Rightarrow> stored_handoff option" where
  "store_handoff s hid = bt_get (gs_handoffs s) hid"

definition insert_handoff :: "stored_handoff \<Rightarrow> gate_store \<Rightarrow> handoff_error + gate_store" where
  "insert_handoff h s =
     (if 256 \<le> length (gs_handoffs s) \<and> \<not> bt_contains (gs_handoffs s) (sh_id h)
      then Inl (Invalid (lit ''the handoff ledger already holds 256 handoffs''))
      else Inr (s\<lparr>gs_handoffs := bt_insert (sh_id h) h (gs_handoffs s)\<rparr>))"

definition store_artifact :: "gate_store \<Rightarrow> rstr \<Rightarrow> shared_artifact option" where
  "store_artifact s aid = bt_get (gs_artifacts s) aid"

definition insert_artifact :: "rstr \<Rightarrow> shared_artifact \<Rightarrow> gate_store \<Rightarrow> handoff_error + gate_store" where
  "insert_artifact aid a s =
     (if 64 \<le> length (gs_artifacts s) \<and> \<not> bt_contains (gs_artifacts s) aid
      then Inl (Invalid (lit ''the shared-artifact ledger already holds 64 artifacts''))
      else if MAX_ARTIFACT_BYTES < byte_len (sa_content a)
      then Inl (Invalid (lit ''shared artifact `'' @ aid @ lit ''` is '' @ dec (byte_len (sa_content a)) @
        lit '' bytes; the maximum is '' @ dec MAX_ARTIFACT_BYTES))
      else Inr (s\<lparr>gs_artifacts := bt_insert aid a (gs_artifacts s)\<rparr>))"

section \<open>Loading and saving\<close>

fun silent_pending :: "(rstr, stored_handoff) btree \<Rightarrow> rstr option" where
  "silent_pending [] = None"
| "silent_pending ((hid, h) # hs) = (if sh_phase h = PhasePending [] then Some hid else silent_pending hs)"

definition validate_store :: "gate_store \<Rightarrow> handoff_error + unit" where
  "validate_store s =
     (if gs_schema_version s \<noteq> HANDOFF_SCHEMA_VERSION
      then Inl (CorruptError (lit ''handoff ledger schema is '' @ dec (gs_schema_version s) @
        lit '', this Impulse reads '' @ dec HANDOFF_SCHEMA_VERSION))
      else case silent_pending (gs_handoffs s) of
        Some hid \<Rightarrow> Inl (CorruptError (lit ''handoff `'' @ hid @ lit ''` is pending with no failures''))
      | None \<Rightarrow> Inr ())"

text \<open>Deserializing re-validates and re-normalizes every stored claim.\<close>

fun reload_claims :: "claim list \<Rightarrow> handoff_error + claim list" where
  "reload_claims [] = Inr []"
| "reload_claims (c # cs) =
     and_then (claim_reloaded c) (\<lambda>c'. and_then (reload_claims cs) (\<lambda>cs'. Inr (c' # cs')))"

fun reload_handoffs :: "(rstr, stored_handoff) btree \<Rightarrow> handoff_error + (rstr, stored_handoff) btree" where
  "reload_handoffs [] = Inr []"
| "reload_handoffs ((hid, h) # hs) =
     and_then (reload_claims (sh_claims h)) (\<lambda>cs.
     and_then (reload_handoffs hs) (\<lambda>hs'. Inr ((hid, h\<lparr>sh_claims := cs\<rparr>) # hs')))"

definition deserialize_store :: "gate_store \<Rightarrow> handoff_error + gate_store" where
  "deserialize_store s =
     and_then (map_err (\<lambda>e. CorruptError (lit ''not a handoff ledger ('' @ show_handoff_error e @ lit '')''))
       (reload_handoffs (gs_handoffs s))) (\<lambda>hs. Inr (s\<lparr>gs_handoffs := hs\<rparr>))"

record handoff_io =
  hi_create_dir :: "rstr + unit"
  hi_lock :: "handoff_error + unit"
  hi_read :: "rstr + unit"
  hi_write :: "rstr + unit"

definition load_store :: "handoff_io \<Rightarrow> gate_store option \<Rightarrow> handoff_error + gate_store" where
  "load_store io file_content =
     (case file_content of
        None \<Rightarrow> Inr default_store
      | Some stored \<Rightarrow>
          and_then (map_err (StoreError ''read'') (hi_read io)) (\<lambda>_.
          and_then (deserialize_store stored) (\<lambda>s.
          and_then (validate_store s) (\<lambda>_. Inr s))))"

definition with_store ::
    "handoff_io \<Rightarrow> (gate_store \<Rightarrow> handoff_error + 'r \<times> gate_store) \<Rightarrow> gate_store option \<Rightarrow>
     (handoff_error + 'r) \<times> gate_store option" where
  "with_store io body file_content =
     (case and_then (map_err (StoreError ''create the impulse directory for'') (hi_create_dir io)) (\<lambda>_.
           and_then (hi_lock io) (\<lambda>_.
           and_then (load_store io file_content) (\<lambda>s.
           and_then (body s) (\<lambda>(r, s').
           and_then (map_err (\<lambda>e. CorruptError (lit ''failed to write the ledger: '' @ e)) (hi_write io)) (\<lambda>_.
           Inr (r, s')))))) of
        Inl e \<Rightarrow> (Inl e, file_content)
      | Inr (r, s') \<Rightarrow> (Inr r, Some s'))"

section \<open>Payloads\<close>

definition json_get :: "json \<Rightarrow> string \<Rightarrow> json option" where
  "json_get v field = (case v of JObject members \<Rightarrow> map_of members (lit field) | _ \<Rightarrow> None)"

definition json_str :: "json \<Rightarrow> rstr option" where
  "json_str v = (case v of JString s \<Rightarrow> Some s | _ \<Rightarrow> None)"

definition json_u64 :: "json \<Rightarrow> nat option" where
  "json_u64 v =
     (case v of
        JNumber t \<Rightarrow> if t \<noteq> [] \<and> list_all is_ascii_digit t \<and> digits_value t \<le> u64_max then Some (digits_value t) else None
      | _ \<Rightarrow> None)"

definition request_error :: "string \<Rightarrow> rstr \<Rightarrow> handoff_error" where
  "request_error field message = RequestError (lit field) message"

definition require_str :: "json \<Rightarrow> string \<Rightarrow> handoff_error + rstr" where
  "require_str payload field =
     (case json_get payload field of
        None \<Rightarrow> Inl (request_error field (lit ''payload.'' @ lit field @ lit '' missing''))
      | Some v \<Rightarrow> (case json_str v of
            Some s \<Rightarrow>
              if trim s \<noteq> [] then Inr s
              else Inl (request_error field (lit ''payload.'' @ lit field @ lit '' must be a non-empty string''))
          | None \<Rightarrow> Inl (request_error field (lit ''payload.'' @ lit field @ lit '' must be a non-empty string''))))"

definition require_status :: "json \<Rightarrow> handoff_error + nat" where
  "require_status payload =
     (case Option.bind (json_get payload ''status'') json_u64 of
        None \<Rightarrow> Inl (request_error ''status'' (lit ''payload.status missing or not an integer''))
      | Some status \<Rightarrow>
          if 100 \<le> status \<and> status \<le> 599 then Inr status
          else Inl (request_error ''status'' (lit ''payload.status '' @ dec status @
            lit '' must be an HTTP status from 100 to 599'')))"

definition require_u64 :: "json \<Rightarrow> string \<Rightarrow> handoff_error + nat" where
  "require_u64 payload field =
     ok_or (Option.bind (json_get payload field) json_u64)
       (request_error field (lit ''payload.'' @ lit field @ lit '' must be a non-negative integer''))"

fun tag_field :: "string \<Rightarrow> handoff_error \<Rightarrow> handoff_error" where
  "tag_field field (Invalid message) = RequestError (lit field) message"
| "tag_field field (RequestError _ message) = RequestError (lit field) message"
| "tag_field field e = e"

definition claim_from_value :: "handoff_env \<Rightarrow> json \<Rightarrow> rstr + claim" where
  "claim_from_value E v =
     and_then (he_raw_claim E v) (\<lambda>(i, st, sb, so). map_err show_handoff_error (claim_try_new i st sb so))"

definition parse_claim :: "handoff_env \<Rightarrow> json \<Rightarrow> nat \<Rightarrow> gate_failure + claim" where
  "parse_claim E v index =
     (let target = (case Option.bind (json_get v ''id'') json_str of
          Some i \<Rightarrow> if i \<noteq> [] then i else lit ''claim['' @ dec index @ lit '']''
        | None \<Rightarrow> lit ''claim['' @ dec index @ lit '']'') in
      if json_get v ''source'' = None
      then Inl \<lparr>gf_target = target, gf_check = SourceResolves, gf_field = Some (lit ''source''),
        gf_fix = lit ''claim `'' @ target @ lit
          ''` is missing `source`. Add a source of kind `file` (path), `commit` (hash), or `url` (url). An unsourced claim cannot be handed off.''\<rparr>
      else map_err (\<lambda>e. \<lparr>gf_target = target, gf_check = Request, gf_field = Some (lit ''claims''),
        gf_fix = lit ''payload.claims could not be read ('' @ e @ lit
          ''). Each claim needs id, statement, subject, and a file, commit, or URL source.''\<rparr>) (claim_from_value E v))"

fun parse_each :: "handoff_env \<Rightarrow> nat \<Rightarrow> json list \<Rightarrow> claim list \<times> gate_failure list" where
  "parse_each E index [] = ([], [])"
| "parse_each E index (v # vs) =
     (case (parse_claim E v index, parse_each E (Suc index) vs) of
        (Inr c, (cs, fs)) \<Rightarrow> (c # cs, fs)
      | (Inl f, (cs, fs)) \<Rightarrow> (cs, f # fs))"

definition parse_claims :: "handoff_env \<Rightarrow> json option \<Rightarrow> rstr \<Rightarrow> handoff_error + claim list \<times> gate_failure list" where
  "parse_claims E v handoff_id =
     (case v of
        None \<Rightarrow> Inl (request_error ''claims'' (lit
          ''payload.claims missing. Each claim needs a subject and a file, commit, or URL source.''))
      | Some (JArray items) \<Rightarrow>
          if items = [] then Inr ([], [\<lparr>gf_target = handoff_id, gf_check = ClaimsPresent, gf_field = Some (lit ''claims''),
            gf_fix = lit
            ''payload.claims is empty. Add at least one claim; each claim must name a subject and a file, commit, or URL source.''\<rparr>])
          else if MAX_CLAIMS < length items then Inl (request_error ''claims'' (lit ''payload.claims can carry at most '' @
            dec MAX_CLAIMS @ lit '' claims''))
          else Inr (parse_each E 0 items)
      | Some _ \<Rightarrow> Inl (request_error ''claims'' (lit ''payload.claims must be an array'')))"

section \<open>Actions\<close>

datatype snapshot =
    FetchSnapshot fetch_record
  | HandoffSnapshot stored_handoff
  | HandoffAbsent rstr
  | ArtifactSnapshot rstr shared_artifact string
  | ArtifactAbsent rstr
  | ArtifactRefused rstr
  | ToolSnapshot rstr

type_synonym outcome = "snapshot workflow_result"

definition step_to :: "string \<Rightarrow> rstr \<Rightarrow> next_step" where
  "step_to name detail = \<lparr>ns_action = lit name, ns_detail = detail\<rparr>"

definition recorded_via_from :: "admission_context \<Rightarrow> recorded_via" where
  "recorded_via_from ad = \<lparr>rv_execution_origin = ad_execution_origin ad, rv_session_id = ad_session_id ad\<rparr>"

definition fetched_at_of :: "handoff_env \<Rightarrow> json \<Rightarrow> int \<Rightarrow> handoff_error + int" where
  "fetched_at_of E payload now =
     (case json_get payload ''fetched_at'' of
        None \<Rightarrow> Inr now
      | Some JNull \<Rightarrow> Inr now
      | Some (JString raw) \<Rightarrow> ok_or (he_parse_time E (trim raw)) (RequestError (lit ''fetched_at'') (lit ''timestamp `'' @ raw @
          lit ''` must be an RFC 3339 timestamp''))
      | Some _ \<Rightarrow> Inl (request_error ''fetched_at'' (lit ''payload.fetched_at must be an RFC 3339 timestamp'')))"

definition fetch_of_payload :: "handoff_env \<Rightarrow> json \<Rightarrow> int \<Rightarrow> admission_context \<Rightarrow> handoff_error + fetch_record" where
  "fetch_of_payload E payload now ad =
     and_then (and_then (require_str payload ''sender'') (validate_id ''sender'')) (\<lambda>sender.
     and_then (and_then (require_str payload ''url'') (\<lambda>u. map_err (tag_field ''url'') (normalize_url u))) (\<lambda>(url, host).
     and_then (require_status payload) (\<lambda>status.
     and_then (and_then (require_str payload ''body_digest'')
       (\<lambda>d. map_err (tag_field ''body_digest'') (parse_digest d))) (\<lambda>body_digest.
     and_then (fetched_at_of E payload now) (\<lambda>fetched_at.
     Inr \<lparr>fr_url = url, fr_host = host, fr_status = status, fr_body_digest = body_digest, fr_fetched_at = fetched_at,
       fr_sender = sender, fr_recorded_via = recorded_via_from ad\<rparr>)))))"

type_synonym call_result = "(handoff_error + outcome) \<times> gate_store option"

definition record_fetch ::
    "handoff_env \<Rightarrow> handoff_io \<Rightarrow> json \<Rightarrow> int \<Rightarrow> admission_context \<Rightarrow> gate_store option \<Rightarrow> call_result" where
  "record_fetch E io payload now ad file_content =
     (case fetch_of_payload E payload now ad of
        Inl e \<Rightarrow> (Inl e, file_content)
      | Inr f \<Rightarrow> with_store io (\<lambda>s.
          and_then (insert_fetch f s) (\<lambda>s'.
          Inr (result_recorded (FetchSnapshot f) (step_to ''submit'' (lit ''Fetch of `'' @ fr_url f @
            lit ''` is recorded for `'' @ fr_sender f @ lit ''`. Submit the handoff with action `submit`.'')), s')))
          file_content)"

fun join_spaced :: "rstr list \<Rightarrow> rstr" where
  "join_spaced [] = []"
| "join_spaced [s] = s"
| "join_spaced (s # ss) = s @ lit '' '' @ join_spaced ss"

definition failure_detail :: "rstr \<Rightarrow> gate_failure list \<Rightarrow> rstr" where
  "failure_detail hid failures = lit ''Handoff `'' @ hid @ lit ''` is pending and was not accepted. Fix '' @
     dec (length failures) @ lit '' failure(s) and submit again: '' @ join_spaced (map gf_fix failures)"

definition already_accepted :: "stored_handoff \<Rightarrow> handoff_error + outcome" where
  "already_accepted h =
     result_pending (HandoffSnapshot h)
       [\<lparr>gf_target = sh_id h, gf_check = AlreadyAccepted, gf_field = Some (lit ''id''),
         gf_fix = lit ''payload.id `'' @ sh_id h @ lit
           ''` is already accepted and was not replaced. Read it with action `read`.''\<rparr>]
       (step_to ''read'' (lit ''Handoff `'' @ sh_id h @ lit ''` is already accepted. The new submit was refused.''))"

record submission =
  su_id :: rstr
  su_from :: rstr
  su_to :: rstr
  su_workspace :: rstr
  su_claims :: "claim list"
  su_parse_failures :: "gate_failure list"

definition submission_of ::
    "handoff_env \<Rightarrow> handoff_world \<Rightarrow> json \<Rightarrow> rstr option \<Rightarrow> handoff_error + submission" where
  "submission_of E W payload workspace =
     and_then (and_then (require_str payload ''id'') (validate_id ''id'')) (\<lambda>hid.
     and_then (and_then (require_str payload ''from_agent'') (validate_id ''from_agent'')) (\<lambda>sender.
     and_then (and_then (require_str payload ''to_agent'') (validate_id ''to_agent'')) (\<lambda>receiver.
     and_then (case workspace of
         Some path \<Rightarrow> Inr path
       | None \<Rightarrow> and_then (require_str payload ''workspace'')
           (\<lambda>raw. map_err (tag_field ''workspace'') (normalize_workspace W raw))) (\<lambda>root.
     and_then (parse_claims E (json_get payload ''claims'') hid) (\<lambda>(claims, failures).
     Inr \<lparr>su_id = hid, su_from = sender, su_to = receiver, su_workspace = root, su_claims = claims,
       su_parse_failures = failures\<rparr>)))))"

definition fetch_for :: "gate_store \<Rightarrow> rstr \<Rightarrow> rstr \<Rightarrow> recorded_fetch option" where
  "fetch_for s sender url =
     map_option (\<lambda>f. \<lparr>rf_sender = fr_sender f, rf_host = fr_host f, rf_status = fr_status f,
       rf_fetched_at = fr_fetched_at f, rf_session_id = rv_session_id (fr_recorded_via f)\<rparr>) (store_fetch s sender url)"

definition admission_at :: "int \<Rightarrow> admission_context \<Rightarrow> fetch_admission" where
  "admission_at now ad = \<lparr>fa_now = now, fa_max_age = ad_fetch_max_age ad, fa_session_id = ad_session_id ad\<rparr>"

definition submission_failures ::
    "handoff_env \<Rightarrow> handoff_world \<Rightarrow> submission \<Rightarrow> int \<Rightarrow> admission_context \<Rightarrow> gate_store \<Rightarrow> gate_failure list" where
  "submission_failures E W u now ad s =
     su_parse_failures u @
     evaluate_claims E W (su_workspace u) (su_from u) (admission_at now ad) (fetch_for s (su_from u)) (su_claims u)"

definition handoff_of :: "submission \<Rightarrow> gate_failure list \<Rightarrow> int \<Rightarrow> admission_context \<Rightarrow> stored_handoff" where
  "handoff_of u failures now ad =
     \<lparr>sh_id = su_id u, sh_from_agent = su_from u, sh_to_agent = su_to u, sh_workspace = su_workspace u,
      sh_claims = su_claims u, sh_phase = (if failures = [] then PhaseAccepted now else PhasePending failures),
      sh_updated_at = now, sh_recorded_via = recorded_via_from ad\<rparr>"

definition is_accepted :: "stored_handoff \<Rightarrow> bool" where
  "is_accepted h \<longleftrightarrow> (case sh_phase h of PhaseAccepted _ \<Rightarrow> True | PhasePending _ \<Rightarrow> False)"

definition submit_checked ::
    "handoff_env \<Rightarrow> handoff_world \<Rightarrow> submission \<Rightarrow> int \<Rightarrow> admission_context \<Rightarrow> gate_store \<Rightarrow>
     handoff_error + outcome \<times> gate_store" where
  "submit_checked E W u now ad s =
     (let failures = submission_failures E W u now ad s; h = handoff_of u failures now ad in
      and_then (insert_handoff h s) (\<lambda>s'.
      if failures = []
      then Inr (result_accepted (HandoffSnapshot h) (step_to ''read'' (lit ''Handoff `'' @ su_id u @
        lit ''` is accepted. `'' @ su_to u @ lit ''` may read it with action `read`.'')), s')
      else and_then (result_pending (HandoffSnapshot h) failures
        (step_to ''submit'' (failure_detail (su_id u) failures))) (\<lambda>r. Inr (r, s'))))"

definition submit_on ::
    "handoff_env \<Rightarrow> handoff_world \<Rightarrow> submission \<Rightarrow> int \<Rightarrow> admission_context \<Rightarrow> gate_store \<Rightarrow>
     handoff_error + outcome \<times> gate_store" where
  "submit_on E W u now ad s =
     (case store_handoff s (su_id u) of
        Some existing \<Rightarrow>
          if is_accepted existing then and_then (already_accepted existing) (\<lambda>r. Inr (r, s))
          else submit_checked E W u now ad s
      | None \<Rightarrow> submit_checked E W u now ad s)"

definition submit ::
    "handoff_env \<Rightarrow> handoff_world \<Rightarrow> handoff_io \<Rightarrow> json \<Rightarrow> int \<Rightarrow> rstr option \<Rightarrow> admission_context \<Rightarrow>
     gate_store option \<Rightarrow> call_result" where
  "submit E W io payload now workspace ad file_content =
     (case submission_of E W payload workspace of
        Inl e \<Rightarrow> (Inl e, file_content)
      | Inr u \<Rightarrow> with_store io (submit_on E W u now ad) file_content)"

datatype handoff_view = StatusView | ReadView

definition view_handoff :: "stored_handoff \<Rightarrow> handoff_view \<Rightarrow> handoff_error + outcome" where
  "view_handoff h view =
     (case sh_phase h of
        PhaseAccepted _ \<Rightarrow> Inr (result_accepted (HandoffSnapshot h) (step_to ''none'' (lit ''Handoff `'' @ sh_id h @
          lit ''` is accepted. No further gate step is required.'')))
      | PhasePending failures \<Rightarrow>
          if failures = [] then Inl (CorruptError (lit ''handoff `'' @ sh_id h @ lit ''` is pending with no failures''))
          else result_pending (HandoffSnapshot h) failures (step_to ''submit'' (case view of
            ReadView \<Rightarrow> lit ''Handoff `'' @ sh_id h @ lit ''` is pending and must not be treated as delivered. '' @
              failure_detail (sh_id h) failures
          | StatusView \<Rightarrow> failure_detail (sh_id h) failures)))"

definition load_handoff ::
    "handoff_io \<Rightarrow> json \<Rightarrow> handoff_view \<Rightarrow> gate_store option \<Rightarrow> call_result" where
  "load_handoff io payload view file_content =
     (case and_then (require_str payload ''id'') (validate_id ''handoff id'') of
        Inl e \<Rightarrow> (Inl e, file_content)
      | Inr hid \<Rightarrow> with_store io (\<lambda>s.
          and_then (case store_handoff s hid of
            None \<Rightarrow> result_pending (HandoffAbsent hid)
              [\<lparr>gf_target = hid, gf_check = HandoffExists, gf_field = Some (lit ''id''),
                gf_fix = lit ''payload.id `'' @ hid @ lit ''` is not stored. Submit it with action `submit`.''\<rparr>]
              (step_to ''submit'' (lit ''Submit handoff `'' @ hid @ lit ''` with action `submit`.''))
          | Some h \<Rightarrow> view_handoff h view) (\<lambda>r. Inr (r, s))) file_content)"

section \<open>Shared artifacts\<close>

definition refuse_missing_artifact :: "rstr \<Rightarrow> handoff_error + outcome" where
  "refuse_missing_artifact aid =
     result_pending (ArtifactAbsent aid)
       [\<lparr>gf_target = aid, gf_check = ArtifactExists, gf_field = Some (lit ''artifact_id''),
         gf_fix = lit ''payload.artifact_id `'' @ aid @ lit
           ''` does not exist. Create it with action `write_shared` and `based_on_generation` 0.''\<rparr>]
       (step_to ''write_shared'' (lit ''Create `'' @ aid @ lit
         ''` with action `write_shared` and `based_on_generation` 0.''))"

definition read_shared_on :: "rstr \<Rightarrow> rstr \<Rightarrow> int \<Rightarrow> gate_store \<Rightarrow> handoff_error + outcome \<times> gate_store" where
  "read_shared_on aid reader now s =
     (case store_artifact s aid of
        None \<Rightarrow> and_then (refuse_missing_artifact aid) (\<lambda>r. Inr (r, s))
      | Some a \<Rightarrow>
          let g = sa_generation a;
              a' = a\<lparr>sa_reads := bt_insert reader \<lparr>rm_generation = g, rm_read_at = now\<rparr> (sa_reads a)\<rparr> in
          Inr (result_recorded (ArtifactSnapshot aid a' ''recorded'') (step_to ''write_shared'' (lit ''`'' @ reader @
            lit ''` read `'' @ aid @ lit ''` at generation '' @ dec g @
            lit ''. A later write must set `based_on_generation` to '' @ dec g @ lit ''.'')),
            s\<lparr>gs_artifacts := bt_insert aid a' (gs_artifacts s)\<rparr>))"

definition read_shared :: "handoff_io \<Rightarrow> json \<Rightarrow> int \<Rightarrow> gate_store option \<Rightarrow> call_result" where
  "read_shared io payload now file_content =
     (case and_then (and_then (require_str payload ''artifact_id'')
             (\<lambda>raw. map_err (tag_field ''artifact_id'') (validate_relative_path ''artifact_id'' raw))) (\<lambda>aid.
           and_then (and_then (require_str payload ''reader'') (validate_id ''reader'')) (\<lambda>reader. Inr (aid, reader))) of
        Inl e \<Rightarrow> (Inl e, file_content)
      | Inr (aid, reader) \<Rightarrow> with_store io (read_shared_on aid reader now) file_content)"

definition num_minutes :: "int \<Rightarrow> int" where
  "num_minutes d = (if d < 0 then - ((- d) div (60 * NANOS)) else d div (60 * NANOS))"

definition stale_write_failure :: "handoff_env \<Rightarrow> rstr \<Rightarrow> rstr \<Rightarrow> nat \<Rightarrow> shared_artifact \<Rightarrow> int \<Rightarrow> gate_failure" where
  "stale_write_failure E aid writer based_on a now =
     (let minutes = nat (max 0 (num_minutes (now - sa_last_written_at a)));
          minute_label = (if minutes = 1 then lit ''1 minute'' else dec minutes @ lit '' minutes'');
          read_label = (case bt_get (sa_reads a) writer of
              Some mark \<Rightarrow> lit ''`'' @ writer @ lit ''` last read generation '' @ dec (rm_generation mark) @ lit '' at '' @
                he_show_time E (rm_read_at mark)
            | None \<Rightarrow> lit ''`'' @ writer @ lit ''` has no recorded read of this artifact'') in
      \<lparr>gf_target = aid, gf_check = StaleRead, gf_field = Some (lit ''based_on_generation''),
       gf_fix = lit ''refusing write of `'' @ aid @ lit ''` by `'' @ writer @ lit ''`: this write is based on generation '' @
         dec based_on @ lit '', and '' @ read_label @ lit ''. `'' @ sa_last_writer a @ lit ''` wrote generation '' @
         dec (sa_generation a) @ lit '' at '' @ he_show_time E (sa_last_written_at a) @ lit '' ('' @ minute_label @
         lit '' before this write). Re-read `'' @ aid @ lit ''` and write against generation '' @
         dec (sa_generation a) @ lit ''.''\<rparr>)"

definition read_next_step :: "rstr \<Rightarrow> nat \<Rightarrow> next_step" where
  "read_next_step aid g = step_to ''read_shared'' (lit ''Re-read `'' @ aid @
     lit ''` with action `read_shared`. The current generation is '' @ dec g @
     lit ''. Then call `write_shared` with `based_on_generation` '' @ dec g @ lit ''.'')"

definition create_artifact ::
    "rstr \<Rightarrow> rstr \<Rightarrow> nat \<Rightarrow> rstr \<Rightarrow> int \<Rightarrow> gate_store \<Rightarrow> handoff_error + outcome \<times> gate_store" where
  "create_artifact aid writer based_on content now s =
     (if based_on \<noteq> 0
      then and_then (result_pending (ArtifactAbsent aid)
        [\<lparr>gf_target = aid, gf_check = StaleRead, gf_field = Some (lit ''based_on_generation''),
          gf_fix = lit ''payload.based_on_generation '' @ dec based_on @ lit '' is stale because shared artifact `'' @ aid @
            lit ''` does not exist. Create it with `based_on_generation` 0.''\<rparr>]
        (step_to ''write_shared'' (lit ''Create `'' @ aid @ lit ''` with `based_on_generation` 0.''))) (\<lambda>r. Inr (r, s))
      else let a = \<lparr>sa_generation = 1, sa_content = content, sa_last_writer = writer, sa_last_written_at = now,
          sa_reads = bt_empty\<rparr> in
        and_then (insert_artifact aid a s) (\<lambda>s'.
        Inr (result_accepted (ArtifactSnapshot aid a ''accepted'') (step_to ''read_shared'' (lit ''`'' @ writer @
          lit ''` created `'' @ aid @ lit
          ''` at generation 1. Another writer must read that generation before writing.'')), s')))"

definition saturating_succ :: "nat \<Rightarrow> nat" where
  "saturating_succ g = (if g < u64_max then g + 1 else u64_max)"

definition write_shared_on ::
    "handoff_env \<Rightarrow> rstr \<Rightarrow> rstr \<Rightarrow> nat \<Rightarrow> rstr \<Rightarrow> int \<Rightarrow> gate_store \<Rightarrow> handoff_error + outcome \<times> gate_store" where
  "write_shared_on E aid writer based_on content now s =
     (case store_artifact s aid of
        None \<Rightarrow> create_artifact aid writer based_on content now s
      | Some current \<Rightarrow>
          let read_generation = map_option rm_generation (bt_get (sa_reads current) writer) in
          if \<not> (based_on = sa_generation current \<and> read_generation = Some (sa_generation current))
          then and_then (result_pending (ArtifactSnapshot aid current ''pending'')
            [stale_write_failure E aid writer based_on current now] (read_next_step aid (sa_generation current)))
            (\<lambda>r. Inr (r, s))
          else let a = \<lparr>sa_generation = saturating_succ (sa_generation current), sa_content = content,
              sa_last_writer = writer, sa_last_written_at = now, sa_reads = sa_reads current\<rparr> in
            and_then (insert_artifact aid a s) (\<lambda>s'.
            Inr (result_accepted (ArtifactSnapshot aid a ''accepted'') (step_to ''read_shared'' (lit ''`'' @ writer @
              lit ''` wrote `'' @ aid @ lit ''` at generation '' @ dec (sa_generation a) @
              lit ''. Other writers must re-read before they write.'')), s')))"

definition write_request :: "json \<Rightarrow> handoff_error + rstr \<times> rstr \<times> nat \<times> rstr" where
  "write_request payload =
     and_then (and_then (require_str payload ''artifact_id'')
       (\<lambda>raw. map_err (tag_field ''artifact_id'') (validate_relative_path ''artifact_id'' raw))) (\<lambda>aid.
     and_then (and_then (require_str payload ''writer'') (validate_id ''writer'')) (\<lambda>writer.
     and_then (require_u64 payload ''based_on_generation'') (\<lambda>based_on.
     and_then (ok_or (Option.bind (json_get payload ''content'') json_str)
       (request_error ''content'' (lit ''payload.content missing''))) (\<lambda>content.
     Inr (aid, writer, based_on, content)))))"

definition write_shared :: "handoff_env \<Rightarrow> handoff_io \<Rightarrow> json \<Rightarrow> int \<Rightarrow> gate_store option \<Rightarrow> call_result" where
  "write_shared E io payload now file_content =
     (case write_request payload of
        Inl e \<Rightarrow> (Inl e, file_content)
      | Inr (aid, writer, based_on, content) \<Rightarrow>
          if MAX_ARTIFACT_BYTES < byte_len content
          then (result_pending (ArtifactRefused aid)
            [\<lparr>gf_target = aid, gf_check = Request, gf_field = Some (lit ''content''),
              gf_fix = lit ''payload.content is '' @ dec (byte_len content) @ lit '' bytes; the maximum is '' @
                dec MAX_ARTIFACT_BYTES @ lit ''. Shorten the artifact and write again.''\<rparr>]
            (step_to ''write_shared'' (lit ''Shorten `content` and call `write_shared` again.'')), file_content)
          else with_store io (write_shared_on E aid writer based_on content now) file_content)"

section \<open>Dispatch\<close>

definition pending_request :: "rstr \<Rightarrow> gate_failure \<Rightarrow> handoff_error + outcome" where
  "pending_request called failure =
     (let retry = (if called = [] then lit ''submit'' else called);
          named = (case gf_field failure of Some f \<Rightarrow> f | None \<Rightarrow> []) in
      result_pending (ToolSnapshot called) [failure]
        \<lparr>ns_action = retry, ns_detail = lit ''Fix payload.'' @ named @ lit '' and call `'' @ retry @
          lit ''` again. The gate does not rewrite arguments.''\<rparr>)"

definition request_failure :: "rstr \<Rightarrow> rstr \<Rightarrow> gate_failure" where
  "request_failure field message =
     \<lparr>gf_target = field, gf_check = Request, gf_field = Some field, gf_fix = message\<rparr>"

definition promote_request :: "rstr \<Rightarrow> call_result \<Rightarrow> call_result" where
  "promote_request called r =
     (case fst r of
        Inl (RequestError field message) \<Rightarrow> (pending_request called (request_failure field message), snd r)
      | _ \<Rightarrow> r)"

definition unknown_action :: "rstr \<Rightarrow> handoff_error + outcome" where
  "unknown_action called =
     (let name = (if called = [] then lit ''(missing)'' else called) in
      result_pending (ToolSnapshot name)
        [\<lparr>gf_target = name, gf_check = Request, gf_field = Some (lit ''action''),
          gf_fix = lit ''payload.action `'' @ name @ lit
            ''` is unknown. Use one of: record_fetch, submit, status, read, read_shared, write_shared.''\<rparr>]
        (step_to ''submit'' (lit
          ''Call handoff again with action `submit` for a findings report, or `read_shared` / `write_shared` for a shared artifact.'')))"

text \<open>One call: the action, its payload, the clock, the workspace the sandbox checked and the caller's stamp.\<close>

record call =
  cl_action :: rstr
  cl_payload :: json
  cl_now :: int
  cl_workspace :: "rstr option"
  cl_admission :: admission_context
  cl_world :: handoff_world
  cl_io :: handoff_io

definition dispatch_action :: "handoff_env \<Rightarrow> call \<Rightarrow> gate_store option \<Rightarrow> call_result" where
  "dispatch_action E q file_content =
     (let a = cl_action q; p = cl_payload q in
      if a = lit ''record_fetch'' then record_fetch E (cl_io q) p (cl_now q) (cl_admission q) file_content
      else if a = lit ''submit''
      then submit E (cl_world q) (cl_io q) p (cl_now q) (cl_workspace q) (cl_admission q) file_content
      else if a = lit ''status'' then load_handoff (cl_io q) p StatusView file_content
      else if a = lit ''read'' then load_handoff (cl_io q) p ReadView file_content
      else if a = lit ''read_shared'' then read_shared (cl_io q) p (cl_now q) file_content
      else if a = lit ''write_shared'' then write_shared E (cl_io q) p (cl_now q) file_content
      else (unknown_action a, file_content))"

definition is_object :: "json \<Rightarrow> bool" where
  "is_object v \<longleftrightarrow> (case v of JObject _ \<Rightarrow> True | _ \<Rightarrow> False)"

definition dispatch_for :: "handoff_env \<Rightarrow> call \<Rightarrow> gate_store option \<Rightarrow> call_result" where
  "dispatch_for E q file_content =
     promote_request (cl_action q)
       (if \<not> is_object (cl_payload q)
        then (pending_request (cl_action q) (request_failure (lit ''payload'') (lit ''payload must be a JSON object'')),
          file_content)
        else dispatch_action E q file_content)"

end
