(* ===== verification/Handoff_Machine.thy ===== *)
theory Handoff_Machine
  imports Handoff_Store
begin

text \<open>
  Sequences of handoff calls.  Every call that changes the file loads a store and takes one of five steps
  on it; the invariants of the ledger are shown per step and lifted to any sequence of calls.
\<close>

section \<open>Steps\<close>

inductive store_step :: "handoff_env \<Rightarrow> call \<Rightarrow> gate_store \<Rightarrow> outcome \<Rightarrow> gate_store \<Rightarrow> bool" for E q where
  Fetch: "cl_action q = lit ''record_fetch'' \<Longrightarrow> fetch_of_payload E (cl_payload q) (cl_now q) (cl_admission q) = Inr f \<Longrightarrow> insert_fetch f s = Inr s' \<Longrightarrow>
    \<not> wr_accepted r \<Longrightarrow> store_step E q s r s'"
| Submit: "cl_action q = lit ''submit'' \<Longrightarrow> submission_of E (cl_world q) (cl_payload q) (cl_workspace q) = Inr u \<Longrightarrow>
    submit_on E (cl_world q) u (cl_now q) (cl_admission q) s = Inr (r, s') \<Longrightarrow> store_step E q s r s'"
| View: "cl_action q = lit ''status'' \<or> cl_action q = lit ''read'' \<Longrightarrow> store_step E q s r s"
| ReadShared: "cl_action q = lit ''read_shared'' \<Longrightarrow> read_shared_on aid reader (cl_now q) s = Inr (r, s') \<Longrightarrow> store_step E q s r s'"
| WriteShared: "cl_action q = lit ''write_shared'' \<Longrightarrow> write_request (cl_payload q) = Inr (aid, writer, based_on, content) \<Longrightarrow>
    write_shared_on E aid writer based_on content (cl_now q) s = Inr (r, s') \<Longrightarrow> store_step E q s r s'"

lemma with_store_cases:
  assumes "with_store io body f = (r, f')"
  obtains "f' = f" "isl r"
    | s r0 s' where "load_store io f = Inr s" "body s = Inr (r0, s')" "r = Inr r0" "f' = Some s'"
  using assms unfolding with_store_def
  by (auto simp: and_then_Inl split: sum.splits prod.splits)

text \<open>A call leaves the file alone and accepts nothing, or it is a step on the loaded store.\<close>

definition call_takes :: "handoff_env \<Rightarrow> call \<Rightarrow> gate_store option \<Rightarrow> call_result \<Rightarrow> bool" where
  "call_takes E q f out \<longleftrightarrow>
     (snd out = f \<and> (\<forall>r. fst out = Inr r \<longrightarrow> \<not> wr_accepted r)) \<or>
     (\<exists>s r s'. load_store (cl_io q) f = Inr s \<and> store_step E q s r s' \<and> out = (Inr r, Some s'))"

lemma call_takes_with_store:
  assumes "\<And>s r s'. body s = Inr (r, s') \<Longrightarrow> store_step E q s r s'"
  shows "call_takes E q f (with_store (cl_io q) body f)"
  by (rule with_store_cases [of "cl_io q" body f "fst (with_store (cl_io q) body f)" "snd (with_store (cl_io q) body f)"])
    (use assms in \<open>auto simp: call_takes_def prod_eq_iff isl_def\<close>)

lemma call_takes_refusal: "call_takes E q f (Inl e, f)"
  by (simp add: call_takes_def)

lemma result_pending_not_accepted: "result_pending sn fs st = Inr r \<Longrightarrow> \<not> wr_accepted r"
  by (auto simp: result_pending_def split: if_splits)

lemma call_takes_pending: "call_takes E q f (result_pending sn fs st, f)"
  by (auto simp: call_takes_def dest: result_pending_not_accepted)

lemma call_takes_promote:
  assumes "call_takes E q f out"
  shows "call_takes E q f (promote_request called out)"
  using assms
  by (auto simp: call_takes_def promote_request_def pending_request_def Let_def prod_eq_iff
      dest: result_pending_not_accepted split: sum.splits handoff_error.splits)

lemma call_takes_record_fetch:
  "cl_action q = lit ''record_fetch'' \<Longrightarrow> call_takes E q f (record_fetch E (cl_io q) (cl_payload q) (cl_now q) (cl_admission q) f)"
  unfolding record_fetch_def
  by (auto split: sum.split intro!: call_takes_refusal call_takes_with_store store_step.Fetch simp: result_recorded_def)

lemma call_takes_submit:
  "cl_action q = lit ''submit'' \<Longrightarrow> call_takes E q f (submit E (cl_world q) (cl_io q) (cl_payload q) (cl_now q) (cl_workspace q) (cl_admission q) f)"
  unfolding submit_def
  by (auto split: sum.split intro!: call_takes_refusal call_takes_with_store intro: store_step.Submit)

lemma call_takes_load_handoff:
  "cl_action q = lit ''status'' \<or> cl_action q = lit ''read'' \<Longrightarrow> call_takes E q f (load_handoff (cl_io q) (cl_payload q) view f)"
  unfolding load_handoff_def
  by (auto split: sum.split intro!: call_takes_refusal call_takes_with_store intro: store_step.View)

lemma call_takes_read_shared:
  "cl_action q = lit ''read_shared'' \<Longrightarrow> call_takes E q f (read_shared (cl_io q) (cl_payload q) (cl_now q) f)"
  unfolding read_shared_def
  by (auto split: sum.split intro!: call_takes_refusal call_takes_with_store intro: store_step.ReadShared)

lemma call_takes_write_shared:
  "cl_action q = lit ''write_shared'' \<Longrightarrow> call_takes E q f (write_shared E (cl_io q) (cl_payload q) (cl_now q) f)"
  unfolding write_shared_def
  by (auto split: sum.split intro!: call_takes_refusal call_takes_with_store call_takes_pending
      intro: store_step.WriteShared)

lemma call_takes_answers:
  "call_takes E q f (unknown_action called, f)" "call_takes E q f (pending_request called failure, f)"
  unfolding unknown_action_def pending_request_def Let_def by (rule call_takes_pending)+

lemma call_takes_if:
  "(b \<Longrightarrow> call_takes E q f x) \<Longrightarrow> (\<not> b \<Longrightarrow> call_takes E q f y) \<Longrightarrow> call_takes E q f (if b then x else y)"
  by simp

lemma call_takes_views:
  "cl_action q = lit ''status'' \<Longrightarrow> call_takes E q f (load_handoff (cl_io q) (cl_payload q) view f)"
  "cl_action q = lit ''read'' \<Longrightarrow> call_takes E q f (load_handoff (cl_io q) (cl_payload q) view f)"
  by (simp_all add: call_takes_load_handoff)

lemma dispatch_takes: "call_takes E q f (dispatch_for E q f)"
  unfolding dispatch_for_def dispatch_action_def Let_def
  by (intro call_takes_promote call_takes_if call_takes_answers call_takes_record_fetch call_takes_submit
      call_takes_read_shared call_takes_write_shared call_takes_views; assumption)

lemma dispatch_cases [consumes 1, case_names Kept Step]:
  assumes "dispatch_for E q f = (r, f')"
  obtains "f' = f" "\<And>out. r = Inr out \<Longrightarrow> \<not> wr_accepted out"
    | s out s' where "load_store (cl_io q) f = Inr s" "store_step E q s out s'" "r = Inr out" "f' = Some s'"
  using dispatch_takes [of E q f] assms by (auto simp: call_takes_def)

definition run_calls :: "handoff_env \<Rightarrow> call list \<Rightarrow> gate_store option \<Rightarrow> gate_store option" where
  "run_calls E qs f = foldl (\<lambda>f q. snd (dispatch_for E q f)) f qs"

lemma run_calls_simps [simp]:
  "run_calls E [] f = f" "run_calls E (q # qs) f = run_calls E qs (snd (dispatch_for E q f))"
  by (simp_all add: run_calls_def)

text \<open>What loading and every step keep, every sequence of calls keeps.\<close>

locale ledger_invariant =
  fixes E :: handoff_env
    and holds :: "gate_store option \<Rightarrow> bool"
  assumes holds_loaded: "holds f \<Longrightarrow> load_store io f = Inr s \<Longrightarrow> holds (Some s)"
    and holds_step: "holds (Some s) \<Longrightarrow> store_step E q s out s' \<Longrightarrow> holds (Some s')"
begin

lemma holds_dispatch: "holds f \<Longrightarrow> holds (snd (dispatch_for E q f))"
  using dispatch_takes [of E q f] holds_loaded holds_step unfolding call_takes_def by fastforce

lemma holds_after: "holds f \<Longrightarrow> holds (run_calls E qs f)"
  by (induction qs arbitrary: f) (simp_all add: holds_dispatch)

end

end
