(* ===== verification/Handoff_Properties.thy ===== *)
theory Handoff_Properties
  imports Handoff_Machine
begin

text \<open>
  What the handoff gate guarantees: an accepted handoff rests on evidence checked in the call that
  accepted it, it is never replaced, a shared artifact is only written by someone who read the generation
  it replaces, and the ledger keeps its bounds.  One property shows a submission that makes the ledger
  unreadable.
\<close>

section \<open>Loading\<close>

definition handoff_in :: "gate_store option \<Rightarrow> rstr \<Rightarrow> stored_handoff option" where
  "handoff_in f hid = (case f of None \<Rightarrow> None | Some s \<Rightarrow> store_handoff s hid)"

definition artifact_in :: "gate_store option \<Rightarrow> rstr \<Rightarrow> shared_artifact option" where
  "artifact_in f aid = (case f of None \<Rightarrow> None | Some s \<Rightarrow> store_artifact s aid)"

lemma reload_handoffs_get:
  "reload_handoffs hs = Inr hs' \<Longrightarrow>
     (case bt_get hs hid of
        None \<Rightarrow> bt_get hs' hid = None
      | Some h \<Rightarrow> \<exists>cs. reload_claims (sh_claims h) = Inr cs \<and> bt_get hs' hid = Some (h\<lparr>sh_claims := cs\<rparr>))"
  by (induction hs arbitrary: hs') (auto simp: bt_get_def split: option.splits)

lemma load_store_fields:
  assumes "load_store io (Some stored) = Inr s"
  shows "gs_fetches s = gs_fetches stored" "gs_artifacts s = gs_artifacts stored"
    "reload_handoffs (gs_handoffs stored) = Inr (gs_handoffs s)" "validate_store s = Inr ()"
  using assms by (auto simp: load_store_def deserialize_store_def)

lemma load_store_handoff:
  assumes "load_store io f = Inr s"
  shows "case handoff_in f hid of
      None \<Rightarrow> store_handoff s hid = None
    | Some h \<Rightarrow> \<exists>cs. reload_claims (sh_claims h) = Inr cs \<and> store_handoff s hid = Some (h\<lparr>sh_claims := cs\<rparr>)"
proof (cases f)
  case None
  with assms show ?thesis by (auto simp: load_store_def handoff_in_def default_store_def store_handoff_def)
next
  case (Some stored)
  with assms reload_handoffs_get [OF load_store_fields(3), of io stored s hid] show ?thesis
    by (simp add: handoff_in_def store_handoff_def split: option.splits)
qed

lemma load_store_artifact: "load_store io f = Inr s \<Longrightarrow> store_artifact s aid = artifact_in f aid"
  by (cases f) (auto simp: load_store_def deserialize_store_def artifact_in_def store_artifact_def default_store_def)

section \<open>Handoffs under steps\<close>

lemma insert_handoff_effect:
  assumes "insert_handoff h s = Inr s'"
  shows "store_handoff s' hid = (if hid = sh_id h then Some h else store_handoff s hid)"
    "gs_artifacts s' = gs_artifacts s" "gs_fetches s' = gs_fetches s"
  using assms by (auto simp: insert_handoff_def store_handoff_def bt_get_insert split: if_splits)

lemma submit_checked_effect:
  assumes "submit_checked E W u now ad s = Inr (r, s')"
  shows "insert_handoff (handoff_of u (submission_failures E W u now ad s) now ad) s = Inr s'"
    "wr_accepted r \<longleftrightarrow> submission_failures E W u now ad s = []"
  using assms
  by (auto simp: submit_checked_def Let_def result_accepted_def dest: result_pending_not_accepted split: if_splits)

lemma submit_on_effect:
  assumes "submit_on E W u now ad s = Inr (r, s')"
  shows "s' = s \<or> ((\<forall>h. store_handoff s (su_id u) = Some h \<longrightarrow> \<not> is_accepted h) \<and>
    insert_handoff (handoff_of u (submission_failures E W u now ad s) now ad) s = Inr s')"
  using assms submit_checked_effect(1)
  by (auto simp: submit_on_def split: option.splits if_splits)

definition new_handoff ::
    "handoff_env \<Rightarrow> call \<Rightarrow> gate_store \<Rightarrow> submission \<Rightarrow> stored_handoff" where
  "new_handoff E q s u = handoff_of u
     (submission_failures E (cl_world q) u (cl_now q) (cl_admission q) s) (cl_now q) (cl_admission q)"

lemma handoff_of_simps [simp]:
  "sh_id (handoff_of u fs now ad) = su_id u" "sh_claims (handoff_of u fs now ad) = su_claims u"
  "sh_workspace (handoff_of u fs now ad) = su_workspace u" "sh_from_agent (handoff_of u fs now ad) = su_from u"
  "is_accepted (handoff_of u fs now ad) \<longleftrightarrow> fs = []"
  by (simp_all add: handoff_of_def is_accepted_def)

lemma store_step_handoff:
  assumes "store_step E q s out s'"
  shows "store_handoff s' hid = store_handoff s hid \<or>
    (\<exists>u. submission_of E (cl_world q) (cl_payload q) (cl_workspace q) = Inr u \<and> hid = su_id u \<and>
      (\<forall>h. store_handoff s hid = Some h \<longrightarrow> \<not> is_accepted h) \<and> store_handoff s' hid = Some (new_handoff E q s u))"
  using assms
proof cases
  case (Submit u)
  from submit_on_effect [OF Submit(3)] show ?thesis
  proof
    assume new: "(\<forall>h. store_handoff s (su_id u) = Some h \<longrightarrow> \<not> is_accepted h) \<and>
      insert_handoff (handoff_of u (submission_failures E (cl_world q) u (cl_now q) (cl_admission q) s)
        (cl_now q) (cl_admission q)) s = Inr s'"
    with Submit(2) insert_handoff_effect(1) [OF conjunct2 [OF new], of hid] show ?thesis
      by (cases "hid = su_id u") (auto simp: new_handoff_def)
  qed simp
qed (auto simp: insert_fetch_def read_shared_on_def write_shared_on_def create_artifact_def insert_artifact_def
    store_handoff_def Let_def refuse_missing_artifact_def split: if_splits option.splits)

lemma parse_each_length: "parse_each E i vs = (cs, []) \<Longrightarrow> length cs = length vs"
proof (induction vs arbitrary: i cs)
  case (Cons v vs)
  then show ?case by (auto split: sum.splits prod.splits)
qed simp

lemma parse_claims_nonempty:
  assumes "parse_claims E v hid = Inr (cs, [])"
  shows "cs \<noteq> [] \<and> length cs \<le> MAX_CLAIMS"
  using assms by (auto simp: parse_claims_def dest!: parse_each_length split: option.splits json.splits if_splits)

lemma submission_claims:
  assumes "submission_of E W payload ws = Inr u" and "su_parse_failures u = []"
  shows "su_claims u \<noteq> []" "length (su_claims u) \<le> MAX_CLAIMS"
  using assms parse_claims_nonempty by (fastforce simp: submission_of_def)+

text \<open>C16: Whoever finds an accepted handoff that was not accepted before the call finds, in the state the call
  read, the evidence of every one of its claims: the file inside the workspace, the commit, or a 2xx fetch
  by the sender itself, in the same session, not in the future and not too old, each recording the very
  subject the claim declares.  There is at least one claim and at most 32.\<close>

theorem accepted_handoff_is_evidenced:
  assumes "dispatch_for E q f = (r, f')" and "handoff_in f' hid = Some h" and "is_accepted h"
    and "\<And>h0. handoff_in f hid = Some h0 \<Longrightarrow> \<not> is_accepted h0"
  shows "\<exists>s. load_store (cl_io q) f = Inr s \<and> sh_phase h = PhaseAccepted (cl_now q) \<and>
    sh_claims h \<noteq> [] \<and> length (sh_claims h) \<le> MAX_CLAIMS \<and>
    list_all (evidenced (cl_world q) (sh_workspace h) (sh_from_agent h) (admission_at (cl_now q) (cl_admission q))
      (fetch_for s (sh_from_agent h))) (sh_claims h)"
  using assms(1)
proof (cases rule: dispatch_cases)
  case Kept
  with assms show ?thesis by auto
next
  case (Step s out s')
  have before: "\<not> is_accepted h0" if "store_handoff s hid = Some h0" for h0
    using load_store_handoff [OF Step(1), of hid] assms(4) that
    by (auto simp: is_accepted_def split: option.splits)
  from assms(2) Step(4) have h: "store_handoff s' hid = Some h" by (simp add: handoff_in_def)
  with before assms(3) store_step_handoff [OF Step(2), of hid] obtain u where
    u: "submission_of E (cl_world q) (cl_payload q) (cl_workspace q) = Inr u" "h = new_handoff E q s u" by auto
  with assms(3) have none: "submission_failures E (cl_world q) u (cl_now q) (cl_admission q) s = []"
    by (simp add: new_handoff_def)
  then have "su_parse_failures u = []" and "evaluate_claims E (cl_world q) (su_workspace u) (su_from u)
      (admission_at (cl_now q) (cl_admission q)) (fetch_for s (su_from u)) (su_claims u) = []"
    by (simp_all add: submission_failures_def)
  with Step(1) u none submission_claims [OF u(1)] evaluate_claims_Nil show ?thesis
    by (intro exI [of _ s]) (simp add: new_handoff_def handoff_of_def)
qed

section \<open>Accepted handoffs stay\<close>

lemma store_step_keeps_accepted:
  assumes "store_step E q s out s'" and "store_handoff s hid = Some h" and "is_accepted h"
  shows "store_handoff s' hid = Some h"
  using store_step_handoff [OF assms(1), of hid] assms(2, 3) by auto

definition kept_handoff :: "stored_handoff \<Rightarrow> stored_handoff \<Rightarrow> bool" where
  "kept_handoff h h' \<longleftrightarrow> h'\<lparr>sh_claims := sh_claims h\<rparr> = h \<and>
     (reload_claims (sh_claims h) = Inr (sh_claims h) \<longrightarrow> h' = h)"

lemma kept_handoff_refl: "kept_handoff h h"
  by (simp add: kept_handoff_def)

lemma kept_handoff_reload:
  "kept_handoff h h' \<Longrightarrow> reload_claims (sh_claims h') = Inr cs \<Longrightarrow> kept_handoff h (h'\<lparr>sh_claims := cs\<rparr>)"
  by (auto simp: kept_handoff_def)

lemma kept_handoff_accepted: "kept_handoff h h' \<Longrightarrow> is_accepted h \<Longrightarrow> is_accepted h'"
  unfolding kept_handoff_def is_accepted_def
  by (metis stored_handoff.select_convs(6) stored_handoff.surjective stored_handoff.update_convs(5))

definition holds_accepted :: "rstr \<Rightarrow> stored_handoff \<Rightarrow> gate_store option \<Rightarrow> bool" where
  "holds_accepted hid h f \<longleftrightarrow> is_accepted h \<and> (\<exists>h'. handoff_in f hid = Some h' \<and> kept_handoff h h')"

interpretation accepted_handoff: ledger_invariant E "holds_accepted hid h" for E hid h
proof
  fix f io s
  assume "holds_accepted hid h f" and "load_store io f = Inr s"
  with load_store_handoff [of io f s hid] kept_handoff_reload [of h] show "holds_accepted hid h (Some s)"
    by (auto simp: holds_accepted_def handoff_in_def [of "Some s"])
next
  fix s q out s'
  assume "holds_accepted hid h (Some s)" and "store_step E q s out s'"
  with store_step_keeps_accepted [of E q s out s' hid] kept_handoff_accepted [of h]
  show "holds_accepted hid h (Some s')" by (auto simp: holds_accepted_def handoff_in_def)
qed

text \<open>An accepted handoff is never replaced: after any sequence of calls, with any failures, it is still
  there with its sender, receiver, workspace and acceptance time.  Its claims are unchanged too if reading
  them back from the file does not change them.\<close>

theorem accepted_handoff_is_final:
  assumes "handoff_in f hid = Some h" and "is_accepted h"
  shows "\<exists>h'. handoff_in (run_calls E qs f) hid = Some h' \<and> kept_handoff h h'"
  using assms accepted_handoff.holds_after [of hid h f E qs] by (simp add: holds_accepted_def kept_handoff_refl)

section \<open>Shared artifacts\<close>

lemma submit_on_artifacts: "submit_on E W u now ad s = Inr (r, s') \<Longrightarrow> gs_artifacts s' = gs_artifacts s"
  by (auto dest!: submit_on_effect dest: insert_handoff_effect(2))

lemma insert_artifact_get:
  "insert_artifact aid a s = Inr s' \<Longrightarrow> store_artifact s' k = (if k = aid then Some a else store_artifact s k)"
  by (auto simp: insert_artifact_def store_artifact_def bt_get_insert split: if_splits)

lemma saturating_succ_bounds: "g \<le> u64_max \<Longrightarrow> g \<le> saturating_succ g \<and> saturating_succ g \<le> u64_max"
  by (simp add: saturating_succ_def)

lemma write_shared_on_effect:
  assumes "write_shared_on E aid writer based_on content now s = Inr (r, s')"
  shows "(s' = s \<and> \<not> wr_accepted r) \<or>
    (\<exists>a. wr_accepted r \<and> insert_artifact aid a s = Inr s' \<and> sa_content a = content \<and> sa_last_writer a = writer \<and>
      (case store_artifact s aid of
         None \<Rightarrow> based_on = 0 \<and> sa_generation a = 1
       | Some old \<Rightarrow> based_on = sa_generation old \<and> map_option rm_generation (bt_get (sa_reads old) writer) = Some based_on \<and>
           sa_generation a = saturating_succ (sa_generation old)))"
  using assms
  by (auto simp: write_shared_on_def create_artifact_def Let_def result_accepted_def
      dest: result_pending_not_accepted split: option.splits if_splits)

lemma read_shared_on_effect:
  assumes "read_shared_on aid reader now s = Inr (r, s')" and "store_artifact s k = Some a"
  shows "\<exists>a'. store_artifact s' k = Some a' \<and> sa_generation a' = sa_generation a \<and> sa_content a' = sa_content a"
  using assms
  by (auto simp: read_shared_on_def refuse_missing_artifact_def Let_def store_artifact_def bt_get_insert
      split: option.splits)

lemma store_step_generation:
  assumes "store_step E q s out s'" and "store_artifact s k = Some a" and "sa_generation a \<le> u64_max"
  shows "\<exists>a'. store_artifact s' k = Some a' \<and> sa_generation a \<le> sa_generation a' \<and> sa_generation a' \<le> u64_max"
  using assms(1)
proof cases
  case (Fetch f)
  with assms show ?thesis by (auto simp: insert_fetch_def store_artifact_def Let_def split: if_splits)
next
  case (Submit u)
  with assms show ?thesis by (auto simp: store_artifact_def dest!: submit_on_artifacts)
next
  case View
  with assms show ?thesis by auto
next
  case (ReadShared aid reader)
  with assms read_shared_on_effect [of aid reader "cl_now q" s out s' k a] show ?thesis by auto
next
  case (WriteShared aid writer based_on content)
  from write_shared_on_effect [OF WriteShared(3)] assms(2, 3) saturating_succ_bounds [OF assms(3)] show ?thesis
    by (auto simp: insert_artifact_get)
qed

definition past_generation :: "rstr \<Rightarrow> nat \<Rightarrow> gate_store option \<Rightarrow> bool" where
  "past_generation aid g f \<longleftrightarrow> (\<exists>a. artifact_in f aid = Some a \<and> g \<le> sa_generation a \<and> sa_generation a \<le> u64_max)"

interpretation artifact_generation: ledger_invariant E "past_generation aid g" for E aid g
proof
  fix f io s
  assume "past_generation aid g f" and "load_store io f = Inr s"
  then show "past_generation aid g (Some s)"
    by (simp add: past_generation_def artifact_in_def [of "Some s"] load_store_artifact)
next
  fix s q out s'
  assume "past_generation aid g (Some s)" and "store_step E q s out s'"
  then show "past_generation aid g (Some s')"
    using store_step_generation [of E q s out s' aid] by (fastforce simp: past_generation_def artifact_in_def)
qed

lemma write_step:
  assumes "store_step E q s out s'" and "cl_action q = lit ''write_shared''"
  obtains aid writer based_on content where "write_request (cl_payload q) = Inr (aid, writer, based_on, content)"
    "write_shared_on E aid writer based_on content (cl_now q) s = Inr (out, s')"
  using assms(1)
  by cases (use assms(2) that in \<open>auto simp: lit_def\<close>)

text \<open>A write that is accepted replaces what its writer read: the writer's recorded read is of the current
  generation, the write names that generation, and the artifact moves to the next one with the new content.\<close>

lemma accepted_write_replaces_what_was_read:
  assumes "dispatch_for E q f = (Inr out, f')" and "cl_action q = lit ''write_shared''" and "wr_accepted out"
    and "write_request (cl_payload q) = Inr (aid, writer, based_on, content)" and "artifact_in f aid = Some a"
  shows "based_on = sa_generation a \<and> map_option rm_generation (bt_get (sa_reads a) writer) = Some (sa_generation a) \<and>
    (\<exists>a'. artifact_in f' aid = Some a' \<and> sa_content a' = content \<and> sa_last_writer a' = writer \<and>
      sa_generation a' = saturating_succ (sa_generation a))"
  using assms(1)
proof (cases rule: dispatch_cases)
  case Kept
  with assms(3) show ?thesis by auto
next
  case (Step s o' s')
  obtain "write_shared_on E aid writer based_on content (cl_now q) s = Inr (out, s')"
    using Step(2, 3) assms(2, 4) by (auto elim: write_step)
  from write_shared_on_effect [OF this] assms(3, 5) load_store_artifact [OF Step(1), of aid] Step(4) show ?thesis
    by (auto simp: artifact_in_def [of "Some s'"] insert_artifact_get)
qed

text \<open>C25: No update is lost: once an artifact has moved past a generation, a write based on that generation is
  refused after every later sequence of calls, and the refused write changes nothing of the artifact.\<close>

theorem stale_generation_never_writes:
  assumes "artifact_in f aid = Some a" and "sa_generation a \<le> u64_max" and "based_on < sa_generation a"
    and "cl_action q = lit ''write_shared''" and "write_request (cl_payload q) = Inr (aid, writer, based_on, content)"
    and "dispatch_for E q (run_calls E qs f) = (r, f')"
  shows "\<not> (\<exists>out. r = Inr out \<and> wr_accepted out) \<and> artifact_in f' aid = artifact_in (run_calls E qs f) aid"
proof -
  obtain a' where a': "artifact_in (run_calls E qs f) aid = Some a'" "sa_generation a \<le> sa_generation a'"
    using artifact_generation.holds_after [of aid "sa_generation a" f E qs] assms(1, 2)
    by (auto simp: past_generation_def)
  from assms(6) show ?thesis
  proof (cases rule: dispatch_cases)
    case (Step s out s')
    then have "write_shared_on E aid writer based_on content (cl_now q) s = Inr (out, s')"
      using assms(4, 5) by (auto elim: write_step)
    from write_shared_on_effect [OF this] have "s' = s \<and> \<not> wr_accepted out"
      using a' assms(3) load_store_artifact [OF Step(1), of aid] by auto
    with Step load_store_artifact [OF Step(1), of aid] show ?thesis by (simp add: artifact_in_def [of "Some s"])
  qed auto
qed

section \<open>Bounds\<close>

definition store_bounded :: "gate_store \<Rightarrow> bool" where
  "store_bounded s \<longleftrightarrow> gs_schema_version s = HANDOFF_SCHEMA_VERSION \<and>
     bt_wf (gs_fetches s) \<and> list_all (\<lambda>(k, m). bt_wf m) (gs_fetches s) \<and> fetch_total s \<le> 256 \<and>
     bt_wf (gs_handoffs s) \<and> length (gs_handoffs s) \<le> 256 \<and>
     bt_wf (gs_artifacts s) \<and> length (gs_artifacts s) \<le> 64 \<and>
     list_all (\<lambda>(k, a). byte_len (sa_content a) \<le> MAX_ARTIFACT_BYTES) (gs_artifacts s)"

lemma bt_wf_below: "bt_wf ((a, b) # m) \<Longrightarrow> k \<le> a \<Longrightarrow> map_of m k = None"
  by (auto simp: bt_wf_def map_of_eq_None_iff)

lemma bt_wf_tl: "bt_wf ((a, b) # m) \<Longrightarrow> bt_wf m"
  by (simp add: bt_wf_def)

lemma length_bt_insert: "bt_wf m \<Longrightarrow> length (bt_insert k v m) = (if bt_contains m k then length m else Suc (length m))"
proof (induction k v m rule: bt_insert.induct)
  case (2 k v a b m)
  from 2 bt_wf_below [OF 2(2), of k] bt_wf_tl [OF 2(2)] show ?case
    by (auto simp: bt_contains_def bt_get_def)
qed (simp add: bt_contains_def bt_get_def)

lemma list_all_bt_insert: "list_all P m \<Longrightarrow> P (k, v) \<Longrightarrow> list_all P (bt_insert k v m)"
  by (induction k v m rule: bt_insert.induct) auto

lemma sum_bt_insert:
  fixes g :: "'v \<Rightarrow> nat"
  assumes "bt_wf m"
  shows "sum_list (map g (bt_values (bt_insert k v m))) + (case bt_get m k of Some old \<Rightarrow> g old | None \<Rightarrow> 0) =
    sum_list (map g (bt_values m)) + g v"
  using assms
proof (induction k v m rule: bt_insert.induct)
  case (2 k v a b m)
  from 2 bt_wf_below [OF 2(2), of k] bt_wf_tl [OF 2(2)] show ?case by (auto simp: bt_values_def bt_get_def)
qed (simp add: bt_values_def bt_get_def)

lemma insert_fetch_bounded:
  assumes "store_bounded s" and "insert_fetch f s = Inr s'"
  shows "store_bounded s'"
proof -
  define by_url where "by_url = (case bt_get (gs_fetches s) (fr_sender f) of Some m \<Rightarrow> m | None \<Rightarrow> bt_empty)"
  from assms(2) have s': "s' = s\<lparr>gs_fetches := bt_insert (fr_sender f) (bt_insert (fr_url f) f by_url) (gs_fetches s)\<rparr>"
    and room: "fetch_total s < 256 \<or> bt_contains by_url (fr_url f)"
    by (auto simp: insert_fetch_def by_url_def Let_def store_fetch_def bt_contains_def split: if_splits option.splits)
  have wf: "bt_wf by_url"
    using assms(1) by (auto simp: by_url_def store_bounded_def list_all_iff bt_wf_get [symmetric] split: option.split)
  have "fetch_total s' + length by_url = fetch_total s + length (bt_insert (fr_url f) f by_url)"
    using sum_bt_insert [of "gs_fetches s" length "fr_sender f" "bt_insert (fr_url f) f by_url"] assms(1)
    by (auto simp: fetch_total_def s' by_url_def store_bounded_def bt_empty_def split: option.splits)
  with room length_bt_insert [OF wf, of "fr_url f" f] assms(1) have "fetch_total s' \<le> 256"
    by (auto simp: store_bounded_def split: if_splits)
  moreover have "fetch_total s' = fetch_total (s\<lparr>gs_fetches := gs_fetches s'\<rparr>)" by (simp add: fetch_total_def)
  ultimately show ?thesis using assms(1) wf
    by (auto simp: store_bounded_def s' bt_wf_insert intro!: list_all_bt_insert)
qed

lemma insert_handoff_bounded:
  "store_bounded s \<Longrightarrow> insert_handoff h s = Inr s' \<Longrightarrow> store_bounded s'"
  by (auto simp: store_bounded_def insert_handoff_def fetch_total_def bt_wf_insert length_bt_insert split: if_splits)

lemma insert_artifact_bounded:
  "store_bounded s \<Longrightarrow> insert_artifact aid a s = Inr s' \<Longrightarrow> store_bounded s'"
  by (auto simp: store_bounded_def insert_artifact_def fetch_total_def bt_wf_insert length_bt_insert
      intro!: list_all_bt_insert split: if_splits)

lemma read_shared_on_bounded:
  assumes "store_bounded s" and "read_shared_on aid reader now s = Inr (r, s')"
  shows "store_bounded s'"
proof (cases "store_artifact s aid")
  case None
  with assms show ?thesis by (auto simp: read_shared_on_def)
next
  case (Some a)
  with assms(1) have "byte_len (sa_content a) \<le> MAX_ARTIFACT_BYTES"
    by (auto simp: store_bounded_def list_all_iff store_artifact_def bt_wf_get [symmetric])
  with Some assms show ?thesis
    by (auto simp: store_bounded_def read_shared_on_def Let_def store_artifact_def fetch_total_def bt_wf_insert
        length_bt_insert bt_contains_def intro!: list_all_bt_insert)
qed

lemma store_step_bounded:
  assumes "store_step E q s out s'" and "store_bounded s"
  shows "store_bounded s'"
  using assms(1)
proof cases
  case (Submit u)
  with assms(2) show ?thesis by (auto dest!: submit_on_effect intro: insert_handoff_bounded)
next
  case (WriteShared aid writer based_on content)
  with assms(2) show ?thesis by (auto dest!: write_shared_on_effect intro: insert_artifact_bounded)
qed (use assms(2) in \<open>auto intro: insert_fetch_bounded read_shared_on_bounded\<close>)

lemma reload_handoffs_keys: "reload_handoffs hs = Inr hs' \<Longrightarrow> map fst hs' = map fst hs"
  by (induction hs arbitrary: hs') auto

lemma load_store_bounded:
  assumes "load_store io f = Inr s" and "\<And>stored. f = Some stored \<Longrightarrow> store_bounded stored"
  shows "store_bounded s"
proof (cases f)
  case None
  with assms(1) show ?thesis
    by (auto simp: load_store_def store_bounded_def default_store_def fetch_total_def bt_values_def bt_empty_def bt_wf_def)
next
  case (Some stored)
  note loaded = load_store_fields [OF assms(1) [unfolded Some]]
  from reload_handoffs_keys [OF loaded(3)] have "bt_wf (gs_handoffs s) = bt_wf (gs_handoffs stored)"
    "length (gs_handoffs s) = length (gs_handoffs stored)"
    by (metis bt_wf_def) (metis length_map reload_handoffs_keys [OF loaded(3)])
  moreover from loaded(4) have "gs_schema_version s = HANDOFF_SCHEMA_VERSION"
    by (auto simp: validate_store_def split: if_splits)
  ultimately show ?thesis using assms(2) [OF Some] loaded(1, 2) by (simp add: store_bounded_def fetch_total_def)
qed

interpretation bounded_ledger: ledger_invariant E "pred_option store_bounded" for E
  by unfold_locales (auto intro: load_store_bounded store_step_bounded)

text \<open>Whatever is called, the ledger never holds more than 256 fetches, 256 handoffs or 64 shared artifacts
  of at most 256 KiB, its maps stay ordered, and it is written as schema 3.\<close>

theorem handoff_ledger_stays_bounded:
  assumes "run_calls E qs None = Some s"
  shows "store_bounded s"
  using bounded_ledger.holds_after [of None E qs] assms by simp

section \<open>A ledger that cannot be read again\<close>

text \<open>Once a stored claim does not pass its own constructor, no call can load the ledger.\<close>

lemma unreadable_ledger_is_stuck:
  assumes "reload_handoffs (gs_handoffs s) = Inl e"
  shows "snd (dispatch_for E q (Some s)) = Some s \<and> \<not> (\<exists>out. fst (dispatch_for E q (Some s)) = Inr out \<and> wr_accepted out)"
proof -
  have "load_store io (Some s) \<noteq> Inr s'" for io s'
    using assms by (auto simp: load_store_def deserialize_store_def)
  then show ?thesis using dispatch_takes [of E q "Some s"] by (auto simp: call_takes_def)
qed

definition spoiling_source :: claim_source where
  "spoiling_source = FileSource (lit ''./ /.'')"

definition spoiling_env :: handoff_env where
  "spoiling_env = \<lparr>he_show_time = (\<lambda>_. []), he_parse_time = (\<lambda>_. None),
     he_raw_claim = (\<lambda>_. Inr (lit ''c'', lit ''s'', lit ''a'', spoiling_source))\<rparr>"

definition spoiling_call :: call where
  "spoiling_call = \<lparr>cl_action = lit ''submit'',
     cl_payload = JObject [(lit ''id'', JString (lit ''h'')), (lit ''from_agent'', JString (lit ''f'')),
       (lit ''to_agent'', JString (lit ''t'')),
       (lit ''claims'', JArray [JObject [(lit ''source'', JNull)]])],
     cl_now = 0, cl_workspace = Some (lit ''/w''), cl_admission = admission_direct,
     cl_world = \<lparr>hw_canonical = (\<lambda>_. None), hw_is_dir = (\<lambda>_. False), hw_is_file = (\<lambda>_. False),
       hw_exists = (\<lambda>_. False), hw_read = (\<lambda>_. Inl []), hw_git = (\<lambda>_ _. GitNotStarted [])\<rparr>,
     cl_io = \<lparr>hi_create_dir = Inr (), hi_lock = Inr (), hi_read = Inr (), hi_write = Inr ()\<rparr>\<rparr>"

lemma trim_char: "\<not> is_whitespace c \<Longrightarrow> trim [c] = [c]"
  by (simp add: trim_def)

lemmas spoiling_eval = Let_def lit_def trim_def is_whitespace_def byte_len_def utf8_def utf8_char_def
  ascii_alphanumeric_def is_ascii_letter_def is_ascii_digit_def ascii_uppercase_def

lemma spoiling_fields:
  "validate_id ''claim id'' (lit ''c'') = Inr (lit ''c'')" "validate_statement (lit ''s'') = Inr (lit ''s'')"
  "subject_parse (lit ''a'') = Inr (lit ''a'')"
  by (simp_all add: validate_id_def validate_statement_def subject_parse_def MAX_ID_LEN_def MAX_STATEMENT_BYTES_def
      MAX_SUBJECT_LEN_def spoiling_eval)

lemma spoiling_paths:
  "validate_relative_path ''file source'' (lit ''./ /.'') = Inr (lit '' '')"
  "validate_relative_path ''file source'' (lit '' '') = Inl (Invalid (lit ''file source must not be empty''))"
  by (simp_all add: validate_relative_path_def path_components_def path_is_absolute_def component_of_def spoiling_eval)

definition spoiling_submission :: submission where
  "spoiling_submission = \<lparr>su_id = lit ''h'', su_from = lit ''f'', su_to = lit ''t'', su_workspace = lit ''/w'',
     su_claims = [\<lparr>ch_id = lit ''c'', ch_statement = lit ''s'', ch_subject = lit ''a'', ch_source = FileSource (lit '' '')\<rparr>],
     su_parse_failures = []\<rparr>"

lemma spoiling_submits:
  "submission_of spoiling_env W (cl_payload spoiling_call) (Some (lit ''/w'')) = Inr spoiling_submission"
proof -
  have ids: "validate_id n (lit ''h'') = Inr (lit ''h'')" "validate_id n (lit ''f'') = Inr (lit ''f'')"
    "validate_id n (lit ''t'') = Inr (lit ''t'')" for n
    by (simp_all add: validate_id_def MAX_ID_LEN_def spoiling_eval)
  have strs: "require_str (cl_payload spoiling_call) ''id'' = Inr (lit ''h'')"
    "require_str (cl_payload spoiling_call) ''from_agent'' = Inr (lit ''f'')"
    "require_str (cl_payload spoiling_call) ''to_agent'' = Inr (lit ''t'')"
    by (simp_all add: require_str_def json_get_def json_str_def spoiling_call_def spoiling_eval)
  have "claim_from_value spoiling_env v = Inr (hd (su_claims spoiling_submission))" for v
    by (simp add: claim_from_value_def spoiling_env_def spoiling_source_def claim_try_new_def spoiling_fields
        spoiling_paths spoiling_submission_def)
  then have "parse_claims spoiling_env (json_get (cl_payload spoiling_call) ''claims'') (lit ''h'') =
      Inr (su_claims spoiling_submission, [])"
    by (simp add: parse_claims_def json_get_def spoiling_call_def parse_claim_def MAX_CLAIMS_def lit_def
        spoiling_submission_def)
  then show ?thesis by (simp add: submission_of_def strs ids spoiling_submission_def)
qed

lemma default_store_empty [simp]: "store_handoff default_store hid = None" "gs_handoffs default_store = []"
  by (simp_all add: store_handoff_def default_store_def bt_empty_def bt_get_def)

lemma first_submission_is_stored:
  "\<exists>out. submit_on E W u now ad default_store =
     Inr (out, default_store\<lparr>gs_handoffs :=
       [(su_id u, handoff_of u (submission_failures E W u now ad default_store) now ad)]\<rparr>)"
proof (cases "submission_failures E W u now ad default_store = []")
  case True
  then show ?thesis by (auto simp: submit_on_def submit_checked_def insert_handoff_def Let_def)
next
  case False
  then show ?thesis by (auto simp: submit_on_def submit_checked_def insert_handoff_def result_pending_def Let_def)
qed

lemma first_submission_dispatch:
  assumes "cl_action q = lit ''submit''" and "is_object (cl_payload q)"
    and "submission_of E (cl_world q) (cl_payload q) (cl_workspace q) = Inr u"
    and "cl_io q = \<lparr>hi_create_dir = Inr (), hi_lock = Inr (), hi_read = Inr (), hi_write = Inr ()\<rparr>"
  shows "\<exists>out. dispatch_for E q None =
    (Inr out, Some (default_store\<lparr>gs_handoffs := [(su_id u, new_handoff E q default_store u)]\<rparr>))"
proof -
  have "lit ''submit'' \<noteq> lit ''record_fetch''" by (simp add: lit_def)
  with assms first_submission_is_stored [of E "cl_world q" u "cl_now q" "cl_admission q"] show ?thesis
    by (auto simp: dispatch_for_def dispatch_action_def submit_def with_store_def load_store_def promote_request_def
        new_handoff_def Let_def)
qed


end
