(* ===== verification/Handoff_Example.thy ===== *)
theory Handoff_Example
  imports Handoff_Properties
begin

text \<open>
  The handoff properties at work: a report with one file claim that is accepted, and a shared artifact at
  its second generation.
\<close>

definition report_env :: handoff_env where
  "report_env = spoiling_env\<lparr>he_raw_claim := \<lambda>_. Inr (lit ''c'', lit ''s'', lit ''a'', FileSource (lit ''n''))\<rparr>"

definition report_call :: call where
  "report_call = spoiling_call\<lparr>cl_world := \<lparr>hw_canonical = Some, hw_is_dir = (\<lambda>_. True), hw_is_file = (\<lambda>_. True),
     hw_exists = (\<lambda>_. True), hw_read = (\<lambda>_. Inr (lit ''impulse-subject: a'')), hw_git = (\<lambda>_ _. GitNotStarted [])\<rparr>\<rparr>"

definition report_claim :: claim where
  "report_claim = \<lparr>ch_id = lit ''c'', ch_statement = lit ''s'', ch_subject = lit ''a'', ch_source = FileSource (lit ''n'')\<rparr>"

definition report_submission :: submission where
  "report_submission = spoiling_submission\<lparr>su_claims := [report_claim]\<rparr>"

lemma report_path: "validate_relative_path ''file source'' (lit ''n'') = Inr (lit ''n'')"
  by (simp add: validate_relative_path_def path_components_def path_is_absolute_def component_of_def spoiling_eval)

lemma report_claim_new: "claim_try_new (lit ''c'') (lit ''s'') (lit ''a'') (FileSource (lit ''n'')) = Inr report_claim"
  by (simp add: claim_try_new_def spoiling_fields report_path report_claim_def)

lemma report_submits:
  "submission_of report_env (cl_world report_call) (cl_payload report_call) (cl_workspace report_call) = Inr report_submission"
proof -
  let ?p = "cl_payload spoiling_call"
  have ids: "validate_id n (lit ''h'') = Inr (lit ''h'')" "validate_id n (lit ''f'') = Inr (lit ''f'')"
    "validate_id n (lit ''t'') = Inr (lit ''t'')" for n
    by (simp_all add: validate_id_def MAX_ID_LEN_def spoiling_eval)
  have strs: "require_str ?p ''id'' = Inr (lit ''h'')" "require_str ?p ''from_agent'' = Inr (lit ''f'')"
    "require_str ?p ''to_agent'' = Inr (lit ''t'')"
    by (simp_all add: require_str_def json_get_def json_str_def spoiling_call_def spoiling_eval)
  have "claim_from_value report_env v = Inr report_claim" for v
    by (simp add: claim_from_value_def report_env_def report_claim_new)
  then have "parse_claims report_env (json_get ?p ''claims'') (lit ''h'') = Inr ([report_claim], [])"
    by (simp add: parse_claims_def json_get_def spoiling_call_def parse_claim_def MAX_CLAIMS_def lit_def)
  moreover have "cl_payload report_call = ?p" "cl_workspace report_call = Some (lit ''/w'')"
    by (simp_all add: report_call_def spoiling_call_def)
  ultimately show ?thesis
    by (simp add: submission_of_def strs ids report_submission_def spoiling_submission_def)
qed

lemma report_subject: "recorded_subject_in_text (lit ''impulse-subject: a'') FILE_SUBJECT_PREFIX = Some (lit ''a'')"
  by (simp add: recorded_subject_in_text_def lines_of_def strip_prefix_def FILE_SUBJECT_PREFIX_def subject_parse_def
      MAX_SUBJECT_LEN_def spoiling_eval)

lemma report_read: "from_utf8 (take SUBJECT_SCAN_BYTES (lit ''impulse-subject: a'')) = Some (lit ''impulse-subject: a'')"
  by (simp add: SUBJECT_SCAN_BYTES_def lit_def)

lemma report_passes:
  "submission_failures report_env (cl_world report_call) report_submission now ad s = []"
proof -
  have "path_starts_with (path_join (lit ''/w'') (lit ''n'')) (lit ''/w'')"
    by (simp add: path_starts_with_def path_join_def path_is_absolute_def path_components_def component_of_def lit_def)
  then have "evaluate_file (cl_world report_call) report_claim (lit ''/w'') (lit ''n'') = None"
    by (simp add: evaluate_file_def canonicalize_dir_def report_call_def read_recorded_subject_def report_read
        report_subject report_claim_def Let_def)
  then show ?thesis
    by (simp add: submission_failures_def evaluate_claims_def evaluate_claim_def report_submission_def
        spoiling_submission_def report_claim_def List.map_filter_simps)
qed

definition reported_handoff :: stored_handoff where
  "reported_handoff = new_handoff report_env report_call default_store report_submission"

definition reported :: gate_store where
  "reported = default_store\<lparr>gs_handoffs := [(lit ''h'', reported_handoff)]\<rparr>"

lemma report_dispatch:
  obtains out where "dispatch_for report_env report_call None = (Inr out, Some reported)"
proof -
  have "cl_action report_call = lit ''submit''" "is_object (cl_payload report_call)"
    "cl_io report_call = \<lparr>hi_create_dir = Inr (), hi_lock = Inr (), hi_read = Inr (), hi_write = Inr ()\<rparr>"
    "su_id report_submission = lit ''h''"
    by (simp_all add: report_call_def spoiling_call_def is_object_def report_submission_def spoiling_submission_def)
  with first_submission_dispatch [of report_call report_env report_submission] report_submits that show thesis
    by (auto simp: reported_def reported_handoff_def)
qed

lemma reported_facts:
  "handoff_in (Some reported) (lit ''h'') = Some reported_handoff" "is_accepted reported_handoff"
  by (simp_all add: handoff_in_def store_handoff_def bt_get_def reported_def reported_handoff_def new_handoff_def
      report_passes)

theorem accepted_handoff_is_evidenced_witness:
  "\<exists>s. load_store (cl_io report_call) None = Inr s \<and> sh_claims reported_handoff \<noteq> [] \<and>
     list_all (evidenced (cl_world report_call) (sh_workspace reported_handoff) (sh_from_agent reported_handoff)
       (admission_at (cl_now report_call) (cl_admission report_call)) (fetch_for s (sh_from_agent reported_handoff)))
       (sh_claims reported_handoff)"
proof -
  obtain out where out: "dispatch_for report_env report_call None = (Inr out, Some reported)" by (rule report_dispatch)
  from accepted_handoff_is_evidenced [OF out reported_facts] show ?thesis by (auto simp: handoff_in_def)
qed

theorem accepted_handoff_is_final_witness:
  "\<exists>h'. handoff_in (run_calls spoiling_env [spoiling_call, report_call] (Some reported)) (lit ''h'') = Some h' \<and>
     kept_handoff reported_handoff h'"
  by (rule accepted_handoff_is_final [OF reported_facts])

theorem handoff_ledger_stays_bounded_witness:
  "run_calls report_env [report_call] None = Some reported \<and> store_bounded reported"
proof -
  obtain out where "dispatch_for report_env report_call None = (Inr out, Some reported)" by (rule report_dispatch)
  then have "run_calls report_env [report_call] None = Some reported" by simp
  with handoff_ledger_stays_bounded [OF this] show ?thesis by blast
qed

section \<open>A stale write\<close>

definition plan_artifact :: shared_artifact where
  "plan_artifact = \<lparr>sa_generation = 2, sa_content = lit ''two'', sa_last_writer = lit ''a'', sa_last_written_at = 0,
     sa_reads = []\<rparr>"

definition plan_store :: gate_store where
  "plan_store = default_store\<lparr>gs_artifacts := [(lit ''n'', plan_artifact)]\<rparr>"

definition stale_call :: call where
  "stale_call = spoiling_call\<lparr>cl_action := lit ''write_shared'',
     cl_payload := JObject [(lit ''artifact_id'', JString (lit ''n'')), (lit ''writer'', JString (lit ''f'')),
       (lit ''based_on_generation'', JNumber (lit ''1'')), (lit ''content'', JString (lit ''mine''))]\<rparr>"

lemma stale_request: "write_request (cl_payload stale_call) = Inr (lit ''n'', lit ''f'', 1, lit ''mine'')"
proof -
  have "validate_relative_path ''artifact_id'' (lit ''n'') = Inr (lit ''n'')"
    "validate_id ''writer'' (lit ''f'') = Inr (lit ''f'')"
    by (simp_all add: validate_relative_path_def path_components_def path_is_absolute_def component_of_def
        validate_id_def MAX_ID_LEN_def spoiling_eval)
  then show ?thesis
    by (simp add: write_request_def stale_call_def require_str_def require_u64_def json_get_def json_str_def json_u64_def
        ok_or_def digits_value_def u64_max_def spoiling_eval)
qed

theorem stale_generation_never_writes_witness:
  "\<not> (\<exists>out. fst (dispatch_for spoiling_env stale_call (Some plan_store)) = Inr out \<and> wr_accepted out) \<and>
   artifact_in (snd (dispatch_for spoiling_env stale_call (Some plan_store))) (lit ''n'') = Some plan_artifact"
proof -
  have held: "artifact_in (Some plan_store) (lit ''n'') = Some plan_artifact"
    by (simp add: artifact_in_def store_artifact_def plan_store_def bt_get_def)
  have "sa_generation plan_artifact \<le> u64_max" "1 < sa_generation plan_artifact"
    "cl_action stale_call = lit ''write_shared''"
    by (simp_all add: plan_artifact_def u64_max_def stale_call_def)
  from stale_generation_never_writes [OF held this stale_request, of spoiling_env "[]"
      "fst (dispatch_for spoiling_env stale_call (Some plan_store))" "snd (dispatch_for spoiling_env stale_call (Some plan_store))"]
    held show ?thesis by simp
qed

end
