(* ===== verification/Delegation_Tracker.thy ===== *)
theory Delegation_Tracker
  imports Loop_Contract "HOL-Library.Product_Lexorder" "HOL-Library.Option_ord"
begin

text \<open>
  The delegation tracker of the daemon (\<open>delegation/types.rs\<close>, \<open>delegation/tracker.rs\<close>,
  \<open>delegation/detector.rs\<close>) and the daemon endpoint over it (\<open>handle_delegation_request\<close> of
  \<open>daemon/handlers.rs\<close>).  A coordinator registers work it hands to a worker; the worker completes or
  fails it once.  The tracker is bounded: a full one makes room by dropping finished or abandoned work.

  Times are nanoseconds.  The hash map is an association list; the order in which it is iterated is
  arbitrary in the source, so every operation that iterates takes the order as an argument.  The
  rendering of times (chrono), \<open>serde_json\<close> on a specification and Unicode lower case are parameters.
\<close>

section \<open>Limits\<close>

definition MAX_DELEGATION_DEPTH :: nat where
  "MAX_DELEGATION_DEPTH = 2"

definition MAX_TRACKED_DELEGATIONS :: nat where
  "MAX_TRACKED_DELEGATIONS = 256"

definition MAX_CONTEXT_SNAPSHOT_BYTES :: nat where
  "MAX_CONTEXT_SNAPSHOT_BYTES = 64 * 1024"

definition MAX_DELEGATION_TEXT_BYTES :: nat where
  "MAX_DELEGATION_TEXT_BYTES = 256 * 1024"

definition DELEGATION_ITEM_BYTES :: nat where
  "DELEGATION_ITEM_BYTES = 64"

definition DELEGATION_TRACE_RECORD_BYTES :: nat where
  "DELEGATION_TRACE_RECORD_BYTES = 128"

definition STALE_DELEGATION_SECS :: int where
  "STALE_DELEGATION_SECS = 60 * 60"

section \<open>Data\<close>

datatype delegation_error =
    DepthExceeded nat
  | TrackerFull nat
  | DelegationTooLarge string nat nat
  | DelegationNotFound rstr
  | AlreadyFinished rstr string

fun show_delegation_error :: "delegation_error \<Rightarrow> rstr" where
  "show_delegation_error (DepthExceeded m) =
     lit ''delegation rejected: max depth ('' @ dec m @ lit '') would be exceeded''"
| "show_delegation_error (TrackerFull limit) =
     lit ''delegation rejected: all '' @ dec limit @ lit '' tracked delegations are still active''"
| "show_delegation_error (DelegationTooLarge part bytes limit) =
     lit ''delegation '' @ lit part @ lit '' refused: it weighs '' @ dec bytes @
     lit '' (its text plus a fixed cost per list entry), over the '' @ dec limit @ lit '' limit''"
| "show_delegation_error (DelegationNotFound i) = lit ''delegation not found: '' @ i"
| "show_delegation_error (AlreadyFinished i s) =
     lit ''delegation '' @ i @ lit '' is already '' @ lit s"

record delegation_spec =
  ds_task :: rstr
  ds_target_files :: "rstr list"
  ds_constraints :: "rstr option"
  ds_max_depth :: nat
  ds_restricted_tools :: "rstr list"

record tool_invocation =
  ti_kind :: rstr
  ti_target :: rstr
  ti_timestamp :: "rstr option"

record diff_summary =
  df_files_changed :: nat
  df_lines_added :: nat
  df_lines_removed :: nat

datatype agent_role = Coordinator | Worker nat

datatype delegation_state =
    DelegationPending
  | DelegationInProgress
  | DelegationCompleted rstr "tool_invocation list" "diff_summary option"
  | DelegationFailed rstr

fun state_as_str :: "delegation_state \<Rightarrow> string" where
  "state_as_str DelegationPending = ''pending''"
| "state_as_str DelegationInProgress = ''in_progress''"
| "state_as_str (DelegationCompleted _ _ _) = ''completed''"
| "state_as_str (DelegationFailed _) = ''failed''"

record tracked_delegation =
  td_id :: rstr
  td_coordinator_pane_id :: nat
  td_worker_pane_id :: "nat option"
  td_coordinator_role :: agent_role
  td_spec :: delegation_spec
  td_state :: delegation_state
  td_created_at :: int
  td_completed_at :: "int option"
  td_context_snapshot :: rstr
  td_depth :: nat

definition delegation_active :: "tracked_delegation \<Rightarrow> bool" where
  "delegation_active d =
     (case td_state d of DelegationPending \<Rightarrow> True | DelegationInProgress \<Rightarrow> True | _ \<Rightarrow> False)"

definition delegation_finished :: "tracked_delegation \<Rightarrow> bool" where
  "delegation_finished d =
     (case td_state d of DelegationCompleted _ _ _ \<Rightarrow> True | DelegationFailed _ \<Rightarrow> True | _ \<Rightarrow> False)"

record tracker =
  tk_delegations :: "(rstr \<times> tracked_delegation) list"
  tk_next_id :: nat

definition new_tracker :: tracker where
  "new_tracker = \<lparr>tk_delegations = [], tk_next_id = 1\<rparr>"

section \<open>The hash map and the clock\<close>

definition hm_insert :: "'k \<Rightarrow> 'v \<Rightarrow> ('k \<times> 'v) list \<Rightarrow> ('k \<times> 'v) list" where
  "hm_insert k v m = (k, v) # filter (\<lambda>e. fst e \<noteq> k) m"

definition hm_remove :: "'k \<Rightarrow> ('k \<times> 'v) list \<Rightarrow> ('k \<times> 'v) list" where
  "hm_remove k m = filter (\<lambda>e. fst e \<noteq> k) m"

text \<open>Iteration in the order of \<open>ord\<close>: an entry comes at the position of its key there.\<close>

definition hm_values :: "'k list \<Rightarrow> ('k \<times> 'v) list \<Rightarrow> 'v list" where
  "hm_values ord m = map snd (sort_key (\<lambda>e. length (takeWhile (\<lambda>k. k \<noteq> fst e) ord)) m)"

text \<open>What one call sees of its surroundings: the iteration order and the two clock readings (the
  scan for stale work and the time stamp).\<close>

record tracker_io =
  to_order :: "rstr list"
  to_scan :: int
  to_now :: int

text \<open>\<open>TimeDelta::num_seconds\<close> rounds toward zero.\<close>

definition whole_seconds :: "int \<Rightarrow> int" where
  "whole_seconds ns = (if ns < 0 then - ((- ns) div 1000000000) else ns div 1000000000)"

text \<open>\<open>Iterator::min_by_key\<close>: the first element with the least key.\<close>

fun min_by_key :: "('a \<Rightarrow> 'k::linorder) \<Rightarrow> 'a list \<Rightarrow> 'a option" where
  "min_by_key key [] = None"
| "min_by_key key (x # xs) =
     (case min_by_key key xs of
        None \<Rightarrow> Some x
      | Some y \<Rightarrow> if key x \<le> key y then Some x else Some y)"

text \<open>\<open>truncate\<close> at \<open>floor_char_boundary\<close>: the longest prefix of whole characters within the bytes.\<close>

fun truncate_bytes :: "nat \<Rightarrow> rstr \<Rightarrow> rstr" where
  "truncate_bytes n [] = []"
| "truncate_bytes n (c # cs) =
     (if length (utf8_char c) \<le> n then c # truncate_bytes (n - length (utf8_char c)) cs else [])"

section \<open>Weights\<close>

definition list_bytes :: "rstr list \<Rightarrow> nat" where
  "list_bytes xs = foldl saturating_add_u64 0
     (map (\<lambda>item. saturating_add_u64 (byte_len item) DELEGATION_ITEM_BYTES) xs)"

definition spec_bytes :: "delegation_spec \<Rightarrow> nat" where
  "spec_bytes s = foldl saturating_add_u64 0
     [byte_len (ds_task s), case ds_constraints s of None \<Rightarrow> 0 | Some c \<Rightarrow> byte_len c,
      list_bytes (ds_target_files s), list_bytes (ds_restricted_tools s)]"

definition trace_record_bytes :: "tool_invocation \<Rightarrow> nat" where
  "trace_record_bytes t = foldl saturating_add_u64 0
     [DELEGATION_TRACE_RECORD_BYTES, byte_len (ti_kind t), byte_len (ti_target t),
      case ti_timestamp t of None \<Rightarrow> 0 | Some ts \<Rightarrow> byte_len ts]"

definition completion_bytes :: "rstr \<Rightarrow> tool_invocation list \<Rightarrow> nat" where
  "completion_bytes summary trace = foldl saturating_add_u64 (byte_len summary) (map trace_record_bytes trace)"

definition check_size :: "string \<Rightarrow> nat \<Rightarrow> delegation_error + unit" where
  "check_size part bytes =
     ensure (\<not> MAX_DELEGATION_TEXT_BYTES < bytes) (DelegationTooLarge part bytes MAX_DELEGATION_TEXT_BYTES)"

section \<open>Operations\<close>

definition stale_active :: "rstr list \<Rightarrow> int \<Rightarrow> int \<Rightarrow> tracker \<Rightarrow> tracked_delegation list" where
  "stale_active ord now max_age_secs s =
     sort_key td_created_at
       (filter (\<lambda>d. delegation_active d \<and> whole_seconds (now - td_created_at d) \<ge> max_age_secs)
         (hm_values ord (tk_delegations s)))"

definition remove_chosen :: "tracked_delegation option \<Rightarrow> tracker \<Rightarrow> tracker option" where
  "remove_chosen oldest s =
     (case oldest of
        Some d \<Rightarrow> (case map_of (tk_delegations s) (td_id d) of
            Some _ \<Rightarrow> Some (s\<lparr>tk_delegations := hm_remove (td_id d) (tk_delegations s)\<rparr>)
          | None \<Rightarrow> None)
      | None \<Rightarrow> None)"

definition drop_oldest_finished :: "rstr list \<Rightarrow> tracker \<Rightarrow> tracker option" where
  "drop_oldest_finished ord s =
     remove_chosen (min_by_key (\<lambda>d. (td_completed_at d, td_created_at d, td_id d))
       (filter delegation_finished (hm_values ord (tk_delegations s)))) s"

definition drop_oldest_stale :: "rstr list \<Rightarrow> int \<Rightarrow> tracker \<Rightarrow> tracker option" where
  "drop_oldest_stale ord now s =
     remove_chosen (case stale_active ord now STALE_DELEGATION_SECS s of [] \<Rightarrow> None | d # _ \<Rightarrow> Some d) s"

definition make_room :: "tracker_io \<Rightarrow> tracker \<Rightarrow> delegation_error + tracker" where
  "make_room io s =
     (if MAX_TRACKED_DELEGATIONS \<le> length (tk_delegations s)
      then case drop_oldest_finished (to_order io) s of
             Some s' \<Rightarrow> Inr s'
           | None \<Rightarrow> (case drop_oldest_stale (to_order io) (to_scan io) s of
               Some s' \<Rightarrow> Inr s'
             | None \<Rightarrow> Inl (TrackerFull MAX_TRACKED_DELEGATIONS))
      else Inr s)"

definition delegation_id :: "nat \<Rightarrow> rstr" where
  "delegation_id n = lit ''del-'' @ dec n"

text \<open>The counter is a \<open>u64\<close>; the release profile does not check overflow, so it wraps.\<close>

definition register ::
    "tracker_io \<Rightarrow> delegation_spec \<Rightarrow> nat \<Rightarrow> rstr \<Rightarrow> nat \<Rightarrow> tracker \<Rightarrow> delegation_error + (rstr \<times> tracker)" where
  "register io spec pane snapshot current_depth s =
     (if MAX_DELEGATION_DEPTH \<le> current_depth then Inl (DepthExceeded MAX_DELEGATION_DEPTH)
      else and_then (check_size ''spec'' (spec_bytes spec)) (\<lambda>_.
        and_then (make_room io s) (\<lambda>s.
          let kept = (if MAX_CONTEXT_SNAPSHOT_BYTES < byte_len snapshot
                      then truncate_bytes MAX_CONTEXT_SNAPSHOT_BYTES snapshot else snapshot);
              i = delegation_id (tk_next_id s);
              d = \<lparr>td_id = i, td_coordinator_pane_id = pane, td_worker_pane_id = None,
                   td_coordinator_role = Coordinator, td_spec = spec, td_state = DelegationPending,
                   td_created_at = to_now io, td_completed_at = None, td_context_snapshot = kept,
                   td_depth = current_depth\<rparr>
          in Inr (i, \<lparr>tk_delegations = hm_insert i d (tk_delegations s),
                      tk_next_id = (tk_next_id s + 1) mod 2 ^ 64\<rparr>))))"

definition active_delegation :: "tracker \<Rightarrow> rstr \<Rightarrow> delegation_error + tracked_delegation" where
  "active_delegation s i =
     and_then (ok_or (map_of (tk_delegations s) i) (DelegationNotFound i)) (\<lambda>d.
       if delegation_finished d then Inl (AlreadyFinished i (state_as_str (td_state d))) else Inr d)"

definition put_delegation :: "rstr \<Rightarrow> tracked_delegation \<Rightarrow> tracker \<Rightarrow> tracker" where
  "put_delegation i d s = s\<lparr>tk_delegations := map (\<lambda>(k, v). (k, if k = i then d else v)) (tk_delegations s)\<rparr>"

definition assign_worker :: "rstr \<Rightarrow> nat \<Rightarrow> tracker \<Rightarrow> delegation_error + tracker" where
  "assign_worker i pane s =
     and_then (active_delegation s i) (\<lambda>d.
       Inr (put_delegation i (d\<lparr>td_worker_pane_id := Some pane, td_state := DelegationInProgress\<rparr>) s))"

definition complete ::
    "int \<Rightarrow> rstr \<Rightarrow> rstr \<Rightarrow> tool_invocation list \<Rightarrow> diff_summary option \<Rightarrow> tracker \<Rightarrow> delegation_error + tracker" where
  "complete now i summary trace diff s =
     and_then (active_delegation s i) (\<lambda>d.
       and_then (check_size ''completion'' (completion_bytes summary trace)) (\<lambda>_.
         Inr (put_delegation i
           (d\<lparr>td_state := DelegationCompleted summary trace diff, td_completed_at := Some now\<rparr>) s)))"

definition fail_delegation :: "int \<Rightarrow> rstr \<Rightarrow> rstr \<Rightarrow> tracker \<Rightarrow> delegation_error + tracker" where
  "fail_delegation now i error s =
     and_then (active_delegation s i) (\<lambda>d.
       and_then (check_size ''failure message'' (byte_len error)) (\<lambda>_.
         Inr (put_delegation i (d\<lparr>td_state := DelegationFailed error, td_completed_at := Some now\<rparr>) s)))"

definition prune_completed :: "int \<Rightarrow> int \<Rightarrow> tracker \<Rightarrow> tracker" where
  "prune_completed now max_age_secs s =
     s\<lparr>tk_delegations := filter (\<lambda>(_, d).
         case td_completed_at d of
           Some c \<Rightarrow> whole_seconds (now - c) < max_age_secs
         | None \<Rightarrow> True) (tk_delegations s)\<rparr>"

section \<open>Queries\<close>

definition nl :: rstr where
  "nl = [10]"

definition build_handoff_prompt :: "tracker \<Rightarrow> rstr \<Rightarrow> rstr option" where
  "build_handoff_prompt s i =
     (case map_of (tk_delegations s) i of
        None \<Rightarrow> None
      | Some d \<Rightarrow> (case td_state d of
          DelegationCompleted summary trace diff \<Rightarrow> Some (
            lit ''## Delegation Complete'' @ nl @ nl @
            lit ''**Task**: '' @ ds_task (td_spec d) @ nl @
            lit ''**Status**: completed'' @ nl @
            (if ds_target_files (td_spec d) = [] then []
             else lit ''**Files**: '' @ join (lit '', '') (ds_target_files (td_spec d)) @ nl) @
            nl @ lit ''### Summary'' @ nl @ summary @ nl @
            (if trace = [] then []
             else nl @ lit ''### Tool Trace'' @ nl @
               concat (map (\<lambda>t. lit ''- '' @ ti_kind t @ lit '' '' @ [8594] @ lit '' '' @ ti_target t @ nl) trace)) @
            (case diff of
               None \<Rightarrow> []
             | Some f \<Rightarrow> nl @ lit ''### Diff Summary'' @ nl @ dec (df_files_changed f) @ lit '' files changed, +'' @
                 dec (df_lines_added f) @ lit '' -'' @ dec (df_lines_removed f) @ nl))
        | DelegationFailed error \<Rightarrow> Some (
            lit ''## Delegation Failed'' @ nl @ nl @ lit ''**Task**: '' @ ds_task (td_spec d) @ nl @
            lit ''**Error**: '' @ error @ nl)
        | _ \<Rightarrow> None))"

definition active_for_pane :: "rstr list \<Rightarrow> nat \<Rightarrow> tracker \<Rightarrow> tracked_delegation list" where
  "active_for_pane ord pane s =
     filter (\<lambda>d. delegation_active d \<and> (td_coordinator_pane_id d = pane \<or> td_worker_pane_id d = Some pane))
       (hm_values ord (tk_delegations s))"

definition pending_delegations :: "rstr list \<Rightarrow> tracker \<Rightarrow> tracked_delegation list" where
  "pending_delegations ord s =
     filter (\<lambda>d. td_state d = DelegationPending) (hm_values ord (tk_delegations s))"

definition completed_delegations :: "rstr list \<Rightarrow> tracker \<Rightarrow> tracked_delegation list" where
  "completed_delegations ord s = filter delegation_finished (hm_values ord (tk_delegations s))"

record delegation_summary =
  sm_id :: rstr
  sm_task :: rstr
  sm_state :: string
  sm_coordinator_pane_id :: nat
  sm_worker_pane_id :: "nat option"
  sm_created_at :: rstr
  sm_completed_at :: "rstr option"
  sm_tool_invocations :: "tool_invocation list"
  sm_diff_summary :: "diff_summary option"

definition summary_of :: "(int \<Rightarrow> rstr) \<Rightarrow> tracked_delegation \<Rightarrow> delegation_summary" where
  "summary_of rfc3339 d =
     (let (trace, diff) = (case td_state d of DelegationCompleted _ trace diff \<Rightarrow> (trace, diff) | _ \<Rightarrow> ([], None))
      in \<lparr>sm_id = td_id d, sm_task = ds_task (td_spec d), sm_state = state_as_str (td_state d),
          sm_coordinator_pane_id = td_coordinator_pane_id d, sm_worker_pane_id = td_worker_pane_id d,
          sm_created_at = rfc3339 (td_created_at d), sm_completed_at = map_option rfc3339 (td_completed_at d),
          sm_tool_invocations = trace, sm_diff_summary = diff\<rparr>)"

definition to_summaries :: "(int \<Rightarrow> rstr) \<Rightarrow> rstr list \<Rightarrow> tracker \<Rightarrow> delegation_summary list" where
  "to_summaries rfc3339 ord s = map (summary_of rfc3339) (hm_values ord (tk_delegations s))"

section \<open>The daemon endpoint\<close>

datatype delegation_request =
    RegisterDelegation delegation_spec nat rstr
  | CompleteDelegation rstr rstr "tool_invocation list" "diff_summary option"
  | ListDelegations

datatype delegation_reply =
    DelegationRegistered rstr
  | DelegationDone "rstr option"
  | DelegationList "delegation_summary list"
  | DelegationRefused rstr

definition handle_delegation_request ::
    "(int \<Rightarrow> rstr) \<Rightarrow> tracker_io \<Rightarrow> delegation_request \<Rightarrow> tracker \<Rightarrow> delegation_reply \<times> tracker" where
  "handle_delegation_request rfc3339 io request s =
     (case request of
        RegisterDelegation spec pane snapshot \<Rightarrow>
          (case register io spec pane snapshot 0 s of
             Inr (i, s') \<Rightarrow> (DelegationRegistered i, s')
           | Inl e \<Rightarrow> (DelegationRefused (show_delegation_error e), s))
      | CompleteDelegation i summary trace diff \<Rightarrow>
          (case complete (to_now io) i summary trace diff s of
             Inr s' \<Rightarrow> (DelegationDone (build_handoff_prompt s' i), s')
           | Inl e \<Rightarrow> (DelegationRefused (show_delegation_error e), s))
      | ListDelegations \<Rightarrow> (DelegationList (to_summaries rfc3339 (to_order io) s), s))"

section \<open>Detection in agent output\<close>

definition delegate_fence :: rstr where
  "delegate_fence = lit ''```delegate''"

fun delegate_lines :: "(rstr \<Rightarrow> delegation_spec option) \<Rightarrow> rstr option \<Rightarrow> rstr list \<Rightarrow> delegation_spec option" where
  "delegate_lines from_json block [] = None"
| "delegate_lines from_json block (l # ls) =
     (let trimmed = trim l in
      if strip_prefix delegate_fence trimmed \<noteq> None then delegate_lines from_json (Some []) ls
      else case block of
        Some content \<Rightarrow>
          if trimmed = lit ''```'' then from_json content
          else delegate_lines from_json (Some (content @ trimmed @ nl)) ls
      | None \<Rightarrow> delegate_lines from_json None ls)"

definition detect_delegation :: "(rstr \<Rightarrow> delegation_spec option) \<Rightarrow> rstr \<Rightarrow> delegation_spec option" where
  "detect_delegation from_json content = delegate_lines from_json None (lines_of content)"

fun contains_text :: "rstr \<Rightarrow> rstr \<Rightarrow> bool" where
  "contains_text p [] = (p = [])"
| "contains_text p (c # cs) = (strip_prefix p (c # cs) \<noteq> None \<or> contains_text p cs)"

definition natural_patterns :: "rstr list" where
  "natural_patterns = [lit ''i'' @ [39] @ lit ''ll delegate'', lit ''delegating to'', lit ''hand off to'',
     lit ''handing off to'', lit ''spawning worker'', lit ''spawn a worker'', lit ''assigning to worker'']"

definition detect_delegation_natural :: "(rstr \<Rightarrow> rstr) \<Rightarrow> rstr \<Rightarrow> rstr option" where
  "detect_delegation_natural to_lowercase line =
     (if list_ex (\<lambda>p. contains_text p (to_lowercase line)) natural_patterns then Some (trim line) else None)"

end
