(* ===== verification/Delegation_Machine.thy ===== *)
theory Delegation_Machine
  imports Delegation_Tracker
begin

text \<open>
  The delegation tracker under any sequence of calls: it stays bounded and well formed, a result that
  was handed over is final, an identifier is never reused, and making room touches no work that is
  running.  A machine whose counter stays below its width is the locale \<open>counted_machine\<close>.
\<close>

section \<open>The hash map\<close>

lemma map_of_hm [simp]:
  "map_of (hm_insert k v m) = (map_of m)(k \<mapsto> v)" "map_of (hm_remove k m) = (map_of m)(k := None)"
proof -
  have removed: "map_of (filter (\<lambda>e. fst e \<noteq> k) m) = (map_of m)(k := None)"
    by (induction m) (auto simp: fun_eq_iff)
  then show "map_of (hm_insert k v m) = (map_of m)(k \<mapsto> v)" "map_of (hm_remove k m) = (map_of m)(k := None)"
    by (simp_all add: hm_insert_def hm_remove_def)
qed

lemma hm_distinct [simp, intro]:
  assumes "distinct (map fst m)"
  shows "distinct (map fst (filter P m))" "distinct (map fst (hm_insert k v m))" "distinct (map fst (hm_remove k m))"
  using assms by (auto simp: hm_insert_def hm_remove_def distinct_map inj_on_def)

lemma hm_values_set [simp]: "set (hm_values ord m) = snd ` set m"
  by (simp add: hm_values_def)

lemma hm_values_length [simp]: "length (hm_values ord m) = length m"
  by (simp add: hm_values_def)

lemma hm_remove_length:
  assumes "map_of m k = Some v"
  shows "length (hm_remove k m) < length m"
proof -
  have "(k, v) \<in> set m" using assms by (rule map_of_SomeD)
  then show ?thesis unfolding hm_remove_def by (intro length_filter_less) auto
qed

lemma map_of_put [simp]:
  "map_of (tk_delegations (put_delegation i d s)) =
     (if map_of (tk_delegations s) i = None then map_of (tk_delegations s) else (map_of (tk_delegations s))(i \<mapsto> d))"
proof -
  have "map_of (map (\<lambda>(k, v). (k, if k = i then d else v)) m) =
      (if map_of m i = None then map_of m else (map_of m)(i \<mapsto> d))" for m :: "(rstr \<times> tracked_delegation) list"
    by (induction m) (auto simp: fun_eq_iff)
  then show ?thesis by (simp add: put_delegation_def)
qed

lemma put_shape [simp]:
  "map fst (tk_delegations (put_delegation i d s)) = map fst (tk_delegations s)"
  "length (tk_delegations (put_delegation i d s)) = length (tk_delegations s)"
  "tk_next_id (put_delegation i d s) = tk_next_id s"
  by (simp_all add: put_delegation_def case_prod_beta comp_def)

lemma min_by_key_None [simp]: "min_by_key key xs = None \<longleftrightarrow> xs = []"
  by (cases xs) (auto split: option.splits)

lemma min_by_key_Some:
  "min_by_key key xs = Some x \<Longrightarrow> x \<in> set xs \<and> (\<forall>y \<in> set xs. key x \<le> key y)"
  by (induction xs arbitrary: x) (auto split: option.splits if_splits)

lemma sort_key_head:
  "sort_key key xs = x # ys \<Longrightarrow> x \<in> set xs \<and> (\<forall>y \<in> set xs. key x \<le> key y)"
proof -
  assume sorted_list: "sort_key key xs = x # ys"
  then have "set xs = insert x (set ys)" by (metis list.simps(15) set_sort)
  moreover have "sorted (map key (x # ys))" by (metis sorted_list sorted_sort_key)
  ultimately show ?thesis by auto
qed

lemma truncate_bytes_le: "byte_len (truncate_bytes n s) \<le> n"
  by (induction n s rule: truncate_bytes.induct) (auto simp: byte_len_def utf8_def)

lemma truncate_bytes_prefix: "prefix (truncate_bytes n s) s"
  by (induction n s rule: truncate_bytes.induct) auto

section \<open>Fresh identifiers\<close>

lemma delegation_id_eq [simp]: "delegation_id m = delegation_id n \<longleftrightarrow> m = n"
  unfolding delegation_id_def by (metis dec_value same_append_eq)

section \<open>Making room\<close>

lemma remove_chosen_Some:
  assumes "remove_chosen oldest s = Some s'"
  obtains d v where "oldest = Some d" "map_of (tk_delegations s) (td_id d) = Some v"
    "s' = s\<lparr>tk_delegations := hm_remove (td_id d) (tk_delegations s)\<rparr>"
  using assms by (auto simp: remove_chosen_def split: option.splits)

lemma drop_some_removes:
  assumes "drop_oldest_finished ord s = Some s' \<or> drop_oldest_stale ord now s = Some s'"
  obtains k v where "map_of (tk_delegations s) k = Some v"
    "s' = s\<lparr>tk_delegations := hm_remove k (tk_delegations s)\<rparr>"
  using assms unfolding drop_oldest_finished_def drop_oldest_stale_def
  by (elim disjE remove_chosen_Some) blast+

lemma make_room_cases:
  assumes "make_room io s = Inr s'"
  obtains (kept) "s' = s" "length (tk_delegations s) < MAX_TRACKED_DELEGATIONS"
  | (dropped) k v where "MAX_TRACKED_DELEGATIONS \<le> length (tk_delegations s)" "map_of (tk_delegations s) k = Some v"
      "s' = s\<lparr>tk_delegations := hm_remove k (tk_delegations s)\<rparr>"
  using assms unfolding make_room_def
  by (auto split: if_splits option.splits elim: drop_some_removes [OF disjI1] drop_some_removes [OF disjI2])

section \<open>Sequences of calls\<close>

datatype tracker_op =
    Register tracker_io delegation_spec nat rstr nat
  | Assign rstr nat
  | Complete int rstr rstr "tool_invocation list" "diff_summary option"
  | Fail int rstr rstr
  | Prune int int

definition tracker_step :: "tracker \<Rightarrow> tracker_op \<Rightarrow> delegation_error + tracker" where
  "tracker_step s op =
     (case op of
        Register io spec pane snapshot depth \<Rightarrow> and_then (register io spec pane snapshot depth s) (\<lambda>(_, s'). Inr s')
      | Assign i pane \<Rightarrow> assign_worker i pane s
      | Complete now i summary trace diff \<Rightarrow> complete now i summary trace diff s
      | Fail now i error \<Rightarrow> fail_delegation now i error s
      | Prune now age \<Rightarrow> Inr (prune_completed now age s))"

text \<open>What a delegation keeps within its limits.\<close>

definition result_within :: "delegation_state \<Rightarrow> bool" where
  "result_within st =
     (case st of
        DelegationCompleted summary trace _ \<Rightarrow> completion_bytes summary trace \<le> MAX_DELEGATION_TEXT_BYTES
      | DelegationFailed error \<Rightarrow> byte_len error \<le> MAX_DELEGATION_TEXT_BYTES
      | _ \<Rightarrow> True)"

definition delegation_wf :: "rstr \<Rightarrow> tracked_delegation \<Rightarrow> bool" where
  "delegation_wf k d \<longleftrightarrow> td_id d = k \<and> td_depth d < MAX_DELEGATION_DEPTH \<and>
     spec_bytes (td_spec d) \<le> MAX_DELEGATION_TEXT_BYTES \<and>
     byte_len (td_context_snapshot d) \<le> MAX_CONTEXT_SNAPSHOT_BYTES \<and> result_within (td_state d) \<and>
     (delegation_finished d \<longleftrightarrow> td_completed_at d \<noteq> None)"

definition tracker_wf :: "tracker \<Rightarrow> bool" where
  "tracker_wf s \<longleftrightarrow> distinct (map fst (tk_delegations s)) \<and>
     length (tk_delegations s) \<le> MAX_TRACKED_DELEGATIONS \<and>
     (\<forall>k d. map_of (tk_delegations s) k = Some d \<longrightarrow> delegation_wf k d)"

lemma new_tracker_wf: "tracker_wf new_tracker"
  by (simp add: tracker_wf_def new_tracker_def)

lemma active_or_finished: "delegation_active d \<longleftrightarrow> \<not> delegation_finished d"
  by (simp add: delegation_active_def delegation_finished_def split: delegation_state.splits)

lemma active_delegation_Inr [simp]:
  "active_delegation s i = Inr d \<longleftrightarrow> map_of (tk_delegations s) i = Some d \<and> \<not> delegation_finished d"
  by (auto simp: active_delegation_def)

lemma check_size_Inr [simp]: "check_size part n = Inr u \<longleftrightarrow> n \<le> MAX_DELEGATION_TEXT_BYTES"
  by (auto simp: check_size_def)

text \<open>A registration: room is made, then the fresh delegation is inserted.\<close>

lemma register_cases:
  assumes "register io spec pane snapshot depth s = Inr (i, s')"
  obtains s1 d where "make_room io s = Inr s1" "i = delegation_id (tk_next_id s)" "delegation_wf i d" "delegation_active d"
    "s' = \<lparr>tk_delegations = hm_insert i d (tk_delegations s1), tk_next_id = (tk_next_id s + 1) mod 2 ^ 64\<rparr>"
proof -
  obtain s1 where room: "make_room io s = Inr s1"
    using assms by (auto simp: register_def Let_def split: if_splits)
  then have "tk_next_id s1 = tk_next_id s" by (cases rule: make_room_cases) simp_all
  with assms room show thesis
    by (intro that [of s1 "the (map_of (tk_delegations s') i)"])
      (auto simp: register_def Let_def delegation_wf_def result_within_def delegation_finished_def
        delegation_active_def truncate_bytes_le split: if_splits)
qed

text \<open>The other calls replace the state of one delegation that is still running.\<close>

lemma put_cases:
  assumes "tracker_step s op = Inr s'"
  obtains (registered) io spec pane snapshot depth i where "op = Register io spec pane snapshot depth"
      "register io spec pane snapshot depth s = Inr (i, s')"
  | (put) i d d' where "map_of (tk_delegations s) i = Some d" "\<not> delegation_finished d" "s' = put_delegation i d' s"
      "delegation_wf i d \<Longrightarrow> delegation_wf i d'"
  | (pruned) now age where "op = Prune now age" "s' = prune_completed now age s"
proof (cases op)
  case (Assign i pane)
  with assms obtain d where d: "map_of (tk_delegations s) i = Some d" "\<not> delegation_finished d"
    "s' = put_delegation i (d\<lparr>td_worker_pane_id := Some pane, td_state := DelegationInProgress\<rparr>) s"
    by (auto simp: tracker_step_def assign_worker_def)
  then show ?thesis by (rule put) (use d(2) in \<open>auto simp: delegation_wf_def result_within_def delegation_finished_def\<close>)
next
  case (Complete now i summary trace diff)
  with assms obtain d where d: "map_of (tk_delegations s) i = Some d" "\<not> delegation_finished d"
    "completion_bytes summary trace \<le> MAX_DELEGATION_TEXT_BYTES"
    "s' = put_delegation i (d\<lparr>td_state := DelegationCompleted summary trace diff, td_completed_at := Some now\<rparr>) s"
    by (auto simp: tracker_step_def complete_def)
  from d(1,2,4) show ?thesis by (rule put) (use d(2,3) in \<open>auto simp: delegation_wf_def result_within_def delegation_finished_def\<close>)
next
  case (Fail now i error)
  with assms obtain d where d: "map_of (tk_delegations s) i = Some d" "\<not> delegation_finished d"
    "byte_len error \<le> MAX_DELEGATION_TEXT_BYTES"
    "s' = put_delegation i (d\<lparr>td_state := DelegationFailed error, td_completed_at := Some now\<rparr>) s"
    by (auto simp: tracker_step_def fail_delegation_def)
  from d(1,2,4) show ?thesis by (rule put) (use d(2,3) in \<open>auto simp: delegation_wf_def result_within_def delegation_finished_def\<close>)
qed (use assms in \<open>auto simp: tracker_step_def intro: registered pruned\<close>)

lemma map_of_prune:
  assumes "distinct (map fst (tk_delegations s))" "map_of (tk_delegations (prune_completed now age s)) k = Some d"
  shows "map_of (tk_delegations s) k = Some d"
  using assms by (auto simp: prune_completed_def dest!: map_of_SomeD)

lemma make_room_wf:
  assumes "make_room io s = Inr s1" "tracker_wf s"
  shows "tracker_wf s1 \<and> length (tk_delegations s1) < MAX_TRACKED_DELEGATIONS"
  using assms(1)
proof (cases rule: make_room_cases)
  case (dropped k v)
  with assms(2) show ?thesis
    using hm_remove_length [OF dropped(2)] by (auto simp: tracker_wf_def)
qed (use assms(2) in simp)

lemma tracker_step_wf:
  assumes "tracker_wf s" "tracker_step s op = Inr s'"
  shows "tracker_wf s'"
  using assms(2)
proof (cases rule: put_cases)
  case (registered io spec pane snapshot depth i)
  from registered(2) obtain s1 d where new: "make_room io s = Inr s1" "delegation_wf i d"
    "s' = \<lparr>tk_delegations = hm_insert i d (tk_delegations s1), tk_next_id = (tk_next_id s + 1) mod 2 ^ 64\<rparr>"
    by (rule register_cases)
  have "tracker_wf s1 \<and> length (tk_delegations s1) < MAX_TRACKED_DELEGATIONS"
    by (rule make_room_wf [OF new(1) assms(1)])
  moreover have "length (hm_insert i d (tk_delegations s1)) \<le> Suc (length (tk_delegations s1))"
    by (simp add: hm_insert_def)
  ultimately show ?thesis using new(2,3) by (auto simp: tracker_wf_def)
next
  case (put i d d')
  with assms(1) show ?thesis by (auto simp: tracker_wf_def)
next
  case (pruned now age)
  then show ?thesis
    using assms(1) map_of_prune [of s now age] pruned(2)
    by (auto simp: tracker_wf_def prune_completed_def intro: length_filter_le [THEN le_trans])
qed

interpretation tracker_machine: invariant_machine tracker_step tracker_wf
  by unfold_locales (rule tracker_step_wf)

section \<open>A counter below its width\<close>

text \<open>What holds while a counter of limited width has not wrapped: a step advances the counter by at
  most one and keeps the invariant as long as the counter is below the limit.\<close>

locale counted_machine =
  fixes step :: "'s \<Rightarrow> 'op \<Rightarrow> 'e + 's"
    and counter :: "'s \<Rightarrow> nat"
    and limit :: nat
    and inv :: "'s \<Rightarrow> bool"
  assumes counted: "inv s \<Longrightarrow> counter s < limit \<Longrightarrow> step s op = Inr s' \<Longrightarrow> inv s' \<and> counter s' \<le> Suc (counter s)"
begin

lemma attempt_counted:
  "inv s \<Longrightarrow> counter s < limit \<Longrightarrow> inv (attempt step s op) \<and> counter (attempt step s op) \<le> Suc (counter s)"
  by (cases rule: attempt_cases [of step s op]) (auto dest: counted)

lemma serve_counted:
  "inv s \<Longrightarrow> counter s + length ops \<le> limit \<Longrightarrow>
     inv (serve step s ops) \<and> counter (serve step s ops) \<le> counter s + length ops"
proof (induction ops arbitrary: s)
  case (Cons op ops)
  then have "inv (attempt step s op) \<and> counter (attempt step s op) \<le> Suc (counter s)"
    by (intro attempt_counted) simp_all
  with Cons.IH [of "attempt step s op"] Cons.prems show ?case by simp
qed simp

end

text \<open>A number below the counter has been given out; no registration gives it out again.\<close>

definition ids_given_out :: "tracker \<Rightarrow> bool" where
  "ids_given_out s \<longleftrightarrow> distinct (map fst (tk_delegations s)) \<and>
     (\<forall>k d. map_of (tk_delegations s) k = Some d \<longrightarrow> (\<exists>n < tk_next_id s. k = delegation_id n))"

lemma ids_given_outD:
  assumes "ids_given_out s" "map_of (tk_delegations s) k = Some d"
  obtains n where "n < tk_next_id s" "k = delegation_id n"
  using assms unfolding ids_given_out_def by blast

definition settled_as :: "nat \<Rightarrow> tracked_delegation option \<Rightarrow> tracker \<Rightarrow> bool" where
  "settled_as n res s \<longleftrightarrow> distinct (map fst (tk_delegations s)) \<and> n < tk_next_id s \<and>
     map_of (tk_delegations s) (delegation_id n) \<in> {None, res} \<and> (\<forall>d. res = Some d \<longrightarrow> delegation_finished d)"

abbreviation id_limit :: nat where
  "id_limit \<equiv> 2 ^ 64 - 1"

lemma registered_shape:
  assumes "register io spec pane snapshot depth s = Inr (i, s')" "tk_next_id s < id_limit" "distinct (map fst (tk_delegations s))"
  obtains "i = delegation_id (tk_next_id s)" "tk_next_id s' = Suc (tk_next_id s)"
    "distinct (map fst (tk_delegations s'))"
    "\<And>k. k \<noteq> i \<Longrightarrow> map_of (tk_delegations s') k \<in> {None, map_of (tk_delegations s) k}"
proof -
  obtain s1 d where new: "make_room io s = Inr s1" "i = delegation_id (tk_next_id s)"
    "s' = \<lparr>tk_delegations = hm_insert i d (tk_delegations s1), tk_next_id = (tk_next_id s + 1) mod 2 ^ 64\<rparr>"
    using assms(1) by (rule register_cases)
  have "tk_next_id s' = Suc (tk_next_id s)" using new(3) assms(2) by simp
  moreover have "distinct (map fst (tk_delegations s1)) \<and>
      (\<forall>k. map_of (tk_delegations s1) k \<in> {None, map_of (tk_delegations s) k})"
    using new(1) assms(3) by (cases rule: make_room_cases) auto
  ultimately show thesis using new(2,3) by (intro that) auto
qed

lemma prune_shape:
  assumes "distinct (map fst (tk_delegations s))"
  shows "distinct (map fst (tk_delegations (prune_completed now age s)))" "tk_next_id (prune_completed now age s) = tk_next_id s"
    "map_of (tk_delegations (prune_completed now age s)) k \<in> {None, map_of (tk_delegations s) k}"
  using assms map_of_prune [OF assms, of now age k]
  by (simp add: prune_completed_def, simp add: prune_completed_def,
      cases "map_of (tk_delegations (prune_completed now age s)) k") auto

lemma step_settles:
  assumes "settled_as n res s" "tk_next_id s < id_limit" "tracker_step s op = Inr s'"
  shows "settled_as n res s' \<and> tk_next_id s' \<le> Suc (tk_next_id s)"
  using assms(3)
proof (cases rule: put_cases)
  case (registered io spec pane snapshot depth i)
  from assms(1) have "distinct (map fst (tk_delegations s))" by (simp add: settled_as_def)
  from registered_shape [OF registered(2) assms(2) this] have
    shape: "i = delegation_id (tk_next_id s)" "tk_next_id s' = Suc (tk_next_id s)" "distinct (map fst (tk_delegations s'))"
    "\<And>k. k \<noteq> i \<Longrightarrow> map_of (tk_delegations s') k \<in> {None, map_of (tk_delegations s) k}" by blast+
  from assms(1) have "delegation_id n \<noteq> i" by (auto simp: shape(1) settled_as_def)
  from shape(4) [OF this] have "map_of (tk_delegations s') (delegation_id n) \<in> {None, map_of (tk_delegations s) (delegation_id n)}" .
  with shape(2,3) assms(1) show ?thesis by (auto simp: settled_as_def)
next
  case (put i d d')
  with assms(1) show ?thesis by (auto simp: settled_as_def)
next
  case (pruned now age)
  with assms(1) prune_shape(1,2) [of s now age] prune_shape(3) [of s now age "delegation_id n"] show ?thesis by (auto simp: settled_as_def)
qed

lemma step_gives_out:
  assumes "ids_given_out s" "tk_next_id s < id_limit" "tracker_step s op = Inr s'"
  shows "ids_given_out s' \<and> tk_next_id s' \<le> Suc (tk_next_id s)"
  using assms(3)
proof (cases rule: put_cases)
  case (registered io spec pane snapshot depth i)
  from assms(1) have distinct: "distinct (map fst (tk_delegations s))" by (simp add: ids_given_out_def)
  from registered_shape [OF registered(2) assms(2) this] have
    shape: "i = delegation_id (tk_next_id s)" "tk_next_id s' = Suc (tk_next_id s)" "distinct (map fst (tk_delegations s'))"
    "\<And>k. k \<noteq> i \<Longrightarrow> map_of (tk_delegations s') k \<in> {None, map_of (tk_delegations s) k}" by blast+
  have "\<exists>n < tk_next_id s'. k = delegation_id n" if "map_of (tk_delegations s') k = Some e" for k e
  proof (cases "k = i")
    case False
    with shape(4) [of k] that have "map_of (tk_delegations s) k = Some e" by auto
    with assms(1) show ?thesis by (rule ids_given_outD) (auto simp: shape(2) intro: less_SucI)
  qed (auto simp: shape(1,2))
  with shape(2,3) show ?thesis by (auto simp: ids_given_out_def)
next
  case (put i d d')
  with assms(1) show ?thesis by (auto simp: ids_given_out_def)
next
  case (pruned now age)
  with assms(1) map_of_prune [of s now age] prune_shape(1,2) [of s now age] show ?thesis
    unfolding ids_given_out_def by (metis le_SucI order_refl)
qed

interpretation settled: counted_machine tracker_step tk_next_id id_limit "settled_as n res" for n res
  by unfold_locales (rule step_settles)

interpretation given_out: counted_machine tracker_step tk_next_id id_limit ids_given_out
  by unfold_locales (rule step_gives_out)

lemma served_ids:
  assumes "s = serve tracker_step new_tracker before" "Suc (length before) \<le> id_limit"
  shows "ids_given_out s" "tk_next_id s \<le> Suc (length before)"
  using assms given_out.serve_counted [of new_tracker before] by (simp_all add: ids_given_out_def new_tracker_def)

lemma served_settles:
  assumes "s = serve tracker_step new_tracker before" "map_of (tk_delegations s) i = Some d" "delegation_finished d"
    "length before + length later < id_limit"
  obtains n where "i = delegation_id n" "settled_as n (Some d) s" "settled_as n (Some d) (serve tracker_step s later)"
    "tk_next_id (serve tracker_step s later) \<le> Suc (length before + length later)"
proof -
  have ids: "ids_given_out s" "tk_next_id s \<le> Suc (length before)"
    using served_ids [OF assms(1)] assms(4) by simp_all
  obtain n where n: "n < tk_next_id s" "i = delegation_id n" by (rule ids_given_outD [OF ids(1) assms(2)])
  with ids(1) assms(2,3) have "settled_as n (Some d) s" by (simp add: ids_given_out_def settled_as_def)
  with settled.serve_counted [of n "Some d" s later] n(2) ids(2) assms(4) show thesis by (intro that) auto
qed

lemma gone_stays_gone:
  assumes "settled_as n (Some d) s" "map_of (tk_delegations s) (delegation_id n) = None" "tk_next_id s + length later \<le> id_limit"
  shows "map_of (tk_delegations (serve tracker_step s later)) (delegation_id n) = None"
  using assms settled.serve_counted [of n None s later] by (auto simp: settled_as_def)

section \<open>What making room removes\<close>

definition stale_at :: "int \<Rightarrow> tracked_delegation \<Rightarrow> bool" where
  "stale_at now d \<longleftrightarrow> delegation_active d \<and> STALE_DELEGATION_SECS \<le> whole_seconds (now - td_created_at d)"

lemma tracked_iff:
  assumes "tracker_wf s"
  shows "d \<in> snd ` set (tk_delegations s) \<longleftrightarrow> map_of (tk_delegations s) (td_id d) = Some d"
proof
  assume "d \<in> snd ` set (tk_delegations s)"
  then obtain k where "(k, d) \<in> set (tk_delegations s)" by auto
  with assms have "map_of (tk_delegations s) k = Some d" by (simp add: tracker_wf_def)
  moreover from this assms have "td_id d = k" by (simp add: tracker_wf_def delegation_wf_def)
  ultimately show "map_of (tk_delegations s) (td_id d) = Some d" by simp
next
  assume "map_of (tk_delegations s) (td_id d) = Some d"
  then show "d \<in> snd ` set (tk_delegations s)" by (metis map_of_SomeD image_eqI snd_conv)
qed

lemma remove_chosen_tracked:
  assumes "tracker_wf s" "d \<in> snd ` set (tk_delegations s)"
  shows "remove_chosen (Some d) s = Some (s\<lparr>tk_delegations := hm_remove (td_id d) (tk_delegations s)\<rparr>)"
  using assms tracked_iff [of s d] by (simp add: remove_chosen_def)

lemma remove_chosen_none [simp]: "remove_chosen None s = None"
  by (simp add: remove_chosen_def)

text \<open>Each of the two scans finds the oldest delegation of its kind, whatever the iteration order.\<close>

lemma drop_finished:
  assumes "tracker_wf s"
  obtains (none) "drop_oldest_finished ord s = None" "\<And>d. d \<in> snd ` set (tk_delegations s) \<Longrightarrow> \<not> delegation_finished d"
  | (oldest) d where "drop_oldest_finished ord s = Some (s\<lparr>tk_delegations := hm_remove (td_id d) (tk_delegations s)\<rparr>)"
      "d \<in> snd ` set (tk_delegations s)" "delegation_finished d"
      "\<And>e. e \<in> snd ` set (tk_delegations s) \<Longrightarrow> delegation_finished e \<Longrightarrow> td_completed_at d \<le> td_completed_at e"
proof (cases "min_by_key (\<lambda>d. (td_completed_at d, td_created_at d, td_id d))
    (filter delegation_finished (hm_values ord (tk_delegations s)))")
  case None
  then have "filter delegation_finished (hm_values ord (tk_delegations s)) = []" by simp
  then have "\<forall>d \<in> snd ` set (tk_delegations s). \<not> delegation_finished d"
    by (simp only: filter_empty_conv hm_values_set)
  with None show ?thesis by (intro none) (auto simp: drop_oldest_finished_def)
next
  case (Some d)
  from min_by_key_Some [OF this] remove_chosen_tracked [OF assms, of d] Some show ?thesis
    by (intro oldest [of d]) (auto simp: drop_oldest_finished_def less_eq_prod_def)
qed

lemma drop_stale:
  assumes "tracker_wf s"
  obtains (none) "drop_oldest_stale ord now s = None" "\<And>d. d \<in> snd ` set (tk_delegations s) \<Longrightarrow> \<not> stale_at now d"
  | (oldest) d where "drop_oldest_stale ord now s = Some (s\<lparr>tk_delegations := hm_remove (td_id d) (tk_delegations s)\<rparr>)"
      "d \<in> snd ` set (tk_delegations s)" "stale_at now d"
      "\<And>e. e \<in> snd ` set (tk_delegations s) \<Longrightarrow> stale_at now e \<Longrightarrow> td_created_at d \<le> td_created_at e"
proof (cases "stale_active ord now STALE_DELEGATION_SECS s")
  case Nil
  then have "set (stale_active ord now STALE_DELEGATION_SECS s) = {}" by simp
  then have "\<not> stale_at now d" if "d \<in> snd ` set (tk_delegations s)" for d
    using that by (auto simp: stale_active_def stale_at_def)
  with Nil show ?thesis by (intro none) (auto simp: drop_oldest_stale_def)
next
  case (Cons d ds)
  from sort_key_head [OF Cons [unfolded stale_active_def]] remove_chosen_tracked [OF assms, of d] Cons show ?thesis
    by (intro oldest [of d]) (auto simp: drop_oldest_stale_def stale_at_def)
qed

text \<open>A delegation the tracker may drop: the oldest finished one or, when none has finished, the oldest
  one that has been running for an hour.\<close>

definition droppable :: "int \<Rightarrow> tracker \<Rightarrow> tracked_delegation \<Rightarrow> bool" where
  "droppable now s d \<longleftrightarrow>
     (delegation_finished d \<and> (\<forall>e \<in> snd ` set (tk_delegations s). delegation_finished e \<longrightarrow> td_completed_at d \<le> td_completed_at e)) \<or>
     ((\<forall>e \<in> snd ` set (tk_delegations s). \<not> delegation_finished e) \<and> stale_at now d \<and>
        (\<forall>e \<in> snd ` set (tk_delegations s). stale_at now e \<longrightarrow> td_created_at d \<le> td_created_at e))"

lemma make_room_drops:
  assumes "tracker_wf s"
  obtains (free) "make_room io s = Inr s" "length (tk_delegations s) < MAX_TRACKED_DELEGATIONS"
  | (dropped) d where "length (tk_delegations s) = MAX_TRACKED_DELEGATIONS"
      "make_room io s = Inr (s\<lparr>tk_delegations := hm_remove (td_id d) (tk_delegations s)\<rparr>)"
      "map_of (tk_delegations s) (td_id d) = Some d" "droppable (to_scan io) s d"
  | (full) "length (tk_delegations s) = MAX_TRACKED_DELEGATIONS" "make_room io s = Inl (TrackerFull MAX_TRACKED_DELEGATIONS)"
      "\<And>d. d \<in> snd ` set (tk_delegations s) \<Longrightarrow> \<not> delegation_finished d \<and> \<not> stale_at (to_scan io) d"
proof (cases "length (tk_delegations s) < MAX_TRACKED_DELEGATIONS")
  case True
  then show ?thesis by (intro free) (simp add: make_room_def)
next
  case False
  with assms have len: "length (tk_delegations s) = MAX_TRACKED_DELEGATIONS" by (simp add: tracker_wf_def)
  from assms show ?thesis
  proof (cases rule: drop_finished [of s "to_order io"])
    case (oldest d)
    with len show ?thesis by (intro dropped [of d]) (auto simp: make_room_def droppable_def tracked_iff [OF assms])
  next
    case none
    note unfinished = none
    from assms show ?thesis
    proof (cases rule: drop_stale [of s "to_order io" "to_scan io"])
      case (oldest d)
      with len unfinished show ?thesis
        by (intro dropped [of d]) (auto simp: make_room_def droppable_def tracked_iff [OF assms])
    next
      case none
      with len unfinished show ?thesis by (intro full) (simp_all add: make_room_def)
    qed
  qed
qed

lemma register_makes_room:
  assumes "register io spec pane snapshot depth s = Inr (i, s')"
  shows "\<exists>s1. make_room io s = Inr s1 \<and> (\<forall>k. k \<noteq> i \<longrightarrow> map_of (tk_delegations s') k = map_of (tk_delegations s1) k)"
  using assms by (rule register_cases) auto

text \<open>A request of the daemon leaves the tracker alone or is one of its steps.\<close>

lemma handled_request_is_step:
  assumes "handle_delegation_request rfc3339 io request s = (reply, s')"
  shows "s' = s \<or> (\<exists>op. s' = attempt tracker_step s op)"
proof (cases request)
  case (RegisterDelegation spec pane snapshot)
  with assms have "s' = attempt tracker_step s (Register io spec pane snapshot 0)"
    by (auto simp: handle_delegation_request_def attempt_def tracker_step_def split: sum.splits)
  then show ?thesis by blast
next
  case (CompleteDelegation i summary trace diff)
  with assms have "s' = attempt tracker_step s (Complete (to_now io) i summary trace diff)"
    by (auto simp: handle_delegation_request_def attempt_def tracker_step_def split: sum.splits)
  then show ?thesis by blast
qed (use assms in \<open>simp add: handle_delegation_request_def\<close>)

lemma served_tracker_wf: "tracker_wf (serve tracker_step new_tracker before)"
  by (rule tracker_machine.serve_inv [OF new_tracker_wf])

end
