(* ===== verification/Delegation_Properties.thy ===== *)
theory Delegation_Properties
  imports Delegation_Machine
begin

text \<open>
  The properties of the delegation tracker, each applied to a small history: one delegation that is
  registered, completed and then completed again, and a tracker that is filled to its limit.
\<close>

definition demo_spec :: delegation_spec where
  "demo_spec = \<lparr>ds_task = lit ''t'', ds_target_files = [], ds_constraints = None, ds_max_depth = 2, ds_restricted_tools = []\<rparr>"

definition demo_tracker_io :: tracker_io where
  "demo_tracker_io = \<lparr>to_order = [], to_scan = 3600000000000, to_now = 0\<rparr>"

definition demo_register :: tracker_op where
  "demo_register = Register demo_tracker_io demo_spec 0 [] 0"

definition demo_complete :: tracker_op where
  "demo_complete = Complete 5 (delegation_id 1) (lit ''ok'') [] None"

lemma demo_spec_small: "spec_bytes demo_spec \<le> MAX_DELEGATION_TEXT_BYTES"
  by (simp add: spec_bytes_def demo_spec_def list_bytes_def saturating_add_u64_def u64_max_def byte_len_def utf8_def
      utf8_char_def lit_def MAX_DELEGATION_TEXT_BYTES_def)

definition demo_finished :: tracked_delegation where
  "demo_finished = \<lparr>td_id = delegation_id 1, td_coordinator_pane_id = 0, td_worker_pane_id = None,
     td_coordinator_role = Coordinator, td_spec = demo_spec, td_state = DelegationCompleted (lit ''ok'') [] None,
     td_created_at = 0, td_completed_at = Some 5, td_context_snapshot = [], td_depth = 0\<rparr>"

lemma demo_registered:
  "serve tracker_step new_tracker [demo_register, demo_complete] =
     \<lparr>tk_delegations = [(delegation_id 1, demo_finished)], tk_next_id = 2\<rparr>"
proof -
  have "attempt tracker_step new_tracker demo_register =
      \<lparr>tk_delegations = [(delegation_id 1, demo_finished\<lparr>td_state := DelegationPending, td_completed_at := None\<rparr>)],
       tk_next_id = 2\<rparr>"
    using demo_spec_small
    by (simp add: attempt_def tracker_step_def demo_register_def register_def MAX_DELEGATION_DEPTH_def check_size_def
        make_room_def new_tracker_def MAX_TRACKED_DELEGATIONS_def hm_insert_def demo_finished_def Let_def
        demo_tracker_io_def byte_len_def utf8_def)
  then show ?thesis
    by (simp add: attempt_def tracker_step_def demo_complete_def complete_def active_delegation_def check_size_def
        completion_bytes_def put_delegation_def demo_finished_def delegation_finished_def MAX_DELEGATION_TEXT_BYTES_def
        byte_len_def utf8_def utf8_char_def lit_def)
qed

text \<open>Registering the same work again and again fills the tracker; all of it is an hour old when the next
  registration scans it.\<close>

definition demo_pending :: "nat \<Rightarrow> tracked_delegation" where
  "demo_pending n = demo_finished\<lparr>td_id := delegation_id n, td_state := DelegationPending, td_completed_at := None\<rparr>"

lemma demo_step: "tracker_step s demo_register = and_then (register demo_tracker_io demo_spec 0 [] 0 s) (\<lambda>(_, s'). Inr s')"
  by (simp add: tracker_step_def demo_register_def)

primrec demo_entries :: "nat \<Rightarrow> (rstr \<times> tracked_delegation) list" where
  "demo_entries 0 = []"
| "demo_entries (Suc n) = (delegation_id (Suc n), demo_pending (Suc n)) # demo_entries n"

lemma demo_entries_set: "set (demo_entries n) = (\<lambda>k. (delegation_id k, demo_pending k)) ` {1..n}"
  by (induction n) (simp_all add: atLeastAtMostSuc_conv)

lemma demo_entries_props:
  "length (demo_entries n) = n" "e \<in> set (demo_entries n) \<Longrightarrow> \<exists>k \<le> n. fst e = delegation_id k"
  "0 < n \<Longrightarrow> (delegation_id 1, demo_pending 1) \<in> set (demo_entries n)"
proof -
  show "length (demo_entries n) = n" by (induction n) simp_all
qed (auto simp: demo_entries_set)

lemma demo_filled:
  "n \<le> 256 \<Longrightarrow> serve tracker_step new_tracker (replicate n demo_register) =
     \<lparr>tk_delegations = demo_entries n, tk_next_id = Suc n\<rparr>"
proof (induction n)
  case (Suc n)
  let ?s = "\<lparr>tk_delegations = demo_entries n, tk_next_id = Suc n\<rparr>"
  have fresh: "hm_insert (delegation_id (Suc n)) d (demo_entries n) = (delegation_id (Suc n), d) # demo_entries n" for d
    using demo_entries_props(2) [of _ n] by (fastforce simp: hm_insert_def filter_id_conv)
  have room: "make_room demo_tracker_io ?s = Inr ?s"
    using Suc.prems by (simp add: make_room_def demo_entries_props MAX_TRACKED_DELEGATIONS_def)
  have "register demo_tracker_io demo_spec 0 [] 0 ?s =
      Inr (delegation_id (Suc n), \<lparr>tk_delegations = demo_entries (Suc n), tk_next_id = Suc (Suc n)\<rparr>)"
    using demo_spec_small room Suc.prems
    by (simp add: register_def MAX_DELEGATION_DEPTH_def check_size_def Let_def fresh demo_pending_def demo_finished_def
        demo_tracker_io_def byte_len_def utf8_def)
  then have "attempt tracker_step ?s demo_register = \<lparr>tk_delegations = demo_entries (Suc n), tk_next_id = Suc (Suc n)\<rparr>"
    by (simp add: attempt_def demo_step del: demo_entries.simps)
  moreover have "serve tracker_step new_tracker (replicate (Suc n) demo_register) =
      attempt tracker_step (serve tracker_step new_tracker (replicate n demo_register)) demo_register"
    unfolding replicate_Suc replicate_append_same [symmetric] by (simp add: serve_append)
  ultimately show ?case using Suc by (simp del: demo_entries.simps serve.simps)
qed (simp add: new_tracker_def)

lemma demo_full_accepts:
  "\<exists>i s'. register demo_tracker_io demo_spec 0 [] 0 (serve tracker_step new_tracker (replicate 256 demo_register)) = Inr (i, s')"
proof -
  let ?s = "serve tracker_step new_tracker (replicate 256 demo_register)"
  have wf: "tracker_wf ?s" by (rule served_tracker_wf)
  have "demo_pending 1 \<in> snd ` set (tk_delegations ?s)"
    using demo_entries_props(3) [of 256] by (simp only: demo_filled order_refl tracker.simps) (simp add: image_iff rev_bexI)
  moreover have "stale_at (to_scan demo_tracker_io) (demo_pending 1)"
    by (simp add: stale_at_def demo_tracker_io_def demo_pending_def demo_finished_def delegation_active_def whole_seconds_def
        STALE_DELEGATION_SECS_def)
  moreover have "\<exists>s1. make_room demo_tracker_io ?s = Inr s1" if "\<exists>d \<in> snd ` set (tk_delegations ?s). stale_at (to_scan demo_tracker_io) d"
    using wf by (cases rule: make_room_drops [of ?s demo_tracker_io]) (use that in auto)
  ultimately have "\<exists>s1. make_room demo_tracker_io ?s = Inr s1" by blast
  then show ?thesis
    using demo_spec_small by (auto simp: register_def MAX_DELEGATION_DEPTH_def check_size_def Let_def)
qed

text \<open>C22: A result that was handed over is final: whatever calls follow, the finished delegation is kept
  exactly as it was or dropped, a completion, a failure or an assignment of it is refused, and an identifier
  that was dropped is never given out again.\<close>

theorem delegation_result_is_final:
  assumes "s = serve tracker_step new_tracker before" "map_of (tk_delegations s) i = Some d" "delegation_finished d"
    and "length before + length later + length rest < 2 ^ 64 - 1" "s1 = serve tracker_step s later"
  shows "map_of (tk_delegations s1) i \<in> {None, Some d} \<and>
    isl (complete now i summary trace diff s1) \<and> isl (fail_delegation now i error s1) \<and> isl (assign_worker i pane s1) \<and>
    (map_of (tk_delegations s1) i = None \<longrightarrow> map_of (tk_delegations (serve tracker_step s1 rest)) i = None)"
proof -
  obtain n where n: "i = delegation_id n" "settled_as n (Some d) s1" "tk_next_id s1 \<le> Suc (length before + length later)"
    using served_settles [OF assms(1-3), of later] assms(4,5) by auto
  from n(2) have kept: "map_of (tk_delegations s1) i \<in> {None, Some d}" unfolding settled_as_def n(1) by blast
  have "isl (active_delegation s1 i)" using kept assms(3) by (auto simp: active_delegation_def)
  then have "isl (complete now i summary trace diff s1) \<and> isl (fail_delegation now i error s1) \<and> isl (assign_worker i pane s1)"
    by (auto simp: complete_def fail_delegation_def assign_worker_def isl_def)
  moreover have "map_of (tk_delegations (serve tracker_step s1 rest)) i = None" if "map_of (tk_delegations s1) i = None"
    using gone_stays_gone [OF n(2), of rest] that n(1,3) assms(4) by simp
  ultimately show ?thesis using kept by simp
qed

theorem delegation_result_is_final_witness:
  "isl (complete 7 (delegation_id 1) (lit ''again'') [] None
     (serve tracker_step (serve tracker_step new_tracker [demo_register, demo_complete]) [demo_complete, demo_register]))"
proof -
  have "map_of (tk_delegations (serve tracker_step new_tracker [demo_register, demo_complete])) (delegation_id 1) = Some demo_finished"
    by (simp only: demo_registered) simp
  moreover have "delegation_finished demo_finished" by (simp add: delegation_finished_def demo_finished_def)
  moreover have "length [demo_register, demo_complete] + length [demo_complete, demo_register] + length ([] :: tracker_op list) < 2 ^ 64 - 1"
    by simp
  ultimately show ?thesis
    using delegation_result_is_final [OF refl _ _ _ refl] by blast
qed

text \<open>Room is made only in a full tracker and by dropping one delegation: the one that finished first,
  or, when none has finished, the oldest one that has been running for an hour.  Everything else is kept
  unchanged, whatever order the map is iterated in.\<close>

theorem registration_drops_no_live_work:
  assumes "s = serve tracker_step new_tracker before" "register io spec pane snapshot depth s = Inr (i, s')"
  shows "\<exists>dropped. card dropped \<le> 1 \<and>
    (\<forall>k. k \<noteq> i \<longrightarrow> map_of (tk_delegations s') k = (if k \<in> dropped then None else map_of (tk_delegations s) k)) \<and>
    (\<forall>k \<in> dropped. length (tk_delegations s) = 256 \<and>
       (\<exists>d. map_of (tk_delegations s) k = Some d \<and> droppable (to_scan io) s d))"
proof -
  obtain s1 where s1: "make_room io s = Inr s1"
    "\<And>k. k \<noteq> i \<Longrightarrow> map_of (tk_delegations s') k = map_of (tk_delegations s1) k"
    using register_makes_room [OF assms(2)] by blast
  have "tracker_wf s" by (simp only: assms(1) served_tracker_wf)
  then show ?thesis
  proof (cases rule: make_room_drops [of s io])
    case free
    with s1 show ?thesis by (intro exI [of _ "{}"]) simp
  next
    case (dropped d)
    with s1 show ?thesis by (intro exI [of _ "{td_id d}"]) (auto simp: MAX_TRACKED_DELEGATIONS_def)
  next
    case full
    with s1 show ?thesis by simp
  qed
qed

theorem registration_drops_no_live_work_witness:
  "\<exists>i s' dropped. register demo_tracker_io demo_spec 0 [] 0 (serve tracker_step new_tracker (replicate 256 demo_register)) = Inr (i, s') \<and>
     card dropped \<le> 1 \<and> (\<forall>k. k \<noteq> i \<longrightarrow> map_of (tk_delegations s') k = (if k \<in> dropped then None
       else map_of (tk_delegations (serve tracker_step new_tracker (replicate 256 demo_register))) k))"
proof -
  obtain i s' where "register demo_tracker_io demo_spec 0 [] 0 (serve tracker_step new_tracker (replicate 256 demo_register)) = Inr (i, s')"
    using demo_full_accepts by blast
  from this registration_drops_no_live_work [OF refl this] show ?thesis by blast
qed

text \<open>A registration succeeds exactly when its depth and its weight are within the limits and the
  tracker has room or holds a delegation that finished or has been running for an hour.\<close>

theorem registration_succeeds_iff:
  "is_ok (register io spec pane snapshot depth (serve tracker_step new_tracker before)) \<longleftrightarrow>
     depth < 2 \<and> spec_bytes spec \<le> 262144 \<and>
     (length (tk_delegations (serve tracker_step new_tracker before)) < 256 \<or>
      (\<exists>(k, d) \<in> set (tk_delegations (serve tracker_step new_tracker before)).
         delegation_finished d \<or> 3600 \<le> whole_seconds (to_scan io - td_created_at d)))"
proof -
  define s where "s = serve tracker_step new_tracker before"
  have wf: "tracker_wf s" by (simp add: s_def served_tracker_wf)
  have step: "is_ok (register io spec pane snapshot depth s) \<longleftrightarrow>
      depth < 2 \<and> spec_bytes spec \<le> 262144 \<and> is_ok (make_room io s)"
    by (auto simp: register_def is_ok_iff MAX_DELEGATION_DEPTH_def MAX_DELEGATION_TEXT_BYTES_def Let_def)
  have live: "(\<exists>(k, d) \<in> set (tk_delegations s). delegation_finished d \<or> 3600 \<le> whole_seconds (to_scan io - td_created_at d)) \<longleftrightarrow>
      (\<exists>d \<in> snd ` set (tk_delegations s). delegation_finished d \<or> stale_at (to_scan io) d)"
    by (force simp: stale_at_def STALE_DELEGATION_SECS_def active_or_finished)
  have "is_ok (make_room io s) \<longleftrightarrow> length (tk_delegations s) < 256 \<or>
      (\<exists>d \<in> snd ` set (tk_delegations s). delegation_finished d \<or> stale_at (to_scan io) d)"
    using wf
  proof (cases rule: make_room_drops [of s io])
    case (dropped d)
    then have "d \<in> snd ` set (tk_delegations s)" by (simp add: tracked_iff [OF wf])
    with dropped show ?thesis by (auto simp: droppable_def)
  qed (auto simp: MAX_TRACKED_DELEGATIONS_def)
  with step live show ?thesis by (simp add: s_def)
qed

end
