(* ===== verification/Tool_Sandbox.thy ===== *)
theory Tool_Sandbox
  imports Config_Chain Loop_Contract Handoff_Gate
begin

text \<open>
  The tool framework (\<open>tooling/traits.rs\<close>, \<open>executor.rs\<close>, \<open>registry.rs\<close>) with the two file tools
  (\<open>builtin/file_read.rs\<close>, \<open>builtin/file_write.rs\<close>): the path sandbox every tool runs in and the pipeline
  of checks before a tool runs.  What a tool does to the disk is the list of its effects.  The file
  system, the clock, the temporary file name and the JSON writer are inputs.
\<close>

section \<open>Data\<close>

datatype capability = FileSystemRead | FileSystemWrite | Network | PythonExec | SystemInfo | ShellExec

fun capability_as_str :: "capability \<Rightarrow> string" where
  "capability_as_str FileSystemRead = ''filesystem_read''"
| "capability_as_str FileSystemWrite = ''filesystem_write''"
| "capability_as_str Network = ''network''"
| "capability_as_str PythonExec = ''python_exec''"
| "capability_as_str SystemInfo = ''system_info''"
| "capability_as_str ShellExec = ''shell_exec''"

datatype execution_origin = OriginCli | OriginDaemon | OriginMcp | OriginVoice | OriginTest

fun origin_as_str :: "execution_origin \<Rightarrow> string" where
  "origin_as_str OriginCli = ''cli''"
| "origin_as_str OriginDaemon = ''daemon''"
| "origin_as_str OriginMcp = ''mcp''"
| "origin_as_str OriginVoice = ''voice''"
| "origin_as_str OriginTest = ''test''"

datatype param_type = StringParam | IntegerParam | FloatParam | BoolParam | FilePathParam | JsonParam

record tool_param =
  tp_name :: rstr
  tp_type :: param_type
  tp_required :: bool
  tp_default :: "json option"

record tool_result =
  tr_output :: json
  tr_artifacts :: "rstr list"
  tr_metadata :: "(rstr \<times> rstr) list"

definition json_result :: "json \<Rightarrow> tool_result" where
  "json_result v = \<lparr>tr_output = v, tr_artifacts = [], tr_metadata = []\<rparr>"

datatype tool_error =
    ToolNotFound rstr
  | InvalidParams rstr
  | MissingCapability capability
  | PathNotAllowed rstr
  | ExecutionFailed rstr
  | ToolTimeout nat
  | ToolIo rstr
  | ToolJson rstr
  | AlreadyRegistered rstr

fun capability_debug :: "capability \<Rightarrow> string" where
  "capability_debug FileSystemRead = ''FileSystemRead''"
| "capability_debug FileSystemWrite = ''FileSystemWrite''"
| "capability_debug Network = ''Network''"
| "capability_debug PythonExec = ''PythonExec''"
| "capability_debug SystemInfo = ''SystemInfo''"
| "capability_debug ShellExec = ''ShellExec''"

fun show_tool_error :: "tool_error \<Rightarrow> rstr" where
  "show_tool_error (ToolNotFound s) = lit ''Tool not found: '' @ s"
| "show_tool_error (InvalidParams s) = lit ''Invalid parameters: '' @ s"
| "show_tool_error (MissingCapability c) = lit ''Missing required capability: '' @ lit (capability_debug c)"
| "show_tool_error (PathNotAllowed s) = lit ''Path not allowed for this tool execution: '' @ s"
| "show_tool_error (ExecutionFailed s) = lit ''Execution failed: '' @ s"
| "show_tool_error (ToolTimeout n) = lit ''Timeout after '' @ dec n @ lit ''ms''"
| "show_tool_error (ToolIo s) = lit ''IO error: '' @ s"
| "show_tool_error (ToolJson s) = lit ''JSON error: '' @ s"
| "show_tool_error (AlreadyRegistered s) = lit ''Tool already registered: '' @ s"

record tool_context =
  tc_impulse_dir :: rstr
  tc_project_impulse_dir :: rstr
  tc_session_id :: "rstr option"
  tc_allowed_capabilities :: "capability list"
  tc_timeout_ms :: nat
  tc_execution_origin :: execution_origin
  tc_max_output_bytes :: nat
  tc_max_artifacts :: nat
  tc_allowed_read_roots :: "rstr list"
  tc_allowed_write_roots :: "rstr list"

text \<open>The file system a call sees: the working directory, path resolution and metadata.\<close>

record file_world =
  fw_cwd :: "rstr option"
  fw_canonical :: "rstr \<Rightarrow> rstr option"
  fw_exists :: "rstr \<Rightarrow> bool"
  fw_is_dir :: "rstr \<Rightarrow> bool"
  fw_size :: "rstr \<Rightarrow> rstr + nat"
  fw_read :: "rstr \<Rightarrow> rstr + rstr"

definition current_dir :: "file_world \<Rightarrow> rstr" where
  "current_dir W = (case fw_cwd W of Some d \<Rightarrow> d | None \<Rightarrow> lit ''.'')"

definition default_tool_context :: "file_world \<Rightarrow> tool_context" where
  "default_tool_context W =
     \<lparr>tc_impulse_dir = lit ''.impulse'', tc_project_impulse_dir = lit ''.impulse'', tc_session_id = None,
      tc_allowed_capabilities = [FileSystemRead, SystemInfo], tc_timeout_ms = 30000,
      tc_execution_origin = OriginDaemon, tc_max_output_bytes = 256 * 1024, tc_max_artifacts = 8,
      tc_allowed_read_roots = [current_dir W, lit ''.impulse''], tc_allowed_write_roots = [lit ''.impulse'']\<rparr>"

definition for_origin :: "file_world \<Rightarrow> rstr \<Rightarrow> execution_origin \<Rightarrow> tool_context" where
  "for_origin W dir origin = (default_tool_context W)\<lparr>tc_impulse_dir := dir, tc_execution_origin := origin\<rparr>"

definition has_capability :: "tool_context \<Rightarrow> capability \<Rightarrow> bool" where
  "has_capability ctx cap \<longleftrightarrow> cap \<in> set (tc_allowed_capabilities ctx)"

definition with_all_capabilities :: "file_world \<Rightarrow> tool_context" where
  "with_all_capabilities W = (default_tool_context W)
     \<lparr>tc_allowed_capabilities := [FileSystemRead, FileSystemWrite, Network, PythonExec, SystemInfo, ShellExec],
      tc_execution_origin := OriginCli, tc_allowed_read_roots := [], tc_allowed_write_roots := []\<rparr>"

section \<open>Path resolution\<close>

text \<open>\<open>pop\<close> on a path without a parent does nothing, so a leading \<open>..\<close> of a relative path is dropped.\<close>

fun collapse :: "rstr list \<Rightarrow> path_component list \<Rightarrow> rstr list" where
  "collapse out [] = out"
| "collapse out (ParentDir # cs) = collapse (butlast out) cs"
| "collapse out (NormalComponent s # cs) = collapse (out @ [s]) cs"
| "collapse out (RootDir # cs) = collapse out cs"
| "collapse out (CurDir # cs) = collapse out cs"

definition normalize_lexical :: "rstr \<Rightarrow> rstr" where
  "normalize_lexical p =
     (let segs = collapse [] (path_components p) in
      if path_is_absolute p then 47 # join_slash segs else join_slash segs)"

text \<open>\<open>Path::ancestors\<close> after the path itself.\<close>

lemma join_slash_Cons: "ys \<noteq> [] \<Longrightarrow> join_slash (x # ys) = x @ 47 # join_slash ys"
  by (cases ys) simp_all

lemma split_join: "join_slash (split_slash acc p) = rev acc @ p"
  by (induction acc p rule: split_slash.induct) (simp_all add: join_slash_Cons)

lemma join_slash_append:
  "xs \<noteq> [] \<Longrightarrow> ys \<noteq> [] \<Longrightarrow> join_slash (xs @ ys) = join_slash xs @ 47 # join_slash ys"
  by (induction xs rule: join_slash.induct) (auto simp: neq_Nil_conv)

lemma join_slash_prefix: "length (join_slash xs) \<le> length (join_slash (xs @ ys))"
  by (cases "xs = []"; cases "ys = []") (simp_all add: join_slash_append)

lemma trim_prefix: "\<exists>ys. xs = trim_segments xs @ ys"
  unfolding trim_segments_def by (metis rev_append rev_rev_ident takeWhile_dropWhile_id)

lemma trim_length: "length (join_slash (trim_segments xs)) \<le> length (join_slash xs)"
  by (metis join_slash_prefix trim_prefix)

lemma trim_last: "trim_segments xs = ys @ [y] \<Longrightarrow> \<not> blank_segment y"
  by (metis hd_dropWhile last_rev last_snoc list.discI rev.simps(1) rev_rev_ident self_append_conv2 trim_segments_def
      append_is_Nil_conv)

text \<open>Dropping the last segment that is not blank leaves a shorter text.\<close>

lemma parent_shorter:
  assumes "trim_segments xs = body" "body \<noteq> []"
  shows "length (join_slash (trim_segments (butlast body))) < length (join_slash xs)"
proof -
  obtain ys y where body: "body = ys @ [y]" using assms(2) by (metis append_butlast_last_id)
  then have "0 < length y" using trim_last assms(1) by (fastforce simp: blank_segment_def)
  then have "length (join_slash ys) < length (join_slash body)"
    by (cases "ys = []") (simp_all add: body join_slash_append)
  also have "\<dots> \<le> length (join_slash xs)" using trim_length assms(1) by blast
  finally show ?thesis using trim_length [of ys] by (simp add: body)
qed

lemma path_parent_shorter:
  assumes "path_parent_dir p = Some q"
  shows "length q < length p"
proof -
  define segs where "segs = split_slash [] p"
  have p: "p = join_slash segs" "segs \<noteq> []" by (simp_all add: segs_def split_join)
  then obtain s rest where segs: "segs = s # rest" by (cases segs) auto
  have tail: "length (join_slash segs) = length s + (if rest = [] then 0 else Suc (length (join_slash rest)))"
    unfolding segs by (cases rest) simp_all
  have absolute: "s = []" if "path_is_absolute p"
    using that segs by (cases p) (auto simp: path_is_absolute_def segs_def)
  have nonempty: "rest \<noteq> []" if "path_is_absolute p"
    using absolute [OF that] that p(1) by (auto simp: path_is_absolute_def segs)
  note parent = assms [unfolded path_parent_dir_def segs_def [symmetric] Let_def segs, simplified]
  consider (absolute) "path_is_absolute p" | (dot) "\<not> path_is_absolute p" "s = lit ''.''"
    | (relative) "\<not> path_is_absolute p" "s \<noteq> lit ''.''" by blast
  then show ?thesis
  proof cases
    case absolute
    with parent obtain body where "trim_segments rest = body" "body \<noteq> []" "q = 47 # join_slash (trim_segments (butlast body))"
      by (auto split: list.splits)
    with parent_shorter [of rest body] nonempty [OF absolute] tail p(1) show ?thesis by simp
  next
    case dot
    show ?thesis
    proof (cases "trim_segments rest = []")
      case True
      with parent dot have "q = []" by simp
      then show ?thesis using tail p(1) dot(2) by (simp add: lit_def)
    next
      case False
      with parent dot have "q = join_slash (lit ''.'' # trim_segments (butlast (trim_segments rest)))"
        by (auto split: list.splits)
      moreover from False have "rest \<noteq> []" by (auto simp: trim_segments_def)
      ultimately show ?thesis
        using parent_shorter [OF refl False] tail p(1) dot(2)
        by (cases "trim_segments (butlast (trim_segments rest)) = []") (simp_all add: join_slash_Cons)
    qed
  next
    case relative
    with parent obtain body where "trim_segments segs = body" "body \<noteq> []" "q = join_slash (trim_segments (butlast body))"
      by (auto simp: segs split: list.splits)
    with parent_shorter [of segs body] p(1) show ?thesis by simp
  qed
qed

function ancestors :: "rstr \<Rightarrow> rstr list" where
  "ancestors p = (case path_parent_dir p of None \<Rightarrow> [] | Some q \<Rightarrow> q # ancestors q)"
  by pat_completeness auto
termination by (relation "measure length") (auto dest: path_parent_shorter)

declare ancestors.simps [simp del]

text \<open>\<open>strip_prefix\<close> of an ancestor leaves the components after it.\<close>

definition rest_below :: "rstr \<Rightarrow> rstr \<Rightarrow> path_component list" where
  "rest_below p ancestor = drop (length (path_components ancestor)) (path_components p)"

definition component_text :: "path_component \<Rightarrow> rstr" where
  "component_text c = (case c of RootDir \<Rightarrow> lit ''/'' | CurDir \<Rightarrow> lit ''.'' | ParentDir \<Rightarrow> lit ''..'' | NormalComponent s \<Rightarrow> s)"

definition reattach :: "rstr \<Rightarrow> path_component list \<Rightarrow> rstr" where
  "reattach base rest = normalize_lexical (path_join base (join_slash (map component_text rest)))"

fun resolve_ancestor :: "file_world \<Rightarrow> rstr \<Rightarrow> rstr list \<Rightarrow> rstr" where
  "resolve_ancestor W p [] = normalize_lexical p"
| "resolve_ancestor W p (a # as) =
     (case fw_canonical W a of
        Some base \<Rightarrow> reattach base (rest_below p a)
      | None \<Rightarrow> resolve_ancestor W p as)"

definition secure_resolve :: "file_world \<Rightarrow> rstr \<Rightarrow> rstr" where
  "secure_resolve W p = (case fw_canonical W p of Some c \<Rightarrow> c | None \<Rightarrow> resolve_ancestor W p (ancestors p))"

definition resolve_for_write :: "file_world \<Rightarrow> rstr \<Rightarrow> rstr" where
  "resolve_for_write W p = secure_resolve W (normalize_lexical p)"

text \<open>\<open>Path::file_name\<close> and \<open>Path::extension\<close>: a name that only starts with a dot has no extension.\<close>

definition file_name :: "rstr \<Rightarrow> rstr option" where
  "file_name p = (case rev (path_components p) of NormalComponent s # _ \<Rightarrow> Some s | _ \<Rightarrow> None)"

definition path_extension :: "rstr \<Rightarrow> rstr option" where
  "path_extension p =
     (case file_name p of
        None \<Rightarrow> None
      | Some name \<Rightarrow>
          let ext = rev (takeWhile (\<lambda>c. c \<noteq> 46) (rev name)) in
          if length name \<le> Suc (length ext) then None else Some ext)"

definition OPERATOR_CAPABILITY_EXTENSION :: rstr where
  "OPERATOR_CAPABILITY_EXTENSION = lit ''operator-cap''"

definition is_operator_capability_file :: "rstr \<Rightarrow> bool" where
  "is_operator_capability_file p =
     (case path_extension p of
        None \<Rightarrow> False
      | Some ext \<Rightarrow> ascii_lower ext = ascii_lower OPERATOR_CAPABILITY_EXTENSION)"

definition resolve_path :: "file_world \<Rightarrow> rstr \<Rightarrow> rstr" where
  "resolve_path W p = (if path_is_absolute p then p else path_join (current_dir W) p)"

definition is_path_allowed :: "file_world \<Rightarrow> tool_context \<Rightarrow> rstr \<Rightarrow> bool \<Rightarrow> bool" where
  "is_path_allowed W ctx p wr =
     (let candidate = secure_resolve W p;
          roots = (if wr then tc_allowed_write_roots ctx else tc_allowed_read_roots ctx)
      in if is_operator_capability_file candidate then False
         else if roots = [] then True
         else list_ex (\<lambda>root. path_starts_with candidate (secure_resolve W root)) roots)"

section \<open>The pipeline\<close>

datatype fs_effect =
    CreateDirs rstr
  | WriteFile rstr rstr
  | SetPermissions rstr
  | RenameFile rstr rstr
  | RemoveFile rstr

text \<open>What running a tool yields: its result, or the timeout elapses first; and what it did to the disk.\<close>

datatype tool_run = ToolReturned "tool_error + tool_result" | ToolTimedOut

record dynamic_tool =
  dt_id :: rstr
  dt_params :: "tool_param list"
  dt_capabilities :: "capability list"
  dt_validate :: "json \<Rightarrow> tool_error + unit"
  dt_execute :: "json \<Rightarrow> tool_context \<Rightarrow> tool_run \<times> fs_effect list"

definition json_get :: "rstr \<Rightarrow> json \<Rightarrow> json option" where
  "json_get k v = (case v of JObject m \<Rightarrow> map_of m k | _ \<Rightarrow> None)"

definition json_str :: "rstr \<Rightarrow> json \<Rightarrow> rstr option" where
  "json_str k v = (case json_get k v of Some (JString s) \<Rightarrow> Some s | _ \<Rightarrow> None)"

definition json_bool :: "rstr \<Rightarrow> json \<Rightarrow> bool option" where
  "json_bool k v = (case json_get k v of Some (JBool b) \<Rightarrow> Some b | _ \<Rightarrow> None)"

definition digits_value :: "rstr \<Rightarrow> nat" where
  "digits_value s = foldl (\<lambda>n c. 10 * n + (c - 48)) 0 s"

definition json_u64 :: "rstr \<Rightarrow> json \<Rightarrow> nat option" where
  "json_u64 k v =
     (case json_get k v of
        Some (JNumber s) \<Rightarrow> if s \<noteq> [] \<and> list_all is_ascii_digit s \<and> digits_value s \<le> u64_max then Some (digits_value s) else None
      | _ \<Rightarrow> None)"

definition path_param_allowed :: "file_world \<Rightarrow> tool_context \<Rightarrow> bool \<Rightarrow> bool \<Rightarrow> rstr \<Rightarrow> bool" where
  "path_param_allowed W ctx needs_read needs_write resolved =
     (if needs_read \<and> needs_write then is_path_allowed W ctx resolved False \<or> is_path_allowed W ctx resolved True
      else if needs_write then is_path_allowed W ctx resolved True
      else is_path_allowed W ctx resolved False)"

definition validate_paths ::
    "file_world \<Rightarrow> tool_param list \<Rightarrow> json \<Rightarrow> tool_context \<Rightarrow> capability list \<Rightarrow> tool_error + unit" where
  "validate_paths W params v ctx caps =
     (let needs_read = FileSystemRead \<in> set caps; needs_write = FileSystemWrite \<in> set caps in
      if \<not> needs_read \<and> \<not> needs_write then Inr ()
      else checks (map (\<lambda>p.
        if tp_type p \<noteq> FilePathParam then Inr ()
        else case json_str (tp_name p) v of
            None \<Rightarrow> Inr ()
          | Some s \<Rightarrow> ensure (path_param_allowed W ctx needs_read needs_write (resolve_path W s))
              (PathNotAllowed (resolve_path W s))) params))"

text \<open>Replacing a key of the metadata map.\<close>

definition put_metadata :: "string \<Rightarrow> rstr \<Rightarrow> tool_result \<Rightarrow> tool_result" where
  "put_metadata k v r = r\<lparr>tr_metadata := (lit k, v) # filter (\<lambda>e. fst e \<noteq> lit k) (tr_metadata r)\<rparr>"

definition enforce_artifact_limit :: "(json \<Rightarrow> rstr) \<Rightarrow> tool_result \<Rightarrow> tool_context \<Rightarrow> tool_result" where
  "enforce_artifact_limit show_json r ctx =
     (if tc_max_artifacts ctx < length (tr_artifacts r)
      then let dropped = drop (tc_max_artifacts ctx) (tr_artifacts r) in
        put_metadata ''artifacts_dropped'' (show_json (JArray (map JString dropped)))
          (put_metadata ''artifacts_truncated'' (lit ''true'')
            (r\<lparr>tr_artifacts := take (tc_max_artifacts ctx) (tr_artifacts r)\<rparr>))
      else r)"

text \<open>\<open>String::from_utf8_lossy\<close>: each maximal ill-formed prefix becomes one replacement character.\<close>

fun from_utf8_lossy :: "nat list \<Rightarrow> rstr" where
  "from_utf8_lossy [] = []"
| "from_utf8_lossy (b # bs) =
     (if b < 128 then b # from_utf8_lossy bs
      else if 194 \<le> b \<and> b \<le> 223 then
        (case bs of
           c # rest \<Rightarrow> if is_cont c then ((b - 192) * 64 + (c - 128)) # from_utf8_lossy rest else 65533 # from_utf8_lossy bs
         | [] \<Rightarrow> [65533])
      else if 224 \<le> b \<and> b \<le> 239 then
        (case bs of
           c # rest \<Rightarrow>
             if \<not> second_ok b c then 65533 # from_utf8_lossy bs
             else (case rest of
                 d # rest' \<Rightarrow> if is_cont d then ((b - 224) * 4096 + (c - 128) * 64 + (d - 128)) # from_utf8_lossy rest'
                   else 65533 # from_utf8_lossy rest
               | [] \<Rightarrow> [65533])
         | [] \<Rightarrow> [65533])
      else if 240 \<le> b \<and> b \<le> 244 then
        (case bs of
           c # rest \<Rightarrow>
             if \<not> second_ok b c then 65533 # from_utf8_lossy bs
             else (case rest of
                 d # rest' \<Rightarrow>
                   if \<not> is_cont d then 65533 # from_utf8_lossy rest
                   else (case rest' of
                       e # rest'' \<Rightarrow> if is_cont e
                         then ((b - 240) * 262144 + (c - 128) * 4096 + (d - 128) * 64 + (e - 128)) # from_utf8_lossy rest''
                         else 65533 # from_utf8_lossy rest'
                     | [] \<Rightarrow> [65533])
               | [] \<Rightarrow> [65533])
         | [] \<Rightarrow> [65533])
      else 65533 # from_utf8_lossy bs)"

definition enforce_output_limit :: "(json \<Rightarrow> rstr + nat list) \<Rightarrow> tool_result \<Rightarrow> tool_context \<Rightarrow> tool_error + tool_result" where
  "enforce_output_limit to_vec r ctx =
     (case to_vec (tr_output r) of
        Inl e \<Rightarrow> Inl (ToolJson e)
      | Inr serialized \<Rightarrow>
          if length serialized \<le> tc_max_output_bytes ctx then Inr r
          else
            let preview = from_utf8_lossy (take (tc_max_output_bytes ctx) serialized);
                remainder = lit ''not included; '' @ dec (length serialized - tc_max_output_bytes ctx) @ lit '' bytes'';
                limited = JObject ([(lit ''truncated'', JBool True), (lit ''preview'', JString preview),
                    (lit ''original_bytes'', JNumber (dec (length serialized))), (lit ''remainder'', JString remainder)] @
                  (case tr_artifacts r of [] \<Rightarrow> [] | p # _ \<Rightarrow> [(lit ''path'', JString p)]))
            in Inr (put_metadata ''remainder'' remainder (put_metadata ''original_output_bytes'' (dec (length serialized))
                 (put_metadata ''output_truncated'' (lit ''true'') (r\<lparr>tr_output := limited\<rparr>)))))"

text \<open>The JSON writer and the measured duration of a call.\<close>

record tool_env =
  te_show_json :: "json \<Rightarrow> rstr"
  te_to_vec :: "json \<Rightarrow> rstr + nat list"
  te_duration_ms :: nat

definition finish_tool :: "tool_env \<Rightarrow> tool_context \<Rightarrow> tool_run \<Rightarrow> tool_error + tool_result" where
  "finish_tool V ctx run =
     (case run of
        ToolTimedOut \<Rightarrow> Inl (ToolTimeout (tc_timeout_ms ctx))
      | ToolReturned res \<Rightarrow> and_then res (\<lambda>r.
          and_then (enforce_output_limit (te_to_vec V) (enforce_artifact_limit (te_show_json V) r ctx) ctx) (\<lambda>r.
            Inr (put_metadata ''execution_origin'' (lit (origin_as_str (tc_execution_origin ctx)))
              (put_metadata ''duration_ms'' (dec (te_duration_ms V)) r)))))"

definition execute_tool ::
    "tool_env \<Rightarrow> file_world \<Rightarrow> dynamic_tool \<Rightarrow> json \<Rightarrow> tool_context \<Rightarrow> (tool_error + tool_result) \<times> fs_effect list" where
  "execute_tool V W tool v ctx =
     (case and_then (checks (map (\<lambda>cap. ensure (has_capability ctx cap) (MissingCapability cap)) (dt_capabilities tool)))
        (\<lambda>_. and_then (dt_validate tool v) (\<lambda>_. validate_paths W (dt_params tool) v ctx (dt_capabilities tool))) of
        Inl e \<Rightarrow> (Inl e, [])
      | Inr _ \<Rightarrow> (case dt_execute tool v ctx of (run, effects) \<Rightarrow> (finish_tool V ctx run, effects)))"

definition execute_registered ::
    "tool_env \<Rightarrow> file_world \<Rightarrow> (rstr \<times> dynamic_tool) list \<Rightarrow> rstr \<Rightarrow> json \<Rightarrow> tool_context \<Rightarrow>
     (tool_error + tool_result) \<times> fs_effect list" where
  "execute_registered V W registry i v ctx =
     (case map_of registry i of
        None \<Rightarrow> (Inl (ToolNotFound i), [])
      | Some tool \<Rightarrow> execute_tool V W tool v ctx)"

definition register_tool :: "dynamic_tool \<Rightarrow> (rstr \<times> dynamic_tool) list \<Rightarrow> tool_error + (rstr \<times> dynamic_tool) list" where
  "register_tool tool registry =
     (if map_of registry (dt_id tool) \<noteq> None then Inl (AlreadyRegistered (dt_id tool))
      else Inr ((dt_id tool, tool) # registry))"

section \<open>Reading a file\<close>

definition MAX_FILE_BYTES :: nat where
  "MAX_FILE_BYTES = 1000000"

definition missing_path :: tool_error where
  "missing_path = InvalidParams (lit ''missing '' @ [39] @ lit ''path'' @ [39])"

definition validate_path_param :: "json \<Rightarrow> tool_error + unit" where
  "validate_path_param v =
     (case json_str (lit ''path'') v of
        Some p \<Rightarrow> ensure (trim p \<noteq> []) missing_path
      | None \<Rightarrow> Inl missing_path)"

definition read_file :: "file_world \<Rightarrow> json \<Rightarrow> tool_context \<Rightarrow> tool_error + tool_result" where
  "read_file W v ctx =
     and_then (ok_or (json_str (lit ''path'') v) missing_path) (\<lambda>path_str.
       let start_line = max 1 (case json_u64 (lit ''start_line'') v of Some n \<Rightarrow> n | None \<Rightarrow> 1);
           max_lines = (case json_u64 (lit ''max_lines'') v of Some n \<Rightarrow> n | None \<Rightarrow> 200);
           path = resolve_path W path_str
       in if \<not> is_path_allowed W ctx path False then Inl (PathNotAllowed path)
          else if \<not> fw_exists W path then Inl (ExecutionFailed (lit ''File not found: '' @ path_str))
          else case fw_size W path of
            Inl e \<Rightarrow> Inl (ExecutionFailed (lit ''Cannot stat file: '' @ e))
          | Inr len \<Rightarrow>
              if MAX_FILE_BYTES < len then Inr (json_result (JObject
                [(lit ''path'', JString path_str), (lit ''error'', JString (lit ''File too large'')),
                 (lit ''size_bytes'', JNumber (dec len)), (lit ''max_bytes'', JNumber (dec MAX_FILE_BYTES)),
                 (lit ''hint'', JString (lit ''Use start_line and max_lines to read a portion''))]))
              else case fw_read W path of
                Inl e \<Rightarrow> Inl (ExecutionFailed (lit ''Failed to read file: '' @ e))
              | Inr content \<Rightarrow>
                  let all_lines = lines_of content; total = length all_lines;
                      start = min (start_line - 1) total;
                      stop = min (saturating_add_u64 start max_lines) total;
                      lines = take (stop - start) (drop start all_lines)
                  in Inr (json_result (JObject
                    [(lit ''path'', JString path_str), (lit ''content'', JString (join [10] lines)),
                     (lit ''start_line'', JNumber (dec start_line)), (lit ''lines_returned'', JNumber (dec (length lines))),
                     (lit ''total_lines'', JNumber (dec total)), (lit ''truncated'', JBool (stop < total)),
                     (lit ''size_bytes'', JNumber (dec len))])))"

definition optional_param :: "string \<Rightarrow> param_type \<Rightarrow> json \<Rightarrow> tool_param" where
  "optional_param name ty def = \<lparr>tp_name = lit name, tp_type = ty, tp_required = False, tp_default = Some def\<rparr>"

definition required_param :: "string \<Rightarrow> param_type \<Rightarrow> tool_param" where
  "required_param name ty = \<lparr>tp_name = lit name, tp_type = ty, tp_required = True, tp_default = None\<rparr>"

definition file_read_tool :: "file_world \<Rightarrow> dynamic_tool" where
  "file_read_tool W =
     \<lparr>dt_id = lit ''file_read'',
      dt_params = [required_param ''path'' FilePathParam, optional_param ''start_line'' IntegerParam (JNumber (dec 1)),
        optional_param ''max_lines'' IntegerParam (JNumber (dec 200))],
      dt_capabilities = [FileSystemRead], dt_validate = validate_path_param,
      dt_execute = (\<lambda>v ctx. (ToolReturned (read_file W v ctx), []))\<rparr>"

section \<open>Writing a file\<close>

text \<open>What the system calls of one write answer, and the token of its temporary file.\<close>

record write_io =
  wi_create_dirs :: "rstr + unit"
  wi_token :: rstr
  wi_write :: "rstr + unit"
  wi_has_mode :: bool
  wi_set_mode :: "rstr + unit"
  wi_rename :: "rstr + unit"

definition temp_path_of :: "write_io \<Rightarrow> rstr \<Rightarrow> rstr \<Rightarrow> rstr" where
  "temp_path_of io parent path =
     path_join parent (lit ''.'' @ (case file_name path of Some n \<Rightarrow> n | None \<Rightarrow> lit ''file_write'') @ lit ''.tmp.'' @ wi_token io)"

definition place_file :: "write_io \<Rightarrow> rstr \<Rightarrow> rstr \<Rightarrow> rstr \<Rightarrow> (tool_error + tool_result) \<times> fs_effect list" where
  "place_file io temp path content =
     (case wi_write io of
        Inl e \<Rightarrow> (Inl (ExecutionFailed (lit ''failed to write temp file: '' @ e)), [WriteFile temp content, RemoveFile temp])
      | Inr _ \<Rightarrow>
          let mode = (if wi_has_mode io then [SetPermissions temp] else []) in
          (case (if wi_has_mode io then wi_set_mode io else Inr ()) of
             Inl e \<Rightarrow> (Inl (ExecutionFailed (lit ''failed to keep the existing file'' @ [39] @ lit ''s permissions: '' @ e)),
               [WriteFile temp content] @ mode @ [RemoveFile temp])
           | Inr _ \<Rightarrow> (case wi_rename io of
                 Inl e \<Rightarrow> (Inl (ExecutionFailed (lit ''failed to rename temp file into place: '' @ e)),
                   [WriteFile temp content] @ mode @ [RenameFile temp path, RemoveFile temp])
               | Inr _ \<Rightarrow> (Inr (json_result (JObject [(lit ''path'', JString path),
                     (lit ''bytes_written'', JNumber (dec (byte_len content)))])),
                   [WriteFile temp content] @ mode @ [RenameFile temp path]))))"

definition write_target :: "file_world \<Rightarrow> json \<Rightarrow> tool_context \<Rightarrow> tool_error + (rstr \<times> rstr \<times> rstr)" where
  "write_target W v ctx =
     and_then (ok_or (json_str (lit ''path'') v) missing_path) (\<lambda>path_str.
     and_then (ok_or (json_str (lit ''content'') v) (InvalidParams (lit ''missing '' @ [39] @ lit ''content'' @ [39]))) (\<lambda>content.
       let path = resolve_for_write W (resolve_path W path_str) in
       and_then (ensure (is_path_allowed W ctx path True) (PathNotAllowed path)) (\<lambda>_.
       and_then (ok_or (path_parent_dir path)
         (ExecutionFailed (lit ''path has no parent directory: '' @ path_str))) (\<lambda>parent.
       and_then (ensure (is_path_allowed W ctx parent True) (PathNotAllowed path)) (\<lambda>_.
       and_then (ensure (\<not> fw_is_dir W path) (InvalidParams (path @ lit '' is a directory''))) (\<lambda>_.
         Inr (path, parent, content)))))))"

definition write_file :: "file_world \<Rightarrow> write_io \<Rightarrow> json \<Rightarrow> tool_context \<Rightarrow> (tool_error + tool_result) \<times> fs_effect list" where
  "write_file W io v ctx =
     (case write_target W v ctx of
        Inl e \<Rightarrow> (Inl e, [])
      | Inr (path, parent, content) \<Rightarrow>
          let create_dirs = (case json_bool (lit ''create_dirs'') v of Some b \<Rightarrow> b | None \<Rightarrow> True);
              temp = temp_path_of io parent path
          in if create_dirs then
               (case wi_create_dirs io of
                  Inl e \<Rightarrow> (Inl (ExecutionFailed (lit ''failed to create parent directories: '' @ e)), [CreateDirs parent])
                | Inr _ \<Rightarrow> (case place_file io temp path content of (res, fx) \<Rightarrow> (res, CreateDirs parent # fx)))
             else if \<not> fw_exists W parent
               then (Inl (ExecutionFailed (lit ''parent directory does not exist: '' @ parent)), [])
             else place_file io temp path content)"

definition validate_write_params :: "json \<Rightarrow> tool_error + unit" where
  "validate_write_params v =
     and_then (validate_path_param v) (\<lambda>_.
       ensure (json_str (lit ''content'') v \<noteq> None) (InvalidParams (lit ''missing '' @ [39] @ lit ''content'' @ [39] @ lit '' string'')))"

definition file_write_tool :: "file_world \<Rightarrow> write_io \<Rightarrow> dynamic_tool" where
  "file_write_tool W io =
     \<lparr>dt_id = lit ''file_write'',
      dt_params = [required_param ''path'' FilePathParam, required_param ''content'' StringParam,
        optional_param ''create_dirs'' BoolParam (JBool True)],
      dt_capabilities = [FileSystemWrite], dt_validate = validate_write_params,
      dt_execute = (\<lambda>v ctx. case write_file W io v ctx of (res, fx) \<Rightarrow> (ToolReturned res, fx))\<rparr>"

end
