(* ===== verification/Ion_Gate_Machine.thy ===== *)
theory Ion_Gate_Machine
  imports Ion_Gate
begin

text \<open>
  What the confirmation gate guarantees.  A verdict blocks exactly when one of its sources does, so a
  dangerous call runs only on the literal answer; output that looks like instructions makes every later
  call dangerous until the session is cleared; and a write replaces only a version the session has seen.
\<close>

section \<open>Blocking verdicts\<close>

definition blocks :: "guard_result option \<Rightarrow> bool" where
  "blocks v \<longleftrightarrow> (case v of Some r \<Rightarrow> gs_action r = Block | None \<Rightarrow> False)"

lemma blocks_simps [simp]: "blocks None = False" "blocks (Some r) = (gs_action r = Block)"
  by (simp_all add: blocks_def)

lemma verdict_rank_blocks: "verdict_rank v = 3 \<longleftrightarrow> blocks v" "verdict_rank v \<le> 3"
  by (cases v; cases "gs_action (the v)"; simp add: verdict_rank_def)+

lemma blocks_most_severe [simp]: "blocks (most_severe_verdict a b) \<longleftrightarrow> blocks a \<or> blocks b"
  using verdict_rank_blocks [of a] verdict_rank_blocks [of b] by (auto simp: most_severe_verdict_def)

lemma decide_approval_iff:
  "decide_approval v line \<longleftrightarrow>
     (if blocks v then trim line = lit ''CONFIRM'' else ascii_lower (trim line) \<in> {lit ''y'', lit ''yes''})"
  by (simp add: decide_approval_def blocks_def)

lemma sandbox_escape_blocks [simp]:
  "blocks (sandbox_escape_verdict W paths ctx wr) \<longleftrightarrow> (\<exists>p \<in> set paths. \<not> is_path_allowed W ctx p wr)"
  by (auto simp: sandbox_escape_verdict_def Let_def filter_empty_conv)

lemma bash_command_blocks [simp]:
  "blocks (bash_command_verdict W command ctx) \<longleftrightarrow> bash_command_escape_candidates W command ctx \<noteq> []"
  by (simp add: bash_command_verdict_def Let_def)

text \<open>A rule of the built-in set stops a text, as long as all built-in patterns compile.\<close>

definition builtins_compile :: "(rstr \<Rightarrow> rstr + regex) \<Rightarrow> bool" where
  "builtins_compile compile \<longleftrightarrow> (\<forall>r \<in> set builtin_rules. \<exists>re. compile (gr_pattern r) = Inr re)"

lemma builtins_enabled: "r \<in> set builtin_rules \<Longrightarrow> gr_enabled r"
  using merge_enabled [of r default_guard_config] by (simp add: default_merge)

lemma default_engine:
  assumes "builtins_compile compile"
  obtains engine where "new_engine compile (merge_rules default_guard_config) = Inr engine"
  using assms new_engine_ok [of compile builtin_rules] by (auto simp: builtins_compile_def default_merge)

lemma guard_scan_some:
  assumes "builtins_compile compile"
  shows "guard_scan compile target s default_guard_config \<noteq> None \<longleftrightarrow>
    (\<exists>r \<in> set builtin_rules. rule_matches compile s target r)"
proof -
  obtain engine where engine: "new_engine compile builtin_rules = Inr engine"
    using default_engine [OF assms] by (auto simp: default_merge)
  have "guard_scan compile target s default_guard_config \<noteq> None \<longleftrightarrow> set (evaluate engine s target) \<noteq> {}"
    by (simp add: guard_scan_def default_merge engine split: list.split)
  then show ?thesis using builtins_enabled by (auto simp: evaluate_set [OF engine])
qed

lemma guard_scan_blocks:
  assumes "builtins_compile compile"
  shows "blocks (guard_scan compile target s default_guard_config) \<longleftrightarrow>
    (\<exists>r \<in> set builtin_rules. gr_action r = Block \<and> rule_matches compile s target r)"
proof -
  obtain engine where engine: "new_engine compile builtin_rules = Inr engine"
    using default_engine [OF assms] by (auto simp: default_merge)
  have "blocks (guard_scan compile target s default_guard_config) \<longleftrightarrow> has_blocking (evaluate engine s target)"
  proof (cases "evaluate engine s target")
    case (Cons r rs)
    then have "gs_action r = Block" if "has_blocking (evaluate engine s target)"
      using blocking_first [OF that] by auto
    with Cons show ?thesis by (auto simp: guard_scan_def default_merge engine has_blocking_def)
  qed (simp add: guard_scan_def default_merge engine has_blocking_def)
  then show ?thesis
    using builtins_enabled by (auto simp: has_blocking_def list_ex_iff evaluate_set [OF engine] result_of_rule_def)
qed

section \<open>What makes a call dangerous\<close>

definition dangerous :: "ion_env \<Rightarrow> file_world \<Rightarrow> rstr \<Rightarrow> json \<Rightarrow> ion_session \<Rightarrow> bool" where
  "dangerous E W name input s \<longleftrightarrow>
     is_untrusted_seen s \<or>
     (\<exists>p \<in> set (resolved_paths_for W name input). \<not> is_path_allowed W (sandbox_tool_context W (ie_home E) (is_context s)) p
        (name = lit ''file_write'' \<or> name = lit ''bash_exec'')) \<or>
     blocks (guard_verdict_for (ie_compile E) name input default_guard_config) \<or>
     (name = lit ''bash_exec'' \<and> (\<exists>command. json_str (lit ''command'') input = Some command \<and>
        bash_command_escape_candidates W command (sandbox_tool_context W (ie_home E) (is_context s)) \<noteq> []))"

lemma call_verdict_blocks: "blocks (call_verdict E W name input s) \<longleftrightarrow> dangerous E W name input s"
  by (auto simp: call_verdict_def dangerous_def Let_def untrusted_seen_verdict_def split: option.splits)

lemma execute_ran:
  assumes "execute_call E io name input s = (res, s', True)"
  obtains tool where "gate_call E io name input s = None" "ie_tools E name = Some tool"
    "after_run E io name input (tool input (is_context s)) s = (res, s')"
  using assms by (auto simp: execute_call_def split: option.splits prod.splits)

lemma gate_passed:
  assumes "gate_call E io name input s = None" "name \<in> set CONFIRMATION_REQUIRED_TOOLS"
  shows "ci_confirm io name input (call_verdict E (vw_files (ci_before io)) name input s)
      (resolved_paths_for (vw_files (ci_before io)) name input)"
    "stale_write (ci_prompted io) name (tracked_path_of (vw_files (ci_before io)) name input) s = None"
  using assms by (auto simp: gate_call_def Let_def split: option.splits if_splits)

lemma confirmed_answer:
  assumes "confirm_via_stdin c name input v paths"
  obtains line where "co_line c = Some line" "decide_approval v line"
  using assms by (auto simp: confirm_via_stdin_def split: if_splits option.splits)

lemma ran_answer:
  assumes "execute_call E io name input s = (res, s', True)" "name \<in> set CONFIRMATION_REQUIRED_TOOLS"
    "ci_confirm io = confirm_via_stdin c"
  obtains line where "co_line c = Some line"
    "if dangerous E (vw_files (ci_before io)) name input s then trim line = lit ''CONFIRM''
     else ascii_lower (trim line) \<in> {lit ''y'', lit ''yes''}"
proof -
  from assms(1) have "gate_call E io name input s = None" by (rule execute_ran)
  from gate_passed(1) [OF this assms(2)] obtain line where "co_line c = Some line"
    "decide_approval (call_verdict E (vw_files (ci_before io)) name input s) line"
    unfolding assms(3) by (rule confirmed_answer)
  then show thesis by (intro that) (auto simp: decide_approval_iff call_verdict_blocks)
qed

section \<open>Sequences of calls\<close>

datatype session_op = ToolCall call_io rstr json | AllowPath file_world "rstr option" "rstr list"

definition session_step :: "ion_env \<Rightarrow> ion_session \<Rightarrow> session_op \<Rightarrow> unit + ion_session" where
  "session_step E s op =
     (case op of
        ToolCall io name input \<Rightarrow> (case execute_call E io name input s of (_, s', _) \<Rightarrow> Inr s')
      | AllowPath W home args \<Rightarrow> Inr (s\<lparr>is_context := snd (apply_allow W home args (is_context s))\<rparr>))"

lemma observe_fields [simp]:
  "is_context (observe E c s) = is_context s" "is_file_versions (observe E c s) = is_file_versions s"
  "is_untrusted_seen s \<Longrightarrow> is_untrusted_seen (observe E c s)"
  by (simp_all add: observe_def)

lemma finish_fields:
  assumes "finish_result E io raw s = (c, s')"
  shows "is_context s' = is_context s" "is_file_versions s' = is_file_versions s" "is_untrusted_seen s \<Longrightarrow> is_untrusted_seen s'"
  using assms by (auto simp: finish_result_def Let_def split: spill_outcome.splits)

lemma fetched_fields [simp]:
  "is_file_versions (observe_fetched_entry E io t s) = is_file_versions s"
  "is_untrusted_seen s \<Longrightarrow> is_untrusted_seen (observe_fetched_entry E io t s)"
  by (simp_all add: observe_fetched_entry_def split: option.split)

lemma after_run_untrusted:
  assumes "after_run E io name input answer s = (res, s')" "is_untrusted_seen s"
  shows "is_untrusted_seen s'"
  using assms
  by (auto simp: after_run_def Let_def split: sum.splits prod.splits if_splits option.splits
      dest!: finish_fields(3))

lemma step_untrusted: "is_untrusted_seen s \<Longrightarrow> session_step E s op = Inr s' \<Longrightarrow> is_untrusted_seen s'"
  by (auto simp: session_step_def execute_call_def after_run_untrusted split: session_op.splits option.splits prod.splits)

interpretation untrusted: invariant_machine "session_step E" is_untrusted_seen for E
  by unfold_locales (rule step_untrusted)

text \<open>Scanned output that a rule matches raises the flag.\<close>

lemma observed_match:
  assumes "builtins_compile (ie_compile E)" "r \<in> set builtin_rules" "rule_matches (ie_compile E) raw ToolCallTarget r"
  shows "is_untrusted_seen (observe E raw s)"
  using assms guard_scan_some [of "ie_compile E" ToolCallTarget raw] by (auto simp: observe_def)

lemma run_output_seen:
  assumes "execute_call E io name input s = (res, s', True)" "ie_tools E name = Some tool"
    "tool input (is_context s) = Inr outcome" "ci_spill io = SpillInline \<or> (\<exists>reference. ci_spill io = Spilled reference)"
    "builtins_compile (ie_compile E)" "r \<in> set builtin_rules"
    "rule_matches (ie_compile E) (raw_tool_result_content E outcome) ToolCallTarget r"
  shows "is_untrusted_seen s'"
  using assms(1-4) observed_match [OF assms(5-7)]
  by (auto simp: execute_call_def after_run_def Let_def finish_result_def
      split: option.splits prod.splits if_splits)

section \<open>Where a recorded version comes from\<close>

text \<open>A call of the history that saw a file: a whole-file read or a write that succeeded, with the version the
  file had right after it.\<close>

definition saw_version :: "ion_env \<Rightarrow> session_op \<Rightarrow> rstr \<Rightarrow> file_version option \<Rightarrow> bool" where
  "saw_version E op k v \<longleftrightarrow>
     (\<exists>io name input tool ctx outcome p. op = ToolCall io name input \<and> ie_tools E name = Some tool \<and>
        tool input ctx = Inr outcome \<and> oc_ok outcome \<and>
        (name = lit ''file_write'' \<or> name = lit ''file_read'' \<and> read_whole_file (oc_payload outcome)) \<and>
        tracked_path_of (vw_files (ci_before io)) name input = Some p \<and> k = version_key (ci_after io) p \<and>
        v = vw_metadata (ci_after io) k)"

lemma recorded_entry:
  assumes "(k, v) \<in> set (record_version V p vs)"
  shows "(k, v) \<in> set vs \<or> k = version_key V p \<and> v = vw_metadata V k"
  using assms by (auto simp: record_version_def Let_def)

lemma tracked_names: "tracked_path_of W name input = Some p \<Longrightarrow> name = lit ''file_read'' \<or> name = lit ''file_write''"
  by (simp add: tracked_path_of_def split: if_splits)

lemma step_versions:
  assumes "session_step E s op = Inr s'" "(k, v) \<in> set (is_file_versions s')"
  shows "(k, v) \<in> set (is_file_versions s) \<or> saw_version E op k v"
proof (cases op)
  case (ToolCall io name input)
  with assms(1) obtain res ran' where call: "execute_call E io name input s = (res, s', ran')"
    by (auto simp: session_step_def split: prod.splits)
  show ?thesis
  proof (cases ran')
    case False
    with call assms(2) show ?thesis by (auto simp: execute_call_def split: option.splits prod.splits)
  next
    case True
    with call obtain tool where tool: "ie_tools E name = Some tool"
      "after_run E io name input (tool input (is_context s)) s = (res, s')" by (auto elim: execute_ran)
    show ?thesis
    proof (cases "tool input (is_context s)")
      case (Inl e)
      with tool(2) assms(2) show ?thesis by (auto simp: after_run_def Let_def split: prod.splits dest!: finish_fields(2))
    next
      case (Inr outcome)
      let ?tracked = "tracked_path_of (vw_files (ci_before io)) name input"
      have "is_file_versions s' = (if oc_ok outcome \<and> (name \<noteq> lit ''file_read'' \<or> read_whole_file (oc_payload outcome))
          then (case ?tracked of Some p \<Rightarrow> record_version (ci_after io) p (is_file_versions s) | None \<Rightarrow> is_file_versions s)
          else is_file_versions s)"
        using tool(2) Inr
        by (auto simp: after_run_def Let_def split: prod.splits if_splits option.splits dest!: finish_fields(2))
      with assms(2) ToolCall tool(1) Inr show ?thesis
        by (auto simp: saw_version_def split: if_splits option.splits dest!: recorded_entry dest: tracked_names)
    qed
  qed
next
  case (AllowPath W home args)
  with assms show ?thesis by (auto simp: session_step_def)
qed

lemma session_versions:
  "(k, v) \<in> set (is_file_versions (serve (session_step E) s ops)) \<Longrightarrow>
     (k, v) \<in> set (is_file_versions s) \<or> (\<exists>op \<in> set ops. saw_version E op k v)"
proof (induction ops arbitrary: s)
  case (Cons op ops)
  then have "(k, v) \<in> set (is_file_versions (attempt (session_step E) s op)) \<or> (\<exists>op \<in> set ops. saw_version E op k v)"
    by (metis serve.simps(2))
  then show ?case
    by (cases rule: attempt_cases [of "session_step E" s op]) (auto dest: step_versions)
qed simp

lemma lookup_version_entry: "lookup_version key vs = Some v \<Longrightarrow> \<exists>k. (k, v) \<in> set vs \<and> path_eq k key"
  by (induction vs) (auto simp: lookup_version_def split: if_splits)

lemma write_passes:
  assumes "stale_write V (lit ''file_write'') (Some p) s = None" "vw_present V (version_key V p)"
  shows "lookup_version (version_key V p) (is_file_versions s) = Some (vw_metadata V (version_key V p))"
  using assms by (auto simp: stale_write_def write_refusal_def Let_def split: option.splits if_splits)

end
