(* ===== verification/Sandbox_Properties.thy ===== *)
theory Sandbox_Properties
  imports Ion_Gate_Machine
begin

text \<open>
  The path sandbox: a resolved path has no parent component left, and everything \<open>file_write\<close> does to the
  disk is to the checked path, its checked parent or a temporary file in that parent.
\<close>

section \<open>Components of a normalized path\<close>

lemma split_slash_no_slash: "47 \<notin> set acc \<Longrightarrow> s \<in> set (split_slash acc p) \<Longrightarrow> 47 \<notin> set s"
  by (induction acc p rule: split_slash.induct) (auto split: if_splits)

lemma split_slash_join:
  "list_all plain_segment segs \<Longrightarrow> segs \<noteq> [] \<Longrightarrow> split_slash [] (join_slash segs) = segs"
  by (induction segs rule: join_slash.induct) (auto simp: plain_segment_def split_slash_segment split_slash_append)

lemma normal_component_plain:
  assumes "NormalComponent s \<in> set (path_components p)"
  shows "plain_segment s"
  using assms split_slash_no_slash [of "[]" s p]
  by (auto simp: path_components_def Let_def component_of_def plain_segment_def split: if_splits)

lemma collapse_plain:
  "list_all plain_segment out \<Longrightarrow> (\<And>s. NormalComponent s \<in> set cs \<Longrightarrow> plain_segment s) \<Longrightarrow>
     list_all plain_segment (collapse out cs)"
proof (induction out cs rule: collapse.induct)
  case (2 out cs)
  then show ?case by (auto simp: list_all_iff dest: in_set_butlastD)
qed auto

lemma plain_components:
  assumes "list_all plain_segment segs"
  shows "path_components (47 # join_slash segs) = RootDir # map NormalComponent segs"
    "path_components (join_slash segs) = map NormalComponent segs"
proof -
  have parts: "map component_of (filter (\<lambda>seg. seg \<noteq> [] \<and> seg \<noteq> lit ''.'') segs) = map NormalComponent segs"
    using assms by (induction segs) (auto simp: plain_segment_def component_of_def)
  show "path_components (47 # join_slash segs) = RootDir # map NormalComponent segs"
  proof (cases "segs = []")
    case False
    then have "split_slash [] (47 # join_slash segs) = [] # segs" using assms by (simp add: split_slash_join)
    with parts show ?thesis by (simp add: path_components_def path_is_absolute_def)
  qed (simp add: path_components_def path_is_absolute_def)
  show "path_components (join_slash segs) = map NormalComponent segs"
  proof (cases segs)
    case (Cons s rest)
    then have "hd (join_slash segs) \<noteq> 47 \<and> join_slash segs \<noteq> []"
      using assms by (cases rest; cases s) (auto simp: plain_segment_def)
    moreover have "split_slash [] (join_slash segs) = segs" using assms Cons by (simp add: split_slash_join)
    ultimately show ?thesis
      using parts assms Cons by (simp add: path_components_def path_is_absolute_def plain_segment_def)
  qed (simp add: path_components_def path_is_absolute_def lit_def)
qed

lemma normalized_components:
  "ParentDir \<notin> set (path_components (normalize_lexical p))" "CurDir \<notin> set (path_components (normalize_lexical p))"
proof -
  have "list_all plain_segment (collapse [] (path_components p))"
    by (rule collapse_plain) (auto intro: normal_component_plain)
  from plain_components [OF this]
  show "ParentDir \<notin> set (path_components (normalize_lexical p))" "CurDir \<notin> set (path_components (normalize_lexical p))"
    by (auto simp: normalize_lexical_def Let_def)
qed

text \<open>What \<open>fs::canonicalize\<close> promises of its answers.\<close>

definition canonical_paths :: "file_world \<Rightarrow> bool" where
  "canonical_paths W \<longleftrightarrow> (\<forall>p c. fw_canonical W p = Some c \<longrightarrow> ParentDir \<notin> set (path_components c))"

lemma secure_resolve_no_parent:
  assumes "canonical_paths W"
  shows "ParentDir \<notin> set (path_components (secure_resolve W p))"
proof -
  have "ParentDir \<notin> set (path_components (resolve_ancestor W p as))" for as
    by (induction as) (auto simp: normalized_components reattach_def split: option.split)
  then show ?thesis using assms by (auto simp: secure_resolve_def canonical_paths_def split: option.split)
qed

lemma allowed_in_root:
  assumes "is_path_allowed W ctx p wr" "(if wr then tc_allowed_write_roots ctx else tc_allowed_read_roots ctx) = root # roots"
  shows "\<not> is_operator_capability_file (secure_resolve W p)"
    "\<exists>r \<in> set (root # roots). path_starts_with (secure_resolve W p) (secure_resolve W r)"
  using assms by (auto simp: is_path_allowed_def Let_def list_ex_iff split: if_splits)

section \<open>What a write touches\<close>

fun effect_paths :: "fs_effect \<Rightarrow> rstr set" where
  "effect_paths (CreateDirs p) = {p}"
| "effect_paths (WriteFile p _) = {p}"
| "effect_paths (SetPermissions p) = {p}"
| "effect_paths (RenameFile p q) = {p, q}"
| "effect_paths (RemoveFile p) = {p}"

lemma place_file_paths:
  assumes "place_file io temp path content = (res, fx)" "e \<in> set fx"
  shows "effect_paths e \<subseteq> {temp, path}"
  using assms by (auto simp: place_file_def Let_def split: sum.splits if_splits)

lemma write_target_checked:
  assumes "write_target W v ctx = Inr (path, parent, content)"
  shows "is_path_allowed W ctx path True" "is_path_allowed W ctx parent True" "path_parent_dir path = Some parent"
    "\<exists>p. path = resolve_for_write W p"
  using assms by (auto simp: write_target_def Let_def)

lemma write_file_paths:
  assumes "write_file W io v ctx = (res, fx)" "e \<in> set fx"
  obtains path parent content where "write_target W v ctx = Inr (path, parent, content)"
    "effect_paths e \<subseteq> {path, parent, temp_path_of io parent path}"
proof -
  obtain path parent content where target: "write_target W v ctx = Inr (path, parent, content)"
    using assms by (auto simp: write_file_def split: sum.splits)
  then have "effect_paths e \<subseteq> {path, parent, temp_path_of io parent path}"
    using assms
    by (auto simp: write_file_def Let_def split: sum.splits if_splits prod.splits dest!: place_file_paths)
  with target show thesis by (rule that)
qed

lemma bridged_write_effects:
  assumes "map_of registry (lit ''file_write'') = Some (file_write_tool W io)"
    "bridge_run pretty V W home registry (lit ''file_write'') args ctx = (res, fx)" "e \<in> set fx"
  shows "\<exists>r. write_file W io args (sandbox_tool_context W home ctx) = (r, fx)"
  using assms
  by (auto simp: bridge_run_def execute_registered_def execute_tool_def file_write_tool_def split: sum.splits prod.splits)

section \<open>A path and its parent reference\<close>

lemma components_join_dots:
  assumes "path_is_absolute p"
  shows "path_components (path_join p (lit ''..'')) = path_components p @ [ParentDir]"
proof (cases "last p = 47")
  case True
  then obtain q where p: "p = q @ [47]" using assms by (metis append_butlast_last_id path_is_absolute_def)
  then have "path_is_absolute (path_join p (lit ''..''))" using assms by (cases q) (auto simp: path_join_def path_is_absolute_def lit_def)
  moreover have "path_join p (lit ''..'') = q @ 47 # lit ''..''" using p by (simp add: path_join_def path_is_absolute_def lit_def)
  ultimately show ?thesis using assms p
    by (simp add: path_components_def split_slash_append component_of_def lit_def Let_def)
next
  case False
  then have "path_join p (lit ''..'') = p @ 47 # lit ''..''" using assms by (simp add: path_join_def path_is_absolute_def lit_def)
  moreover have "path_is_absolute (p @ 47 # lit ''..'')" using assms by (simp add: path_is_absolute_def)
  ultimately show ?thesis using assms
    by (simp add: path_components_def split_slash_append component_of_def lit_def Let_def)
qed

end
