(* ===== verification/Ion_Gate_Properties.thy ===== *)
theory Ion_Gate_Properties
  imports Sandbox_Properties
begin

text \<open>
  The guarantees of the ion REPL, each applied to a small session: one workspace, one readable file and
  tools that return a fixed text.
\<close>

section \<open>A sample session\<close>

definition demo_files :: file_world where
  "demo_files = \<lparr>fw_cwd = Some (lit ''/w''), fw_canonical = (\<lambda>p. Some (normalize_lexical p)), fw_exists = (\<lambda>_. True), fw_is_dir = (\<lambda>_. False),
     fw_size = (\<lambda>_. Inr 1), fw_read = (\<lambda>_. Inr (lit ''a''))\<rparr>"

definition demo_versions :: version_world where
  "demo_versions = \<lparr>vw_files = demo_files, vw_metadata = (\<lambda>_. None), vw_present = (\<lambda>_. True)\<rparr>"

definition demo_outcome :: tool_outcome where
  "demo_outcome = \<lparr>oc_rendered = lit ''bad'', oc_payload = JObject [(lit ''content'', JString (lit ''a'')),
     (lit ''start_line'', JNumber (lit ''1'')), (lit ''truncated'', JBool False)], oc_ok = True\<rparr>"

text \<open>Every pattern compiles and matches one text.\<close>

definition demo_ion :: ion_env where
  "demo_ion = \<lparr>ie_compile = (\<lambda>_. Inr (\<lambda>s. s = lit ''bad'')), ie_show_json = (\<lambda>_. []), ie_home = None,
     ie_tools = (\<lambda>_. Some (\<lambda>_ _. Inr demo_outcome))\<rparr>"

definition demo_call :: "rstr \<Rightarrow> call_io" where
  "demo_call line = \<lparr>ci_before = demo_versions, ci_prompted = demo_versions, ci_after = demo_versions,
     ci_confirm = confirm_via_stdin \<lparr>co_flushed = True, co_line = Some line\<rparr>, ci_spill = SpillInline, ci_entry = None,
     ci_nonce = lit ''0a''\<rparr>"

lemma demo_worlds:
  "ci_before (demo_call line) = demo_versions" "ci_prompted (demo_call line) = demo_versions"
  "vw_files demo_versions = demo_files" "vw_metadata demo_versions p = None" "vw_present demo_versions p"
  by (simp_all add: demo_call_def demo_versions_def)

definition demo_session :: ion_session where
  "demo_session = new_session \<lparr>rc_repo_root = lit ''/w'', rc_allowed_read_roots = []\<rparr>"

lemma demo_builtins: "builtins_compile (ie_compile demo_ion)"
  by (simp add: builtins_compile_def demo_ion_def)

lemma demo_rule:
  "warn_tool_output_role_override \<in> set builtin_rules"
  "rule_matches (ie_compile demo_ion) (raw_tool_result_content demo_ion demo_outcome) ToolCallTarget warn_tool_output_role_override"
  by (simp_all add: builtin_rules_def rule_matches_def raw_tool_result_content_def demo_ion_def demo_outcome_def
      target_matches_def warn_tool_output_role_override_def builtin_rule_def lit_def)

section \<open>Confirmation\<close>

text \<open>C10: A tool that changes state runs only after the human answered the prompt; when the call is
  dangerous (untrusted output was seen, a path leaves the sandbox, a guardrail blocks it or the command text reaches
  out) only the literal answer CONFIRM lets it run.\<close>

theorem gated_call_needs_confirmation:
  assumes "execute_call E io name input s = (res, s', True)" "name \<in> set CONFIRMATION_REQUIRED_TOOLS"
    and "ci_confirm io = confirm_via_stdin c"
  shows "\<exists>line. co_line c = Some line \<and>
    (if dangerous E (vw_files (ci_before io)) name input s then trim line = lit ''CONFIRM''
     else ascii_lower (trim line) \<in> {lit ''y'', lit ''yes''})"
  using ran_answer [OF assms] by metis

lemma demo_handoff_runs:
  assumes "decide_approval (call_verdict demo_ion demo_files (lit ''handoff'') JNull s) line"
  shows "\<exists>res s'. execute_call demo_ion (demo_call line) (lit ''handoff'') JNull s = (res, s', True)"
proof -
  have "gate_call demo_ion (demo_call line) (lit ''handoff'') JNull s = None"
    using assms
    by (simp add: gate_call_def stale_write_def demo_call_def demo_versions_def confirm_via_stdin_def
        CONFIRMATION_REQUIRED_TOOLS_def lit_def)
  then show ?thesis
    by (cases "after_run demo_ion (demo_call line) (lit ''handoff'') JNull (Inr demo_outcome) s")
      (simp add: execute_call_def demo_ion_def)
qed

theorem gated_call_needs_confirmation_witness:
  "\<exists>res s'. execute_call demo_ion (demo_call (lit ''CONFIRM'')) (lit ''handoff'') JNull (demo_session\<lparr>is_untrusted_seen := True\<rparr>) =
     (res, s', True) \<and> (\<exists>line. Some (lit ''CONFIRM'') = Some line \<and> trim line = lit ''CONFIRM'')"
proof -
  let ?s = "demo_session\<lparr>is_untrusted_seen := True\<rparr>"
  have danger: "dangerous demo_ion demo_files (lit ''handoff'') JNull ?s" by (simp add: dangerous_def)
  then have "decide_approval (call_verdict demo_ion demo_files (lit ''handoff'') JNull ?s) (lit ''CONFIRM'')"
    by (simp add: decide_approval_iff call_verdict_blocks) (simp add: trim_def lit_def is_whitespace_def)
  then obtain res s' where run: "execute_call demo_ion (demo_call (lit ''CONFIRM'')) (lit ''handoff'') JNull ?s = (res, s', True)"
    using demo_handoff_runs by blast
  have "lit ''handoff'' \<in> set CONFIRMATION_REQUIRED_TOOLS" by (simp add: CONFIRMATION_REQUIRED_TOOLS_def)
  from gated_call_needs_confirmation [OF run this, of "\<lparr>co_flushed = True, co_line = Some (lit ''CONFIRM'')\<rparr>"] danger run
  show ?thesis by (auto simp: demo_call_def demo_versions_def)
qed


lemma demo_search_runs:
  "\<exists>res s'. execute_call demo_ion (demo_call []) (lit ''memory_search'') JNull demo_session = (res, s', True)"
proof -
  have "gate_call demo_ion (demo_call []) (lit ''memory_search'') JNull demo_session = None"
    by (simp add: gate_call_def stale_write_def CONFIRMATION_REQUIRED_TOOLS_def lit_def)
  then show ?thesis
    by (cases "after_run demo_ion (demo_call []) (lit ''memory_search'') JNull (Inr demo_outcome) demo_session")
      (simp add: execute_call_def demo_ion_def)
qed


section \<open>File versions\<close>


definition demo_path :: json where
  "demo_path = JObject [(lit ''path'', JString (lit ''/w/f''))]"

lemma demo_resolve [simp]: "secure_resolve demo_files p = normalize_lexical p"
  by (simp add: secure_resolve_def demo_files_def)

lemma demo_normal [simp]:
  "normalize_lexical (lit ''/w/f'') = lit ''/w/f''" "normalize_lexical (lit ''/w'') = lit ''/w''" "normalize_lexical (lit ''/w/..'') = lit ''/''"
  "normalize_lexical (lit ''/x'') = lit ''/x''"
  by (simp_all add: normalize_lexical_def path_components_def path_is_absolute_def component_of_def lit_def)

lemma demo_path_facts:
  "tracked_path_of demo_files (lit ''file_read'') demo_path = Some (lit ''/w/f'')"
  "tracked_path_of demo_files (lit ''file_write'') demo_path = Some (lit ''/w/f'')"
  "resolved_paths_for demo_files (lit ''file_write'') demo_path = [lit ''/w/f'']"
  "version_key demo_versions (lit ''/w/f'') = lit ''/w/f''"
  by (simp_all add: tracked_path_of_def resolved_paths_for_def demo_path_def json_str_def json_get_def resolve_path_def
      path_is_absolute_def version_key_def resolve_for_write_def demo_versions_def Let_def) (simp_all add: lit_def)

lemma demo_read:
  "\<exists>res s'. execute_call demo_ion (demo_call []) (lit ''file_read'') demo_path demo_session = (res, s', True) \<and>
     is_file_versions s' = [(lit ''/w/f'', None)] \<and> is_context s' = is_context demo_session"
proof -
  have gate: "gate_call demo_ion (demo_call []) (lit ''file_read'') demo_path demo_session = None"
    by (simp add: gate_call_def stale_write_def CONFIRMATION_REQUIRED_TOOLS_def lit_def)
  have whole: "read_whole_file (oc_payload demo_outcome)"
    by (simp add: read_whole_file_def demo_outcome_def json_get_def json_u64_def json_bool_def digits_value_def
        is_ascii_digit_def u64_max_def lit_def)
  have "record_version demo_versions (lit ''/w/f'') [] = [(lit ''/w/f'', None)]"
    by (simp add: record_version_def demo_path_facts) (simp add: demo_versions_def)
  then show ?thesis
    using gate whole demo_path_facts(1)
    by (simp add: execute_call_def after_run_def Let_def finish_result_def demo_call_def demo_ion_def demo_session_def
        new_session_def observe_fetched_entry_def demo_versions_def demo_outcome_def lit_def)
qed


section \<open>The envelope\<close>

lemma strip_prefix_iff: "strip_prefix p s \<noteq> None \<longleftrightarrow> (\<exists>b. s = p @ b)"
  by (auto simp: strip_prefix_def) (metis append_take_drop_id)

lemma has_infix_iff: "has_infix p s \<longleftrightarrow> (\<exists>a b. s = a @ p @ b)"
proof (induction s)
  case (Cons c cs)
  show ?case
  proof
    assume "has_infix p (c # cs)"
    then consider b where "c # cs = p @ b" | a b where "cs = a @ p @ b" using Cons strip_prefix_iff by auto
    then show "\<exists>a b. c # cs = a @ p @ b"
      by cases (metis append_Nil, metis append_Cons)
  next
    assume "\<exists>a b. c # cs = a @ p @ b"
    then obtain a b where split: "c # cs = a @ p @ b" by blast
    show "has_infix p (c # cs)"
    proof (cases a)
      case Nil
      with split have "strip_prefix p (c # cs) \<noteq> None" unfolding strip_prefix_iff by simp
      then show ?thesis by simp
    next
      case (Cons c' a')
      with split Cons.IH show ?thesis by auto
    qed
  qed
qed simp

text \<open>A text without a line feed that occurs in two lines occurs in one of them.\<close>

lemma occurs_in_a_line:
  assumes "a @ 10 # b = pre @ f @ post" "10 \<notin> set f" "f \<noteq> []"
  shows "(\<exists>r. a = pre @ f @ r) \<or> (\<exists>l. b = l @ f @ post \<and> pre = a @ 10 # l)"
proof -
  from assms(1) consider us where "a = (pre @ f) @ us" | us where "a @ us = pre @ f" "10 # b = us @ post"
    unfolding append_assoc [symmetric] append_eq_append_conv2 [of a "10 # b"] by (auto simp: append_assoc)
  then show ?thesis
  proof cases
    case (2 us)
    show ?thesis
    proof (cases us)
      case Nil
      with 2 show ?thesis by (intro disjI1 exI [of _ "[]"]) simp
    next
      case (Cons c us')
      with 2 have b: "c = 10" "b = us' @ post" by simp_all
      from 2(1) Cons b(1) consider ws where "a = pre @ ws" "ws @ 10 # us' = f" | ws where "a @ ws = pre" "10 # us' = ws @ f"
        unfolding append_eq_append_conv2 [of a us] by auto
      then show ?thesis
      proof cases
        case (1 ws)
        with assms(2) show ?thesis by auto
      next
        case (2 ws)
        with assms(2,3) show ?thesis using b(2) by (cases ws) (auto simp: Cons_eq_append_conv)
      qed
    qed
  qed auto
qed

lemma hex_plain:
  assumes "list_all is_lower_hex_byte nonce"
  shows "10 \<notin> set (envelope_footer nonce)" "91 \<notin> set (tl (envelope_header nonce))"
  using assms
  by (auto simp: envelope_footer_def envelope_header_def lit_def list_all_iff is_lower_hex_byte_def is_ascii_digit_def)

lemma header_no_footer:
  assumes "list_all is_lower_hex_byte nonce"
  shows "envelope_header nonce \<noteq> l @ envelope_footer nonce @ r"
proof
  assume eq: "envelope_header nonce = l @ envelope_footer nonce @ r"
  show False
  proof (cases l)
    case Nil
    with eq show False by (simp add: envelope_footer_def envelope_header_def lit_def)
  next
    case (Cons c cs)
    then have "tl (envelope_header nonce) = cs @ envelope_footer nonce @ r" using eq by simp
    moreover have "91 \<in> set (envelope_footer nonce)" by (simp add: envelope_footer_def lit_def)
    ultimately show False using hex_plain(2) [OF assms] by simp
  qed
qed

text \<open>C33: Tool output cannot close its envelope: as long as it does not contain the nonce of the call, the footer
  occurs in the wrapped text only once, at its end.\<close>

theorem envelope_cannot_be_closed_early:
  assumes "list_all is_lower_hex_byte nonce" "\<not> has_infix nonce content"
    and "wrap_untrusted_tool_output nonce content = pre @ envelope_footer nonce @ post"
  shows "post = [] \<and> pre = envelope_header nonce @ [10] @ content @ [10]"
proof -
  let ?h = "envelope_header nonce" and ?f = "envelope_footer nonce"
  note plain = hex_plain [OF assms(1)]
  have "[] \<noteq> ?f" by (simp add: envelope_footer_def lit_def)
  note line = occurs_in_a_line [OF _ plain(1) this [symmetric]]
  have no_header: "?h \<noteq> l @ ?f @ r" for l r
    using header_no_footer [OF assms(1)] .
  have no_content: "content \<noteq> l @ ?f @ r" for l r
  proof
    assume "content = l @ ?f @ r"
    then have "content = (l @ lit ''[END UNTRUSTED TOOL OUTPUT nonce='') @ nonce @ (lit '']'' @ r)"
      by (simp add: envelope_footer_def)
    then have "has_infix nonce content" unfolding has_infix_iff by blast
    with assms(2) show False by blast
  qed
  have "?h @ 10 # (content @ 10 # ?f) = pre @ ?f @ post"
    using assms(3) by (simp add: wrap_untrusted_tool_output_def)
  from line [OF this] no_header obtain l where l: "content @ 10 # ?f = l @ ?f @ post" "pre = ?h @ 10 # l" by blast
  from line [OF l(1)] no_content obtain m where m: "?f = m @ ?f @ post" "l = content @ 10 # m" by blast
  from arg_cong [OF m(1), of length] have "m = []" "post = []" by simp_all
  with l(2) m(2) show ?thesis by simp
qed

theorem envelope_cannot_be_closed_early_witness:
  "\<exists>pre post. wrap_untrusted_tool_output (lit ''0a'') (lit ''x'') = pre @ envelope_footer (lit ''0a'') @ post \<and> post = [] \<and>
     pre = envelope_header (lit ''0a'') @ [10] @ lit ''x'' @ [10]"
proof -
  have "list_all is_lower_hex_byte (lit ''0a'')" "\<not> has_infix (lit ''0a'') (lit ''x'')"
    by (simp_all add: lit_def is_lower_hex_byte_def is_ascii_digit_def strip_prefix_def)
  from envelope_cannot_be_closed_early [OF this, of "envelope_header (lit ''0a'') @ [10] @ lit ''x'' @ [10]" "[]"]
  show ?thesis by (intro exI) (auto simp: wrap_untrusted_tool_output_def)
qed

section \<open>The sandbox\<close>

text \<open>C11: Whatever a bridged \<open>file_write\<close> does to the disk, it does to one checked path, to its parent directory or to a
  temporary file in that directory: the path has no parent reference left, and both resolve under the repository root
  and are no capability file.\<close>

theorem file_write_stays_in_sandbox:
  assumes "canonical_paths W" "map_of registry (lit ''file_write'') = Some (file_write_tool W io)"
    and "bridge_run pretty V W home registry (lit ''file_write'') args ctx = (res, fx)" "e \<in> set fx"
  shows "\<exists>path parent. effect_paths e \<subseteq> {path, parent, temp_path_of io parent path} \<and> path_parent_dir path = Some parent \<and>
    ParentDir \<notin> set (path_components path) \<and>
    (\<forall>q \<in> {path, parent}. \<not> is_operator_capability_file (secure_resolve W q) \<and>
       path_starts_with (secure_resolve W q) (secure_resolve W (effective_repo_root W ctx)))"
proof -
  let ?ctx = "sandbox_tool_context W home ctx"
  obtain r where "write_file W io args ?ctx = (r, fx)" using bridged_write_effects [OF assms(2-4)] by blast
  from this assms(4) obtain path parent content where target: "write_target W args ?ctx = Inr (path, parent, content)"
    and within: "effect_paths e \<subseteq> {path, parent, temp_path_of io parent path}"
    by (rule write_file_paths)
  have roots: "(if True then tc_allowed_write_roots ?ctx else tc_allowed_read_roots ?ctx) = [effective_repo_root W ctx]"
    by (simp add: sandbox_tool_context_def Let_def)
  note checked = write_target_checked [OF target]
  note allowed = allowed_in_root [OF checked(1) roots] allowed_in_root [OF checked(2) roots]
  have "ParentDir \<notin> set (path_components path)"
    using checked(4) secure_resolve_no_parent [OF assms(1)] by (auto simp: resolve_for_write_def)
  with within checked(3) allowed show ?thesis by (intro exI [of _ path] exI [of _ parent]) simp
qed

definition demo_write :: write_io where
  "demo_write = \<lparr>wi_create_dirs = Inr (), wi_token = lit ''1'', wi_write = Inr (), wi_has_mode = False, wi_set_mode = Inr (), wi_rename = Inr ()\<rparr>"

definition demo_write_args :: json where
  "demo_write_args = JObject [(lit ''path'', JString (lit ''/w/f'')), (lit ''content'', JString (lit ''a''))]"

lemma demo_write_facts:
  "json_str (lit ''path'') demo_write_args = Some (lit ''/w/f'')" "json_str (lit ''content'') demo_write_args = Some (lit ''a'')"
  "json_bool (lit ''create_dirs'') demo_write_args = None" "resolve_path demo_files (lit ''/w/f'') = lit ''/w/f''"
  "resolve_for_write demo_files (lit ''/w/f'') = lit ''/w/f''" "path_parent_dir (lit ''/w/f'') = Some (lit ''/w'')"
  "fw_is_dir demo_files p = False"
  by (simp_all add: demo_write_args_def json_str_def json_bool_def json_get_def resolve_path_def path_is_absolute_def Let_def
      resolve_for_write_def) (simp_all add: path_parent_dir_def path_is_absolute_def trim_segments_def blank_segment_def demo_files_def lit_def)

lemma demo_canonical: "canonical_paths demo_files"
  by (auto simp: canonical_paths_def demo_files_def normalized_components)

lemma demo_write_answers:
  "wi_create_dirs demo_write = Inr ()" "wi_write demo_write = Inr ()" "\<not> wi_has_mode demo_write" "wi_rename demo_write = Inr ()"
  by (simp_all add: demo_write_def)

lemma demo_components:
  "path_components (lit ''/w/f'') = [RootDir, NormalComponent (lit ''w''), NormalComponent (lit ''f'')]"
  "path_components (lit ''/w'') = [RootDir, NormalComponent (lit ''w'')]"
  "\<not> is_operator_capability_file (lit ''/w/f'')" "\<not> is_operator_capability_file (lit ''/w'')" "lit ''/w'' \<noteq> []"
  by (simp_all add: is_operator_capability_file_def path_extension_def file_name_def path_components_def path_is_absolute_def
      component_of_def lit_def)

lemma demo_caps: "FileSystemWrite \<in> set (tc_allowed_capabilities (sandbox_tool_context W home ctx))"
  by (simp add: sandbox_tool_context_def with_all_capabilities_def Let_def)

lemma demo_trim: "trim (lit ''/w/f'') \<noteq> []"
  by (simp add: trim_def is_whitespace_def lit_def)

lemma demo_write_runs:
  "\<exists>res. bridge_run (\<lambda>_. []) \<lparr>te_show_json = (\<lambda>_. []), te_to_vec = (\<lambda>_. Inr []), te_duration_ms = 0\<rparr> demo_files None
     [(lit ''file_write'', file_write_tool demo_files demo_write)] (lit ''file_write'') demo_write_args (is_context demo_session) =
     (res, [CreateDirs (lit ''/w''), WriteFile (lit ''/w/.f.tmp.1'') (lit ''a''), RenameFile (lit ''/w/.f.tmp.1'') (lit ''/w/f'')])"
proof -
  let ?ctx = "sandbox_tool_context demo_files None (is_context demo_session)"
  have allowed: "is_path_allowed demo_files ?ctx p True" if "p = lit ''/w/f'' \<or> p = lit ''/w''" for p
    using that
    by (auto simp: is_path_allowed_def sandbox_tool_context_def effective_repo_root_def demo_session_def new_session_def Let_def
        path_starts_with_def demo_components)
  have target: "write_target demo_files demo_write_args ?ctx = Inr (lit ''/w/f'', lit ''/w'', lit ''a'')"
    using allowed [of "lit ''/w/f''"] allowed [of "lit ''/w''"]
    by (simp add: write_target_def demo_write_facts)
  have temp: "temp_path_of demo_write (lit ''/w'') (lit ''/w/f'') = lit ''/w/.f.tmp.1''"
    by (simp add: temp_path_of_def demo_write_def file_name_def path_components_def path_is_absolute_def component_of_def
        path_join_def lit_def)
  have "snd (write_file demo_files demo_write demo_write_args ?ctx) =
      [CreateDirs (lit ''/w''), WriteFile (lit ''/w/.f.tmp.1'') (lit ''a''), RenameFile (lit ''/w/.f.tmp.1'') (lit ''/w/f'')]"
    by (simp add: write_file_def target temp Let_def demo_write_facts demo_write_answers place_file_def)
  then have "snd (execute_tool V demo_files (file_write_tool demo_files demo_write) demo_write_args ?ctx) =
      [CreateDirs (lit ''/w''), WriteFile (lit ''/w/.f.tmp.1'') (lit ''a''), RenameFile (lit ''/w/.f.tmp.1'') (lit ''/w/f'')]" for V
    using allowed [of "lit ''/w/f''"]
    by (simp add: execute_tool_def file_write_tool_def validate_write_params_def validate_path_param_def validate_paths_def
        path_param_allowed_def demo_write_facts required_param_def optional_param_def has_capability_def demo_caps demo_trim checks.simps
        split: prod.split) (metis snd_conv)
  then show ?thesis
    by (simp add: bridge_run_def execute_registered_def split: sum.split prod.split) (metis snd_conv)
qed

theorem file_write_stays_in_sandbox_witness:
  "\<exists>res fx path parent. bridge_run (\<lambda>_. []) \<lparr>te_show_json = (\<lambda>_. []), te_to_vec = (\<lambda>_. Inr []), te_duration_ms = 0\<rparr> demo_files None
     [(lit ''file_write'', file_write_tool demo_files demo_write)] (lit ''file_write'') demo_write_args (is_context demo_session) = (res, fx) \<and>
   RenameFile (lit ''/w/.f.tmp.1'') (lit ''/w/f'') \<in> set fx \<and>
   {lit ''/w/.f.tmp.1'', lit ''/w/f''} \<subseteq> {path, parent, temp_path_of demo_write parent path} \<and> path_parent_dir path = Some parent"
proof -
  obtain res fx where run: "bridge_run (\<lambda>_. []) \<lparr>te_show_json = (\<lambda>_. []), te_to_vec = (\<lambda>_. Inr []), te_duration_ms = 0\<rparr> demo_files None
      [(lit ''file_write'', file_write_tool demo_files demo_write)] (lit ''file_write'') demo_write_args (is_context demo_session) = (res, fx)"
    "RenameFile (lit ''/w/.f.tmp.1'') (lit ''/w/f'') \<in> set fx"
    using demo_write_runs by fastforce
  have registered: "map_of [(lit ''file_write'', file_write_tool demo_files demo_write)] (lit ''file_write'') =
      Some (file_write_tool demo_files demo_write)" by simp
  from file_write_stays_in_sandbox [OF demo_canonical registered run] run show ?thesis unfolding effect_paths.simps by blast
qed

lemma path_components_root: "path_components (lit ''/'') = [RootDir]"
  by (simp add: path_components_def path_is_absolute_def lit_def)

text \<open>C40: Granting the parent directory as \<open>..\<close> in a session started in an absolute working directory gives no warning,
  although the grant opens everything below the parent of the repository root.\<close>

theorem allow_parent_is_not_warned:
  assumes "fw_cwd W = Some cwd" "path_is_absolute cwd" "rc_repo_root ctx = cwd" "resolved = path_join cwd (lit ''..'')"
    and "fw_exists W resolved" "\<And>h. user_home = Some h \<Longrightarrow> ParentDir \<notin> set (path_components h)"
    and "apply_allow W user_home (lit ''..'' # args) ctx = (message, ctx')"
    and "path_starts_with (secure_resolve W p) (secure_resolve W resolved)" "\<not> is_operator_capability_file (secure_resolve W p)"
  shows "message = lit ''Granted read access to '' @ resolved @ lit '' for this session.'' \<and>
    is_path_allowed W (sandbox_tool_context W home ctx') p False"
proof -
  have "cwd \<noteq> []" using assms(2) by (simp add: path_is_absolute_def)
  have dots: "resolve_path W (lit ''..'') = resolved" "trim (lit ''..'') \<noteq> []"
    using assms(1,4) by (simp_all add: resolve_path_def current_dir_def path_is_absolute_def trim_def is_whitespace_def lit_def)
  have comps: "path_components resolved = path_components cwd @ [ParentDir]"
    unfolding assms(4) by (rule components_join_dots) (rule assms(2))
  have "overly_broad_grant_warning W user_home resolved ctx = None"
    using assms(3,6) \<open>cwd \<noteq> []\<close> comps
    by (cases user_home) (auto simp: overly_broad_grant_warning_def effective_repo_root_def path_eq_def path_starts_with_def
        path_components_root Let_def dest: arg_cong [of _ _ length])
  with assms(5,7) dots have "message = lit ''Granted read access to '' @ resolved @ lit '' for this session.''"
    "ctx' = ctx\<lparr>rc_allowed_read_roots := rc_allowed_read_roots ctx @ [resolved]\<rparr>"
    by (auto simp: apply_allow_def)
  then show ?thesis
    using assms(8,9) by (auto simp: is_path_allowed_def sandbox_tool_context_def Let_def)
qed

theorem allow_parent_is_not_warned_witness:
  "\<exists>message ctx'. apply_allow demo_files (Some (lit ''/h'')) [lit ''..''] (is_context demo_session) = (message, ctx') \<and>
     message = lit ''Granted read access to '' @ lit ''/w/..'' @ lit '' for this session.'' \<and>
     is_path_allowed demo_files (sandbox_tool_context demo_files None ctx') (lit ''/x'') False"
proof -
  obtain message ctx' where run: "apply_allow demo_files (Some (lit ''/h'')) [lit ''..''] (is_context demo_session) = (message, ctx')"
    by (cases "apply_allow demo_files (Some (lit ''/h'')) [lit ''..''] (is_context demo_session)") blast
  have "message = lit ''Granted read access to '' @ lit ''/w/..'' @ lit '' for this session.'' \<and>
      is_path_allowed demo_files (sandbox_tool_context demo_files None ctx') (lit ''/x'') False"
  proof (rule allow_parent_is_not_warned [OF _ _ _ _ _ _ run])
    show "fw_cwd demo_files = Some (lit ''/w'')" "path_is_absolute (lit ''/w'')" "rc_repo_root (is_context demo_session) = lit ''/w''"
      "lit ''/w/..'' = path_join (lit ''/w'') (lit ''..'')" "fw_exists demo_files (lit ''/w/..'')"
      by (simp_all add: demo_files_def demo_session_def new_session_def path_is_absolute_def path_join_def lit_def)
    show "ParentDir \<notin> set (path_components h)" if "Some (lit ''/h'') = Some h" for h
      using that by (auto simp: path_components_def path_is_absolute_def component_of_def lit_def)
    show "path_starts_with (secure_resolve demo_files (lit ''/x'')) (secure_resolve demo_files (lit ''/w/..''))"
      by (simp add: path_starts_with_def path_components_root) (simp add: path_components_def path_is_absolute_def lit_def)
    show "\<not> is_operator_capability_file (secure_resolve demo_files (lit ''/x''))"
      by simp (simp add: is_operator_capability_file_def path_extension_def file_name_def path_components_def path_is_absolute_def
        component_of_def lit_def)
  qed
  with run show ?thesis by blast
qed

end
