(* ===== verification/Step_Model.thy ===== *)
theory Step_Model
  imports Governed_Contract
begin

text \<open>
  The choice of a model for one step of an agent: the policy of \<open>impulse-step-model/src/lib.rs\<close> and its use in
  \<open>agent/step_model.rs\<close>.  The record of a decision is only logged.
\<close>

datatype step_actor = StepSystem | StepWorker | StepVerifier | StepSupervisor | StepOperator

datatype step_review_signal = ReviewVerificationFailed

datatype step_verification_signal = SignalPassed | SignalFailed | SignalInconclusive

record step_model_context =
  sm_actor :: step_actor
  sm_review :: "step_review_signal option"
  sm_verification :: "step_verification_signal option"
  sm_tool_round :: nat
  sm_current_model :: rstr
  sm_escalate_model :: "rstr option"

definition worker_context :: "rstr \<Rightarrow> step_model_context" where
  "worker_context model = \<lparr>sm_actor = StepWorker, sm_review = None, sm_verification = None, sm_tool_round = 0,
     sm_current_model = model, sm_escalate_model = None\<rparr>"

definition system_context :: "rstr \<Rightarrow> step_model_context" where
  "system_context model = (worker_context model)\<lparr>sm_actor := StepSystem\<rparr>"

definition supervisor_context :: "rstr \<Rightarrow> step_model_context" where
  "supervisor_context model = (worker_context model)\<lparr>sm_actor := StepSupervisor\<rparr>"

datatype step_model_reason = Configured | AfterVerifierFailure

record step_model_decision =
  sd_model :: rstr
  sd_reason :: step_model_reason

definition verifier_or_attestation_failed :: "step_model_context \<Rightarrow> bool" where
  "verifier_or_attestation_failed ctx \<longleftrightarrow>
     sm_verification ctx \<in> {Some SignalFailed, Some SignalInconclusive} \<or> sm_review ctx = Some ReviewVerificationFailed"

definition stay_configured :: "step_model_context \<Rightarrow> rstr \<Rightarrow> step_model_decision" where
  "stay_configured ctx configured =
     \<lparr>sd_model = (if trim (sm_current_model ctx) = [] then configured else sm_current_model ctx), sd_reason = Configured\<rparr>"

definition decide_policy :: "step_model_context \<Rightarrow> rstr \<Rightarrow> step_model_decision" where
  "decide_policy ctx configured =
     (if sm_actor ctx \<in> {StepOperator, StepVerifier} then stay_configured ctx configured
      else if verifier_or_attestation_failed ctx then
        (case map_option trim (sm_escalate_model ctx) of
           Some escalate \<Rightarrow> if escalate \<noteq> [] then \<lparr>sd_model = escalate, sd_reason = AfterVerifierFailure\<rparr>
             else stay_configured ctx configured
         | None \<Rightarrow> stay_configured ctx configured)
      else stay_configured ctx configured)"

record harness_step_context =
  hs_actor :: actor_kind
  hs_review_state :: "review_state_kind option"
  hs_latest_verification :: "verification_outcome option"
  hs_tool_round :: nat
  hs_current_model :: rstr
  hs_escalate_model :: "rstr option"

definition ion_api :: "rstr \<Rightarrow> harness_step_context" where
  "ion_api model = \<lparr>hs_actor = Worker, hs_review_state = None, hs_latest_verification = None, hs_tool_round = 0,
     hs_current_model = model, hs_escalate_model = None\<rparr>"

definition system_step :: "rstr \<Rightarrow> harness_step_context" where
  "system_step model = (ion_api model)\<lparr>hs_actor := System\<rparr>"

definition supervisor_step :: "rstr \<Rightarrow> harness_step_context" where
  "supervisor_step model = (ion_api model)\<lparr>hs_actor := Supervisor\<rparr>"

fun policy_actor :: "actor_kind \<Rightarrow> step_actor" where
  "policy_actor System = StepSystem"
| "policy_actor Worker = StepWorker"
| "policy_actor Verifier = StepVerifier"
| "policy_actor Supervisor = StepSupervisor"
| "policy_actor Operator = StepOperator"

fun policy_verification :: "verification_outcome \<Rightarrow> step_verification_signal" where
  "policy_verification Passed = SignalPassed"
| "policy_verification Failed = SignalFailed"
| "policy_verification Inconclusive = SignalInconclusive"

definition policy_context :: "harness_step_context \<Rightarrow> step_model_context" where
  "policy_context ctx =
     \<lparr>sm_actor = policy_actor (hs_actor ctx),
      sm_review = (if hs_review_state ctx = Some VerificationFailed then Some ReviewVerificationFailed else None),
      sm_verification = map_option policy_verification (hs_latest_verification ctx),
      sm_tool_round = hs_tool_round ctx, sm_current_model = hs_current_model ctx, sm_escalate_model = hs_escalate_model ctx\<rparr>"

definition decide_step_model :: "harness_step_context \<Rightarrow> rstr \<Rightarrow> step_model_decision" where
  "decide_step_model ctx configured = decide_policy (policy_context ctx) configured"

definition resolve_step_model :: "harness_step_context \<Rightarrow> rstr \<Rightarrow> rstr" where
  "resolve_step_model ctx configured = sd_model (decide_step_model ctx configured)"

record step_model_record =
  sr_model :: rstr
  sr_reason :: step_model_reason
  sr_actor :: actor_kind
  sr_tool_round :: nat
  sr_actor_id :: "rstr option"
  sr_configured :: rstr

definition record_step_model ::
    "harness_step_context \<Rightarrow> step_model_decision \<Rightarrow> rstr \<Rightarrow> rstr option \<Rightarrow> step_model_record" where
  "record_step_model ctx decision configured actor_id =
     \<lparr>sr_model = sd_model decision, sr_reason = sd_reason decision, sr_actor = hs_actor ctx, sr_tool_round = hs_tool_round ctx,
      sr_actor_id = (case map_option trim actor_id of Some i \<Rightarrow> if i \<noteq> [] then Some i else None | None \<Rightarrow> None),
      sr_configured = configured\<rparr>"

text \<open>The contexts of the two sides agree.\<close>

lemma policy_context_defaults:
  "policy_context (ion_api m) = worker_context m" "policy_context (system_step m) = system_context m"
  "policy_context (supervisor_step m) = supervisor_context m"
  by (simp_all add: policy_context_def ion_api_def system_step_def supervisor_step_def worker_context_def system_context_def
      supervisor_context_def)

text \<open>A step leaves the configured model exactly when a verification failed, the actor may change models and an
  escalation model is configured; the round plays no part.\<close>

lemma escalates_iff:
  "sd_reason (decide_step_model ctx configured) = AfterVerifierFailure \<longleftrightarrow>
     hs_actor ctx \<notin> {Operator, Verifier} \<and>
     (hs_latest_verification ctx \<in> {Some Failed, Some Inconclusive} \<or> hs_review_state ctx = Some VerificationFailed) \<and>
     (\<exists>m. hs_escalate_model ctx = Some m \<and> trim m \<noteq> [])"
proof -
  have "policy_actor a \<in> {StepOperator, StepVerifier} \<longleftrightarrow> a \<in> {Operator, Verifier}" for a by (cases a) auto
  moreover have "map_option policy_verification v \<in> {Some SignalFailed, Some SignalInconclusive} \<longleftrightarrow>
      v \<in> {Some Failed, Some Inconclusive}" for v
    by (cases v; cases "the v") auto
  ultimately show ?thesis
    by (auto simp: decide_step_model_def decide_policy_def policy_context_def verifier_or_attestation_failed_def
        stay_configured_def split: option.splits)
qed

lemma round_does_not_matter:
  "resolve_step_model (ctx\<lparr>hs_tool_round := n\<rparr>) configured = resolve_step_model ctx configured"
  by (cases "hs_escalate_model ctx") (auto simp: resolve_step_model_def decide_step_model_def decide_policy_def
      policy_context_def verifier_or_attestation_failed_def stay_configured_def)

end
