(* ===== verification/Tool_Loop.thy ===== *)
theory Tool_Loop
  imports Step_Model Ion_Gate_Machine "HOL-Library.Word"
begin

text \<open>
  The tool loop of an agent (\<open>llm_backends/mod.rs\<close>): one user turn in which the model may ask for tools, with the
  budget of the loop contract, the compaction of old tool results and the pairing of calls and results; and
  the turn of the ion REPL (\<open>ion_repl/chat.rs\<close>), which runs it with the confirmation gate as its executor.

  The model and the tools are parameters that act on a world of any type; an answer \<open>None\<close> means that the wall
  clock of the turn ran out while the agent was waiting.  \<open>alnum\<close> and \<open>render\<close> are the parameters of the
  loop contract.  A temperature is the bit pattern of its \<open>f32\<close>.
\<close>

section \<open>Messages\<close>

datatype chat_role = SystemRole | UserRole | AssistantRole

record tool_use =
  tu_id :: rstr
  tu_name :: rstr
  tu_input :: json

record tool_answer =
  ta_use_id :: rstr
  ta_content :: rstr
  ta_is_error :: bool

record message =
  ms_role :: chat_role
  ms_content :: rstr
  ms_tool_calls :: "tool_use list"
  ms_tool_results :: "tool_answer list"

definition text_message :: "chat_role \<Rightarrow> rstr \<Rightarrow> message" where
  "text_message role content = \<lparr>ms_role = role, ms_content = content, ms_tool_calls = [], ms_tool_results = []\<rparr>"

definition assistant_tool_use :: "rstr \<Rightarrow> tool_use list \<Rightarrow> message" where
  "assistant_tool_use content calls =
     \<lparr>ms_role = AssistantRole, ms_content = content, ms_tool_calls = calls, ms_tool_results = []\<rparr>"

definition tool_results_message :: "tool_answer list \<Rightarrow> message" where
  "tool_results_message results = \<lparr>ms_role = UserRole, ms_content = [], ms_tool_calls = [], ms_tool_results = results\<rparr>"

record tool_definition =
  tf_name :: rstr
  tf_description :: rstr
  tf_input_schema :: json

datatype stop_reason = EndTurn | ToolUse | MaxTokens | OtherStop

record chat_request =
  rq_model :: rstr
  rq_messages :: "message list"
  rq_temperature :: "32 word"
  rq_max_tokens :: "32 word option"
  rq_tools :: "tool_definition list"

record chat_response =
  rs_content :: rstr
  rs_model :: rstr
  rs_input_tokens :: "32 word"
  rs_output_tokens :: "32 word"
  rs_stop_reason :: stop_reason
  rs_tool_calls :: "tool_use list"

datatype agent_error =
    ApiRequest rstr
  | ApiResponse rstr
  | MissingApiKey rstr
  | ModelNotFound rstr
  | RateLimited
  | Authentication rstr
  | AgentNotFound rstr
  | SessionNotFound rstr
  | InvalidRequest rstr
  | ToolLoopLimitExceeded nat
  | ToolLoopTimedOut nat
  | HarnessTimedOut rstr nat
  | ToolLoopStalled loop_trip
  | TruncatedToolCall rstr nat
  | ProviderRefusal rstr rstr

definition quoted :: "rstr \<Rightarrow> rstr" where
  "quoted s = [39] @ s @ [39]"

fun show_agent_error :: "agent_error \<Rightarrow> rstr" where
  "show_agent_error (ApiRequest s) = lit ''API request failed: '' @ s"
| "show_agent_error (ApiResponse s) = lit ''API returned invalid response: '' @ s"
| "show_agent_error (MissingApiKey p) = lit ''No API key configured for '' @ p"
| "show_agent_error (ModelNotFound m) = lit ''Model '' @ m @ lit '' not found''"
| "show_agent_error RateLimited = lit ''Rate limited by provider''"
| "show_agent_error (Authentication s) = lit ''Authentication failed: '' @ s"
| "show_agent_error (AgentNotFound i) = lit ''Agent not found: '' @ i"
| "show_agent_error (SessionNotFound i) = lit ''Session not found: '' @ i"
| "show_agent_error (InvalidRequest s) = lit ''Invalid request: '' @ s"
| "show_agent_error (ToolLoopLimitExceeded n) =
     lit ''Tool-use loop exceeded the maximum of '' @ dec n @ lit '' round trip(s) without a final reply''"
| "show_agent_error (ToolLoopTimedOut n) =
     lit ''Tool-use loop exceeded its '' @ dec n @ lit ''s wall-clock budget without a final reply''"
| "show_agent_error (HarnessTimedOut c n) =
     lit ''Harness command '' @ quoted c @ lit '' did not complete within '' @ dec n @ lit ''s''"
| "show_agent_error (ToolLoopStalled t) = lit ''Tool-use loop stalled: '' @ show_trip t"
| "show_agent_error (TruncatedToolCall p n) =
     lit ''Provider '' @ quoted p @ lit '' stopped at its token limit while emitting '' @ dec n @
     lit '' tool call(s); the request was truncated mid-tool-use and was not executed''"
| "show_agent_error (ProviderRefusal p m) = lit ''Provider '' @ quoted p @ lit '' declined to answer: '' @ m"

fun show_contract_error :: "loop_contract_error \<Rightarrow> rstr" where
  "show_contract_error (ZeroRounds n) = lit ''loop contract '' @ quoted n @ lit '' must allow at least one round''"
| "show_contract_error (ZeroWallClock n) = lit ''loop contract '' @ quoted n @ lit '' must have a non-zero wall-clock budget''"
| "show_contract_error (ZeroStreak n l) =
     lit ''loop contract '' @ quoted n @ lit '' streak limit '' @ quoted (lit l) @ lit '' must be non-zero when set''"
| "show_contract_error (ZeroContextBudget n) =
     lit ''loop contract '' @ quoted n @ lit '' context budget must be non-zero when set''"
| "show_contract_error (ZeroToolCallBudget n) =
     lit ''loop contract '' @ quoted n @ lit '' tool-call budget must be non-zero when set''"

section \<open>The parameters of a turn\<close>

record 'w loop_env =
  le_alnum :: "nat \<Rightarrow> bool"
  le_render :: "json \<Rightarrow> rstr"
  le_provider :: rstr
  le_chat :: "chat_request \<Rightarrow> 'w \<Rightarrow> (agent_error + chat_response) option \<times> 'w"
  le_elapsed :: "'w \<Rightarrow> nat"

text \<open>The executor of the tools; the frame of a stub may draw a fresh nonce.\<close>

record 'w tool_executor =
  ex_execute :: "rstr \<Rightarrow> json \<Rightarrow> 'w \<Rightarrow> call_result option \<times> 'w"
  ex_wrap_stub :: "rstr \<Rightarrow> 'w \<Rightarrow> rstr \<times> 'w"
  ex_note :: "rstr \<Rightarrow> rstr option"

section \<open>The size of a history\<close>

datatype wire_format = AnthropicWire | OpenAiWire

definition WIRE_FORMATS :: "wire_format list" where
  "WIRE_FORMATS = [AnthropicWire, OpenAiWire]"

definition tool_input_chars :: "(json \<Rightarrow> rstr) \<Rightarrow> wire_format \<Rightarrow> json \<Rightarrow> nat" where
  "tool_input_chars render format input =
     (let canonical = canonical_json render input in
      case format of
        AnthropicWire \<Rightarrow> length canonical
      | OpenAiWire \<Rightarrow> length (render (JString canonical)))"

definition widest_tool_input_chars :: "(json \<Rightarrow> rstr) \<Rightarrow> json \<Rightarrow> nat" where
  "widest_tool_input_chars render input = Max (set (map (\<lambda>f. tool_input_chars render f input) WIRE_FORMATS))"

definition call_chars :: "(json \<Rightarrow> rstr) \<Rightarrow> tool_use \<Rightarrow> nat" where
  "call_chars render c = length (tu_id c) + length (tu_name c) + widest_tool_input_chars render (tu_input c)"

definition answer_chars :: "tool_answer \<Rightarrow> nat" where
  "answer_chars r = length (ta_use_id r) + length (ta_content r)"

definition message_chars :: "(json \<Rightarrow> rstr) \<Rightarrow> message \<Rightarrow> nat" where
  "message_chars render m =
     length (ms_content m) + sum_list (map (call_chars render) (ms_tool_calls m)) + sum_list (map answer_chars (ms_tool_results m))"

definition history_chars :: "(json \<Rightarrow> rstr) \<Rightarrow> message list \<Rightarrow> nat" where
  "history_chars render ms = sum_list (map (message_chars render) ms)"

section \<open>Compaction\<close>

definition COMPACTION_STUB_MAX_TOOL_CHARS :: nat where
  "COMPACTION_STUB_MAX_TOOL_CHARS = 64"

definition compaction_stub :: "(json \<Rightarrow> rstr) \<Rightarrow> nat \<Rightarrow> rstr option \<Rightarrow> rstr" where
  "compaction_stub render dropped tool =
     (case tool of
        Some name \<Rightarrow> lit ''[compacted '' @ dec dropped @ lit '' chars from tool '' @
          render (JString (take COMPACTION_STUB_MAX_TOOL_CHARS name)) @ lit '']''
      | None \<Rightarrow> lit ''[compacted '' @ dec dropped @ lit '' chars]'')"

text \<open>What the pass carries along: the running total, the compacted results, the breaker and the world.\<close>

type_synonym 'w compaction = "nat \<times> rstr set \<times> loop_breaker \<times> 'w"

definition framed_stub ::
    "'w loop_env \<Rightarrow> 'w tool_executor \<Rightarrow> (rstr \<rightharpoonup> rstr) \<Rightarrow> tool_answer \<Rightarrow> 'w \<Rightarrow> rstr \<times> 'w" where
  "framed_stub E X names r w =
     ex_wrap_stub X (compaction_stub (le_render E) (length (ta_content r)) (names (ta_use_id r)) @
       (case ex_note X (ta_content r) of Some note \<Rightarrow> note | None \<Rightarrow> [])) w"

fun compact_results ::
    "'w loop_env \<Rightarrow> 'w tool_executor \<Rightarrow> nat \<Rightarrow> (rstr \<rightharpoonup> rstr) \<Rightarrow> tool_answer list \<Rightarrow> 'w compaction \<Rightarrow>
     tool_answer list \<times> 'w compaction" where
  "compact_results E X limit names [] st = ([], st)"
| "compact_results E X limit names (r # rs) (chars, compacted, b, w) =
     (if chars \<le> limit then (r # rs, (chars, compacted, b, w))
      else if ta_use_id r \<in> compacted
        then apfst (Cons r) (compact_results E X limit names rs (chars, compacted, b, w))
      else case framed_stub E X names r w of (stub, w') \<Rightarrow>
        if length (ta_content r) \<le> length stub
        then apfst (Cons r) (compact_results E X limit names rs (chars, compacted, b, w'))
        else apfst (Cons (r\<lparr>ta_content := stub\<rparr>))
          (compact_results E X limit names rs
            (chars - (length (ta_content r) - length stub), insert (ta_use_id r) compacted, observe_compaction b, w')))"

text \<open>The message at index \<open>spared\<close> is left alone.\<close>

fun compact_messages ::
    "'w loop_env \<Rightarrow> 'w tool_executor \<Rightarrow> nat \<Rightarrow> (rstr \<rightharpoonup> rstr) \<Rightarrow> nat option \<Rightarrow> nat \<Rightarrow> message list \<Rightarrow> 'w compaction \<Rightarrow>
     message list \<times> 'w compaction" where
  "compact_messages E X limit names spared i [] st = ([], st)"
| "compact_messages E X limit names spared i (m # ms) st =
     (if spared = Some i then apfst (Cons m) (compact_messages E X limit names spared (Suc i) ms st)
      else case compact_results E X limit names (ms_tool_results m) st of (results, st') \<Rightarrow>
        let m' = m\<lparr>ms_tool_results := results\<rparr> in
        if fst st' \<le> limit then (m' # ms, st')
        else apfst (Cons m') (compact_messages E X limit names spared (Suc i) ms st'))"

text \<open>The last message with results, when this run produced it.\<close>

definition newest_results :: "nat \<Rightarrow> message list \<Rightarrow> nat option" where
  "newest_results start ms =
     (case filter (\<lambda>i. ms_tool_results (ms ! i) \<noteq> []) [0..<length ms] of
        [] \<Rightarrow> None
      | found \<Rightarrow> if start \<le> last found then Some (last found) else None)"

definition call_names :: "message list \<Rightarrow> rstr \<rightharpoonup> rstr" where
  "call_names ms = map_of (rev (map (\<lambda>c. (tu_id c, tu_name c)) (concat (map ms_tool_calls ms))))"

definition enforce_context_budget ::
    "'w loop_env \<Rightarrow> 'w tool_executor \<Rightarrow> nat \<Rightarrow> message list \<Rightarrow> rstr set \<Rightarrow> loop_breaker \<Rightarrow> 'w \<Rightarrow>
     loop_trip option \<times> message list \<times> rstr set \<times> loop_breaker \<times> 'w" where
  "enforce_context_budget E X start working compacted b w =
     (case max_context_chars (lc_budget (lb_contract b)) of
        None \<Rightarrow> (None, working, compacted, b, w)
      | Some limit \<Rightarrow>
          let chars = history_chars (le_render E) working in
          if chars \<le> limit then (None, working, compacted, b, w)
          else case compact_messages E X limit (call_names working) (newest_results start working) 0 working
              (chars, compacted, b, w) of
            (working', chars', compacted', b', w') \<Rightarrow>
              (if limit < chars' then Some (ContextBudget chars' limit) else None, working', compacted', b', w'))"

section \<open>Checking and renaming calls\<close>

fun check_calls :: "rstr \<Rightarrow> rstr set \<Rightarrow> tool_use list \<Rightarrow> agent_error + unit" where
  "check_calls provider seen [] = Inr ()"
| "check_calls provider seen (c # cs) =
     (if trim (tu_id c) = [] then
        Inl (ApiResponse (provider @ lit '' requested tool '' @ quoted (take 80 (tu_name c)) @ lit '' without a call id''))
      else if trim (tu_name c) = [] then
        Inl (ApiResponse (provider @ lit '' requested call '' @ quoted (take 80 (tu_id c)) @ lit '' without a tool name''))
      else if tu_id c \<in> seen then
        Inl (ApiResponse (provider @ lit '' reused the tool call id '' @ quoted (take 80 (tu_id c))))
      else check_calls provider (insert (tu_id c) seen) cs)"

definition check_tool_calls :: "rstr \<Rightarrow> chat_response \<Rightarrow> agent_error + unit" where
  "check_tool_calls provider response =
     (let calls = rs_tool_calls response in
      if rs_stop_reason response = ToolUse then
        (if calls = [] then Inl (ApiResponse (provider @ lit '' stopped for tool use but requested no tool''))
         else check_calls provider {} calls)
      else if calls = [] then Inr ()
      else Inl (ApiResponse (provider @ lit '' returned '' @ dec (length calls) @
        lit '' tool call(s) without stopping for tool use'')))"

definition numbered_id :: "rstr \<Rightarrow> nat \<Rightarrow> rstr" where
  "numbered_id base n = base @ lit ''-'' @ dec n"

text \<open>The search over all numbers from 2; one of the first \<open>length taken + 1\<close> is free.\<close>

definition fresh_id :: "rstr list \<Rightarrow> rstr \<Rightarrow> rstr" where
  "fresh_id taken base =
     (case List.find (\<lambda>i. i \<notin> set taken) (map (numbered_id base) [2..<length taken + 3]) of
        Some i \<Rightarrow> i
      | None \<Rightarrow> base)"

fun rename_calls :: "rstr list \<Rightarrow> rstr list \<Rightarrow> tool_use list \<Rightarrow> tool_use list" where
  "rename_calls batch used [] = []"
| "rename_calls batch used (c # cs) =
     (let c' = (if tu_id c \<in> set used then c\<lparr>tu_id := fresh_id (used @ batch) (tu_id c)\<rparr> else c) in
      c' # rename_calls batch (tu_id c' # used) cs)"

definition call_ids :: "message list \<Rightarrow> rstr list" where
  "call_ids ms = map tu_id (concat (map ms_tool_calls ms))"

definition rename_repeated_call_ids :: "message list \<Rightarrow> tool_use list \<Rightarrow> tool_use list" where
  "rename_repeated_call_ids working calls = rename_calls (map tu_id calls) (call_ids working) calls"

section \<open>The loop\<close>

datatype loop_exit = ExitTripped loop_trip | ExitFailed agent_error | ExitElapsed

fun execute_calls ::
    "'w loop_env \<Rightarrow> 'w tool_executor \<Rightarrow> tool_use list \<Rightarrow> loop_breaker \<Rightarrow> 'w \<Rightarrow>
     (loop_exit + tool_answer list) \<times> loop_breaker \<times> 'w" where
  "execute_calls E X [] b w = (Inr [], b, w)"
| "execute_calls E X (c # cs) b w =
     (case admit_call b of
        Inl trip \<Rightarrow> (Inl (ExitTripped trip), b, w)
      | Inr b1 \<Rightarrow> (case ex_execute X (tu_name c) (tu_input c) w of
            (None, w1) \<Rightarrow> (Inl ExitElapsed, b1, w1)
          | (Some outcome, w1) \<Rightarrow>
              (case observe_call (le_alnum E) (le_render E) b1 (tu_name c) (tu_input c)
                  \<lparr>co_is_error = cx_is_error outcome, co_content = cx_content outcome\<rparr> of
                 (Some trip, b2) \<Rightarrow> (Inl (ExitTripped trip), b2, w1)
               | (None, b2) \<Rightarrow> (case execute_calls E X cs b2 w1 of
                     (Inl exit, b3, w2) \<Rightarrow> (Inl exit, b3, w2)
                   | (Inr answers, b3, w2) \<Rightarrow>
                       (Inr (\<lparr>ta_use_id = tu_id c, ta_content = cx_content outcome, ta_is_error = cx_is_error outcome\<rparr> # answers),
                        b3, w2)))))"

text \<open>What every round of one run shares.\<close>

record run_settings =
  rn_step_context :: harness_step_context
  rn_system_prompt :: "rstr option"
  rn_temperature :: "32 word"
  rn_max_tokens :: "32 word option"
  rn_tools :: "tool_definition list"
  rn_start :: nat

record 'w run_state =
  ru_working :: "message list"
  ru_compacted :: "rstr set"
  ru_breaker :: loop_breaker
  ru_world :: 'w

datatype 'w round_result = RoundExit loop_exit "'w run_state" | RoundReply rstr "'w run_state" | RoundNext "'w run_state"

definition request_of :: "run_settings \<Rightarrow> message list \<Rightarrow> nat \<Rightarrow> chat_request" where
  "request_of S working tool_round =
     \<lparr>rq_model = resolve_step_model ((rn_step_context S)\<lparr>hs_tool_round := tool_round\<rparr>) (hs_current_model (rn_step_context S)),
      rq_messages = (case rn_system_prompt S of Some system \<Rightarrow> [text_message SystemRole system] | None \<Rightarrow> []) @ working,
      rq_temperature = rn_temperature S, rq_max_tokens = rn_max_tokens S, rq_tools = rn_tools S\<rparr>"

text \<open>What the loop does with one answer of the model.\<close>

definition take_response ::
    "'w loop_env \<Rightarrow> 'w tool_executor \<Rightarrow> chat_response \<Rightarrow> 'w run_state \<Rightarrow> 'w round_result" where
  "take_response E X response s =
     (if rs_stop_reason response = MaxTokens \<and> rs_tool_calls response \<noteq> []
      then RoundExit (ExitFailed (TruncatedToolCall (le_provider E) (length (rs_tool_calls response)))) s
      else case check_tool_calls (le_provider E) response of
        Inl e \<Rightarrow> RoundExit (ExitFailed e) s
      | Inr _ \<Rightarrow>
          let calls = rename_repeated_call_ids (ru_working s) (rs_tool_calls response) in
          if rs_stop_reason response = ToolUse \<and> calls \<noteq> [] then
            (let asked = ru_working s @ [assistant_tool_use (rs_content response) calls] in
             case execute_calls E X calls (ru_breaker s) (ru_world s) of
               (Inl exit, b, w) \<Rightarrow> RoundExit exit (s\<lparr>ru_working := asked, ru_breaker := b, ru_world := w\<rparr>)
             | (Inr answers, b, w) \<Rightarrow> (case end_round b of
                   (Some trip, b') \<Rightarrow> RoundExit (ExitTripped trip)
                     (s\<lparr>ru_working := asked @ [tool_results_message answers], ru_breaker := b', ru_world := w\<rparr>)
                 | (None, b') \<Rightarrow> RoundNext
                     (s\<lparr>ru_working := asked @ [tool_results_message answers], ru_breaker := b', ru_world := w\<rparr>)))
          else RoundReply (rs_content response)
            (s\<lparr>ru_working := ru_working s @ [text_message AssistantRole (rs_content response)]\<rparr>))"

definition loop_round ::
    "'w loop_env \<Rightarrow> 'w tool_executor \<Rightarrow> run_settings \<Rightarrow> 'w run_state \<Rightarrow> 'w round_result" where
  "loop_round E X S s =
     (case enforce_context_budget E X (rn_start S) (ru_working s) (ru_compacted s) (ru_breaker s) (ru_world s) of
        (trip, working, compacted, b, w) \<Rightarrow>
          let s1 = \<lparr>ru_working = working, ru_compacted = compacted, ru_breaker = b, ru_world = w\<rparr> in
          case trip of
            Some t \<Rightarrow> RoundExit (ExitTripped t) s1
          | None \<Rightarrow> (case begin_round b of
                Inl t \<Rightarrow> RoundExit (ExitTripped t) s1
              | Inr (tool_round, b') \<Rightarrow>
                  (case le_chat E (request_of S working tool_round) w of
                     (None, w') \<Rightarrow> RoundExit ExitElapsed (s1\<lparr>ru_breaker := b', ru_world := w'\<rparr>)
                   | (Some (Inl e), w') \<Rightarrow> RoundExit (ExitFailed e) (s1\<lparr>ru_breaker := b', ru_world := w'\<rparr>)
                   | (Some (Inr response), w') \<Rightarrow> take_response E X response (s1\<lparr>ru_breaker := b', ru_world := w'\<rparr>))))"

fun pass_breaker :: "'w compaction \<Rightarrow> loop_breaker" where
  "pass_breaker (_, _, b, _) = b"

text \<open>A round leaves the contract alone and spends one of its rounds, so the loop ends.\<close>

definition same_round :: "loop_breaker \<Rightarrow> loop_breaker \<Rightarrow> bool" where
  "same_round b b' \<longleftrightarrow> lb_contract b' = lb_contract b \<and> lb_rounds_used b' = lb_rounds_used b"

lemma same_round_trans: "same_round a b \<Longrightarrow> same_round b c \<Longrightarrow> same_round a c"
  by (simp add: same_round_def)

lemma same_round_steps:
  "same_round b b" "same_round b (observe_compaction b)" "admit_call b = Inr b' \<Longrightarrow> same_round b b'"
  "observe_call alnum render b tool input out = (t, b') \<Longrightarrow> same_round b b'" "end_round b = (t, b') \<Longrightarrow> same_round b b'"
  by (auto simp: same_round_def observe_compaction_def admit_call_def observe_call_def note_call_def note_outcome_def
      end_round_def Let_def split: option.splits if_splits)

lemma compact_results_round:
  "same_round (pass_breaker st) (pass_breaker (snd (compact_results E X limit names rs st)))"
proof (induction E X limit names rs st rule: compact_results.induct)
  case (2 E X limit names r rs n C b w)
  obtain stub w' where stub: "framed_stub E X names r w = (stub, w')" by fastforce
  with 2 show ?case by (auto simp: same_round_steps intro: same_round_trans [OF same_round_steps(2)])
qed (simp add: same_round_steps)

lemma compact_messages_round:
  "same_round (pass_breaker st) (pass_breaker (snd (compact_messages E X limit names spared i ms st)))"
proof (induction E X limit names spared i ms st rule: compact_messages.induct)
  case (2 E X limit names spared i m ms st)
  obtain rs st' where rs: "compact_results E X limit names (ms_tool_results m) st = (rs, st')"
    by (cases "compact_results E X limit names (ms_tool_results m) st") blast
  then have "same_round (pass_breaker st) (pass_breaker st')"
    using compact_results_round [of st E X limit names "ms_tool_results m"] by simp
  with 2 rs show ?case by (auto simp: Let_def intro: same_round_trans)
qed (simp add: same_round_steps)

lemma enforce_cases:
  assumes "enforce_context_budget E X start ms C b w = (t, ms', C', b', w')"
  obtains (within) "t = None" "ms' = ms" "C' = C" "b' = b" "w' = w"
      "\<And>limit. max_context_chars (lc_budget (lb_contract b)) = Some limit \<Longrightarrow> history_chars (le_render E) ms \<le> limit"
    | (pass) limit n where "max_context_chars (lc_budget (lb_contract b)) = Some limit" "limit < history_chars (le_render E) ms"
      "compact_messages E X limit (call_names ms) (newest_results start ms) 0 ms (history_chars (le_render E) ms, C, b, w) =
         (ms', n, C', b', w')" "t = (if limit < n then Some (ContextBudget n limit) else None)"
  using assms by (auto simp: enforce_context_budget_def Let_def not_le split: option.splits if_splits prod.splits)

lemma enforce_round:
  assumes "enforce_context_budget E X start ms C b w = (t, ms', C', b', w')"
  shows "same_round b b'"
  using assms
proof (cases rule: enforce_cases)
  case (pass limit n)
  then show ?thesis
    using compact_messages_round [of "(history_chars (le_render E) ms, C, b, w)" E X limit "call_names ms" "newest_results start ms" 0 ms]
    by simp
qed (simp add: same_round_steps)

lemma execute_calls_round: "execute_calls E X cs b w = (res, b', w') \<Longrightarrow> same_round b b'"
proof (induction cs arbitrary: b w res)
  case (Cons c cs)
  then show ?case
    by (fastforce split: sum.splits prod.splits option.splits
        dest: same_round_steps(3,4) intro: same_round_steps(1) same_round_trans)
qed (simp add: same_round_steps)

lemma take_response_round:
  assumes "take_response E X response s = RoundNext s'"
  shows "same_round (ru_breaker s) (ru_breaker s')"
proof -
  let ?calls = "rename_repeated_call_ids (ru_working s) (rs_tool_calls response)"
  obtain answers b1 w1 where exec: "execute_calls E X ?calls (ru_breaker s) (ru_world s) = (Inr answers, b1, w1)"
    and ends: "end_round b1 = (None, ru_breaker s')"
    using assms by (auto simp: take_response_def Let_def split: if_splits sum.splits prod.splits option.splits)
  show ?thesis
    using execute_calls_round [OF exec] same_round_steps(5) [OF ends] by (rule same_round_trans)
qed

definition rounds_left :: "loop_breaker \<Rightarrow> nat" where
  "rounds_left b = max_rounds (lc_budget (lb_contract b)) - lb_rounds_used b"

text \<open>A round that is not cut off by the budget, the provider or the clock takes the model's answer.\<close>

lemma loop_round_takes:
  assumes "loop_round E X S s = res" "\<And>exit s'. res \<noteq> RoundExit exit s'"
  obtains ms C b b' w w' n response
    where "enforce_context_budget E X (rn_start S) (ru_working s) (ru_compacted s) (ru_breaker s) (ru_world s) = (None, ms, C, b, w)"
      "begin_round b = Inr (n, b')" "le_chat E (request_of S ms n) w = (Some (Inr response), w')"
      "take_response E X response \<lparr>ru_working = ms, ru_compacted = C, ru_breaker = b', ru_world = w'\<rparr> = res"
  using assms by (auto simp: loop_round_def Let_def split: prod.splits option.splits sum.splits)

lemma loop_round_spends:
  assumes "loop_round E X S s = RoundNext s'"
  shows "lb_contract (ru_breaker s') = lb_contract (ru_breaker s)" "rounds_left (ru_breaker s') < rounds_left (ru_breaker s)"
proof -
  from assms obtain ms C b b1 w w1 n response
    where fit: "enforce_context_budget E X (rn_start S) (ru_working s) (ru_compacted s) (ru_breaker s) (ru_world s) = (None, ms, C, b, w)"
      and begins: "begin_round b = Inr (n, b1)"
      and taken: "take_response E X response \<lparr>ru_working = ms, ru_compacted = C, ru_breaker = b1, ru_world = w1\<rparr> = RoundNext s'"
    by (rule loop_round_takes) simp_all
  have "same_round (ru_breaker s) b" using fit by (rule enforce_round)
  moreover have "same_round b1 (ru_breaker s')" using take_response_round [OF taken] by simp
  moreover have "lb_contract b1 = lb_contract b" "lb_rounds_used b1 = Suc (lb_rounds_used b)"
    "lb_rounds_used b < max_rounds (lc_budget (lb_contract b))"
    using begins by (auto simp: begin_round_def Let_def split: if_splits)
  ultimately show "lb_contract (ru_breaker s') = lb_contract (ru_breaker s)" "rounds_left (ru_breaker s') < rounds_left (ru_breaker s)"
    by (simp_all add: same_round_def rounds_left_def)
qed

function run_tool_loop ::
    "'w loop_env \<Rightarrow> 'w tool_executor \<Rightarrow> run_settings \<Rightarrow> 'w run_state \<Rightarrow> (loop_exit + rstr) \<times> 'w run_state" where
  "run_tool_loop E X S s =
     (case loop_round E X S s of
        RoundNext s' \<Rightarrow> run_tool_loop E X S s'
      | RoundExit exit s' \<Rightarrow> (Inl exit, s')
      | RoundReply reply s' \<Rightarrow> (Inr reply, s'))"
  by pat_completeness auto
termination
  by (relation "measure (\<lambda>(_, _, _, s). rounds_left (ru_breaker s))") (simp_all add: loop_round_spends)

declare run_tool_loop.simps [simp del]

section \<open>The agent\<close>

record agent =
  ag_model :: rstr
  ag_system_prompt :: "rstr option"
  ag_history :: "message list"
  ag_temperature :: "32 word"
  ag_max_tokens :: "32 word option"
  ag_step_context :: harness_step_context
  ag_loop_contract :: loop_contract
  ag_last_loop_report :: "loop_report option"
  ag_compacted_results :: "rstr set"

definition DEFAULT_TEMPERATURE :: "32 word" where
  "DEFAULT_TEMPERATURE = 0x3F333333"

definition DEFAULT_MAX_TOKENS :: "32 word" where
  "DEFAULT_MAX_TOKENS = 4096"

definition new_agent :: "rstr \<Rightarrow> rstr option \<Rightarrow> rstr option \<Rightarrow> agent" where
  "new_agent default_model model system_prompt =
     (let m = (case model of Some m \<Rightarrow> m | None \<Rightarrow> default_model) in
      \<lparr>ag_model = m, ag_system_prompt = system_prompt, ag_history = [], ag_temperature = DEFAULT_TEMPERATURE,
       ag_max_tokens = Some DEFAULT_MAX_TOKENS, ag_step_context = ion_api m, ag_loop_contract = ion_tool_loop_contract,
       ag_last_loop_report = None, ag_compacted_results = {}\<rparr>)"

definition with_loop_contract :: "loop_contract \<Rightarrow> agent \<Rightarrow> loop_contract_error + agent" where
  "with_loop_contract contract a = and_then (loop_contract_validate contract) (\<lambda>_. Inr (a\<lparr>ag_loop_contract := contract\<rparr>))"

definition request_model :: "agent \<Rightarrow> nat \<Rightarrow> rstr" where
  "request_model a tool_round =
     resolve_step_model ((ag_step_context a)\<lparr>hs_current_model := ag_model a, hs_tool_round := tool_round\<rparr>) (ag_model a)"

text \<open>A chat without tools has no deadline of its own; \<open>None\<close> is a wait that does not end.\<close>

definition chat ::
    "'w loop_env \<Rightarrow> rstr \<Rightarrow> agent \<Rightarrow> 'w \<Rightarrow> (agent_error + rstr) option \<times> agent \<times> 'w" where
  "chat E user_message a w =
     (case le_chat E \<lparr>rq_model = request_model a 0,
         rq_messages = (case ag_system_prompt a of Some system \<Rightarrow> [text_message SystemRole system] | None \<Rightarrow> []) @
           ag_history a @ [text_message UserRole user_message],
         rq_temperature = ag_temperature a, rq_max_tokens = ag_max_tokens a, rq_tools = []\<rparr> w of
        (None, w') \<Rightarrow> (None, a, w')
      | (Some (Inl e), w') \<Rightarrow> (Some (Inl e), a, w')
      | (Some (Inr response), w') \<Rightarrow> (Some (Inr (rs_content response)),
          a\<lparr>ag_history := ag_history a @
            [text_message UserRole user_message, text_message AssistantRole (rs_content response)]\<rparr>, w'))"

fun trip_error :: "loop_trip \<Rightarrow> agent_error" where
  "trip_error (RoundCap rounds) = ToolLoopLimitExceeded rounds"
| "trip_error (WallClock millis) = ToolLoopTimedOut (millis div 1000)"
| "trip_error trip = ToolLoopStalled trip"

text \<open>How a run that gave no reply is reported and what its caller is told; \<open>nanos\<close> is the wall-clock budget.\<close>

fun exit_report :: "(nat \<Rightarrow> bool) \<Rightarrow> nat \<Rightarrow> loop_exit \<Rightarrow> loop_termination \<times> agent_error" where
  "exit_report alnum nanos (ExitTripped trip) = (Tripped trip, trip_error trip)"
| "exit_report alnum nanos (ExitFailed e) = (LoopFailed (error_signature alnum (show_agent_error e)), e)"
| "exit_report alnum nanos ExitElapsed = (Tripped (WallClock (millis_u64 nanos)), ToolLoopTimedOut (nanos div 10 ^ 9))"

definition chat_with_tools_capped_timeout ::
    "'w loop_env \<Rightarrow> 'w tool_executor \<Rightarrow> rstr \<Rightarrow> tool_definition list \<Rightarrow> nat \<Rightarrow> nat \<Rightarrow> agent \<Rightarrow> 'w \<Rightarrow>
     (agent_error + rstr) \<times> agent \<times> 'w" where
  "chat_with_tools_capped_timeout E X user_message tools rounds nanos a w =
     (let a = a\<lparr>ag_last_loop_report := None\<rparr>;
          contract = (ag_loop_contract a)\<lparr>lc_budget := (lc_budget (ag_loop_contract a))\<lparr>max_rounds := rounds, wall_clock := nanos\<rparr>\<rparr>
      in case loop_contract_validate contract of
           Inl e \<Rightarrow> (Inl (InvalidRequest (lit ''loop contract rejected: '' @ show_contract_error e)), a, w)
         | Inr _ \<Rightarrow>
             let working = ag_history a @ [text_message UserRole user_message];
                 settings = \<lparr>rn_step_context = (ag_step_context a)\<lparr>hs_current_model := ag_model a\<rparr>,
                   rn_system_prompt = ag_system_prompt a, rn_temperature = ag_temperature a, rn_max_tokens = ag_max_tokens a,
                   rn_tools = tools, rn_start = length working\<rparr>
             in (case run_tool_loop E X settings \<lparr>ru_working = working, ru_compacted = ag_compacted_results a,
                     ru_breaker = breaker_new contract, ru_world = w\<rparr> of
                   (Inr reply, s) \<Rightarrow> (Inr reply,
                     a\<lparr>ag_last_loop_report := Some (breaker_report (ru_breaker s) Completed (le_elapsed E (ru_world s))),
                       ag_history := ru_working s, ag_compacted_results := ru_compacted s\<rparr>, ru_world s)
                 | (Inl exit, s) \<Rightarrow> (case exit_report (le_alnum E) nanos exit of (ended, e) \<Rightarrow> (Inl e,
                     a\<lparr>ag_last_loop_report := Some (breaker_report (ru_breaker s) ended (le_elapsed E (ru_world s)))\<rparr>,
                     ru_world s))))"

definition chat_with_tools_capped ::
    "'w loop_env \<Rightarrow> 'w tool_executor \<Rightarrow> rstr \<Rightarrow> tool_definition list \<Rightarrow> nat \<Rightarrow> agent \<Rightarrow> 'w \<Rightarrow>
     (agent_error + rstr) \<times> agent \<times> 'w" where
  "chat_with_tools_capped E X user_message tools rounds a w =
     chat_with_tools_capped_timeout E X user_message tools rounds (wall_clock (lc_budget (ag_loop_contract a))) a w"

definition chat_with_tools ::
    "'w loop_env \<Rightarrow> 'w tool_executor \<Rightarrow> rstr \<Rightarrow> tool_definition list \<Rightarrow> agent \<Rightarrow> 'w \<Rightarrow> (agent_error + rstr) \<times> agent \<times> 'w" where
  "chat_with_tools E X user_message tools a w =
     chat_with_tools_capped E X user_message tools (max_rounds (lc_budget (ag_loop_contract a))) a w"

definition clear_history :: "agent \<Rightarrow> agent" where
  "clear_history a = a\<lparr>ag_history := [], ag_compacted_results := {}\<rparr>"

section \<open>A turn of the ion REPL\<close>

text \<open>Keys of the blackboard, and the pointer a stub keeps to an output that was moved there.\<close>

definition MAX_KEY_BYTES :: nat where
  "MAX_KEY_BYTES = 160"

definition is_ascii_alphanumeric :: "nat \<Rightarrow> bool" where
  "is_ascii_alphanumeric c \<longleftrightarrow> is_ascii_digit c \<or> 65 \<le> c \<and> c \<le> 90 \<or> 97 \<le> c \<and> c \<le> 122"

definition validate_key :: "rstr \<Rightarrow> (rstr \<times> rstr) + unit" where
  "validate_key key = (let invalid = (\<lambda>reason. (take MAX_KEY_BYTES key, reason)) in checks
     [ensure (key \<noteq> []) (invalid (lit ''must not be empty'')),
      ensure (byte_len key \<le> MAX_KEY_BYTES) (invalid (lit ''longer than 160 bytes'')),
      ensure (key \<noteq> [] \<and> is_ascii_alphanumeric (hd key)) (invalid (lit ''must start with a letter or digit'')),
      ensure (list_all (\<lambda>c. is_ascii_alphanumeric c \<or> c \<in> set (lit ''._:-'')) key)
        (invalid (lit ''may contain only letters, digits, '' @ quoted (lit ''.'') @ lit '', '' @ quoted (lit ''_'') @ lit '', '' @
          quoted (lit '':'') @ lit '' and '' @ quoted (lit ''-'')))])"

definition compaction_note :: "rstr \<Rightarrow> rstr option" where
  "compaction_note original =
     (if \<not> has_infix (lit ''[blackboard reference]'') original then None
      else case List.map_filter (strip_prefix (lit ''task_id: '')) (lines_of original) of
        [] \<Rightarrow> None
      | rest # _ \<Rightarrow> (case split_whitespace rest of
          [] \<Rightarrow> None
        | key # _ \<Rightarrow>
            if strip_prefix (lit ''spill:'') key = None \<or> isl (validate_key key) then None
            else Some (lit '' The full output is still in the blackboard as task_id '' @ key @
              lit ''; read it with blackboard_fetch.'')))"

text \<open>Where the clock of the turn cuts a tool call off: while the tool runs, while its output is moved to the blackboard, or
  while a fetched entry is read for the scan.\<close>

datatype wait_cut = RunsThrough | CutInRun | CutInSpill | CutInFetch

definition note_version :: "call_io \<Rightarrow> rstr \<Rightarrow> json \<Rightarrow> rstr + tool_outcome \<Rightarrow> ion_session \<Rightarrow> ion_session" where
  "note_version io name input answer s =
     (case answer of
        Inr outcome \<Rightarrow>
          if oc_ok outcome \<and> (name \<noteq> lit ''file_read'' \<or> read_whole_file (oc_payload outcome)) then
            (case tracked_path_of (vw_files (ci_before io)) name input of
               Some p \<Rightarrow> s\<lparr>is_file_versions := record_version (ci_after io) p (is_file_versions s)\<rparr>
             | None \<Rightarrow> s)
          else s
      | Inl _ \<Rightarrow> s)"

definition session_at_cut ::
    "ion_env \<Rightarrow> call_io \<Rightarrow> wait_cut \<Rightarrow> rstr \<Rightarrow> json \<Rightarrow> rstr + tool_outcome \<Rightarrow> ion_session \<Rightarrow> ion_session" where
  "session_at_cut E io stopped name input answer s =
     (case stopped of
        CutInRun \<Rightarrow> s
      | CutInSpill \<Rightarrow> note_version io name input answer s
      | _ \<Rightarrow> snd (finish_result E io (case answer of Inr outcome \<Rightarrow> raw_tool_result_content E outcome | Inl err \<Rightarrow> err)
          (note_version io name input answer s)))"

definition execute_until ::
    "ion_env \<Rightarrow> call_io \<Rightarrow> wait_cut \<Rightarrow> rstr \<Rightarrow> json \<Rightarrow> ion_session \<Rightarrow> call_result option \<times> ion_session" where
  "execute_until E io stopped name input s =
     (case (stopped, gate_call E io name input s, ie_tools E name) of
        (RunsThrough, _, _) \<Rightarrow> (case execute_call E io name input s of (res, s', _) \<Rightarrow> (Some res, s'))
      | (_, None, Some tool) \<Rightarrow> (None, session_at_cut E io stopped name input (tool input (is_context s)) s)
      | _ \<Rightarrow> (case execute_call E io name input s of (res, s', _) \<Rightarrow> (Some res, s')))"

text \<open>The world of a session: its own state and everything outside, which answers the calls and draws the nonces.\<close>

record 'v ion_world =
  iw_session :: ion_session
  iw_outside :: 'v

record 'v ion_surroundings =
  io_alnum :: "nat \<Rightarrow> bool"
  io_render :: "json \<Rightarrow> rstr"
  io_provider :: rstr
  io_model :: "chat_request \<Rightarrow> 'v \<Rightarrow> (agent_error + chat_response) option \<times> 'v"
  io_elapsed :: "'v \<Rightarrow> nat"
  io_call :: "'v \<Rightarrow> (call_io \<times> wait_cut) \<times> 'v"
  io_nonce :: "'v \<Rightarrow> rstr \<times> 'v"

definition ion_loop_env :: "'v ion_surroundings \<Rightarrow> 'v ion_world loop_env" where
  "ion_loop_env U = \<lparr>le_alnum = io_alnum U, le_render = io_render U, le_provider = io_provider U,
     le_chat = (\<lambda>req w. case io_model U req (iw_outside w) of (answer, v) \<Rightarrow> (answer, w\<lparr>iw_outside := v\<rparr>)),
     le_elapsed = (\<lambda>w. io_elapsed U (iw_outside w))\<rparr>"

definition ion_executor :: "ion_env \<Rightarrow> 'v ion_surroundings \<Rightarrow> 'v ion_world tool_executor" where
  "ion_executor E U =
     \<lparr>ex_execute = (\<lambda>name input w. case io_call U (iw_outside w) of ((io, stopped), v) \<Rightarrow>
        (case execute_until E io stopped name input (iw_session w) of (res, s) \<Rightarrow> (res, \<lparr>iw_session = s, iw_outside = v\<rparr>))),
      ex_wrap_stub = (\<lambda>stub w. case io_nonce U (iw_outside w) of (nonce, v) \<Rightarrow>
        (wrap_untrusted_tool_output nonce stub, w\<lparr>iw_outside := v\<rparr>)),
      ex_note = compaction_note\<rparr>"

text \<open>The definitions of the registered tools, from their names and schemas.\<close>

definition tool_definitions :: "(rstr \<times> json) list \<Rightarrow> tool_definition list" where
  "tool_definitions registry = map (\<lambda>(name, schema).
     \<lparr>tf_name = (case json_str (lit ''name'') schema of Some n \<Rightarrow> n | None \<Rightarrow> name),
      tf_description = (case json_str (lit ''description'') schema of Some d \<Rightarrow> d | None \<Rightarrow> []),
      tf_input_schema = (case json_get (lit ''input_schema'') schema of Some v \<Rightarrow> v
        | None \<Rightarrow> JObject [(lit ''type'', JString (lit ''object'')), (lit ''properties'', JObject [])])\<rparr>) registry"

definition turn ::
    "ion_env \<Rightarrow> 'v ion_surroundings \<Rightarrow> (rstr \<times> json) list \<Rightarrow> rstr \<Rightarrow> agent \<Rightarrow> 'v ion_world \<Rightarrow> (agent_error + rstr) \<times> agent \<times> 'v ion_world" where
  "turn E U registry user_message a w =
     chat_with_tools (ion_loop_env U) (ion_executor E U) user_message (tool_definitions registry) a w"

definition clear_chat :: "agent \<Rightarrow> 'v ion_world \<Rightarrow> agent \<times> 'v ion_world" where
  "clear_chat a w = (clear_history a, w\<lparr>iw_session := clear_session (iw_session w)\<rparr>)"

end
