(* ===== verification/Tool_Loop_Machine.thy ===== *)
theory Tool_Loop_Machine
  imports Tool_Loop
begin

text \<open>
  What the tool loop guarantees of a conversation.  Compaction only shortens the contents of results and spares the
  newest ones; renaming keeps call identifiers unique; so at the end of every turn each call of the history has
  exactly one result, right after it and under its own identifier.
\<close>

section \<open>Compaction\<close>

definition answer_shrinks :: "tool_answer \<Rightarrow> tool_answer \<Rightarrow> bool" where
  "answer_shrinks r r' \<longleftrightarrow> ta_use_id r' = ta_use_id r \<and> ta_is_error r' = ta_is_error r \<and> 
     (ta_content r' = ta_content r \<or> length (ta_content r') < length (ta_content r))"

definition message_shrinks :: "message \<Rightarrow> message \<Rightarrow> bool" where
  "message_shrinks m m' \<longleftrightarrow> ms_role m' = ms_role m \<and> ms_content m' = ms_content m \<and> ms_tool_calls m' = ms_tool_calls m \<and>
     list_all2 answer_shrinks (ms_tool_results m) (ms_tool_results m')"

lemma shrinks_refl [simp]: "answer_shrinks r r" "message_shrinks m m" "list_all2 answer_shrinks rs rs" "list_all2 message_shrinks ms ms"
  by (auto simp: answer_shrinks_def message_shrinks_def list_all2_same)

lemma shrinks_update:
  "length stub < length (ta_content r) \<Longrightarrow> answer_shrinks r (r\<lparr>ta_content := stub\<rparr>)"
  "list_all2 answer_shrinks (ms_tool_results m) rs \<Longrightarrow> message_shrinks m (m\<lparr>ms_tool_results := rs\<rparr>)"
  by (simp_all add: answer_shrinks_def message_shrinks_def)

lemma answer_chars_update:
  "answer_chars r = length (ta_use_id r) + length (ta_content r)"
  "answer_chars (r\<lparr>ta_content := stub\<rparr>) = length (ta_use_id r) + length stub"
  by (simp_all add: answer_chars_def)

fun pass_chars :: "'w compaction \<Rightarrow> nat" where
  "pass_chars (n, _, _, _) = n"

fun pass_compacted :: "'w compaction \<Rightarrow> rstr set" where
  "pass_compacted (_, C, _, _) = C"

lemma compact_results_shrinks:
  "list_all2 answer_shrinks rs (fst (compact_results E X limit names rs st))"
proof (induction E X limit names rs st rule: compact_results.induct)
  case (2 E X limit names r rs n C b w)
  obtain stub w' where stub: "framed_stub E X names r w = (stub, w')" by fastforce
  with 2 show ?case by (auto simp: shrinks_update not_le)
qed simp

lemma compact_results_compacted:
  "pass_compacted st \<subseteq> pass_compacted (snd (compact_results E X limit names rs st)) \<and>
     pass_compacted (snd (compact_results E X limit names rs st)) \<subseteq> pass_compacted st \<union> ta_use_id ` set rs"
proof (induction E X limit names rs st rule: compact_results.induct)
  case (2 E X limit names r rs n C b w)
  obtain stub w' where stub: "framed_stub E X names r w = (stub, w')" by fastforce
  show ?case
  proof (cases "n \<le> limit \<or> ta_use_id r \<in> C \<or> length (ta_content r) \<le> length stub")
    case True
    with 2(1,2) stub show ?thesis by auto
  next
    case False
    with 2(3) [OF _ _ stub [symmetric]] stub show ?thesis by auto
  qed
qed simp

text \<open>The running total stays the size of the history, as long as it starts as at least the size of the results.\<close>

lemma compact_results_chars:
  assumes "sum_list (map answer_chars rs) \<le> pass_chars st"
  shows "pass_chars (snd (compact_results E X limit names rs st)) + sum_list (map answer_chars rs) =
    pass_chars st + sum_list (map answer_chars (fst (compact_results E X limit names rs st)))"
  using assms
proof (induction E X limit names rs st rule: compact_results.induct)
  case (2 E X limit names r rs n C b w)
  obtain stub w' where stub: "framed_stub E X names r w = (stub, w')" by fastforce
  show ?case
  proof (cases "n \<le> limit \<or> ta_use_id r \<in> C \<or> length (ta_content r) \<le> length stub")
    case True
    with 2(1,2,4) stub show ?thesis by auto
  next
    case False
    let ?n = "n - (length (ta_content r) - length stub)"
    note size = answer_chars_update(1) [of r] answer_chars_update(2) [of stub r]
    from False 2(4) size have "sum_list (map answer_chars rs) \<le> ?n" by simp
    with False 2(3) [OF _ _ stub [symmetric]] 2(4) stub size show ?thesis by simp
  qed
qed simp

lemma compact_messages_shrinks:
  "list_all2 message_shrinks ms (fst (compact_messages E X limit names spared i ms st))"
proof (induction E X limit names spared i ms st rule: compact_messages.induct)
  case (2 E X limit names spared i m ms st)
  obtain rs st' where rs: "compact_results E X limit names (ms_tool_results m) st = (rs, st')"
    by (cases "compact_results E X limit names (ms_tool_results m) st") blast
  then have "list_all2 answer_shrinks (ms_tool_results m) rs"
    using compact_results_shrinks [of "ms_tool_results m" E X limit names st] by simp
  with 2 rs show ?case by (auto simp: Let_def shrinks_update)
qed simp

lemma compact_messages_compacted:
  "pass_compacted st \<subseteq> pass_compacted (snd (compact_messages E X limit names spared i ms st)) \<and>
     pass_compacted (snd (compact_messages E X limit names spared i ms st)) \<subseteq>
       pass_compacted st \<union> ta_use_id ` set (concat (map ms_tool_results ms))"
proof (induction E X limit names spared i ms st rule: compact_messages.induct)
  case (2 E X limit names spared i m ms st)
  obtain rs st' where rs: "compact_results E X limit names (ms_tool_results m) st = (rs, st')"
    by (cases "compact_results E X limit names (ms_tool_results m) st") blast
  have "pass_compacted st \<subseteq> pass_compacted st' \<and> pass_compacted st' \<subseteq> pass_compacted st \<union> ta_use_id ` set (ms_tool_results m)"
    using compact_results_compacted [of st E X limit names "ms_tool_results m"] rs by simp
  with 2 rs show ?case by (auto simp: Let_def split: if_splits) blast+
qed simp

lemma compact_messages_chars:
  assumes "history_chars render ms \<le> pass_chars st"
  shows "pass_chars (snd (compact_messages E X limit names spared i ms st)) + history_chars render ms =
    pass_chars st + history_chars render (fst (compact_messages E X limit names spared i ms st))"
  using assms
proof (induction E X limit names spared i ms st rule: compact_messages.induct)
  case (2 E X limit names spared i m ms st)
  obtain rs st' where rs: "compact_results E X limit names (ms_tool_results m) st = (rs, st')"
    by (cases "compact_results E X limit names (ms_tool_results m) st") blast
  have "sum_list (map answer_chars (ms_tool_results m)) \<le> pass_chars st"
    using 2(3) by (simp add: history_chars_def message_chars_def)
  from compact_results_chars [OF this, of E X limit names] rs
  have step: "pass_chars st' + sum_list (map answer_chars (ms_tool_results m)) = pass_chars st + sum_list (map answer_chars rs)" by simp
  show ?case
  proof (cases "spared = Some i")
    case True
    with 2(1,3) show ?thesis by (simp add: history_chars_def)
  next
    case False
    have "history_chars render ms \<le> pass_chars st'" using step 2(3) by (simp add: history_chars_def message_chars_def)
    with 2(2) [OF False rs [symmetric] refl] False rs step show ?thesis
      by (cases "fst st' \<le> limit") (simp_all add: Let_def history_chars_def message_chars_def)
  qed
qed (simp add: history_chars_def)

lemma compact_messages_spares:
  assumes "spared = Some j" "i \<le> j" "j < i + length ms"
  shows "fst (compact_messages E X limit names spared i ms st) ! (j - i) = ms ! (j - i)"
  using assms
proof (induction E X limit names spared i ms st rule: compact_messages.induct)
  case (2 E X limit names spared i m ms st)
  obtain rs st' where rs: "compact_results E X limit names (ms_tool_results m) st = (rs, st')"
    by (cases "compact_results E X limit names (ms_tool_results m) st") blast
  show ?case
  proof (cases "i = j")
    case True
    with 2(3) show ?thesis by simp
  next
    case False
    with 2(4) obtain d where d: "j - i = Suc d" "j - Suc i = d" by (cases "j - i") auto
    from False 2(3-5) have "Suc i \<le> j" "j < Suc i + length ms" "spared \<noteq> Some i" by auto
    with 2(2) [OF _ rs [symmetric] refl _ 2(3)] rs d show ?thesis by (simp add: Let_def)
  qed
qed simp

lemma newest_results_bound: "newest_results start ms = Some j \<Longrightarrow> j < length ms"
proof -
  let ?is = "filter (\<lambda>i. ms_tool_results (ms ! i) \<noteq> []) [0..<length ms]"
  assume "newest_results start ms = Some j"
  then have "j = last ?is" "?is \<noteq> []" by (auto simp: newest_results_def split: list.splits if_splits)
  then have "j \<in> set ?is" using last_in_set by blast
  then show ?thesis by simp
qed

lemma enforce_spec:
  assumes "enforce_context_budget E X start ms C b w = (t, ms', C', b', w')"
  shows "list_all2 message_shrinks ms ms'" "newest_results start ms = Some j \<Longrightarrow> ms' ! j = ms ! j"
    "C \<subseteq> C'" "C' \<subseteq> C \<union> ta_use_id ` set (concat (map ms_tool_results ms))"
    "max_context_chars (lc_budget (lb_contract b)) = Some limit \<Longrightarrow>
       t = (if limit < history_chars (le_render E) ms' then Some (ContextBudget (history_chars (le_render E) ms') limit) else None)"
    "max_context_chars (lc_budget (lb_contract b)) = None \<Longrightarrow> t = None"
proof -
  have "list_all2 message_shrinks ms ms' \<and> (newest_results start ms = Some j \<longrightarrow> ms' ! j = ms ! j) \<and>
    C \<subseteq> C' \<and> C' \<subseteq> C \<union> ta_use_id ` set (concat (map ms_tool_results ms)) \<and>
    (max_context_chars (lc_budget (lb_contract b)) = Some limit \<longrightarrow>
       t = (if limit < history_chars (le_render E) ms' then Some (ContextBudget (history_chars (le_render E) ms') limit) else None)) \<and>
    (max_context_chars (lc_budget (lb_contract b)) = None \<longrightarrow> t = None)"
    using assms
  proof (cases rule: enforce_cases)
    case within
    then show ?thesis by (auto simp: not_le [symmetric])
  next
    case (pass l n)
    let ?st = "(history_chars (le_render E) ms, C, b, w)" and ?sp = "newest_results start ms"
    note run = pass(3)
    have chars: "n = history_chars (le_render E) ms'"
      using compact_messages_chars [of "le_render E" ms ?st E X l "call_names ms" ?sp 0] run by simp
    show ?thesis
      using pass(1,4) run chars compact_messages_shrinks [of ms E X l "call_names ms" ?sp 0 ?st]
        compact_messages_compacted [of ?st E X l "call_names ms" ?sp 0 ms]
        compact_messages_spares [of ?sp j 0 ms E X l "call_names ms" ?st] newest_results_bound [of start ms j]
      by auto
  qed
  then show "list_all2 message_shrinks ms ms'" "newest_results start ms = Some j \<Longrightarrow> ms' ! j = ms ! j"
    "C \<subseteq> C'" "C' \<subseteq> C \<union> ta_use_id ` set (concat (map ms_tool_results ms))"
    "max_context_chars (lc_budget (lb_contract b)) = Some limit \<Longrightarrow>
       t = (if limit < history_chars (le_render E) ms' then Some (ContextBudget (history_chars (le_render E) ms') limit) else None)"
    "max_context_chars (lc_budget (lb_contract b)) = None \<Longrightarrow> t = None"
    by blast+
qed

section \<open>Call identifiers\<close>

lemma numbered_id_inj: "inj (numbered_id base)"
  unfolding inj_def numbered_id_def by (metis append_assoc dec_value same_append_eq)

lemma find_Some_iff_ex: "List.find P xs \<noteq> None \<longleftrightarrow> (\<exists>x \<in> set xs. P x)"
  by (metis find_None_iff)

text \<open>The bounded search is the search over all numbers: it always finds, and what it finds is the first free number.\<close>

lemma fresh_id_first:
  obtains n where "fresh_id taken base = numbered_id base n" "2 \<le> n" "fresh_id taken base \<notin> set taken"
    "\<And>m. 2 \<le> m \<Longrightarrow> m < n \<Longrightarrow> numbered_id base m \<in> set taken"
proof -
  let ?cands = "map (numbered_id base) [2..<length taken + 3]"
  have "card (set ?cands) = length taken + 1"
    using card_image [OF inj_on_subset [OF numbered_id_inj, of "{2..<length taken + 3}" base]] by simp
  then have "\<not> set ?cands \<subseteq> set taken"
    using card_mono [of "set taken" "set ?cands"] card_length [of taken] by auto
  then have "List.find (\<lambda>i. i \<notin> set taken) ?cands \<noteq> None" unfolding find_Some_iff_ex by blast
  then obtain i where "List.find (\<lambda>i. i \<notin> set taken) ?cands = Some i" by blast
  then obtain k where k: "k < length ?cands" "?cands ! k \<notin> set taken" "i = ?cands ! k" "\<And>j. j < k \<Longrightarrow> ?cands ! j \<in> set taken"
    and fresh: "fresh_id taken base = i"
    by (auto simp: find_Some_iff fresh_id_def)
  show thesis
  proof (rule that [of "k + 2"])
    show "numbered_id base m \<in> set taken" if "2 \<le> m" "m < k + 2" for m
    proof -
      from that(1) obtain j where "m = j + 2" by (metis add.commute le_Suc_ex)
      with k(4) [of j] k(1) that show ?thesis by (simp add: nth_upt add.commute)
    qed
  qed (use k fresh in \<open>simp_all add: add.commute\<close>)
qed

lemma fresh_id_free: "fresh_id taken base \<notin> set taken"
  by (rule fresh_id_first)

lemma rename_fresh:
  "distinct (map tu_id (rename_calls batch used cs)) \<and> set (map tu_id (rename_calls batch used cs)) \<inter> set used = {}"
proof (induction batch used cs rule: rename_calls.induct)
  case (2 batch used c cs)
  define c' where "c' = (if tu_id c \<in> set used then c\<lparr>tu_id := fresh_id (used @ batch) (tu_id c)\<rparr> else c)"
  have "tu_id c' \<notin> set used"
    using fresh_id_free [of "used @ batch" "tu_id c"] by (auto simp: c'_def)
  moreover have "rename_calls batch used (c # cs) = c' # rename_calls batch (tu_id c' # used) cs"
    by (simp add: c'_def Let_def)
  ultimately show ?case using 2 [OF c'_def] by auto
qed simp

lemma rename_unchanged:
  "distinct (map tu_id cs) \<Longrightarrow> set (map tu_id cs) \<inter> set used = {} \<Longrightarrow> rename_calls batch used cs = cs"
  by (induction cs arbitrary: used) (auto simp: Let_def)

lemma rename_length [simp]: "length (rename_calls batch used cs) = length cs"
  by (induction batch used cs rule: rename_calls.induct) (simp_all add: Let_def)

section \<open>The shape of a conversation\<close>

datatype phase = BetweenTurns | AwaitingModel | AwaitingResults "rstr list"

fun phase_step :: "phase \<Rightarrow> message \<Rightarrow> phase option" where
  "phase_step BetweenTurns m =
     (if ms_role m = UserRole \<and> ms_tool_calls m = [] \<and> ms_tool_results m = [] then Some AwaitingModel else None)"
| "phase_step AwaitingModel m =
     (if ms_role m = AssistantRole \<and> ms_tool_results m = []
      then Some (if ms_tool_calls m = [] then BetweenTurns else AwaitingResults (map tu_id (ms_tool_calls m))) else None)"
| "phase_step (AwaitingResults ids) m =
     (if ms_role m = UserRole \<and> ms_tool_calls m = [] \<and> map ta_use_id (ms_tool_results m) = ids then Some AwaitingModel else None)"

definition conversation_from :: "phase option \<Rightarrow> message list \<Rightarrow> phase option" where
  "conversation_from = foldl (\<lambda>p m. Option.bind p (\<lambda>q. phase_step q m))"

definition conversation :: "message list \<Rightarrow> phase option" where
  "conversation = conversation_from (Some BetweenTurns)"

lemma conversation_simps [simp]:
  "conversation [] = Some BetweenTurns" "conversation (ms @ [m]) = Option.bind (conversation ms) (\<lambda>q. phase_step q m)"
  by (simp_all add: conversation_def conversation_from_def)

lemma call_ids_simps [simp]: "call_ids [] = []" "call_ids (ms @ ns) = call_ids ms @ call_ids ns"
  "call_ids [m] = map tu_id (ms_tool_calls m)"
  by (simp_all add: call_ids_def)

lemma message_shrinks_phase: "message_shrinks m m' \<Longrightarrow> phase_step q m' = phase_step q m"
proof -
  assume m: "message_shrinks m m'"
  then have "list_all2 (\<lambda>r r'. ta_use_id r' = ta_use_id r) (ms_tool_results m) (ms_tool_results m')"
    unfolding message_shrinks_def by (auto elim: list_all2_mono simp: answer_shrinks_def)
  then have "map ta_use_id (ms_tool_results m') = map ta_use_id (ms_tool_results m)"
    by (induction rule: list_all2_induct) auto
  then show ?thesis using m by (cases q) (auto simp: message_shrinks_def)
qed

lemma shrinks_conversation:
  assumes "list_all2 message_shrinks ms ms'"
  shows "conversation ms' = conversation ms" "call_ids ms' = call_ids ms"
proof -
  have "conversation_from p ms' = conversation_from p ms" for p
    using assms
    by (induction arbitrary: p rule: list_all2_induct) (simp_all add: conversation_from_def message_shrinks_phase)
  then show "conversation ms' = conversation ms" by (simp add: conversation_def)
  show "call_ids ms' = call_ids ms"
    using assms by (induction rule: list_all2_induct) (simp_all add: call_ids_def message_shrinks_def)
qed

lemma result_ids_called:
  "conversation ms = Some q \<Longrightarrow> ta_use_id ` set (concat (map ms_tool_results ms)) \<subseteq> set (call_ids ms) \<and>
     (case q of AwaitingResults ids \<Rightarrow> set ids \<subseteq> set (call_ids ms) | _ \<Rightarrow> True)"
proof (induction ms arbitrary: q rule: rev_induct)
  case (snoc m ms)
  then obtain p where p: "conversation ms = Some p" "phase_step p m = Some q" by (auto simp: bind_eq_Some_conv)
  note before = snoc.IH [OF p(1)]
  show ?case
  proof (cases p)
    case (AwaitingResults ids)
    with p(2) have "set (map ta_use_id (ms_tool_results m)) = set ids" "q = AwaitingModel" by (auto split: if_splits)
    with before AwaitingResults show ?thesis by (auto simp: image_subset_iff)
  qed (use before p(2) in \<open>auto split: if_splits\<close>)
qed simp

text \<open>Read off a conversation: every message with calls is followed by the message with their results.\<close>

definition paired :: "message list \<Rightarrow> nat \<Rightarrow> bool" where
  "paired h i \<longleftrightarrow>
     (ms_tool_calls (h ! i) \<noteq> [] \<longrightarrow> ms_role (h ! i) = AssistantRole \<and> Suc i < length h \<and> ms_role (h ! Suc i) = UserRole \<and>
        map ta_use_id (ms_tool_results (h ! Suc i)) = map tu_id (ms_tool_calls (h ! i))) \<and>
     (ms_tool_results (h ! i) \<noteq> [] \<longrightarrow> 0 < i \<and> map tu_id (ms_tool_calls (h ! (i - 1))) = map ta_use_id (ms_tool_results (h ! i)))"

lemma paired_snoc: "i < length ms \<Longrightarrow> paired ms i \<Longrightarrow> paired (ms @ [m]) i"
  by (auto simp: paired_def nth_append)

lemma conversation_paired:
  "conversation ms = Some q \<Longrightarrow>
     (case q of
        AwaitingResults ids \<Rightarrow> ms \<noteq> [] \<and> (\<forall>i < length ms - 1. paired ms i) \<and> ids = map tu_id (ms_tool_calls (last ms)) \<and>
          ms_role (last ms) = AssistantRole \<and> ms_tool_results (last ms) = []
      | _ \<Rightarrow> \<forall>i < length ms. paired ms i)"
proof (induction ms arbitrary: q rule: rev_induct)
  case (snoc m ms)
  then obtain p where p: "conversation ms = Some p" "phase_step p m = Some q" by (auto simp: bind_eq_Some_conv)
  note before = snoc.IH [OF p(1)]
  show ?case
  proof (cases p)
    case (AwaitingResults ids)
    then have prev: "ms \<noteq> []" "\<forall>i < length ms - 1. paired ms i" "ids = map tu_id (ms_tool_calls (last ms))"
      "ms_role (last ms) = AssistantRole" "ms_tool_results (last ms) = []"
      using before by auto
    have m: "ms_role m = UserRole" "ms_tool_calls m = []" "map ta_use_id (ms_tool_results m) = ids" "q = AwaitingModel"
      using p(2) AwaitingResults by (auto split: if_splits)
    have "paired (ms @ [m]) i" if "i < Suc (length ms)" for i
    proof -
      consider "i < length ms - 1" | "i = length ms - 1" | "i = length ms" using \<open>i < Suc (length ms)\<close> by linarith
      then show ?thesis
      proof cases
        case 1
        then show ?thesis using prev(2) by (intro paired_snoc) auto
      next
        case 2
        then show ?thesis using prev m by (auto simp: paired_def nth_append last_conv_nth)
      next
        case 3
        then show ?thesis using prev m by (auto simp: paired_def nth_append last_conv_nth)
      qed
    qed
    with m(4) show ?thesis by simp
  next
    case BetweenTurns
    with before have "paired (ms @ [m]) i" if "i < length ms" for i using that by (auto intro: paired_snoc)
    moreover have "ms_tool_results m = [] \<and> ms_tool_calls m = [] \<Longrightarrow> paired (ms @ [m]) (length ms)" by (simp add: paired_def)
    ultimately show ?thesis using BetweenTurns p(2) by (auto simp: less_Suc_eq split: if_splits)
  next
    case AwaitingModel
    with before have "paired (ms @ [m]) i" if "i < length ms" for i using that by (auto intro: paired_snoc)
    moreover have "ms_tool_results m = [] \<and> ms_tool_calls m = [] \<Longrightarrow> paired (ms @ [m]) (length ms)" by (simp add: paired_def)
    ultimately show ?thesis using AwaitingModel p(2) by (auto simp: less_Suc_eq split: if_splits)
  qed
qed simp

section \<open>The invariant of a run\<close>

definition in_phase :: "phase \<Rightarrow> message list \<Rightarrow> rstr set \<Rightarrow> bool" where
  "in_phase q ms C \<longleftrightarrow> conversation ms = Some q \<and> distinct (call_ids ms) \<and> C \<subseteq> set (call_ids ms)"

lemma enforce_in_phase:
  assumes "enforce_context_budget E X start ms C b w = (t, ms', C', b', w')" "in_phase q ms C"
  shows "in_phase q ms' C'"
proof -
  have "ta_use_id ` set (concat (map ms_tool_results ms)) \<subseteq> set (call_ids ms)"
    using assms(2) result_ids_called [of ms q] unfolding in_phase_def by blast
  with enforce_spec(4) [OF assms(1)] assms(2) have "C' \<subseteq> set (call_ids ms)" unfolding in_phase_def by blast
  with assms(2) show ?thesis by (simp add: in_phase_def shrinks_conversation [OF enforce_spec(1) [OF assms(1)]])
qed

lemma execute_calls_ids: "execute_calls E X cs b w = (Inr answers, b', w') \<Longrightarrow> map ta_use_id answers = map tu_id cs"
  by (induction cs arbitrary: b w answers) (auto split: sum.splits prod.splits option.splits)

lemma take_response_in_phase:
  assumes "in_phase AwaitingModel (ru_working s) (ru_compacted s)"
  shows "take_response E X response s = RoundNext s' \<Longrightarrow> in_phase AwaitingModel (ru_working s') (ru_compacted s')"
    "take_response E X response s = RoundReply reply s' \<Longrightarrow> in_phase BetweenTurns (ru_working s') (ru_compacted s')"
proof -
  let ?calls = "rename_repeated_call_ids (ru_working s) (rs_tool_calls response)"
  have fresh: "distinct (map tu_id ?calls)" "set (map tu_id ?calls) \<inter> set (call_ids (ru_working s)) = {}"
    using rename_fresh [of "map tu_id (rs_tool_calls response)" "call_ids (ru_working s)" "rs_tool_calls response"]
    by (simp_all add: rename_repeated_call_ids_def)
  assume "take_response E X response s = RoundNext s'"
  then obtain answers b1 w1 where exec: "execute_calls E X ?calls (ru_breaker s) (ru_world s) = (Inr answers, b1, w1)"
    and s': "ru_working s' = (ru_working s @ [assistant_tool_use (rs_content response) ?calls]) @ [tool_results_message answers]"
      "ru_compacted s' = ru_compacted s" "?calls \<noteq> []"
    by (auto simp: take_response_def Let_def split: if_splits sum.splits prod.splits option.splits)
  show "in_phase AwaitingModel (ru_working s') (ru_compacted s')"
    using assms fresh execute_calls_ids [OF exec] s'(3)
    unfolding in_phase_def s'(1,2) call_ids_simps conversation_simps
    by (auto simp: assistant_tool_use_def tool_results_message_def)
next
  assume "take_response E X response s = RoundReply reply s'"
  then have "s' = s\<lparr>ru_working := ru_working s @ [text_message AssistantRole (rs_content response)]\<rparr>"
    by (auto simp: take_response_def Let_def split: if_splits sum.splits prod.splits option.splits)
  then show "in_phase BetweenTurns (ru_working s') (ru_compacted s')"
    using assms by (auto simp: in_phase_def text_message_def)
qed

lemma loop_round_in_phase:
  assumes "in_phase AwaitingModel (ru_working s) (ru_compacted s)"
  shows "loop_round E X S s = RoundNext s' \<Longrightarrow> in_phase AwaitingModel (ru_working s') (ru_compacted s')"
    "loop_round E X S s = RoundReply reply s' \<Longrightarrow> in_phase BetweenTurns (ru_working s') (ru_compacted s')"
proof -
  show "in_phase AwaitingModel (ru_working s') (ru_compacted s')" if run: "loop_round E X S s = RoundNext s'"
  proof -
    from run obtain ms C b b' w w' n response
      where fit: "enforce_context_budget E X (rn_start S) (ru_working s) (ru_compacted s) (ru_breaker s) (ru_world s) = (None, ms, C, b, w)"
        and taken: "take_response E X response \<lparr>ru_working = ms, ru_compacted = C, ru_breaker = b', ru_world = w'\<rparr> = RoundNext s'"
      by (rule loop_round_takes) simp_all
    from take_response_in_phase(1) [OF _ taken] enforce_in_phase [OF fit assms] show ?thesis by simp
  qed
  show "in_phase BetweenTurns (ru_working s') (ru_compacted s')" if run: "loop_round E X S s = RoundReply reply s'"
  proof -
    from run obtain ms C b b' w w' n response
      where fit: "enforce_context_budget E X (rn_start S) (ru_working s) (ru_compacted s) (ru_breaker s) (ru_world s) = (None, ms, C, b, w)"
        and taken: "take_response E X response \<lparr>ru_working = ms, ru_compacted = C, ru_breaker = b', ru_world = w'\<rparr> = RoundReply reply s'"
      by (rule loop_round_takes) simp_all
    from take_response_in_phase(2) [OF _ taken] enforce_in_phase [OF fit assms] show ?thesis by simp
  qed
qed

lemma run_tool_loop_in_phase:
  assumes "run_tool_loop E X S s = (Inr reply, s')" "in_phase AwaitingModel (ru_working s) (ru_compacted s)"
  shows "in_phase BetweenTurns (ru_working s') (ru_compacted s')"
  using assms
proof (induction E X S s rule: run_tool_loop.induct)
  case (1 E X S s)
  show ?case
  proof (cases "loop_round E X S s")
    case (RoundNext s1)
    with 1 loop_round_in_phase(1) [OF 1(3)] show ?thesis by (simp add: run_tool_loop.simps [of E X S s])
  qed (use 1(2) loop_round_in_phase(2) [OF 1(3)] in \<open>auto simp: run_tool_loop.simps [of E X S s]\<close>)
qed

end
