(* ===== verification/Tool_Loop_Budget.thy ===== *)
theory Tool_Loop_Budget
  imports Tool_Loop_Machine
begin

text \<open>
  What a run of the tool loop asks of the world.  \<open>loop_world\<close> is the contract between the loop and its surroundings: a
  relation between the breaker and the world that each single interaction keeps is kept by a whole run.
  Its instances count the requests and the tool calls, and follow the suspicion of an ion session.  \<open>loop_guard\<close> is
  about what is sent: its instances are every history, and the histories of a turn.
\<close>

section \<open>A relation between breaker and world\<close>

fun pass_world :: "'w compaction \<Rightarrow> 'w" where
  "pass_world (_, _, _, w) = w"

locale loop_world =
  fixes E :: "'w loop_env" and X :: "'w tool_executor" and R :: "loop_breaker \<Rightarrow> 'w \<Rightarrow> bool"
  assumes asked: "R b w \<Longrightarrow> begin_round b = Inr (n, b') \<Longrightarrow> R b' (snd (le_chat E req w))"
    and cut_off: "R b w \<Longrightarrow> admit_call b = Inr b' \<Longrightarrow> ex_execute X name input w = (None, w') \<Longrightarrow> R b' w'"
    and executed: "R b w \<Longrightarrow> admit_call b = Inr b1 \<Longrightarrow> ex_execute X name input w = (Some out, w') \<Longrightarrow>
      observe_call (le_alnum E) (le_render E) b1 name input \<lparr>co_is_error = cx_is_error out, co_content = cx_content out\<rparr> = (t, b2) \<Longrightarrow>
      R b2 w'"
    and framed: "R b w \<Longrightarrow> R b (snd (ex_wrap_stub X stub w))"
    and compacted_one: "R b w \<Longrightarrow> R (observe_compaction b) w"
    and ended: "R b w \<Longrightarrow> end_round b = (t, b') \<Longrightarrow> R b' w"
begin

lemma framed_stub_keeps: "R b w \<Longrightarrow> framed_stub E X names r w = (stub, w') \<Longrightarrow> R b w'"
  using framed unfolding framed_stub_def by (metis snd_conv)

lemma compact_results_keeps:
  "R (pass_breaker st) (pass_world st) \<Longrightarrow>
     R (pass_breaker (snd (compact_results E X limit names rs st))) (pass_world (snd (compact_results E X limit names rs st)))"
proof (induction rs arbitrary: st)
  case (Cons r rs)
  obtain n C b w where st: "st = (n, C, b, w)" by (cases st) auto
  obtain stub w' where stub: "framed_stub E X names r w = (stub, w')" by fastforce
  have "R b w'" using framed_stub_keeps stub Cons.prems st by simp
  with Cons compacted_one st stub show ?case by auto
qed simp

lemma compact_messages_keeps:
  "R (pass_breaker st) (pass_world st) \<Longrightarrow>
     R (pass_breaker (snd (compact_messages E X limit names spared i ms st)))
       (pass_world (snd (compact_messages E X limit names spared i ms st)))"
proof (induction ms arbitrary: i st)
  case (Cons m ms)
  obtain rs st' where rs: "compact_results E X limit names (ms_tool_results m) st = (rs, st')"
    by (cases "compact_results E X limit names (ms_tool_results m) st") blast
  with compact_results_keeps [OF Cons.prems, of limit names "ms_tool_results m"] have "R (pass_breaker st') (pass_world st')" by simp
  from Cons.IH [OF Cons.prems, of "Suc i"] Cons.IH [OF this, of "Suc i"] this rs show ?case
    by (cases "spared = Some i") (simp_all add: Let_def)
qed simp

lemma enforce_keeps:
  assumes "enforce_context_budget E X start ms C b w = (t, ms', C', b', w')" "R b w"
  shows "R b' w'"
  using assms(1)
proof (cases rule: enforce_cases)
  case within
  with assms(2) show ?thesis by simp
next
  case (pass limit n)
  with compact_messages_keeps [of "(history_chars (le_render E) ms, C, b, w)" limit "call_names ms" "newest_results start ms" 0 ms] assms(2)
  show ?thesis by simp
qed

lemma execute_calls_keeps: "execute_calls E X cs b w = (res, b', w') \<Longrightarrow> R b w \<Longrightarrow> R b' w'"
proof (induction cs arbitrary: b w res)
  case (Cons c cs)
  show ?case
  proof (cases "admit_call b")
    case (Inr b1)
    obtain out w1 where ex: "ex_execute X (tu_name c) (tu_input c) w = (out, w1)" by fastforce
    show ?thesis
    proof (cases out)
      case None
      with Cons.prems Inr ex cut_off show ?thesis by auto
    next
      case (Some o1)
      obtain t b2 where ob: "observe_call (le_alnum E) (le_render E) b1 (tu_name c) (tu_input c)
          \<lparr>co_is_error = cx_is_error o1, co_content = cx_content o1\<rparr> = (t, b2)" by fastforce
      have "R b2 w1" using executed [OF Cons.prems(2) Inr ex [unfolded Some] ob] .
      with Cons.IH Cons.prems(1) Inr ex Some ob show ?thesis
        by (cases t) (fastforce split: prod.splits sum.splits)+
    qed
  qed (use Cons.prems in auto)
qed simp

lemma take_response_keeps:
  assumes "R (ru_breaker s) (ru_world s)"
  shows "case take_response E X response s of
      RoundExit exit s' \<Rightarrow> R (ru_breaker s') (ru_world s') | RoundReply reply s' \<Rightarrow> R (ru_breaker s') (ru_world s')
    | RoundNext s' \<Rightarrow> R (ru_breaker s') (ru_world s')"
proof -
  let ?calls = "rename_repeated_call_ids (ru_working s) (rs_tool_calls response)"
  obtain res b w where ex: "execute_calls E X ?calls (ru_breaker s) (ru_world s) = (res, b, w)" by (metis prod_cases3)
  obtain t b' where ends: "end_round b = (t, b')" by fastforce
  have "R b w" "R b' w" using execute_calls_keeps [OF ex assms] ended [OF _ ends] by blast+
  with assms ex ends show ?thesis
    by (auto simp: take_response_def Let_def split: sum.split option.split)
qed

lemma loop_round_keeps:
  assumes "R (ru_breaker s) (ru_world s)"
  shows "case loop_round E X S s of
      RoundExit exit s' \<Rightarrow> R (ru_breaker s') (ru_world s') | RoundReply reply s' \<Rightarrow> R (ru_breaker s') (ru_world s')
    | RoundNext s' \<Rightarrow> R (ru_breaker s') (ru_world s')"
proof -
  obtain t ms C b w where fit: "enforce_context_budget E X (rn_start S) (ru_working s) (ru_compacted s) (ru_breaker s) (ru_world s) =
      (t, ms, C, b, w)" by (metis prod_cases5)
  have here: "R b w" using enforce_keeps [OF fit assms] .
  show ?thesis
  proof (cases "t = None \<and> isl (begin_round b) = False")
    case True
    then obtain n b' where begins: "begin_round b = Inr (n, b')" by (cases "begin_round b") auto
    obtain answer w' where chats: "le_chat E (request_of S ms n) w = (answer, w')" by fastforce
    have "R b' w'" using asked [OF here begins, of "request_of S ms n"] chats by simp
    with True fit begins chats take_response_keeps show ?thesis
      by (fastforce simp: loop_round_def Let_def split: option.split sum.split)
  next
    case False
    with fit here show ?thesis by (auto simp: loop_round_def Let_def split: option.split sum.split)
  qed
qed

lemma run_tool_loop_keeps:
  "run_tool_loop E X S s = (res, s') \<Longrightarrow> R (ru_breaker s) (ru_world s) \<Longrightarrow> R (ru_breaker s') (ru_world s')"
proof (induction "rounds_left (ru_breaker s)" arbitrary: s rule: less_induct)
  case less
  note round = loop_round_keeps [OF less.prems(2), of S]
  show ?case
  proof (cases "loop_round E X S s")
    case (RoundNext s1)
    with less.hyps [OF loop_round_spends(2) [OF RoundNext]] less.prems(1) round show ?thesis
      by (simp add: run_tool_loop.simps [of E X S s])
  qed (use less.prems(1) round in \<open>auto simp: run_tool_loop.simps [of E X S s]\<close>)
qed

end

section \<open>Counting requests and calls\<close>

text \<open>A world with counters for the requests to the model and for the tools that were started.\<close>

definition count_env :: "'w loop_env \<Rightarrow> ('w \<times> nat \<times> nat) loop_env" where
  "count_env E = \<lparr>le_alnum = le_alnum E, le_render = le_render E, le_provider = le_provider E,
     le_chat = (\<lambda>req (w, requests, calls). case le_chat E req w of (answer, w') \<Rightarrow> (answer, w', Suc requests, calls)),
     le_elapsed = (\<lambda>(w, _). le_elapsed E w)\<rparr>"

definition count_executor :: "'w tool_executor \<Rightarrow> ('w \<times> nat \<times> nat) tool_executor" where
  "count_executor X = \<lparr>ex_execute = (\<lambda>name input (w, requests, calls).
       case ex_execute X name input w of (outcome, w') \<Rightarrow> (outcome, w', requests, Suc calls)),
     ex_wrap_stub = (\<lambda>stub (w, counters). case ex_wrap_stub X stub w of (framed, w') \<Rightarrow> (framed, w', counters)),
     ex_note = ex_note X\<rparr>"

definition counted_in :: "loop_contract \<Rightarrow> loop_breaker \<Rightarrow> 'w \<times> nat \<times> nat \<Rightarrow> bool" where
  "counted_in c b W \<longleftrightarrow> (case W of (w, requests, calls) \<Rightarrow>
     requests = lb_rounds_used b \<and> calls = lb_dispatched b \<and> lb_tool_calls b \<le> lb_dispatched b \<and> within_budget c b)"

text \<open>Between an admission and its observation one more call is dispatched than observed.\<close>

lemma admitted_counts:
  assumes "within_budget c b" "admit_call b = Inr b1"
  shows "within_budget c b1" "lb_rounds_used b1 = lb_rounds_used b" "lb_tool_calls b1 = lb_tool_calls b"
    "lb_dispatched b1 = Suc (lb_dispatched b)"
  using assms by (auto simp: admit_call_def within_budget_def split: option.splits if_splits)

lemma observed_counts:
  assumes "observe_call alnum render b1 tool input out = (t, b2)"
  shows "lb_contract b2 = lb_contract b1" "lb_rounds_used b2 = lb_rounds_used b1" "lb_dispatched b2 = lb_dispatched b1"
    "lb_tool_calls b2 = Suc (lb_tool_calls b1)"
  using assms by (auto simp: observe_call_def note_call_def note_outcome_def Let_def)

interpretation counted: loop_world "count_env E" "count_executor X" "counted_in c" for E X c
proof
  fix b b' n req and w :: "'a \<times> nat \<times> nat"
  assume "counted_in c b w" "begin_round b = Inr (n, b')"
  then show "counted_in c b' (snd (le_chat (count_env E) req w))"
    by (cases w) (auto simp: counted_in_def count_env_def begin_round_def within_budget_def Let_def split: if_splits prod.splits option.splits)
next
  fix b b' name input and w w' :: "'a \<times> nat \<times> nat"
  assume "counted_in c b w" "admit_call b = Inr b'" "ex_execute (count_executor X) name input w = (None, w')"
  with admitted_counts [of c b b'] show "counted_in c b' w'"
    by (cases w) (auto simp: counted_in_def count_executor_def split: prod.splits)
next
  fix b b1 b2 name input out t and w w' :: "'a \<times> nat \<times> nat"
  assume "counted_in c b w" "admit_call b = Inr b1" "ex_execute (count_executor X) name input w = (Some out, w')"
    and ob: "observe_call (le_alnum (count_env E)) (le_render (count_env E)) b1 name input
      \<lparr>co_is_error = cx_is_error out, co_content = cx_content out\<rparr> = (t, b2)"
  then have before: "counted_in c b w" and admits: "admit_call b = Inr b1"
    and runs: "ex_execute (count_executor X) name input w = (Some out, w')" by blast+
  have "within_budget c b" using before by (auto simp: counted_in_def)
  note counts = admitted_counts [OF this admits] observed_counts [OF ob]
  have "within_budget c b2" using counts(1) unfolding within_budget_def counts(5-7) .
  with before runs counts(2-4) show "counted_in c b2 w'"
    by (cases w) (auto simp: counted_in_def count_executor_def counts(5-8) split: prod.splits)
next
  fix b stub and w :: "'a \<times> nat \<times> nat"
  assume "counted_in c b w"
  then show "counted_in c b (snd (ex_wrap_stub (count_executor X) stub w))"
    by (cases w) (auto simp: counted_in_def count_executor_def split: prod.splits)
next
  fix b :: loop_breaker and w :: "'a \<times> nat \<times> nat"
  assume "counted_in c b w"
  then show "counted_in c (observe_compaction b) w"
    by (cases w; cases "max_tool_calls (lc_budget c)") (simp_all add: counted_in_def observe_compaction_def within_budget_def)
next
  fix b b' :: loop_breaker and w :: "'a \<times> nat \<times> nat" and t
  assume "counted_in c b w" "end_round b = (t, b')"
  then show "counted_in c b' w"
    by (cases w; cases "max_tool_calls (lc_budget c)")
      (auto simp: counted_in_def end_round_def within_budget_def Let_def split: if_splits)
qed

section \<open>Suspicion in a session\<close>

lemma note_version_fields [simp]:
  "is_untrusted_seen (note_version io name input answer s) = is_untrusted_seen s"
  by (simp add: note_version_def split: sum.split option.split)

lemma cut_untrusted: "is_untrusted_seen s \<Longrightarrow> is_untrusted_seen (session_at_cut E io point name input answer s)"
proof (cases point)
  case CutInFetch
  assume "is_untrusted_seen s"
  then show ?thesis
    using CutInFetch finish_fields(3) [of E io _ "note_version io name input answer s" _ "snd (finish_result E io _ (note_version io name input answer s))"]
    by (simp add: session_at_cut_def) (metis finish_fields(3) note_version_fields prod.collapse)
next
  case RunsThrough
  assume "is_untrusted_seen s"
  then show ?thesis
    using RunsThrough by (simp add: session_at_cut_def) (metis finish_fields(3) note_version_fields prod.collapse)
qed (simp_all add: session_at_cut_def)

lemma execute_call_untrusted: "is_untrusted_seen s \<Longrightarrow> execute_call E io name input s = (res, s', done') \<Longrightarrow> is_untrusted_seen s'"
  by (auto simp: execute_call_def after_run_untrusted split: option.splits prod.splits)

lemma execute_until_untrusted:
  assumes "is_untrusted_seen s" "execute_until E io point name input s = (res, s')"
  shows "is_untrusted_seen s'"
  using assms cut_untrusted [OF assms(1)] execute_call_untrusted [OF assms(1)]
  by (auto simp: execute_until_def split: wait_cut.splits option.splits prod.splits)

interpretation suspicion: loop_world "ion_loop_env U" "ion_executor E U" "\<lambda>b w. is_untrusted_seen (iw_session w)" for E U
  by unfold_locales (auto simp: ion_loop_env_def ion_executor_def dest: execute_until_untrusted split: prod.splits)

section \<open>Requests\<close>

text \<open>The part of a request that is the conversation.\<close>

definition request_conversation :: "rstr option \<Rightarrow> chat_request \<Rightarrow> message list" where
  "request_conversation system req = (case system of None \<Rightarrow> rq_messages req | Some _ \<Rightarrow> tl (rq_messages req))"

lemma request_conversation_of [simp]: "request_conversation (rn_system_prompt S) (request_of S ms n) = ms"
  by (simp add: request_conversation_def request_of_def split: option.split)

lemma other_model [simp]:
  "framed_stub (E\<lparr>le_chat := f\<rparr>) X names r w = framed_stub E X names r w"
  "compact_results (E\<lparr>le_chat := f\<rparr>) X limit names rs st = compact_results E X limit names rs st"
  "compact_messages (E\<lparr>le_chat := f\<rparr>) X limit names spared i ms st = compact_messages E X limit names spared i ms st"
  "enforce_context_budget (E\<lparr>le_chat := f\<rparr>) X start ms C b w = enforce_context_budget E X start ms C b w"
  "execute_calls (E\<lparr>le_chat := f\<rparr>) X cs b w = execute_calls E X cs b w"
  "take_response (E\<lparr>le_chat := f\<rparr>) X response s = take_response E X response s"
proof -
  show stub: "framed_stub (E\<lparr>le_chat := f\<rparr>) X names r w = framed_stub E X names r w" for names r w
    by (simp add: framed_stub_def)
  show results: "compact_results (E\<lparr>le_chat := f\<rparr>) X limit names rs st = compact_results E X limit names rs st" for limit names rs st
  proof (induction rs arbitrary: st)
    case (Cons r rs)
    obtain n C b w where st: "st = (n, C, b, w)" by (cases st) auto
    show ?case by (simp add: st stub Cons.IH cong: if_cong split: prod.split)
  qed simp
  show messages: "compact_messages (E\<lparr>le_chat := f\<rparr>) X limit names spared i ms st = compact_messages E X limit names spared i ms st"
    for limit names spared i ms st
  proof (induction ms arbitrary: i st)
    case (Cons m ms)
    show ?case using Cons.IH by (cases "spared = Some i") (auto simp: results Let_def split: prod.split)
  qed simp
  show "enforce_context_budget (E\<lparr>le_chat := f\<rparr>) X start ms C b w = enforce_context_budget E X start ms C b w"
    by (simp add: enforce_context_budget_def messages Let_def split: option.split)
  show calls: "execute_calls (E\<lparr>le_chat := f\<rparr>) X cs b w = execute_calls E X cs b w" for cs b w
  proof (induction cs arbitrary: b w)
    case (Cons c cs)
    show ?case by (simp add: Cons.IH split: sum.split prod.split option.split)
  qed simp
  show "take_response (E\<lparr>le_chat := f\<rparr>) X response s = take_response E X response s"
    by (simp add: take_response_def calls Let_def split: sum.split)
qed

text \<open>What the requests of a run have in common: a property of the working history that compaction and a finished round
  keep holds for every history that is sent.\<close>

locale loop_guard =
  fixes E :: "'w loop_env" and X :: "'w tool_executor" and K :: "message list \<Rightarrow> rstr set \<Rightarrow> bool"
  assumes fitted: "K ms C \<Longrightarrow> enforce_context_budget E X start ms C b w = (t, ms', C', b', w') \<Longrightarrow> K ms' C'"
    and answered: "K (ru_working s) (ru_compacted s) \<Longrightarrow> take_response E X response s = RoundNext s' \<Longrightarrow> K (ru_working s') (ru_compacted s')"
begin

lemma next_round_guarded:
  assumes "loop_round E X S s = RoundNext s'" "K (ru_working s) (ru_compacted s)"
  shows "K (ru_working s') (ru_compacted s')"
proof -
  from assms(1) obtain ms C b b' w w' n response
    where fit: "enforce_context_budget E X (rn_start S) (ru_working s) (ru_compacted s) (ru_breaker s) (ru_world s) = (None, ms, C, b, w)"
      and taken: "take_response E X response \<lparr>ru_working = ms, ru_compacted = C, ru_breaker = b', ru_world = w'\<rparr> = RoundNext s'"
    by (rule loop_round_takes) simp_all
  from answered [OF _ taken] fitted [OF assms(2) fit] show ?thesis by simp
qed

lemma run_alike:
  assumes "K (ru_working s) (ru_compacted s)" "lb_contract (ru_breaker s) = c"
    and same: "\<And>ms C n w. K ms C \<Longrightarrow> (\<And>limit. max_context_chars (lc_budget c) = Some limit \<Longrightarrow> history_chars (le_render E) ms \<le> limit) \<Longrightarrow>
      f (request_of S ms n) w = le_chat E (request_of S ms n) w"
  shows "run_tool_loop (E\<lparr>le_chat := f\<rparr>) X S s = run_tool_loop E X S s"
  using assms(1,2)
proof (induction "rounds_left (ru_breaker s)" arbitrary: s rule: less_induct)
  case less
  obtain t ms C b w where fit: "enforce_context_budget E X (rn_start S) (ru_working s) (ru_compacted s) (ru_breaker s) (ru_world s) =
      (t, ms, C, b, w)" by (metis prod_cases5)
  have "history_chars (le_render E) ms \<le> limit" if "t = None" "max_context_chars (lc_budget c) = Some limit" for limit
    using enforce_spec(5) [OF fit, of limit] that less.prems(2) by (auto split: if_splits)
  then have "t = None \<Longrightarrow> f (request_of S ms n) w = le_chat E (request_of S ms n) w" for n w
    using same [OF fitted [OF less.prems(1) fit]] by blast
  then have round: "loop_round (E\<lparr>le_chat := f\<rparr>) X S s = loop_round E X S s"
    using fit by (auto simp: loop_round_def Let_def split: option.split sum.split prod.split)
  show ?case
  proof (cases "loop_round E X S s")
    case (RoundNext s1)
    have "run_tool_loop (E\<lparr>le_chat := f\<rparr>) X S s1 = run_tool_loop E X S s1"
      using less.hyps [OF loop_round_spends(2) [OF RoundNext] next_round_guarded [OF RoundNext less.prems(1)]]
        loop_round_spends(1) [OF RoundNext] less.prems(2) by simp
    with RoundNext round show ?thesis by (simp add: run_tool_loop.simps [of _ X S s])
  qed (use round in \<open>simp_all add: run_tool_loop.simps [of _ X S s]\<close>)
qed

end

interpretation any_history: loop_guard E X "\<lambda>_ _. True" for E X
  by unfold_locales simp_all

interpretation turn_history: loop_guard E X "in_phase AwaitingModel" for E X
  by unfold_locales (blast intro: enforce_in_phase take_response_in_phase(1))+

end
