(* ===== verification/Tool_Loop_Properties.thy ===== *)
theory Tool_Loop_Properties
  imports Tool_Loop_Budget
begin

text \<open>
  What the turns of an agent guarantee.  The operations of an agent form a machine whose invariant is the pairing of
  calls and results; the budget of a turn bounds what it asks of the model and of the tools.
\<close>

section \<open>The machine of an agent\<close>

datatype agent_op =
    OpChat rstr
  | OpChatWithTools rstr "tool_definition list"
  | OpChatCapped rstr "tool_definition list" nat nat
  | OpClearHistory

fun agent_step ::
    "'w loop_env \<Rightarrow> 'w tool_executor \<Rightarrow> agent \<times> 'w \<Rightarrow> agent_op \<Rightarrow> unit + (agent \<times> 'w)" where
  "agent_step E X (a, w) (OpChat user_message) = Inr (snd (chat E user_message a w))"
| "agent_step E X (a, w) (OpChatWithTools user_message tools) = Inr (snd (chat_with_tools E X user_message tools a w))"
| "agent_step E X (a, w) (OpChatCapped user_message tools rounds nanos) =
     Inr (snd (chat_with_tools_capped_timeout E X user_message tools rounds nanos a w))"
| "agent_step E X (a, w) OpClearHistory = Inr (clear_history a, w)"

definition agent_in_order :: "agent \<Rightarrow> bool" where
  "agent_in_order a \<longleftrightarrow> in_phase BetweenTurns (ag_history a) (ag_compacted_results a)"

lemma in_phase_text:
  "in_phase BetweenTurns ms C \<Longrightarrow> in_phase AwaitingModel (ms @ [text_message UserRole m]) C"
  "in_phase AwaitingModel ms C \<Longrightarrow> in_phase BetweenTurns (ms @ [text_message AssistantRole m]) C"
  by (auto simp: in_phase_def text_message_def)

lemma chat_in_order: "agent_in_order a \<Longrightarrow> agent_in_order (fst (snd (chat E m a w)))"
proof -
  assume "agent_in_order a"
  then have "in_phase BetweenTurns ((ag_history a @ [text_message UserRole m]) @ [text_message AssistantRole r]) (ag_compacted_results a)" for r
    unfolding agent_in_order_def by (intro in_phase_text)
  with \<open>agent_in_order a\<close> show ?thesis
    by (auto simp: chat_def agent_in_order_def split: prod.split option.split sum.split)
qed

text \<open>A capped turn: refused, ended without a reply, or ended with one.\<close>

definition turn_contract :: "nat \<Rightarrow> nat \<Rightarrow> agent \<Rightarrow> loop_contract" where
  "turn_contract rounds nanos a =
     (ag_loop_contract a)\<lparr>lc_budget := (lc_budget (ag_loop_contract a))\<lparr>max_rounds := rounds, wall_clock := nanos\<rparr>\<rparr>"

definition turn_settings :: "rstr \<Rightarrow> tool_definition list \<Rightarrow> agent \<Rightarrow> run_settings" where
  "turn_settings user_message tools a = \<lparr>rn_step_context = (ag_step_context a)\<lparr>hs_current_model := ag_model a\<rparr>,
     rn_system_prompt = ag_system_prompt a, rn_temperature = ag_temperature a, rn_max_tokens = ag_max_tokens a,
     rn_tools = tools, rn_start = length (ag_history a @ [text_message UserRole user_message])\<rparr>"

definition turn_start :: "rstr \<Rightarrow> nat \<Rightarrow> nat \<Rightarrow> agent \<Rightarrow> 'w \<Rightarrow> 'w run_state" where
  "turn_start user_message rounds nanos a w =
     \<lparr>ru_working = ag_history a @ [text_message UserRole user_message], ru_compacted = ag_compacted_results a,
      ru_breaker = breaker_new (turn_contract rounds nanos a), ru_world = w\<rparr>"

lemma capped_unfold:
  "chat_with_tools_capped_timeout E X user_message tools rounds nanos a w =
     (case loop_contract_validate (turn_contract rounds nanos a) of
        Inl e \<Rightarrow> (Inl (InvalidRequest (lit ''loop contract rejected: '' @ show_contract_error e)), a\<lparr>ag_last_loop_report := None\<rparr>, w)
      | Inr _ \<Rightarrow> (case run_tool_loop E X (turn_settings user_message tools a) (turn_start user_message rounds nanos a w) of
            (Inr reply, s) \<Rightarrow> (Inr reply,
              a\<lparr>ag_last_loop_report := Some (breaker_report (ru_breaker s) Completed (le_elapsed E (ru_world s))),
                ag_history := ru_working s, ag_compacted_results := ru_compacted s\<rparr>, ru_world s)
          | (Inl exit, s) \<Rightarrow> (case exit_report (le_alnum E) nanos exit of (ended, e) \<Rightarrow> (Inl e,
              a\<lparr>ag_last_loop_report := Some (breaker_report (ru_breaker s) ended (le_elapsed E (ru_world s)))\<rparr>,
              ru_world s))))"
  by (simp add: chat_with_tools_capped_timeout_def turn_contract_def turn_settings_def turn_start_def Let_def
      split: sum.split prod.split)

lemma capped_cases:
  assumes "chat_with_tools_capped_timeout E X user_message tools rounds nanos a w = (res, a', w')"
  obtains (refused) e where "loop_contract_validate (turn_contract rounds nanos a) = Inl e"
      "res = Inl (InvalidRequest (lit ''loop contract rejected: '' @ show_contract_error e))"
      "a' = a\<lparr>ag_last_loop_report := None\<rparr>" "w' = w"
    | (stopped) exit s ended e where "run_tool_loop E X (turn_settings user_message tools a) (turn_start user_message rounds nanos a w) = (Inl exit, s)"
      "exit_report (le_alnum E) nanos exit = (ended, e)" "res = Inl e" "w' = ru_world s"
      "a' = a\<lparr>ag_last_loop_report := Some (breaker_report (ru_breaker s) ended (le_elapsed E (ru_world s)))\<rparr>"
    | (replied) reply s where "run_tool_loop E X (turn_settings user_message tools a) (turn_start user_message rounds nanos a w) = (Inr reply, s)"
      "res = Inr reply" "w' = ru_world s"
      "a' = a\<lparr>ag_last_loop_report := Some (breaker_report (ru_breaker s) Completed (le_elapsed E (ru_world s))),
         ag_history := ru_working s, ag_compacted_results := ru_compacted s\<rparr>"
proof -
  let ?S = "turn_settings user_message tools a" and ?s = "turn_start user_message rounds nanos a w"
  obtain out s where run: "run_tool_loop E X ?S ?s = (out, s)" by fastforce
  show thesis
  proof (cases "loop_contract_validate (turn_contract rounds nanos a)")
    case (Inl e)
    with assms refused show ?thesis by (simp add: capped_unfold)
  next
    case valid: (Inr u)
    show ?thesis
    proof (cases out)
      case (Inl exit)
      obtain ended e where report: "exit_report (le_alnum E) nanos exit = (ended, e)" by fastforce
      with run valid assms have "res = Inl e" "w' = ru_world s"
        "a' = a\<lparr>ag_last_loop_report := Some (breaker_report (ru_breaker s) ended (le_elapsed E (ru_world s)))\<rparr>"
        by (auto simp: capped_unfold Inl)
      with run [unfolded Inl] report stopped show ?thesis by blast
    next
      case (Inr reply)
      with run valid assms replied show ?thesis by (auto simp: capped_unfold)
    qed
  qed
qed

lemma capped_in_order:
  assumes "agent_in_order a"
  shows "agent_in_order (fst (snd (chat_with_tools_capped_timeout E X m tools rounds nanos a w)))"
proof -
  obtain res a' w' where run: "chat_with_tools_capped_timeout E X m tools rounds nanos a w = (res, a', w')" by (metis prod_cases3)
  have "agent_in_order a'"
    using run
  proof (cases rule: capped_cases)
    case (replied reply s)
    have "in_phase AwaitingModel (ru_working (turn_start m rounds nanos a w)) (ru_compacted (turn_start m rounds nanos a w))"
      using assms in_phase_text(1) by (simp add: turn_start_def agent_in_order_def)
    from run_tool_loop_in_phase [OF replied(1) this] replied(4) show ?thesis by (simp add: agent_in_order_def)
  qed (use assms in \<open>simp_all add: agent_in_order_def\<close>)
  with run show ?thesis by simp
qed

interpretation agent_machine: invariant_machine "agent_step E X" "\<lambda>(a, w). agent_in_order a" for E X
proof
  fix op and s s' :: "agent \<times> 'a"
  assume "case s of (a, w) \<Rightarrow> agent_in_order a" "agent_step E X s op = Inr s'"
  moreover obtain a w where "s = (a, w)" by fastforce
  moreover have "agent_in_order (clear_history a)" by (simp add: agent_in_order_def clear_history_def in_phase_def)
  ultimately show "case s' of (a, w) \<Rightarrow> agent_in_order a"
    using chat_in_order [of a E _ w] capped_in_order [of a E X _ _ _ _ w]
    by (cases op) (auto simp: chat_with_tools_def chat_with_tools_capped_def case_prod_beta)
qed

lemma in_order_history:
  assumes "agent_in_order a" "h = ag_history a"
  shows "\<forall>i < length h. paired h i" "distinct (call_ids h)" "ag_compacted_results a \<subseteq> set (call_ids h)"
  using assms conversation_paired [of h BetweenTurns] by (simp_all add: agent_in_order_def in_phase_def)

section \<open>A concrete agent\<close>

text \<open>A model that asks for one tool in every turn, always under the same identifier, and a tool with fifty characters of output.\<close>

definition loop_demo_contract :: loop_contract where
  "loop_demo_contract = \<lparr>lc_name = [100], lc_budget = \<lparr>max_rounds = 4, wall_clock = 9, max_repeated_call_streak = None,
     max_same_error_streak = None, max_context_chars = Some 110, max_tool_calls = Some 3\<rparr>\<rparr>"

definition loop_demo_model :: "chat_request \<Rightarrow> nat \<Rightarrow> (agent_error + chat_response) option \<times> nat" where
  "loop_demo_model req n = (Some (Inr \<lparr>rs_content = lit ''ok'', rs_model = [], rs_input_tokens = 0, rs_output_tokens = 0,
     rs_stop_reason = (if even n then ToolUse else EndTurn),
     rs_tool_calls = (if even n then [\<lparr>tu_id = lit ''t'', tu_name = lit ''echo'', tu_input = JNull\<rparr>] else [])\<rparr>), Suc n)"

definition loop_demo_env :: "nat loop_env" where
  "loop_demo_env = \<lparr>le_alnum = (\<lambda>c. 97 \<le> c), le_render = (\<lambda>_. []), le_provider = lit ''p'', le_chat = loop_demo_model,
     le_elapsed = (\<lambda>n. n)\<rparr>"

definition loop_demo_executor :: "nat tool_executor" where
  "loop_demo_executor = \<lparr>ex_execute = (\<lambda>name input n. (Some \<lparr>cx_content = replicate 50 120, cx_is_error = False\<rparr>, n)),
     ex_wrap_stub = (\<lambda>stub n. (stub, n)), ex_note = (\<lambda>_. None)\<rparr>"

definition loop_demo_agent :: agent where
  "loop_demo_agent = (new_agent [] None None)\<lparr>ag_loop_contract := loop_demo_contract\<rparr>"

lemmas loop_demo_defs = loop_demo_contract_def loop_demo_model_def loop_demo_env_def loop_demo_executor_def loop_demo_agent_def

lemmas loop_run_defs = run_tool_loop.simps loop_round_def enforce_context_budget_def breaker_new_def history_chars_def message_chars_def
  text_message_def begin_round_def request_of_def take_response_def check_tool_calls_def rename_repeated_call_ids_def call_ids_def
  trim_def is_whitespace_def admit_call_def observe_call_def note_call_def note_outcome_def call_trip_def streak_reached_def end_round_def
  assistant_tool_use_def tool_results_message_def call_chars_def answer_chars_def widest_tool_input_chars_def tool_input_chars_def
  WIRE_FORMATS_def newest_results_def call_names_def framed_stub_def compaction_stub_def COMPACTION_STUB_MAX_TOOL_CHARS_def fresh_id_def
  numbered_id_def dec.simps observe_compaction_def lit_def Let_def

lemmas loop_turn_defs = chat_with_tools_def chat_with_tools_capped_def chat_with_tools_capped_timeout_def loop_contract_validate_def checks.simps new_agent_def attempt_def

section \<open>Properties\<close>

text \<open>C12: Whatever turns an agent takes, with any model, any tools, any budget and any failure, cut-off or clearing in
  between, in its history every message with tool calls is followed by the message with exactly their results,
  no result stands without its call, no two calls share an identifier, and only results of the
  history are marked as compacted.\<close>

theorem history_pairs_calls_and_results:
  assumes "serve (agent_step E X) ((new_agent default_model model prompt)\<lparr>ag_loop_contract := c\<rparr>, w) ops = (a, w')"
    and "h = ag_history a"
  shows "(\<forall>i < length h. paired h i) \<and> distinct (call_ids h) \<and> ag_compacted_results a \<subseteq> set (call_ids h)"
proof -
  have "agent_in_order ((new_agent default_model model prompt)\<lparr>ag_loop_contract := c\<rparr>)"
    by (simp add: agent_in_order_def new_agent_def in_phase_def Let_def)
  then have "agent_in_order a"
    using agent_machine.serve_inv [of "((new_agent default_model model prompt)\<lparr>ag_loop_contract := c\<rparr>, w)" E X ops] assms(1) by simp
  from in_order_history [OF this assms(2)] show ?thesis by blast
qed

theorem history_pairs_calls_and_results_witness:
  "\<exists>a w' h. serve (agent_step loop_demo_env loop_demo_executor) (loop_demo_agent, 0)
       [OpChatWithTools [1] [], OpChatWithTools [2] []] = (a, w') \<and> h = ag_history a \<and>
     length h = 8 \<and> call_ids h = [lit ''t'', lit ''t-2''] \<and> ag_compacted_results a = {lit ''t''} \<and>
     (\<forall>i < 8. paired h i) \<and> distinct (call_ids h)"
proof -
  let ?run = "serve (agent_step loop_demo_env loop_demo_executor) (loop_demo_agent, 0) [OpChatWithTools [1] [], OpChatWithTools [2] []]"
  obtain a w' where run: "?run = (a, w')" by fastforce
  have "(\<lambda>a. (call_ids (ag_history a), ag_compacted_results a, length (ag_history a))) (fst ?run) = ([[116], [116, 45, 50]], {[116]}, 8)"
    by (simp add: loop_demo_defs loop_run_defs loop_turn_defs)
  with run have "call_ids (ag_history a) = [lit ''t'', lit ''t-2'']" "ag_compacted_results a = {lit ''t''}" "length (ag_history a) = 8"
    by (simp_all add: lit_def)
  with run history_pairs_calls_and_results [OF run [unfolded loop_demo_agent_def] refl] show ?thesis by auto
qed

text \<open>C31: Compaction changes nothing but contents of tool results, each to a shorter one; it spares the results that this turn
  just produced; and it stops the turn exactly when the history is still larger than the budget, naming its size.\<close>

theorem context_budget_enforced:
  assumes "enforce_context_budget E X start ms C b w = (t, ms', C', b', w')"
    and "max_context_chars (lc_budget (lb_contract b)) = Some limit"
  shows "list_all2 message_shrinks ms ms' \<and> (\<forall>j. newest_results start ms = Some j \<longrightarrow> ms' ! j = ms ! j) \<and>
    t = (if history_chars (le_render E) ms' \<le> limit then None else Some (ContextBudget (history_chars (le_render E) ms') limit)) \<and>
    (history_chars (le_render E) ms \<le> limit \<longrightarrow> ms' = ms \<and> C' = C)"
proof -
  have "history_chars (le_render E) ms \<le> limit \<Longrightarrow> ms' = ms \<and> C' = C"
    using assms by (auto simp: enforce_context_budget_def Let_def)
  with enforce_spec(1,2,5) [OF assms(1)] assms(2) show ?thesis by auto
qed

theorem context_budget_enforced_witness:
  "\<exists>t ms' C' b' w'. enforce_context_budget loop_demo_env loop_demo_executor 2
       [tool_results_message [\<lparr>ta_use_id = [1], ta_content = replicate 90 120, ta_is_error = False\<rparr>],
        text_message UserRole (replicate 70 120)] {} (breaker_new loop_demo_contract) 0 = (t, ms', C', b', w') \<and>
     t = None \<and> history_chars (le_render loop_demo_env) ms' \<le> 110"
proof -
  let ?ms = "[tool_results_message [\<lparr>ta_use_id = [1], ta_content = replicate 90 120, ta_is_error = False\<rparr>],
      text_message UserRole (replicate 70 120)]"
  obtain t ms' C' b' w' where run: "enforce_context_budget loop_demo_env loop_demo_executor 2 ?ms {}
      (breaker_new loop_demo_contract) 0 = (t, ms', C', b', w')" by (metis prod_cases5)
  have "max_context_chars (lc_budget (lb_contract (breaker_new loop_demo_contract))) = Some 110"
    by (simp add: breaker_new_def loop_demo_contract_def)
  note spec = context_budget_enforced [OF run this]
  have "t = None" using run by (simp add: loop_demo_defs loop_run_defs split: if_splits)
  with spec run show ?thesis by (auto split: if_splits)
qed

text \<open>C26: The model is never sent a conversation larger than the context budget: a turn goes the same way with any other
  model that answers requests within the budget in the same way.\<close>

theorem no_oversized_request:
  assumes "max_context_chars (lc_budget (ag_loop_contract a)) = Some limit"
    and "\<And>req w. history_chars (le_render E) (request_conversation (ag_system_prompt a) req) \<le> limit \<Longrightarrow> other req w = le_chat E req w"
  shows "chat_with_tools_capped_timeout (E\<lparr>le_chat := other\<rparr>) X user_message tools rounds nanos a w =
    chat_with_tools_capped_timeout E X user_message tools rounds nanos a w"
proof -
  let ?S = "turn_settings user_message tools a" and ?s = "turn_start user_message rounds nanos a w"
  have "run_tool_loop (E\<lparr>le_chat := other\<rparr>) X ?S ?s = run_tool_loop E X ?S ?s"
  proof (rule any_history.run_alike [OF _ refl])
    show "other (request_of ?S ms n) w = le_chat E (request_of ?S ms n) w"
      if "\<And>l. max_context_chars (lc_budget (lb_contract (ru_breaker ?s))) = Some l \<Longrightarrow> history_chars (le_render E) ms \<le> l" for ms n w
      using assms(2) [of "request_of ?S ms n" w] that [of limit] assms(1) request_conversation_of [of ?S ms n]
      by (simp add: turn_start_def turn_contract_def breaker_new_def turn_settings_def)
  qed simp
  then show ?thesis
    by (simp add: capped_unfold split: sum.split prod.split)
qed

text \<open>A model that answers every large request with an error goes unnoticed.\<close>

theorem no_oversized_request_witness:
  "chat_with_tools_capped_timeout (loop_demo_env\<lparr>le_chat := (\<lambda>req n. if history_chars (\<lambda>_. []) (rq_messages req) \<le> 110
        then loop_demo_model req n else (Some (Inl RateLimited), n))\<rparr>) loop_demo_executor [1] [] 4 9 loop_demo_agent 0 =
     chat_with_tools_capped_timeout loop_demo_env loop_demo_executor [1] [] 4 9 loop_demo_agent 0"
  by (rule no_oversized_request [where limit = 110])
    (simp_all add: loop_demo_defs new_agent_def request_conversation_def)

text \<open>C23: The report of a turn counts what really happened, and that stays within the budget: its rounds are the requests
  to the model, its finished and interrupted calls are the tools that were started, and a turn whose
  contract is refused asks nothing of the model or the tools.\<close>

theorem turn_stays_within_budget:
  assumes "chat_with_tools_capped_timeout (count_env E) (count_executor X) user_message tools rounds nanos a (w, 0, 0) =
      (res, a', w', requests, calls)"
  shows "requests \<le> rounds \<and> (\<forall>limit. max_tool_calls (lc_budget (ag_loop_contract a)) = Some limit \<longrightarrow> calls \<le> limit) \<and>
    (case ag_last_loop_report a' of
       None \<Rightarrow> requests = 0 \<and> calls = 0 \<and> isl res
     | Some r \<Rightarrow> lr_rounds_used r = requests \<and> lr_tool_calls r + lr_tool_calls_interrupted r = calls \<and>
         (lr_termination r = Completed \<longleftrightarrow> \<not> isl res))"
proof -
  let ?c = "turn_contract rounds nanos a" and ?s = "turn_start user_message rounds nanos a (w, 0, 0)"
  have start: "counted_in ?c (ru_breaker ?s) (ru_world ?s)"
    using within_budget_new [of ?c] by (simp add: turn_start_def counted_in_def breaker_new_def)
  have budget: "max_rounds (lc_budget ?c) = rounds" "max_tool_calls (lc_budget ?c) = max_tool_calls (lc_budget (ag_loop_contract a))"
    by (simp_all add: turn_contract_def)
  have ended: "lr_termination (breaker_report b end' elapsed) = end'" for b end' elapsed by (simp add: breaker_report_def)
  show ?thesis
    using assms
  proof (cases rule: capped_cases)
    case (refused e)
    then show ?thesis by simp
  next
    case (stopped exit s ended e)
    have "ended \<noteq> Completed" using stopped(2) by (cases exit) auto
    with counted.run_tool_loop_keeps [OF stopped(1) start] stopped(3-5) budget show ?thesis
      by (auto simp: counted_in_def within_budget_def breaker_report_def)
  next
    case (replied reply s)
    with counted.run_tool_loop_keeps [OF replied(1) start] budget show ?thesis
      by (auto simp: counted_in_def within_budget_def breaker_report_def)
  qed
qed

theorem turn_stays_within_budget_witness:
  "\<exists>res a' w' requests calls. chat_with_tools_capped_timeout (count_env loop_demo_env) (count_executor loop_demo_executor)
       [1] [] 4 9 loop_demo_agent (0, 0, 0) = (res, a', w', requests, calls) \<and>
     requests = 2 \<and> calls = 1 \<and> (\<exists>r. ag_last_loop_report a' = Some r \<and> lr_rounds_used r = 2 \<and> lr_termination r = Completed)"
proof -
  let ?run = "chat_with_tools_capped_timeout (count_env loop_demo_env) (count_executor loop_demo_executor) [1] [] 4 9 loop_demo_agent (0, 0, 0)"
  obtain res a' w' requests calls where run: "?run = (res, a', w', requests, calls)" by (metis prod_cases5)
  have "snd (snd (snd ?run)) = (2, 1) \<and> \<not> isl (fst ?run) \<and> ag_last_loop_report (fst (snd ?run)) \<noteq> None"
    by (simp add: loop_demo_defs loop_run_defs loop_turn_defs count_env_def count_executor_def)
  with run turn_stays_within_budget [OF run] show ?thesis by (auto split: option.splits)
qed

text \<open>A session of the ion REPL that has seen suspicious output still knows it at the end of every turn, whatever the model
  asked for and wherever the clock cut the turn off, so a turn cannot talk its way out of the stricter confirmation.\<close>

lemma turn_keeps_suspicion:
  assumes "turn E U registry user_message a w = (res, a', w')" "is_untrusted_seen (iw_session w)"
  shows "is_untrusted_seen (iw_session w')"
  using assms(1) unfolding turn_def chat_with_tools_def chat_with_tools_capped_def
proof (cases rule: capped_cases)
  case (stopped exit s ended e)
  with suspicion.run_tool_loop_keeps [OF stopped(1)] assms(2) show ?thesis by (simp add: turn_start_def)
next
  case (replied reply s)
  with suspicion.run_tool_loop_keeps [OF replied(1)] assms(2) show ?thesis by (simp add: turn_start_def)
qed (use assms(2) in simp)

end
