(* ===== verification/Spec2Isabelle.thy ===== *)
theory Spec2Isabelle
  imports Actor_Provenance Loop_Contract Role_Assignment Governed_Properties Registration_Properties Governed_Wiring
    Evidence_Properties Memory_Properties Daemon_Example Config_Example Settlement Handoff_Example
    Delegation_Properties Ion_Gate_Properties Tool_Loop_Properties
begin

text \<open>
  A verification development for IMPULSE, a daemon through which coding agents work on a repository under
  an operator's control (paths below are relative to \<open>src/impulse-rs/\<close>).

  \<^bold>\<open>The program.\<close>  A governed task is registered, a worker claims to have finished it, the daemon verifies
  the claim by running fixed commands, a Supervisor model reviews it, the operator decides, and an accepted
  result may be promoted onto the canonical branch and become a record of the project's memory.  The parts
  and how they meet:

  \<^item> the task contract and its state machine, a ledger of tasks with idempotency receipts, and the replay that
    re-checks every history at startup;
  \<^item> the memory ledger: candidates derived from accepted runs, decided by the operator, promoted into an
    append-only log whose entries are chained by digests, and projected as text;
  \<^item> the daemon: connections with their provenance, requests admitted by it, producers that look at Git,
    Cargo and the Supervisor, and a journal that reserves a slot for each side effect so that a crash cannot
    lose or repeat one silently;
  \<^item> the pin of the shared Git configuration that every staged producer checks before it runs Git;
  \<^item> the agent: a tool loop between a model and tools under a budget, and the ion REPL around it, which asks the
    human before a tool changes state, confines file tools to a sandbox and marks tool output as untrusted;
  \<^item> beside these, the delegation tracker, the guardrail rules, role assignment, basis sets and settlement
    records, and the findings handoff between agents.

  \<^bold>\<open>Shared theories.\<close>  \<open>Prelude\<close> has error results (\<open>and_then\<close>, \<open>ensure\<close>, \<open>checks\<close>), \<open>u64\<close> arithmetic with its
  checks, and the contracts of fallible machines as locales (\<open>invariant_machine\<close>, \<open>append_only_machine\<close>,
  \<open>frozen_machine\<close>, \<open>monotone_machine\<close>), each interpreted on steps of the model.  \<open>Rust_Text\<close> has strings as
  lists of scalar values with their UTF-8 length, \<open>trim\<close>, \<open>lines\<close> and Unix paths by components, \<open>Utf8_Decode\<close>
  the decoder and its round trip, \<open>Ordered_Map\<close> the \<open>BTreeMap\<close> with its contract as a locale.

  \<^bold>\<open>Governed tasks.\<close>  \<open>Loop_Contract\<close> (\<open>src/loop_contract.rs\<close>), \<open>Role_Assignment\<close> and \<open>Governed_Contract\<close>
  (\<open>impulse-ops/src/role_assignment.rs\<close>, \<open>governed_task.rs\<close>) hold the data and its validation.
  \<open>Governed_Mutation\<close> is the transition function of \<open>src/state/governed_task.rs\<close>, one definition per mutation;
  \<open>Governed_Transition\<close> states the lifecycle declaratively and shows that the two agree on every branch;
  \<open>Governed_Run\<close>, \<open>Governed_Lifecycle\<close> and \<open>Event_Details\<close> carry the invariants of a run through any sequence
  of requests.  \<open>Governed_History\<close> is the replay, \<open>Governed_Replay\<close> and \<open>Governed_Reload\<close> show that it accepts
  what the transition function writes.  \<open>Governed_Ledger\<close> is the ledger with registration, mutation, fencing
  and load; \<open>Ledger_Invariants\<close>, \<open>Ledger_Properties\<close> and \<open>Ledger_Reload\<close> show what it guarantees.
  \<open>Governed_Wiring\<close> has the predicates surfaces use; \<open>Governed_Properties\<close>, \<open>Registration_Properties\<close> and
  \<open>Evidence_Properties\<close> hold the properties, \<open>Governed_Example\<close> and \<open>Ledger_Example\<close> a run that goes all the way.

  \<^bold>\<open>Memory.\<close>  \<open>Memory_Candidate\<close> (records and validation), \<open>Memory_Log\<close> (chain, append, projection) and
  \<open>Memory_Ledger\<close> (derivation, decisions, recovery, the hand-over after a mutation) model
  \<open>impulse-ops/src/memory_candidate.rs\<close>, \<open>memory_wiring.rs\<close> and \<open>src/state/memory_candidate.rs\<close>, \<open>memory_record.rs\<close>.
  \<open>Memory_Machine\<close> runs them as steps in which every lock, append and write may fail;
  \<open>Memory_Log_Properties\<close>, \<open>Memory_Derivation\<close> and \<open>Memory_Properties\<close> hold the results.

  \<^bold>\<open>The daemon.\<close>  \<open>Actor_Provenance\<close> (\<open>src/daemon/actor_provenance.rs\<close>, \<open>impulse-ops/src/operator_capability.rs\<close>),
  \<open>Producer_Reservation\<close> (\<open>src/state/producer_reservation.rs\<close>), \<open>Governed_Producers\<close> (\<open>src/governed_producers.rs\<close>),
  \<open>Input_Validation\<close> (\<open>src/validate.rs\<close>) and \<open>Daemon_Governed\<close> (\<open>src/daemon/governed_wiring.rs\<close>, the governed
  part of \<open>handlers.rs\<close> and the connection loop of \<open>mod.rs\<close>).  \<open>Daemon_Machine\<close> says what one request can do,
  \<open>Daemon_Properties\<close>, \<open>Daemon_Recovery\<close> and \<open>Reservation_Properties\<close> what follows, \<open>Daemon_Example\<close> has the
  concrete surroundings in which each of these properties is applied.

  \<^bold>\<open>The configuration pin.\<close>  \<open>Config_Chain\<close> is the part of \<open>src/governed_producers.rs\<close> that finds the shared Git
  configuration, parses its include directives, walks the include chain and digests it, as the loop the code
  has; \<open>Config_Pin\<close> shows that the walk returns, what it covers, that an unchanged pin means unchanged files,
  and one file it misses; \<open>Config_Example\<close> applies these.

  \<^bold>\<open>Basis, settlement, handoff.\<close>  \<open>Basis_Set\<close> (\<open>src/basis.rs\<close>) and \<open>Settlement\<close> (\<open>src/settlement.rs\<close>);
  \<open>Handoff_Types\<close>, \<open>Handoff_Gate\<close> and \<open>Handoff_Store\<close> (\<open>src/handoff/\<close>), with \<open>Handoff_Machine\<close> for sequences of
  calls, \<open>Handoff_Properties\<close> and \<open>Handoff_Example\<close>.

  \<^bold>\<open>The agent.\<close>  \<open>Step_Model\<close> (\<open>impulse-step-model/src/lib.rs\<close>, \<open>src/agent/step_model.rs\<close>) picks the model of a step.
  \<open>Tool_Loop\<close> (\<open>src/llm_backends/mod.rs\<close>, with the sizes of \<open>anthropic.rs\<close> and the errors of \<open>src/error.rs\<close>) has an agent
  with its history, the rounds of a turn, compaction and the renaming of call identifiers, and the turn of the
  REPL.  \<open>Tool_Loop_Machine\<close> reads a history as an automaton, which gives the pairing of calls and results;
  \<open>Tool_Loop_Budget\<close> states as the locale \<open>loop_world\<close> what a whole run keeps when each single interaction keeps it, with
  two instances, a count of requests and calls and the suspicion of a session; \<open>Tool_Loop_Properties\<close> holds the results.

  \<^bold>\<open>Tools and confirmation.\<close>  \<open>Guardrail\<close> (\<open>src/guardrail/\<close>) is the rule engine with its built-in rules, \<open>Tool_Sandbox\<close>
  (\<open>src/tooling/\<close>) the path checks, the registry and the file tools, \<open>Ion_Gate\<close> (\<open>src/ion_repl/chat.rs\<close>, \<open>mod.rs\<close>, \<open>tools.rs\<close>,
  \<open>tool_bridge.rs\<close>) the session: grants, verdicts, the prompt, file versions, the scan and the envelope of output.
  \<open>Ion_Gate_Machine\<close> carries the session through any sequence of calls, \<open>Sandbox_Properties\<close> and
  \<open>Ion_Gate_Properties\<close> hold the results, among them a grant the warning misses.

  \<^bold>\<open>Delegation.\<close>  \<open>Delegation_Tracker\<close> (\<open>src/delegation/\<close>) is the tracker with its limits and the detector of delegation
  requests; \<open>Delegation_Machine\<close> has its invariant and, as the locale \<open>counted_machine\<close>, what holds until its counter wraps;
  \<open>Delegation_Properties\<close> holds the results.

  \<^bold>\<open>State, errors, inputs.\<close>  A struct is a record, an enum a datatype, a map an ordered association list.  Every
  refusal is a value (\<open>Inl\<close>) with the text of the source where a caller sees it.  An operation that can fail
  after it changed something returns the result and the state it leaves.  \<open>u64\<close> and \<open>usize\<close> are naturals with
  the checks the source makes written out; a signed integer is an \<open>int\<close>.  Code outside the repository is a field
  of an environment record (SHA-256, \<open>chrono\<close>, \<open>serde\<close>, the Unicode tables), and theorems assume of it what they
  name, such as that two given byte streams do not collide.  The clock, UUID draws, the outcome of every lock,
  read and write, and what Git, Cargo and the Supervisor answer are inputs of the operation that uses them;
  theorems hold for all of them.

  \<^bold>\<open>Bounds.\<close>  Limits are the constants of the source.  Functions are total; the one loop whose end is not
  obvious, the include walk, is kept as \<open>while_option\<close> and shown to return, because each round removes a
  path from its queue or adds one of at most 64 visited files.  The tool loop ends because every round spends
  one of the rounds of its contract; the search for a free call identifier, unbounded in the source, is bounded by
  the number of taken ones plus one, and the free one it finds is shown to be the first.

  \<^bold>\<open>Not modelled.\<close>  Concurrency below a request: the daemon holds a task's lock for a whole request, so a request
  is one step, and the lock files themselves are outcomes.  File modes, temporary files and renames inside an
  atomic write.  Starting, bounding and killing processes, \<open>bash_exec\<close> and the other tools of the REPL among them.
  JSON text: values are structured, and serialization is a parameter where its bytes matter.  The migrations of
  old handoff ledgers.  The HTTP requests of the model providers and how they render a conversation.  The blackboard,
  whose operations are SQL statements of an external engine, retrieval, token tracking, stewardship, injection and
  context lifecycle, the other request groups of the daemon, and the desktop, terminal and web surfaces.
\<close>

end
